(* ===== verification/JsValue.thy ===== *)
theory JsValue
  imports Prelude
begin

text \<open>
  The JavaScript values the front end computes with, the operators it applies to them
  (property access, truthiness, \<open>??\<close>, \<open>String(v)\<close>, object spread), the errors it throws
  and catches, and the structural types of TypeScript as executable predicates on values.
  The numbers the modelled code computes with are integers (counts, page numbers, slots,
  milliseconds). Its payloads also carry fractional ones (scores, prices), which that code
  passes on and never computes with: such a number is represented by the text it prints as.
\<close>

section \<open>Values and errors\<close>

datatype jsval =
    JUndef
  | JNull
  | JBool bool
  | JNum int
  | JFloat string
  | JStr string
  | JArr "jsval list"
  | JObj "(string \<times> jsval) list"

text \<open>
  \<open>JsError m\<close> is \<open>new Error(m)\<close>, \<open>TypeErr m\<close> the \<open>TypeError\<close> of the language, and
  \<open>AxiosErr status url m\<close> the rejection of the HTTP client: the response status where there
  was a response, the \<open>config.url\<close> where there was one, and its message.
\<close>

datatype js_error =
    JsError string
  | TypeErr string
  | AxiosErr "nat option" "string option" string

fun err_message :: "js_error \<Rightarrow> string" where
  "err_message (JsError m) = m"
| "err_message (TypeErr m) = m"
| "err_message (AxiosErr st u m) = m"

section \<open>Operators\<close>

fun truthy :: "jsval \<Rightarrow> bool" where
  "truthy JUndef = False"
| "truthy JNull = False"
| "truthy (JBool b) = b"
| "truthy (JNum n) = (n \<noteq> 0)"
| "truthy (JFloat t) = True"
| "truthy (JStr s) = (s \<noteq> [])"
| "truthy (JArr xs) = True"
| "truthy (JObj kvs) = True"

definition nullish :: "jsval \<Rightarrow> bool" where
  "nullish v \<longleftrightarrow> v = JUndef \<or> v = JNull"

text \<open>\<open>a ?? b\<close> and \<open>a || b\<close>.\<close>

definition coalesce :: "jsval \<Rightarrow> jsval \<Rightarrow> jsval" where
  "coalesce a b = (if nullish a then b else a)"

definition js_or :: "jsval \<Rightarrow> jsval \<Rightarrow> jsval" where
  "js_or a b = (if truthy a then a else b)"

definition obj_get :: "(string \<times> jsval) list \<Rightarrow> string \<Rightarrow> jsval" where
  "obj_get kvs k = (case map_of kvs k of None \<Rightarrow> JUndef | Some v \<Rightarrow> v)"

text \<open>
  \<open>v.k\<close>: reading a property of \<open>undefined\<close> or \<open>null\<close> throws; a property no object of the
  modelled kind has is \<open>undefined\<close>.
\<close>

fun js_get :: "jsval \<Rightarrow> string \<Rightarrow> js_error + jsval" where
  "js_get JUndef k = Inl (TypeErr (''Cannot read properties of undefined (reading '' @ k @ '')''))"
| "js_get JNull k = Inl (TypeErr (''Cannot read properties of null (reading '' @ k @ '')''))"
| "js_get (JObj kvs) k = Inr (obj_get kvs k)"
| "js_get (JArr xs) k = Inr (if k = ''length'' then JNum (int (length xs)) else JUndef)"
| "js_get (JStr s) k = Inr (if k = ''length'' then JNum (int (length s)) else JUndef)"
| "js_get (JBool b) k = Inr JUndef"
| "js_get (JNum n) k = Inr JUndef"
| "js_get (JFloat t) k = Inr JUndef"

text \<open>\<open>v?.k\<close>.\<close>

definition opt_get :: "jsval \<Rightarrow> string \<Rightarrow> jsval" where
  "opt_get v k = (case js_get v k of Inl e \<Rightarrow> JUndef | Inr w \<Rightarrow> w)"

text \<open>\<open>String(v)\<close>; an array joins its elements with commas, leaving out the nullish ones.\<close>

fun to_str :: "jsval \<Rightarrow> string" where
  "to_str JUndef = ''undefined''"
| "to_str JNull = ''null''"
| "to_str (JBool b) = (if b then ''true'' else ''false'')"
| "to_str (JNum n) = show_int n"
| "to_str (JFloat t) = t"
| "to_str (JStr s) = s"
| "to_str (JArr xs) = join_with '','' (map (\<lambda>x. if x = JUndef \<or> x = JNull then '''' else to_str x) xs)"
| "to_str (JObj kvs) = ''[object Object]''"

text \<open>\<open>{...a, ...b}\<close> and \<open>{...a, [k]: v}\<close> on the property lists.\<close>

fun obj_set :: "(string \<times> jsval) list \<Rightarrow> string \<Rightarrow> jsval \<Rightarrow> (string \<times> jsval) list" where
  "obj_set [] k v = [(k, v)]"
| "obj_set ((k', w) # kvs) k v = (if k' = k then (k, v) # kvs else (k', w) # obj_set kvs k v)"

fun obj_spread :: "(string \<times> jsval) list \<Rightarrow> (string \<times> jsval) list \<Rightarrow> (string \<times> jsval) list" where
  "obj_spread a [] = a"
| "obj_spread a ((k, v) # b) = obj_spread (obj_set a k v) b"

definition is_arr :: "jsval \<Rightarrow> bool" where
  "is_arr v = (case v of JArr xs \<Rightarrow> True | _ \<Rightarrow> False)"

section \<open>Facts about the operators\<close>

lemma map_of_obj_set: "map_of (obj_set kvs k v) = (map_of kvs)(k \<mapsto> v)"
  by (induction kvs k v rule: obj_set.induct) (auto simp: fun_eq_iff)

lemma obj_get_set [simp]: "obj_get (obj_set kvs k v) k' = (if k' = k then v else obj_get kvs k')"
  by (simp add: obj_get_def map_of_obj_set)

lemma map_of_obj_spread:
  "distinct (map fst b) \<Longrightarrow> map_of (obj_spread a b) = map_of a ++ map_of b"
proof (induction a b rule: obj_spread.induct)
  case (1 a)
  then show ?case by simp
next
  case (2 a k v b)
  then have "k \<notin> dom (map_of b)" by (simp add: dom_map_of_conv_image_fst)
  with 2 show ?case
    by (auto simp: map_of_obj_set fun_eq_iff map_add_def dom_def split: option.splits)
qed

lemma keys_obj_set: "set (map fst (obj_set kvs k v)) = insert k (set (map fst kvs))"
  by (induction kvs k v rule: obj_set.induct) auto

lemma distinct_obj_set: "distinct (map fst kvs) \<Longrightarrow> distinct (map fst (obj_set kvs k v))"
  by (induction kvs k v rule: obj_set.induct) (auto simp: keys_obj_set simp del: set_map)

lemma opt_get_simps [simp]:
  "opt_get JUndef k = JUndef" "opt_get JNull k = JUndef"
  "opt_get (JObj kvs) k = obj_get kvs k" "opt_get (JBool b) k = JUndef"
  "opt_get (JNum n) k = JUndef" "opt_get (JFloat t) k = JUndef"
  by (simp_all add: opt_get_def)

lemma obj_get_simps [simp]:
  "obj_get [] k = JUndef"
  "obj_get ((k', v) # kvs) k = (if k = k' then v else obj_get kvs k)"
  by (simp_all add: obj_get_def)

lemma truthy_not_nullish: "truthy v \<Longrightarrow> \<not> nullish v"
  by (cases v) (auto simp: nullish_def)

lemma truthy_get: "truthy v \<Longrightarrow> js_get v k = Inr (opt_get v k)"
  by (cases v) (auto simp: opt_get_def)

lemma is_arr_simps [simp]:
  "is_arr (JArr xs)" "\<not> is_arr JUndef" "\<not> is_arr JNull" "\<not> is_arr (JObj kvs)"
  "\<not> is_arr (JStr s)" "\<not> is_arr (JNum n)" "\<not> is_arr (JFloat t)" "\<not> is_arr (JBool b)"
  by (simp_all add: is_arr_def)

section \<open>Structural types\<close>

text \<open>
  An \<open>interface\<close> or type expression of the sources is a value of \<open>ty\<close>; \<open>conforms t v\<close> is
  the structural check \<open>v : t\<close>. The fields of an object type carry a flag for \<open>?\<close>.
\<close>

datatype ty =
    TUnknown
  | TVoid
  | TString
  | TNumber
  | TBoolean
  | TNull
  | TLits "string list"
  | TArray ty
  | TRecord ty
  | TUnion ty ty
  | TInter ty ty
  | TObject "(string \<times> bool \<times> ty) list"

abbreviation req :: "string \<Rightarrow> ty \<Rightarrow> string \<times> bool \<times> ty" where
  "req k t \<equiv> (k, False, t)"

abbreviation opt :: "string \<Rightarrow> ty \<Rightarrow> string \<times> bool \<times> ty" where
  "opt k t \<equiv> (k, True, t)"

fun conforms :: "ty \<Rightarrow> jsval \<Rightarrow> bool"
  and conforms_fields :: "(string \<times> bool \<times> ty) list \<Rightarrow> (string \<times> jsval) list \<Rightarrow> bool"
where
  "conforms TUnknown v = True"
| "conforms TVoid v = (v = JUndef)"
| "conforms TString v = (case v of JStr s \<Rightarrow> True | _ \<Rightarrow> False)"
| "conforms TNumber v = (case v of JNum n \<Rightarrow> True | JFloat t \<Rightarrow> True | _ \<Rightarrow> False)"
| "conforms TBoolean v = (case v of JBool b \<Rightarrow> True | _ \<Rightarrow> False)"
| "conforms TNull v = (v = JNull)"
| "conforms (TLits ls) v = (case v of JStr s \<Rightarrow> s \<in> set ls | _ \<Rightarrow> False)"
| "conforms (TArray t) v = (case v of JArr xs \<Rightarrow> (\<forall>x \<in> set xs. conforms t x) | _ \<Rightarrow> False)"
| "conforms (TRecord t) v = (case v of JObj kvs \<Rightarrow> (\<forall>p \<in> set kvs. conforms t (snd p)) | _ \<Rightarrow> False)"
| "conforms (TUnion a b) v = (conforms a v \<or> conforms b v)"
| "conforms (TInter a b) v = (conforms a v \<and> conforms b v)"
| "conforms (TObject fs) v = (case v of JObj kvs \<Rightarrow> conforms_fields fs kvs | _ \<Rightarrow> False)"
| "conforms_fields [] kvs = True"
| "conforms_fields ((k, optional, t) # fs) kvs =
     ((if optional \<and> obj_get kvs k = JUndef then True else conforms t (obj_get kvs k))
      \<and> conforms_fields fs kvs)"

lemma conforms_arrayD: "conforms (TArray t) v \<Longrightarrow> is_arr v"
  by (auto split: jsval.splits)

lemma conforms_objectE:
  assumes "conforms (TObject fs) v"
  obtains kvs where "v = JObj kvs" and "conforms_fields fs kvs"
  using assms by (auto split: jsval.splits)

lemma conforms_fields_mem:
  "conforms_fields fs kvs \<Longrightarrow> (k, optional, t) \<in> set fs \<Longrightarrow>
    optional \<and> obj_get kvs k = JUndef \<or> conforms t (obj_get kvs k)"
  by (induction fs) (auto split: if_splits)

text \<open>A value as the child of an element.\<close>

definition shown_text :: "jsval \<Rightarrow> string" where
  "shown_text v = (case v of JUndef \<Rightarrow> [] | JNull \<Rightarrow> [] | JBool b \<Rightarrow> [] | _ \<Rightarrow> to_str v)"

text \<open>The list inside an answer, of a declared list type.\<close>

definition items_of :: "jsval \<Rightarrow> jsval list" where
  "items_of v = (case v of JArr xs \<Rightarrow> xs | _ \<Rightarrow> [])"

text \<open>\<open>x.id === i\<close>.\<close>

definition has_id :: "string \<Rightarrow> jsval \<Rightarrow> bool" where
  "has_id i v \<longleftrightarrow> opt_get v ''id'' = JStr i"

text \<open>The identifier of a row, which the types declare a text.\<close>

definition row_id :: "jsval \<Rightarrow> string" where
  "row_id v = to_str (opt_get v ''id'')"

lemma js_get_present: "\<not> nullish d \<Longrightarrow> js_get d k = Inr (opt_get d k)"
  by (cases d) (auto simp: nullish_def opt_get_def)

lemma js_get_absent: "nullish d \<Longrightarrow> \<exists>e. js_get d k = Inl e"
  by (auto simp: nullish_def)

end
