(* ===== verification/Json.thy ===== *)
theory Json
  imports JsValue
begin

text \<open>
  \<open>JSON.stringify\<close> and \<open>JSON.parse\<close> of the language's library, as far as the front end uses
  them: it keeps the session's user and the saved filters as JSON text in web storage. Strings
  are sequences of code units below 256 and numbers are integers (the text of a
  fractional number is printed, and not read back); the parser is a fuelled
  recursive descent whose fuel is a bound in the length of the text (\<open>parse_fuel\<close> below).
  The main result is the round trip: printing a value without \<open>undefined\<close> in it and reading
  the text back gives the value.
\<close>

section \<open>Printing\<close>

definition hex_digit :: "nat \<Rightarrow> char" where
  "hex_digit d = (if d < 10 then digit_char d else char_of (87 + d))"

definition hex_val :: "char \<Rightarrow> nat option" where
  "hex_val c =
     (if is_digit c then Some (digit_val c)
      else if 97 \<le> char_code c \<and> char_code c \<le> 102 then Some (char_code c - 87)
      else if 65 \<le> char_code c \<and> char_code c \<le> 70 then Some (char_code c - 55)
      else None)"

definition backslash :: char where
  "backslash = CHR 0x5C"

definition dquote :: char where
  "dquote = CHR 0x22"

definition esc_char :: "char \<Rightarrow> string" where
  "esc_char c =
     (let n = char_code c in
      if n = 34 then [backslash, dquote]
      else if n = 92 then [backslash, backslash]
      else if n = 8 then [backslash, CHR ''b'']
      else if n = 9 then [backslash, CHR ''t'']
      else if n = 10 then [backslash, CHR ''n'']
      else if n = 12 then [backslash, CHR ''f'']
      else if n = 13 then [backslash, CHR ''r'']
      else if n < 32 then [backslash, CHR ''u'', CHR ''0'', CHR ''0'', hex_digit (n div 16), hex_digit (n mod 16)]
      else [c])"

definition json_quote :: "string \<Rightarrow> string" where
  "json_quote s = dquote # concat (map esc_char s) @ [dquote]"

fun json_text :: "jsval \<Rightarrow> string"
  and json_elems :: "jsval list \<Rightarrow> string list"
  and json_members :: "(string \<times> jsval) list \<Rightarrow> string list"
where
  "json_text JUndef = ''null''"
| "json_text JNull = ''null''"
| "json_text (JBool b) = (if b then ''true'' else ''false'')"
| "json_text (JNum n) = show_int n"
| "json_text (JFloat t) = t"
| "json_text (JStr s) = json_quote s"
| "json_text (JArr xs) = CHR ''['' # join_with '','' (json_elems xs) @ '']''"
| "json_text (JObj kvs) = CHR ''{'' # join_with '','' (json_members kvs) @ ''}''"
| "json_elems [] = []"
| "json_elems (x # xs) = json_text x # json_elems xs"
| "json_members [] = []"
| "json_members ((k, v) # kvs) =
     (if v = JUndef then json_members kvs
      else (json_quote k @ '':'' @ json_text v) # json_members kvs)"

text \<open>\<open>JSON.stringify(undefined)\<close> is \<open>undefined\<close>, not a text.\<close>

definition js_stringify :: "jsval \<Rightarrow> jsval" where
  "js_stringify v = (if v = JUndef then JUndef else JStr (json_text v))"

section \<open>Parsing\<close>

definition json_ws :: "char \<Rightarrow> bool" where
  "json_ws c \<longleftrightarrow> char_code c \<in> {9, 10, 13, 32}"

abbreviation skip_ws :: "string \<Rightarrow> string" where
  "skip_ws \<equiv> dropWhile json_ws"

definition unesc :: "char \<Rightarrow> char option" where
  "unesc c =
     (if c = dquote \<or> c = backslash \<or> c = CHR ''/'' then Some c
      else if c = CHR ''b'' then Some CHR 0x08
      else if c = CHR ''t'' then Some CHR 0x09
      else if c = CHR ''n'' then Some CHR 0x0A
      else if c = CHR ''f'' then Some CHR 0x0C
      else if c = CHR ''r'' then Some CHR 0x0D
      else None)"

definition hex4 :: "char \<Rightarrow> char \<Rightarrow> char \<Rightarrow> char \<Rightarrow> char option" where
  "hex4 a b c d =
     (case (hex_val a, hex_val b, hex_val c, hex_val d) of
        (Some w, Some x, Some y, Some z) \<Rightarrow>
          (let n = ((w * 16 + x) * 16 + y) * 16 + z in
           if n < 256 then Some (char_of n) else None)
      | _ \<Rightarrow> None)"

definition push_char :: "char \<Rightarrow> (string \<times> string) option \<Rightarrow> (string \<times> string) option" where
  "push_char c r = map_option (\<lambda>(s, rest). (c # s, rest)) r"

fun parse_str :: "string \<Rightarrow> (string \<times> string) option" where
  "parse_str [] = None"
| "parse_str (c # cs) =
     (if c = dquote then Some ([], cs)
      else if c = backslash then
        (case cs of
           [] \<Rightarrow> None
         | d # ds \<Rightarrow>
             if d = CHR ''u'' then
               (case ds of
                  h1 # h2 # h3 # h4 # rest \<Rightarrow>
                    (case hex4 h1 h2 h3 h4 of
                       None \<Rightarrow> None
                     | Some x \<Rightarrow> push_char x (parse_str rest))
                | _ \<Rightarrow> None)
             else
               (case unesc d of
                  None \<Rightarrow> None
                | Some x \<Rightarrow> push_char x (parse_str ds)))
      else if char_code c < 32 then None
      else push_char c (parse_str cs))"

definition read_nat :: "string \<Rightarrow> nat" where
  "read_nat ds = foldl (\<lambda>n c. 10 * n + digit_val c) 0 ds"

definition parse_nat :: "string \<Rightarrow> (nat \<times> string) option" where
  "parse_nat s =
     (let ds = takeWhile is_digit s; r = dropWhile is_digit s in
      if ds = [] \<or> (hd ds = CHR ''0'' \<and> length ds > 1) then None
      else if r \<noteq> [] \<and> (hd r = CHR ''.'' \<or> hd r = CHR ''e'' \<or> hd r = CHR ''E'') then None
      else Some (read_nat ds, r))"

definition parse_num :: "string \<Rightarrow> (jsval \<times> string) option" where
  "parse_num s =
     (case s of
        [] \<Rightarrow> None
      | c # cs \<Rightarrow>
          if c = CHR ''-'' then map_option (\<lambda>(n, r). (JNum (- int n), r)) (parse_nat cs)
          else map_option (\<lambda>(n, r). (JNum (int n), r)) (parse_nat s))"

definition expect :: "string \<Rightarrow> jsval \<Rightarrow> string \<Rightarrow> (jsval \<times> string) option" where
  "expect lit v s = (if prefix lit s then Some (v, drop (length lit) s) else None)"

definition opens_with :: "char \<Rightarrow> string \<Rightarrow> bool" where
  "opens_with c s \<longleftrightarrow> s \<noteq> [] \<and> hd s = c"

fun parse_value :: "nat \<Rightarrow> string \<Rightarrow> (jsval \<times> string) option"
  and parse_elems :: "nat \<Rightarrow> string \<Rightarrow> (jsval list \<times> string) option"
  and parse_members :: "nat \<Rightarrow> string \<Rightarrow> ((string \<times> jsval) list \<times> string) option"
where
  "parse_value 0 s = None"
| "parse_value (Suc n) s =
     (case skip_ws s of
        [] \<Rightarrow> None
      | c # cs \<Rightarrow>
          if c = dquote then map_option (\<lambda>(t, r). (JStr t, r)) (parse_str cs)
          else if c = CHR ''['' then
            (if opens_with CHR '']'' (skip_ws cs) then Some (JArr [], tl (skip_ws cs))
             else map_option (\<lambda>(xs, r). (JArr xs, r)) (parse_elems n cs))
          else if c = CHR ''{'' then
            (if opens_with CHR ''}'' (skip_ws cs) then Some (JObj [], tl (skip_ws cs))
             else map_option (\<lambda>(kvs, r). (JObj kvs, r)) (parse_members n cs))
          else if c = CHR ''t'' then expect ''true'' (JBool True) (c # cs)
          else if c = CHR ''f'' then expect ''false'' (JBool False) (c # cs)
          else if c = CHR ''n'' then expect ''null'' JNull (c # cs)
          else parse_num (c # cs))"
| "parse_elems 0 s = None"
| "parse_elems (Suc n) s =
     (case parse_value n s of
        None \<Rightarrow> None
      | Some (v, r) \<Rightarrow>
          (case skip_ws r of
             [] \<Rightarrow> None
           | c # cs \<Rightarrow>
               if c = CHR '']'' then Some ([v], cs)
               else if c = CHR '','' then map_option (\<lambda>(vs, r'). (v # vs, r')) (parse_elems n cs)
               else None))"
| "parse_members 0 s = None"
| "parse_members (Suc n) s =
     (case skip_ws s of
        [] \<Rightarrow> None
      | q # qs \<Rightarrow>
          if q \<noteq> dquote then None
          else
            (case parse_str qs of
               None \<Rightarrow> None
             | Some (k, r) \<Rightarrow>
                 (case skip_ws r of
                    [] \<Rightarrow> None
                  | co # r1 \<Rightarrow>
                      if co \<noteq> CHR '':'' then None
                      else
                        (case parse_value n r1 of
                           None \<Rightarrow> None
                         | Some (v, r2) \<Rightarrow>
                             (case skip_ws r2 of
                                [] \<Rightarrow> None
                              | c # cs \<Rightarrow>
                                  if c = CHR ''}'' then Some ([(k, v)], cs)
                                  else if c = CHR '','' then
                                    map_option (\<lambda>(kvs, r'). ((k, v) # kvs, r')) (parse_members n cs)
                                  else None)))))"

definition parse_fuel :: "string \<Rightarrow> nat" where
  "parse_fuel s = 2 * length s + 2"

text \<open>\<open>JSON.parse(s)\<close>: \<open>None\<close> is the \<open>SyntaxError\<close>.\<close>

definition json_parse :: "string \<Rightarrow> jsval option" where
  "json_parse s =
     (case parse_value (parse_fuel s) s of
        Some (v, r) \<Rightarrow> if skip_ws r = [] then Some v else None
      | None \<Rightarrow> None)"

section \<open>Strings and numbers read back\<close>

lemma char_code_inject: "char_code c = char_code d \<longleftrightarrow> c = d"
  by (simp add: char_code_def)

lemma char_code_less: "char_code c < 256"
  by (simp add: char_code_def of_char_of)

lemma char_of_code [simp]: "char_of (char_code c) = c"
  by (simp add: char_code_def)

lemma char_code_consts [simp]:
  "char_code dquote = 34" "char_code backslash = 92"
  by (simp_all add: char_code_def dquote_def backslash_def)

lemma char_code_of_small: "n < 256 \<Longrightarrow> char_code (char_of (n :: nat)) = n"
  by (simp add: char_code_def)

lemma hex_val_digit [simp]: "d < 16 \<Longrightarrow> hex_val (hex_digit d) = Some d"
  by (auto simp: hex_val_def hex_digit_def is_digit_def char_code_of_small)

lemma hex_val_zero [simp]: "hex_val CHR ''0'' = Some 0"
  by (simp add: hex_val_def is_digit_def digit_val_def char_code_def)

lemma hex4_code: "char_code c < 32 \<Longrightarrow>
    hex4 CHR ''0'' CHR ''0'' (hex_digit (char_code c div 16)) (hex_digit (char_code c mod 16)) = Some c"
  by (simp add: hex4_def Let_def)

lemma code_is:
  "of_char c = (34 :: nat) \<Longrightarrow> c = CHR 0x22" "of_char c = (92 :: nat) \<Longrightarrow> c = CHR 0x5C"
  "of_char c = (8 :: nat) \<Longrightarrow> c = CHR 0x08" "of_char c = (9 :: nat) \<Longrightarrow> c = CHR 0x09"
  "of_char c = (10 :: nat) \<Longrightarrow> c = CHR 0x0A" "of_char c = (12 :: nat) \<Longrightarrow> c = CHR 0x0C"
  "of_char c = (13 :: nat) \<Longrightarrow> c = CHR 0x0D"
  using of_char_eq_iff [where 'a = nat, of c "CHR 0x22"] of_char_eq_iff [where 'a = nat, of c "CHR 0x5C"]
    of_char_eq_iff [where 'a = nat, of c "CHR 0x08"] of_char_eq_iff [where 'a = nat, of c "CHR 0x09"]
    of_char_eq_iff [where 'a = nat, of c "CHR 0x0A"] of_char_eq_iff [where 'a = nat, of c "CHR 0x0C"]
    of_char_eq_iff [where 'a = nat, of c "CHR 0x0D"]
  by simp_all

lemma parse_str_esc: "parse_str (esc_char c @ t) = push_char c (parse_str t)"
proof -
  consider "char_code c \<in> {34, 92, 8, 9, 10, 12, 13}"
    | "char_code c < 32" "char_code c \<notin> {34, 92, 8, 9, 10, 12, 13}"
    | "32 \<le> char_code c" "char_code c \<notin> {34, 92, 8, 9, 10, 12, 13}"
    by linarith
  then show ?thesis
  proof cases
    case 1
    then have "c \<in> {CHR 0x22, CHR 0x5C, CHR 0x08, CHR 0x09, CHR 0x0A, CHR 0x0C, CHR 0x0D}"
      using code_is [of c] unfolding char_code_def by blast
    then show ?thesis
      by (elim insertE emptyE) (simp_all add: esc_char_def char_code_def unesc_def dquote_def backslash_def)
  next
    case 2
    then have "esc_char c = [backslash, CHR ''u'', CHR ''0'', CHR ''0'',
        hex_digit (char_code c div 16), hex_digit (char_code c mod 16)]"
      by (simp add: esc_char_def Let_def)
    with 2(1) show ?thesis
      by (simp add: hex4_code dquote_def backslash_def)
  next
    case 3
    then have "esc_char c = [c]" by (simp add: esc_char_def Let_def)
    moreover have "c \<noteq> dquote" "c \<noteq> backslash"
      using 3(2) by (auto simp flip: char_code_inject)
    ultimately show ?thesis using 3(1) by simp
  qed
qed

lemma parse_str_quote: "parse_str (concat (map esc_char s) @ dquote # r) = Some (s, r)"
  by (induction s) (simp_all add: parse_str_esc push_char_def)

lemma read_nat_snoc: "read_nat (ds @ [c]) = 10 * read_nat ds + digit_val c"
  by (simp add: read_nat_def)

lemma read_show_nat: "read_nat (show_nat n) = n"
proof (induction n rule: show_nat.induct)
  case (1 n)
  show ?case
  proof (cases "n < 10")
    case True
    then show ?thesis by (subst show_nat.simps) (simp add: read_nat_def)
  next
    case False
    with "1.IH" show ?thesis by (subst show_nat.simps) (simp add: read_nat_snoc)
  qed
qed

lemma show_nat_head: "hd (show_nat n) = CHR ''0'' \<Longrightarrow> n = 0"
proof (induction n rule: show_nat.induct)
  case (1 n)
  show ?case
  proof (cases "n < 10")
    case True
    with "1.prems" have "digit_char n = CHR ''0''" by (simp add: show_nat.simps [of n])
    then have "char_code (digit_char n) = 48" by (simp add: char_code_def)
    with True show ?thesis by simp
  next
    case False
    with "1.prems" have "hd (show_nat (n div 10)) = CHR ''0''"
      by (simp add: show_nat.simps [of n])
    with False "1.IH" have "n div 10 = 0" by blast
    with False show ?thesis by simp
  qed
qed

definition num_stop :: "string \<Rightarrow> bool" where
  "num_stop r \<longleftrightarrow> r = [] \<or> hd r = CHR '','' \<or> hd r = CHR '']'' \<or> hd r = CHR ''}''"

lemma num_stop_not_digit: "num_stop r \<Longrightarrow> r \<noteq> [] \<Longrightarrow> \<not> is_digit (hd r)"
  by (auto simp: num_stop_def is_digit_def char_code_def)

lemma span_digits:
  "num_stop r \<Longrightarrow> takeWhile is_digit (show_nat n @ r) = show_nat n
     \<and> dropWhile is_digit (show_nat n @ r) = r"
  using show_nat_digits [of n] num_stop_not_digit [of r]
  by (cases r) (auto simp: list_all_iff takeWhile_append2 dropWhile_append2)

lemma parse_nat_show: "num_stop r \<Longrightarrow> parse_nat (show_nat n @ r) = Some (n, r)"
  using show_nat_head [of n]
  by (auto simp: parse_nat_def Let_def span_digits read_show_nat show_nat.simps [of 0])
    (auto simp: num_stop_def)

lemma show_nat_first: "\<exists>c cs. show_nat n = c # cs \<and> is_digit c"
  using show_nat_digits [of n] by (cases "show_nat n") auto

lemma parse_num_show: "num_stop r \<Longrightarrow> parse_num (show_int i @ r) = Some (JNum i, r)"
proof (cases "i < 0")
  case True
  assume "num_stop r"
  with True show ?thesis
    by (simp add: parse_num_def show_int_def parse_nat_show)
next
  case False
  assume r: "num_stop r"
  obtain c cs where c: "show_nat (nat i) = c # cs" "is_digit c"
    using show_nat_first by blast
  then have "c \<noteq> CHR ''-''" by (auto simp: is_digit_def char_code_def)
  with False c(1) parse_nat_show [OF r, of "nat i"] show ?thesis
    by (simp add: parse_num_def show_int_def)
qed

section \<open>The round trip\<close>

text \<open>Values whose text denotes them: no \<open>undefined\<close> and no fractional number anywhere.\<close>

fun plain :: "jsval \<Rightarrow> bool" where
  "plain JUndef = False"
| "plain (JFloat t) = False"
| "plain (JArr xs) = (\<forall>x \<in> set xs. plain x)"
| "plain (JObj kvs) = (\<forall>p \<in> set kvs. plain (snd p))"
| "plain v = True"

lemma plain_defined: "plain v \<Longrightarrow> v \<noteq> JUndef"
  by auto

lemma join_with_Cons: "join_with sep (x # xs) = x @ (if xs = [] then [] else sep @ join_with sep xs)"
  by (cases xs) simp_all

lemma json_ws_consts [simp]:
  "\<not> json_ws dquote" "\<not> json_ws CHR ''[''" "\<not> json_ws CHR '']''" "\<not> json_ws CHR ''{''"
  "\<not> json_ws CHR ''}''" "\<not> json_ws CHR '',''" "\<not> json_ws CHR '':''" "\<not> json_ws CHR ''t''"
  "\<not> json_ws CHR ''f''" "\<not> json_ws CHR ''n''" "\<not> json_ws CHR ''-''"
  by (simp_all add: json_ws_def char_code_def dquote_def)

lemma dquote_neq [simp]:
  "dquote \<noteq> CHR ''[''" "dquote \<noteq> CHR '']''" "dquote \<noteq> CHR ''{''" "dquote \<noteq> CHR ''}''"
  "CHR ''['' \<noteq> dquote" "CHR ''{'' \<noteq> dquote" "CHR ''t'' \<noteq> dquote" "CHR ''f'' \<noteq> dquote"
  "CHR ''n'' \<noteq> dquote"
  by (simp_all add: dquote_def)

lemma digit_not_special: "is_digit c \<Longrightarrow> \<not> json_ws c \<and> c \<noteq> dquote \<and> c \<noteq> CHR ''['' \<and> c \<noteq> CHR ''{''
    \<and> c \<noteq> CHR ''t'' \<and> c \<noteq> CHR ''f'' \<and> c \<noteq> CHR ''n'' \<and> c \<noteq> CHR '']'' \<and> c \<noteq> CHR ''}''"
  by (auto simp: is_digit_def json_ws_def char_code_def dquote_def)

lemma show_int_head:
  "\<exists>c cs. show_int i = c # cs \<and> \<not> json_ws c \<and> c \<noteq> dquote \<and> c \<noteq> CHR ''['' \<and> c \<noteq> CHR ''{''
    \<and> c \<noteq> CHR ''t'' \<and> c \<noteq> CHR ''f'' \<and> c \<noteq> CHR ''n'' \<and> c \<noteq> CHR '']'' \<and> c \<noteq> CHR ''}''"
  using show_nat_first [of "nat i"] digit_not_special
  by (cases "i < 0") (auto simp: show_int_def dquote_def)

lemma json_text_head: "plain v \<Longrightarrow> \<exists>c cs. json_text v = c # cs \<and> \<not> json_ws c \<and> c \<noteq> CHR '']''"
  using show_int_head by (cases v) (fastforce simp: json_quote_def)+

lemma parse_value_num: "num_stop r \<Longrightarrow> parse_value (Suc n) (show_int i @ r) = Some (JNum i, r)"
  using show_int_head [of i] parse_num_show [of r i] by auto

lemma skip_ws_text [simp]: "plain v \<Longrightarrow> skip_ws (json_text v @ r) = json_text v @ r"
  using json_text_head [of v] by auto

lemma skip_ws_quote [simp]: "skip_ws (json_quote k @ r) = json_quote k @ r"
  by (simp add: json_quote_def)

lemma elems_head: "xs \<noteq> [] \<Longrightarrow> \<forall>x \<in> set xs. plain x \<Longrightarrow> \<exists>c cs. join_with '','' (json_elems xs) = c # cs \<and> \<not> json_ws c \<and> c \<noteq> CHR '']''"
  using json_text_head [of "hd xs"] by (cases xs) (auto simp: join_with_Cons)

lemma members_head: "kvs \<noteq> [] \<Longrightarrow> \<forall>p \<in> set kvs. plain (snd p) \<Longrightarrow>
    \<exists>cs. join_with '','' (json_members kvs) = dquote # cs"
  by (cases kvs) (auto simp: join_with_Cons json_quote_def dest: plain_defined)

lemma json_elems_Nil [simp]: "json_elems xs = [] \<longleftrightarrow> xs = []"
  by (cases xs) auto

lemma json_members_Nil: "\<forall>p \<in> set kvs. plain (snd p) \<Longrightarrow> json_members kvs = [] \<longleftrightarrow> kvs = []"
  by (cases kvs) (auto dest: plain_defined split: if_splits)

lemma parse_json_text:
  "plain v \<Longrightarrow> num_stop r \<Longrightarrow> 2 * length (json_text v) \<le> n \<Longrightarrow>
     parse_value n (json_text v @ r) = Some (v, r)"
  "xs \<noteq> [] \<Longrightarrow> \<forall>x \<in> set xs. plain x \<Longrightarrow> 2 * length (join_with '','' (json_elems xs)) + 1 \<le> n \<Longrightarrow>
     parse_elems n (join_with '','' (json_elems xs) @ CHR '']'' # r) = Some (xs, r)"
  "kvs \<noteq> [] \<Longrightarrow> \<forall>p \<in> set kvs. plain (snd p) \<Longrightarrow>
     2 * length (join_with '','' (json_members kvs)) + 1 \<le> n \<Longrightarrow>
     parse_members n (join_with '','' (json_members kvs) @ CHR ''}'' # r) = Some (kvs, r)"
proof (induction v and xs and kvs arbitrary: r n and r n and r n
    rule: json_text_json_elems_json_members.induct)
  case (1 r n)
  then show ?case by simp
next
  case (2 r n)
  then obtain m where "n = Suc m" by (cases n) auto
  then show ?case by (simp add: expect_def prefix_def)
next
  case (3 b r n)
  then obtain m where "n = Suc m" by (cases n) (auto split: if_splits)
  then show ?case by (simp add: expect_def prefix_def)
next
  case (4 i r n)
  then obtain m where "n = Suc m" using show_int_head [of i] by (cases n) auto
  with 4 show ?case by (simp add: parse_value_num del: parse_value.simps)
next
  case (5 t r n)
  then show ?case by simp
next
  case (6 s r n)
  then obtain m where "n = Suc m" by (cases n) (auto simp: json_quote_def)
  then show ?case by (simp add: json_quote_def parse_str_quote)
next
  case (7 xs r n)
  then obtain m where n: "n = Suc m" by (cases n) auto
  show ?case
  proof (cases "xs = []")
    case True
    with n show ?thesis by (simp add: opens_with_def)
  next
    case False
    with 7 n have "parse_elems m (join_with '','' (json_elems xs) @ CHR '']'' # r) = Some (xs, r)"
      by simp
    moreover from 7 have "\<forall>x \<in> set xs. plain x" by simp
    ultimately show ?thesis using n elems_head [OF False] by (auto simp: opens_with_def)
  qed
next
  case (8 kvs r n)
  then obtain m where n: "n = Suc m" by (cases n) auto
  show ?case
  proof (cases "kvs = []")
    case True
    with n show ?thesis by (simp add: opens_with_def)
  next
    case False
    with 8 n have "parse_members m (join_with '','' (json_members kvs) @ CHR ''}'' # r) = Some (kvs, r)"
      by simp
    moreover from 8 have "\<forall>p \<in> set kvs. plain (snd p)" by simp
    ultimately show ?thesis
      using n members_head [OF False] by (auto simp: opens_with_def)
  qed
next
  case (9 r n)
  then show ?case by simp
next
  case (10 x xs r n)
  then obtain m where n: "n = Suc m" by (cases n) auto
  show ?case
  proof (cases "xs = []")
    case True
    with 10 n have "parse_value m (json_text x @ CHR '']'' # r) = Some (x, CHR '']'' # r)"
      by (simp add: num_stop_def)
    with True n show ?thesis by simp
  next
    case False
    let ?E = "join_with '','' (json_elems xs)"
    from 10 False n have "parse_value m (json_text x @ CHR '','' # ?E @ CHR '']'' # r)
        = Some (x, CHR '','' # ?E @ CHR '']'' # r)"
      by (simp add: num_stop_def join_with_Cons)
    moreover from 10 False n have "parse_elems m (?E @ CHR '']'' # r) = Some (xs, r)"
      by (simp add: join_with_Cons)
    ultimately show ?thesis using False n by (simp add: join_with_Cons)
  qed
next
  case (11 r n)
  then show ?case by simp
next
  case (12 k v kvs r n)
  then obtain m where n: "n = Suc m" by (cases n) auto
  from 12 have v: "plain v" "v \<noteq> JUndef" by auto
  have q: "parse_str (concat (map esc_char k) @ dquote # t) = Some (k, t)" for t
    by (rule parse_str_quote)
  show ?case
  proof (cases "kvs = []")
    case True
    with 12 v n have "parse_value m (json_text v @ CHR ''}'' # r) = Some (v, CHR ''}'' # r)"
      by (simp add: num_stop_def)
    with True v n show ?thesis by (simp add: json_quote_def q)
  next
    case False
    let ?M = "join_with '','' (json_members kvs)"
    from 12 False have M: "json_members kvs \<noteq> []" by (simp add: json_members_Nil)
    with 12 False v n have "parse_value m (json_text v @ CHR '','' # ?M @ CHR ''}'' # r)
        = Some (v, CHR '','' # ?M @ CHR ''}'' # r)"
      by (simp add: num_stop_def join_with_Cons)
    moreover from 12 M False v n have "parse_members m (?M @ CHR ''}'' # r) = Some (kvs, r)"
      by (simp add: join_with_Cons)
    ultimately show ?thesis using M False v n by (simp add: json_quote_def q join_with_Cons)
  qed
qed

lemma json_roundtrip: "plain v \<Longrightarrow> json_parse (json_text v) = Some v"
  using parse_json_text(1) [of v "[]" "parse_fuel (json_text v)"]
  by (simp add: json_parse_def parse_fuel_def num_stop_def)

lemma json_text_nonempty [simp]: "plain v \<Longrightarrow> json_text v \<noteq> []"
  using json_text_head [of v] by auto

end
