(* ===== verification/Storage.thy ===== *)
theory Storage
  imports Json
begin

text \<open>
  The browser's web storage (\<open>sessionStorage\<close>, \<open>localStorage\<close>): a map from keys to texts,
  the interface the stores use it through as a locale, and its interpretation on the map.
\<close>

type_synonym storage = "string \<rightharpoonup> string"

definition get_item :: "storage \<Rightarrow> string \<Rightarrow> string option" where
  "get_item st k = st k"

definition set_item :: "storage \<Rightarrow> string \<Rightarrow> string \<Rightarrow> storage" where
  "set_item st k v = st(k \<mapsto> v)"

definition remove_item :: "storage \<Rightarrow> string \<Rightarrow> storage" where
  "remove_item st k = st(k := None)"

text \<open>
  A text read from storage as the code tests it: \<open>null\<close> and the empty text are falsy.
\<close>

definition truthy_text :: "string option \<Rightarrow> bool" where
  "truthy_text t = (case t of None \<Rightarrow> False | Some s \<Rightarrow> s \<noteq> [])"

lemma truthy_text_simps [simp]: "\<not> truthy_text None" "truthy_text (Some s) \<longleftrightarrow> s \<noteq> []"
  by (simp_all add: truthy_text_def)

locale web_storage =
  fixes get :: "'st \<Rightarrow> string \<Rightarrow> string option"
    and put :: "'st \<Rightarrow> string \<Rightarrow> string \<Rightarrow> 'st"
    and del :: "'st \<Rightarrow> string \<Rightarrow> 'st"
  assumes get_put: "get (put st k v) k' = (if k' = k then Some v else get st k')"
    and get_del: "get (del st k) k' = (if k' = k then None else get st k')"
begin

text \<open>A value persisted as JSON is read back as the same value.\<close>

lemma persisted_json:
  "plain v \<Longrightarrow> Option.bind (get (put st k (json_text v)) k) json_parse = Some v"
  by (simp add: get_put json_roundtrip)

lemma persisted_text_truthy: "plain v \<Longrightarrow> truthy_text (get (put st k (json_text v)) k)"
  by (simp add: get_put)

lemma removed_stays: "get st k = None \<Longrightarrow> get (del st k') k = None"
  by (simp add: get_del)

lemma put_other: "k' \<noteq> k \<Longrightarrow> get (put st k v) k' = get st k'"
  by (simp add: get_put)

end

interpretation web: web_storage get_item set_item remove_item
  by unfold_locales (auto simp: get_item_def set_item_def remove_item_def)

end
