(* ===== verification/AuthStore.thy ===== *)
theory AuthStore
  imports Storage
begin

text \<open>
  The authentication store (\<open>frontend/src/store/authStore.ts\<close>): its state, one definition per
  action, and the step function over the actions. The state machine's invariant, the
  persistence of a session across a reload and the absence of a session after a logout are
  the properties of this theory.
\<close>

section \<open>State and actions\<close>

definition AuthUser :: ty where
  "AuthUser = TObject
     [req ''id'' TString, req ''email'' TString, req ''name'' TString, req ''role'' TString,
      opt ''two_fa_enabled'' TBoolean]"

record auth_state =
  user :: jsval
  isAuthenticated :: bool
  isLoading :: bool
  pending2FA :: bool
  pending2FAEmail :: string
  pending2FAToken :: jsval

definition auth_initial :: auth_state where
  "auth_initial = \<lparr>user = JNull, isAuthenticated = False, isLoading = True,
     pending2FA = False, pending2FAEmail = '''', pending2FAToken = JStr ''''\<rparr>"

text \<open>The store together with the \<open>sessionStorage\<close> its actions write.\<close>

type_synonym auth_world = "auth_state \<times> storage"

definition setUser :: "jsval \<Rightarrow> auth_world \<Rightarrow> auth_world" where
  "setUser u w = ((fst w)\<lparr>user := u, isAuthenticated := True\<rparr>, snd w)"

definition setLoading :: "bool \<Rightarrow> auth_world \<Rightarrow> auth_world" where
  "setLoading b w = ((fst w)\<lparr>isLoading := b\<rparr>, snd w)"

definition write_session :: "jsval \<Rightarrow> jsval \<Rightarrow> jsval \<Rightarrow> storage \<Rightarrow> storage" where
  "write_session token refresh u st =
     (let st1 = set_item st ''auth_token'' (to_str token);
          st2 = set_item st1 ''auth_user'' (to_str (js_stringify u))
      in if truthy refresh then set_item st2 ''refresh_token'' (to_str refresh) else st2)"

definition login :: "jsval \<Rightarrow> jsval \<Rightarrow> jsval \<Rightarrow> auth_world \<Rightarrow> auth_world" where
  "login token refresh u w =
     ((fst w)\<lparr>user := u, isAuthenticated := True, isLoading := False\<rparr>,
      write_session token refresh u (snd w))"

definition start2FA :: "string \<Rightarrow> jsval \<Rightarrow> auth_world \<Rightarrow> auth_world" where
  "start2FA email token w =
     ((fst w)\<lparr>pending2FA := True, pending2FAEmail := email, pending2FAToken := token\<rparr>, snd w)"

definition complete2FA :: "jsval \<Rightarrow> jsval \<Rightarrow> jsval \<Rightarrow> auth_world \<Rightarrow> auth_world" where
  "complete2FA token refresh u w =
     ((fst w)\<lparr>user := u, isAuthenticated := True, isLoading := False,
        pending2FA := False, pending2FAEmail := '''', pending2FAToken := JStr ''''\<rparr>,
      write_session token refresh u (snd w))"

definition cancel2FA :: "auth_world \<Rightarrow> auth_world" where
  "cancel2FA w =
     ((fst w)\<lparr>pending2FA := False, pending2FAEmail := '''', pending2FAToken := JStr ''''\<rparr>, snd w)"

definition clear_session :: "storage \<Rightarrow> storage" where
  "clear_session st =
     remove_item (remove_item (remove_item st ''auth_token'') ''auth_user'') ''refresh_token''"

definition logout :: "auth_world \<Rightarrow> auth_world" where
  "logout w =
     ((fst w)\<lparr>user := JNull, isAuthenticated := False, isLoading := False,
        pending2FA := False, pending2FAEmail := '''', pending2FAToken := JStr ''''\<rparr>,
      clear_session (snd w))"

text \<open>
  \<open>hydrate\<close>: the three ways out of its \<open>try\<close> block are a stored user that is accepted (an
  early return), a stored text that does not parse (the \<open>catch\<close> branch empties the session)
  and everything else; the last two go on to the final \<open>set\<close>.
\<close>

definition accepts_user :: "jsval \<Rightarrow> bool" where
  "accepts_user u \<longleftrightarrow> truthy u \<and> truthy (opt_get u ''id'') \<and> truthy (opt_get u ''email'')"

definition hydrate :: "auth_world \<Rightarrow> auth_world" where
  "hydrate w =
     (let token = get_item (snd w) ''auth_token'';
          stored = get_item (snd w) ''auth_user'';
          give_up = (fst w)\<lparr>isAuthenticated := False, isLoading := False\<rparr>
      in if truthy_text token \<and> truthy_text stored then
           (case json_parse (the stored) of
              None \<Rightarrow> (give_up, clear_session (snd w))
            | Some u \<Rightarrow>
                if accepts_user u
                then ((fst w)\<lparr>user := u, isAuthenticated := True, isLoading := False\<rparr>, snd w)
                else (give_up, snd w))
         else (give_up, snd w))"

datatype auth_action =
    SetUser jsval
  | SetLoading bool
  | Login jsval jsval jsval
  | Start2FA string jsval
  | Complete2FA jsval jsval jsval
  | Cancel2FA
  | Logout
  | Hydrate

fun auth_step :: "auth_world \<Rightarrow> auth_action \<Rightarrow> auth_world" where
  "auth_step w (SetUser u) = setUser u w"
| "auth_step w (SetLoading b) = setLoading b w"
| "auth_step w (Login t r u) = login t r u w"
| "auth_step w (Start2FA e t) = start2FA e t w"
| "auth_step w (Complete2FA t r u) = complete2FA t r u w"
| "auth_step w Cancel2FA = cancel2FA w"
| "auth_step w Logout = logout w"
| "auth_step w Hydrate = hydrate w"

definition auth_run :: "auth_world \<Rightarrow> auth_action list \<Rightarrow> auth_world" where
  "auth_run w acts = foldl auth_step w acts"

text \<open>
  What \<open>useAuthStore.getState().k\<close> finds: the data fields and the actions of the object
  above, and nothing for any other name.
\<close>

datatype store_member = Data jsval | Action | Missing

definition store_member :: "auth_state \<Rightarrow> string \<Rightarrow> store_member" where
  "store_member s k =
     (if k = ''user'' then Data (user s)
      else if k = ''isAuthenticated'' then Data (JBool (isAuthenticated s))
      else if k = ''isLoading'' then Data (JBool (isLoading s))
      else if k = ''pending2FA'' then Data (JBool (pending2FA s))
      else if k = ''pending2FAEmail'' then Data (JStr (pending2FAEmail s))
      else if k = ''pending2FAToken'' then Data (pending2FAToken s)
      else if k \<in> {''setUser'', ''setLoading'', ''login'', ''start2FA'', ''complete2FA'',
                  ''cancel2FA'', ''logout'', ''hydrate''} then Action
      else Missing)"

section \<open>The invariant\<close>

lemmas auth_defs [step_defs] =
  setUser_def setLoading_def login_def start2FA_def complete2FA_def cancel2FA_def logout_def

definition auth_inv :: "auth_world \<Rightarrow> bool" where
  "auth_inv w \<longleftrightarrow>
     (isAuthenticated (fst w) \<longrightarrow> truthy (user (fst w))) \<and>
     (\<not> pending2FA (fst w) \<longrightarrow> pending2FAEmail (fst w) = '''' \<and> pending2FAToken (fst w) = JStr '''')"

text \<open>The users the callers pass are objects, as the type of the argument says.\<close>

fun typed_action :: "auth_action \<Rightarrow> bool" where
  "typed_action (SetUser u) = conforms AuthUser u"
| "typed_action (Login t r u) = conforms AuthUser u"
| "typed_action (Complete2FA t r u) = conforms AuthUser u"
| "typed_action _ = True"

lemma conforms_AuthUser_truthy: "conforms AuthUser u \<Longrightarrow> truthy u"
  unfolding AuthUser_def by (erule conforms_objectE) simp

lemma hydrate_cases:
  obtains (restored) u where "json_parse (the (get_item (snd w) ''auth_user'')) = Some u"
      and "accepts_user u" and "truthy_text (get_item (snd w) ''auth_token'')"
      and "hydrate w = ((fst w)\<lparr>user := u, isAuthenticated := True, isLoading := False\<rparr>, snd w)"
  | (refused) "hydrate w = ((fst w)\<lparr>isAuthenticated := False, isLoading := False\<rparr>, snd w)"
  | (corrupt) "hydrate w = ((fst w)\<lparr>isAuthenticated := False, isLoading := False\<rparr>, clear_session (snd w))"
proof -
  let ?t = "get_item (snd w) ''auth_token''" and ?s = "get_item (snd w) ''auth_user''"
  consider (none) "\<not> (truthy_text ?t \<and> truthy_text ?s)"
    | (bad) "truthy_text ?t \<and> truthy_text ?s" "json_parse (the ?s) = None"
    | (ok) u where "truthy_text ?t \<and> truthy_text ?s" "json_parse (the ?s) = Some u" "accepts_user u"
    | (no) u where "truthy_text ?t \<and> truthy_text ?s" "json_parse (the ?s) = Some u" "\<not> accepts_user u"
    by (cases "json_parse (the ?s)") blast+
  then show ?thesis
  proof cases
    case none
    then have "hydrate w = ((fst w)\<lparr>isAuthenticated := False, isLoading := False\<rparr>, snd w)"
      by (auto simp: hydrate_def)
    then show ?thesis by (rule refused)
  next
    case bad
    then have "hydrate w = ((fst w)\<lparr>isAuthenticated := False, isLoading := False\<rparr>, clear_session (snd w))"
      by (simp add: hydrate_def)
    then show ?thesis by (rule corrupt)
  next
    case ok
    then show ?thesis by (intro restored) (simp_all add: hydrate_def)
  next
    case no
    then have "hydrate w = ((fst w)\<lparr>isAuthenticated := False, isLoading := False\<rparr>, snd w)"
      by (simp add: hydrate_def)
    then show ?thesis by (rule refused)
  qed
qed

lemma hydrate_inv: "auth_inv w \<Longrightarrow> auth_inv (hydrate w)"
  by (cases w rule: hydrate_cases) (auto simp: auth_inv_def accepts_user_def)

lemma auth_step_inv: "auth_inv w \<Longrightarrow> typed_action a \<Longrightarrow> auth_inv (auth_step w a)"
  by (cases "a = Hydrate", simp add: hydrate_inv, cases a)
    (auto simp: step_defs auth_inv_def dest: conforms_AuthUser_truthy)

interpretation auth: machine auth_step "\<lambda>w. typed_action" auth_inv
  by unfold_locales (rule auth_step_inv)

lemma auth_inv_initial: "auth_inv (auth_initial, st)"
  by (simp add: auth_inv_def auth_initial_def)

text \<open>
  C12. In every state the authentication store reaches from its initial state by any sequence
  of its actions, whatever the session storage held at first, a store that says it is
  authenticated has a user, and the email and token of the second factor are empty unless a
  second factor is pending.
\<close>

theorem auth_store_invariant:
  assumes "\<forall>a \<in> set acts. typed_action a"
  shows "auth_inv (auth_run (auth_initial, st) acts)"
  unfolding auth_run_def by (rule auth.run_inv [OF auth_inv_initial]) (use assms in auto)

theorem auth_store_invariant_witness:
  "auth_inv (auth_run (auth_initial, Map.empty)
     [Start2FA ''a@b.c'' (JStr ''t''), Hydrate, Cancel2FA, Logout])"
  by (rule auth_store_invariant) simp

section \<open>Sessions across reloads and logouts\<close>

text \<open>A stored session that \<open>hydrate\<close> would restore.\<close>

definition stored_session :: "storage \<Rightarrow> bool" where
  "stored_session st \<longleftrightarrow>
     truthy_text (get_item st ''auth_token'') \<and> truthy_text (get_item st ''auth_user'') \<and>
     (case json_parse (the (get_item st ''auth_user'')) of None \<Rightarrow> False | Some u \<Rightarrow> accepts_user u)"

fun grants :: "auth_action \<Rightarrow> bool" where
  "grants (SetUser u) = True"
| "grants (Login t r u) = True"
| "grants (Complete2FA t r u) = True"
| "grants _ = False"

definition signed_out :: "auth_world \<Rightarrow> bool" where
  "signed_out w \<longleftrightarrow> \<not> isAuthenticated (fst w) \<and> \<not> stored_session (snd w)"

lemma get_clear_session:
  "get_item (clear_session st) k =
     (if k \<in> {''auth_token'', ''auth_user'', ''refresh_token''} then None else get_item st k)"
  by (auto simp: clear_session_def web.get_del)

lemma stored_session_clear [simp]: "\<not> stored_session (clear_session st)"
  by (simp add: stored_session_def get_clear_session)

lemma hydrate_authenticates: "isAuthenticated (fst (hydrate w)) = stored_session (snd w)"
  by (auto simp: hydrate_def stored_session_def Let_def split: option.splits)

lemma hydrate_keeps_absence: "\<not> stored_session (snd w) \<Longrightarrow> \<not> stored_session (snd (hydrate w))"
  by (cases w rule: hydrate_cases) auto

lemma signed_out_step: "signed_out w \<Longrightarrow> \<not> grants a \<Longrightarrow> signed_out (auth_step w a)"
  by (cases "a = Hydrate", simp add: signed_out_def hydrate_authenticates hydrate_keeps_absence, cases a)
    (auto simp: step_defs signed_out_def)

interpretation out: machine auth_step "\<lambda>w a. \<not> grants a" signed_out
  by unfold_locales (rule signed_out_step)

text \<open>
  A store is authenticated only for a reason: after any sequence of actions from the
  initial state, if it says it is authenticated then one of the actions gave it a user
  (\<open>setUser\<close>, \<open>login\<close> or \<open>complete2FA\<close>), or the session storage already held a session that
  \<open>hydrate\<close> accepts. Starting and cancelling a second factor is never such a reason.
\<close>

theorem authentication_has_a_cause:
  assumes "isAuthenticated (fst (auth_run (auth_initial, st) acts))"
  shows "stored_session st \<or> (\<exists>a \<in> set acts. grants a)"
proof (rule ccontr)
  assume "\<not> ?thesis"
  then have "signed_out (foldl auth_step (auth_initial, st) acts)"
    by (intro out.run_inv) (auto simp: signed_out_def auth_initial_def)
  with assms show False by (simp add: signed_out_def auth_run_def)
qed

theorem authentication_has_a_cause_witness:
  "isAuthenticated (fst (auth_run (auth_initial, Map.empty) [SetUser (JObj [])]))
   \<and> (stored_session Map.empty \<or> (\<exists>a \<in> set [SetUser (JObj [])]. grants a))"
proof -
  have h: "isAuthenticated (fst (auth_run (auth_initial, Map.empty) [SetUser (JObj [])]))"
    by (simp add: auth_run_def setUser_def)
  then show ?thesis using authentication_has_a_cause [OF h] by simp
qed

text \<open>
  C4. A logout is final: whatever the store and the session storage were, after \<open>logout\<close> no
  sequence of hydrations (reloads), loading flags and started or cancelled second factors
  makes the store authenticated again, and the session can still not be restored.
\<close>

theorem logout_is_final:
  assumes "\<forall>a \<in> set acts. \<not> grants a"
  shows "signed_out (auth_run (logout w) acts)"
  unfolding auth_run_def
  by (rule out.run_inv) (use assms in \<open>auto simp: signed_out_def logout_def\<close>)

theorem logout_is_final_witness:
  "signed_out (auth_run (logout (auth_initial, Map.empty)) [Hydrate, SetLoading True, Hydrate])"
  by (rule logout_is_final) simp

lemma to_str_stringify: "v \<noteq> JUndef \<Longrightarrow> to_str (js_stringify v) = json_text v"
  by (simp add: js_stringify_def)

lemma write_session_items:
  assumes "u \<noteq> JUndef"
  shows "get_item (write_session token refresh u st) ''auth_token'' = Some (to_str token)"
    and "get_item (write_session token refresh u st) ''auth_user'' = Some (json_text u)"
  using assms by (auto simp: write_session_def Let_def web.get_put to_str_stringify)

lemma hydrate_written:
  assumes "to_str token \<noteq> ''''" and "plain u" and "accepts_user u"
  shows "hydrate (s, write_session token refresh u st)
    = (s\<lparr>user := u, isAuthenticated := True, isLoading := False\<rparr>, write_session token refresh u st)"
  using assms plain_defined [OF assms(2)]
  by (simp add: hydrate_def write_session_items json_roundtrip)

text \<open>
  C3. A session survives a reload: after a login, or after the second factor completes, a
  fresh store over the same session storage hydrates to the very same user, authenticated
  and not loading, provided the token's text is not empty and the user is a value without
  \<open>undefined\<close> fields whose id and email are not empty.
\<close>

theorem session_survives_reload:
  assumes "to_str token \<noteq> ''''" and "plain u" and "accepts_user u"
  shows "fst (hydrate (auth_initial, snd (login token refresh u w)))
           = auth_initial\<lparr>user := u, isAuthenticated := True, isLoading := False\<rparr>
       \<and> fst (hydrate (auth_initial, snd (complete2FA token refresh u w)))
           = auth_initial\<lparr>user := u, isAuthenticated := True, isLoading := False\<rparr>"
  by (simp add: login_def complete2FA_def hydrate_written [OF assms])

definition sample_user :: jsval where
  "sample_user = JObj [(''id'', JStr ''u1''), (''email'', JStr ''a@b.c''), (''name'', JStr ''A''), (''role'', JStr ''member'')]"

lemma sample_user_ok: "plain sample_user" "accepts_user sample_user" "conforms AuthUser sample_user"
  by (simp_all add: sample_user_def accepts_user_def AuthUser_def)

theorem session_survives_reload_witness:
  "user (fst (hydrate (auth_initial, snd (login (JStr ''tok'') JUndef sample_user (auth_initial, Map.empty)))))
     = sample_user"
  using session_survives_reload [of "JStr ''tok''" sample_user JUndef "(auth_initial, Map.empty)"]
  by (simp add: sample_user_ok)

text \<open>
  A session whose stored user is not JSON text is discarded: \<open>hydrate\<close> removes the token,
  the user and the refresh token from the session storage, leaves every other key alone, and
  the store is neither authenticated nor loading.
\<close>

theorem corrupt_session_is_discarded:
  assumes "get_item st ''auth_token'' = Some t" and "t \<noteq> ''''"
    and "get_item st ''auth_user'' = Some text" and "text \<noteq> ''''" and "json_parse text = None"
  shows "\<not> isAuthenticated (fst (hydrate (s, st))) \<and> \<not> isLoading (fst (hydrate (s, st)))
    \<and> (\<forall>k. get_item (snd (hydrate (s, st))) k
          = (if k \<in> {''auth_token'', ''auth_user'', ''refresh_token''} then None else get_item st k))"
  using assms by (simp add: hydrate_def get_clear_session)

definition corrupt_storage :: storage where
  "corrupt_storage = [''auth_token'' \<mapsto> ''t'', ''auth_user'' \<mapsto> ''id'', ''theme'' \<mapsto> ''dark'']"

theorem corrupt_session_is_discarded_witness:
  "\<not> isAuthenticated (fst (hydrate (auth_initial, corrupt_storage)))
   \<and> get_item (snd (hydrate (auth_initial, corrupt_storage))) ''theme'' = Some ''dark''"
proof -
  have "json_parse ''id'' = None" by code_simp
  then show ?thesis
    using corrupt_session_is_discarded [of corrupt_storage "''t''" "''id''" auth_initial]
    by (simp add: get_item_def corrupt_storage_def)
qed

end
