(* ===== verification/Types.thy ===== *)
theory Types
  imports JsValue
begin

text \<open>
  The data model: every interface of \<open>types/api.ts\<close>, \<open>types/models.ts\<close> and of the service
  modules, as a structural type. A field of kind \<open>opt\<close> carries the source's question mark.
  \<open>ApiResponse\<close> and \<open>PaginatedResponse\<close> take the type of their payload, as in the source.
\<close>

section \<open>The API envelope\<close>

definition ApiResponse :: "ty \<Rightarrow> ty" where
  "ApiResponse t = TObject
     [req ''success'' TBoolean, opt ''data'' t, opt ''error'' TString,
      opt ''message'' TString]"

definition LoginRequest :: "ty" where
  "LoginRequest = TObject
     [req ''email'' TString, req ''password'' TString]"

definition LoginResponse :: "ty" where
  "LoginResponse = TObject
     [req ''token'' TString, opt ''refreshToken'' TString, opt ''requires_2fa'' TBoolean,
      opt ''two_fa_pending'' TBoolean, opt ''two_fa_token'' TString,
      req ''user'' (TObject [req ''id'' TString, req ''email'' TString, req ''name'' TString, req ''role'' TString])]"

definition ApiError :: "ty" where
  "ApiError = TObject
     [req ''message'' TString, req ''status'' TNumber, opt ''code'' TString]"

definition PaginatedResponse :: "ty \<Rightarrow> ty" where
  "PaginatedResponse t = TObject
     [req ''data'' (TArray t), req ''total'' TNumber, req ''page'' TNumber,
      req ''page_size'' TNumber, req ''total_pages'' TNumber]"

section \<open>The models\<close>

definition User :: "ty" where
  "User = TObject
     [req ''id'' TString, req ''email'' TString, req ''name'' TString,
      req ''role'' (TLits [''admin'', ''staff'', ''viewer'']),
      req ''status'' (TLits [''active'', ''inactive'', ''suspended'']),
      opt ''avatar'' TString, req ''created_at'' TString, req ''updated_at'' TString,
      opt ''last_login'' TString]"

definition Account :: "ty" where
  "Account = TObject
     [req ''id'' TString, req ''email'' TString, req ''name'' TString,
      req ''plan_id'' (TLits [''free'', ''pro'', ''scale'', ''enterprise'']),
      req ''status'' (TLits [''active'', ''suspended'', ''disabled'']),
      req ''created_at'' TString, req ''verified'' TBoolean, req ''risk_score'' TNumber]"

definition DashboardStats :: "ty" where
  "DashboardStats = TObject
     [req ''total_accounts'' TNumber, req ''active_devices'' TNumber,
      req ''total_sent'' TNumber, req ''total_delivered'' TNumber,
      req ''total_failed'' TNumber, req ''avg_confidence'' TNumber,
      req ''active_circuits'' TNumber, req ''pending_fraud'' TNumber,
      req ''queue_depth'' (TRecord TNumber), req ''timestamp'' TString]"

definition ChartDataPoint :: "ty" where
  "ChartDataPoint = TObject
     [req ''date'' TString, req ''value'' TNumber, opt ''label'' TString]"

definition DailyChartData :: "ty" where
  "DailyChartData = TObject
     [req ''messages'' (TArray ChartDataPoint), req ''users'' (TArray ChartDataPoint),
      req ''revenue'' (TArray ChartDataPoint)]"

definition AnalyticsDaily :: "ty" where
  "AnalyticsDaily = TObject
     [req ''id'' TString, req ''date'' TString, req ''total_sent'' TNumber,
      req ''total_delivered'' TNumber, req ''total_failed'' TNumber,
      req ''avg_confidence'' TNumber, req ''otp_sent'' TNumber,
      req ''transactional_sent'' TNumber, req ''marketing_sent'' TNumber]"

definition Device :: "ty" where
  "Device = TObject
     [req ''id'' TString, req ''physical_device_id'' TString, req ''account_id'' TString,
      req ''sim_slot'' TNumber, req ''carrier'' TString,
      req ''status'' (TLits [''ONLINE'', ''OFFLINE'']),
      req ''sim_health_status'' (TLits [''HEALTHY'', ''DEGRADED'', ''BLOCKED'']),
      req ''health_trend_slope'' TNumber, req ''reliability_score'' TNumber,
      req ''reputation_score'' TNumber, req ''success_rate_24h'' TNumber,
      req ''uptime_ratio_24h'' TNumber, req ''avg_latency_ms'' TNumber,
      req ''messages_sent_count'' TNumber, req ''country_code'' TString,
      req ''region'' TString,
      req ''circuit_breaker_state'' (TLits [''CLOSED'', ''OPEN'', ''HALF_OPEN'']),
      opt ''last_seen'' TString, opt ''last_pong_at'' TString]"

definition Webhook :: "ty" where
  "Webhook = TObject
     [req ''id'' TString, req ''account_id'' TString, opt ''account_name'' TString,
      req ''url'' TString, req ''events'' (TArray TString), req ''active'' TBoolean,
      req ''created_at'' TString, opt ''last_rotated_at'' TString]"

definition WebhookDelivery :: "ty" where
  "WebhookDelivery = TObject
     [req ''id'' TString, req ''webhook_id'' TString, req ''message_id'' TString,
      req ''event'' TString, req ''attempt_count'' TNumber, req ''status_code'' TNumber,
      req ''response_body'' TString, req ''last_status'' TString,
      req ''last_attempt_at'' TString, req ''completed'' TBoolean,
      req ''created_at'' TString]"

definition Template :: "ty" where
  "Template = TObject
     [req ''id'' TString, req ''account_id'' TString, opt ''account_name'' TString,
      req ''name'' TString, req ''body'' TString, req ''variables'' (TArray TString),
      req ''approval_status'' (TLits [''pending'', ''approved'', ''rejected'']),
      opt ''approved_at'' TString, req ''created_at'' TString]"

definition Plan :: "ty" where
  "Plan = TObject
     [req ''id'' TString, req ''name'' TString,
      req ''visibility'' (TLits [''public'', ''private'', ''custom'']),
      req ''daily_quota'' TNumber, req ''monthly_quota'' TNumber,
      req ''overage_buffer_pct'' TNumber, req ''max_queue_depth'' TNumber,
      req ''max_devices'' TNumber, req ''max_templates'' TNumber,
      req ''dedicated_pool'' TBoolean, req ''default_routing_strategy'' TString,
      req ''price_per_sms'' TNumber, req ''monthly_price'' TNumber,
      req ''is_popular'' TBoolean, req ''cta_text'' TString,
      req ''features'' (TArray TString)]"

definition PlanChangeRequest :: "ty" where
  "PlanChangeRequest = TObject
     [req ''id'' TString, req ''requested_by'' TString, req ''requested_by_name'' TString,
      req ''action'' (TLits [''create'', ''update'', ''delete'']), req ''plan_id'' TString,
      req ''payload'' (TRecord TUnknown),
      req ''status'' (TLits [''pending'', ''approved'', ''rejected'']),
      opt ''reviewed_by'' TString, req ''reviewed_by_name'' TString,
      req ''review_notes'' TString, req ''created_at'' TString, opt ''reviewed_at'' TString]"

definition Subscription :: "ty" where
  "Subscription = TObject
     [req ''plan_type'' TString, req ''billing_cycle'' TString, req ''status'' TString,
      req ''quota_daily'' TNumber, req ''quota_monthly'' TNumber,
      req ''max_queue_depth'' TNumber, req ''max_templates'' TNumber,
      req ''renewal_date'' TString]"

definition CircuitBreakerEvent :: "ty" where
  "CircuitBreakerEvent = TObject
     [req ''scope'' TString, req ''scope_value'' TString,
      req ''state'' (TLits [''CLOSED'', ''OPEN'', ''HALF_OPEN'']), req ''opened_at'' TString,
      req ''reason'' TString]"

definition DeadLetter :: "ty" where
  "DeadLetter = TObject
     [req ''id'' TString, req ''stream'' TString, req ''message_id'' TString,
      req ''payload'' TString, req ''fail_reason'' TString, req ''failed_at'' TString,
      req ''retry_count'' TNumber]"

definition FraudFlag :: "ty" where
  "FraudFlag = TObject
     [req ''id'' TString, req ''account_id'' TString, opt ''device_id'' TString,
      req ''flag_type'' TString, req ''description'' TString, req ''severity'' TString,
      req ''weight'' TNumber, req ''reviewed'' TBoolean, req ''created_at'' TString]"

definition FeatureCatalogItem :: "ty" where
  "FeatureCatalogItem = TObject
     [req ''id'' TString, req ''name'' TString, req ''category'' TString,
      req ''sort_order'' TNumber, req ''active'' TBoolean, req ''created_at'' TString,
      req ''updated_at'' TString]"

definition Message :: "ty" where
  "Message = TObject
     [req ''id'' TString, opt ''device_id'' TString, req ''recipient'' TString,
      req ''sender'' TString,
      req ''message_type'' (TLits [''otp'', ''transactional'', ''marketing'']),
      req ''status'' TString,
      req ''delivery_status'' (TLits [''SENT'', ''CARRIER_ACCEPTED'', ''PROBABLE_DELIVERED'', ''FAILED'']),
      req ''confidence_score'' TNumber, opt ''error_reason'' TString,
      req ''routing_strategy_used'' TString, req ''created_at'' TString,
      opt ''delivered_at'' TString]"

definition MemberDashboard :: "ty" where
  "MemberDashboard = TObject
     [req ''account'' (TObject [req ''id'' TString, req ''name'' TString, req ''email'' TString, req ''plan'' TString, req ''status'' TString]),
      req ''devices'' (TObject [req ''total'' TNumber, req ''online'' TNumber]),
      req ''messages'' (TObject [req ''total_sent'' TNumber, req ''total_delivered'' TNumber, req ''total_failed'' TNumber, req ''delivery_rate'' TNumber]),
      req ''usage'' (TObject [req ''daily'' TNumber, req ''monthly'' TNumber]),
      req ''subscription'' (TUnion Subscription TNull)]"

definition ActivityItem :: "ty" where
  "ActivityItem = TObject
     [req ''id'' TString,
      req ''type'' (TLits [''message'', ''user'', ''alert'', ''system'']),
      req ''action'' TString, req ''description'' TString, opt ''user'' TString,
      req ''timestamp'' TString, opt ''metadata'' (TRecord TUnknown)]"

definition ApiKey :: "ty" where
  "ApiKey = TObject
     [req ''id'' TString, req ''label'' TString, opt ''api_key'' TString,
      req ''scopes'' (TArray TString), opt ''expires_at'' TString,
      req ''created_at'' TString, opt ''revoked_at'' TString]"

definition FilterState :: "ty" where
  "FilterState = TObject
     [req ''search'' TString, opt ''status'' TString, opt ''role'' TString,
      opt ''dateFrom'' TString, opt ''dateTo'' TString, req ''sortBy'' TString,
      req ''sortOrder'' (TLits [''asc'', ''desc''])]"

definition BIDashboard :: "ty" where
  "BIDashboard = TObject
     [req ''total_accounts'' TNumber, req ''active_accounts'' TNumber,
      req ''total_devices'' TNumber, req ''online_devices'' TNumber,
      req ''total_messages'' TNumber, req ''total_delivered'' TNumber,
      req ''total_failed'' TNumber, req ''total_revenue'' TNumber,
      req ''account_growth'' (TArray (TObject [req ''date'' TString, req ''count'' TNumber])),
      req ''top_accounts'' (TArray (TObject [req ''account_id'' TString, req ''account_name'' TString, req ''total_sent'' TNumber, req ''delivered'' TNumber, req ''failed'' TNumber])),
      req ''device_fleet'' (TArray (TObject [req ''status'' TString, req ''count'' TNumber])),
      req ''routing_breakdown'' (TArray (TObject [req ''strategy'' TString, req ''count'' TNumber])),
      req ''type_breakdown'' (TArray (TObject [req ''type'' TString, req ''count'' TNumber])),
      req ''hourly_distribution'' (TArray (TObject [req ''hour'' TNumber, req ''count'' TNumber])),
      req ''delivery_trend'' (TArray (TObject [req ''date'' TString, req ''count'' TNumber])),
      req ''revenue_by_plan'' (TArray (TObject [req ''plan_id'' TString, req ''plan_name'' TString, req ''count'' TNumber, req ''revenue'' TNumber]))]"

section \<open>Types of the API client\<close>

definition OnlineDevice :: "ty" where
  "OnlineDevice = TObject
     [req ''id'' TString, req ''name'' TString, req ''phone_number'' TString,
      req ''carrier'' TString, req ''sim_slot'' TNumber, req ''status'' TString]"

section \<open>Types of the authentication services\<close>

definition UserSession :: "ty" where
  "UserSession = TObject
     [req ''id'' TString, req ''user_id'' TString, req ''user_type'' TString,
      req ''ip_address'' TString, req ''user_agent'' TString, req ''last_active'' TString,
      req ''created_at'' TString, opt ''revoked_at'' TString]"

definition ApiKeyInfo :: "ty" where
  "ApiKeyInfo = TObject
     [req ''id'' TString, req ''label'' TString, req ''scopes'' (TArray TString),
      opt ''expires_at'' TString, opt ''revoked_at'' TString, req ''created_at'' TString,
      req ''request_count'' TNumber, opt ''last_used_at'' TString]"

definition ApiKeyCreateResult :: "ty" where
  "ApiKeyCreateResult = TObject
     [req ''id'' TString, req ''label'' TString, req ''api_key'' TString,
      req ''scopes'' (TArray TString), opt ''expires_at'' TString,
      req ''created_at'' TString]"

section \<open>Types of the dashboard services\<close>

definition BulkSendResult :: "ty" where
  "BulkSendResult = TObject
     [req ''recipient'' TString, req ''message_id'' TString, req ''status'' TString,
      opt ''error'' TString]"

definition BulkSendResponse :: "ty" where
  "BulkSendResponse = TObject
     [req ''total'' TNumber, req ''sent'' TNumber, req ''results'' (TArray BulkSendResult),
      req ''created_at'' TString]"

definition PaymentConfig :: "ty" where
  "PaymentConfig = TObject
     [req ''id'' TString, req ''method'' TString, req ''label'' TString,
      req ''details'' (TRecord TUnknown), req ''enabled'' TBoolean,
      req ''created_at'' TString, req ''updated_at'' TString]"

definition PaymentRequest :: "ty" where
  "PaymentRequest = TObject
     [req ''id'' TString, req ''account_id'' TString, req ''account_name'' TString,
      req ''plan_id'' TString, req ''plan_name'' TString, req ''billing_cycle'' TString,
      req ''payment_method'' TString, req ''amount'' TNumber, req ''proof_url'' TString,
      req ''status'' TString, req ''reviewed_by'' (TUnion TString TNull),
      req ''reviewed_by_name'' TString, req ''reviewed_at'' (TUnion TString TNull),
      req ''review_notes'' TString, req ''created_at'' TString, req ''updated_at'' TString]"

definition SubscriptionRequest :: "ty" where
  "SubscriptionRequest = TObject
     [req ''id'' TString, req ''account_id'' TString, req ''account_name'' TString,
      req ''requested_plan'' TString, req ''requested_plan_name'' TString,
      req ''requested_billing_cycle'' TString, req ''current_plan'' TString,
      req ''current_plan_name'' TString, req ''reason'' TString, req ''status'' TString,
      req ''reviewed_by'' (TUnion TString TNull), req ''reviewed_by_name'' TString,
      req ''reviewed_at'' (TUnion TString TNull), req ''review_notes'' TString,
      req ''created_at'' TString, req ''updated_at'' TString]"

definition UserPreferences :: "ty" where
  "UserPreferences = TObject
     [req ''email_notifications'' TBoolean, req ''sms_notifications'' TBoolean,
      req ''webhook_notifications'' TBoolean, req ''billing_alerts'' TBoolean,
      req ''security_alerts'' TBoolean, req ''two_fa_enabled'' TBoolean]"

definition KycSubmission :: "ty" where
  "KycSubmission = TObject
     [req ''id'' TString, req ''user_id'' TString, req ''user_email'' TString,
      req ''user_name'' TString, req ''full_name'' TString, req ''document_type'' TString,
      req ''document_number'' TString, req ''document_url'' TString, req ''status'' TString,
      req ''reviewed_by'' (TUnion TString TNull), req ''reviewed_at'' (TUnion TString TNull),
      req ''created_at'' TString]"

definition WebhookTestResult :: "ty" where
  "WebhookTestResult = TObject
     [req ''status_code'' TNumber, req ''response_body'' TString, opt ''error'' TString]"

definition AIConfig :: "ty" where
  "AIConfig = TObject
     [req ''id'' TString, req ''provider'' TString, req ''label'' TString,
      req ''endpoint_url'' TString, req ''model'' TString, req ''has_api_key'' TBoolean,
      req ''is_active'' TBoolean, opt ''created_by'' TString, req ''created_at'' TString,
      req ''updated_at'' TString]"

definition AIConfigChangeRequest :: "ty" where
  "AIConfigChangeRequest = TObject
     [req ''id'' TString, req ''requested_by'' TString, req ''requested_by_name'' TString,
      req ''config_type'' TString, req ''action'' TString, opt ''config_id'' TString,
      req ''payload'' (TRecord TUnknown), req ''status'' TString,
      opt ''reviewed_by'' TString, req ''reviewed_by_name'' TString,
      req ''review_notes'' TString, req ''created_at'' TString, opt ''reviewed_at'' TString]"

definition AIGeneratedTemplate :: "ty" where
  "AIGeneratedTemplate = TObject
     [req ''name'' TString, req ''body'' TString, req ''variables'' (TArray TString)]"

lemmas type_defs =
  ApiResponse_def LoginRequest_def LoginResponse_def ApiError_def
  PaginatedResponse_def User_def Account_def DashboardStats_def
  ChartDataPoint_def DailyChartData_def AnalyticsDaily_def Device_def
  Webhook_def WebhookDelivery_def Template_def Plan_def
  PlanChangeRequest_def Subscription_def CircuitBreakerEvent_def DeadLetter_def
  FraudFlag_def FeatureCatalogItem_def Message_def MemberDashboard_def
  ActivityItem_def ApiKey_def FilterState_def BIDashboard_def
  OnlineDevice_def UserSession_def ApiKeyInfo_def ApiKeyCreateResult_def
  BulkSendResult_def BulkSendResponse_def PaymentConfig_def PaymentRequest_def
  SubscriptionRequest_def UserPreferences_def KycSubmission_def WebhookTestResult_def
  AIConfig_def AIConfigChangeRequest_def AIGeneratedTemplate_def

end
