(* ===== verification/ApiClient.thy ===== *)
theory ApiClient
  imports AuthStore Types
begin

text \<open>
  The HTTP client (\<open>frontend/src/services/api.ts\<close>): the two interceptors the module installs
  on the axios instance, a request sent through them, and the shape every service function
  of the front end has on top of it (one request, then a handler of the response body). The
  network, the server and axios itself are the parameter \<open>tr\<close> of type \<open>transport\<close>.
\<close>

section \<open>Requests and the interceptors\<close>

datatype http_method = GET | POST | PUT | DELETE

record request =
  rq_method :: http_method
  rq_url :: string
  rq_params :: jsval
  rq_body :: jsval

record wire = request +
  wr_content_type :: string
  wr_authorization :: "string option"

type_synonym transport = "wire \<Rightarrow> js_error + jsval"

definition get_req :: "string \<Rightarrow> request" where
  "get_req url = \<lparr>rq_method = GET, rq_url = url, rq_params = JUndef, rq_body = JUndef\<rparr>"

definition get_params :: "string \<Rightarrow> jsval \<Rightarrow> request" where
  "get_params url ps = \<lparr>rq_method = GET, rq_url = url, rq_params = ps, rq_body = JUndef\<rparr>"

definition post_req :: "string \<Rightarrow> jsval \<Rightarrow> request" where
  "post_req url body = \<lparr>rq_method = POST, rq_url = url, rq_params = JUndef, rq_body = body\<rparr>"

definition put_req :: "string \<Rightarrow> jsval \<Rightarrow> request" where
  "put_req url body = \<lparr>rq_method = PUT, rq_url = url, rq_params = JUndef, rq_body = body\<rparr>"

definition delete_req :: "string \<Rightarrow> request" where
  "delete_req url = \<lparr>rq_method = DELETE, rq_url = url, rq_params = JUndef, rq_body = JUndef\<rparr>"

lemmas req_defs = get_req_def get_params_def post_req_def put_req_def delete_req_def

text \<open>\<open>useAuthStore.getState().k\<close>, read as a value: only its truthiness and text are used.\<close>

definition state_value :: "auth_state \<Rightarrow> string \<Rightarrow> jsval" where
  "state_value s k = (case store_member s k of Data v \<Rightarrow> v | Action \<Rightarrow> JObj [] | Missing \<Rightarrow> JUndef)"

definition request_interceptor :: "auth_state \<Rightarrow> storage \<Rightarrow> request \<Rightarrow> wire" where
  "request_interceptor s local rq =
     (let token = state_value s ''token'';
          api_key = get_item local ''api_key''
      in \<lparr>rq_method = rq_method rq, rq_url = rq_url rq, rq_params = rq_params rq, rq_body = rq_body rq,
          wr_content_type = ''application/json'',
          wr_authorization =
            (if truthy token then Some (''Bearer '' @ to_str token)
             else if truthy_text api_key then Some (''Bearer '' @ the api_key)
             else None)\<rparr>)"

text \<open>
  \<open>useAuthStore.getState().k()\<close>, called without arguments: a name that is no action of the
  store throws, an action runs with its arguments \<open>undefined\<close> (which is falsy as a loading
  flag; the email of \<open>start2FA\<close> is kept as the empty text).
\<close>

definition call_store :: "string \<Rightarrow> auth_world \<Rightarrow> js_error + auth_world" where
  "call_store k w =
     (case store_member (fst w) k of
        Action \<Rightarrow>
          Inr (if k = ''logout'' then logout w
               else if k = ''cancel2FA'' then cancel2FA w
               else if k = ''hydrate'' then hydrate w
               else if k = ''setLoading'' then setLoading False w
               else if k = ''setUser'' then setUser JUndef w
               else if k = ''login'' then login JUndef JUndef JUndef w
               else if k = ''complete2FA'' then complete2FA JUndef JUndef JUndef w
               else start2FA '''' JUndef w)
      | _ \<Rightarrow> Inl (TypeErr (''useAuthStore.getState().'' @ k @ '' is not a function'')))"

fun err_status :: "js_error \<Rightarrow> nat option" where
  "err_status (AxiosErr st u m) = st"
| "err_status _ = None"

fun err_url :: "js_error \<Rightarrow> string option" where
  "err_url (AxiosErr st u m) = u"
| "err_url _ = None"

text \<open>
  The rejection handler: what the caller's promise is rejected with, and the store afterwards.
  An exception thrown inside the handler replaces the error it was handling.
\<close>

definition response_interceptor :: "js_error \<Rightarrow> auth_world \<Rightarrow> js_error \<times> auth_world" where
  "response_interceptor err w =
     (if err_status err = Some 401 then
        (let isLogin = (case err_url err of None \<Rightarrow> False | Some u \<Rightarrow> str_includes u ''/auth/login'')
         in if \<not> isLogin then
              (case call_store ''clearAuth'' w of
                 Inl e \<Rightarrow> (e, w)
               | Inr w' \<Rightarrow> (err, w'))
            else (err, w))
      else (err, w))"

definition api_send :: "transport \<Rightarrow> storage \<Rightarrow> request \<Rightarrow> auth_world \<Rightarrow> (js_error + jsval) \<times> auth_world" where
  "api_send tr local rq w =
     (case tr (request_interceptor (fst w) local rq) of
        Inr body \<Rightarrow> (Inr body, w)
      | Inl err \<Rightarrow> (case response_interceptor err w of (e, w') \<Rightarrow> (Inl e, w')))"

section \<open>Service functions\<close>

text \<open>
  A service function sends one request and continues with the settled promise; \<open>on_body\<close> is the
  continuation of an \<open>await\<close> outside a \<open>try\<close>.
\<close>

datatype service = Service (sv_request: request) (sv_then: "js_error + jsval \<Rightarrow> js_error + jsval")

definition on_body :: "(jsval \<Rightarrow> js_error + jsval) \<Rightarrow> js_error + jsval \<Rightarrow> js_error + jsval" where
  "on_body h r = sbind r h"

definition run_service ::
  "transport \<Rightarrow> storage \<Rightarrow> service \<Rightarrow> auth_world \<Rightarrow> (js_error + jsval) \<times> auth_world" where
  "run_service tr local sv w =
     (case api_send tr local (sv_request sv) w of (r, w') \<Rightarrow> (sv_then sv r, w'))"

text \<open>\<open>throw new Error(res.data.error ?? msg)\<close>.\<close>

definition throw_api :: "string \<Rightarrow> jsval \<Rightarrow> js_error + jsval" where
  "throw_api msg body =
     sbind (js_get body ''error'') (\<lambda>e. Inl (JsError (to_str (coalesce e (JStr msg)))))"

text \<open>
  The guard \<open>!res.data.success || !res.data.data\<close> and the guard \<open>!res.data.success\<close>, each
  followed by its \<open>throw\<close>; the continuation gets the body.
\<close>

definition guard_data ::
  "(jsval \<Rightarrow> js_error + jsval) \<Rightarrow> (jsval \<Rightarrow> js_error + jsval) \<Rightarrow> jsval \<Rightarrow> js_error + jsval" where
  "guard_data thr k body =
     sbind (js_get body ''success'') (\<lambda>s.
       if \<not> truthy s then thr body
       else sbind (js_get body ''data'') (\<lambda>d. if \<not> truthy d then thr body else k d))"

definition guard_success ::
  "(jsval \<Rightarrow> js_error + jsval) \<Rightarrow> (jsval \<Rightarrow> js_error + jsval) \<Rightarrow> jsval \<Rightarrow> js_error + jsval" where
  "guard_success thr k body =
     sbind (js_get body ''success'') (\<lambda>s. if \<not> truthy s then thr body else k body)"

abbreviation need_data :: "string \<Rightarrow> (jsval \<Rightarrow> js_error + jsval) \<Rightarrow> jsval \<Rightarrow> js_error + jsval" where
  "need_data msg \<equiv> guard_data (throw_api msg)"

abbreviation need_success :: "string \<Rightarrow> (jsval \<Rightarrow> js_error + jsval) \<Rightarrow> jsval \<Rightarrow> js_error + jsval" where
  "need_success msg \<equiv> guard_success (throw_api msg)"

text \<open>\<open>throw new Error(msg)\<close>, where the source does not look at the body's error.\<close>

definition throw_fixed :: "string \<Rightarrow> jsval \<Rightarrow> js_error + jsval" where
  "throw_fixed msg body = Inl (JsError msg)"

definition return_void :: "jsval \<Rightarrow> js_error + jsval" where
  "return_void v = Inr JUndef"

definition data_service :: "request \<Rightarrow> string \<Rightarrow> service" where
  "data_service rq msg = Service rq (on_body (need_data msg Inr))"

definition void_service :: "request \<Rightarrow> string \<Rightarrow> service" where
  "void_service rq msg = Service rq (on_body (need_success msg return_void))"

definition getOnlineDevices :: service where
  "getOnlineDevices = data_service (get_req ''/member/devices?online_only=true'') ''Failed to load devices''"

section \<open>The envelope contract\<close>

text \<open>
  What the callers of a service rely on: the body decides between a value and an exception,
  and a rejected request is passed on. The contract is stated once and holds of both guards.
\<close>

locale envelope =
  fixes handle :: "jsval \<Rightarrow> js_error + jsval"
    and accepts :: "jsval \<Rightarrow> bool"
    and result :: "jsval \<Rightarrow> jsval"
  assumes handle_accepted: "accepts b \<Longrightarrow> handle b = Inr (result b)"
    and handle_rejected: "\<not> accepts b \<Longrightarrow> \<exists>e. handle b = Inl e"
begin

lemma value_iff: "handle b = Inr v \<longleftrightarrow> accepts b \<and> v = result b"
  using handle_accepted handle_rejected by (cases "accepts b") fastforce+

lemma service_value:
  "on_body handle r = Inr v \<longleftrightarrow> (\<exists>b. r = Inr b \<and> accepts b \<and> v = result b)"
  by (auto simp: on_body_def sbind_eq_Inr value_iff)

lemma rejection_passed_on: "on_body handle (Inl e) = Inl e"
  by (simp add: on_body_def)

end

lemma throw_api_throws: "\<exists>e. throw_api msg b = Inl e"
  by (cases "js_get b ''error''") (auto simp: throw_api_def)

definition body_ok :: "jsval \<Rightarrow> bool" where
  "body_ok b \<longleftrightarrow> truthy (opt_get b ''success'')"

definition body_data :: "jsval \<Rightarrow> bool" where
  "body_data b \<longleftrightarrow> truthy (opt_get b ''success'') \<and> truthy (opt_get b ''data'')"

lemma js_get_result: "js_get b k = Inr v \<Longrightarrow> opt_get b k = v"
  by (simp add: opt_get_def)

lemma js_get_throws: "js_get b k = Inl e \<Longrightarrow> opt_get b k' = JUndef"
  by (cases b) (auto simp: opt_get_def)

lemma js_get_nullish: "js_get b k = Inl e \<Longrightarrow> \<exists>e'. js_get b k' = Inl e'"
  by (cases b) auto

interpretation data_env: envelope "need_data msg Inr" body_data "\<lambda>b. opt_get b ''data''" for msg
proof unfold_locales
  fix b assume "body_data b"
  then show "need_data msg Inr b = Inr (opt_get b ''data'')"
    by (cases "js_get b ''success''"; cases "js_get b ''data''")
      (auto simp: guard_data_def body_data_def opt_get_def)
next
  fix b assume "\<not> body_data b"
  then show "\<exists>e. need_data msg Inr b = Inl e"
    using throw_api_throws [of msg b]
    by (cases "js_get b ''success''"; cases "js_get b ''data''")
      (auto simp: guard_data_def body_data_def opt_get_def)
qed

interpretation void_env: envelope "need_success msg return_void" body_ok "\<lambda>b. JUndef" for msg
proof unfold_locales
  fix b assume "body_ok b"
  then show "need_success msg return_void b = Inr JUndef"
    by (cases "js_get b ''success''") (auto simp: guard_success_def return_void_def body_ok_def opt_get_def)
next
  fix b assume "\<not> body_ok b"
  then show "\<exists>e. need_success msg return_void b = Inl e"
    using throw_api_throws [of msg b]
    by (cases "js_get b ''success''") (auto simp: guard_success_def body_ok_def opt_get_def)
qed

section \<open>Properties of the client\<close>

lemma no_token_field [simp]: "state_value s ''token'' = JUndef"
  by (simp add: state_value_def store_member_def)

lemma no_clearAuth: "call_store ''clearAuth'' w = Inl (TypeErr ''useAuthStore.getState().clearAuth is not a function'')"
  by (simp add: call_store_def store_member_def)


text \<open>
  A request that the server answers with status 401, other than a login, is rejected with
  the \<open>TypeError\<close> of the missing action \<open>clearAuth\<close> in place of the HTTP error, and the
  authentication store and the session storage stay exactly as they were.
\<close>

theorem unauthorized_keeps_the_session:
  assumes "tr (request_interceptor (fst w) local rq) = Inl (AxiosErr (Some 401) (Some url) m)"
    and "\<not> str_includes url ''/auth/login''"
  shows "api_send tr local rq w
    = (Inl (TypeErr ''useAuthStore.getState().clearAuth is not a function''), w)"
  using assms by (simp add: api_send_def response_interceptor_def no_clearAuth)

theorem unauthorized_keeps_the_session_witness:
  "api_send (\<lambda>wr. Inl (AxiosErr (Some 401) (Some ''/admin/stats'') ''m'')) Map.empty
     (get_req ''/admin/stats'') (setUser sample_user (auth_initial, Map.empty))
   = (Inl (TypeErr ''useAuthStore.getState().clearAuth is not a function''),
      setUser sample_user (auth_initial, Map.empty))"
  by (rule unauthorized_keeps_the_session) (simp, code_simp)

text \<open>
  Apart from such a 401 the client is transparent: a response body, an error with another
  status, without a response, or of a login request reaches the caller unchanged; and no
  outcome of a request at all changes the authentication store or the session.
\<close>

theorem client_is_transparent:
  "snd (api_send tr local rq w) = w \<and>
   (case tr (request_interceptor (fst w) local rq) of
      Inr body \<Rightarrow> fst (api_send tr local rq w) = Inr body
    | Inl err \<Rightarrow>
        err_status err \<noteq> Some 401 \<or> (\<exists>u. err_url err = Some u \<and> str_includes u ''/auth/login'')
          \<longrightarrow> fst (api_send tr local rq w) = Inl err)"
  by (auto simp: api_send_def response_interceptor_def no_clearAuth split: sum.splits option.splits)

theorem client_is_transparent_witness:
  "fst (api_send (\<lambda>wr. Inl (AxiosErr (Some 500) None ''boom'')) Map.empty (get_req ''/plans'') (auth_initial, Map.empty))
     = Inl (AxiosErr (Some 500) None ''boom'')"
  using client_is_transparent [of "\<lambda>wr. Inl (AxiosErr (Some 500) None ''boom'')" Map.empty
      "get_req ''/plans''" "(auth_initial, Map.empty)"]
  by simp

end
