(* ===== verification/AuthService.thy ===== *)
theory AuthService
  imports ApiClient
begin

text \<open>
  The authentication services (\<open>frontend/src/services/auth.ts\<close>): sign-in, registration, the
  second factor, the profile, the user's sessions and API keys. Each definition is the
  request of its function together with what the function makes of the response. The
  arguments are the values the callers pass; ids are spliced into the path as they are.
\<close>

definition obj1 :: "string \<Rightarrow> jsval \<Rightarrow> jsval" where
  "obj1 k v = JObj [(k, v)]"

definition login_service :: "jsval \<Rightarrow> service" where
  "login_service credentials = data_service (post_req ''/auth/login'' credentials) ''Login failed''"

definition register :: "jsval \<Rightarrow> service" where
  "register form = data_service (post_req ''/auth/register'' form) ''Registration failed''"

definition logout_service :: service where
  "logout_service = Service (post_req ''/auth/logout'' JUndef) (\<lambda>r. Inr JUndef)"

definition refreshToken :: "string \<Rightarrow> service" where
  "refreshToken token = Service (post_req ''/auth/refresh'' (obj1 ''refreshToken'' (JStr token)))
     (on_body (guard_data (throw_fixed ''Token refresh failed'') (\<lambda>d. js_get d ''token'')))"

definition getProfile :: service where
  "getProfile = Service (get_req ''/auth/profile'')
     (on_body (guard_data (throw_fixed ''Failed to get profile'') Inr))"

definition updateProfile :: "jsval \<Rightarrow> service" where
  "updateProfile form = Service (put_req ''/auth/profile'' form)
     (on_body (guard_success (throw_fixed ''Failed to update profile'') (\<lambda>b. js_get b ''data'')))"

definition changePassword :: "string \<Rightarrow> string \<Rightarrow> service" where
  "changePassword current new = Service
     (post_req ''/auth/change-password''
        (JObj [(''old_password'', JStr current), (''new_password'', JStr new)]))
     (on_body (need_success ''Failed to change password'' Inr))"

definition verify2FALogin :: "jsval \<Rightarrow> string \<Rightarrow> service" where
  "verify2FALogin token code = data_service
     (post_req ''/auth/login/2fa'' (JObj [(''token'', token), (''code'', JStr code)]))
     ''2FA verification failed''"

text \<open>\<open>res.data.data.data || []\<close>: the list inside a page, the page being truthy.\<close>

definition page_items :: "jsval \<Rightarrow> js_error + jsval" where
  "page_items d = Inr (js_or (opt_get d ''data'') (JArr []))"

definition getSessions :: service where
  "getSessions = Service (get_req ''/auth/sessions'')
     (on_body (guard_data (throw_fixed ''Failed to fetch sessions'') page_items))"

definition revokeSession :: "string \<Rightarrow> service" where
  "revokeSession i = void_service (delete_req (''/auth/sessions/'' @ i)) ''Failed to revoke session''"

definition revokeAllSessions :: service where
  "revokeAllSessions = void_service (delete_req ''/auth/sessions'') ''Failed to revoke sessions''"

definition listApiKeys :: service where
  "listApiKeys = Service (get_req ''/account/api-keys'')
     (on_body (guard_data (throw_fixed ''Failed to fetch API keys'') page_items))"

definition createApiKey :: "jsval \<Rightarrow> service" where
  "createApiKey form = data_service (post_req ''/account/api-keys'' form) ''Failed to create API key''"

definition revokeApiKey :: "string \<Rightarrow> service" where
  "revokeApiKey i = void_service (delete_req (''/account/api-keys/'' @ i)) ''Failed to revoke API key''"

lemmas auth_service_defs =
  login_service_def register_def logout_service_def refreshToken_def getProfile_def
  updateProfile_def changePassword_def verify2FALogin_def getSessions_def revokeSession_def
  revokeAllSessions_def listApiKeys_def createApiKey_def revokeApiKey_def

end
