(* ===== verification/DashboardService.thy ===== *)
theory DashboardService
  imports AuthService
begin

text \<open>
  The dashboard services (\<open>frontend/src/services/dashboard.ts\<close>), in the order of the source:
  one definition per exported function, giving its request and what it makes of the response.
  Objects the callers build (\<open>form\<close>, \<open>ps\<close> for query parameters, \<open>ids\<close>) are passed as values,
  an optional argument as \<open>undefined\<close> when it is left out.
\<close>

definition arr_or_empty :: "jsval \<Rightarrow> jsval" where
  "arr_or_empty v = (if is_arr v then v else JArr [])"

text \<open>
  The object the paginated services rebuild from a page \<open>d\<close> (which the guard before it has found
  truthy, so that its properties can be read), with the page and page size to fall back to.
\<close>

definition read_page :: "jsval \<Rightarrow> jsval \<Rightarrow> jsval \<Rightarrow> js_error + jsval" where
  "read_page page psize d = Inr (JObj
     [(''data'', arr_or_empty (opt_get d ''data'')),
      (''total'', coalesce (opt_get d ''total'') (JNum 0)),
      (''page'', coalesce (opt_get d ''page'') page),
      (''page_size'', coalesce (opt_get d ''page_size'') psize),
      (''total_pages'', coalesce (opt_get d ''total_pages'') (JNum 0))])"

section \<open>Dashboard, accounts and analytics\<close>

definition getDashboardStats :: service where
  "getDashboardStats = data_service (get_req ''/admin/stats'') ''Failed to load stats''"

definition getDailyChartData :: service where
  "getDailyChartData = data_service
     (get_req ''/admin/charts/daily'')
     ''Failed to load chart data''"

definition getActivityFeed :: service where
  "getActivityFeed = data_service (get_req ''/admin/activity'') ''Failed to load activity''"

definition getAccounts :: "jsval \<Rightarrow> service" where
  "getAccounts ps = Service
     (get_params ''/admin/accounts'' ps)
     (on_body (need_data ''Failed to load accounts'' (read_page (coalesce (opt_get ps ''page'') (JNum 1)) (coalesce (opt_get ps ''pageSize'') (JNum 20)))))"

definition suspendAccount :: "string \<Rightarrow> service" where
  "suspendAccount i = void_service
     (post_req (''/admin/accounts/'' @ i @ ''/suspend'') JUndef)
     ''Failed to suspend''"

definition activateAccount :: "string \<Rightarrow> service" where
  "activateAccount i = void_service
     (post_req (''/admin/accounts/'' @ i @ ''/activate'') JUndef)
     ''Failed to activate''"

definition deleteAccount :: "string \<Rightarrow> service" where
  "deleteAccount i = void_service (delete_req (''/admin/accounts/'' @ i)) ''Failed to delete''"

definition getAnalytics :: "jsval \<Rightarrow> service" where
  "getAnalytics ps = Service
     (get_params ''/admin/analytics'' ps)
     (on_body (need_success ''Failed to load analytics''
       (\<lambda>b. sbind (js_get b ''data'') (\<lambda>v. Inr (arr_or_empty v)))))"

section \<open>Webhooks\<close>

definition getWebhooks :: "jsval \<Rightarrow> service" where
  "getWebhooks ps = Service
     (get_params ''/admin/webhooks''
       (JObj [(''page'', coalesce (opt_get ps ''page'') (JNum 1)),
              (''pageSize'', coalesce (opt_get ps ''pageSize'') (JNum 50))]))
     (on_body (need_data ''Failed to load webhooks'' (read_page (JNum 1) (JNum 50))))"

definition createWebhook :: "jsval \<Rightarrow> service" where
  "createWebhook form = data_service (post_req ''/webhooks'' form) ''Failed to create webhook''"

definition deleteWebhook :: "string \<Rightarrow> service" where
  "deleteWebhook i = void_service (delete_req (''/webhooks/'' @ i)) ''Failed to delete webhook''"

definition rotateWebhookSecret :: "string \<Rightarrow> service" where
  "rotateWebhookSecret i = Service
     (post_req (''/webhooks/'' @ i @ ''/rotate-secret'') JUndef)
     (on_body (need_data ''Failed to rotate secret'' (\<lambda>d. js_get d ''secret'')))"

definition bulkDeleteWebhooks :: "jsval \<Rightarrow> service" where
  "bulkDeleteWebhooks ids = void_service
     (post_req ''/admin/webhooks/bulk-delete'' (obj1 ''ids'' ids))
     ''Bulk delete failed''"

section \<open>Templates\<close>

definition getTemplates :: "jsval \<Rightarrow> service" where
  "getTemplates ps = Service
     (get_params ''/admin/templates''
       (JObj (obj_spread [(''page'', coalesce (opt_get ps ''page'') (JNum 1)),
                          (''pageSize'', coalesce (opt_get ps ''pageSize'') (JNum 50))]
          (if truthy (opt_get ps ''status'') then [(''status'', opt_get ps ''status'')] else []))))
     (on_body (need_data ''Failed to load templates'' (read_page (JNum 1) (JNum 50))))"

definition createTemplate :: "jsval \<Rightarrow> service" where
  "createTemplate form = data_service (post_req ''/templates'' form) ''Failed to create template''"

definition deleteTemplate :: "string \<Rightarrow> service" where
  "deleteTemplate i = void_service
     (delete_req (''/templates/'' @ i))
     ''Failed to delete template''"

definition getPendingTemplates :: service where
  "getPendingTemplates = data_service
     (get_req ''/admin/templates/pending'')
     ''Failed to load pending templates''"

definition approveTemplate :: "string \<Rightarrow> service" where
  "approveTemplate i = void_service
     (post_req (''/admin/templates/'' @ i @ ''/approve'') JUndef)
     ''Failed to approve template''"

definition rejectTemplate :: "string \<Rightarrow> service" where
  "rejectTemplate i = void_service
     (post_req (''/admin/templates/'' @ i @ ''/reject'') JUndef)
     ''Failed to reject template''"

definition bulkDeleteTemplates :: "jsval \<Rightarrow> service" where
  "bulkDeleteTemplates ids = void_service
     (post_req ''/admin/templates/bulk-delete'' (obj1 ''ids'' ids))
     ''Bulk delete failed''"

definition bulkApproveTemplates :: "jsval \<Rightarrow> service" where
  "bulkApproveTemplates ids = void_service
     (post_req ''/admin/templates/bulk-approve'' (obj1 ''ids'' ids))
     ''Bulk approve failed''"

definition bulkRejectTemplates :: "jsval \<Rightarrow> service" where
  "bulkRejectTemplates ids = void_service
     (post_req ''/admin/templates/bulk-reject'' (obj1 ''ids'' ids))
     ''Bulk reject failed''"

section \<open>Plans, circuit breakers and dead letters\<close>

definition getPlans :: service where
  "getPlans = Service
     (get_req ''/plans'')
     (on_body (need_data ''Failed to load plans'' page_items))"

definition createPlan :: "jsval \<Rightarrow> service" where
  "createPlan form = data_service (post_req ''/plans'' form) ''Failed to create plan''"

definition updatePlan :: "string \<Rightarrow> jsval \<Rightarrow> service" where
  "updatePlan i form = data_service (put_req (''/plans/'' @ i) form) ''Failed to update plan''"

definition deletePlan :: "string \<Rightarrow> service" where
  "deletePlan i = void_service (delete_req (''/plans/'' @ i)) ''Failed to delete plan''"

definition getCircuitBreakers :: service where
  "getCircuitBreakers = data_service
     (get_req ''/admin/circuit-breakers'')
     ''Failed to load circuit breakers''"

definition resetCircuitBreaker :: "string \<Rightarrow> string \<Rightarrow> service" where
  "resetCircuitBreaker scope i = void_service
     (post_req (''/admin/circuit-breakers/'' @ scope @ ''/'' @ i @ ''/reset'') JUndef)
     ''Failed to reset circuit breaker''"

definition getDeadLetters :: service where
  "getDeadLetters = Service
     (get_req ''/admin/dead-letters'')
     (on_body (guard_data (\<lambda>b. Inr (JArr []))
       (\<lambda>wrapper. Inr (if is_arr wrapper then wrapper else coalesce (opt_get wrapper ''data'') (JArr [])))))"

definition retryDeadLetter :: "string \<Rightarrow> service" where
  "retryDeadLetter i = void_service
     (post_req (''/admin/dead-letters/'' @ i @ ''/retry'') JUndef)
     ''Failed to retry dead letter''"

section \<open>Sending messages\<close>

definition sendSMS :: "jsval \<Rightarrow> service" where
  "sendSMS form = data_service (post_req ''/member/send'' form) ''Send failed''"

definition bulkSendSMS :: "jsval \<Rightarrow> service" where
  "bulkSendSMS form = data_service (post_req ''/send/bulk'' form) ''Bulk send failed''"

definition scheduleSendSMS :: "jsval \<Rightarrow> service" where
  "scheduleSendSMS form = data_service (post_req ''/send/schedule'' form) ''Schedule failed''"

section \<open>Fraud, smishing and abuse flags\<close>

definition getFraudFlags :: service where
  "getFraudFlags = Service
     (get_req ''/admin/fraud-flags'')
     (on_body (need_data ''Failed to load fraud flags'' page_items))"

definition reviewFraudFlag :: "string \<Rightarrow> service" where
  "reviewFraudFlag i = void_service
     (post_req (''/admin/fraud-flags/'' @ i @ ''/review'') JUndef)
     ''Failed to review fraud flag''"

definition getSmishingFlags :: service where
  "getSmishingFlags = Service
     (get_req ''/admin/smishing-flags'')
     (on_body (need_data ''Failed to load smishing flags'' page_items))"

definition getSmishingFlagsCount :: service where
  "getSmishingFlagsCount = Service
     (get_req ''/admin/smishing-flags/count'')
     (on_body (need_success ''Failed to load smishing flags count''
       (\<lambda>b. sbind (js_get b ''data'') (\<lambda>d.
        if d = JUndef then throw_api ''Failed to load smishing flags count'' b else js_get d ''count''))))"

definition bulkReviewSmishingFlags :: "jsval \<Rightarrow> service" where
  "bulkReviewSmishingFlags ids = void_service
     (post_req ''/admin/smishing-flags/bulk-review'' (obj1 ''ids'' ids))
     ''Failed to bulk review''"

definition reviewSmishingFlag :: "string \<Rightarrow> service" where
  "reviewSmishingFlag i = void_service
     (post_req (''/admin/fraud-flags/'' @ i @ ''/review'') JUndef)
     ''Failed to review smishing flag''"

definition getAbuseFlags :: service where
  "getAbuseFlags = Service
     (get_req ''/admin/abuse-flags'')
     (on_body (need_data ''Failed to load abuse flags'' page_items))"

section \<open>Users\<close>

definition getUsers :: "jsval \<Rightarrow> service" where
  "getUsers ps = data_service (get_params ''/admin/users'' ps) ''Failed to load users''"

definition getUser :: "string \<Rightarrow> service" where
  "getUser i = data_service (get_req (''/admin/users/'' @ i)) ''User not found''"

definition createUser :: "jsval \<Rightarrow> service" where
  "createUser form = data_service (post_req ''/admin/users'' form) ''Failed to create user''"

definition updateUser :: "string \<Rightarrow> jsval \<Rightarrow> service" where
  "updateUser i form = data_service
     (put_req (''/admin/users/'' @ i) form)
     ''Failed to update user''"

definition deleteUser :: "string \<Rightarrow> service" where
  "deleteUser i = void_service (delete_req (''/admin/users/'' @ i)) ''Failed to delete user''"

definition bulkDeleteUsers :: "jsval \<Rightarrow> service" where
  "bulkDeleteUsers ids = void_service
     (post_req ''/admin/users/bulk-delete'' (obj1 ''ids'' ids))
     ''Bulk delete failed''"

definition bulkUpdateUsers :: "jsval \<Rightarrow> jsval \<Rightarrow> service" where
  "bulkUpdateUsers ids form = void_service
     (post_req ''/admin/users/bulk-update'' (JObj [(''ids'', ids), (''data'', form)]))
     ''Bulk update failed''"

section \<open>Payment methods and payment requests\<close>

definition getPaymentConfigs :: service where
  "getPaymentConfigs = Service
     (get_req ''/admin/payment-configs'')
     (on_body (need_data ''Failed to load payment configs'' page_items))"

definition getEnabledPaymentConfigs :: service where
  "getEnabledPaymentConfigs = Service
     (get_req ''/payment-configs'')
     (on_body (need_data ''Failed to load payment configs'' page_items))"

definition upsertPaymentConfig :: "jsval \<Rightarrow> service" where
  "upsertPaymentConfig form = void_service
     (post_req ''/admin/payment-configs'' form)
     ''Failed to save payment config''"

definition updatePaymentConfig :: "string \<Rightarrow> jsval \<Rightarrow> service" where
  "updatePaymentConfig i form = void_service
     (put_req (''/admin/payment-configs/'' @ i) form)
     ''Failed to update payment config''"

definition getPaymentRequests :: "jsval \<Rightarrow> service" where
  "getPaymentRequests ps = data_service
     (get_params ''/admin/payment-requests'' ps)
     ''Failed to load payment requests''"

definition getMyPaymentRequests :: "jsval \<Rightarrow> service" where
  "getMyPaymentRequests ps = data_service
     (get_params ''/member/payment-requests'' ps)
     ''Failed to load payment requests''"

definition createPaymentRequest :: "jsval \<Rightarrow> service" where
  "createPaymentRequest form = void_service
     (post_req ''/member/payment-requests'' form)
     ''Failed to create payment request''"

definition approvePaymentRequest :: "string \<Rightarrow> jsval \<Rightarrow> service" where
  "approvePaymentRequest i notes = void_service
     (post_req (''/admin/payment-requests/'' @ i @ ''/approve'') (obj1 ''notes'' (js_or notes (JStr ''''))))
     ''Failed to approve''"

definition rejectPaymentRequest :: "string \<Rightarrow> jsval \<Rightarrow> service" where
  "rejectPaymentRequest i notes = void_service
     (post_req (''/admin/payment-requests/'' @ i @ ''/reject'') (obj1 ''notes'' (js_or notes (JStr ''''))))
     ''Failed to reject''"

section \<open>Subscription requests\<close>

definition getSubscriptionRequests :: "jsval \<Rightarrow> service" where
  "getSubscriptionRequests ps = data_service
     (get_params ''/admin/subscription-requests'' ps)
     ''Failed to load subscription requests''"

definition getMySubscriptionRequests :: "jsval \<Rightarrow> service" where
  "getMySubscriptionRequests ps = data_service
     (get_params ''/member/subscription-requests'' ps)
     ''Failed to load subscription requests''"

definition createSubscriptionRequest :: "jsval \<Rightarrow> service" where
  "createSubscriptionRequest form = void_service
     (post_req ''/member/subscription-requests'' form)
     ''Failed to create subscription request''"

definition approveSubscriptionRequest :: "string \<Rightarrow> jsval \<Rightarrow> service" where
  "approveSubscriptionRequest i notes = void_service
     (post_req (''/admin/subscription-requests/'' @ i @ ''/approve'') (obj1 ''notes'' (js_or notes (JStr ''''))))
     ''Failed to approve''"

definition rejectSubscriptionRequest :: "string \<Rightarrow> jsval \<Rightarrow> service" where
  "rejectSubscriptionRequest i notes = void_service
     (post_req (''/admin/subscription-requests/'' @ i @ ''/reject'') (obj1 ''notes'' (js_or notes (JStr ''''))))
     ''Failed to reject''"

section \<open>Preferences and identity checks\<close>

definition getPreferences :: service where
  "getPreferences = data_service (get_req ''/member/preferences'') ''Failed to load preferences''"

definition updatePreferences :: "jsval \<Rightarrow> service" where
  "updatePreferences form = void_service
     (put_req ''/member/preferences'' form)
     ''Failed to update preferences''"

definition getKycStatus :: service where
  "getKycStatus = data_service (get_req ''/member/kyc'') ''Failed to load KYC status''"

definition submitKyc :: "jsval \<Rightarrow> service" where
  "submitKyc form = void_service (post_req ''/member/kyc'' form) ''Failed to submit KYC''"

definition getKycSubmissions :: "jsval \<Rightarrow> service" where
  "getKycSubmissions ps = data_service
     (get_params ''/admin/kyc'' ps)
     ''Failed to load KYC submissions''"

definition approveKyc :: "string \<Rightarrow> jsval \<Rightarrow> service" where
  "approveKyc i notes = void_service
     (post_req (''/admin/kyc/'' @ i @ ''/approve'') (obj1 ''notes'' (js_or notes (JStr ''''))))
     ''Failed to approve KYC''"

definition rejectKyc :: "string \<Rightarrow> jsval \<Rightarrow> service" where
  "rejectKyc i notes = void_service
     (post_req (''/admin/kyc/'' @ i @ ''/reject'') (obj1 ''notes'' (js_or notes (JStr ''''))))
     ''Failed to reject KYC''"

section \<open>The second factor\<close>

definition get2FAStatus :: service where
  "get2FAStatus = data_service (get_req ''/auth/2fa/status'') ''Failed to load 2FA status''"

definition setup2FA :: service where
  "setup2FA = data_service (post_req ''/auth/2fa/setup'' JUndef) ''Failed to setup 2FA''"

definition verify2FA :: "string \<Rightarrow> service" where
  "verify2FA code = void_service
     (post_req ''/auth/2fa/verify'' (obj1 ''code'' (JStr code)))
     ''Failed to verify 2FA''"

definition disable2FA :: "string \<Rightarrow> service" where
  "disable2FA code = void_service
     (post_req ''/auth/2fa/disable'' (obj1 ''code'' (JStr code)))
     ''Failed to disable 2FA''"

section \<open>The feature catalogue\<close>

definition getFeatureCatalog :: service where
  "getFeatureCatalog = Service
     (get_req ''/feature-catalog'')
     (on_body (need_data ''Failed to load feature catalog'' page_items))"

definition getActiveFeatureCatalog :: service where
  "getActiveFeatureCatalog = Service
     (get_req ''/feature-catalog?active_only=true'')
     (on_body (need_data ''Failed to load feature catalog'' page_items))"

definition createFeatureCatalogItem :: "jsval \<Rightarrow> service" where
  "createFeatureCatalogItem form = data_service
     (post_req ''/admin/feature-catalog'' form)
     ''Failed to create feature''"

definition toggleFeatureCatalogItem :: "string \<Rightarrow> bool \<Rightarrow> service" where
  "toggleFeatureCatalogItem i active = void_service
     (put_req (''/admin/feature-catalog/'' @ i) (obj1 ''active'' (JBool active)))
     ''Failed to toggle feature''"

definition deleteFeatureCatalogItem :: "string \<Rightarrow> service" where
  "deleteFeatureCatalogItem i = void_service
     (delete_req (''/admin/feature-catalog/'' @ i))
     ''Failed to delete feature''"

section \<open>Webhook deliveries and tests, the business dashboard\<close>

definition getWebhookDeliveries :: "string \<Rightarrow> service" where
  "getWebhookDeliveries i = data_service
     (get_req (''/webhooks/'' @ i @ ''/deliveries''))
     ''Failed to load deliveries''"

definition getMemberWebhookDeliveries :: "string \<Rightarrow> service" where
  "getMemberWebhookDeliveries i = data_service
     (get_req (''/member/webhooks/'' @ i @ ''/deliveries''))
     ''Failed to load deliveries''"

definition testWebhook :: "string \<Rightarrow> service" where
  "testWebhook i = data_service
     (post_req (''/webhooks/'' @ i @ ''/test'') JUndef)
     ''Failed to test webhook''"

definition testMemberWebhook :: "string \<Rightarrow> service" where
  "testMemberWebhook i = data_service
     (post_req (''/member/webhooks/'' @ i @ ''/test'') JUndef)
     ''Failed to test webhook''"

definition getBIDashboard :: service where
  "getBIDashboard = data_service (get_req ''/admin/bi'') ''Failed to load BI data''"

section \<open>AI configurations\<close>

definition getAIConfigs :: service where
  "getAIConfigs = data_service (get_req ''/admin/ai/configs'') ''Failed to load AI configs''"

definition getAIConfig :: "string \<Rightarrow> service" where
  "getAIConfig i = data_service
     (get_req (''/admin/ai/configs/'' @ i))
     ''Failed to load AI config''"

definition createAIConfig :: "jsval \<Rightarrow> service" where
  "createAIConfig form = Service
     (post_req ''/admin/ai/configs'' form)
     (on_body (need_success ''Failed to create AI config''
       (\<lambda>b. js_get b ''data'')))"

definition updateAIConfig :: "string \<Rightarrow> jsval \<Rightarrow> service" where
  "updateAIConfig i form = Service
     (put_req (''/admin/ai/configs/'' @ i) form)
     (on_body (need_success ''Failed to update AI config''
       (\<lambda>b. js_get b ''data'')))"

definition deleteAIConfig :: "string \<Rightarrow> service" where
  "deleteAIConfig i = Service
     (delete_req (''/admin/ai/configs/'' @ i))
     (on_body (need_success ''Failed to delete AI config''
       (\<lambda>b. js_get b ''data'')))"

definition getAIChangeRequests :: service where
  "getAIChangeRequests = Service
     (get_req ''/admin/ai/change-requests'')
     (on_body (need_success ''Failed to load change requests''
       (\<lambda>b. sbind (js_get b ''data'') (\<lambda>v. Inr (js_or v (JArr []))))))"

definition approveAIChangeRequest :: "string \<Rightarrow> jsval \<Rightarrow> service" where
  "approveAIChangeRequest i notes = Service
     (post_req (''/admin/ai/change-requests/'' @ i @ ''/approve'') (obj1 ''notes'' notes))
     (\<lambda>r. sbind r (\<lambda>b. Inr JUndef))"

definition rejectAIChangeRequest :: "string \<Rightarrow> jsval \<Rightarrow> service" where
  "rejectAIChangeRequest i notes = Service
     (post_req (''/admin/ai/change-requests/'' @ i @ ''/reject'') (obj1 ''notes'' notes))
     (\<lambda>r. sbind r (\<lambda>b. Inr JUndef))"

definition generateAITemplate :: "string \<Rightarrow> jsval \<Rightarrow> service" where
  "generateAITemplate prompt ctx = data_service
     (post_req ''/ai/generate-template'' (JObj [(''prompt'', JStr prompt), (''context'', ctx)]))
     ''Failed to generate template''"

lemmas dashboard_service_defs =
  getDashboardStats_def getDailyChartData_def getActivityFeed_def
  getAccounts_def suspendAccount_def activateAccount_def
  deleteAccount_def getAnalytics_def getWebhooks_def
  createWebhook_def deleteWebhook_def rotateWebhookSecret_def
  bulkDeleteWebhooks_def getTemplates_def createTemplate_def
  deleteTemplate_def getPendingTemplates_def approveTemplate_def
  rejectTemplate_def bulkDeleteTemplates_def bulkApproveTemplates_def
  bulkRejectTemplates_def getPlans_def createPlan_def
  updatePlan_def deletePlan_def getCircuitBreakers_def
  resetCircuitBreaker_def getDeadLetters_def retryDeadLetter_def
  sendSMS_def bulkSendSMS_def scheduleSendSMS_def
  getFraudFlags_def reviewFraudFlag_def getSmishingFlags_def
  getSmishingFlagsCount_def bulkReviewSmishingFlags_def reviewSmishingFlag_def
  getAbuseFlags_def getUsers_def getUser_def
  createUser_def updateUser_def deleteUser_def
  bulkDeleteUsers_def bulkUpdateUsers_def getPaymentConfigs_def
  getEnabledPaymentConfigs_def upsertPaymentConfig_def updatePaymentConfig_def
  getPaymentRequests_def getMyPaymentRequests_def createPaymentRequest_def
  approvePaymentRequest_def rejectPaymentRequest_def getSubscriptionRequests_def
  getMySubscriptionRequests_def createSubscriptionRequest_def approveSubscriptionRequest_def
  rejectSubscriptionRequest_def getPreferences_def updatePreferences_def
  getKycStatus_def submitKyc_def getKycSubmissions_def
  approveKyc_def rejectKyc_def get2FAStatus_def
  setup2FA_def verify2FA_def disable2FA_def
  getFeatureCatalog_def getActiveFeatureCatalog_def createFeatureCatalogItem_def
  toggleFeatureCatalogItem_def deleteFeatureCatalogItem_def getWebhookDeliveries_def
  getMemberWebhookDeliveries_def testWebhook_def testMemberWebhook_def
  getBIDashboard_def getAIConfigs_def getAIConfig_def
  createAIConfig_def updateAIConfig_def deleteAIConfig_def
  getAIChangeRequests_def approveAIChangeRequest_def rejectAIChangeRequest_def
  generateAITemplate_def

end
