(* ===== verification/ServiceContracts.thy ===== *)
theory ServiceContracts
  imports DashboardService
begin

text \<open>
  The contract between the services of the front end and the back end they call: the route
  table of the Go server (\<open>backend/internal/api/router.go\<close>) with the middleware that guards
  each route, which requests it serves, and what the authorization middleware
  (\<open>backend/internal/api/middleware/auth.go\<close>) admits. The base URL of the client is the
  server's \<open>/api/v1\<close>, so that both sides are written relative to it.
\<close>

section \<open>The route table\<close>

datatype route_auth = Public | ApiKey | Jwt | AdminJwt

type_synonym route = "http_method \<times> string \<times> route_auth"

definition public_routes :: "route list" where
  "public_routes =
    [(GET, ''/health'', Public),
     (GET, ''/health/mqtt'', Public),
     (GET, ''/docs'', Public),
     (GET, ''/docs/ui'', Public),
     (GET, ''/docs/ui/{file}'', Public),
     (GET, ''/public/plans'', Public),
     (GET, ''/public/payment-methods'', Public),
     (POST, ''/public/contact-sales'', Public)]"

definition auth_routes :: "route list" where
  "auth_routes =
    [(POST, ''/auth/register'', Public),
     (POST, ''/auth/login'', Public),
     (POST, ''/auth/login/2fa'', Public),
     (POST, ''/auth/refresh'', Public),
     (GET, ''/auth/profile'', Jwt),
     (PUT, ''/auth/profile'', Jwt),
     (POST, ''/auth/change-password'', Jwt),
     (POST, ''/auth/2fa/setup'', Jwt),
     (POST, ''/auth/2fa/verify'', Jwt),
     (GET, ''/auth/2fa/status'', Jwt),
     (POST, ''/auth/2fa/disable'', Jwt)]"

definition message_routes :: "route list" where
  "message_routes =
    [(POST, ''/send'', ApiKey),
     (GET, ''/messages'', ApiKey),
     (GET, ''/messages/{id}'', ApiKey),
     (GET, ''/messages/{id}/confidence'', ApiKey),
     (POST, ''/send/bulk'', ApiKey),
     (POST, ''/send/schedule'', ApiKey),
     (POST, ''/otp/send'', ApiKey),
     (POST, ''/otp/verify'', ApiKey)]"

definition device_routes :: "route list" where
  "device_routes =
    [(POST, ''/devices/login'', Public),
     (POST, ''/devices/register'', Public),
     (POST, ''/devices/qr-login'', Public),
     (POST, ''/devices/status'', Jwt),
     (POST, ''/devices/deregister'', Jwt),
     (POST, ''/devices'', Jwt),
     (GET, ''/devices'', Jwt),
     (GET, ''/devices/{id}'', Jwt),
     (POST, ''/devices/info'', Jwt)]"

definition account_routes :: "route list" where
  "account_routes =
    [(GET, ''/account/profile'', Jwt),
     (PUT, ''/account/profile'', Jwt),
     (GET, ''/account/api-keys'', Jwt),
     (POST, ''/account/api-keys'', Jwt),
     (DELETE, ''/account/api-keys/{id}'', Jwt),
     (PUT, ''/account/routing-strategy'', Jwt),
     (GET, ''/account/subscription'', Jwt),
     (GET, ''/account/usage'', Jwt)]"

definition template_routes :: "route list" where
  "template_routes =
    [(POST, ''/templates'', AdminJwt),
     (GET, ''/templates'', AdminJwt),
     (GET, ''/templates/{id}'', AdminJwt),
     (PUT, ''/templates/{id}'', AdminJwt),
     (DELETE, ''/templates/{id}'', AdminJwt)]"

definition webhook_routes :: "route list" where
  "webhook_routes =
    [(GET, ''/admin/webhooks'', AdminJwt),
     (POST, ''/webhooks'', AdminJwt),
     (GET, ''/webhooks/{id}'', AdminJwt),
     (PUT, ''/webhooks/{id}'', AdminJwt),
     (DELETE, ''/webhooks/{id}'', AdminJwt),
     (POST, ''/webhooks/{id}/rotate-secret'', AdminJwt),
     (GET, ''/webhooks/{id}/deliveries'', AdminJwt),
     (POST, ''/webhooks/{id}/test'', AdminJwt)]"

definition billing_routes :: "route list" where
  "billing_routes =
    [(GET, ''/plans'', Jwt),
     (GET, ''/plans/{id}'', Jwt),
     (POST, ''/plans'', AdminJwt),
     (PUT, ''/plans/{id}'', AdminJwt),
     (DELETE, ''/plans/{id}'', AdminJwt),
     (POST, ''/plan-requests'', Jwt),
     (GET, ''/admin/plan-requests'', AdminJwt),
     (POST, ''/admin/plan-requests/{id}/approve'', AdminJwt),
     (POST, ''/admin/plan-requests/{id}/reject'', AdminJwt),
     (GET, ''/billing/invoice'', Jwt),
     (GET, ''/billing/usage'', Jwt),
     (POST, ''/fraud/check'', ApiKey)]"

definition member_routes :: "route list" where
  "member_routes =
    [(GET, ''/member/dashboard'', Jwt),
     (GET, ''/member/devices'', Jwt),
     (PUT, ''/member/devices/{id}'', Jwt),
     (DELETE, ''/member/devices/{id}'', Jwt),
     (GET, ''/member/messages'', Jwt),
     (POST, ''/member/send'', Jwt),
     (GET, ''/member/analytics'', Jwt),
     (GET, ''/member/stats'', Jwt)]"

definition member_template_routes :: "route list" where
  "member_template_routes =
    [(GET, ''/member/plan'', Jwt),
     (POST, ''/member/devices/qr-code'', Jwt),
     (GET, ''/member/templates'', Jwt),
     (POST, ''/member/templates'', Jwt),
     (GET, ''/member/templates/{id}'', Jwt),
     (PUT, ''/member/templates/{id}'', Jwt),
     (DELETE, ''/member/templates/{id}'', Jwt)]"

definition member_webhook_routes :: "route list" where
  "member_webhook_routes =
    [(GET, ''/member/webhooks'', Jwt),
     (POST, ''/member/webhooks'', Jwt),
     (GET, ''/member/webhooks/{id}'', Jwt),
     (PUT, ''/member/webhooks/{id}'', Jwt),
     (DELETE, ''/member/webhooks/{id}'', Jwt),
     (POST, ''/member/webhooks/{id}/rotate-secret'', Jwt),
     (GET, ''/member/webhooks/{id}/deliveries'', Jwt),
     (POST, ''/member/webhooks/{id}/test'', Jwt)]"

definition admin_routes :: "route list" where
  "admin_routes =
    [(GET, ''/admin/stats'', AdminJwt),
     (GET, ''/admin/accounts'', AdminJwt),
     (GET, ''/admin/accounts/{id}'', AdminJwt),
     (DELETE, ''/admin/accounts/{id}'', AdminJwt),
     (POST, ''/admin/accounts/{id}/suspend'', AdminJwt),
     (POST, ''/admin/accounts/{id}/activate'', AdminJwt),
     (GET, ''/admin/analytics'', AdminJwt),
     (GET, ''/admin/charts/daily'', AdminJwt),
     (GET, ''/admin/activity'', AdminJwt),
     (GET, ''/admin/circuit-breakers'', AdminJwt),
     (POST, ''/admin/circuit-breakers/{scope}/{id}/reset'', AdminJwt),
     (GET, ''/admin/dead-letters'', AdminJwt),
     (POST, ''/admin/dead-letters/{id}/retry'', AdminJwt),
     (GET, ''/admin/templates/pending'', AdminJwt),
     (GET, ''/admin/templates'', AdminJwt),
     (POST, ''/admin/templates/{id}/approve'', AdminJwt),
     (POST, ''/admin/templates/{id}/reject'', AdminJwt),
     (GET, ''/admin/fraud-flags'', AdminJwt),
     (POST, ''/admin/fraud-flags/{id}/review'', AdminJwt),
     (GET, ''/admin/abuse-flags'', AdminJwt),
     (GET, ''/admin/smishing-flags'', AdminJwt),
     (GET, ''/admin/smishing-flags/count'', AdminJwt),
     (POST, ''/admin/smishing-flags/bulk-review'', AdminJwt)]"

definition admin_user_routes :: "route list" where
  "admin_user_routes =
    [(GET, ''/admin/users'', AdminJwt),
     (GET, ''/admin/users/{id}'', AdminJwt),
     (POST, ''/admin/users'', AdminJwt),
     (PUT, ''/admin/users/{id}'', AdminJwt),
     (DELETE, ''/admin/users/{id}'', AdminJwt),
     (POST, ''/admin/users/bulk-delete'', AdminJwt),
     (POST, ''/admin/users/bulk-update'', AdminJwt)]"

definition payment_routes :: "route list" where
  "payment_routes =
    [(GET, ''/admin/payment-configs'', AdminJwt),
     (GET, ''/payment-configs'', Jwt),
     (PUT, ''/admin/payment-configs/{id}'', AdminJwt),
     (POST, ''/admin/payment-configs'', AdminJwt),
     (GET, ''/admin/payment-requests'', AdminJwt),
     (GET, ''/admin/payment-requests/{id}'', AdminJwt),
     (POST, ''/admin/payment-requests/{id}/approve'', AdminJwt),
     (POST, ''/admin/payment-requests/{id}/reject'', AdminJwt),
     (POST, ''/member/payment-requests'', Jwt),
     (GET, ''/member/payment-requests'', Jwt)]"

definition subscription_routes :: "route list" where
  "subscription_routes =
    [(GET, ''/admin/subscription-requests'', AdminJwt),
     (POST, ''/admin/subscription-requests/{id}/approve'', AdminJwt),
     (POST, ''/admin/subscription-requests/{id}/reject'', AdminJwt),
     (POST, ''/member/subscription-requests'', Jwt),
     (GET, ''/member/subscription-requests'', Jwt)]"

definition preference_routes :: "route list" where
  "preference_routes =
    [(GET, ''/member/preferences'', Jwt),
     (PUT, ''/member/preferences'', Jwt),
     (POST, ''/member/kyc'', Jwt),
     (GET, ''/member/kyc'', Jwt)]"

definition session_routes :: "route list" where
  "session_routes =
    [(GET, ''/auth/sessions'', Jwt),
     (DELETE, ''/auth/sessions'', Jwt),
     (DELETE, ''/auth/sessions/{id}'', Jwt)]"

definition kyc_routes :: "route list" where
  "kyc_routes =
    [(GET, ''/admin/kyc'', AdminJwt),
     (POST, ''/admin/kyc/{id}/approve'', AdminJwt),
     (POST, ''/admin/kyc/{id}/reject'', AdminJwt)]"

definition bulk_routes :: "route list" where
  "bulk_routes =
    [(GET, ''/admin/contact-submissions'', AdminJwt),
     (PUT, ''/admin/contact-submissions/{id}'', AdminJwt),
     (POST, ''/admin/webhooks/bulk-delete'', AdminJwt),
     (POST, ''/admin/templates/bulk-delete'', AdminJwt),
     (POST, ''/admin/templates/bulk-approve'', AdminJwt),
     (POST, ''/admin/templates/bulk-reject'', AdminJwt)]"

definition catalog_routes :: "route list" where
  "catalog_routes =
    [(GET, ''/admin/bi'', AdminJwt),
     (POST, ''/auth/fcm-token'', Jwt),
     (GET, ''/feature-catalog'', Public),
     (POST, ''/admin/feature-catalog'', AdminJwt),
     (PUT, ''/admin/feature-catalog/{id}'', AdminJwt),
     (DELETE, ''/admin/feature-catalog/{id}'', AdminJwt),
     (POST, ''/admin/feature-catalog/{id}/reorder'', AdminJwt)]"

definition release_routes :: "route list" where
  "release_routes =
    [(GET, ''/admin/releases'', Jwt),
     (POST, ''/admin/releases'', Jwt),
     (GET, ''/admin/releases/{id}'', Jwt),
     (POST, ''/admin/releases/{id}/submit'', Jwt),
     (POST, ''/admin/releases/{id}/approve'', AdminJwt),
     (POST, ''/admin/releases/{id}/reject'', AdminJwt),
     (POST, ''/admin/releases/{id}/release'', AdminJwt),
     (DELETE, ''/admin/releases/{id}'', AdminJwt),
     (POST, ''/admin/releases/{id}/upload'', Jwt),
     (GET, ''/version-check'', Public)]"

definition ai_routes :: "route list" where
  "ai_routes =
    [(GET, ''/admin/ai/configs'', AdminJwt),
     (GET, ''/admin/ai/configs/{id}'', AdminJwt),
     (POST, ''/admin/ai/configs'', Jwt),
     (PUT, ''/admin/ai/configs/{id}'', Jwt),
     (DELETE, ''/admin/ai/configs/{id}'', Jwt),
     (GET, ''/admin/ai/change-requests'', AdminJwt),
     (POST, ''/admin/ai/change-requests/{id}/approve'', AdminJwt),
     (POST, ''/admin/ai/change-requests/{id}/reject'', AdminJwt),
     (POST, ''/ai/generate-template'', Jwt)]"

definition firebase_routes :: "route list" where
  "firebase_routes =
    [(GET, ''/admin/firebase-config'', Jwt),
     (PUT, ''/admin/firebase-config'', AdminJwt),
     (PUT, ''/admin/firebase-config/{key}'', AdminJwt),
     (DELETE, ''/admin/firebase-config/{key}'', AdminJwt),
     (GET, ''/firebase-config'', Public),
     (GET, ''/uploads/apks/'', Public),
     (GET, ''/events/stream'', Public)]"

definition route_groups :: "route list list" where
  "route_groups =
    [public_routes, auth_routes, message_routes, device_routes, account_routes,
     template_routes, webhook_routes, billing_routes, member_routes, member_template_routes,
     member_webhook_routes, admin_routes, admin_user_routes, payment_routes, subscription_routes,
     preference_routes, session_routes, kyc_routes, bulk_routes, catalog_routes,
     release_routes, ai_routes, firebase_routes]"

definition backend_routes :: "route list" where
  "backend_routes = concat route_groups"

lemmas route_group_defs =
  public_routes_def auth_routes_def message_routes_def device_routes_def
  account_routes_def template_routes_def webhook_routes_def billing_routes_def
  member_routes_def member_template_routes_def member_webhook_routes_def admin_routes_def
  admin_user_routes_def payment_routes_def subscription_routes_def preference_routes_def
  session_routes_def kyc_routes_def bulk_routes_def catalog_routes_def
  release_routes_def ai_routes_def firebase_routes_def

text \<open>
  Go's \<open>ServeMux\<close> on the patterns of the table: a wildcard \<open>{name}\<close> stands for one non-empty
  segment, every other character for itself; the query is not part of the path. The flag says
  whether the pattern is inside a wildcard's name.
\<close>

fun pattern_match :: "bool \<Rightarrow> string \<Rightarrow> string \<Rightarrow> bool" where
  "pattern_match inside [] us = (us = [])"
| "pattern_match True (p # ps) us = pattern_match (p \<noteq> CHR ''}'') ps us"
| "pattern_match False (p # ps) us =
     (if p = CHR ''{''
      then takeWhile (\<lambda>c. c \<noteq> CHR ''/'') us \<noteq> [] \<and>
           pattern_match True ps (dropWhile (\<lambda>c. c \<noteq> CHR ''/'') us)
      else (case us of [] \<Rightarrow> False | u # us' \<Rightarrow> p = u \<and> pattern_match False ps us'))"

definition url_path :: "string \<Rightarrow> string" where
  "url_path url = takeWhile (\<lambda>c. c \<noteq> CHR ''?'') url"

fun serves :: "route \<Rightarrow> request \<Rightarrow> bool" where
  "serves (m, pattern, auth) rq = (m = rq_method rq \<and> pattern_match False pattern (url_path (rq_url rq)))"

text \<open>
  Which requests pass a route's middleware: \<open>JWTAuth\<close> and \<open>APIKeyAuth\<close> want an
  \<open>Authorization\<close> header with the prefix \<open>Bearer\<close> and \<open>AdminAuth\<close> takes the header, or the
  cookie \<open>session_token\<close> where there is no header; the checks of the token and of the key are
  the parameters \<open>valid_jwt\<close> and \<open>valid_key\<close>.
\<close>

definition bearer :: string where
  "bearer = ''Bearer ''"

definition trim_bearer :: "string \<Rightarrow> string" where
  "trim_bearer h = (if prefix bearer h then drop (length bearer) h else h)"

fun admits :: "(string \<Rightarrow> bool) \<Rightarrow> (string \<Rightarrow> bool) \<Rightarrow> string option \<Rightarrow> route_auth \<Rightarrow> string option \<Rightarrow> bool" where
  "admits valid_jwt valid_key cookie Public header = True"
| "admits valid_jwt valid_key cookie ApiKey header =
     (case header of None \<Rightarrow> False
      | Some h \<Rightarrow> h \<noteq> '''' \<and> trim_bearer h \<noteq> h \<and> valid_key (trim_bearer h))"
| "admits valid_jwt valid_key cookie Jwt header =
     (case header of None \<Rightarrow> False
      | Some h \<Rightarrow> h \<noteq> '''' \<and> trim_bearer h \<noteq> h \<and> valid_jwt (trim_bearer h))"
| "admits valid_jwt valid_key cookie AdminJwt header =
     (let fromHeader = (case header of None \<Rightarrow> '''' | Some h \<Rightarrow> trim_bearer h);
          token = (if fromHeader = '''' then (case cookie of None \<Rightarrow> '''' | Some c \<Rightarrow> c) else fromHeader)
      in token \<noteq> '''' \<and> valid_jwt token)"

section \<open>Every service has a route\<close>

text \<open>
  All service functions of the three service modules except \<open>logout\<close>, for an id \<open>i\<close>, a value
  \<open>v\<close> in the place of their object arguments and a flag \<open>b\<close>.
\<close>

definition routed_services :: "string \<Rightarrow> jsval \<Rightarrow> bool \<Rightarrow> service list" where
  "routed_services i v b =
    [login_service v, register v, refreshToken i, getProfile, updateProfile v,
     changePassword i i, verify2FALogin v i, getSessions, revokeSession i, revokeAllSessions,
     listApiKeys, createApiKey v, revokeApiKey i, getDashboardStats, getDailyChartData,
     getActivityFeed, getAccounts v, suspendAccount i, activateAccount i, deleteAccount i,
     getAnalytics v, getWebhooks v, createWebhook v, deleteWebhook i, rotateWebhookSecret i,
     bulkDeleteWebhooks v, getTemplates v, createTemplate v, deleteTemplate i,
     getPendingTemplates, approveTemplate i, rejectTemplate i, bulkDeleteTemplates v,
     bulkApproveTemplates v, bulkRejectTemplates v, getPlans, createPlan v, updatePlan i v,
     deletePlan i, getCircuitBreakers, resetCircuitBreaker i i, getDeadLetters,
     retryDeadLetter i, sendSMS v, bulkSendSMS v, scheduleSendSMS v, getFraudFlags,
     reviewFraudFlag i, getSmishingFlags, getSmishingFlagsCount, bulkReviewSmishingFlags v,
     reviewSmishingFlag i, getAbuseFlags, getUsers v, getUser i, createUser v, updateUser i v,
     deleteUser i, bulkDeleteUsers v, bulkUpdateUsers v v, getPaymentConfigs,
     getEnabledPaymentConfigs, upsertPaymentConfig v, updatePaymentConfig i v,
     getPaymentRequests v, getMyPaymentRequests v, createPaymentRequest v,
     approvePaymentRequest i v, rejectPaymentRequest i v, getSubscriptionRequests v,
     getMySubscriptionRequests v, createSubscriptionRequest v, approveSubscriptionRequest i v,
     rejectSubscriptionRequest i v, getPreferences, updatePreferences v, getKycStatus,
     submitKyc v, getKycSubmissions v, approveKyc i v, rejectKyc i v, get2FAStatus, setup2FA,
     verify2FA i, disable2FA i, getFeatureCatalog, getActiveFeatureCatalog,
     createFeatureCatalogItem v, toggleFeatureCatalogItem i b, deleteFeatureCatalogItem i,
     getWebhookDeliveries i, getMemberWebhookDeliveries i, testWebhook i, testMemberWebhook i,
     getBIDashboard, getAIConfigs, getAIConfig i, createAIConfig v, updateAIConfig i v,
     deleteAIConfig i, getAIChangeRequests, approveAIChangeRequest i v,
     rejectAIChangeRequest i v, generateAITemplate i v, getOnlineDevices]"

definition path_segment :: "string \<Rightarrow> bool" where
  "path_segment i \<longleftrightarrow> i \<noteq> [] \<and> (\<forall>c \<in> set i. c \<noteq> CHR ''/'' \<and> c \<noteq> CHR ''?'')"

lemma span_id:
  assumes "path_segment i"
  shows "takeWhile (\<lambda>c. c \<noteq> CHR ''/'') i = i" "dropWhile (\<lambda>c. c \<noteq> CHR ''/'') i = []"
    "takeWhile (\<lambda>c. c \<noteq> CHR ''/'') (i @ t) = i @ takeWhile (\<lambda>c. c \<noteq> CHR ''/'') t"
    "dropWhile (\<lambda>c. c \<noteq> CHR ''/'') (i @ t) = dropWhile (\<lambda>c. c \<noteq> CHR ''/'') t"
    "takeWhile (\<lambda>c. c \<noteq> CHR ''?'') i = i"
    "takeWhile (\<lambda>c. c \<noteq> CHR ''?'') (i @ t) = i @ takeWhile (\<lambda>c. c \<noteq> CHR ''?'') t"
    "i \<noteq> []" "\<forall>c \<in> set i. c \<noteq> CHR ''/''"
  using assms
  by (auto simp: path_segment_def takeWhile_append2 dropWhile_append2 takeWhile_eq_all_conv
      dropWhile_eq_Nil_conv)

definition served :: "service \<Rightarrow> bool" where
  "served sv \<longleftrightarrow> (\<exists>r \<in> set backend_routes. serves r (sv_request sv))"

fun some_route :: "route list \<Rightarrow> http_method \<times> string \<Rightarrow> bool" where
  "some_route [] mp = False"
| "some_route ((m, pattern, auth) # rs) mp =
     (m = fst mp \<and> pattern_match False pattern (snd mp) \<or> some_route rs mp)"

lemma some_route_serves:
  "some_route rs (rq_method rq, url_path (rq_url rq)) \<Longrightarrow> \<exists>r \<in> set rs. serves r rq"
  by (induction rs) auto

lemma serves_some_route:
  "serves r rq \<Longrightarrow> r \<in> set rs \<Longrightarrow> some_route rs (rq_method rq, url_path (rq_url rq))"
  by (induction rs) auto

lemma servedI:
  "g \<in> set route_groups \<Longrightarrow>
     some_route g (rq_method (sv_request sv), url_path (rq_url (sv_request sv))) \<Longrightarrow> served sv"
  using some_route_serves [of g "sv_request sv"] by (auto simp: served_def backend_routes_def)

lemmas service_defs =
  auth_service_defs dashboard_service_defs getOnlineDevices_def data_service_def void_service_def

lemmas serve_simps = service_defs req_defs url_path_def span_id

lemma served_auth1: "path_segment i \<Longrightarrow>
    served (login_service v) \<and> served (register v) \<and> served (refreshToken i) \<and>
    served getProfile \<and> served (updateProfile v) \<and> served (changePassword i i)"
  by (intro conjI; (rule servedI [of auth_routes], simp add: route_groups_def, simp add: auth_routes_def serve_simps))

lemma served_auth2: "path_segment i \<Longrightarrow>
    served (verify2FALogin v i) \<and> served get2FAStatus \<and> served setup2FA \<and>
    served (verify2FA i) \<and> served (disable2FA i)"
  by (intro conjI; (rule servedI [of auth_routes], simp add: route_groups_def, simp add: auth_routes_def serve_simps))

lemma served_message: "path_segment i \<Longrightarrow>
    served (bulkSendSMS v) \<and> served (scheduleSendSMS v)"
  by (intro conjI; (rule servedI [of message_routes], simp add: route_groups_def, simp add: message_routes_def serve_simps))

lemma served_account: "path_segment i \<Longrightarrow>
    served listApiKeys \<and> served (createApiKey v) \<and> served (revokeApiKey i)"
  by (intro conjI; (rule servedI [of account_routes], simp add: route_groups_def, simp add: account_routes_def serve_simps))

lemma served_template: "path_segment i \<Longrightarrow>
    served (createTemplate v) \<and> served (deleteTemplate i)"
  by (intro conjI; (rule servedI [of template_routes], simp add: route_groups_def, simp add: template_routes_def serve_simps))

lemma served_webhook: "path_segment i \<Longrightarrow>
    served (getWebhooks v) \<and> served (createWebhook v) \<and> served (deleteWebhook i) \<and>
    served (rotateWebhookSecret i) \<and> served (getWebhookDeliveries i) \<and>
    served (testWebhook i)"
  by (intro conjI; (rule servedI [of webhook_routes], simp add: route_groups_def, simp add: webhook_routes_def serve_simps))

lemma served_billing: "path_segment i \<Longrightarrow>
    served getPlans \<and> served (createPlan v) \<and> served (updatePlan i v) \<and>
    served (deletePlan i)"
  by (intro conjI; (rule servedI [of billing_routes], simp add: route_groups_def, simp add: billing_routes_def serve_simps))

lemma served_member: "path_segment i \<Longrightarrow>
    served (sendSMS v) \<and> served getOnlineDevices"
  by (intro conjI; (rule servedI [of member_routes], simp add: route_groups_def, simp add: member_routes_def serve_simps))

lemma served_member_webhook: "path_segment i \<Longrightarrow>
    served (getMemberWebhookDeliveries i) \<and> served (testMemberWebhook i)"
  by (intro conjI; (rule servedI [of member_webhook_routes], simp add: route_groups_def, simp add: member_webhook_routes_def serve_simps))

lemma served_admin1: "path_segment i \<Longrightarrow>
    served getDashboardStats \<and> served getDailyChartData \<and> served getActivityFeed \<and>
    served (getAccounts v) \<and> served (suspendAccount i) \<and> served (activateAccount i) \<and>
    served (deleteAccount i) \<and> served (getAnalytics v)"
  by (intro conjI; (rule servedI [of admin_routes], simp add: route_groups_def, simp add: admin_routes_def serve_simps))

lemma served_admin2: "path_segment i \<Longrightarrow>
    served (getTemplates v) \<and> served getPendingTemplates \<and> served (approveTemplate i) \<and>
    served (rejectTemplate i) \<and> served getCircuitBreakers \<and>
    served (resetCircuitBreaker i i) \<and> served getDeadLetters \<and>
    served (retryDeadLetter i)"
  by (intro conjI; (rule servedI [of admin_routes], simp add: route_groups_def, simp add: admin_routes_def serve_simps))

lemma served_admin3: "path_segment i \<Longrightarrow>
    served getFraudFlags \<and> served (reviewFraudFlag i) \<and> served getSmishingFlags \<and>
    served getSmishingFlagsCount \<and> served (bulkReviewSmishingFlags v) \<and>
    served (reviewSmishingFlag i) \<and> served getAbuseFlags"
  by (intro conjI; (rule servedI [of admin_routes], simp add: route_groups_def, simp add: admin_routes_def serve_simps))

lemma served_admin_user: "path_segment i \<Longrightarrow>
    served (getUsers v) \<and> served (getUser i) \<and> served (createUser v) \<and>
    served (updateUser i v) \<and> served (deleteUser i) \<and> served (bulkDeleteUsers v) \<and>
    served (bulkUpdateUsers v v)"
  by (intro conjI; (rule servedI [of admin_user_routes], simp add: route_groups_def, simp add: admin_user_routes_def serve_simps))

lemma served_payment1: "path_segment i \<Longrightarrow>
    served getPaymentConfigs \<and> served getEnabledPaymentConfigs \<and>
    served (upsertPaymentConfig v) \<and> served (updatePaymentConfig i v) \<and>
    served (getPaymentRequests v)"
  by (intro conjI; (rule servedI [of payment_routes], simp add: route_groups_def, simp add: payment_routes_def serve_simps))

lemma served_payment2: "path_segment i \<Longrightarrow>
    served (getMyPaymentRequests v) \<and> served (createPaymentRequest v) \<and>
    served (approvePaymentRequest i v) \<and> served (rejectPaymentRequest i v)"
  by (intro conjI; (rule servedI [of payment_routes], simp add: route_groups_def, simp add: payment_routes_def serve_simps))

lemma served_subscription: "path_segment i \<Longrightarrow>
    served (getSubscriptionRequests v) \<and> served (getMySubscriptionRequests v) \<and>
    served (createSubscriptionRequest v) \<and> served (approveSubscriptionRequest i v) \<and>
    served (rejectSubscriptionRequest i v)"
  by (intro conjI; (rule servedI [of subscription_routes], simp add: route_groups_def, simp add: subscription_routes_def serve_simps))

lemma served_preference: "path_segment i \<Longrightarrow>
    served getPreferences \<and> served (updatePreferences v) \<and> served getKycStatus \<and>
    served (submitKyc v)"
  by (intro conjI; (rule servedI [of preference_routes], simp add: route_groups_def, simp add: preference_routes_def serve_simps))

lemma served_session: "path_segment i \<Longrightarrow>
    served getSessions \<and> served (revokeSession i) \<and> served revokeAllSessions"
  by (intro conjI; (rule servedI [of session_routes], simp add: route_groups_def, simp add: session_routes_def serve_simps))

lemma served_kyc: "path_segment i \<Longrightarrow>
    served (getKycSubmissions v) \<and> served (approveKyc i v) \<and> served (rejectKyc i v)"
  by (intro conjI; (rule servedI [of kyc_routes], simp add: route_groups_def, simp add: kyc_routes_def serve_simps))

lemma served_bulk: "path_segment i \<Longrightarrow>
    served (bulkDeleteWebhooks v) \<and> served (bulkDeleteTemplates v) \<and>
    served (bulkApproveTemplates v) \<and> served (bulkRejectTemplates v)"
  by (intro conjI; (rule servedI [of bulk_routes], simp add: route_groups_def, simp add: bulk_routes_def serve_simps))

lemma served_catalog: "path_segment i \<Longrightarrow>
    served getFeatureCatalog \<and> served getActiveFeatureCatalog \<and>
    served (createFeatureCatalogItem v) \<and> served (toggleFeatureCatalogItem i b) \<and>
    served (deleteFeatureCatalogItem i) \<and> served getBIDashboard"
  by (intro conjI; (rule servedI [of catalog_routes], simp add: route_groups_def, simp add: catalog_routes_def serve_simps))

lemma served_ai1: "path_segment i \<Longrightarrow>
    served getAIConfigs \<and> served (getAIConfig i) \<and> served (createAIConfig v) \<and>
    served (updateAIConfig i v) \<and> served (deleteAIConfig i)"
  by (intro conjI; (rule servedI [of ai_routes], simp add: route_groups_def, simp add: ai_routes_def serve_simps))

lemma served_ai2: "path_segment i \<Longrightarrow>
    served getAIChangeRequests \<and> served (approveAIChangeRequest i v) \<and>
    served (rejectAIChangeRequest i v) \<and> served (generateAITemplate i v)"
  by (intro conjI; (rule servedI [of ai_routes], simp add: route_groups_def, simp add: ai_routes_def serve_simps))

lemmas served_facts =
  served_auth1 served_auth2 served_message served_account served_template
  served_webhook served_billing served_member served_member_webhook served_admin1
  served_admin2 served_admin3 served_admin_user served_payment1 served_payment2
  served_subscription served_preference served_session served_kyc served_bulk
  served_catalog served_ai1 served_ai2



text \<open>
  The logout service is the exception: no route of the back end serves its request, so
  the server is never told of a logout; the service ignores the error it gets.
\<close>

theorem logout_has_no_route:
  "filter (\<lambda>r. serves r (sv_request logout_service)) backend_routes = []
   \<and> (\<forall>r. sv_then logout_service r = Inr JUndef)"
  unfolding filter_empty_conv
proof (intro conjI ballI allI notI)
  fix r
  assume r: "r \<in> set backend_routes" and sv: "serves r (sv_request logout_service)"
  then obtain g where g: "g \<in> set route_groups" "r \<in> set g" by (auto simp: backend_routes_def)
  have "\<forall>g \<in> set route_groups. \<not> some_route g (POST, ''/auth/logout'')"
    by (simp add: route_groups_def route_group_defs)
  moreover have "some_route g (POST, ''/auth/logout'')"
    using serves_some_route [OF sv g(2)] by (simp add: logout_service_def req_defs url_path_def)
  ultimately show False using g(1) by blast
next
  show "sv_then logout_service r = Inr JUndef" for r by (simp add: logout_service_def)
qed

text \<open>
  C14. In a browser without an API key in its local storage and without the cookie
  \<open>session_token\<close>, the back end's middleware admits a request of the front end on no route
  but the public ones, whatever the authentication store and the session storage hold.
\<close>

theorem only_public_routes_admit:
  assumes "\<not> truthy_text (get_item local ''api_key'')"
  shows "admits valid_jwt valid_key None auth (wr_authorization (request_interceptor s local rq))
     \<longleftrightarrow> auth = Public"
  using assms by (cases auth) (simp_all add: request_interceptor_def Let_def)

theorem only_public_routes_admit_witness:
  "\<not> admits (\<lambda>t. True) (\<lambda>k. True) None Jwt
     (wr_authorization (request_interceptor
        (fst (login (JStr ''tok'') JUndef sample_user (auth_initial, Map.empty))) Map.empty (sv_request getDashboardStats)))"
  using only_public_routes_admit [of Map.empty "\<lambda>t. True" "\<lambda>k. True" Jwt]
  by (simp add: get_item_def)

end
