(* ===== verification/ServiceTypes.thy ===== *)
theory ServiceTypes
  imports DashboardService
begin

text \<open>
  The declared types of the service functions: for each one the type its source gives the
  payload of the response and the type of its result, and the theorem that a body of the
  first type never leads to a value outside the second.
\<close>

section \<open>The declared types\<close>

text \<open>
  The service functions with the type their source declares for the payload of the response
  and for the result (\<open>TVoid\<close> for \<open>Promise<void>\<close>).
\<close>

definition ChangeRequested :: ty where
  "ChangeRequested = TObject [req ''status'' TString, req ''request_id'' TString]"

definition typed_services :: "string \<Rightarrow> jsval \<Rightarrow> bool \<Rightarrow> (service \<times> ty \<times> ty) list" where
  "typed_services i v b =
    [(login_service v, LoginResponse, LoginResponse),
     (register v, LoginResponse, LoginResponse),
     (logout_service, TUnknown, TVoid),
     (refreshToken i, (TObject [req ''token'' TString]), TString),
     (getProfile, TUnknown, TUnknown),
     (updateProfile v, TUnknown, TUnknown),
     (changePassword i i, TUnknown, TUnknown),
     (verify2FALogin v i, LoginResponse, LoginResponse),
     (getSessions, (PaginatedResponse UserSession), (TArray UserSession)),
     (revokeSession i, TUnknown, TVoid),
     (revokeAllSessions, TUnknown, TVoid),
     (listApiKeys, (PaginatedResponse ApiKeyInfo), (TArray ApiKeyInfo)),
     (createApiKey v, ApiKeyCreateResult, ApiKeyCreateResult),
     (revokeApiKey i, TUnknown, TVoid),
     (getDashboardStats, DashboardStats, DashboardStats),
     (getDailyChartData, DailyChartData, DailyChartData),
     (getActivityFeed, (PaginatedResponse (TRecord TUnknown)), (PaginatedResponse (TRecord TUnknown))),
     (getAccounts v, (PaginatedResponse Account), (PaginatedResponse Account)),
     (suspendAccount i, TUnknown, TVoid),
     (activateAccount i, TUnknown, TVoid),
     (deleteAccount i, TUnknown, TVoid),
     (getAnalytics v, (TArray AnalyticsDaily), (TArray AnalyticsDaily)),
     (getWebhooks v, (PaginatedResponse Webhook), (PaginatedResponse Webhook)),
     (createWebhook v, (TInter Webhook (TObject [opt ''secret'' TString])), (TInter Webhook (TObject [opt ''secret'' TString]))),
     (deleteWebhook i, TUnknown, TVoid),
     (rotateWebhookSecret i, (TObject [req ''secret'' TString]), TString),
     (bulkDeleteWebhooks v, TUnknown, TVoid),
     (getTemplates v, (PaginatedResponse Template), (PaginatedResponse Template)),
     (createTemplate v, Template, Template),
     (deleteTemplate i, TUnknown, TVoid),
     (getPendingTemplates, (TArray Template), (TArray Template)),
     (approveTemplate i, TUnknown, TVoid),
     (rejectTemplate i, TUnknown, TVoid),
     (bulkDeleteTemplates v, TUnknown, TVoid),
     (bulkApproveTemplates v, TUnknown, TVoid),
     (bulkRejectTemplates v, TUnknown, TVoid),
     (getPlans, (PaginatedResponse Plan), (TArray Plan)),
     (createPlan v, Plan, Plan),
     (updatePlan i v, Plan, Plan),
     (deletePlan i, TUnknown, TVoid),
     (getCircuitBreakers, (TArray CircuitBreakerEvent), (TArray CircuitBreakerEvent)),
     (resetCircuitBreaker i i, TUnknown, TVoid),
     (getDeadLetters, (TObject [req ''data'' (TArray DeadLetter), req ''total'' TNumber, req ''page'' TNumber, req ''page_size'' TNumber, req ''total_pages'' TNumber]), (TArray DeadLetter)),
     (retryDeadLetter i, TUnknown, TVoid),
     (sendSMS v, (TObject [req ''message_id'' TString, req ''status'' TString, req ''created_at'' TString]), (TObject [req ''message_id'' TString, req ''status'' TString, req ''created_at'' TString])),
     (bulkSendSMS v, BulkSendResponse, BulkSendResponse),
     (scheduleSendSMS v, (TObject [req ''message_id'' TString, req ''status'' TString, req ''scheduled_at'' TString]), (TObject [req ''message_id'' TString, req ''status'' TString, req ''scheduled_at'' TString])),
     (getFraudFlags, (PaginatedResponse FraudFlag), (TArray FraudFlag)),
     (reviewFraudFlag i, TUnknown, TVoid),
     (getSmishingFlags, (PaginatedResponse FraudFlag), (TArray FraudFlag)),
     (getSmishingFlagsCount, (TObject [req ''count'' TNumber]), TNumber),
     (bulkReviewSmishingFlags v, TUnknown, TVoid),
     (reviewSmishingFlag i, TUnknown, TVoid),
     (getAbuseFlags, (PaginatedResponse FraudFlag), (TArray FraudFlag)),
     (getUsers v, (PaginatedResponse User), (PaginatedResponse User)),
     (getUser i, User, User),
     (createUser v, User, User),
     (updateUser i v, User, User),
     (deleteUser i, TUnknown, TVoid),
     (bulkDeleteUsers v, TUnknown, TVoid),
     (bulkUpdateUsers v v, TUnknown, TVoid),
     (getPaymentConfigs, (PaginatedResponse PaymentConfig), (TArray PaymentConfig)),
     (getEnabledPaymentConfigs, (PaginatedResponse PaymentConfig), (TArray PaymentConfig)),
     (upsertPaymentConfig v, TUnknown, TVoid),
     (updatePaymentConfig i v, TUnknown, TVoid),
     (getPaymentRequests v, (PaginatedResponse PaymentRequest), (PaginatedResponse PaymentRequest)),
     (getMyPaymentRequests v, (PaginatedResponse PaymentRequest), (PaginatedResponse PaymentRequest)),
     (createPaymentRequest v, TUnknown, TVoid),
     (approvePaymentRequest i v, TUnknown, TVoid),
     (rejectPaymentRequest i v, TUnknown, TVoid),
     (getSubscriptionRequests v, (PaginatedResponse SubscriptionRequest), (PaginatedResponse SubscriptionRequest)),
     (getMySubscriptionRequests v, (PaginatedResponse SubscriptionRequest), (PaginatedResponse SubscriptionRequest)),
     (createSubscriptionRequest v, TUnknown, TVoid),
     (approveSubscriptionRequest i v, TUnknown, TVoid),
     (rejectSubscriptionRequest i v, TUnknown, TVoid),
     (getPreferences, UserPreferences, UserPreferences),
     (updatePreferences v, TUnknown, TVoid),
     (getKycStatus, (TObject [req ''status'' TString, opt ''full_name'' TString, opt ''document_type'' TString]), (TObject [req ''status'' TString, opt ''full_name'' TString, opt ''document_type'' TString])),
     (submitKyc v, TUnknown, TVoid),
     (getKycSubmissions v, (PaginatedResponse KycSubmission), (PaginatedResponse KycSubmission)),
     (approveKyc i v, TUnknown, TVoid),
     (rejectKyc i v, TUnknown, TVoid),
     (get2FAStatus, (TObject [req ''enabled'' TBoolean]), (TObject [req ''enabled'' TBoolean])),
     (setup2FA, (TObject [req ''secret'' TString, req ''url'' TString, req ''enabled'' TBoolean]), (TObject [req ''secret'' TString, req ''url'' TString, req ''enabled'' TBoolean])),
     (verify2FA i, TUnknown, TVoid),
     (disable2FA i, TUnknown, TVoid),
     (getFeatureCatalog, (PaginatedResponse FeatureCatalogItem), (TArray FeatureCatalogItem)),
     (getActiveFeatureCatalog, (PaginatedResponse FeatureCatalogItem), (TArray FeatureCatalogItem)),
     (createFeatureCatalogItem v, FeatureCatalogItem, FeatureCatalogItem),
     (toggleFeatureCatalogItem i b, TUnknown, TVoid),
     (deleteFeatureCatalogItem i, TUnknown, TVoid),
     (getWebhookDeliveries i, (TArray WebhookDelivery), (TArray WebhookDelivery)),
     (getMemberWebhookDeliveries i, (TArray WebhookDelivery), (TArray WebhookDelivery)),
     (testWebhook i, WebhookTestResult, WebhookTestResult),
     (testMemberWebhook i, WebhookTestResult, WebhookTestResult),
     (getBIDashboard, BIDashboard, BIDashboard),
     (getAIConfigs, (TArray AIConfig), (TArray AIConfig)),
     (getAIConfig i, AIConfig, AIConfig),
     (getAIChangeRequests, (TArray AIConfigChangeRequest), (TArray AIConfigChangeRequest)),
     (approveAIChangeRequest i v, TUnknown, TVoid),
     (rejectAIChangeRequest i v, TUnknown, TVoid),
     (generateAITemplate i v, AIGeneratedTemplate, AIGeneratedTemplate),
     (deleteAIConfig i, ChangeRequested, TUnion TVoid ChangeRequested),
     (getOnlineDevices, TArray OnlineDevice, TArray OnlineDevice)]"

text \<open>A result as the declared type and the function's own exceptions allow it.\<close>

definition sound_result :: "ty \<Rightarrow> js_error + jsval \<Rightarrow> bool" where
  "sound_result t r = (case r of Inl e \<Rightarrow> (\<exists>m. e = JsError m) | Inr v \<Rightarrow> conforms t v)"

lemma sound_result_simps [simp]:
  "sound_result t (Inr v) = conforms t v" "sound_result t (Inl (JsError m))"
  by (simp_all add: sound_result_def)

lemma envelopeE:
  assumes "conforms (ApiResponse t) body"
  obtains kvs where "body = JObj kvs" and "obj_get kvs ''data'' = JUndef \<or> conforms t (obj_get kvs ''data'')"
proof -
  obtain kvs where b: "body = JObj kvs" and k: "conforms_fields
      [req ''success'' TBoolean, opt ''data'' t, opt ''error'' TString, opt ''message'' TString] kvs"
    using assms unfolding ApiResponse_def by (rule conforms_objectE)
  show ?thesis
    by (rule that [OF b]) (use conforms_fields_mem [OF k, of "''data''" True t] in simp)
qed

lemma throw_api_sound: "conforms (ApiResponse t) body \<Longrightarrow> sound_result t' (throw_api msg body)"
  by (erule envelopeE) (simp add: throw_api_def)

lemma throw_fixed_sound: "sound_result t' (throw_fixed msg body)"
  by (simp add: throw_fixed_def)

lemma guard_data_sound:
  assumes "conforms (ApiResponse t) body" and "sound_result t' (thr body)"
    and "\<And>d. conforms t d \<Longrightarrow> sound_result t' (k d)"
  shows "sound_result t' (guard_data thr k body)"
proof -
  obtain kvs where "body = JObj kvs" "obj_get kvs ''data'' = JUndef \<or> conforms t (obj_get kvs ''data'')"
    using assms(1) by (rule envelopeE)
  with assms(2,3) show ?thesis by (auto simp: guard_data_def)
qed

lemma guard_success_sound:
  assumes "conforms (ApiResponse t) body" and "sound_result t' (thr body)"
    and "\<And>kvs. body = JObj kvs \<Longrightarrow> obj_get kvs ''data'' = JUndef \<or> conforms t (obj_get kvs ''data'') \<Longrightarrow>
           sound_result t' (k body)"
  shows "sound_result t' (guard_success thr k body)"
proof -
  obtain kvs where "body = JObj kvs" "obj_get kvs ''data'' = JUndef \<or> conforms t (obj_get kvs ''data'')"
    using assms(1) by (rule envelopeE)
  with assms(2,3) show ?thesis by (auto simp: guard_success_def)
qed

lemma pageE:
  assumes "conforms (PaginatedResponse t) d"
  obtains kvs where "d = JObj kvs" and "conforms (TArray t) (obj_get kvs ''data'')"
    and "conforms TNumber (obj_get kvs ''total'')" and "conforms TNumber (obj_get kvs ''page'')"
    and "conforms TNumber (obj_get kvs ''page_size'')" and "conforms TNumber (obj_get kvs ''total_pages'')"
proof -
  obtain kvs where d: "d = JObj kvs" and k: "conforms_fields
      [req ''data'' (TArray t), req ''total'' TNumber, req ''page'' TNumber,
       req ''page_size'' TNumber, req ''total_pages'' TNumber] kvs"
    using assms unfolding PaginatedResponse_def by (rule conforms_objectE)
  note m = conforms_fields_mem [OF k]
  show ?thesis
    by (rule that [OF d]) (use m [of "''data''" False] m [of "''total''" False] m [of "''page''" False]
        m [of "''page_size''" False] m [of "''total_pages''" False] in simp_all)
qed

lemma conforms_arrE:
  assumes "conforms (TArray t) v" obtains xs where "v = JArr xs" and "\<forall>x \<in> set xs. conforms t x"
  using assms by (auto split: jsval.splits)

lemma page_items_sound: "conforms (PaginatedResponse t) d \<Longrightarrow> sound_result (TArray t) (page_items d)"
  by (erule pageE, erule conforms_arrE) (simp add: page_items_def js_or_def)

lemma coalesce_number: "conforms TNumber v \<Longrightarrow> conforms TNumber (coalesce v w)"
  by (auto simp: coalesce_def nullish_def)

lemma read_page_sound:
  assumes "conforms (PaginatedResponse t) d"
  shows "sound_result (PaginatedResponse t) (read_page p q d)"
proof -
  obtain kvs where d: "d = JObj kvs" and a: "conforms (TArray t) (obj_get kvs ''data'')"
    and n: "conforms TNumber (obj_get kvs ''total'')" "conforms TNumber (obj_get kvs ''page'')"
    "conforms TNumber (obj_get kvs ''page_size'')" "conforms TNumber (obj_get kvs ''total_pages'')"
    using assms by (rule pageE)
  have "is_arr (obj_get kvs ''data'')" using a by (rule conforms_arrayD)
  then show ?thesis
    unfolding d read_page_def sound_result_simps PaginatedResponse_def
    using a coalesce_number [OF n(1)] coalesce_number [OF n(2)] coalesce_number [OF n(3)] coalesce_number [OF n(4)]
    by (simp add: arr_or_empty_def del: conforms.simps(4,8))
qed

lemma data_service_sound:
  "conforms (ApiResponse t) body \<Longrightarrow> sound_result t (sv_then (data_service rq msg) (Inr body))"
  unfolding data_service_def on_body_def
  by (simp, rule guard_data_sound, assumption) (simp_all add: throw_api_sound)

lemma void_service_sound:
  "conforms (ApiResponse t) body \<Longrightarrow> sound_result TVoid (sv_then (void_service rq msg) (Inr body))"
  unfolding void_service_def on_body_def
  by (simp, rule guard_success_sound, assumption) (simp_all add: throw_api_sound return_void_def)

definition sound_service :: "service \<Rightarrow> ty \<Rightarrow> ty \<Rightarrow> bool" where
  "sound_service sv t t' \<longleftrightarrow>
     (\<forall>body. conforms (ApiResponse t) body \<longrightarrow> sound_result t' (sv_then sv (Inr body)))"

lemma sound_data: "sound_service (data_service rq msg) t t"
  by (simp add: sound_service_def data_service_sound)

lemma sound_void: "sound_service (void_service rq msg) t TVoid"
  by (simp add: sound_service_def void_service_sound)

lemma sound_guard_data:
  assumes "\<And>body. conforms (ApiResponse t) body \<Longrightarrow> sound_result t' (thr body)"
    and "\<And>d. conforms t d \<Longrightarrow> sound_result t' (k d)"
  shows "sound_service (Service rq (on_body (guard_data thr k))) t t'"
  using assms guard_data_sound [of t _ t' thr k] by (simp add: sound_service_def on_body_def)

lemma sound_guard_success:
  assumes "\<And>body. conforms (ApiResponse t) body \<Longrightarrow> sound_result t' (thr body)"
    and "\<And>kvs. obj_get kvs ''data'' = JUndef \<or> conforms t (obj_get kvs ''data'') \<Longrightarrow> sound_result t' (k (JObj kvs))"
  shows "sound_service (Service rq (on_body (guard_success thr k))) t t'"
proof -
  have "sound_result t' (guard_success thr k body)" if c: "conforms (ApiResponse t) body" for body
    by (rule guard_success_sound [OF c]) (use assms c in blast)+
  then show ?thesis by (simp add: sound_service_def on_body_def)
qed

lemma sound_field:
  assumes "conforms (TObject fs) d" and "(k, False, t) \<in> set fs"
  shows "sound_result t (js_get d k)"
proof -
  obtain kvs where d: "d = JObj kvs" and f: "conforms_fields fs kvs"
    using assms(1) by (rule conforms_objectE)
  show ?thesis using conforms_fields_mem [OF f assms(2)] by (simp add: d)
qed

lemma sound_page: "sound_service (Service rq (on_body (need_data msg (read_page p q))))
    (PaginatedResponse t) (PaginatedResponse t)"
  by (rule sound_guard_data) (simp_all add: throw_api_sound read_page_sound)

lemma sound_items: "sound_service (Service rq (on_body (need_data msg page_items)))
    (PaginatedResponse t) (TArray t)"
  by (rule sound_guard_data) (simp_all add: throw_api_sound page_items_sound)

lemma sound_items_fixed: "sound_service (Service rq (on_body (guard_data (throw_fixed msg) page_items)))
    (PaginatedResponse t) (TArray t)"
  by (rule sound_guard_data) (simp_all add: throw_fixed_sound page_items_sound)

lemma sound_get: "(k, False, t) \<in> set fs \<Longrightarrow>
    sound_service (Service rq (on_body (need_data msg (\<lambda>d. js_get d k)))) (TObject fs) t"
  by (rule sound_guard_data) (simp_all add: throw_api_sound sound_field del: conforms.simps(12))

lemma sound_get_fixed: "(k, False, t) \<in> set fs \<Longrightarrow>
    sound_service (Service rq (on_body (guard_data (throw_fixed msg) (\<lambda>d. js_get d k)))) (TObject fs) t"
  by (rule sound_guard_data) (simp_all add: throw_fixed_sound sound_field del: conforms.simps(12))

lemmas sound_services =
  sound_data sound_void sound_page sound_items sound_items_fixed sound_get sound_get_fixed


lemma sound_getAnalytics: "sound_service (getAnalytics ps) (TArray t) (TArray t)"
  unfolding getAnalytics_def
  by (rule sound_guard_success) (auto simp: throw_api_sound arr_or_empty_def dest: conforms_arrayD)

lemma sound_getAIChangeRequests: "sound_service getAIChangeRequests (TArray t) (TArray t)"
  unfolding getAIChangeRequests_def
  by (rule sound_guard_success) (auto simp: throw_api_sound js_or_def)

lemma sound_getSmishingFlagsCount:
  "sound_service getSmishingFlagsCount (TObject [req ''count'' TNumber]) TNumber"
  unfolding getSmishingFlagsCount_def
proof (rule sound_guard_success)
  fix kvs
  assume c: "obj_get kvs ''data'' = JUndef \<or> conforms (TObject [req ''count'' TNumber]) (obj_get kvs ''data'')"
  have f: "sound_result TNumber (js_get (obj_get kvs ''data'') ''count'')"
    if "conforms (TObject [req ''count'' TNumber]) (obj_get kvs ''data'')"
    by (rule sound_field [OF that]) simp
  show "sound_result TNumber (sbind (js_get (JObj kvs) ''data'') (\<lambda>d. if d = JUndef
      then throw_api ''Failed to load smishing flags count'' (JObj kvs) else js_get d ''count''))"
    using c f by (auto simp: throw_api_def simp del: conforms.simps)
qed (rule throw_api_sound)

lemma sound_getDeadLetters:
  "sound_service getDeadLetters (TObject (req ''data'' (TArray t) # fs)) (TArray t)"
  unfolding getDeadLetters_def
proof (rule sound_guard_data)
  fix d assume c: "conforms (TObject (req ''data'' (TArray t) # fs)) d"
  then obtain kvs where d: "d = JObj kvs" and f: "conforms_fields (req ''data'' (TArray t) # fs) kvs"
    by (rule conforms_objectE)
  obtain xs where "obj_get kvs ''data'' = JArr xs" "\<forall>x \<in> set xs. conforms t x"
    using conforms_fields_mem [OF f, of "''data''" False "TArray t"] by (auto elim: conforms_arrE simp del: conforms.simps(8))
  then show "sound_result (TArray t) (Inr (if is_arr d then d else coalesce (opt_get d ''data'') (JArr [])))"
    by (simp add: d coalesce_def nullish_def)
qed simp

lemma sound_unit: "sound_service (Service rq (\<lambda>r. sbind r (\<lambda>b. Inr JUndef))) t TVoid"
  by (simp add: sound_service_def)

lemma sound_logout: "sound_service logout_service t TVoid"
  by (simp add: sound_service_def logout_service_def)

lemma sound_unknown:
  "sound_service (updateProfile v) TUnknown TUnknown" "sound_service (changePassword c n) TUnknown TUnknown"
  "sound_service getProfile TUnknown TUnknown"
  unfolding updateProfile_def changePassword_def getProfile_def
  by (rule sound_guard_success sound_guard_data; simp add: throw_api_sound throw_fixed_sound)+

lemma sound_deleteAIConfig: "sound_service (deleteAIConfig i) t (TUnion TVoid t)"
  unfolding deleteAIConfig_def by (rule sound_guard_success) (auto simp: throw_api_sound)

lemmas sound_special = sound_deleteAIConfig
  sound_getAnalytics sound_getAIChangeRequests sound_getSmishingFlagsCount sound_getDeadLetters
  sound_logout sound_unknown

text \<open>
  C5. The declared types of the services hold: for every service function whose source
  declares a type for the payload of the response and for its result (the functions that
  write AI configurations apart), a response body of the declared type is answered with a
  value of the declared result type or with an exception the function throws itself, whatever
  the arguments of the call; it never runs into a \<open>TypeError\<close> of the language.
\<close>

theorem services_keep_their_types:
  "list_all (\<lambda>(sv, payload, result). sound_service sv payload result) (typed_services i v b)"
proof -
  note defs = auth_service_defs dashboard_service_defs getOnlineDevices_def
  have nil: "list_all P []" for P :: "service \<times> ty \<times> ty \<Rightarrow> bool" by simp
  show ?thesis
    unfolding typed_services_def list.pred_inject(2) prod.case
    apply (intro conjI nil sound_special)
    apply (unfold defs)
    apply (rule sound_services sound_unit; simp add: PaginatedResponse_def)+
    done
qed

text \<open>
  The two functions that create and update AI configurations are the exception: their
  source declares the configuration or the change request as the result but only tests
  \<open>success\<close>, so a successful body of the declared type without \<open>data\<close> makes them return
  \<open>undefined\<close>, which is neither.
\<close>

theorem ai_config_writes_return_undefined:
  assumes "conforms (ApiResponse (TUnion AIConfig ChangeRequested)) body"
    and "truthy (opt_get body ''success'')" and "opt_get body ''data'' = JUndef"
  shows "\<forall>sv \<in> {createAIConfig v, updateAIConfig i v}.
      sv_then sv (Inr body) = Inr JUndef \<and>
      \<not> sound_result (TUnion AIConfig ChangeRequested) (sv_then sv (Inr body))"
proof -
  obtain kvs where "body = JObj kvs" using assms(1) by (rule envelopeE)
  moreover have "\<not> conforms AIConfig JUndef" "\<not> conforms ChangeRequested JUndef"
    by (simp_all add: AIConfig_def ChangeRequested_def)
  ultimately show ?thesis
    using assms(2,3) by (simp add: createAIConfig_def updateAIConfig_def on_body_def guard_success_def)
qed

theorem ai_config_writes_return_undefined_witness:
  "sv_then (createAIConfig JNull) (Inr (JObj [(''success'', JBool True)])) = Inr JUndef"
  using ai_config_writes_return_undefined [of "JObj [(''success'', JBool True)]" JNull "[]"]
  by (simp add: ApiResponse_def)

end
