(* ===== verification/Router.thy ===== *)
theory Router
  imports AuthStore
begin

text \<open>
  The routes of the front end (\<open>app/router.tsx\<close>), the guards in front of its pages
  (\<open>ProtectedRoute\<close> there, \<open>AdminRoute\<close> and \<open>MemberRoute\<close> in \<open>app/guards.tsx\<close>) and what a
  navigation ends in: the redirects of the guards and of the two sign-in pages are followed,
  and mounting the protected part of the tree hydrates the authentication store.

  Matching a location against the routes is the work of \<open>react-router\<close>: a parameter, with the
  laws of the locale \<open>route_matcher\<close> (a match is one of the configured branches, a location
  that is literally the path of a branch gets the first such branch, and the splat route
  matches everything else). A page that throws is the business of \<open>ErrorBoundary\<close>; here the
  boundaries and \<open>Suspense\<close> are transparent.
\<close>

section \<open>Pages, elements and the route tree\<close>

datatype page =
    LoginPage | RegisterPage | DashboardPage | UsersPage | AnalyticsPage | BIDashboardPage
  | SettingsPage | NotFoundPage | MemberDashboardPage | MemberDevicesPage | MemberMessagesPage
  | SendSmsPage | BulkSmsPage | MemberAnalyticsPage | MemberTemplatesPage | MemberWebhooksPage
  | AccountsPage | WebhooksPage | TemplatesPage | BillingPage | CircuitBreakersPage
  | DeadLettersPage | FraudFlagsPage | SmishingFlagsPage | PlansPage | FeatureCatalogPage
  | BillingSettingsPage | AdminSubscriptionsPage | KycReviewPage | AppReleasesPage
  | FirebaseConfigPage | AIConfigPage | MemberUpgradePage | MemberPaymentRequestsPage
  | MemberSubscriptionRequestsPage | LandingPage | ContactSalesPage

datatype layout = AuthLayout | AppLayout

datatype element =
    Page page
  | Navigate string
  | Outlet
  | Layout layout
  | ErrorBoundary element
  | Suspense element
  | ProtectedRoute element
  | AdminRoute element
  | MemberRoute element

datatype route_object =
  Route (route_path: "string option") (route_element: element) (route_children: "route_object list")

definition LazyLoader :: "element \<Rightarrow> element" where
  "LazyLoader children = ErrorBoundary (Suspense children)"

abbreviation leaf :: "string \<Rightarrow> element \<Rightarrow> route_object" where
  "leaf path el \<equiv> Route (Some path) el []"

definition routes :: "route_object list" where
  "routes =
    [leaf ''/'' (ErrorBoundary (Suspense (Page LandingPage))),
     leaf ''/home'' (Navigate ''/''),
     leaf ''/contact-sales'' (ErrorBoundary (Suspense (Page ContactSalesPage))),
     Route None (Layout AuthLayout)
       [leaf ''/login'' (ErrorBoundary (Suspense (Page LoginPage))),
        leaf ''/register'' (ErrorBoundary (Suspense (Page RegisterPage)))],
     Route (Some ''/'') (ProtectedRoute (Layout AppLayout))
       [Route None (AdminRoute Outlet)
          [leaf ''dashboard'' (LazyLoader (Page DashboardPage)),
           leaf ''accounts'' (LazyLoader (Page AccountsPage)),
           leaf ''users'' (LazyLoader (Page UsersPage)),
           leaf ''analytics'' (LazyLoader (Page AnalyticsPage)),
           leaf ''bi'' (LazyLoader (Page BIDashboardPage)),
           leaf ''webhooks'' (LazyLoader (Page WebhooksPage)),
           leaf ''templates'' (LazyLoader (Page TemplatesPage)),
           leaf ''circuit-breakers'' (LazyLoader (Page CircuitBreakersPage)),
           leaf ''dead-letters'' (LazyLoader (Page DeadLettersPage)),
           leaf ''fraud-flags'' (LazyLoader (Page FraudFlagsPage)),
           leaf ''smishing-flags'' (LazyLoader (Page SmishingFlagsPage)),
           leaf ''plans'' (LazyLoader (Page PlansPage)),
           leaf ''feature-catalog'' (LazyLoader (Page FeatureCatalogPage)),
           leaf ''billing-settings'' (LazyLoader (Page BillingSettingsPage)),
           leaf ''admin/subscriptions'' (LazyLoader (Page AdminSubscriptionsPage)),
           leaf ''kyc-reviews'' (LazyLoader (Page KycReviewPage)),
           leaf ''app-releases'' (LazyLoader (Page AppReleasesPage)),
           leaf ''firebase-config'' (LazyLoader (Page FirebaseConfigPage)),
           leaf ''ai-config'' (LazyLoader (Page AIConfigPage))],
        leaf ''billing'' (LazyLoader (Page BillingPage)),
        leaf ''settings'' (LazyLoader (Page SettingsPage)),
        Route None (MemberRoute Outlet)
          [leaf ''member'' (LazyLoader (Page MemberDashboardPage)),
           leaf ''member/devices'' (LazyLoader (Page MemberDevicesPage)),
           leaf ''member/messages'' (LazyLoader (Page MemberMessagesPage)),
           leaf ''member/send'' (LazyLoader (Page SendSmsPage)),
           leaf ''member/bulk-sms'' (LazyLoader (Page BulkSmsPage)),
           leaf ''member/analytics'' (LazyLoader (Page MemberAnalyticsPage)),
           leaf ''member/templates'' (LazyLoader (Page MemberTemplatesPage)),
           leaf ''member/webhooks'' (LazyLoader (Page MemberWebhooksPage)),
           leaf ''member/upgrade'' (LazyLoader (Page MemberUpgradePage)),
           leaf ''member/payment-requests'' (LazyLoader (Page MemberPaymentRequestsPage)),
           leaf ''member/subscription-requests'' (LazyLoader (Page MemberSubscriptionRequestsPage))]],
     leaf ''*'' (ErrorBoundary (Suspense (Page NotFoundPage)))]"

text \<open>
  The branches of a route tree: the full path of every route that has a path, with the
  elements from the root down to it. A relative path is joined to its parent's, a route
  without a path (a layout route) adds no segment.
\<close>

definition join_path :: "string \<Rightarrow> string option \<Rightarrow> string" where
  "join_path base path =
     (case path of None \<Rightarrow> base
      | Some s \<Rightarrow> if prefix ''/'' s then s
                  else if suffix ''/'' base then base @ s else base @ ''/'' @ s)"

fun branches_of :: "string \<Rightarrow> element list \<Rightarrow> route_object \<Rightarrow> (string \<times> element list) list" where
  "branches_of base els (Route path el kids) =
     concat (map (branches_of (join_path base path) (els @ [el])) kids) @
     (case path of None \<Rightarrow> [] | Some s \<Rightarrow> [(join_path base path, els @ [el])])"

definition branches :: "(string \<times> element list) list" where
  "branches = concat (map (branches_of [] []) routes)"

section \<open>Rendering a branch\<close>

datatype screen =
    Shown "layout list" page
  | Blank "layout list"
  | Spinner
  | RedirectTo string

fun in_layout :: "layout \<Rightarrow> screen \<Rightarrow> screen" where
  "in_layout l (Shown ls p) = Shown (l # ls) p"
| "in_layout l (Blank ls) = Blank (l # ls)"
| "in_layout l sc = sc"

definition is_member :: "jsval \<Rightarrow> bool" where
  "is_member u \<longleftrightarrow> opt_get u ''role'' = JStr ''member''"

text \<open>
  The decisions of the three guards: \<open>AdminRoute\<close> and \<open>MemberRoute\<close> say where they redirect to,
  \<open>None\<close> being that they show their children; \<open>ProtectedRoute\<close> first waits while the store loads.
\<close>

definition admin_guard :: "auth_state \<Rightarrow> string option" where
  "admin_guard s =
     (if \<not> isAuthenticated s then Some ''/login''
      else if \<not> truthy (user s) \<or> is_member (user s) then Some ''/member''
      else None)"

definition member_guard :: "auth_state \<Rightarrow> string option" where
  "member_guard s = (if \<not> isAuthenticated s then Some ''/login'' else None)"

definition protected_guard :: "auth_state \<Rightarrow> screen option" where
  "protected_guard s =
     (if isLoading s then Some Spinner
      else if \<not> isAuthenticated s then Some (RedirectTo ''/login'')
      else None)"

text \<open>
  What an element shows in a state of the authentication store, given the elements of the
  matched routes below it, which its outlet shows.
\<close>

function render :: "auth_state \<Rightarrow> element \<Rightarrow> element list \<Rightarrow> screen" where
  "render s (Page p) below = Shown [] p"
| "render s (Navigate to) below = RedirectTo to"
| "render s Outlet below = (case below of [] \<Rightarrow> Blank [] | e # es \<Rightarrow> render s e es)"
| "render s (Layout l) below =
     in_layout l (case below of [] \<Rightarrow> Blank [] | e # es \<Rightarrow> render s e es)"
| "render s (ErrorBoundary e) below = render s e below"
| "render s (Suspense e) below = render s e below"
| "render s (ProtectedRoute e) below =
     (case protected_guard s of Some sc \<Rightarrow> sc | None \<Rightarrow> render s e below)"
| "render s (AdminRoute e) below =
     (case admin_guard s of Some to \<Rightarrow> RedirectTo to | None \<Rightarrow> render s e below)"
| "render s (MemberRoute e) below =
     (case member_guard s of Some to \<Rightarrow> RedirectTo to | None \<Rightarrow> render s e below)"
  by pat_completeness auto
termination
  by (relation "inv_image (less_than <*lex*> less_than) (\<lambda>(s, e, below). (length below, size e))") auto

declare render.simps(7-9) [simp del]

lemma render_guards [simp]:
  "render s (ProtectedRoute e) below =
     (if isLoading s then Spinner
      else if \<not> isAuthenticated s then RedirectTo ''/login''
      else render s e below)"
  "render s (AdminRoute e) below =
     (if \<not> isAuthenticated s then RedirectTo ''/login''
      else if \<not> truthy (user s) \<or> is_member (user s) then RedirectTo ''/member''
      else render s e below)"
  "render s (MemberRoute e) below =
     (if \<not> isAuthenticated s then RedirectTo ''/login'' else render s e below)"
  by (simp_all add: render.simps protected_guard_def admin_guard_def member_guard_def)

text \<open>
  The two sign-in pages navigate away in an effect when the store is authenticated; the
  protected part of the tree hydrates the store in an effect when it is mounted.
\<close>

fun page_effect :: "page \<Rightarrow> auth_state \<Rightarrow> string option" where
  "page_effect LoginPage s = (if isAuthenticated s then Some ''/dashboard'' else None)"
| "page_effect RegisterPage s = (if isAuthenticated s then Some ''/member'' else None)"
| "page_effect _ s = None"

definition show_branch :: "auth_state \<Rightarrow> element list \<Rightarrow> screen" where
  "show_branch s els = render s Outlet els"

definition commit :: "auth_state \<Rightarrow> element list \<Rightarrow> screen" where
  "commit s els =
     (case show_branch s els of
        Shown ls p \<Rightarrow> (case page_effect p s of Some to \<Rightarrow> RedirectTo to | None \<Rightarrow> Shown ls p)
      | sc \<Rightarrow> sc)"

fun is_protected :: "element \<Rightarrow> bool" where
  "is_protected (ProtectedRoute e) = True"
| "is_protected _ = False"

definition in_protected :: "element list \<Rightarrow> bool" where
  "in_protected els = list_ex is_protected els"

definition mount_effect :: "bool \<Rightarrow> element list \<Rightarrow> auth_world \<Rightarrow> auth_world" where
  "mount_effect mounted els w = (if in_protected els \<and> \<not> mounted then hydrate w else w)"

type_synonym matcher = "string \<Rightarrow> element list option"

text \<open>
  Navigating to a path: the branch is rendered and committed, its effects run, a redirect is
  followed, and a state changed by the effects is rendered again. \<open>mounted\<close> says whether the
  protected part of the tree is already mounted; the fuel counts the redirects.
\<close>

fun resolve :: "matcher \<Rightarrow> nat \<Rightarrow> bool \<Rightarrow> auth_world \<Rightarrow> string \<Rightarrow> (screen \<times> string \<times> auth_world) option" where
  "resolve m 0 mounted w p = None"
| "resolve m (Suc n) mounted w p =
     (case m p of
        None \<Rightarrow> Some (Blank [], p, w)
      | Some els \<Rightarrow>
          (let w' = mount_effect mounted els w in
           case commit (fst w) els of
             RedirectTo to \<Rightarrow> resolve m n (in_protected els) w' to
           | _ \<Rightarrow> (case commit (fst w') els of
                     RedirectTo to \<Rightarrow> resolve m n (in_protected els) w' to
                   | sc \<Rightarrow> Some (sc, p, w'))))"

text \<open>
  Loading the application at a path: the first render is of the initial store, the effects of
  the branch run before the one of \<open>App\<close>, which hydrates the store again.
\<close>

definition boot :: "matcher \<Rightarrow> nat \<Rightarrow> storage \<Rightarrow> string \<Rightarrow> (screen \<times> string \<times> auth_world) option" where
  "boot m n st p =
     (case m p of
        None \<Rightarrow> Some (Blank [], p, hydrate (auth_initial, st))
      | Some els \<Rightarrow>
          (let w1 = hydrate (mount_effect False els (auth_initial, st)) in
           case commit auth_initial els of
             RedirectTo to \<Rightarrow> resolve m n (in_protected els) w1 to
           | _ \<Rightarrow> (case commit (fst w1) els of
                     RedirectTo to \<Rightarrow> resolve m n (in_protected els) w1 to
                   | sc \<Rightarrow> Some (sc, p, w1))))"

section \<open>The shape of the branches\<close>

definition public_pages :: "page list" where
  "public_pages = [LandingPage, ContactSalesPage, LoginPage, RegisterPage, NotFoundPage]"

definition shared_pages :: "page list" where
  "shared_pages = [BillingPage, SettingsPage]"

definition member_pages :: "page list" where
  "member_pages = [MemberDashboardPage, MemberDevicesPage, MemberMessagesPage, SendSmsPage, BulkSmsPage,
     MemberAnalyticsPage, MemberTemplatesPage, MemberWebhooksPage, MemberUpgradePage,
     MemberPaymentRequestsPage, MemberSubscriptionRequestsPage]"

definition admin_pages :: "page list" where
  "admin_pages = [DashboardPage, AccountsPage, UsersPage, AnalyticsPage, BIDashboardPage, WebhooksPage,
     TemplatesPage, CircuitBreakersPage, DeadLettersPage, FraudFlagsPage, SmishingFlagsPage,
     PlansPage, FeatureCatalogPage, BillingSettingsPage, AdminSubscriptionsPage, KycReviewPage,
     AppReleasesPage, FirebaseConfigPage, AIConfigPage]"

lemmas page_lists = public_pages_def shared_pages_def member_pages_def admin_pages_def

lemma page_classes: "p \<in> set (public_pages @ shared_pages @ member_pages @ admin_pages)"
  by (cases p) (simp_all add: page_lists)

abbreviation plain_page :: "page \<Rightarrow> element" where
  "plain_page p \<equiv> ErrorBoundary (Suspense (Page p))"

abbreviation shell :: element where
  "shell \<equiv> ProtectedRoute (Layout AppLayout)"

text \<open>The branch of a page in each of the four groups of the tree, and the two without a page.\<close>

inductive branch_shape :: "element list \<Rightarrow> bool" where
  home: "branch_shape [Navigate ''/'']"
| bare: "branch_shape [shell]"
| public: "p \<in> set public_pages \<Longrightarrow> branch_shape [plain_page p]"
| sign_in: "p \<in> set public_pages \<Longrightarrow> branch_shape [Layout AuthLayout, plain_page p]"
| shared: "p \<in> set shared_pages \<Longrightarrow> branch_shape [shell, plain_page p]"
| member: "p \<in> set member_pages \<Longrightarrow> branch_shape [shell, MemberRoute Outlet, plain_page p]"
| admin: "p \<in> set admin_pages \<Longrightarrow> branch_shape [shell, AdminRoute Outlet, plain_page p]"

inductive_simps branch_shape_simps [simp]:
  "branch_shape [e]" "branch_shape [e, e']" "branch_shape [e, e', e'']"

lemma branch_list:
  "branches =
    [(''/'', [plain_page LandingPage]), (''/home'', [Navigate ''/'']),
     (''/contact-sales'', [plain_page ContactSalesPage]),
     (''/login'', [Layout AuthLayout, plain_page LoginPage]),
     (''/register'', [Layout AuthLayout, plain_page RegisterPage])]
   @ map (\<lambda>(s, p). (''/'' @ s, [shell, AdminRoute Outlet, plain_page p]))
      (zip [''dashboard'', ''accounts'', ''users'', ''analytics'', ''bi'', ''webhooks'', ''templates'',
        ''circuit-breakers'', ''dead-letters'', ''fraud-flags'', ''smishing-flags'', ''plans'',
        ''feature-catalog'', ''billing-settings'', ''admin/subscriptions'', ''kyc-reviews'',
        ''app-releases'', ''firebase-config'', ''ai-config''] admin_pages)
   @ map (\<lambda>(s, p). (''/'' @ s, [shell, plain_page p])) (zip [''billing'', ''settings''] shared_pages)
   @ map (\<lambda>(s, p). (''/'' @ s, [shell, MemberRoute Outlet, plain_page p]))
      (zip [''member'', ''member/devices'', ''member/messages'', ''member/send'', ''member/bulk-sms'',
        ''member/analytics'', ''member/templates'', ''member/webhooks'', ''member/upgrade'',
        ''member/payment-requests'', ''member/subscription-requests''] member_pages)
   @ [(''/'', [shell]), (''/*'', [plain_page NotFoundPage])]"
  by (simp add: branches_def routes_def join_path_def LazyLoader_def page_lists suffix_def)

lemma branches_shaped: "(p, els) \<in> set branches \<Longrightarrow> branch_shape els"
  unfolding branch_list by (auto simp: set_zip page_lists nth_Cons' elim!: in_set_zipE)

section \<open>Guards\<close>

lemma show_shape [simp]:
  "show_branch s [e] = render s e []"
  "show_branch s [e, e'] = render s e [e']"
  "show_branch s [e, e', e''] = render s e [e', e'']"
  by (simp_all add: show_branch_def)

lemma page_effect_None: "p \<notin> set public_pages \<Longrightarrow> page_effect p s = None"
  by (cases p) (simp_all add: page_lists)

lemma not_public [simp]:
  "p \<in> set shared_pages \<Longrightarrow> p \<notin> set public_pages" "p \<in> set member_pages \<Longrightarrow> p \<notin> set public_pages"
  "p \<in> set admin_pages \<Longrightarrow> p \<notin> set public_pages" "p \<in> set shared_pages \<Longrightarrow> p \<notin> set admin_pages"
  "p \<in> set member_pages \<Longrightarrow> p \<notin> set admin_pages"
  by (auto simp: page_lists)

definition may_see :: "auth_state \<Rightarrow> page \<Rightarrow> bool" where
  "may_see s p \<longleftrightarrow>
     (p \<notin> set public_pages \<longrightarrow> isAuthenticated s \<and> \<not> isLoading s) \<and>
     (p \<in> set admin_pages \<longrightarrow> truthy (user s) \<and> \<not> is_member (user s))"

lemma commit_may_see: "branch_shape els \<Longrightarrow> commit s els = Shown ls p \<Longrightarrow> may_see s p"
  by (induction rule: branch_shape.induct)
    (auto simp: commit_def may_see_def page_effect_None split: if_splits option.splits)

lemma hydrate_not_loading [simp]: "\<not> isLoading (fst (hydrate w))"
  by (cases w rule: hydrate_cases) auto

lemma hydrate_idem [simp]: "hydrate (hydrate w) = hydrate w"
proof (cases "truthy_text (get_item (snd w) ''auth_token'') \<and> truthy_text (get_item (snd w) ''auth_user'')")
  case True
  then show ?thesis
    by (cases "json_parse (the (get_item (snd w) ''auth_user''))")
      (auto simp: hydrate_def get_clear_session)
next
  case False
  then show ?thesis by (auto simp: hydrate_def)
qed

lemma mount_effect_simps [simp]:
  "mount_effect True els w = w"
  "in_protected els \<Longrightarrow> mount_effect False els w = hydrate w"
  "\<not> in_protected els \<Longrightarrow> mount_effect b els w = w"
  by (simp_all add: mount_effect_def)

lemma in_protected_simps [simp]: "in_protected (e # es) = (is_protected e \<or> in_protected es)" "\<not> in_protected []"
  by (simp_all add: in_protected_def)

section \<open>The contract of the matcher\<close>

fun settled :: "screen \<Rightarrow> bool" where
  "settled (Shown ls p) = True"
| "settled (Blank ls) = True"
| "settled _ = False"

definition lands :: "(screen \<times> string \<times> auth_world) option \<Rightarrow> bool" where
  "lands r = (case r of None \<Rightarrow> False | Some (sc, q, w) \<Rightarrow> settled sc)"

lemma lands_simps [simp]: "\<not> lands None" "lands (Some (sc, q, w)) = settled sc"
  by (simp_all add: lands_def)

locale route_matcher =
  fixes m :: matcher
  assumes match_branch: "m p = Some els \<Longrightarrow> \<exists>q. (q, els) \<in> set branches"
    and match_literal: "map_of branches p = Some els \<Longrightarrow> p \<noteq> ''/*'' \<Longrightarrow> m p = Some els"
    and match_total: "m p \<noteq> None"
begin

lemma match_shape: "m p = Some els \<Longrightarrow> branch_shape els"
  using match_branch branches_shaped by blast

lemma known [simp]:
  "m ''/'' = Some [plain_page LandingPage]"
  "m ''/login'' = Some [Layout AuthLayout, plain_page LoginPage]"
  "m ''/register'' = Some [Layout AuthLayout, plain_page RegisterPage]"
  "m ''/member'' = Some [shell, MemberRoute Outlet, plain_page MemberDashboardPage]"
  "m ''/dashboard'' = Some [shell, AdminRoute Outlet, plain_page DashboardPage]"
  by (rule match_literal; simp add: branch_list page_lists)+

lemma resolve_final:
  "resolve m n mounted w p = Some (sc, q, w') \<Longrightarrow>
     \<exists>els. m q = Some els \<and> sc = commit (fst w') els \<and> (\<forall>to. sc \<noteq> RedirectTo to)"
proof (induction n arbitrary: mounted w p)
  case (Suc n)
  obtain els where els: "m p = Some els" using match_total by blast
  let ?w = "mount_effect mounted els w"
  consider (first) to where "commit (fst w) els = RedirectTo to"
    | (second) to where "\<forall>t. commit (fst w) els \<noteq> RedirectTo t" "commit (fst ?w) els = RedirectTo to"
    | (stay) "\<forall>t. commit (fst w) els \<noteq> RedirectTo t" "\<forall>t. commit (fst ?w) els \<noteq> RedirectTo t"
    by blast
  then show ?case
  proof cases
    case first
    with Suc els show ?thesis by (simp add: Let_def)
  next
    case second
    then have "resolve m (Suc n) mounted w p = resolve m n (in_protected els) ?w to"
      using els by (auto simp: Let_def split: screen.split)
    with Suc show ?thesis by simp
  next
    case stay
    then have "resolve m (Suc n) mounted w p = Some (commit (fst ?w) els, p, ?w)"
      using els by (auto simp: Let_def split: screen.split)
    with Suc.prems els stay show ?thesis by auto
  qed
qed simp

lemma resolve_may_see: "resolve m n mounted w p = Some (Shown ls pg, q, w') \<Longrightarrow> may_see (fst w') pg"
  by (metis commit_may_see match_shape resolve_final)

lemma boot_cases:
  obtains (stay) els where "m p = Some els"
      and "boot m n st p = Some (commit (fst (hydrate (auth_initial, st))) els, p, hydrate (auth_initial, st))"
      and "\<forall>to. commit (fst (hydrate (auth_initial, st))) els \<noteq> RedirectTo to"
  | (go) els to where "m p = Some els" and
      "boot m n st p = resolve m n (in_protected els) (hydrate (auth_initial, st)) to"
      and "commit auth_initial els = RedirectTo to \<or> commit (fst (hydrate (auth_initial, st))) els = RedirectTo to"
proof -
  obtain els where els: "m p = Some els" using match_total by blast
  have w: "hydrate (mount_effect False els (auth_initial, st)) = hydrate (auth_initial, st)"
    by (cases "in_protected els") simp_all
  show ?thesis
  proof (cases "\<exists>to. commit auth_initial els = RedirectTo to \<or> commit (fst (hydrate (auth_initial, st))) els = RedirectTo to")
    case False
    then show ?thesis
      by (intro stay [OF els]) (auto simp: boot_def els w Let_def split: screen.split)
  next
    case True
    then show ?thesis
    proof (cases "\<exists>to. commit auth_initial els = RedirectTo to")
      case True
      then show ?thesis
        using go [OF els] by (auto simp: boot_def els w Let_def)
    next
      case f: False
      with True obtain to where "commit (fst (hydrate (auth_initial, st))) els = RedirectTo to" by blast
      with f show ?thesis
        by (intro go [OF els]) (auto simp: boot_def els w Let_def split: screen.split)
    qed
  qed
qed

lemma boot_may_see: "boot m n st p = Some (Shown ls pg, q, w') \<Longrightarrow> may_see (fst w') pg"
  by (cases rule: boot_cases [of p n st]) (auto dest: resolve_may_see match_shape commit_may_see)

end

declare resolve.simps(2) [simp del]

section \<open>Where navigations end\<close>

context route_matcher begin

lemma resolve_Suc:
  assumes "m p = Some els"
  shows "resolve m (Suc n) mounted w p =
    (case commit (fst w) els of
       RedirectTo to \<Rightarrow> resolve m n (in_protected els) (mount_effect mounted els w) to
     | _ \<Rightarrow> (case commit (fst (mount_effect mounted els w)) els of
               RedirectTo to \<Rightarrow> resolve m n (in_protected els) (mount_effect mounted els w) to
             | sc \<Rightarrow> Some (sc, p, mount_effect mounted els w)))"
  using assms by (simp add: resolve.simps(2) Let_def)

lemmas at = resolve_Suc [OF known(2)] resolve_Suc [OF known(3)] resolve_Suc [OF known(4)] resolve_Suc [OF known(5)]

lemma lands_login: "\<not> isAuthenticated (fst w) \<Longrightarrow> lands (resolve m (Suc n) mounted w ''/login'')"
  by (simp add: at commit_def)

lemma lands_member_mounted: "\<not> isLoading (fst w) \<Longrightarrow> lands (resolve m (Suc (Suc n)) True w ''/member'')"
  by (simp add: at commit_def lands_login)

lemma lands_member_authenticated:
  "\<not> isLoading (fst w) \<Longrightarrow> isAuthenticated (fst w) \<Longrightarrow> lands (resolve m (Suc n) True w ''/member'')"
  by (simp add: at commit_def)

lemma lands_dashboard_hydrated:
  "isAuthenticated (fst (hydrate w)) \<Longrightarrow> lands (resolve m (Suc (Suc n)) False (hydrate w) ''/dashboard'')"
  by (simp add: at commit_def lands_member_authenticated)

lemma lands_login_hydrated: "lands (resolve m (Suc (Suc (Suc n))) mounted (hydrate w) ''/login'')"
  by (simp add: at commit_def lands_dashboard_hydrated)

lemma lands_dashboard:
  "isAuthenticated (fst w) \<Longrightarrow> lands (resolve m (Suc (Suc (Suc n))) False w ''/dashboard'')"
  by (simp add: at commit_def lands_member_mounted lands_login)

lemma lands_member_page:
  "isAuthenticated (fst w) \<Longrightarrow> lands (resolve m (Suc (Suc (Suc n))) False w ''/member'')"
  by (simp add: at commit_def lands_login)

lemma lands_anywhere:
  assumes "isLoading (fst w) \<longrightarrow> \<not> mounted"
  shows "lands (resolve m (Suc (Suc (Suc (Suc n)))) mounted w p)"
proof -
  obtain els where els: "m p = Some els" using match_total by blast
  note r = resolve_Suc [OF els] commit_def page_effect_None
  from match_shape [OF els] show ?thesis
  proof cases
    case home
    then show ?thesis by (simp add: r resolve_Suc [OF known(1)])
  next
    case (public q)
    then show ?thesis
      by (cases q) (auto simp: r lands_dashboard lands_member_page)
  next
    case (sign_in q)
    then show ?thesis
      by (cases q) (auto simp: r lands_dashboard lands_member_page)
  qed (cases mounted; use assms in \<open>auto simp: r lands_login lands_login_hydrated lands_member_mounted\<close>)+
qed


lemma boot_lands: "lands (boot m (Suc (Suc (Suc (Suc n)))) st p)"
proof (cases rule: boot_cases [of p "Suc (Suc (Suc (Suc n)))" st])
  case (stay els)
  have "branch_shape els" by (rule match_shape [OF stay(1)])
  then have "commit (fst (hydrate (auth_initial, st))) els \<noteq> Spinner"
    by cases (auto simp: commit_def split: screen.splits option.splits)
  with stay show ?thesis by (cases "commit (fst (hydrate (auth_initial, st))) els") auto
next
  case (go els to)
  then show ?thesis by (simp add: lands_anywhere)
qed

lemma resolve_signed_out: "signed_out w \<Longrightarrow> resolve m n mounted w p = Some (sc, q, w') \<Longrightarrow> signed_out w'"
proof (induction n arbitrary: mounted w p)
  case (Suc n)
  obtain els where els: "m p = Some els" using match_total by blast
  have "signed_out (mount_effect mounted els w)"
    using signed_out_step [OF Suc.prems(1), of Hydrate] Suc.prems(1)
    by (simp add: mount_effect_def)
  with Suc els show ?case by (auto simp: resolve_Suc [OF els] split: screen.splits)
qed simp

text \<open>
  Without a stored session every navigation from outside the protected tree ends at a public
  page, whatever the store says: entering the tree hydrates the store.
\<close>

lemma resolve_without_session:
  "\<not> stored_session (snd w) \<Longrightarrow> resolve m n False w p = Some (Shown ls pg, q, w') \<Longrightarrow> pg \<in> set public_pages"
proof (induction n arbitrary: w p)
  case (Suc n)
  obtain els where els: "m p = Some els" using match_total by blast
  note shape = match_shape [OF els]
  show ?case
  proof (cases "in_protected els")
    case False
    with shape have "\<exists>pg. els = [Navigate ''/''] \<or> pg \<in> set public_pages \<and> (els = [plain_page pg] \<or> els = [Layout AuthLayout, plain_page pg])"
      by cases auto
    moreover have "mount_effect False els w = w" using False by (simp add: mount_effect_def)
    ultimately show ?thesis
      using Suc.prems Suc.IH [of w] False by (auto simp: resolve_Suc [OF els] commit_def split: option.splits screen.splits)
  next
    case True
    have out: "signed_out (hydrate w)"
      using Suc.prems(1) by (simp add: signed_out_def hydrate_authenticates hydrate_keeps_absence)
    have hyd: "mount_effect False els w = hydrate w" using True by (simp add: mount_effect_def)
    have "signed_out w'"
      using Suc.prems(2) out hyd resolve_signed_out [OF out]
      by (auto simp: resolve_Suc [OF els] split: screen.splits)
    with resolve_may_see [OF Suc.prems(2)] show ?thesis
      by (auto simp: may_see_def signed_out_def)
  qed
qed simp

lemma home_after_login:
  assumes w: "hydrate w = w" "isAuthenticated (fst w)" "truthy (user (fst w))"
    and p: "p = ''/login'' \<or> p = ''/dashboard'' \<or> p = (if is_member (user (fst w)) then ''/member'' else ''/dashboard'')"
  shows "resolve m (Suc (Suc (Suc n))) mounted w p =
    Some (Shown [AppLayout] (if is_member (user (fst w)) then MemberDashboardPage else DashboardPage),
          (if is_member (user (fst w)) then ''/member'' else ''/dashboard''), w)"
proof -
  have "\<not> isLoading (fst w)" using hydrate_not_loading [of w] w(1) by simp
  moreover have "mount_effect b els w = w" for b els using w(1) by (simp add: mount_effect_def)
  ultimately show ?thesis using w p by (auto simp: at commit_def)
qed

end

text \<open>A matcher that keeps the contract: the first branch with the very path, else the splat.\<close>

definition find_branch :: matcher where
  "find_branch p =
     Some (case map_of branches p of Some els \<Rightarrow> els | None \<Rightarrow> [plain_page NotFoundPage])"

interpretation table: route_matcher find_branch
proof unfold_locales
  fix p els
  assume "find_branch p = Some els"
  then have "els = [plain_page NotFoundPage] \<or> map_of branches p = Some els"
    by (auto simp: find_branch_def split: option.splits)
  then show "\<exists>q. (q, els) \<in> set branches"
  proof
    assume "els = [plain_page NotFoundPage]"
    then have "(''/*'', els) \<in> set branches" by (simp add: branch_list)
    then show ?thesis by blast
  next
    assume "map_of branches p = Some els"
    then have "(p, els) \<in> set branches" by (rule map_of_SomeD)
    then show ?thesis by blast
  qed
qed (simp_all add: find_branch_def)

section \<open>Properties of the navigation\<close>

text \<open>
  C1. A page is only ever shown to those who may see it: whatever the store and the session
  storage hold, wherever a navigation or a load of the application starts, if it ends at a page
  outside the public ones then the store is authenticated and loaded, and if it ends at an
  administration page then the store has a user whose role is not \<open>member\<close>.
\<close>

theorem pages_are_guarded:
  assumes "route_matcher m"
    and "resolve m n mounted w p = Some (Shown ls pg, q, w') \<or> boot m n st p = Some (Shown ls pg, q, w')"
  shows "(pg \<notin> set public_pages \<longrightarrow> isAuthenticated (fst w') \<and> \<not> isLoading (fst w'))
    \<and> (pg \<in> set admin_pages \<longrightarrow> truthy (user (fst w')) \<and> \<not> is_member (user (fst w')))"
proof -
  have "may_see (fst w') pg"
    using assms(2) route_matcher.resolve_may_see [OF assms(1)] route_matcher.boot_may_see [OF assms(1)]
    by blast
  then show ?thesis by (simp add: may_see_def)
qed

text \<open>
  C2. Navigations end: from any state that is not loading behind a mounted tree, at any path,
  following at most three redirects reaches a screen that is neither a redirect nor the spinner,
  and so does loading the application at any path over any session storage. The redirects of
  the guards and of the sign-in pages never form a loop.
\<close>

theorem navigations_end:
  assumes "route_matcher m" and "isLoading (fst w) \<longrightarrow> \<not> mounted"
  shows "lands (resolve m 4 mounted w p) \<and> lands (boot m 4 st p)"
proof -
  have "(4::nat) = Suc (Suc (Suc (Suc 0)))" by simp
  then show ?thesis
    using route_matcher.lands_anywhere [OF assms] route_matcher.boot_lands [OF assms(1)] by metis
qed

text \<open>
  Signing in leads home: after a login with a token and a user that can be stored, the
  sign-in page's own navigation, and the competing navigation of its effect to the dashboard,
  both end at the user's home, \<open>/member\<close> for a member and \<open>/dashboard\<close> for anyone else.
\<close>

theorem sign_in_leads_home:
  assumes "route_matcher m" and "to_str token \<noteq> []" and "plain u" and "accepts_user u"
    and "p = ''/login'' \<or> p = ''/dashboard'' \<or> p = (if is_member u then ''/member'' else ''/dashboard'')"
  shows "resolve m 3 mounted (login token refresh u w) p =
    Some (Shown [AppLayout] (if is_member u then MemberDashboardPage else DashboardPage),
          (if is_member u then ''/member'' else ''/dashboard''), login token refresh u w)"
proof -
  have three: "(3::nat) = Suc (Suc (Suc 0))" by simp
  have "hydrate (login token refresh u w) = login token refresh u w"
    using hydrate_written [OF assms(2-4)] by (simp add: login_def)
  then show ?thesis
    unfolding three using route_matcher.home_after_login [OF assms(1), of "login token refresh u w" p] assms(4,5)
    by (simp add: login_def accepts_user_def)
qed

text \<open>
  After a logout no navigation shows a protected page: wherever the user goes, before or
  after reloading the application, the page shown is a public one.
\<close>

theorem logout_closes_the_pages:
  assumes "route_matcher m"
    and "resolve m n mounted (logout w) p = Some (Shown ls pg, q, w') \<or>
         boot m n (snd (logout w)) p = Some (Shown ls pg, q, w')"
  shows "pg \<in> set public_pages"
proof -
  have out: "signed_out (logout w)" "signed_out (hydrate (auth_initial, snd (logout w)))"
    using signed_out_step [of "(auth_initial, snd (logout w))" Hydrate]
    by (auto simp: signed_out_def logout_def auth_initial_def)
  have "signed_out w'"
    using assms(2)
  proof
    assume "boot m n (snd (logout w)) p = Some (Shown ls pg, q, w')"
    then show ?thesis
      by (cases rule: route_matcher.boot_cases [OF assms(1), of p n "snd (logout w)"])
        (use out(2) in \<open>auto dest: route_matcher.resolve_signed_out [OF assms(1)]\<close>)
  qed (use out(1) route_matcher.resolve_signed_out [OF assms(1)] in blast)
  moreover have "may_see (fst w') pg"
    using assms route_matcher.resolve_may_see route_matcher.boot_may_see by blast
  ultimately show ?thesis by (auto simp: signed_out_def may_see_def)
qed

section \<open>Instances\<close>

definition member_user :: jsval where
  "member_user = JObj [(''id'', JStr ''u2''), (''email'', JStr ''m@b.c''), (''role'', JStr ''member'')]"

definition admin_user :: jsval where
  "admin_user = JObj [(''id'', JStr ''u3''), (''email'', JStr ''r@b.c''), (''role'', JStr ''admin'')]"

lemma sample_users: "plain member_user" "accepts_user member_user" "is_member member_user"
  "plain admin_user" "accepts_user admin_user" "\<not> is_member admin_user"
  by (simp_all add: member_user_def admin_user_def accepts_user_def is_member_def)

lemma table_matcher: "route_matcher find_branch"
  by (rule table.route_matcher_axioms)

theorem pages_are_guarded_witness:
  "\<exists>ls q w'. resolve find_branch 3 False (login (JStr ''t'') JUndef admin_user (auth_initial, Map.empty)) ''/dashboard''
      = Some (Shown ls DashboardPage, q, w') \<and> \<not> is_member (user (fst w'))"
proof -
  have r: "resolve find_branch (Suc (Suc (Suc 0))) False
      (login (JStr ''t'') JUndef admin_user (auth_initial, Map.empty)) ''/dashboard''
    = Some (Shown [AppLayout] DashboardPage, ''/dashboard'', login (JStr ''t'') JUndef admin_user (auth_initial, Map.empty))"
    using table.home_after_login [of "login (JStr ''t'') JUndef admin_user (auth_initial, Map.empty)" "''/dashboard''"]
      hydrate_written [of "JStr ''t''" admin_user] sample_users
    by (simp add: login_def accepts_user_def)
  have "\<not> is_member (user (fst (login (JStr ''t'') JUndef admin_user (auth_initial, Map.empty))))"
    using pages_are_guarded [OF table_matcher disjI1, OF r] by (simp add: page_lists)
  moreover have "(3::nat) = Suc (Suc (Suc 0))" by simp
  ultimately show ?thesis using r by metis
qed

theorem navigations_end_witness:
  "lands (resolve find_branch 4 False (auth_initial, Map.empty) ''/users'') \<and> lands (boot find_branch 4 Map.empty ''/nowhere'')"
  using navigations_end [OF table_matcher, of "(auth_initial, Map.empty)" False] by simp

theorem sign_in_leads_home_witness:
  "resolve find_branch 3 False (login (JStr ''t'') JUndef member_user (auth_initial, Map.empty)) ''/dashboard'' =
    Some (Shown [AppLayout] MemberDashboardPage, ''/member'', login (JStr ''t'') JUndef member_user (auth_initial, Map.empty))"
  using sign_in_leads_home [OF table_matcher, of "JStr ''t''" member_user "''/dashboard''" False JUndef "(auth_initial, Map.empty)"]
    sample_users by simp

theorem logout_closes_the_pages_witness:
  "\<exists>ls q w'. resolve find_branch 4 True (logout (auth_initial, Map.empty)) ''/register'' = Some (Shown ls RegisterPage, q, w')
     \<and> RegisterPage \<in> set public_pages"
proof -
  have four: "(4::nat) = Suc (Suc (Suc (Suc 0)))" by simp
  have r: "resolve find_branch 4 True (logout (auth_initial, Map.empty)) ''/register''
      = Some (Shown [AuthLayout] RegisterPage, ''/register'', logout (auth_initial, Map.empty))"
    unfolding four by (simp add: table.at commit_def logout_def)
  with logout_closes_the_pages [OF table_matcher, of 4 True _ "''/register''"] show ?thesis by blast
qed

end
