(* ===== verification/UiKit.thy ===== *)
theory UiKit
  imports Prelude
begin

text \<open>
  What the components render. A view is a tree of elements with the attributes and handlers
  that matter to what a user can read and do: tag, texts, form attributes and events; class
  names, inline styles, motion wrappers and icons are styling and left out. Handlers carry the
  event of the component they raise, so that \<open>live\<close> computes what the user can do in a state.
  The second half holds the shared controls of \<open>components/ui\<close>: buttons, inputs, badges, empty
  states, modal and confirmation dialogs.
\<close>

section \<open>Views\<close>

text \<open>A handler raises an event, or one built from the text of a control.\<close>

datatype 'e handler =
    On string 'e
  | OnText string "string \<Rightarrow> 'e"

type_synonym attrs = "(string \<times> string) list"

datatype 'e vnode =
    Txt string
  | El string attrs "'e handler list" "'e vnode list"

definition attr :: "attrs \<Rightarrow> string \<Rightarrow> string option" where
  "attr ats k = map_of ats k"

definition flag :: "string \<Rightarrow> bool \<Rightarrow> attrs" where
  "flag k b = (if b then [(k, [])] else [])"

fun nodes :: "'e vnode \<Rightarrow> 'e vnode list" where
  "nodes (Txt s) = [Txt s]"
| "nodes (El t ats hs kids) = El t ats hs kids # concat (map nodes kids)"

fun texts :: "'e vnode \<Rightarrow> string list" where
  "texts (Txt s) = [s]"
| "texts (El t ats hs kids) = concat (map texts kids)"

text \<open>
  A form can be submitted through an enabled submit button (a button without a type is one)
  when no required control of it is empty and no text typed into it is shorter than the
  control's \<open>minLength\<close>: the browser's own validation. Every form of the program has a submit
  button but one, whose page calls its handler from a button outside it.
\<close>

fun submit_button :: "'e vnode \<Rightarrow> bool" where
  "submit_button (Txt s) = False"
| "submit_button (El t ats hs kids) =
     (t = ''button'' \<and> attr ats ''disabled'' = None \<and>
      (attr ats ''type'' = None \<or> attr ats ''type'' = Some ''submit''))"

definition attr_num :: "string \<Rightarrow> nat" where
  "attr_num m = foldl (\<lambda>n c. 10 * n + digit_val c) 0 m"

definition long_enough :: "attrs \<Rightarrow> bool" where
  "long_enough ats \<longleftrightarrow>
     (case (attr ats ''minLength'', attr ats ''value'') of
        (Some m, Some v) \<Rightarrow> v = [] \<or> attr_num m \<le> length v
      | _ \<Rightarrow> True)"

fun filled :: "'e vnode \<Rightarrow> bool" where
  "filled (Txt s) = True"
| "filled (El t ats hs kids) =
     ((attr ats ''required'' = None \<or> (case attr ats ''value'' of None \<Rightarrow> False | Some v \<Rightarrow> v \<noteq> [])) \<and>
      long_enough ats)"

definition can_submit :: "'e vnode list \<Rightarrow> bool" where
  "can_submit kids \<longleftrightarrow>
     (let ns = concat (map nodes kids) in list_ex submit_button ns \<and> list_all filled ns)"

fun on_submit :: "'e handler \<Rightarrow> bool" where
  "on_submit (On k e) = (k = ''submit'')"
| "on_submit (OnText k f) = False"

text \<open>The handlers the user can run in a view; a disabled control runs none.\<close>

fun live :: "'e vnode \<Rightarrow> 'e handler list" where
  "live (Txt s) = []"
| "live (El t ats hs kids) =
     (if attr ats ''disabled'' \<noteq> None then []
      else filter (\<lambda>h. t = ''form'' \<and> on_submit h \<longrightarrow> can_submit kids) hs @ concat (map live kids))"

fun raises :: "'e handler \<Rightarrow> 'e \<Rightarrow> bool" where
  "raises (On k e) e' = (e = e')"
| "raises (OnText k f) e' = (\<exists>t. f t = e')"

definition may_fire :: "'e vnode \<Rightarrow> 'e \<Rightarrow> bool" where
  "may_fire v e \<longleftrightarrow> (\<exists>h \<in> set (live v). raises h e)"

definition list_fire :: "'e vnode list \<Rightarrow> 'e \<Rightarrow> bool" where
  "list_fire vs e \<longleftrightarrow> (\<exists>v \<in> set vs. may_fire v e)"

lemma attr_simps [simp]:
  "attr [] k = None" "attr ((k', v) # ats) k = (if k = k' then Some v else attr ats k)"
  by (simp_all add: attr_def)

lemma attr_append [simp]: "attr (a @ b) k = (case attr a k of None \<Rightarrow> attr b k | Some v \<Rightarrow> Some v)"
  by (simp add: attr_def map_add_def split: option.splits)

lemma attr_flag [simp]: "attr (flag k b) k' = (if k = k' \<and> b then Some [] else None)"
  by (simp add: flag_def)

lemma long_enough_free [simp]: "attr ats ''minLength'' = None \<Longrightarrow> long_enough ats"
  by (simp add: long_enough_def)

lemma attr_num_8 [simp]: "attr_num ''8'' = 8"
  by (simp add: attr_num_def digit_val_def char_code_def)

lemma may_fire_Txt [simp]: "\<not> may_fire (Txt s) e"
  by (simp add: may_fire_def)

lemma may_fire_El [simp]:
  "may_fire (El t ats hs kids) e \<longleftrightarrow>
     attr ats ''disabled'' = None \<and>
     ((\<exists>h \<in> set hs. (t = ''form'' \<and> on_submit h \<longrightarrow> can_submit kids) \<and> raises h e) \<or> list_fire kids e)"
  by (auto simp: may_fire_def list_fire_def)

lemma list_fire_simps [simp]:
  "\<not> list_fire [] e" "list_fire (v # vs) e \<longleftrightarrow> may_fire v e \<or> list_fire vs e"
  "list_fire (vs @ ws) e \<longleftrightarrow> list_fire vs e \<or> list_fire ws e"
  by (auto simp: list_fire_def)

lemma list_fire_map: "list_fire (map f xs) e \<longleftrightarrow> (\<exists>x \<in> set xs. may_fire (f x) e)"
  by (auto simp: list_fire_def)

lemma list_fire_replicate [simp]: "list_fire (replicate n v) e \<longleftrightarrow> 0 < n \<and> may_fire v e"
  by (cases n) (auto simp: list_fire_def)

lemma can_submit_Nil [simp]: "\<not> can_submit []"
  by (simp add: can_submit_def)

text \<open>Conditional rendering: \<open>c && v\<close>.\<close>

definition when_do :: "bool \<Rightarrow> 'e vnode list \<Rightarrow> 'e vnode list" where
  "when_do c vs = (if c then vs else [])"

lemma when_do_simps [simp]: "when_do True vs = vs" "when_do False vs = []"
  by (simp_all add: when_do_def)

lemma list_fire_when [simp]: "list_fire (when_do c vs) e \<longleftrightarrow> c \<and> list_fire vs e"
  by (simp add: when_do_def)

text \<open>A part of a page raises events of its own; \<open>vmap\<close> embeds them into the page's.\<close>

fun hmap :: "('a \<Rightarrow> 'b) \<Rightarrow> 'a handler \<Rightarrow> 'b handler" where
  "hmap f (On k e) = On k (f e)"
| "hmap f (OnText k g) = OnText k (\<lambda>t. f (g t))"

fun vmap :: "('a \<Rightarrow> 'b) \<Rightarrow> 'a vnode \<Rightarrow> 'b vnode" where
  "vmap f (Txt t) = Txt t"
| "vmap f (El t ats hs kids) = El t ats (map (hmap f) hs) (map (vmap f) kids)"

lemma nodes_vmap: "nodes (vmap f v) = map (vmap f) (nodes v)"
  by (induction v) (simp_all add: map_concat o_def cong: map_cong)

lemma vmap_invisible [simp]:
  "submit_button (vmap f v) = submit_button v" "filled (vmap f v) = filled v" "on_submit (hmap f h) = on_submit h"
  by (cases v; simp)+ (cases h; simp)

lemma can_submit_vmap [simp]: "can_submit (map (vmap f) kids) = can_submit kids"
proof -
  have "concat (map nodes (map (vmap f) kids)) = map (vmap f) (concat (map nodes kids))"
    by (induction kids) (simp_all add: nodes_vmap)
  then show ?thesis by (simp add: can_submit_def list.pred_map o_def list_ex_iff list_all_iff Let_def)
qed

lemma raises_hmap: "raises (hmap f h) e' \<longleftrightarrow> (\<exists>e. e' = f e \<and> raises h e)"
  by (cases h) auto

lemma may_fire_vmap: "may_fire (vmap f v) e' \<longleftrightarrow> (\<exists>e. e' = f e \<and> may_fire v e)"
proof (induction v)
  case (El t ats hs kids)
  then have "list_fire (map (vmap f) kids) e' \<longleftrightarrow> (\<exists>e. e' = f e \<and> list_fire kids e)"
    by (auto simp: list_fire_def)
  then show ?case by (auto simp: raises_hmap)
qed simp

lemma list_fire_vmap: "list_fire (map (vmap f) vs) e' \<longleftrightarrow> (\<exists>e. e' = f e \<and> list_fire vs e)"
  by (auto simp: list_fire_def may_fire_vmap)

section \<open>Controls\<close>

abbreviation box :: "'e vnode list \<Rightarrow> 'e vnode" where
  "box kids \<equiv> El ''div'' [] [] kids"

abbreviation span :: "'e vnode list \<Rightarrow> 'e vnode" where
  "span kids \<equiv> El ''span'' [] [] kids"

text \<open>
  \<open>Button\<close>: the properties it destructures, the rest it passes on (attributes and handlers)
  and its children. While loading it is disabled and shows a spinner in place of its icons.
\<close>

record 'e button_props =
  b_loading :: bool
  b_disabled :: bool
  b_icon :: "'e vnode option"
  b_icon_right :: "'e vnode option"
  b_rest :: attrs
  b_on :: "'e handler list"

definition button :: "'e button_props" where
  "button = \<lparr>b_loading = False, b_disabled = False, b_icon = None, b_icon_right = None,
     b_rest = [], b_on = []\<rparr>"

definition Button :: "'e button_props \<Rightarrow> 'e vnode list \<Rightarrow> 'e vnode" where
  "Button p children =
     El ''button'' (flag ''disabled'' (b_disabled p \<or> b_loading p) @ b_rest p) (b_on p)
       ((if b_loading p then [El ''svg'' [] [] []]
         else case b_icon p of Some i \<Rightarrow> [span [i]] | None \<Rightarrow> []) @
        children @
        (case b_icon_right p of Some i \<Rightarrow> when_do (\<not> b_loading p) [span [i]] | None \<Rightarrow> []))"

text \<open>
  The letters of an avatar, as two places of the source compute them: the first of every word, at most two
  (\<open>name.split(' ').map((n) => n[0]).join('').toUpperCase().slice(0, 2)\<close>).
\<close>

definition to_upper :: "char \<Rightarrow> char" where
  "to_upper c = (if 97 \<le> char_code c \<and> char_code c \<le> 122 then char_of (char_code c - 32) else c)"

definition initials :: "string \<Rightarrow> string" where
  "initials name = take 2 (map to_upper (concat (map (take 1) (split_on (CHR '' '') name))))"

text \<open>\<open>label.toLowerCase().replace(/\s+/g, '-')\<close>.\<close>

definition to_lower :: "char \<Rightarrow> char" where
  "to_lower c = (if 65 \<le> char_code c \<and> char_code c \<le> 90 then char_of (char_code c + 32) else c)"

function dashes :: "string \<Rightarrow> string" where
  "dashes [] = []"
| "dashes (c # cs) =
     (if is_space c then CHR ''-'' # dashes (dropWhile is_space cs) else c # dashes cs)"
  by pat_completeness auto
termination
  by (relation "measure length") (simp_all add: dropWhile_length_le le_imp_less_Suc)

record 'e input_props =
  i_label :: "string option"
  i_error :: "string option"
  i_hint :: "string option"
  i_id :: "string option"
  i_rest :: attrs
  i_on :: "'e handler list"

definition input :: "'e input_props" where
  "input = \<lparr>i_label = None, i_error = None, i_hint = None, i_id = None, i_rest = [], i_on = []\<rparr>"

definition set_text :: "string option \<Rightarrow> bool" where
  "set_text t = (case t of None \<Rightarrow> False | Some s \<Rightarrow> s \<noteq> [])"

definition input_id :: "'e input_props \<Rightarrow> string option" where
  "input_id p =
     (if set_text (i_id p) then i_id p
      else if set_text (i_label p) then Some (dashes (map to_lower (the (i_label p)))) else None)"

definition opt_attr :: "string \<Rightarrow> string option \<Rightarrow> attrs" where
  "opt_attr k v = (case v of None \<Rightarrow> [] | Some s \<Rightarrow> [(k, s)])"

lemma attr_opt_attr [simp]: "attr (opt_attr k v) k' = (if k = k' then v else None)"
  by (simp add: opt_attr_def split: option.splits)

definition Input :: "'e input_props \<Rightarrow> 'e vnode" where
  "Input p =
     box (when_do (set_text (i_label p))
            [El ''label'' (opt_attr ''for'' (input_id p)) [] [Txt (the (i_label p))]] @
          [box [El ''input'' (opt_attr ''id'' (input_id p) @ i_rest p) (i_on p) []]] @
          when_do (set_text (i_error p)) [El ''p'' [] [] [Txt (the (i_error p))]] @
          when_do (set_text (i_hint p) \<and> \<not> set_text (i_error p)) [El ''p'' [] [] [Txt (the (i_hint p))]])"

definition Badge :: "bool \<Rightarrow> 'e vnode list \<Rightarrow> 'e vnode" where
  "Badge dot children = span (when_do dot [span []] @ children)"

definition EmptyState :: "string \<Rightarrow> string option \<Rightarrow> 'e vnode option \<Rightarrow> 'e vnode" where
  "EmptyState title description action =
     box (El ''h3'' [] [] [Txt title] #
          when_do (set_text description) [El ''p'' [] [] [Txt (the description)]] @
          (case action of None \<Rightarrow> [] | Some a \<Rightarrow> [box [a]]))"

definition Skeleton :: "'e vnode" where
  "Skeleton = box []"

definition CardSkeleton :: "'e vnode" where
  "CardSkeleton = box [box [Skeleton, Skeleton, Skeleton]]"

definition TableSkeleton :: "nat \<Rightarrow> nat \<Rightarrow> 'e vnode" where
  "TableSkeleton m n = box (box [box (replicate n Skeleton)] # replicate m (box [box (replicate n Skeleton)]))"

definition PageSkeleton :: "'e vnode" where
  "PageSkeleton = box [box [Skeleton, Skeleton], box (replicate 4 CardSkeleton), TableSkeleton 5 5]"

text \<open>
  \<open>Modal\<close>: nothing while closed; while open a backdrop that closes on a click, the dialog, and
  the listener on the document that closes on the Escape key.
\<close>

definition Modal :: "bool \<Rightarrow> 'e \<Rightarrow> string option \<Rightarrow> string option \<Rightarrow> 'e vnode list \<Rightarrow> 'e vnode list \<Rightarrow> 'e vnode list" where
  "Modal shown onClose title description children footer =
     when_do shown
       [El ''div'' [] [On ''keydown:Escape'' onClose]
          [El ''div'' [] [On ''click'' onClose] [],
           box (when_do (set_text title \<or> set_text description)
                  [box (when_do (set_text title) [El ''h2'' [] [] [Txt (the title)]] @
                        when_do (set_text description) [El ''p'' [] [] [Txt (the description)]])] @
                [box children] @
                when_do (footer \<noteq> []) [box footer])]]"

definition ConfirmDialog ::
  "bool \<Rightarrow> 'e \<Rightarrow> 'e \<Rightarrow> string \<Rightarrow> string option \<Rightarrow> string \<Rightarrow> string \<Rightarrow> bool \<Rightarrow> 'e vnode list" where
  "ConfirmDialog shown onClose onConfirm title description confirmLabel cancelLabel loading =
     Modal shown onClose (Some title) description [box []]
       [Button (button\<lparr>b_on := [On ''click'' onClose], b_disabled := loading\<rparr>) [Txt cancelLabel],
        Button (button\<lparr>b_on := [On ''click'' onConfirm], b_loading := loading\<rparr>) [Txt confirmLabel]]"

text \<open>\<open>Card\<close> with its glow while it reacts to hovering, and its parts.\<close>

definition Card :: "bool \<Rightarrow> 'e vnode list \<Rightarrow> 'e vnode" where
  "Card hover children = box (when_do hover [box []] @ [box children])"

definition CardHeader :: "'e vnode list \<Rightarrow> 'e vnode" where
  "CardHeader children = box children"

definition CardTitle :: "'e vnode list \<Rightarrow> 'e vnode" where
  "CardTitle children = El ''h3'' [] [] children"

definition CardContent :: "'e vnode list \<Rightarrow> 'e vnode" where
  "CardContent children = box children"

definition CardDescription :: "'e vnode list \<Rightarrow> 'e vnode" where
  "CardDescription children = El ''p'' [] [] children"

section \<open>What the controls let through\<close>

lemma Button_fires [simp]:
  "may_fire (Button p children) e \<longleftrightarrow>
     \<not> b_disabled p \<and> \<not> b_loading p \<and> attr (b_rest p) ''disabled'' = None \<and>
     ((\<exists>h \<in> set (b_on p). raises h e) \<or> list_fire children e \<or>
      (\<exists>i. b_icon p = Some i \<and> may_fire i e) \<or> (\<exists>i. b_icon_right p = Some i \<and> may_fire i e))"
  by (auto simp: Button_def split: option.splits)

lemma Input_fires [simp]:
  "may_fire (Input p) e \<longleftrightarrow> attr (i_rest p) ''disabled'' = None \<and> (\<exists>h \<in> set (i_on p). raises h e)"
  by (auto simp: Input_def)

lemma Badge_fires [simp]: "may_fire (Badge dot children) e \<longleftrightarrow> list_fire children e"
  by (simp add: Badge_def)

lemma Skeleton_fires [simp]: "\<not> may_fire Skeleton e"
  by (simp add: Skeleton_def)

lemma Card_fires [simp]:
  "may_fire (Card hover children) e \<longleftrightarrow> list_fire children e"
  "may_fire (CardHeader children) e \<longleftrightarrow> list_fire children e"
  "may_fire (CardTitle children) e \<longleftrightarrow> list_fire children e"
  "may_fire (CardContent children) e \<longleftrightarrow> list_fire children e"
  "may_fire (CardDescription children) e \<longleftrightarrow> list_fire children e"
  by (auto simp: Card_def CardHeader_def CardTitle_def CardContent_def CardDescription_def)

lemma PageSkeleton_fires [simp]: "\<not> may_fire PageSkeleton e"
  by (simp add: PageSkeleton_def CardSkeleton_def TableSkeleton_def)

lemma EmptyState_fires [simp]:
  "may_fire (EmptyState title description action) e \<longleftrightarrow> (\<exists>a. action = Some a \<and> may_fire a e)"
  by (simp add: EmptyState_def split: option.splits)

lemma Modal_fires [simp]:
  "list_fire (Modal shown onClose title description children footer) e \<longleftrightarrow>
     shown \<and> (e = onClose \<or> list_fire children e \<or> list_fire footer e)"
  by (auto simp: Modal_def)

definition button_dead :: "'e button_props \<Rightarrow> bool" where
  "button_dead p \<longleftrightarrow> b_disabled p \<or> b_loading p"

lemma button_simps [simp]:
  "b_loading button = False" "b_disabled button = False" "b_icon button = None"
  "b_icon_right button = None" "b_rest button = []" "b_on button = []"
  "i_label input = None" "i_error input = None" "i_hint input = None" "i_id input = None"
  "i_rest input = []" "i_on input = []"
  by (simp_all add: button_def input_def)

text \<open>
  A confirmation dialog is safe to leave on screen: closed, it lets the user do nothing; open,
  the user can close it at any time (button, backdrop or Escape key), but can confirm only
  while the operation it confirms is not already running.
\<close>

theorem confirm_dialog_events:
  "list_fire (ConfirmDialog shown onClose onConfirm title description confirm cancel loading) e \<longleftrightarrow>
    shown \<and> (e = onClose \<or> e = onConfirm \<and> \<not> loading)"
  by (auto simp: ConfirmDialog_def)

end
