(* ===== verification/Toast.thy ===== *)
theory Toast
  imports UiKit
begin

text \<open>
  The notifications (\<open>components/ui/Toast.tsx\<close>): the provider's state with the timers it has
  running, one definition per callback, the step over the events (a call of the context, a
  timer, a click) and the view. Toasts are grouped by variant, each with one timer; a toast
  that goes away is merged into a bounded history.

  The texts \<open>Math.random()\<close> yields and the times of \<open>Date.now()\<close> come with the events. The
  timers of the event loop are the list \<open>timers\<close> of handles with the toast they remove.
\<close>

section \<open>State\<close>

datatype toast_variant = TSuccess | TError | TWarning | TInfo

instantiation toast_variant :: enum
begin

definition "enum_toast_variant = [TSuccess, TError, TWarning, TInfo]"
definition "enum_all_toast_variant P \<longleftrightarrow> P TSuccess \<and> P TError \<and> P TWarning \<and> P TInfo"
definition "enum_ex_toast_variant P \<longleftrightarrow> P TSuccess \<or> P TError \<or> P TWarning \<or> P TInfo"

instance proof
  have all: "(\<forall>v. P v) \<longleftrightarrow> P TSuccess \<and> P TError \<and> P TWarning \<and> P TInfo" for P
    by (metis toast_variant.exhaust)
  have ex: "(\<exists>v. P v) \<longleftrightarrow> P TSuccess \<or> P TError \<or> P TWarning \<or> P TInfo" for P
    by (metis toast_variant.exhaust)
  show "UNIV = set (enum_class.enum :: toast_variant list)"
    using all [of "\<lambda>v. v \<in> set enum_class.enum"] by (auto simp: enum_toast_variant_def)
  show "distinct (enum_class.enum :: toast_variant list)"
    by (simp add: enum_toast_variant_def)
  show "enum_class.enum_all P = Ball UNIV P" for P :: "toast_variant \<Rightarrow> bool"
    by (simp add: enum_all_toast_variant_def all)
  show "enum_class.enum_ex P = Bex UNIV P" for P :: "toast_variant \<Rightarrow> bool"
    by (simp add: enum_ex_toast_variant_def ex)
qed

end

lemma card_toast_variant: "card (UNIV :: toast_variant set) = 4"
  by (simp add: UNIV_enum enum_toast_variant_def)

record grouped_toast =
  t_id :: string
  t_variant :: toast_variant
  t_message :: string
  t_count :: nat
  t_timer :: nat

record history_entry =
  h_id :: string
  h_variant :: toast_variant
  h_message :: string
  h_count :: nat
  h_timestamp :: int

record toast_state =
  toasts :: "grouped_toast list"
  toastHistory :: "history_entry list"
  showAll :: bool
  timers :: "(nat \<times> string) list"
  next_timer :: nat

definition toast_initial :: toast_state where
  "toast_initial = \<lparr>toasts = [], toastHistory = [], showAll = False, timers = [], next_timer = 0\<rparr>"

definition MAX_VISIBLE :: nat where
  "MAX_VISIBLE = 3"

definition MAX_HISTORY :: nat where
  "MAX_HISTORY = 50"

section \<open>Callbacks\<close>

definition pushToHistory :: "int \<Rightarrow> grouped_toast \<Rightarrow> history_entry list \<Rightarrow> history_entry list" where
  "pushToHistory now t prev =
     (case find (\<lambda>h. h_variant h = t_variant t \<and> h_message h = t_message t) prev of
        Some existing \<Rightarrow>
          map (\<lambda>h. if h_id h = h_id existing
                   then h\<lparr>h_count := h_count h + t_count t, h_timestamp := now\<rparr> else h) prev
      | None \<Rightarrow>
          (let next = prev @ [\<lparr>h_id = t_id t, h_variant = t_variant t, h_message = t_message t,
                               h_count = t_count t, h_timestamp = now\<rparr>]
           in if length next > MAX_HISTORY then slice_last MAX_HISTORY next else next))"

definition clearTimeout :: "nat \<Rightarrow> toast_state \<Rightarrow> toast_state" where
  "clearTimeout n s = s\<lparr>timers := filter (\<lambda>p. fst p \<noteq> n) (timers s)\<rparr>"

text \<open>\<open>scheduleRemove\<close>: a new timer; its handle is the state's \<open>next_timer\<close> before the call.\<close>

definition scheduleRemove :: "string \<Rightarrow> toast_state \<Rightarrow> toast_state" where
  "scheduleRemove i s = s\<lparr>timers := timers s @ [(next_timer s, i)], next_timer := Suc (next_timer s)\<rparr>"

definition addToast :: "string \<Rightarrow> string \<Rightarrow> toast_variant \<Rightarrow> toast_state \<Rightarrow> toast_state" where
  "addToast fresh message v s =
     (case find (\<lambda>t. t_variant t = v) (toasts s) of
        Some existing \<Rightarrow>
          (let s1 = clearTimeout (t_timer existing) s;
               newTimer = next_timer s1;
               s2 = scheduleRemove (t_id existing) s1
           in s2\<lparr>toasts := map (\<lambda>t. if t_id t = t_id existing
                    then t\<lparr>t_message := message, t_count := t_count t + 1, t_timer := newTimer\<rparr> else t)
                  (toasts s)\<rparr>)
      | None \<Rightarrow>
          (let timerId = next_timer s; s1 = scheduleRemove fresh s
           in s1\<lparr>toasts := toasts s @ [\<lparr>t_id = fresh, t_variant = v, t_message = message, t_count = 1,
                                         t_timer = timerId\<rparr>]\<rparr>))"

definition drop_toast :: "int \<Rightarrow> string \<Rightarrow> toast_state \<Rightarrow> toast_state" where
  "drop_toast now i s =
     (case find (\<lambda>t. t_id t = i) (toasts s) of
        Some target \<Rightarrow> s\<lparr>toastHistory := pushToHistory now target (toastHistory s)\<rparr>
      | None \<Rightarrow> s)\<lparr>toasts := filter (\<lambda>t. t_id t \<noteq> i) (toasts s)\<rparr>"

definition removeToast :: "int \<Rightarrow> string \<Rightarrow> toast_state \<Rightarrow> toast_state" where
  "removeToast now i s =
     drop_toast now i
       (case find (\<lambda>t. t_id t = i) (toasts s) of
          Some target \<Rightarrow> clearTimeout (t_timer target) s
        | None \<Rightarrow> s)"

text \<open>A running timer fires once: it is no longer running and its callback drops its toast.\<close>

definition fireTimer :: "int \<Rightarrow> nat \<Rightarrow> toast_state \<Rightarrow> toast_state" where
  "fireTimer now n s =
     (case map_of (timers s) n of
        None \<Rightarrow> s
      | Some i \<Rightarrow> drop_toast now i (clearTimeout n s))"

definition clearHistory :: "toast_state \<Rightarrow> toast_state" where
  "clearHistory s = s\<lparr>toastHistory := []\<rparr>"

definition clearAll :: "int \<Rightarrow> toast_state \<Rightarrow> toast_state" where
  "clearAll now s =
     (let s1 = foldl (\<lambda>s t. (clearTimeout (t_timer t) s)\<lparr>toastHistory := pushToHistory now t (toastHistory s)\<rparr>)
                 s (toasts s)
      in s1\<lparr>toasts := [], showAll := False\<rparr>)"

definition clickOutside :: "int \<Rightarrow> toast_state \<Rightarrow> toast_state" where
  "clickOutside now s = (if toasts s = [] then s else removeToast now (t_id (last (toasts s))) s)"

text \<open>The effect that collapses the list, run after every change.\<close>

definition collapse :: "toast_state \<Rightarrow> toast_state" where
  "collapse s = (if showAll s \<and> length (toasts s) \<le> MAX_VISIBLE then s\<lparr>showAll := False\<rparr> else s)"

definition unmount :: "toast_state \<Rightarrow> toast_state" where
  "unmount s = foldl (\<lambda>s t. clearTimeout (t_timer t) s) s (toasts s)"

datatype toast_event =
    AddToast string string toast_variant
  | RemoveToast string
  | TimerFires nat
  | ClickOutside
  | ShowAll
  | ClearAll
  | ClearHistory

fun toast_handle :: "int \<Rightarrow> toast_state \<Rightarrow> toast_event \<Rightarrow> toast_state" where
  "toast_handle now s (AddToast fresh m v) = addToast fresh m v s"
| "toast_handle now s (RemoveToast i) = removeToast now i s"
| "toast_handle now s (TimerFires n) = fireTimer now n s"
| "toast_handle now s ClickOutside = clickOutside now s"
| "toast_handle now s ShowAll = s\<lparr>showAll := True\<rparr>"
| "toast_handle now s ClearAll = clearAll now s"
| "toast_handle now s ClearHistory = clearHistory s"

text \<open>A step is an event with the time it happens at.\<close>

definition toast_step :: "toast_state \<Rightarrow> int \<times> toast_event \<Rightarrow> toast_state" where
  "toast_step s e = collapse (toast_handle (fst e) s (snd e))"

section \<open>View\<close>

definition visibleToasts :: "toast_state \<Rightarrow> grouped_toast list" where
  "visibleToasts s = (if showAll s then toasts s else slice_last MAX_VISIBLE (toasts s))"

definition hiddenCount :: "toast_state \<Rightarrow> int" where
  "hiddenCount s = int (length (toasts s)) - int MAX_VISIBLE"

definition cap99 :: "int \<Rightarrow> string" where
  "cap99 n = (if n > 99 then ''99+'' else show_int n)"

definition toast_item :: "grouped_toast \<Rightarrow> toast_event vnode" where
  "toast_item t =
     El ''div'' [] [On ''dragend'' (RemoveToast (t_id t)), On ''click'' (RemoveToast (t_id t))]
       (span [Txt (t_message t)] #
        when_do (t_count t > 1) [span [Txt (cap99 (int (t_count t)))]] @
        [El ''button'' [] [On ''click'' (RemoveToast (t_id t))] []])"

definition toast_view :: "toast_state \<Rightarrow> toast_event vnode list" where
  "toast_view s =
     when_do (toasts s \<noteq> [])
       [box (when_do (hiddenCount s > 0 \<and> \<not> showAll s)
               [box [El ''button'' [] [On ''click'' ShowAll]
                       [span [Txt (cap99 (hiddenCount s))], span [Txt ''more'']],
                     El ''button'' [] [On ''click'' ClearAll] [span [Txt ''Dismiss all'']]]] @
             map toast_item (visibleToasts s))]"

section \<open>The invariant\<close>

definition timer_of :: "grouped_toast \<Rightarrow> nat \<times> string" where
  "timer_of t = (t_timer t, t_id t)"

definition groups_ok :: "toast_state \<Rightarrow> bool" where
  "groups_ok s \<longleftrightarrow> distinct (map t_variant (toasts s)) \<and> distinct (map t_id (toasts s))"

definition timers_ok :: "toast_state \<Rightarrow> bool" where
  "timers_ok s \<longleftrightarrow>
     set (timers s) = timer_of ` set (toasts s) \<and> distinct (map fst (timers s)) \<and>
     (\<forall>p \<in> set (timers s). fst p < next_timer s)"

definition h_key :: "history_entry \<Rightarrow> toast_variant \<times> string" where
  "h_key h = (h_variant h, h_message h)"

definition entries_ok :: "history_entry list \<Rightarrow> bool" where
  "entries_ok hs \<longleftrightarrow> distinct (map h_id hs) \<and> distinct (map h_key hs) \<and> length hs \<le> MAX_HISTORY"

lemma entries_ok_Nil [simp]: "entries_ok []"
  by (simp add: entries_ok_def)

definition history_ok :: "toast_state \<Rightarrow> bool" where
  "history_ok s \<longleftrightarrow>
     entries_ok (toastHistory s) \<and> h_id ` set (toastHistory s) \<inter> t_id ` set (toasts s) = {}"

definition toast_inv :: "toast_state \<Rightarrow> bool" where
  "toast_inv s \<longleftrightarrow> groups_ok s \<and> timers_ok s \<and> history_ok s"

text \<open>A drawn id is new: neither on a toast nor in the history.\<close>

definition new_id :: "toast_state \<Rightarrow> string \<Rightarrow> bool" where
  "new_id s i \<longleftrightarrow> i \<notin> t_id ` set (toasts s) \<and> i \<notin> h_id ` set (toastHistory s)"

fun fresh_event :: "toast_state \<Rightarrow> int \<times> toast_event \<Rightarrow> bool" where
  "fresh_event s (now, AddToast i m v) = new_id s i"
| "fresh_event s (now, _) = True"

lemma groups_unique:
  assumes "groups_ok s" and "t \<in> set (toasts s)" and "u \<in> set (toasts s)"
  shows "t_id t = t_id u \<longleftrightarrow> t = u" "t_variant t = t_variant u \<longleftrightarrow> t = u"
  using assms by (auto simp: groups_ok_def dest: distinct_map_inj)

lemma timers_unique:
  assumes "timers_ok s" and "t \<in> set (toasts s)" and "u \<in> set (toasts s)" and "t_timer t = t_timer u"
  shows "t_id t = t_id u"
proof -
  have "timer_of t \<in> set (timers s)" "timer_of u \<in> set (timers s)"
    using assms by (auto simp: timers_ok_def)
  then have "timer_of t = timer_of u"
    using assms(1,4) by (intro distinct_map_inj [of fst "timers s"]) (simp_all add: timers_ok_def timer_of_def)
  then show ?thesis by (simp add: timer_of_def)
qed

subsection \<open>Adding\<close>

lemma addToast_known:
  assumes "toast_inv s" and "find (\<lambda>t. t_variant t = v) (toasts s) = Some x"
  shows "toast_inv (addToast i m v s)"
proof -
  have x: "x \<in> set (toasts s)" "t_variant x = v" using find_Some_in [OF assms(2)] by auto
  let ?f = "\<lambda>t. if t_id t = t_id x then t\<lparr>t_message := m, t_count := t_count t + 1, t_timer := next_timer s\<rparr> else t"
  have s': "toasts (addToast i m v s) = map ?f (toasts s)"
    "timers (addToast i m v s) = filter (\<lambda>p. fst p \<noteq> t_timer x) (timers s) @ [(next_timer s, t_id x)]"
    "next_timer (addToast i m v s) = Suc (next_timer s)"
    "toastHistory (addToast i m v s) = toastHistory s"
    by (simp_all add: addToast_def assms(2) Let_def clearTimeout_def scheduleRemove_def)
  have ids: "map t_id (map ?f (toasts s)) = map t_id (toasts s)"
    "map t_variant (map ?f (toasts s)) = map t_variant (toasts s)"
    by (auto intro: map_cong)
  have g: "groups_ok s" and t: "timers_ok s" and h: "history_ok s" using assms(1) by (auto simp: toast_inv_def)
  have "timers_ok (addToast i m v s)"
  proof -
    have "set (filter (\<lambda>p. fst p \<noteq> t_timer x) (timers s)) = timer_of ` {t \<in> set (toasts s). t_id t \<noteq> t_id x}"
    proof -
      have "set (filter (\<lambda>p. fst p \<noteq> t_timer x) (timers s)) = {p \<in> timer_of ` set (toasts s). fst p \<noteq> t_timer x}"
        using t by (simp add: timers_ok_def)
      also have "\<dots> = timer_of ` {t \<in> set (toasts s). t_id t \<noteq> t_id x}"
        using timers_unique [OF t _ x(1)] groups_unique(1) [OF g _ x(1)] by (auto simp: timer_of_def)
      finally show ?thesis .
    qed
    moreover have "timer_of ` set (map ?f (toasts s)) =
        insert (next_timer s, t_id x) (timer_of ` {t \<in> set (toasts s). t_id t \<noteq> t_id x})"
    proof -
      have "timer_of ` set (map ?f (toasts s)) =
          (\<lambda>t. if t_id t = t_id x then (next_timer s, t_id x) else timer_of t) ` set (toasts s)"
        unfolding set_map image_image by (rule image_cong) (simp_all add: timer_of_def)
      then show ?thesis using x(1) by auto
    qed
    moreover have "distinct (map fst (filter (\<lambda>p. fst p \<noteq> t_timer x) (timers s) @ [(next_timer s, t_id x)]))"
      using t by (auto simp: timers_ok_def distinct_map_filter)
    ultimately show ?thesis
      using t by (auto simp: timers_ok_def s' intro: less_SucI)
  qed
  moreover have "groups_ok (addToast i m v s)"
    using g ids by (simp only: groups_ok_def s')
  moreover have "history_ok (addToast i m v s)"
  proof -
    have "t_id ` set (map ?f (toasts s)) = t_id ` set (toasts s)"
      using arg_cong [OF ids(1), of set] by (simp only: set_map)
    then show ?thesis using h unfolding history_ok_def s' by simp
  qed
  ultimately show ?thesis by (simp add: toast_inv_def)
qed

lemma addToast_new:
  assumes "toast_inv s" and "find (\<lambda>t. t_variant t = v) (toasts s) = None" and "new_id s i"
  shows "toast_inv (addToast i m v s)"
proof -
  have v: "\<forall>t \<in> set (toasts s). t_variant t \<noteq> v" using assms(2) by (simp add: find_None_all)
  have "addToast i m v s = s\<lparr>timers := timers s @ [(next_timer s, i)], next_timer := Suc (next_timer s),
      toasts := toasts s @ [\<lparr>t_id = i, t_variant = v, t_message = m, t_count = 1, t_timer = next_timer s\<rparr>]\<rparr>"
    by (simp add: addToast_def assms(2) Let_def scheduleRemove_def)
  then show ?thesis
    using assms(1,3) v
    by (auto simp: toast_inv_def groups_ok_def timers_ok_def history_ok_def new_id_def timer_of_def less_Suc_eq)
qed

lemma addToast_inv: "toast_inv s \<Longrightarrow> new_id s i \<Longrightarrow> toast_inv (addToast i m v s)"
  by (cases "find (\<lambda>t. t_variant t = v) (toasts s)") (simp_all add: addToast_known addToast_new)

subsection \<open>Removing\<close>

lemma pushToHistory_cases:
  obtains (merged) x where "x \<in> set hs" and "h_key x = (t_variant t, t_message t)"
      and "pushToHistory now t hs = map (\<lambda>h. if h_id h = h_id x
             then h\<lparr>h_count := h_count h + t_count t, h_timestamp := now\<rparr> else h) hs"
  | (added) e where "\<forall>h \<in> set hs. h_key h \<noteq> (t_variant t, t_message t)"
      and "e = \<lparr>h_id = t_id t, h_variant = t_variant t, h_message = t_message t, h_count = t_count t, h_timestamp = now\<rparr>"
      and "pushToHistory now t hs = slice_last MAX_HISTORY (hs @ [e])"
proof (cases "find (\<lambda>h. h_variant h = t_variant t \<and> h_message h = t_message t) hs")
  case None
  then have "pushToHistory now t hs = slice_last MAX_HISTORY
      (hs @ [\<lparr>h_id = t_id t, h_variant = t_variant t, h_message = t_message t, h_count = t_count t, h_timestamp = now\<rparr>])"
    by (simp add: pushToHistory_def Let_def slice_last_def)
  then show ?thesis
    using None by (intro added) (auto simp: find_None_all h_key_def)
next
  case (Some x)
  then show ?thesis
    using merged [of x] find_Some_in [OF Some] by (simp add: pushToHistory_def h_key_def)
qed

lemma pushToHistory_ok:
  assumes "entries_ok hs" and "t_id t \<notin> h_id ` set hs"
  shows "entries_ok (pushToHistory now t hs) \<and> h_id ` set (pushToHistory now t hs) \<subseteq> insert (t_id t) (h_id ` set hs)"
proof (cases rule: pushToHistory_cases [of hs t now])
  case (merged x)
  have "map h_id (pushToHistory now t hs) = map h_id hs" "map h_key (pushToHistory now t hs) = map h_key hs"
    by (auto simp: merged(3) h_key_def intro: map_cong)
  then show ?thesis
    using assms(1) by (metis entries_ok_def length_map list.set_map subset_insertI)
next
  case (added e)
  have "distinct (map h_id (hs @ [e]))" "distinct (map h_key (hs @ [e]))"
    using assms added(1,2) by (auto simp: entries_ok_def h_key_def)
  moreover have "h_id ` set (slice_last MAX_HISTORY (hs @ [e])) \<subseteq> h_id ` set (hs @ [e])"
    by (rule image_mono) (rule set_slice_last)
  ultimately show ?thesis
    using added(2) by (auto simp: added(3) entries_ok_def distinct_map_slice_last simp del: map_append)
qed


lemma drop_toast_absent:
  "find (\<lambda>t. t_id t = i) (toasts s) = None \<Longrightarrow> drop_toast now i s = s"
  unfolding drop_toast_def by (simp, simp add: find_None_all filter_id_conv)

text \<open>Dropping a toast whose timer has been stopped keeps the invariant.\<close>

lemma drop_stopped_inv:
  assumes "toast_inv s" and "x \<in> set (toasts s)"
  shows "toast_inv (drop_toast now (t_id x) (clearTimeout (t_timer x) s))"
proof -
  let ?s = "drop_toast now (t_id x) (clearTimeout (t_timer x) s)"
  have g: "groups_ok s" and t: "timers_ok s" and h: "history_ok s" using assms(1) by (auto simp: toast_inv_def)
  have f: "find (\<lambda>t. t_id t = t_id x) (toasts s) = Some x"
  proof (cases "find (\<lambda>t. t_id t = t_id x) (toasts s)")
    case None
    then show ?thesis using assms(2) by (auto simp: find_None_all)
  next
    case (Some y)
    then show ?thesis using find_Some_in [OF Some] groups_unique(1) [OF g _ assms(2)] by auto
  qed
  have s': "toasts ?s = filter (\<lambda>t. t_id t \<noteq> t_id x) (toasts s)"
    "timers ?s = filter (\<lambda>p. fst p \<noteq> t_timer x) (timers s)" "next_timer ?s = next_timer s"
    "toastHistory ?s = pushToHistory now x (toastHistory s)"
    by (simp_all add: drop_toast_def clearTimeout_def f)
  have "set (timers ?s) = timer_of ` set (toasts ?s)"
    using t timers_unique [OF t _ assms(2)] groups_unique(1) [OF g _ assms(2)]
    by (auto simp: s' timers_ok_def timer_of_def)
  then have "timers_ok ?s" using t by (auto simp: timers_ok_def s' distinct_map_filter)
  moreover have "groups_ok ?s" using g by (simp add: groups_ok_def s' distinct_map_filter)
  moreover have "history_ok ?s"
  proof -
    have "t_id x \<notin> h_id ` set (toastHistory s)" using h assms(2) by (auto simp: history_ok_def)
    moreover have "t_id ` set (toasts ?s) \<subseteq> t_id ` set (toasts s) - {t_id x}" by (auto simp: s')
    ultimately show ?thesis
      using pushToHistory_ok [of "toastHistory s" x now] h unfolding history_ok_def s'(4) by blast
  qed
  ultimately show ?thesis by (simp add: toast_inv_def)
qed

lemma find_id: "find (\<lambda>t. t_id t = i) ts = Some x \<Longrightarrow> x \<in> set ts \<and> t_id x = i"
  by (rule find_Some_in)

lemma removeToast_inv: "toast_inv s \<Longrightarrow> toast_inv (removeToast now i s)"
proof (cases "find (\<lambda>t. t_id t = i) (toasts s)")
  case None
  then show "toast_inv s \<Longrightarrow> ?thesis" by (simp add: removeToast_def drop_toast_absent)
next
  case (Some x)
  then show "toast_inv s \<Longrightarrow> ?thesis"
    using find_id [OF Some] drop_stopped_inv [of s x now] by (auto simp: removeToast_def)
qed

lemma fireTimer_remove:
  assumes "toast_inv s" and "t \<in> set (toasts s)"
  shows "fireTimer now (t_timer t) s = removeToast now (t_id t) s"
proof -
  have "timer_of t \<in> set (timers s)" "distinct (map fst (timers s))"
    using assms by (auto simp: toast_inv_def timers_ok_def)
  then have "map_of (timers s) (t_timer t) = Some (t_id t)" by (simp add: timer_of_def)
  moreover have "find (\<lambda>u. t_id u = t_id t) (toasts s) = Some t"
  proof (cases "find (\<lambda>u. t_id u = t_id t) (toasts s)")
    case (Some y)
    then show ?thesis using find_id [OF Some] assms groups_unique(1) [of s] by (auto simp: toast_inv_def)
  qed (use assms(2) in \<open>auto simp: find_None_all\<close>)
  ultimately show ?thesis by (simp add: fireTimer_def removeToast_def)
qed

lemma fireTimer_cases:
  assumes "toast_inv s"
  obtains "fireTimer now n s = s" | t where "t \<in> set (toasts s)" "fireTimer now n s = removeToast now (t_id t) s"
proof (cases "map_of (timers s) n")
  case None
  then show ?thesis using that(1) by (simp add: fireTimer_def)
next
  case (Some i)
  then have "(n, i) \<in> set (timers s)" by (rule map_of_SomeD)
  then obtain t where "t \<in> set (toasts s)" "timer_of t = (n, i)"
    using assms by (auto simp: toast_inv_def timers_ok_def)
  with fireTimer_remove [OF assms] show ?thesis using that(2) by (auto simp: timer_of_def)
qed

lemma fireTimer_inv: "toast_inv s \<Longrightarrow> toast_inv (fireTimer now n s)"
  by (metis fireTimer_cases removeToast_inv)

subsection \<open>Clearing\<close>

definition archive :: "int \<Rightarrow> grouped_toast list \<Rightarrow> toast_state \<Rightarrow> toast_state" where
  "archive now ts s =
     foldl (\<lambda>s t. (clearTimeout (t_timer t) s)\<lparr>toastHistory := pushToHistory now t (toastHistory s)\<rparr>) s ts"

lemma archive_simps [simp]:
  "archive now [] s = s"
  "archive now (t # ts) s =
     archive now ts ((clearTimeout (t_timer t) s)\<lparr>toastHistory := pushToHistory now t (toastHistory s)\<rparr>)"
  by (simp_all add: archive_def)

lemma archive_timers: "set (timers (archive now ts s)) = {p \<in> set (timers s). fst p \<notin> t_timer ` set ts}"
  by (induction ts arbitrary: s) (auto simp: clearTimeout_def)

lemma archive_history:
  "entries_ok (toastHistory s) \<Longrightarrow> distinct (map t_id ts) \<Longrightarrow> t_id ` set ts \<inter> h_id ` set (toastHistory s) = {} \<Longrightarrow>
   entries_ok (toastHistory (archive now ts s))"
proof (induction ts arbitrary: s)
  case (Cons t ts)
  then have "entries_ok (pushToHistory now t (toastHistory s)) \<and>
      h_id ` set (pushToHistory now t (toastHistory s)) \<subseteq> insert (t_id t) (h_id ` set (toastHistory s))"
    by (intro pushToHistory_ok) auto
  moreover have "t_id ` set ts \<inter> insert (t_id t) (h_id ` set (toastHistory s)) = {}"
    using Cons.prems(2,3) by auto
  ultimately have "t_id ` set ts \<inter> h_id ` set (pushToHistory now t (toastHistory s)) = {}"
    and "entries_ok (pushToHistory now t (toastHistory s))"
    by blast+
  then show ?case
    using Cons.prems(2) by (simp add: clearTimeout_def Cons.IH)
qed simp

lemma clearAll_inv:
  assumes "toast_inv s"
  shows "toast_inv (clearAll now s) \<and> timers (clearAll now s) = [] \<and> toasts (clearAll now s) = []"
proof -
  have c: "clearAll now s = (archive now (toasts s) s)\<lparr>toasts := [], showAll := False\<rparr>"
    by (simp add: clearAll_def archive_def Let_def)
  have "set (timers (archive now (toasts s) s)) = {}"
    using assms by (auto simp: archive_timers toast_inv_def timers_ok_def timer_of_def)
  moreover have "entries_ok (toastHistory (archive now (toasts s) s))"
    using assms by (intro archive_history) (simp_all add: toast_inv_def history_ok_def groups_ok_def Int_commute)
  ultimately show ?thesis
    by (simp add: c toast_inv_def groups_ok_def timers_ok_def history_ok_def)
qed

lemma toast_handle_inv: "toast_inv s \<Longrightarrow> fresh_event s (now, e) \<Longrightarrow> toast_inv (toast_handle now s e)"
proof (cases e)
  case (TimerFires n)
  then show "toast_inv s \<Longrightarrow> ?thesis" by (simp add: fireTimer_inv)
next
  case ShowAll
  then show "toast_inv s \<Longrightarrow> ?thesis" by (simp add: toast_inv_def groups_ok_def timers_ok_def history_ok_def)
next
  case ClearHistory
  then show "toast_inv s \<Longrightarrow> ?thesis"
    by (simp add: clearHistory_def toast_inv_def groups_ok_def timers_ok_def history_ok_def)
qed (simp_all add: addToast_inv removeToast_inv clearAll_inv clickOutside_def)

lemma collapse_inv: "toast_inv (collapse s) = toast_inv s"
  by (simp add: collapse_def toast_inv_def groups_ok_def timers_ok_def history_ok_def)

lemma toast_step_inv: "toast_inv s \<Longrightarrow> fresh_event s e \<Longrightarrow> toast_inv (toast_step s e)"
  by (cases e) (simp add: toast_step_def collapse_inv toast_handle_inv)

interpretation toast: machine toast_step fresh_event toast_inv
  by unfold_locales (rule toast_step_inv)

lemma toast_inv_initial: "toast_inv toast_initial"
  by (simp add: toast_inv_def groups_ok_def timers_ok_def history_ok_def toast_initial_def)

section \<open>Properties\<close>

lemma groups_bound: "groups_ok s \<Longrightarrow> length (toasts s) \<le> 4"
proof -
  assume "groups_ok s"
  then have "length (toasts s) = card (set (map t_variant (toasts s)))"
    by (metis distinct_card groups_ok_def length_map)
  also have "\<dots> \<le> card (UNIV :: toast_variant set)" by (rule card_mono) simp_all
  finally show ?thesis by (simp add: card_toast_variant)
qed

lemma one_timer: "toast_inv s \<Longrightarrow> t \<in> set (toasts s) \<Longrightarrow> (n, t_id t) \<in> set (timers s) \<longleftrightarrow> n = t_timer t"
proof -
  assume i: "toast_inv s" and t: "t \<in> set (toasts s)"
  then have "(n, t_id t) \<in> set (timers s) \<longleftrightarrow> (\<exists>u \<in> set (toasts s). t_timer u = n \<and> t_id u = t_id t)"
    by (auto simp: toast_inv_def timers_ok_def timer_of_def)
  also have "\<dots> \<longleftrightarrow> n = t_timer t"
    using groups_unique(1) [of s _ t] i t by (auto simp: toast_inv_def)
  finally show ?thesis .
qed

text \<open>
  Whatever happens to the notifications, from the empty state with fresh ids: at most four
  toasts are on screen, one per variant and each with exactly one timer running for it (and no
  timer runs for anything else), and the history has at most fifty entries, no two of them with
  the same variant and message.
\<close>

theorem toasts_are_grouped:
  assumes "toast.admissible toast_initial evs" and "s = foldl toast_step toast_initial evs"
  shows "length (toasts s) \<le> 4 \<and> distinct (map t_variant (toasts s))
    \<and> (\<forall>t \<in> set (toasts s). \<forall>n. (n, t_id t) \<in> set (timers s) \<longleftrightarrow> n = t_timer t)
    \<and> snd ` set (timers s) = t_id ` set (toasts s)
    \<and> length (toastHistory s) \<le> 50 \<and> distinct (map h_key (toastHistory s))"
proof -
  have i: "toast_inv s" unfolding assms(2) by (rule toast.fold_inv [OF toast_inv_initial assms(1)])
  then have "snd ` set (timers s) = t_id ` set (toasts s)"
    by (simp add: toast_inv_def timers_ok_def image_image timer_of_def)
  with i show ?thesis
    using groups_bound [of s] one_timer [OF i]
    by (simp add: toast_inv_def groups_ok_def history_ok_def entries_ok_def MAX_HISTORY_def)
qed

definition sample_events :: "(int \<times> toast_event) list" where
  "sample_events = [(1, AddToast ''a'' ''saved'' TSuccess), (2, AddToast ''b'' ''failed'' TError),
     (3, AddToast ''c'' ''saved again'' TSuccess), (4, RemoveToast ''b''), (5, ShowAll)]"

lemmas toast_eval =
  sample_events_def toast_step_def collapse_def addToast_def removeToast_def drop_toast_def clearTimeout_def
  scheduleRemove_def pushToHistory_def toast_initial_def MAX_VISIBLE_def MAX_HISTORY_def Let_def new_id_def

lemma sample_admissible: "toast.admissible toast_initial sample_events"
  by (simp add: toast_eval)

theorem toasts_are_grouped_witness:
  "length (toasts (foldl toast_step toast_initial sample_events)) \<le> 4"
  using toasts_are_grouped [OF sample_admissible refl] by blast

lemma fire_step_toasts:
  assumes "toast_inv s"
  shows "toasts (toast_step s (now, TimerFires n)) = filter (\<lambda>t. t_timer t \<noteq> n) (toasts s)"
proof (cases "\<exists>t \<in> set (toasts s). t_timer t = n")
  case True
  then obtain t where t: "t \<in> set (toasts s)" "t_timer t = n" by blast
  have "t_id u \<noteq> t_id t \<longleftrightarrow> t_timer u \<noteq> n" if "u \<in> set (toasts s)" for u
    using assms t that timers_unique [of s u t] groups_unique(1) [of s u t] by (auto simp: toast_inv_def)
  then have "filter (\<lambda>u. t_id u \<noteq> t_id t) (toasts s) = filter (\<lambda>u. t_timer u \<noteq> n) (toasts s)"
    by (auto intro: filter_cong)
  moreover have "toasts (removeToast now (t_id t) s) = filter (\<lambda>u. t_id u \<noteq> t_id t) (toasts s)"
    by (simp add: removeToast_def drop_toast_def clearTimeout_def split: option.split)
  ultimately show ?thesis
    using fireTimer_remove [OF assms t(1)] t(2) by (simp add: toast_step_def collapse_def)
next
  case False
  then have "map_of (timers s) n = None"
    using assms by (auto simp: map_of_eq_None_iff toast_inv_def timers_ok_def timer_of_def)
  with False show ?thesis
    by (auto simp: toast_step_def collapse_def fireTimer_def filter_id_conv)
qed

lemma fire_all_toasts:
  "toast_inv s \<Longrightarrow>
     toast_inv (foldl toast_step s (map (\<lambda>n. (now, TimerFires n)) ns)) \<and>
     toasts (foldl toast_step s (map (\<lambda>n. (now, TimerFires n)) ns)) = filter (\<lambda>t. t_timer t \<notin> set ns) (toasts s)"
proof (induction ns arbitrary: s)
  case (Cons n ns)
  have "toast_inv (toast_step s (now, TimerFires n))" by (rule toast_step_inv [OF Cons.prems]) simp
  from Cons.IH [OF this] show ?case
    by (simp add: fire_step_toasts [OF Cons.prems] conj_commute)
qed simp

text \<open>
  C10. No toast is forgotten: in any reachable state, letting the running timers fire, in any
  order, leaves no toast on screen and no timer running.
\<close>

theorem toasts_expire:
  assumes "toast.admissible toast_initial evs" and "s = foldl toast_step toast_initial evs"
    and "fst ` set (timers s) \<subseteq> set ns"
    and "s' = foldl toast_step s (map (\<lambda>n. (now, TimerFires n)) ns)"
  shows "toasts s' = [] \<and> timers s' = []"
proof -
  have i: "toast_inv s" unfolding assms(2) by (rule toast.fold_inv [OF toast_inv_initial assms(1)])
  note r = fire_all_toasts [OF i, of now ns, folded assms(4)]
  have "\<forall>t \<in> set (toasts s). t_timer t \<in> set ns"
    using i assms(3) by (force simp: toast_inv_def timers_ok_def timer_of_def)
  then have "toasts s' = []" using r by (simp add: filter_empty_conv)
  with r show ?thesis by (simp add: toast_inv_def timers_ok_def)
qed

theorem toasts_expire_witness:
  "toasts (foldl toast_step (foldl toast_step toast_initial sample_events)
     (map (\<lambda>n. (9, TimerFires n)) [2, 0, 1])) = []"
proof -
  have "fst ` set (timers (foldl toast_step toast_initial sample_events)) \<subseteq> set [2, 0, 1]"
    by (simp add: toast_eval)
  from toasts_expire [OF sample_admissible refl this refl] show ?thesis by blast
qed

text \<open>The notifications shown or kept in the history, repeated ones counted.\<close>

definition notified :: "toast_state \<Rightarrow> nat" where
  "notified s = sum_list (map t_count (toasts s)) + sum_list (map h_count (toastHistory s))"

definition room :: "toast_state \<Rightarrow> nat" where
  "room s = length (toasts s) + length (toastHistory s)"

fun is_add :: "int \<times> toast_event \<Rightarrow> bool" where
  "is_add (now, AddToast i m v) = True"
| "is_add (now, _) = False"

lemma sum_list_update_one:
  assumes "distinct (map g xs)" and "x \<in> set xs"
  shows "sum_list (map (\<lambda>y. if g y = g x then f y + n else f y) xs) = sum_list (map f xs) + (n::nat)"
  using assms
proof (induction xs)
  case (Cons a xs)
  show ?case
  proof (cases "g a = g x")
    case True
    then have "map (\<lambda>y. if g y = g x then f y + n else f y) xs = map f xs"
      using Cons.prems(1) by (intro map_cong) (auto simp: image_iff)
    then have "sum_list (map (\<lambda>y. if g y = g x then f y + n else f y) xs) = sum_list (map f xs)"
      by (rule arg_cong)
    with True show ?thesis by simp
  next
    case False
    with Cons show ?thesis by auto
  qed
qed simp

lemma pushToHistory_sum:
  assumes "distinct (map h_id hs)" and "length hs < MAX_HISTORY"
  shows "sum_list (map h_count (pushToHistory now t hs)) = sum_list (map h_count hs) + t_count t"
    and "length (pushToHistory now t hs) \<le> Suc (length hs)"
proof -
  have "sum_list (map h_count (pushToHistory now t hs)) = sum_list (map h_count hs) + t_count t \<and>
    length (pushToHistory now t hs) \<le> Suc (length hs)"
  proof (cases rule: pushToHistory_cases [of hs t now])
    case (merged x)
    have "map h_count (pushToHistory now t hs) = map (\<lambda>h. if h_id h = h_id x then h_count h + t_count t else h_count h) hs"
      by (simp add: merged(3))
    then have "sum_list (map h_count (pushToHistory now t hs)) = sum_list (map h_count hs) + t_count t"
      using sum_list_update_one [OF assms(1) merged(1), of h_count "t_count t"] by simp
    then show ?thesis by (simp add: merged(3))
  next
    case (added e)
    then show ?thesis using assms(2) by (simp add: slice_last_def)
  qed
  then show "sum_list (map h_count (pushToHistory now t hs)) = sum_list (map h_count hs) + t_count t"
    and "length (pushToHistory now t hs) \<le> Suc (length hs)" by auto
qed

lemma drop_one_sum:
  assumes "distinct (map t_id ts)" and "x \<in> set ts"
  shows "sum_list (map t_count (filter (\<lambda>t. t_id t \<noteq> t_id x) ts)) + t_count x = sum_list (map t_count ts)"
    and "Suc (length (filter (\<lambda>t. t_id t \<noteq> t_id x) ts)) = length ts"
proof -
  have "sum_list (map t_count (filter (\<lambda>t. t_id t \<noteq> t_id x) ts)) + t_count x = sum_list (map t_count ts) \<and>
    Suc (length (filter (\<lambda>t. t_id t \<noteq> t_id x) ts)) = length ts"
    using assms
  proof (induction ts)
    case (Cons t ts)
    show ?case
    proof (cases "t_id t = t_id x")
      case True
      then have "filter (\<lambda>u. t_id u \<noteq> t_id x) ts = ts"
        using Cons.prems(1) by (simp add: filter_id_conv image_iff) metis
      moreover have "t = x" using True Cons.prems by auto
      ultimately show ?thesis by simp
    next
      case False
      with Cons show ?thesis by auto
    qed
  qed simp
  then show "sum_list (map t_count (filter (\<lambda>t. t_id t \<noteq> t_id x) ts)) + t_count x = sum_list (map t_count ts)"
    and "Suc (length (filter (\<lambda>t. t_id t \<noteq> t_id x) ts)) = length ts" by auto
qed

lemma removeToast_counts:
  assumes "toast_inv s" and "length (toastHistory s) < MAX_HISTORY"
  shows "notified (removeToast now i s) = notified s \<and> room (removeToast now i s) \<le> room s"
proof (cases "find (\<lambda>t. t_id t = i) (toasts s)")
  case None
  then show ?thesis by (simp add: removeToast_def drop_toast_absent)
next
  case (Some x)
  have x: "x \<in> set (toasts s)" "t_id x = i" using find_id [OF Some] by auto
  have d: "distinct (map t_id (toasts s))" "distinct (map h_id (toastHistory s))"
    using assms(1) by (auto simp: toast_inv_def groups_ok_def history_ok_def entries_ok_def)
  have "toasts (removeToast now i s) = filter (\<lambda>t. t_id t \<noteq> t_id x) (toasts s)"
    "toastHistory (removeToast now i s) = pushToHistory now x (toastHistory s)"
    using Some x(2) by (simp_all add: removeToast_def drop_toast_def clearTimeout_def)
  then show ?thesis
    using pushToHistory_sum [OF d(2) assms(2), of now x] drop_one_sum [OF d(1) x(1)]
    by (simp add: notified_def room_def)
qed

lemma addToast_counts:
  assumes "toast_inv s"
  shows "notified (addToast i m v s) = Suc (notified s) \<and> room (addToast i m v s) \<le> Suc (room s)"
proof (cases "find (\<lambda>t. t_variant t = v) (toasts s)")
  case None
  then show ?thesis by (simp add: addToast_def notified_def room_def Let_def scheduleRemove_def)
next
  case (Some x)
  have d: "distinct (map t_id (toasts s))" using assms by (simp add: toast_inv_def groups_ok_def)
  have "map t_count (toasts (addToast i m v s)) =
      map (\<lambda>t. if t_id t = t_id x then t_count t + 1 else t_count t) (toasts s)"
    "toastHistory (addToast i m v s) = toastHistory s" "length (toasts (addToast i m v s)) = length (toasts s)"
    by (auto simp: addToast_def Some Let_def clearTimeout_def scheduleRemove_def)
  then show ?thesis
    using sum_list_update_one [OF d, of x t_count 1] find_Some_in [OF Some] by (simp add: notified_def room_def)
qed

lemma archive_counts:
  "entries_ok (toastHistory s) \<Longrightarrow> distinct (map t_id ts) \<Longrightarrow> t_id ` set ts \<inter> h_id ` set (toastHistory s) = {} \<Longrightarrow>
   length ts + length (toastHistory s) \<le> MAX_HISTORY \<Longrightarrow>
   sum_list (map h_count (toastHistory (archive now ts s))) =
     sum_list (map t_count ts) + sum_list (map h_count (toastHistory s)) \<and>
   length (toastHistory (archive now ts s)) \<le> length ts + length (toastHistory s)"
proof (induction ts arbitrary: s)
  case (Cons t ts)
  let ?h = "toastHistory s" and ?p = "pushToHistory now t (toastHistory s)"
  have d: "distinct (map h_id ?h)" using Cons.prems(1) by (simp add: entries_ok_def)
  have p: "entries_ok ?p \<and> h_id ` set ?p \<subseteq> insert (t_id t) (h_id ` set ?h)"
    using Cons.prems by (intro pushToHistory_ok) auto
  have "t_id ` set ts \<inter> insert (t_id t) (h_id ` set ?h) = {}" using Cons.prems(2,3) by auto
  with p have disj: "t_id ` set ts \<inter> h_id ` set ?p = {}" by blast
  have sums: "sum_list (map h_count ?p) = sum_list (map h_count ?h) + t_count t" "length ?p \<le> Suc (length ?h)"
    using pushToHistory_sum [OF d, of now t] Cons.prems(4) by auto
  show ?case
    using Cons.IH [of "(clearTimeout (t_timer t) s)\<lparr>toastHistory := ?p\<rparr>"] p disj sums Cons.prems(2,4)
    by (simp add: clearTimeout_def)
qed simp

lemma toast_handle_counts:
  assumes i: "toast_inv s" and f: "fresh_event s e" and n: "snd e \<noteq> ClearHistory"
    and r: "room s + (if is_add e then 1 else 0) \<le> MAX_HISTORY"
  shows "notified (toast_handle (fst e) s (snd e)) = notified s + (if is_add e then 1 else 0)
    \<and> room (toast_handle (fst e) s (snd e)) \<le> room s + (if is_add e then 1 else 0)"
proof -
  have rm: "notified (removeToast now j s) = notified s \<and> room (removeToast now j s) \<le> room s" for now j
  proof (cases "toasts s = []")
    case True
    then show ?thesis by (simp add: removeToast_def drop_toast_def notified_def room_def)
  next
    case False
    then have "length (toastHistory s) < MAX_HISTORY" using r by (cases "toasts s") (auto simp: room_def)
    then show ?thesis by (rule removeToast_counts [OF i])
  qed
  obtain now ev where e: "e = (now, ev)" by (cases e)
  show ?thesis
  proof (cases ev)
    case (TimerFires k)
    then show ?thesis using rm by (cases rule: fireTimer_cases [OF i, of now k]) (simp_all add: e)
  next
    case ClearAll
    have "notified (clearAll now s) = notified s \<and> room (clearAll now s) \<le> room s"
      using archive_counts [of s "toasts s" now] i r
      by (simp add: clearAll_def archive_def [symmetric] Let_def notified_def room_def
          toast_inv_def history_ok_def groups_ok_def Int_commute split: if_splits)
    with ClearAll show ?thesis by (simp add: e)
  next
    case ShowAll
    then show ?thesis by (simp add: e notified_def room_def)
  qed (use rm addToast_counts [OF i] n in \<open>simp_all add: e clickOutside_def\<close>)
qed

lemma run_counts:
  "toast_inv s \<Longrightarrow> toast.admissible s evs \<Longrightarrow> (\<forall>e \<in> set evs. snd e \<noteq> ClearHistory) \<Longrightarrow>
   room s + length (filter is_add evs) \<le> MAX_HISTORY \<Longrightarrow>
   notified (foldl toast_step s evs) = notified s + length (filter is_add evs)"
proof (induction evs arbitrary: s)
  case (Cons e evs)
  have c: "notified (toast_step s e) = notified (toast_handle (fst e) s (snd e))"
    "room (toast_step s e) = room (toast_handle (fst e) s (snd e))"
    by (simp_all add: toast_step_def collapse_def notified_def room_def)
  have "notified (toast_step s e) = notified s + (if is_add e then 1 else 0)
    \<and> room (toast_step s e) \<le> room s + (if is_add e then 1 else 0)"
    unfolding c using Cons.prems by (intro toast_handle_counts) (auto split: if_splits)
  with Cons.IH [of "toast_step s e"] Cons.prems toast_step_inv [of s e] show ?case
    by (auto split: if_splits)
qed simp

text \<open>
  C9. Notifications are counted, not dropped: over any sequence of events from the empty state
  with fresh ids, at most fifty notifications and no clearing of the history, the counts shown
  on the toasts and kept in the history add up to exactly the number of notifications added.
\<close>

theorem notifications_are_counted:
  assumes "toast.admissible toast_initial evs" and "\<forall>e \<in> set evs. snd e \<noteq> ClearHistory"
    and "length (filter is_add evs) \<le> 50"
  shows "notified (foldl toast_step toast_initial evs) = length (filter is_add evs)"
  using run_counts [OF toast_inv_initial assms(1,2)] assms(3)
  by (simp add: room_def notified_def toast_initial_def MAX_HISTORY_def)

theorem notifications_are_counted_witness:
  "notified (foldl toast_step toast_initial sample_events) = 3"
  using notifications_are_counted [OF sample_admissible] by (simp add: sample_events_def)

text \<open>
  A message that is followed by another of the same variant is lost: of two notifications of
  one variant, however different their messages, the toast keeps the second message only, and
  the history records the second one with a count of two and the first one not at all.
\<close>

theorem grouping_loses_the_first_message:
  "toastHistory (foldl toast_step toast_initial
       [(n1, AddToast i m1 v), (n2, AddToast j m2 v), (n3, RemoveToast i)])
   = [\<lparr>h_id = i, h_variant = v, h_message = m2, h_count = 2, h_timestamp = n3\<rparr>]"
  by (simp add: toast_eval)

lemma visible_fire: "t \<in> set (visibleToasts s) \<Longrightarrow> toasts s \<noteq> [] \<Longrightarrow> list_fire (toast_view s) (RemoveToast (t_id t))"
  by (auto simp: toast_view_def list_fire_map toast_item_def)

text \<open>
  Every toast can be dismissed: in a reachable state with a toast on it, either its own
  controls are on screen or the button that shows all toasts is, and after that button its
  controls are on screen; at most one toast is ever hidden, so that the button's count is 1.
\<close>

theorem toasts_are_dismissible:
  assumes "toast.admissible toast_initial evs" and "s = foldl toast_step toast_initial evs"
    and "t \<in> set (toasts s)"
  shows "(list_fire (toast_view s) (RemoveToast (t_id t)) \<or>
          list_fire (toast_view s) ShowAll \<and>
          list_fire (toast_view (toast_step s (now, ShowAll))) (RemoveToast (t_id t)))
    \<and> hiddenCount s \<le> 1"
proof -
  have i: "toast_inv s" unfolding assms(2) by (rule toast.fold_inv [OF toast_inv_initial assms(1)])
  then have four: "length (toasts s) \<le> 4" by (simp add: groups_bound toast_inv_def)
  have ne: "toasts s \<noteq> []" using assms(3) by auto
  show ?thesis
  proof (cases "t \<in> set (visibleToasts s)")
    case True
    with four show ?thesis using visible_fire [OF True ne] by (simp add: hiddenCount_def MAX_VISIBLE_def)
  next
    case False
    have hid: "\<not> showAll s" using False assms(3) by (auto simp: visibleToasts_def)
    have long: "length (toasts s) > 3"
    proof (rule ccontr)
      assume "\<not> ?thesis"
      with False assms(3) hid show False by (simp add: visibleToasts_def slice_last_def MAX_VISIBLE_def)
    qed
    have "list_fire (toast_view s) ShowAll"
      using ne long hid by (simp add: toast_view_def hiddenCount_def MAX_VISIBLE_def)
    moreover have "list_fire (toast_view (toast_step s (now, ShowAll))) (RemoveToast (t_id t))"
      by (rule visible_fire) (use assms(3) ne long in \<open>simp_all add: visibleToasts_def toast_step_def collapse_def MAX_VISIBLE_def\<close>)
    ultimately show ?thesis using four by (simp add: hiddenCount_def MAX_VISIBLE_def)
  qed
qed

theorem toasts_are_dismissible_witness:
  "list_fire (toast_view (foldl toast_step toast_initial sample_events)) (RemoveToast ''a'') \<or>
   list_fire (toast_view (foldl toast_step toast_initial sample_events)) ShowAll"
proof -
  obtain t where "t \<in> set (toasts (foldl toast_step toast_initial sample_events))" "t_id t = ''a''"
    by (simp add: toast_eval)
  with toasts_are_dismissible [OF sample_admissible refl] show ?thesis by metis
qed

end
