(* ===== verification/Pagination.thy ===== *)
theory Pagination
  imports JsValue UiKit
begin

text \<open>
  Paging and tables: the page list of \<open>hooks/usePagination.ts\<close> and the table component
  \<open>components/ui/DataTable.tsx\<close> with its range of items, its pager, its selection callbacks and
  its view. Counts are integers; \<open>Math.ceil(a / b)\<close> is the integer \<open>ceil_div a b\<close>.
\<close>

definition ceil_div :: "int \<Rightarrow> int \<Rightarrow> int" where
  "ceil_div a b = - ((- a) div b)"

lemma ceil_div_bounds:
  assumes "0 < b" shows "(ceil_div a b - 1) * b < a" "a \<le> ceil_div a b * b"
proof -
  define q m where "q = (- a) div b" and "m = (- a) mod b"
  have "b * q + m = - a" "0 \<le> m" "m < b" using assms by (simp_all add: q_def m_def)
  then have "- (b * q) < a + b" "a \<le> - (b * q)" by linarith+
  then show "(ceil_div a b - 1) * b < a" "a \<le> ceil_div a b * b"
    by (simp_all add: ceil_div_def q_def [symmetric] algebra_simps)
qed

lemma ceil_div_le: "0 < b \<Longrightarrow> ceil_div a b \<le> k \<longleftrightarrow> a \<le> k * b"
  using ceil_div_bounds [of b a] by (smt (verit) mult_right_less_imp_less mult_right_mono)

section \<open>The page list\<close>

datatype page_item = PageNo int | Dots

text \<open>\<open>Array.from({ length: n }, (_, i) => i + k)\<close>.\<close>

definition from_length :: "int \<Rightarrow> int \<Rightarrow> int list" where
  "from_length n k = map (\<lambda>i. int i + k) [0..<nat n]"

definition usePagination :: "int \<Rightarrow> int \<Rightarrow> int \<Rightarrow> int \<Rightarrow> page_item list" where
  "usePagination items page pageSize siblingCount =
     (let totalPages = ceil_div items pageSize;
          totalPageNumbers = siblingCount + 5
      in if totalPages \<le> totalPageNumbers then map PageNo (from_length totalPages 1)
      else
        let leftSiblingIndex = max (page - siblingCount) 1;
            rightSiblingIndex = min (page + siblingCount) totalPages;
            showLeftDots = leftSiblingIndex > 2;
            showRightDots = rightSiblingIndex < totalPages - 2
        in if \<not> showLeftDots \<and> showRightDots then
             map PageNo (from_length (3 + 2 * siblingCount) 1) @ [Dots, PageNo totalPages]
           else if showLeftDots \<and> \<not> showRightDots then
             (let rightItemCount = 3 + 2 * siblingCount
              in [PageNo 1, Dots] @ map PageNo (from_length rightItemCount (totalPages - rightItemCount + 1)))
           else
             [PageNo 1, Dots]
             @ map PageNo (from_length (rightSiblingIndex - leftSiblingIndex + 1) leftSiblingIndex)
             @ [Dots, PageNo totalPages])"

text \<open>
  A well-formed page list counts up by one from \<open>a\<close>, except at dots, which stand for one page or
  more, and ends at \<open>n\<close>.
\<close>

fun counts_up :: "int \<Rightarrow> page_item list \<Rightarrow> int \<Rightarrow> bool" where
  "counts_up a [] n = (a = n)"
| "counts_up a (PageNo b # is) n = (b = a + 1 \<and> counts_up b is n)"
| "counts_up a (Dots # PageNo b # is) n = (a + 1 < b \<and> counts_up b is n)"
| "counts_up a (Dots # is) n = False"

lemma from_length_Suc: "0 \<le> n \<Longrightarrow> from_length (n + 1) k = k # from_length n (k + 1)"
  unfolding from_length_def
  by (simp add: nat_add_distrib upt_conv_Cons map_Suc_upt [symmetric] del: upt_Suc)

lemma from_length_0 [simp]: "from_length 0 k = []"
  by (simp add: from_length_def)

lemma counts_up_range: "0 \<le> n \<Longrightarrow> counts_up a (map PageNo (from_length n (a + 1))) (a + n)"
proof (induction n arbitrary: a rule: int_ge_induct)
  case (step i)
  have "from_length (i + 1) (a + 1) = (a + 1) # from_length i (a + 1 + 1)"
    by (rule from_length_Suc [OF step.hyps])
  then show ?case using step.IH [of "a + 1"] by (simp add: ac_simps)
qed simp

lemma from_length_3: "from_length 3 k = [k, k + 1, k + 2]"
  by (simp add: from_length_def upt_rec numeral_eq_Suc)

lemma from_length_5: "from_length 5 k = [k, k + 1, k + 2, k + 3, k + 4]"
  by (simp add: from_length_def upt_rec numeral_eq_Suc)

lemma from_length_mem: "x \<in> set (from_length n k) \<longleftrightarrow> k \<le> x \<and> x < k + n"
proof
  assume "k \<le> x \<and> x < k + n"
  then have "x = int (nat (x - k)) + k" "nat (x - k) \<in> set [0..<nat n]" by auto
  then show "x \<in> set (from_length n k)" unfolding from_length_def set_map by (rule image_eqI)
qed (auto simp: from_length_def)

text \<open>
  The page list is right for the sibling count the hook defaults to: for a current page
  among the pages there are, it starts at page 1, ends at the last page, contains the current
  page, counts up by one, and its dots always stand for at least one page that is left out.
\<close>

theorem page_list_correct:
  assumes "0 < pageSize" and "1 \<le> page" and "page \<le> ceil_div items pageSize"
  shows "counts_up 0 (usePagination items page pageSize 1) (ceil_div items pageSize)
    \<and> PageNo page \<in> set (usePagination items page pageSize 1)"
proof (cases "ceil_div items pageSize \<le> 6")
  case True
  then show ?thesis
    using assms counts_up_range [of "ceil_div items pageSize" 0]
    by (auto simp: usePagination_def from_length_mem)
next
  case False
  let ?n = "ceil_div items pageSize"
  consider "page \<le> 3" | "3 < page" "page < ?n - 3" | "?n - 3 \<le> page" by linarith
  then show ?thesis
  proof cases
    case 1
    with False assms(2) show ?thesis
      by (auto simp: usePagination_def Let_def from_length_5 max_def min_def)
  next
    case 2
    then show ?thesis
      using False by (auto simp: usePagination_def Let_def from_length_3 max_def min_def)
  next
    case 3
    with False assms show ?thesis
      by (auto simp: usePagination_def Let_def from_length_5 max_def min_def)
  qed
qed

theorem page_list_correct_witness:
  "counts_up 0 (usePagination 95 5 10 1) 10"
  using page_list_correct [of 10 5 95] by (simp add: ceil_div_def)

text \<open>
  The page list is wrong for a sibling count of three: with nine pages, on the first page,
  it lists all nine pages and then, behind dots that leave out nothing, the ninth page again.
\<close>

lemma page_list_repeats_a_page:
  "usePagination 90 1 10 3 = map PageNo [1, 2, 3, 4, 5, 6, 7, 8, 9] @ [Dots, PageNo 9]"
  by code_simp

section \<open>The table\<close>

record 'e column =
  c_key :: string
  c_header :: string
  c_sortable :: bool
  c_render :: "(jsval \<Rightarrow> nat \<Rightarrow> 'e vnode) option"

record 'e table_props =
  rows :: "jsval list"
  columns :: "'e column list"
  tb_loading :: bool
  totalItems :: int
  tb_page :: int
  tb_pageSize :: int
  onPageChange :: "(int \<Rightarrow> 'e) option"
  sortBy :: "string option"
  sortOrder :: "string option"
  onSort :: "(string \<Rightarrow> 'e) option"
  emptyTitle :: string
  emptyDescription :: "string option"
  emptyAction :: "'e vnode option"
  onRowClick :: "(jsval \<Rightarrow> 'e) option"
  selectedIds :: "string list"
  onSelectionChange :: "(string list \<Rightarrow> 'e) option"
  getRowId :: "(jsval \<Rightarrow> string) option"

definition table_defaults :: "'e table_props" where
  "table_defaults = \<lparr>rows = [], columns = [], tb_loading = False, totalItems = 0, tb_page = 1,
     tb_pageSize = 10, onPageChange = None, sortBy = None, sortOrder = None, onSort = None,
     emptyTitle = ''No data'', emptyDescription = None, emptyAction = None, onRowClick = None,
     selectedIds = [], onSelectionChange = None, getRowId = None\<rparr>"

definition totalPages :: "int \<Rightarrow> int \<Rightarrow> int" where
  "totalPages items pageSize = ceil_div items pageSize"

definition startItem :: "int \<Rightarrow> int \<Rightarrow> int \<Rightarrow> int" where
  "startItem items page pageSize = (if items = 0 then 0 else (page - 1) * pageSize + 1)"

definition endItem :: "int \<Rightarrow> int \<Rightarrow> int \<Rightarrow> int" where
  "endItem items page pageSize = min (page * pageSize) items"

text \<open>The page numbers of the pager's buttons.\<close>

definition pager :: "int \<Rightarrow> int \<Rightarrow> int list" where
  "pager page pages =
     filter (\<lambda>n. \<not> n > pages) (from_length (min 5 pages) (max 1 (min (page - 2) (pages - 4))))"

text \<open>
  The selection callbacks: the selection they pass to \<open>onSelectionChange\<close>, or \<open>None\<close> where they
  return early because that or \<open>getRowId\<close> is missing.
\<close>

definition allSelected :: "'e table_props \<Rightarrow> bool" where
  "allSelected p \<longleftrightarrow>
     rows p \<noteq> [] \<and>
     list_all (\<lambda>r. case getRowId p of None \<Rightarrow> False | Some g \<Rightarrow> g r \<in> set (selectedIds p)) (rows p)"

definition handleSelectAll :: "'e table_props \<Rightarrow> string list option" where
  "handleSelectAll p =
     (case (onSelectionChange p, getRowId p) of
        (Some c, Some g) \<Rightarrow> Some (if allSelected p then [] else map g (rows p))
      | _ \<Rightarrow> None)"

definition handleSelectRow :: "'e table_props \<Rightarrow> jsval \<Rightarrow> string list option" where
  "handleSelectRow p r =
     (case (onSelectionChange p, getRowId p) of
        (Some c, Some g) \<Rightarrow>
          (let i = g r
           in Some (if i \<in> set (selectedIds p) then filter (\<lambda>j. j \<noteq> i) (selectedIds p)
                    else selectedIds p @ [i]))
      | _ \<Rightarrow> None)"

subsection \<open>View\<close>

definition on_opt :: "string \<Rightarrow> 'e option \<Rightarrow> 'e handler list" where
  "on_opt k e = (case e of None \<Rightarrow> [] | Some e \<Rightarrow> [On k e])"

text \<open>The event of a callback property applied to a value, where there is a callback.\<close>

definition call :: "('a \<Rightarrow> 'e) option \<Rightarrow> 'a \<Rightarrow> 'e option" where
  "call f x = map_option (\<lambda>g. g x) f"

definition call_opt :: "('a \<Rightarrow> 'e) option \<Rightarrow> 'a option \<Rightarrow> 'e option" where
  "call_opt f x = Option.bind x (call f)"

definition selectable :: "'e table_props \<Rightarrow> bool" where
  "selectable p \<longleftrightarrow> onSelectionChange p \<noteq> None \<and> getRowId p \<noteq> None"

definition checkbox :: "bool \<Rightarrow> 'e option \<Rightarrow> 'e vnode" where
  "checkbox c e = El ''input'' (flag ''checked'' c @ [(''type'', ''checkbox'')]) (on_opt ''change'' e) []"

definition table_head :: "'e table_props \<Rightarrow> 'e vnode" where
  "table_head p =
     El ''thead'' [] []
       [El ''tr'' [] []
          (when_do (selectable p)
             [El ''th'' [] [] [checkbox (allSelected p) (call_opt (onSelectionChange p) (handleSelectAll p))]] @
           map (\<lambda>c. El ''th'' [] (if c_sortable c then on_opt ''click'' (call (onSort p) (c_key c)) else [])
                      [box (Txt (c_header c) #
                            when_do (c_sortable c)
                              [El ''svg'' (if sortBy p = Some (c_key c) then opt_attr ''direction'' (sortOrder p) else []) [] []])])
             (columns p))]"

definition cell :: "'e column \<Rightarrow> jsval \<Rightarrow> nat \<Rightarrow> 'e vnode" where
  "cell c r i =
     El ''td'' [] []
       [case c_render c of
          Some f \<Rightarrow> f r i
        | None \<Rightarrow> Txt (to_str (coalesce (opt_get r (c_key c)) (JStr [])))]"

definition table_row :: "'e table_props \<Rightarrow> nat \<Rightarrow> jsval \<Rightarrow> 'e vnode" where
  "table_row p i r =
     (let isSelected = (case getRowId p of None \<Rightarrow> False | Some g \<Rightarrow> g r \<in> set (selectedIds p))
      in El ''tr'' [] (on_opt ''click'' (call (onRowClick p) r))
           (when_do (selectable p)
              [El ''td'' [] [] [checkbox isSelected (call_opt (onSelectionChange p) (handleSelectRow p r))]] @
            map (\<lambda>c. cell c r i) (columns p)))"

definition page_button :: "bool \<Rightarrow> (int \<Rightarrow> 'e) option \<Rightarrow> int \<Rightarrow> string \<Rightarrow> 'e vnode" where
  "page_button disabled change n label =
     Button (button\<lparr>b_disabled := disabled, b_on := on_opt ''click'' (call change n)\<rparr>) [Txt label]"

definition table_pager :: "'e table_props \<Rightarrow> 'e vnode list" where
  "table_pager p =
     (let pages = totalPages (totalItems p) (tb_pageSize p); page = tb_page p
      in when_do (pages > 1)
           [box [El ''p'' [] []
                   [Txt (''Showing '' @ show_int (startItem (totalItems p) page (tb_pageSize p)) @ ''-'' @
                         show_int (endItem (totalItems p) page (tb_pageSize p)) @ '' of '' @ show_int (totalItems p))],
                 box ([page_button (page \<le> 1) (onPageChange p) (page - 1) ''Previous''] @
                      map (\<lambda>n. page_button False (onPageChange p) n (show_int n)) (pager page pages) @
                      [page_button (page \<ge> pages) (onPageChange p) (page + 1) ''Next''])]])"

definition DataTable :: "'e table_props \<Rightarrow> 'e vnode" where
  "DataTable p =
     (if tb_loading p then
        box [box (replicate 5 (box (replicate (length (columns p)) (box [Skeleton]))))]
      else if rows p = [] then
        box [EmptyState (emptyTitle p) (emptyDescription p) (emptyAction p)]
      else
        box ([box [El ''table'' [] []
                     [table_head p,
                      El ''tbody'' [] [] (map (\<lambda>(i, r). table_row p i r) (zip [0..<length (rows p)] (rows p)))]]] @
             table_pager p))"

section \<open>Properties of the table\<close>

lemma startItem_le_iff: "0 < items \<Longrightarrow> startItem items p n \<le> k \<longleftrightarrow> (p - 1) * n < k"
  by (auto simp: startItem_def)

text \<open>
  The pages of a table partition its items: with a positive page size every item, counted
  from 1, lies in the range shown for exactly one page, and that page is one of the table's.
\<close>

theorem pages_partition_items:
  assumes "0 < pageSize" and "1 \<le> k" and "k \<le> items"
  shows "(\<exists>!p. startItem items p pageSize \<le> k \<and> k \<le> endItem items p pageSize)
    \<and> (\<forall>p. startItem items p pageSize \<le> k \<and> k \<le> endItem items p pageSize \<longrightarrow>
          1 \<le> p \<and> p \<le> totalPages items pageSize)"
proof -
  have r: "startItem items p pageSize \<le> k \<and> k \<le> endItem items p pageSize \<longleftrightarrow>
      (p - 1) * pageSize < k \<and> k \<le> p * pageSize" for p
    using assms by (auto simp: startItem_le_iff endItem_def)
  have c: "(p - 1) * pageSize < k \<and> k \<le> p * pageSize \<longleftrightarrow> p = ceil_div k pageSize" for p
    using ceil_div_le [OF assms(1), of k p] ceil_div_le [OF assms(1), of k "p - 1"] by linarith
  have "1 \<le> ceil_div k pageSize" "ceil_div k pageSize \<le> ceil_div items pageSize"
    using ceil_div_le [OF assms(1), of k 0] ceil_div_le [OF assms(1), of k "ceil_div items pageSize"]
      ceil_div_bounds(2) [OF assms(1), of items] assms(2,3) by linarith+
  then show ?thesis unfolding r c totalPages_def by simp
qed

theorem pages_partition_items_witness:
  "\<exists>!p. startItem 42 p 10 \<le> 20 \<and> 20 \<le> endItem 42 p 10"
  using pages_partition_items [of 10 20 42] by simp

lemma pager_mem:
  "1 \<le> page \<Longrightarrow> page \<le> pages \<Longrightarrow> n \<in> set (pager page pages) \<Longrightarrow> 1 \<le> n \<and> n \<le> pages"
  by (auto simp: pager_def from_length_mem)

lemma pager_all:
  assumes "1 \<le> page" and "page \<le> pages"
  shows "pager page pages = from_length (min 5 pages) (max 1 (min (page - 2) (pages - 4)))"
  unfolding pager_def using assms by (intro filter_True) (auto simp: from_length_mem)

lemma page_button_fires [simp]:
  "may_fire (page_button disabled f n label) e \<longleftrightarrow> \<not> disabled \<and> (\<exists>g. f = Some g \<and> e = g n)"
  by (auto simp: page_button_def on_opt_def call_def split: option.splits)

lemma pager_fires:
  "list_fire (table_pager p) e \<Longrightarrow>
     \<exists>f n. onPageChange p = Some f \<and> e = f n \<and>
       (n \<in> set (pager (tb_page p) (totalPages (totalItems p) (tb_pageSize p)))
        \<or> n = tb_page p - 1 \<and> 1 < tb_page p
        \<or> n = tb_page p + 1 \<and> tb_page p < totalPages (totalItems p) (tb_pageSize p))"
  by (auto simp: table_pager_def Let_def list_fire_map)

text \<open>
  The table never asks for a page it does not have: on a page within range, every page change
  its pager offers is to a page within range, and the pager has a button for the current page and
  as many buttons as there are pages, at most five.
\<close>

theorem pager_stays_in_range:
  assumes "1 \<le> tb_page p" and "tb_page p \<le> totalPages (totalItems p) (tb_pageSize p)"
  shows "(list_fire (table_pager p) e \<longrightarrow>
       (\<exists>f n. onPageChange p = Some f \<and> e = f n \<and> 1 \<le> n \<and> n \<le> totalPages (totalItems p) (tb_pageSize p)))
    \<and> tb_page p \<in> set (pager (tb_page p) (totalPages (totalItems p) (tb_pageSize p)))
    \<and> int (length (pager (tb_page p) (totalPages (totalItems p) (tb_pageSize p)))) =
         min 5 (totalPages (totalItems p) (tb_pageSize p))"
proof (intro conjI impI)
  assume "list_fire (table_pager p) e"
  from pager_fires [OF this] assms pager_mem [OF assms]
  show "\<exists>f n. onPageChange p = Some f \<and> e = f n \<and> 1 \<le> n \<and> n \<le> totalPages (totalItems p) (tb_pageSize p)"
    by fastforce
next
  show "tb_page p \<in> set (pager (tb_page p) (totalPages (totalItems p) (tb_pageSize p)))"
    unfolding pager_all [OF assms] from_length_mem using assms by linarith
  show "int (length (pager (tb_page p) (totalPages (totalItems p) (tb_pageSize p)))) =
      min 5 (totalPages (totalItems p) (tb_pageSize p))"
    unfolding pager_all [OF assms] from_length_def using assms by simp
qed

definition sample_table :: "int table_props" where
  "sample_table = table_defaults\<lparr>rows := [JNull], totalItems := 42, tb_page := 2, onPageChange := Some id\<rparr>"

theorem pager_stays_in_range_witness:
  "2 \<in> set (pager 2 (totalPages 42 10)) \<and> length (pager 2 (totalPages 42 10)) = 5"
  using pager_stays_in_range [of sample_table] by (simp add: sample_table_def table_defaults_def totalPages_def ceil_div_def)

text \<open>
  Selecting is consistent: for a table whose selection can change, selecting a row toggles
  exactly that row's id and keeps the selected ids distinct, and the box in the head selects all
  rows of the page, after which the table counts as all selected and the box selects nothing.
\<close>

theorem selection_is_consistent:
  assumes "onSelectionChange p = Some c" and "getRowId p = Some g" and "distinct (selectedIds p)"
  shows "(\<exists>ids. handleSelectRow p r = Some ids \<and> distinct ids \<and>
            (\<forall>j. j \<in> set ids \<longleftrightarrow> (if j = g r then j \<notin> set (selectedIds p) else j \<in> set (selectedIds p))))
    \<and> (rows p \<noteq> [] \<and> \<not> allSelected p \<longrightarrow>
         handleSelectAll p = Some (map g (rows p)) \<and>
         allSelected (p\<lparr>selectedIds := map g (rows p)\<rparr>) \<and>
         handleSelectAll (p\<lparr>selectedIds := map g (rows p)\<rparr>) = Some [])"
  using assms by (auto simp: handleSelectRow_def handleSelectAll_def allSelected_def list_all_iff Let_def)

theorem selection_is_consistent_witness:
  "\<exists>ids. handleSelectRow (table_defaults\<lparr>onSelectionChange := Some id, getRowId := Some to_str\<rparr>) (JStr ''a'') = Some ids
     \<and> ''a'' \<in> set ids"
  using selection_is_consistent [of "table_defaults\<lparr>onSelectionChange := Some id, getRowId := Some to_str\<rparr>" id to_str "JStr ''a''"]
  by (auto simp: table_defaults_def)

text \<open>
  The box in the head replaces the selection instead of extending it: whatever was selected
  on other pages is dropped, both when it selects the rows of this page and when it clears them.
\<close>

lemma select_all_drops_other_pages:
  assumes "onSelectionChange p = Some c" and "getRowId p = Some g" and "j \<notin> g ` set (rows p)"
  shows "\<exists>ids. handleSelectAll p = Some ids \<and> j \<notin> set ids"
  using assms by (auto simp: handleSelectAll_def)

end
