(* ===== verification/UiStore.thy ===== *)
theory UiStore
  imports Storage
begin

text \<open>
  The stores of the user interface: \<open>store/uiStore.ts\<close> (side bar, theme and its own list of
  toasts, with the listener on the system's colour scheme) and \<open>store/filterStore.ts\<close> (the
  filters per list and the named filters it saves in the local storage). The world a store
  acts on is its state, the local storage, and for the theme the class on the document, the
  system's scheme and the running timers. Drawn ids come with the actions.
\<close>

section \<open>The user interface store\<close>

text \<open>The stored theme is any text: the source casts what it reads without a check.\<close>

record ui_toast =
  ut_id :: string
  ut_type :: string
  ut_title :: string
  ut_message :: "string option"
  ut_duration :: "int option"

record ui_state =
  sidebarOpen :: bool
  theme :: string
  resolvedTheme :: string
  ui_toasts :: "ui_toast list"

record ui_world =
  ui :: ui_state
  ui_local :: storage
  dark_class :: bool
  system_dark :: bool
  ui_timers :: "(int \<times> string) list"

definition getSystemTheme :: "bool \<Rightarrow> string" where
  "getSystemTheme dark = (if dark then ''dark'' else ''light'')"

definition resolve_theme :: "bool \<Rightarrow> string \<Rightarrow> string" where
  "resolve_theme dark t = (if t = ''system'' then getSystemTheme dark else t)"

definition applyTheme :: "string \<Rightarrow> ui_world \<Rightarrow> ui_world" where
  "applyTheme t w = w\<lparr>dark_class := (resolve_theme (system_dark w) t = ''dark'')\<rparr>"

definition storedTheme :: "storage \<Rightarrow> string" where
  "storedTheme st = (if truthy_text (get_item st ''theme'') then the (get_item st ''theme'') else ''system'')"

definition ui_load :: "storage \<Rightarrow> bool \<Rightarrow> ui_world" where
  "ui_load st dark =
     (let t = storedTheme st
      in applyTheme t
           \<lparr>ui = \<lparr>sidebarOpen = True, theme = t, resolvedTheme = resolve_theme dark t, ui_toasts = []\<rparr>,
            ui_local = st, dark_class = False, system_dark = dark, ui_timers = []\<rparr>)"

definition toggleSidebar :: "ui_world \<Rightarrow> ui_world" where
  "toggleSidebar w = w\<lparr>ui := (ui w)\<lparr>sidebarOpen := \<not> sidebarOpen (ui w)\<rparr>\<rparr>"

definition setSidebarOpen :: "bool \<Rightarrow> ui_world \<Rightarrow> ui_world" where
  "setSidebarOpen b w = w\<lparr>ui := (ui w)\<lparr>sidebarOpen := b\<rparr>\<rparr>"

definition setTheme :: "string \<Rightarrow> ui_world \<Rightarrow> ui_world" where
  "setTheme t w =
     (let w1 = w\<lparr>ui_local := set_item (ui_local w) ''theme'' t\<rparr>;
          w2 = applyTheme t w1
      in w2\<lparr>ui := (ui w2)\<lparr>theme := t, resolvedTheme := resolve_theme (system_dark w) t\<rparr>\<rparr>)"

definition addUiToast :: "string \<Rightarrow> ui_toast \<Rightarrow> ui_world \<Rightarrow> ui_world" where
  "addUiToast i t w =
     (let duration = (case ut_duration t of None \<Rightarrow> 4000 | Some d \<Rightarrow> d)
      in w\<lparr>ui := (ui w)\<lparr>ui_toasts := ui_toasts (ui w) @ [t\<lparr>ut_id := i\<rparr>]\<rparr>,
           ui_timers := ui_timers w @ [(duration, i)]\<rparr>)"

definition removeUiToast :: "string \<Rightarrow> ui_world \<Rightarrow> ui_world" where
  "removeUiToast i w = w\<lparr>ui := (ui w)\<lparr>ui_toasts := filter (\<lambda>t. ut_id t \<noteq> i) (ui_toasts (ui w))\<rparr>\<rparr>"

definition fireUiTimer :: "int \<times> string \<Rightarrow> ui_world \<Rightarrow> ui_world" where
  "fireUiTimer p w =
     (if p \<in> set (ui_timers w)
      then removeUiToast (snd p) (w\<lparr>ui_timers := remove1 p (ui_timers w)\<rparr>) else w)"

text \<open>The listener of the media query: it repaints the document, and only that.\<close>

definition systemSchemeChanges :: "bool \<Rightarrow> ui_world \<Rightarrow> ui_world" where
  "systemSchemeChanges dark w =
     (let w1 = w\<lparr>system_dark := dark\<rparr>
      in if theme (ui w1) = ''system'' then applyTheme ''system'' w1 else w1)"

datatype ui_action =
    ToggleSidebar
  | SetSidebarOpen bool
  | SetTheme string
  | AddUiToast string ui_toast
  | RemoveUiToast string
  | UiTimer "int \<times> string"
  | SystemScheme bool

fun ui_step :: "ui_world \<Rightarrow> ui_action \<Rightarrow> ui_world" where
  "ui_step w ToggleSidebar = toggleSidebar w"
| "ui_step w (SetSidebarOpen b) = setSidebarOpen b w"
| "ui_step w (SetTheme t) = setTheme t w"
| "ui_step w (AddUiToast i t) = addUiToast i t w"
| "ui_step w (RemoveUiToast i) = removeUiToast i w"
| "ui_step w (UiTimer p) = fireUiTimer p w"
| "ui_step w (SystemScheme dark) = systemSchemeChanges dark w"

lemmas ui_defs [step_defs] =
  toggleSidebar_def setSidebarOpen_def setTheme_def addUiToast_def removeUiToast_def
  fireUiTimer_def systemSchemeChanges_def applyTheme_def

definition ui_inv :: "ui_world \<Rightarrow> bool" where
  "ui_inv w \<longleftrightarrow>
     (dark_class w \<longleftrightarrow> resolve_theme (system_dark w) (theme (ui w)) = ''dark'') \<and>
     storedTheme (ui_local w) = theme (ui w) \<and>
     (\<forall>t \<in> set (ui_toasts (ui w)). ut_id t \<in> snd ` set (ui_timers w))"

fun ui_ok :: "ui_world \<Rightarrow> ui_action \<Rightarrow> bool" where
  "ui_ok w (SetTheme t) = (t \<noteq> [])"
| "ui_ok w _ = True"

lemma ui_timer_inv: "ui_inv w \<Longrightarrow> ui_inv (fireUiTimer p w)"
proof (cases "p \<in> set (ui_timers w)")
  case True
  then have "snd ` set (ui_timers w) \<subseteq> insert (snd p) (snd ` set (remove1 p (ui_timers w)))"
    by (auto simp: image_iff) (metis in_set_remove1 snd_conv)
  then have "k \<in> snd ` set (remove1 p (ui_timers w))"
    if "k \<in> snd ` set (ui_timers w)" "k \<noteq> snd p" for k
    using that by blast
  with True show "ui_inv w \<Longrightarrow> ?thesis" by (auto simp: ui_inv_def step_defs)
qed (simp add: fireUiTimer_def)

lemma ui_step_inv: "ui_inv w \<Longrightarrow> ui_ok w a \<Longrightarrow> ui_inv (ui_step w a)"
proof (cases a)
  case (UiTimer p)
  then show "ui_inv w \<Longrightarrow> ?thesis" by (simp add: ui_timer_inv)
next
  case (SetTheme t)
  then show "ui_inv w \<Longrightarrow> ui_ok w a \<Longrightarrow> ?thesis"
    by (simp add: ui_inv_def step_defs Let_def storedTheme_def web.get_put)
qed (auto simp: ui_inv_def step_defs Let_def resolve_theme_def)

interpretation ui: machine ui_step ui_ok ui_inv
  by unfold_locales (rule ui_step_inv)

lemma ui_load_inv: "ui_inv (ui_load st dark)"
  by (simp add: ui_load_def ui_inv_def applyTheme_def Let_def)

text \<open>
  The theme on screen is the chosen one: after any sequence of actions and changes of the
  system's scheme from a load, the document is dark exactly when the store's theme, resolved
  against the system's scheme, is dark; a reload over the same local storage finds the same theme
  and paints the document the same; and every toast of the store has a timer that will remove it.
\<close>

theorem theme_is_applied:
  assumes "\<forall>a \<in> set acts. \<forall>w. ui_ok w a" and "w = foldl ui_step (ui_load st dark) acts"
  shows "(dark_class w \<longleftrightarrow> resolve_theme (system_dark w) (theme (ui w)) = ''dark'')
    \<and> theme (ui (ui_load (ui_local w) (system_dark w))) = theme (ui w)
    \<and> dark_class (ui_load (ui_local w) (system_dark w)) = dark_class w
    \<and> (\<forall>t \<in> set (ui_toasts (ui w)). ut_id t \<in> snd ` set (ui_timers w))"
proof -
  have "ui_inv w" unfolding assms(2) by (rule ui.run_inv [OF ui_load_inv]) (use assms(1) in blast)
  then show ?thesis by (simp add: ui_inv_def ui_load_def applyTheme_def Let_def)
qed

theorem theme_is_applied_witness:
  "dark_class (foldl ui_step (ui_load Map.empty False) [SystemScheme True, ToggleSidebar])"
  using theme_is_applied [of "[SystemScheme True, ToggleSidebar]" _ Map.empty False, OF _ refl]
  by (simp add: ui_load_def storedTheme_def get_item_def resolve_theme_def getSystemTheme_def step_defs Let_def)

text \<open>
  The resolved theme in the store goes stale: under the theme \<open>system\<close>, a change of the
  system's scheme repaints the document but leaves \<open>resolvedTheme\<close> at the old scheme, so that the
  two disagree until the theme is set again.
\<close>

lemma resolved_theme_goes_stale:
  assumes "theme (ui w) = ''system''" and "resolvedTheme (ui w) = getSystemTheme (\<not> dark)"
  shows "dark_class (systemSchemeChanges dark w) = dark
    \<and> resolvedTheme (ui (systemSchemeChanges dark w)) = getSystemTheme (\<not> dark)"
  using assms by (simp add: systemSchemeChanges_def applyTheme_def resolve_theme_def getSystemTheme_def)

section \<open>The filter store\<close>

text \<open>
  \<open>filters\<close> is an object from list keys to filters, \<open>savedFilters\<close> whatever the stored text
  parses to: the source does not check that it is an array.
\<close>

record filter_state =
  filters :: "(string \<times> jsval) list"
  savedFilters :: jsval

type_synonym filter_world = "filter_state \<times> storage"

definition defaultFilter :: "(string \<times> jsval) list" where
  "defaultFilter = [(''search'', JStr ''''), (''sortBy'', JStr ''createdAt''), (''sortOrder'', JStr ''desc'')]"

text \<open>Loading the module: it throws where the stored text is no JSON.\<close>

definition filter_load :: "storage \<Rightarrow> filter_world option" where
  "filter_load st =
     (let text = (if truthy_text (get_item st ''saved_filters'') then the (get_item st ''saved_filters'') else ''[]'')
      in map_option (\<lambda>v. (\<lparr>filters = [], savedFilters = v\<rparr>, st)) (json_parse text))"

fun fields :: "jsval \<Rightarrow> (string \<times> jsval) list" where
  "fields (JObj kvs) = kvs"
| "fields _ = []"

definition setFilter :: "string \<Rightarrow> (string \<times> jsval) list \<Rightarrow> filter_world \<Rightarrow> filter_world" where
  "setFilter key f w =
     (let old = js_or (obj_get (filters (fst w)) key) (JObj defaultFilter)
      in ((fst w)\<lparr>filters := obj_set (filters (fst w)) key (JObj (obj_spread (fields old) f))\<rparr>, snd w))"

definition resetFilter :: "string \<Rightarrow> filter_world \<Rightarrow> filter_world" where
  "resetFilter key w = ((fst w)\<lparr>filters := obj_set (filters (fst w)) key (JObj defaultFilter)\<rparr>, snd w)"

text \<open>\<open>[...v, x]\<close>: arrays and strings can be spread, anything else throws.\<close>

fun spread_items :: "jsval \<Rightarrow> js_error + jsval list" where
  "spread_items (JArr xs) = Inr xs"
| "spread_items (JStr s) = Inr (map (\<lambda>c. JStr [c]) s)"
| "spread_items v = Inl (TypeErr ''s.savedFilters is not iterable'')"

definition store_saved :: "jsval list \<Rightarrow> filter_world \<Rightarrow> filter_world" where
  "store_saved updated w =
     ((fst w)\<lparr>savedFilters := JArr updated\<rparr>, set_item (snd w) ''saved_filters'' (json_text (JArr updated)))"

definition saveFilter :: "string \<Rightarrow> string \<Rightarrow> jsval \<Rightarrow> filter_world \<Rightarrow> js_error + filter_world" where
  "saveFilter i name f w =
     sbind (spread_items (savedFilters (fst w)))
       (\<lambda>xs. Inr (store_saved (xs @ [JObj [(''id'', JStr i), (''name'', JStr name), (''filters'', f)]]) w))"

definition deleteSavedFilter :: "string \<Rightarrow> filter_world \<Rightarrow> js_error + filter_world" where
  "deleteSavedFilter i w =
     (case savedFilters (fst w) of
        JArr xs \<Rightarrow> Inr (store_saved (filter (\<lambda>f. opt_get f ''id'' \<noteq> JStr i) xs) w)
      | _ \<Rightarrow> Inl (TypeErr ''s.savedFilters.filter is not a function''))"

definition loadSavedFilter :: "string \<Rightarrow> filter_world \<Rightarrow> js_error + jsval" where
  "loadSavedFilter i w =
     (case savedFilters (fst w) of
        JArr xs \<Rightarrow>
          Inr (case find (\<lambda>f. opt_get f ''id'' = JStr i) xs of
                 None \<Rightarrow> JUndef | Some f \<Rightarrow> opt_get f ''filters'')
      | _ \<Rightarrow> Inl (TypeErr ''get(...).savedFilters.find is not a function''))"

datatype filter_action =
    SetFilter string "(string \<times> jsval) list"
  | ResetFilter string
  | SaveFilter string string jsval
  | DeleteSavedFilter string

text \<open>An action that throws leaves the store as it was.\<close>

fun filter_step :: "filter_world \<Rightarrow> filter_action \<Rightarrow> filter_world" where
  "filter_step w (SetFilter k f) = setFilter k f w"
| "filter_step w (ResetFilter k) = resetFilter k w"
| "filter_step w (SaveFilter i n f) = (case saveFilter i n f w of Inl e \<Rightarrow> w | Inr w' \<Rightarrow> w')"
| "filter_step w (DeleteSavedFilter i) = (case deleteSavedFilter i w of Inl e \<Rightarrow> w | Inr w' \<Rightarrow> w')"

definition filter_inv :: "filter_world \<Rightarrow> bool" where
  "filter_inv w \<longleftrightarrow>
     (\<exists>xs. savedFilters (fst w) = JArr xs \<and> plain (JArr xs) \<and> (\<forall>x \<in> set xs. \<exists>kvs. x = JObj kvs)) \<and>
     map_option (\<lambda>w'. savedFilters (fst w')) (filter_load (snd w)) = Some (savedFilters (fst w))"

fun filter_ok :: "filter_world \<Rightarrow> filter_action \<Rightarrow> bool" where
  "filter_ok w (SaveFilter i n f) = plain f"
| "filter_ok w _ = True"

lemma load_stored:
  "plain (JArr xs) \<Longrightarrow>
     map_option (\<lambda>w'. savedFilters (fst w')) (filter_load (set_item st ''saved_filters'' (json_text (JArr xs)))) = Some (JArr xs)"
  using json_roundtrip [of "JArr xs"] web.persisted_text_truthy [of "JArr xs" st "''saved_filters''"]
  by (simp add: filter_load_def web.get_put Let_def option.map_comp comp_def)

lemma store_saved_inv:
  "\<forall>x \<in> set xs. plain x \<and> (\<exists>kvs. x = JObj kvs) \<Longrightarrow> filter_inv (store_saved xs w)"
  using load_stored [of xs "snd w"] by (simp add: filter_inv_def store_saved_def)

lemma filter_step_inv: "filter_inv w \<Longrightarrow> filter_ok w a \<Longrightarrow> filter_inv (filter_step w a)"
proof -
  assume i: "filter_inv w" and ok: "filter_ok w a"
  then obtain xs where xs: "savedFilters (fst w) = JArr xs" "\<forall>x \<in> set xs. plain x \<and> (\<exists>kvs. x = JObj kvs)"
    by (auto simp: filter_inv_def)
  show ?thesis
  proof (cases a)
    case (SaveFilter i n f)
    then show ?thesis using xs ok by (auto simp: saveFilter_def intro!: store_saved_inv)
  next
    case (DeleteSavedFilter i)
    then show ?thesis using xs by (auto simp: deleteSavedFilter_def intro!: store_saved_inv)
  qed (use i in \<open>simp_all add: setFilter_def resetFilter_def filter_inv_def Let_def\<close>)
qed

interpretation filters: machine filter_step filter_ok filter_inv
  by unfold_locales (rule filter_step_inv)

lemma filter_initial: "json_parse ''[]'' = Some (JArr [])"
  using json_roundtrip [of "JArr []"] by simp

lemma filter_inv_initial: "filter_inv (\<lparr>filters = [], savedFilters = JArr []\<rparr>, Map.empty)"
  by (simp add: filter_inv_def filter_load_def get_item_def filter_initial)

text \<open>
  Saved filters survive a reload: starting from an empty local storage, after any sequence of
  store actions whose filters are values without \<open>undefined\<close>, a fresh load over the local storage
  succeeds and finds exactly the saved filters of the store.
\<close>

theorem saved_filters_survive_reload:
  assumes "filter_load Map.empty = Some w0" and "\<forall>a \<in> set acts. \<forall>w. filter_ok w a"
    and "w = foldl filter_step w0 acts"
  shows "\<exists>w'. filter_load (snd w) = Some w' \<and> savedFilters (fst w') = savedFilters (fst w)"
proof -
  have "w0 = (\<lparr>filters = [], savedFilters = JArr []\<rparr>, Map.empty)"
    using assms(1) by (simp add: filter_load_def get_item_def filter_initial)
  then have "filter_inv w"
    unfolding assms(3) by (intro filters.run_inv) (use assms(2) filter_inv_initial in auto)
  then show ?thesis by (auto simp: filter_inv_def)
qed

theorem saved_filters_survive_reload_witness:
  "\<exists>w w'. filter_load Map.empty = Some w \<and>
     filter_load (snd (foldl filter_step w [SaveFilter ''1'' ''mine'' (JObj defaultFilter), DeleteSavedFilter ''2''])) = Some w'"
proof -
  obtain w where w: "filter_load Map.empty = Some w"
    by (simp add: filter_load_def get_item_def filter_initial)
  have "\<forall>a \<in> set [SaveFilter ''1'' ''mine'' (JObj defaultFilter), DeleteSavedFilter ''2'']. \<forall>w. filter_ok w a"
    by (simp add: defaultFilter_def)
  from saved_filters_survive_reload [OF w this refl] w show ?thesis by blast
qed

text \<open>
  A saved filter can be loaded until it is deleted: in any state whose saved filters are a
  list, a filter saved under an id that no saved filter has is what that id loads, the other ids
  load what they did, and after deleting the id it loads nothing.
\<close>

theorem saved_filter_lookup:
  assumes "savedFilters (fst w) = JArr xs" and "\<forall>x \<in> set xs. opt_get x ''id'' \<noteq> JStr i"
  shows "\<exists>w1 w2. saveFilter i name f w = Inr w1 \<and> loadSavedFilter i w1 = Inr f
    \<and> (\<forall>j. j \<noteq> i \<longrightarrow> loadSavedFilter j w1 = loadSavedFilter j w)
    \<and> deleteSavedFilter i w1 = Inr w2 \<and> loadSavedFilter i w2 = Inr JUndef
    \<and> savedFilters (fst w2) = savedFilters (fst w)"
proof -
  let ?new = "JObj [(''id'', JStr i), (''name'', JStr name), (''filters'', f)]"
  have n: "find (\<lambda>x. opt_get x ''id'' = JStr i) xs = None" using assms(2) by (simp add: find_None_all)
  have app: "find P (xs @ [y]) = (case find P xs of None \<Rightarrow> (if P y then Some y else None) | Some x \<Rightarrow> Some x)" for P y
    by (induction xs) auto
  have del: "filter (\<lambda>x. opt_get x ''id'' \<noteq> JStr i) (xs @ [?new]) = xs"
    using assms(2) by (simp add: filter_id_conv)
  show ?thesis
    using assms(1) n
    by (auto simp: saveFilter_def deleteSavedFilter_def loadSavedFilter_def store_saved_def app del
        simp del: filter_append split: option.splits)
qed

theorem saved_filter_lookup_witness:
  "\<exists>w1. saveFilter ''7'' ''n'' (JNum 3) (\<lparr>filters = [], savedFilters = JArr []\<rparr>, Map.empty) = Inr w1
      \<and> loadSavedFilter ''7'' w1 = Inr (JNum 3)"
  using saved_filter_lookup [of "(\<lparr>filters = [], savedFilters = JArr []\<rparr>, Map.empty)" "[]" "''7''" "''n''" "JNum 3"]
  by auto

end
