(* ===== verification/Sidebar.thy ===== *)
theory Sidebar
  imports Router UiStore UiKit
begin

text \<open>
  The side bar (\<open>components/layouts/Sidebar.tsx\<close>): its menus for administrators and members,
  which entry is active at a location, the click handlers, the warning when the number of
  pending smishing flags grows, and the view in its three forms (drawer on a mobile screen,
  open and collapsed on a wide one). The location, the user, the screen and the query's count
  are the environment it renders in.
\<close>

section \<open>Menus\<close>

record nav_item =
  n_label :: string
  n_path :: string

record nav_group =
  g_label :: string
  g_items :: "nav_item list"

abbreviation item :: "string \<Rightarrow> string \<Rightarrow> nav_item" where
  "item l p \<equiv> \<lparr>n_label = l, n_path = p\<rparr>"

definition adminNavGroups :: "nav_group list" where
  "adminNavGroups =
    [\<lparr>g_label = ''Dashboards'', g_items =
        [item ''Stats'' ''/dashboard'', item ''Analytics'' ''/analytics'', item ''BI Dashboard'' ''/bi'']\<rparr>,
     \<lparr>g_label = ''Management'', g_items = [item ''Accounts'' ''/accounts'', item ''Users'' ''/users'']\<rparr>,
     \<lparr>g_label = ''Content'', g_items = [item ''Templates'' ''/templates'', item ''Webhooks'' ''/webhooks'']\<rparr>,
     \<lparr>g_label = ''Billing'', g_items =
        [item ''Plans'' ''/plans'', item ''Feature Catalog'' ''/feature-catalog'',
         item ''Billing Settings'' ''/billing-settings'', item ''Subscriptions'' ''/admin/subscriptions'']\<rparr>,
     \<lparr>g_label = ''Operations'', g_items =
        [item ''Circuit Breakers'' ''/circuit-breakers'', item ''Dead Letters'' ''/dead-letters'',
         item ''Fraud Flags'' ''/fraud-flags'', item ''Smishing Flags'' ''/smishing-flags'',
         item ''KYC Reviews'' ''/kyc-reviews'', item ''App Releases'' ''/app-releases'',
         item ''Firebase Config'' ''/firebase-config'', item ''AI Config'' ''/ai-config'']\<rparr>]"

definition memberNav :: "nav_item list" where
  "memberNav =
    [item ''Dashboard'' ''/member'', item ''Devices'' ''/member/devices'', item ''Messages'' ''/member/messages'',
     item ''Send SMS'' ''/member/send'', item ''Analytics'' ''/member/analytics'',
     item ''Templates'' ''/member/templates'', item ''Webhooks'' ''/member/webhooks'',
     item ''Bulk SMS'' ''/member/bulk-sms'', item ''Upgrade Plan'' ''/member/upgrade'']"

definition bottomNav :: "nav_item list" where
  "bottomNav = [item ''Settings'' ''/settings'']"

section \<open>State and handlers\<close>

record sidebar_env =
  e_location :: string
  e_user :: jsval
  e_mobile :: bool
  e_open :: bool
  e_pending :: int

record sidebar =
  hoveredItem :: "string option"
  expandedGroup :: "string option"
  prevCount :: int

definition sidebar_initial :: "int \<Rightarrow> sidebar" where
  "sidebar_initial pending = \<lparr>hoveredItem = None, expandedGroup = None, prevCount = pending\<rparr>"

definition isAdmin :: "jsval \<Rightarrow> bool" where
  "isAdmin u \<longleftrightarrow> opt_get u ''role'' = JStr ''admin'' \<or> opt_get u ''role'' = JStr ''staff''"

definition navItems :: "jsval \<Rightarrow> nav_item list" where
  "navItems u = (if isAdmin u then [] else memberNav)"

definition navGroups :: "jsval \<Rightarrow> nav_group list" where
  "navGroups u = (if isAdmin u then adminNavGroups else [])"

definition isActive :: "string \<Rightarrow> string \<Rightarrow> bool" where
  "isActive location path =
     (if path = ''/dashboard'' \<or> path = ''/member'' then location = path else prefix path location)"

datatype sidebar_event =
    NavClick string
  | LogoClick
  | Hover "string option"
  | SetExpanded "string option"
  | SetOpen bool

text \<open>A handler's effects: the state, the side bar's flag in the store and the path it navigates to.\<close>

fun sidebar_step :: "sidebar_env \<Rightarrow> sidebar \<Rightarrow> sidebar_event \<Rightarrow> sidebar \<times> bool \<times> string option" where
  "sidebar_step env s (NavClick path) = (s, (if e_mobile env then False else e_open env), Some path)"
| "sidebar_step env s LogoClick = (s, e_open env, Some ''/'')"
| "sidebar_step env s (Hover h) = (s\<lparr>hoveredItem := h\<rparr>, e_open env, None)"
| "sidebar_step env s (SetExpanded g) = (s\<lparr>expandedGroup := g\<rparr>, e_open env, None)"
| "sidebar_step env s (SetOpen b) = (s, b, None)"

text \<open>The effect on a change of the count: the new state and the warning it adds, if any.\<close>

definition count_effect :: "sidebar_env \<Rightarrow> sidebar \<Rightarrow> sidebar \<times> string option" where
  "count_effect env s =
     (if \<not> isAdmin (e_user env) then (s, None)
      else (s\<lparr>prevCount := e_pending env\<rparr>,
            if prevCount s > 0 \<and> e_pending env > prevCount s then
              (let increase = e_pending env - prevCount s
               in Some (show_int increase @ '' new smishing flag'' @ (if increase \<noteq> 1 then ''s'' else '''') @ '' detected''))
            else None))"

section \<open>View\<close>

definition hover_handlers :: "string \<Rightarrow> sidebar_event handler list" where
  "hover_handlers k = [On ''mouseenter'' (Hover (Some k)), On ''mouseleave'' (Hover None)]"

definition tooltip :: "sidebar \<Rightarrow> string \<Rightarrow> string \<Rightarrow> sidebar_event vnode list" where
  "tooltip s k label = when_do (hoveredItem s = Some k) [box [Txt label]]"

definition group_active :: "string \<Rightarrow> nav_group \<Rightarrow> bool" where
  "group_active location g = list_ex (\<lambda>i. isActive location (n_path i)) (g_items g)"

definition group_expanded :: "sidebar_env \<Rightarrow> sidebar \<Rightarrow> nav_group \<Rightarrow> bool" where
  "group_expanded env s g \<longleftrightarrow> expandedGroup s = Some (g_label g) \<or> group_active (e_location env) g"

definition collapsed_group :: "sidebar_env \<Rightarrow> sidebar \<Rightarrow> nav_group \<Rightarrow> sidebar_event vnode list" where
  "collapsed_group env s g =
     (let activeItem = find (\<lambda>i. isActive (e_location env) (n_path i)) (g_items g);
          displayItem = (case activeItem of Some i \<Rightarrow> Some i
                         | None \<Rightarrow> (case g_items g of [] \<Rightarrow> None | i # is \<Rightarrow> Some i))
      in case displayItem of
           None \<Rightarrow> []
         | Some i \<Rightarrow>
             [El ''button'' [] (On ''click'' (NavClick (n_path i)) # hover_handlers (''group-'' @ g_label g))
                (when_do (group_active (e_location env) g) [box []] @
                 [span (when_do (g_label g = ''Operations'' \<and> e_pending env > 0) [span [span [], span []]])] @
                 tooltip s (''group-'' @ g_label g) (g_label g))])"

definition group_item :: "sidebar_env \<Rightarrow> nav_item \<Rightarrow> sidebar_event vnode" where
  "group_item env i =
     El ''button'' [] (On ''click'' (NavClick (n_path i)) # hover_handlers (n_path i))
       (span [Txt (n_label i)] #
        when_do (n_path i = ''/smishing-flags'' \<and> e_pending env > 0)
          [span [Txt (if e_pending env > 99 then ''99+'' else show_int (e_pending env))]])"

definition open_group :: "sidebar_env \<Rightarrow> sidebar \<Rightarrow> nav_group \<Rightarrow> sidebar_event vnode list" where
  "open_group env s g =
     [box (El ''button'' []
             [On ''click'' (SetExpanded (if group_expanded env s g then None else Some (g_label g)))]
             [span [Txt (g_label g)]] #
           when_do (group_expanded env s g) [box [box (map (group_item env) (g_items g))]])]"

definition SidebarGroupedNav :: "sidebar_env \<Rightarrow> sidebar \<Rightarrow> bool \<Rightarrow> nav_group list \<Rightarrow> sidebar_event vnode" where
  "SidebarGroupedNav env s collapsed groups =
     box (concat (map (\<lambda>g. if collapsed then collapsed_group env s g else open_group env s g) groups))"

definition flat_item :: "sidebar_env \<Rightarrow> sidebar \<Rightarrow> bool \<Rightarrow> nav_item \<Rightarrow> sidebar_event vnode" where
  "flat_item env s collapsed i =
     El ''button'' [] (On ''click'' (NavClick (n_path i)) # hover_handlers (n_path i))
       (when_do (isActive (e_location env) (n_path i)) [box []] @
        when_do (\<not> collapsed) [span [Txt (n_label i)]] @
        (if collapsed then tooltip s (n_path i) (n_label i) else []))"

definition bottom_item :: "bool \<Rightarrow> nav_item \<Rightarrow> sidebar_event vnode" where
  "bottom_item collapsed i =
     El ''button'' [] [On ''click'' (NavClick (n_path i))] (when_do (\<not> collapsed) [span [Txt (n_label i)]])"

definition SidebarContent ::
  "sidebar_env \<Rightarrow> sidebar \<Rightarrow> bool \<Rightarrow> sidebar_event option \<Rightarrow> sidebar_event vnode list" where
  "SidebarContent env s collapsed onToggle =
     [box (El ''a'' [(''href'', ''/'')] [On ''click'' LogoClick]
             (when_do (\<not> collapsed) [span [Txt ''AeroXe '', span [Txt ''Bee'']]]) #
           (case onToggle of None \<Rightarrow> [] | Some e \<Rightarrow> [El ''button'' [] [On ''click'' e] []])),
      El ''nav'' [] []
        (when_do (navGroups (e_user env) \<noteq> []) [SidebarGroupedNav env s collapsed (navGroups (e_user env))] @
         when_do (navItems (e_user env) \<noteq> []) [box (map (flat_item env s collapsed) (navItems (e_user env)))]),
      box [box (map (bottom_item collapsed) bottomNav)]]"

definition Sidebar :: "sidebar_env \<Rightarrow> sidebar \<Rightarrow> sidebar_event vnode list" where
  "Sidebar env s =
     (if e_mobile env then
        when_do (e_open env) [El ''div'' [] [On ''click'' (SetOpen False)] []] @
        when_do (e_open env) [box (SidebarContent env s False None)]
      else [box (SidebarContent env s (\<not> e_open env) (Some (SetOpen (\<not> e_open env))))])"

section \<open>Which links a user has\<close>

definition menu :: "jsval \<Rightarrow> nav_item list" where
  "menu u = concat (map g_items (navGroups u)) @ navItems u @ bottomNav"

lemma hover_not_click [simp]: "\<exists>h \<in> set (hover_handlers k). raises h (NavClick p) \<Longrightarrow> False"
  by (auto simp: hover_handlers_def)

lemma tooltip_fires [simp]: "\<not> list_fire (tooltip s k l) e"
  by (simp add: tooltip_def)

lemma concat_fires: "list_fire (concat vss) e \<longleftrightarrow> (\<exists>vs \<in> set vss. list_fire vs e)"
  by (auto simp: list_fire_def)

lemma collapsed_group_link:
  "list_fire (collapsed_group env s g) (NavClick p) \<Longrightarrow> \<exists>i \<in> set (g_items g). n_path i = p"
  by (auto simp: collapsed_group_def Let_def hover_handlers_def split: option.splits list.splits
      dest: find_Some_in)

lemma open_group_link:
  "list_fire (open_group env s g) (NavClick p) \<Longrightarrow> \<exists>i \<in> set (g_items g). n_path i = p"
  by (auto simp: open_group_def group_item_def hover_handlers_def list_fire_map)

lemma sidebar_links:
  "list_fire (Sidebar env s) (NavClick p) \<Longrightarrow> \<exists>i \<in> set (menu (e_user env)). n_path i = p"
  by (auto simp: Sidebar_def SidebarContent_def SidebarGroupedNav_def concat_fires flat_item_def bottom_item_def
      menu_def hover_handlers_def list_fire_map split: if_splits option.splits
      dest!: collapsed_group_link open_group_link)

text \<open>Where the links lead: the branch of an entry's path in the route tree.\<close>

inductive in_app :: "bool \<Rightarrow> element list \<Rightarrow> page \<Rightarrow> bool" where
  "pg \<in> set admin_pages \<Longrightarrow> in_app True [shell, AdminRoute Outlet, plain_page pg] pg"
| "pg \<in> set member_pages \<Longrightarrow> in_app b [shell, MemberRoute Outlet, plain_page pg] pg"
| "pg \<in> set shared_pages \<Longrightarrow> in_app b [shell, plain_page pg] pg"

definition leads :: "bool \<Rightarrow> string \<Rightarrow> bool" where
  "leads adm p \<longleftrightarrow> p \<noteq> ''/*'' \<and> (\<exists>els pg. map_of branches p = Some els \<and> in_app adm els pg)"

inductive_simps in_app_simps [simp]:
  "in_app b [e, e'] pg" "in_app b [e, e', e''] pg"

lemma in_app_ex [simp]:
  "Ex (in_app b [shell, MemberRoute Outlet, plain_page pg]) \<longleftrightarrow> pg \<in> set member_pages"
  "Ex (in_app b [shell, plain_page pg]) \<longleftrightarrow> pg \<in> set shared_pages"
  "Ex (in_app b [shell, AdminRoute Outlet, plain_page pg]) \<longleftrightarrow> b \<and> pg \<in> set admin_pages"
  by auto

lemma leads_member: "list_all (\<lambda>i. leads b (n_path i)) (memberNav @ bottomNav)"
  by (simp add: memberNav_def bottomNav_def leads_def branch_list page_lists)

lemma leads_admin: "list_all (\<lambda>i. leads True (n_path i)) (concat (map g_items adminNavGroups))"
  by (simp add: adminNavGroups_def leads_def branch_list page_lists)

lemma menu_leads: "i \<in> set (menu u) \<Longrightarrow> leads (isAdmin u) (n_path i)"
  using leads_member [of "isAdmin u"] leads_admin
  by (auto simp: menu_def navItems_def navGroups_def list_all_iff split: if_splits)

lemma isAdmin_user: "isAdmin u \<Longrightarrow> truthy u \<and> \<not> is_member u"
  by (cases u) (auto simp: isAdmin_def is_member_def opt_get_def split: if_splits)

lemma in_app_commit:
  "in_app adm els pg \<Longrightarrow> isAuthenticated s \<Longrightarrow> \<not> isLoading s \<Longrightarrow> (adm \<Longrightarrow> truthy (user s) \<and> \<not> is_member (user s)) \<Longrightarrow>
     commit s els = Shown [AppLayout] pg"
  by (induction rule: in_app.induct) (auto simp: commit_def page_effect_None)

text \<open>
  The side bar has no dead links: for an authenticated user, following any link it offers, in
  any of its states and forms and at any location, shows a page inside the application at the
  link's own path, with no redirect; and a user who is neither administrator nor staff is
  offered no link to an administration page.
\<close>

theorem sidebar_links_open:
  assumes "route_matcher m" and "isAuthenticated (fst w)" and "\<not> isLoading (fst w)"
    and "e_user env = user (fst w)" and "list_fire (Sidebar env s) (NavClick p)"
  shows "\<exists>pg. resolve m 1 True w p = Some (Shown [AppLayout] pg, p, w)
    \<and> (\<not> isAdmin (user (fst w)) \<longrightarrow> pg \<notin> set admin_pages)"
proof -
  obtain i where i: "i \<in> set (menu (user (fst w)))" "n_path i = p"
    using sidebar_links [OF assms(5)] assms(4) by auto
  then obtain els pg where b: "p \<noteq> ''/*''" "map_of branches p = Some els" "in_app (isAdmin (user (fst w))) els pg"
    using menu_leads [OF i(1)] by (auto simp: leads_def)
  have m: "m p = Some els" by (rule route_matcher.match_literal [OF assms(1) b(2,1)])
  have "commit (fst w) els = Shown [AppLayout] pg"
    by (rule in_app_commit [OF b(3) assms(2,3)]) (rule isAdmin_user)
  then have "resolve m (Suc 0) True w p = Some (Shown [AppLayout] pg, p, w)"
    by (simp add: route_matcher.resolve_Suc [OF assms(1) m])
  moreover have "\<not> isAdmin (user (fst w)) \<longrightarrow> pg \<notin> set admin_pages"
    using b(3) by cases auto
  ultimately show ?thesis by auto
qed

definition admin_world :: auth_world where
  "admin_world = (auth_initial\<lparr>user := admin_user, isAuthenticated := True, isLoading := False\<rparr>, Map.empty)"

definition admin_env :: sidebar_env where
  "admin_env = \<lparr>e_location = ''/users'', e_user = admin_user, e_mobile = False, e_open = True, e_pending = 2\<rparr>"

theorem sidebar_links_open_witness:
  "\<exists>pg. resolve find_branch 1 True admin_world ''/settings'' = Some (Shown [AppLayout] pg, ''/settings'', admin_world)"
proof -
  have "list_fire (Sidebar admin_env (sidebar_initial 0)) (NavClick ''/settings'')"
    by (simp add: Sidebar_def SidebarContent_def bottom_item_def bottomNav_def admin_env_def)
  from sidebar_links_open [OF table_matcher _ _ _ this, of admin_world] show ?thesis
    by (auto simp: admin_world_def admin_env_def)
qed

section \<open>Active entries\<close>

text \<open>
  Two entries overlap when one's path is a prefix of the other's, home pages apart, which are
  compared for equality.
\<close>

definition overlap :: "string \<Rightarrow> string \<Rightarrow> bool" where
  "overlap p q \<longleftrightarrow> p \<noteq> q \<and> prefix p q \<and> p \<noteq> ''/dashboard'' \<and> p \<noteq> ''/member''"

lemma both_active:
  assumes "isActive location p" and "isActive location q"
  shows "p = q \<or> overlap p q \<or> overlap q p"
proof -
  have p: "prefix p location" "prefix q location"
    using assms by (auto simp: isActive_def split: if_splits)
  have home: "k = ''/dashboard'' \<or> k = ''/member'' \<Longrightarrow> isActive location k \<Longrightarrow> location = k" for k
    by (auto simp: isActive_def)
  from prefix_same_cases [OF p] show ?thesis
  proof
    assume "prefix p q"
    with home [of p] assms(1) p(2) show ?thesis
      by (metis overlap_def prefix_order.antisym)
  next
    assume "prefix q p"
    with home [of q] assms(2) p(1) show ?thesis
      by (metis overlap_def prefix_order.antisym)
  qed
qed

definition overlaps :: "nav_item list \<Rightarrow> (string \<times> string) list" where
  "overlaps is = filter (\<lambda>(p, q). overlap p q) (List.product (map n_path is) (map n_path is))"

lemma admin_overlaps:
  "overlaps (concat (map g_items adminNavGroups) @ bottomNav) = [(''/bi'', ''/billing-settings'')]"
  by code_simp

lemma member_overlaps: "overlaps (memberNav @ bottomNav) = []"
  by code_simp

lemma menu_overlaps: "overlaps (menu u) = (if isAdmin u then [(''/bi'', ''/billing-settings'')] else [])"
  by (simp add: menu_def navItems_def navGroups_def admin_overlaps [simplified] member_overlaps)

text \<open>
  At any location at most one entry of the user's menu is active, with one exception that only
  administrators have; and the group of an active entry cannot be folded: clicking its head
  changes nothing in what the open side bar shows.
\<close>

theorem one_active_entry:
  assumes "i \<in> set (menu u)" and "j \<in> set (menu u)"
    and "isActive location (n_path i)" and "isActive location (n_path j)"
  shows "(n_path i = n_path j \<or> isAdmin u \<and> {n_path i, n_path j} = {''/bi'', ''/billing-settings''})
    \<and> (i \<in> set (g_items g) \<and> e_location env = location \<longrightarrow>
         (\<forall>x. group_expanded env (s\<lparr>expandedGroup := x\<rparr>) g))"
proof
  have o: "isAdmin u \<and> {n_path k, n_path l} = {''/bi'', ''/billing-settings''}"
    if "overlap (n_path k) (n_path l)" "k \<in> set (menu u)" "l \<in> set (menu u)" for k l
  proof -
    have "(n_path k, n_path l) \<in> set (overlaps (menu u))"
      using that by (simp add: overlaps_def)
    then show ?thesis by (simp add: menu_overlaps split: if_splits)
  qed
  show "n_path i = n_path j \<or> isAdmin u \<and> {n_path i, n_path j} = {''/bi'', ''/billing-settings''}"
    using both_active [OF assms(3,4)]
  proof (elim disjE)
    assume "overlap (n_path i) (n_path j)"
    then show ?thesis by (intro disjI2 o [OF _ assms(1,2)])
  next
    assume "overlap (n_path j) (n_path i)"
    from o [OF this assms(2,1)] show ?thesis by (simp only: insert_commute simp_thms)
  qed (rule disjI1)
  show "i \<in> set (g_items g) \<and> e_location env = location \<longrightarrow> (\<forall>x. group_expanded env (s\<lparr>expandedGroup := x\<rparr>) g)"
    using assms(3) by (auto simp: group_expanded_def group_active_def list_ex_iff)
qed

theorem one_active_entry_witness:
  "\<forall>x. group_expanded admin_env ((sidebar_initial 0)\<lparr>expandedGroup := x\<rparr>) (adminNavGroups ! 1)"
  using one_active_entry [of "item ''Users'' ''/users''" admin_user "item ''Users'' ''/users''" "''/users''"
      "adminNavGroups ! 1" admin_env "sidebar_initial 0"]
  by (simp add: menu_def navGroups_def isAdmin_def admin_user_def adminNavGroups_def isActive_def admin_env_def)

text \<open>
  The exception: on the billing settings page the BI dashboard is highlighted too, because its
  path \<open>/bi\<close> is a prefix of \<open>/billing-settings\<close>, and with it the group Dashboards unfolds.
\<close>

theorem bi_active_on_billing_settings:
  "isActive ''/billing-settings'' ''/bi'' \<and> isActive ''/billing-settings'' ''/billing-settings''
   \<and> map g_label (filter (group_active ''/billing-settings'') adminNavGroups) = [''Dashboards'', ''Billing'']"
  by code_simp

end
