(* ===== verification/Forms.thy ===== *)
theory Forms
  imports UiKit
begin

text \<open>
  The form controls the pages share: a labelled required input (\<open>components/ui/Input.tsx\<close> with
  the attributes the pages give it), one with a hint, the submit button, the error box, and the
  text of a code field, with what they let a user do and when a form over them can be
  submitted.
\<close>

section \<open>Controls of a form\<close>

definition error_box :: "string \<Rightarrow> 'e vnode list" where
  "error_box e = when_do (e \<noteq> []) [box [Txt e]]"

definition text_input :: "string \<Rightarrow> attrs \<Rightarrow> string \<Rightarrow> (string \<Rightarrow> 'e) \<Rightarrow> 'e vnode" where
  "text_input label rest val change =
     Input (input\<lparr>i_label := Some label, i_rest := rest @ [(''value'', val), (''required'', [])],
       i_on := [OnText ''change'' change]\<rparr>)"

definition hinted_input :: "string \<Rightarrow> attrs \<Rightarrow> string \<Rightarrow> string \<Rightarrow> (string \<Rightarrow> 'e) \<Rightarrow> 'e vnode" where
  "hinted_input label rest hint val change =
     Input (input\<lparr>i_label := Some label, i_hint := Some hint, i_rest := rest @ [(''value'', val), (''required'', [])],
       i_on := [OnText ''change'' change]\<rparr>)"

definition submit_control :: "bool \<Rightarrow> bool \<Rightarrow> 'e vnode list \<Rightarrow> 'e vnode" where
  "submit_control loading disabled children =
     Button (button\<lparr>b_rest := [(''type'', ''submit'')], b_loading := loading, b_disabled := disabled\<rparr>) children"

definition digits_only :: "string \<Rightarrow> string" where
  "digits_only t = filter is_digit t"

definition small_button :: "bool \<Rightarrow> bool \<Rightarrow> 'e \<Rightarrow> string \<Rightarrow> 'e vnode" where
  "small_button loading disabled e label =
     Button (button\<lparr>b_on := [On ''click'' e], b_loading := loading, b_disabled := disabled,
       b_rest := [(''type'', ''button'')]\<rparr>) [Txt label]"

definition select_box :: "string \<Rightarrow> string \<Rightarrow> (string \<times> string) list \<Rightarrow> (string \<Rightarrow> 'e) \<Rightarrow> 'e vnode" where
  "select_box label v options change =
     box [El ''label'' [] [] [Txt label],
       El ''select'' [(''value'', v)] [OnText ''change'' change]
         (map (\<lambda>(w, l). El ''option'' [(''value'', w)] [] [Txt l]) options)]"

text \<open>The text is as long as the control's \<open>minLength\<close> asks.\<close>

definition min_ok :: "attrs \<Rightarrow> string \<Rightarrow> bool" where
  "min_ok rest v \<longleftrightarrow> v \<noteq> [] \<and> (case attr rest ''minLength'' of None \<Rightarrow> True | Some m \<Rightarrow> attr_num m \<le> length v)"

section \<open>What they let through\<close>

lemma min_ok_simps [simp]:
  "attr rest ''minLength'' = None \<Longrightarrow> min_ok rest v \<longleftrightarrow> v \<noteq> []"
  "attr rest ''minLength'' = Some ''8'' \<Longrightarrow> min_ok rest v \<longleftrightarrow> 8 \<le> length v"
  by (auto simp: min_ok_def)

lemma digits_take: "list_all is_digit (take n (digits_only t))"
  by (auto simp: digits_only_def list_all_iff dest: in_set_takeD)

lemma set_text_simps [simp]: "\<not> set_text None" "set_text (Some s) \<longleftrightarrow> s \<noteq> []"
  by (simp_all add: set_text_def)

lemma text_input_fires [simp]: "may_fire (text_input l rest v f) e \<longleftrightarrow> attr rest ''disabled'' = None \<and> (\<exists>t. f t = e)"
  by (simp add: text_input_def split: option.splits)

lemma submit_control_fires [simp]:
  "may_fire (submit_control loading disabled kids) e \<longleftrightarrow> \<not> disabled \<and> \<not> loading \<and> list_fire kids e"
  by (auto simp: submit_control_def)

lemma nodes_text_input:
  "attr rest ''value'' = None \<Longrightarrow> list_all filled (nodes (text_input l rest v f)) = min_ok rest v"
  "\<not> list_ex submit_button (nodes (text_input l rest v f))"
  by (auto simp: min_ok_def long_enough_def text_input_def Input_def input_id_def opt_attr_def when_do_def split: option.splits)

lemma nodes_submit_control:
  "list_all filled (nodes (submit_control loading disabled kids)) = list_all filled (concat (map nodes kids))"
  "list_ex submit_button (nodes (submit_control loading disabled kids)) =
     (\<not> loading \<and> \<not> disabled \<or> list_ex submit_button (concat (map nodes kids)))"
  by (auto simp: submit_control_def Button_def flag_def)

lemma nodes_error_box:
  "list_all filled (concat (map nodes (error_box e)))" "\<not> list_ex submit_button (concat (map nodes (error_box e)))"
  by (simp_all add: error_box_def when_do_def)

lemma error_box_fires [simp]: "\<not> list_fire (error_box e) ev"
  by (simp add: error_box_def)

lemma hinted_input_fires [simp]:
  "may_fire (hinted_input l rest h v f) e \<longleftrightarrow> attr rest ''disabled'' = None \<and> (\<exists>t. f t = e)"
  by (simp add: hinted_input_def split: option.splits)

lemma nodes_hinted_input:
  "attr rest ''value'' = None \<Longrightarrow> list_all filled (nodes (hinted_input l rest h v f)) = min_ok rest v"
  "\<not> list_ex submit_button (nodes (hinted_input l rest h v f))"
  by (auto simp: min_ok_def long_enough_def hinted_input_def Input_def input_id_def opt_attr_def when_do_def split: option.splits)

lemma small_button_fires [simp]: "may_fire (small_button loading disabled e l) e' \<longleftrightarrow> \<not> loading \<and> \<not> disabled \<and> e' = e"
  by (auto simp: small_button_def)

lemma select_box_fires [simp]: "may_fire (select_box l v os f) e \<longleftrightarrow> (\<exists>t. f t = e)"
  by (auto simp: select_box_def list_fire_map)

lemma nodes_select_box:
  "list_all filled (nodes (select_box l v os f))" "\<not> list_ex submit_button (nodes (select_box l v os f))"
  by (auto simp: select_box_def list_all_iff list_ex_iff)

lemma nodes_small_button:
  "list_all filled (nodes (small_button b d e l))" "\<not> list_ex submit_button (nodes (small_button b d e l))"
  by (simp_all add: small_button_def Button_def flag_def)

lemmas form_simps = can_submit_def Let_def nodes_select_box nodes_small_button nodes_text_input nodes_hinted_input nodes_submit_control nodes_error_box

end
