(* ===== verification/SignIn.thy ===== *)
theory SignIn
  imports AuthService Forms
begin

text \<open>
  The sign-in pages (\<open>features/auth/pages/LoginPage.tsx\<close> and \<open>RegisterPage.tsx\<close>): the state of each
  page with the requests it has in flight, its handlers split at the \<open>await\<close> into the part that
  runs on the event and the part that runs when the request settles, its effects and its view.
  A request in flight keeps the values its closure captured; its outcome is the result of the
  service function, so that the server is the argument of the settling event.
\<close>

section \<open>The login page\<close>

datatype login_form = Credentials | TwoFactor

datatype login_call =
    LoginCall string string
  | VerifyCall jsval string

record login_page =
  lp_email :: string
  lp_password :: string
  twoFACode :: string
  lp_error :: string
  lp_loading :: bool
  lp_form :: login_form
  lp_calls :: "login_call list"
  lp_auth :: auth_world
  lp_nav :: "string list"

datatype login_event =
    SetEmail string
  | SetPassword string
  | SetCode string
  | SubmitLogin
  | SubmitCode
  | BackToLogin
  | GoRegister
  | LoginSettles login_call "js_error + jsval"

definition login_page_initial :: "auth_world \<Rightarrow> login_page" where
  "login_page_initial w =
     \<lparr>lp_email = [], lp_password = [], twoFACode = [], lp_error = [], lp_loading = False,
      lp_form = Credentials, lp_calls = [], lp_auth = w, lp_nav = []\<rparr>"

text \<open>The service a call runs, and the calls the handlers make.\<close>

fun call_service :: "login_call \<Rightarrow> service" where
  "call_service (LoginCall email password) =
     login_service (JObj [(''email'', JStr email), (''password'', JStr password)])"
| "call_service (VerifyCall token code) = verify2FALogin token code"

definition start_call :: "login_call \<Rightarrow> login_page \<Rightarrow> login_page" where
  "start_call c s = s\<lparr>lp_error := [], lp_loading := True, lp_calls := lp_calls s @ [c]\<rparr>"

definition handleSubmit :: "login_page \<Rightarrow> login_page" where
  "handleSubmit s = start_call (LoginCall (lp_email s) (lp_password s)) s"

definition handle2FASubmit :: "login_page \<Rightarrow> login_page" where
  "handle2FASubmit s = start_call (VerifyCall (pending2FAToken (fst (lp_auth s))) (twoFACode s)) s"

definition handleBack :: "login_page \<Rightarrow> login_page" where
  "handleBack s =
     s\<lparr>lp_auth := cancel2FA (lp_auth s), lp_form := Credentials, twoFACode := [], lp_error := []\<rparr>"

text \<open>\<open>{ id: data.user.id, ... }\<close>: reading the fields throws where there is no user.\<close>

definition read_user :: "jsval \<Rightarrow> js_error + jsval" where
  "read_user data =
     sbind (js_get data ''user'') (\<lambda>u.
     sbind (js_get u ''id'') (\<lambda>i.
     sbind (js_get u ''email'') (\<lambda>e.
     sbind (js_get u ''name'') (\<lambda>n.
     sbind (js_get u ''role'') (\<lambda>r.
       Inr (JObj [(''id'', i), (''email'', e), (''name'', n), (''role'', r)]))))))"

definition home_path :: "jsval \<Rightarrow> string" where
  "home_path u = (if opt_get u ''role'' = JStr ''member'' then ''/member'' else ''/dashboard'')"

text \<open>
  The continuations after the \<open>await\<close>, with the \<open>catch\<close> and \<open>finally\<close> branches: every exception
  is an \<open>Error\<close> and its message is shown, and the page stops loading in all cases.
\<close>

definition enter ::
  "(jsval \<Rightarrow> jsval \<Rightarrow> jsval \<Rightarrow> auth_world \<Rightarrow> auth_world) \<Rightarrow> jsval \<Rightarrow> login_page \<Rightarrow> js_error + login_page" where
  "enter act data s =
     sbind (js_get data ''token'') (\<lambda>token.
     sbind (js_get data ''refreshToken'') (\<lambda>refresh.
     sbind (read_user data) (\<lambda>u.
       Inr (s\<lparr>lp_auth := act token refresh u (lp_auth s), lp_nav := lp_nav s @ [home_path u]\<rparr>))))"

definition login_try :: "string \<Rightarrow> jsval \<Rightarrow> login_page \<Rightarrow> js_error + login_page" where
  "login_try email data s =
     sbind (js_get data ''requires_2fa'') (\<lambda>rq.
       if truthy rq \<or> truthy (opt_get data ''two_fa_pending'') then
         Inr (s\<lparr>lp_auth := start2FA email (coalesce (opt_get data ''two_fa_token'') (opt_get data ''token'')) (lp_auth s),
                lp_form := TwoFactor\<rparr>)
       else enter login data s)"

definition settle_call :: "login_call \<Rightarrow> js_error + jsval \<Rightarrow> login_page \<Rightarrow> login_page" where
  "settle_call c r s =
     (let body = (case c of LoginCall email password \<Rightarrow> login_try email | VerifyCall token code \<Rightarrow> enter complete2FA);
          s1 = (case sbind r (\<lambda>data. body data s) of
                  Inl e \<Rightarrow> s\<lparr>lp_error := err_message e\<rparr>
                | Inr s' \<Rightarrow> s')
      in s1\<lparr>lp_loading := False, lp_calls := remove1 c (lp_calls s1)\<rparr>)"

fun login_handle :: "login_page \<Rightarrow> login_event \<Rightarrow> login_page" where
  "login_handle s (SetEmail t) = s\<lparr>lp_email := t\<rparr>"
| "login_handle s (SetPassword t) = s\<lparr>lp_password := t\<rparr>"
| "login_handle s (SetCode t) = s\<lparr>twoFACode := take 6 (digits_only t)\<rparr>"
| "login_handle s SubmitLogin = handleSubmit s"
| "login_handle s SubmitCode = handle2FASubmit s"
| "login_handle s BackToLogin = handleBack s"
| "login_handle s GoRegister = s\<lparr>lp_nav := lp_nav s @ [''/register'']\<rparr>"
| "login_handle s (LoginSettles c r) = (if c \<in> set (lp_calls s) then settle_call c r s else s)"

text \<open>
  The two effects, run on mounting and when what they depend on has changed: an authenticated
  store navigates to the dashboard, a pending second factor shows its form.
\<close>

definition login_effects :: "auth_state option \<Rightarrow> login_page \<Rightarrow> login_page" where
  "login_effects before s =
     (let now = fst (lp_auth s);
          auth_changed = (case before of None \<Rightarrow> True | Some b \<Rightarrow> isAuthenticated b \<noteq> isAuthenticated now);
          pending_changed = (case before of None \<Rightarrow> True
            | Some b \<Rightarrow> pending2FA b \<noteq> pending2FA now \<or> pending2FAEmail b \<noteq> pending2FAEmail now);
          s1 = (if auth_changed \<and> isAuthenticated now then s\<lparr>lp_nav := lp_nav s @ [''/dashboard'']\<rparr> else s)
      in if pending_changed \<and> pending2FA now
         then s1\<lparr>lp_form := TwoFactor, lp_email := pending2FAEmail now\<rparr> else s1)"

definition login_page_step :: "login_page \<Rightarrow> login_event \<Rightarrow> login_page" where
  "login_page_step s e = login_effects (Some (fst (lp_auth s))) (login_handle s e)"

definition login_mount :: "auth_world \<Rightarrow> login_page" where
  "login_mount w = login_effects None (login_page_initial w)"

subsection \<open>View\<close>

definition quickStats :: "(string \<times> string) list" where
  "quickStats = [(''1M+'', ''Messages delivered''), (''95%'', ''Delivery rate''), (''50+'', ''Countries'')]"

definition login_hero :: "login_event vnode" where
  "login_hero =
     box [box [],
       El ''h1'' [] [] [Txt ''Welcome back to '', span [Txt ''AeroXe Bee'']],
       El ''p'' [] [] [Txt ''Your SMS platform is ready. Sign in to manage devices, track deliveries, and monitor your fleet in real time.''],
       box (map (\<lambda>(v, l). box [box [Txt v], box [Txt l]]) quickStats)]"

definition credentials_form :: "login_page \<Rightarrow> login_event vnode" where
  "credentials_form s =
     box [El ''h2'' [] [] [Txt ''Sign in to your account''],
       El ''p'' [] [] [Txt ''Enter your credentials to access your dashboard.''],
       El ''form'' [] [On ''submit'' SubmitLogin]
         (error_box (lp_error s) @
          [text_input ''Email'' [(''type'', ''email''), (''placeholder'', ''you@company.com'')] (lp_email s) SetEmail,
           text_input ''Password'' [(''type'', ''password''), (''placeholder'', ''Enter your password'')] (lp_password s) SetPassword,
           submit_control (lp_loading s) False [span [Txt ''Sign in'']]])]"

definition code_form :: "login_page \<Rightarrow> login_event vnode" where
  "code_form s =
     box [box [box [],
         El ''h2'' [] [] [Txt ''Two-factor authentication''],
         El ''p'' [] [] [Txt ''Enter the 6-digit code from your authenticator app''],
         El ''p'' [] [] [Txt ''Sent to '', span [Txt (lp_email s)]]],
       El ''form'' [] [On ''submit'' SubmitCode]
         (error_box (lp_error s) @
          [text_input ''Verification code'' [(''type'', ''text''), (''placeholder'', ''000000''), (''maxLength'', ''6'')]
             (twoFACode s) SetCode,
           submit_control (lp_loading s) (length (twoFACode s) \<noteq> 6) [Txt ''Verify code''],
           El ''button'' [(''type'', ''button'')] [On ''click'' BackToLogin] [Txt ''Back to sign in'']])]"

definition login_view :: "login_page \<Rightarrow> login_event vnode list" where
  "login_view s =
     [box (when_do (lp_form s = Credentials) [login_hero] @
       [box ([box [if lp_form s = Credentials then credentials_form s else code_form s]] @
         when_do (lp_form s = Credentials)
           [El ''p'' [] [] [Txt ''Don't have an account? '',
              El ''a'' [(''href'', ''/register'')] [On ''click'' GoRegister] [Txt ''Get started free'']]])])]"

text \<open>What can happen next: what the user can do, and a call in flight settling.\<close>

fun login_possible :: "login_page \<Rightarrow> login_event \<Rightarrow> bool" where
  "login_possible s (LoginSettles c r) = (c \<in> set (lp_calls s))"
| "login_possible s e = list_fire (login_view s) e"

subsection \<open>Properties of the login page\<close>

lemma fire_SubmitLogin:
  "list_fire (login_view s) SubmitLogin \<longleftrightarrow>
     lp_form s = Credentials \<and> \<not> lp_loading s \<and> lp_email s \<noteq> [] \<and> lp_password s \<noteq> []"
  by (auto simp: login_view_def login_hero_def credentials_form_def code_form_def form_simps quickStats_def)

lemma fire_SubmitCode:
  "list_fire (login_view s) SubmitCode \<longleftrightarrow>
     lp_form s \<noteq> Credentials \<and> \<not> lp_loading s \<and> length (twoFACode s) = 6"
  by (auto simp: login_view_def login_hero_def credentials_form_def code_form_def form_simps quickStats_def)

fun call_ok :: "login_call \<Rightarrow> bool" where
  "call_ok (LoginCall email password) = (email \<noteq> [] \<and> password \<noteq> [])"
| "call_ok (VerifyCall token code) = (length code = 6 \<and> list_all is_digit code)"

definition login_inv :: "login_page \<Rightarrow> bool" where
  "login_inv s \<longleftrightarrow>
     length (lp_calls s) \<le> 1 \<and> (lp_loading s \<longleftrightarrow> lp_calls s \<noteq> []) \<and>
     length (twoFACode s) \<le> 6 \<and> list_all is_digit (twoFACode s) \<and> list_all call_ok (lp_calls s)"

lemma effects_keep:
  "lp_calls (login_effects b s) = lp_calls s" "lp_loading (login_effects b s) = lp_loading s"
  "twoFACode (login_effects b s) = twoFACode s" "lp_auth (login_effects b s) = lp_auth s"
  "lp_error (login_effects b s) = lp_error s" "lp_password (login_effects b s) = lp_password s"
  by (simp_all add: login_effects_def Let_def)

lemma login_inv_effects [simp]: "login_inv (login_effects b s) = login_inv s"
  by (simp add: login_inv_def effects_keep)

lemma try_keeps:
  "enter act data s = Inr s' \<Longrightarrow> lp_calls s' = lp_calls s \<and> twoFACode s' = twoFACode s"
  "login_try email data s = Inr s' \<Longrightarrow> lp_calls s' = lp_calls s \<and> twoFACode s' = twoFACode s"
  by (auto simp: login_try_def enter_def sbind_eq_Inr split: if_splits)

lemma settle_keeps:
  "lp_calls (settle_call c r s) = remove1 c (lp_calls s)" "twoFACode (settle_call c r s) = twoFACode s"
  "\<not> lp_loading (settle_call c r s)"
  by (auto simp: settle_call_def Let_def sbind_eq_Inr split: sum.split login_call.split dest: try_keeps)

lemma login_step_inv: "login_inv s \<Longrightarrow> login_possible s e \<Longrightarrow> login_inv (login_page_step s e)"
proof (cases e)
  case (LoginSettles c r)
  then show "login_inv s \<Longrightarrow> login_possible s e \<Longrightarrow> ?thesis"
    by (cases "lp_calls s") (auto simp: login_page_step_def login_inv_def settle_keeps effects_keep)
qed (auto simp: login_page_step_def login_inv_def effects_keep handleSubmit_def handle2FASubmit_def handleBack_def start_call_def
      fire_SubmitLogin fire_SubmitCode digits_take)

interpretation login: machine login_page_step login_possible login_inv
  by unfold_locales (rule login_step_inv)

lemma login_inv_mount: "login_inv (login_mount w)"
  by (simp add: login_mount_def, simp add: login_page_initial_def login_inv_def)

text \<open>
  C8. The login page has at most one request in flight: from any mount, after any sequence of
  things the user can do and of settling requests, the page is loading exactly when a request is
  in flight, there is never a second one, and no form can be submitted meanwhile; a login request
  carries a non-empty email and password, and a verification exactly six digits.
\<close>

theorem login_page_invariant:
  assumes "login.admissible (login_mount w) evs" and "s = foldl login_page_step (login_mount w) evs"
  shows "length (lp_calls s) \<le> 1 \<and> (lp_loading s \<longleftrightarrow> lp_calls s \<noteq> [])
    \<and> (lp_calls s \<noteq> [] \<longrightarrow> \<not> list_fire (login_view s) SubmitLogin \<and> \<not> list_fire (login_view s) SubmitCode)
    \<and> list_all call_ok (lp_calls s)"
proof -
  have "login_inv s" unfolding assms(2) by (rule login.fold_inv [OF login_inv_mount assms(1)])
  then show ?thesis by (auto simp: login_inv_def fire_SubmitLogin fire_SubmitCode)
qed

definition signed_out_world :: auth_world where
  "signed_out_world = (auth_initial\<lparr>isLoading := False\<rparr>, Map.empty)"

lemma change_fires:
  "list_fire (login_view s) (SetEmail t) \<longleftrightarrow> lp_form s = Credentials"
  "list_fire (login_view s) (SetPassword t) \<longleftrightarrow> lp_form s = Credentials"
  "list_fire (login_view s) (SetCode t) \<longleftrightarrow> lp_form s \<noteq> Credentials"
  "list_fire (login_view s) BackToLogin \<longleftrightarrow> lp_form s \<noteq> Credentials"
  by (auto simp: login_view_def login_hero_def credentials_form_def code_form_def form_simps quickStats_def)

definition login_session :: "login_event list" where
  "login_session = [SetEmail ''a@b.c'', SetPassword ''pw'', SubmitLogin]"

lemmas login_eval =
  login_session_def login_mount_def login_page_initial_def login_effects_def login_page_step_def
  handleSubmit_def start_call_def signed_out_world_def auth_initial_def Let_def

lemma login_session_possible: "login.admissible (login_mount signed_out_world) login_session"
  by (simp add: login_eval fire_SubmitLogin change_fires)

theorem login_page_invariant_witness:
  "length (lp_calls (foldl login_page_step (login_mount signed_out_world) login_session)) \<le> 1"
  using login_page_invariant [OF login_session_possible refl] by blast

text \<open>A response that asks for the second factor, and one with a user.\<close>

definition wants_2fa :: "(string \<times> jsval) list \<Rightarrow> bool" where
  "wants_2fa d \<longleftrightarrow> truthy (obj_get d ''requires_2fa'') \<or> truthy (obj_get d ''two_fa_pending'')"

definition session_user :: "(string \<times> jsval) list \<Rightarrow> jsval" where
  "session_user u = JObj [(''id'', obj_get u ''id''), (''email'', obj_get u ''email''),
     (''name'', obj_get u ''name''), (''role'', obj_get u ''role'')]"

lemma read_user_obj: "obj_get d ''user'' = JObj u \<Longrightarrow> read_user (JObj d) = Inr (session_user u)"
  by (simp add: read_user_def session_user_def)

lemma settle_step:
  "c \<in> set (lp_calls s) \<Longrightarrow>
     lp_auth (login_page_step s (LoginSettles c r)) = lp_auth (settle_call c r s) \<and>
     lp_error (login_page_step s (LoginSettles c r)) = lp_error (settle_call c r s) \<and>
     \<not> lp_loading (login_page_step s (LoginSettles c r)) \<and>
     prefix (lp_nav (settle_call c r s)) (lp_nav (login_page_step s (LoginSettles c r)))"
  by (simp add: login_page_step_def effects_keep settle_keeps)
    (simp add: login_effects_def Let_def)

text \<open>
  C7. What a settled login does, on every branch: an error leaves the store alone and shows its
  message; a response that asks for the second factor only starts it, with the submitted email
  and the response's own token for it where there is one; any other response with a user signs
  that user in with its token, stores the session and navigates to the user's home. In every
  case the page stops loading.
\<close>

theorem login_outcomes:
  assumes "LoginCall email password \<in> set (lp_calls s)"
    and "step = (\<lambda>r. login_page_step s (LoginSettles (LoginCall email password) r))"
  shows "(\<forall>r. \<not> lp_loading (step r))
    \<and> (\<forall>e. lp_auth (step (Inl e)) = lp_auth s \<and> lp_error (step (Inl e)) = err_message e)
    \<and> (\<forall>d. wants_2fa d \<longrightarrow>
         lp_auth (step (Inr (JObj d))) =
           start2FA email (coalesce (obj_get d ''two_fa_token'') (obj_get d ''token'')) (lp_auth s))
    \<and> (\<forall>d u. \<not> wants_2fa d \<and> obj_get d ''user'' = JObj u \<longrightarrow>
         lp_auth (step (Inr (JObj d))) = login (obj_get d ''token'') (obj_get d ''refreshToken'') (session_user u) (lp_auth s)
         \<and> prefix (lp_nav s @ [home_path (session_user u)]) (lp_nav (step (Inr (JObj d)))))"
proof -
  note st = settle_step [OF assms(1)]
  have 1: "\<forall>r. \<not> lp_loading (step r)" using st assms(2) by blast
  have 2: "lp_auth (step (Inl e)) = lp_auth s \<and> lp_error (step (Inl e)) = err_message e" for e
    using st [of "Inl e"] by (simp add: assms(2) settle_call_def)
  have 3: "lp_auth (step (Inr (JObj d))) =
      start2FA email (coalesce (obj_get d ''two_fa_token'') (obj_get d ''token'')) (lp_auth s)" if "wants_2fa d" for d
    using st [of "Inr (JObj d)"] that by (simp add: assms(2) settle_call_def login_try_def wants_2fa_def)
  have 4: "lp_auth (step (Inr (JObj d))) = login (obj_get d ''token'') (obj_get d ''refreshToken'') (session_user u) (lp_auth s)
      \<and> prefix (lp_nav s @ [home_path (session_user u)]) (lp_nav (step (Inr (JObj d))))"
    if "\<not> wants_2fa d" "obj_get d ''user'' = JObj u" for d u
    using st [of "Inr (JObj d)"] that
    by (simp add: assms(2) settle_call_def login_try_def wants_2fa_def enter_def read_user_obj)
  show ?thesis using 1 2 3 4 by blast
qed

theorem login_outcomes_witness:
  "lp_error (login_page_step (foldl login_page_step (login_mount signed_out_world) login_session)
      (LoginSettles (LoginCall ''a@b.c'' ''pw'') (Inl (JsError ''Login failed'')))) = ''Login failed''"
proof -
  have "LoginCall ''a@b.c'' ''pw'' \<in> set (lp_calls (foldl login_page_step (login_mount signed_out_world) login_session))"
    by (simp add: login_eval)
  from login_outcomes [OF this refl] show ?thesis by simp
qed

text \<open>
  Going back does not cancel a verification in flight: while the code is being verified the
  user can still go back to the credentials form, which clears the pending second factor, but
  when the request then succeeds the store is authenticated with its user nevertheless.
\<close>

theorem back_does_not_cancel:
  assumes "lp_form s = TwoFactor" and "lp_calls s = [VerifyCall token code]" and "obj_get d ''user'' = JObj u"
    and "s' = login_page_step s BackToLogin"
    and "s'' = login_page_step s' (LoginSettles (VerifyCall token code) (Inr (JObj d)))"
  shows "list_fire (login_view s) BackToLogin \<and> lp_form s' = Credentials \<and> \<not> pending2FA (fst (lp_auth s'))
    \<and> isAuthenticated (fst (lp_auth s'')) \<and> user (fst (lp_auth s'')) = session_user u"
proof -
  have s': "s' = login_effects (Some (fst (lp_auth s))) (handleBack s)" by (simp add: assms(4) login_page_step_def)
  have cancelled: "lp_auth s' = cancel2FA (lp_auth s)" "lp_calls s' = lp_calls s"
    by (simp_all add: s' effects_keep) (simp_all add: handleBack_def)
  have "\<not> pending2FA (fst (lp_auth s'))" by (simp add: cancelled cancel2FA_def)
  moreover have "lp_form s' = Credentials"
    by (simp add: s' login_effects_def Let_def handleBack_def cancel2FA_def)
  moreover have "lp_auth s'' = complete2FA (obj_get d ''token'') (obj_get d ''refreshToken'') (session_user u) (lp_auth s')"
    using settle_step [of "VerifyCall token code" s' "Inr (JObj d)"] assms(2,3,5) cancelled(2)
    by (simp add: settle_call_def enter_def read_user_obj)
  ultimately show ?thesis using assms(1) by (simp add: change_fires complete2FA_def)
qed

definition verifying :: login_page where
  "verifying = (login_page_initial signed_out_world)\<lparr>lp_form := TwoFactor, lp_loading := True,
     twoFACode := ''123456'', lp_calls := [VerifyCall (JStr ''t'') ''123456'']\<rparr>"

theorem back_does_not_cancel_witness:
  "isAuthenticated (fst (lp_auth (login_page_step (login_page_step verifying BackToLogin)
     (LoginSettles (VerifyCall (JStr ''t'') ''123456'') (Inr (JObj [(''token'', JStr ''j''), (''user'', sample_user)]))))))"
  using back_does_not_cancel [of verifying "JStr ''t''" "''123456''"
      "[(''token'', JStr ''j''), (''user'', sample_user)]", OF _ _ _ refl refl]
  by (simp add: verifying_def sample_user_def)

section \<open>The registration page\<close>

record register_page =
  rp_name :: string
  rp_email :: string
  rp_password :: string
  rp_confirm :: string
  rp_error :: string
  rp_loading :: bool
  rp_calls :: "(string \<times> string \<times> string) list"
  rp_auth :: auth_world
  rp_nav :: "string list"

datatype register_event =
    RSetName string
  | RSetEmail string
  | RSetPassword string
  | RSetConfirm string
  | SubmitRegister
  | GoLogin
  | RegisterSettles "string \<times> string \<times> string" "js_error + jsval"

definition register_page_initial :: "auth_world \<Rightarrow> register_page" where
  "register_page_initial w =
     \<lparr>rp_name = [], rp_email = [], rp_password = [], rp_confirm = [], rp_error = [], rp_loading = False,
      rp_calls = [], rp_auth = w, rp_nav = []\<rparr>"

definition register_call :: "string \<times> string \<times> string \<Rightarrow> service" where
  "register_call c =
     (case c of (name, email, password) \<Rightarrow>
        register (JObj [(''name'', JStr name), (''email'', JStr email), (''password'', JStr password)]))"

definition register_submit :: "register_page \<Rightarrow> register_page" where
  "register_submit s =
     (let s0 = s\<lparr>rp_error := []\<rparr>
      in if rp_password s \<noteq> rp_confirm s then s0\<lparr>rp_error := ''Passwords do not match''\<rparr>
         else if length (rp_password s) < 8 then s0\<lparr>rp_error := ''Password must be at least 8 characters''\<rparr>
         else s0\<lparr>rp_loading := True, rp_calls := rp_calls s @ [(rp_name s, rp_email s, rp_password s)]\<rparr>)"

definition register_try :: "jsval \<Rightarrow> register_page \<Rightarrow> js_error + register_page" where
  "register_try data s =
     sbind (js_get data ''token'') (\<lambda>token.
     sbind (js_get data ''refreshToken'') (\<lambda>refresh.
     sbind (read_user data) (\<lambda>u.
       Inr (s\<lparr>rp_auth := login token refresh u (rp_auth s), rp_nav := rp_nav s @ [''/member'']\<rparr>))))"

definition settle_register :: "string \<times> string \<times> string \<Rightarrow> js_error + jsval \<Rightarrow> register_page \<Rightarrow> register_page" where
  "settle_register c r s =
     (let s1 = (case sbind r (\<lambda>data. register_try data s) of
                  Inl e \<Rightarrow> s\<lparr>rp_error := err_message e\<rparr>
                | Inr s' \<Rightarrow> s')
      in s1\<lparr>rp_loading := False, rp_calls := remove1 c (rp_calls s1)\<rparr>)"

fun register_handle :: "register_page \<Rightarrow> register_event \<Rightarrow> register_page" where
  "register_handle s (RSetName t) = s\<lparr>rp_name := t\<rparr>"
| "register_handle s (RSetEmail t) = s\<lparr>rp_email := t\<rparr>"
| "register_handle s (RSetPassword t) = s\<lparr>rp_password := t\<rparr>"
| "register_handle s (RSetConfirm t) = s\<lparr>rp_confirm := t\<rparr>"
| "register_handle s SubmitRegister = register_submit s"
| "register_handle s GoLogin = s\<lparr>rp_nav := rp_nav s @ [''/login'']\<rparr>"
| "register_handle s (RegisterSettles c r) = (if c \<in> set (rp_calls s) then settle_register c r s else s)"

definition register_effects :: "auth_state option \<Rightarrow> register_page \<Rightarrow> register_page" where
  "register_effects before s =
     (let now = fst (rp_auth s);
          changed = (case before of None \<Rightarrow> True | Some b \<Rightarrow> isAuthenticated b \<noteq> isAuthenticated now)
      in if changed \<and> isAuthenticated now then s\<lparr>rp_nav := rp_nav s @ [''/member'']\<rparr> else s)"

definition register_page_step :: "register_page \<Rightarrow> register_event \<Rightarrow> register_page" where
  "register_page_step s e = register_effects (Some (fst (rp_auth s))) (register_handle s e)"

definition register_mount :: "auth_world \<Rightarrow> register_page" where
  "register_mount w = register_effects None (register_page_initial w)"

subsection \<open>View of the registration page\<close>

definition register_features :: "string list" where
  "register_features = [''Smart routing strategies'', ''Device fleet management'', ''End-to-end encryption'']"

definition register_stats :: "(string \<times> string) list" where
  "register_stats = [(''95%+'', ''Delivery rate''), (''150ms'', ''API latency''), (''99.9%'', ''Uptime'')]"

definition register_hero :: "register_event vnode" where
  "register_hero =
     box [box [],
       El ''h1'' [] [] [Txt ''Start sending '', span [Txt ''smarter SMS'']],
       El ''p'' [] [] [Txt ''Join thousands of businesses using intelligent routing, real-time analytics, and device fleet management to deliver messages at scale.''],
       box (map (\<lambda>(v, l). box [box [Txt v], box [Txt l]]) register_stats),
       box (map (\<lambda>f. box [box [], span [Txt f]]) register_features)]"

definition register_form :: "register_page \<Rightarrow> register_event vnode" where
  "register_form s =
     El ''form'' [] [On ''submit'' SubmitRegister]
       (error_box (rp_error s) @
        [text_input ''Full name'' [(''type'', ''text''), (''placeholder'', ''Jane Smith'')] (rp_name s) RSetName,
         text_input ''Email'' [(''type'', ''email''), (''placeholder'', ''you@company.com'')] (rp_email s) RSetEmail,
         hinted_input ''Password'' [(''type'', ''password''), (''placeholder'', ''Min 8 characters''), (''minLength'', ''8'')]
           ''Must include uppercase, lowercase, and a number'' (rp_password s) RSetPassword,
         text_input ''Confirm password''
           [(''type'', ''password''), (''placeholder'', ''Re-enter password''), (''minLength'', ''8'')] (rp_confirm s) RSetConfirm,
         submit_control (rp_loading s) False [span [Txt ''Create account'']]])"

definition register_view :: "register_page \<Rightarrow> register_event vnode list" where
  "register_view s =
     [box [register_hero,
       box [box [El ''h2'' [] [] [Txt ''Create your account''],
              El ''p'' [] [] [Txt ''Free to start. No credit card required.''],
              register_form s,
              box [span [Txt ''Free tier includes 1,000 SMS/month'']]],
            El ''p'' [] [] [Txt ''Already have an account? '',
              El ''a'' [(''href'', ''/login'')] [On ''click'' GoLogin] [Txt ''Sign in'']]]]]"

fun register_possible :: "register_page \<Rightarrow> register_event \<Rightarrow> bool" where
  "register_possible s (RegisterSettles c r) = (c \<in> set (rp_calls s))"
| "register_possible s e = list_fire (register_view s) e"

subsection \<open>Properties of the registration page\<close>

lemma fire_SubmitRegister:
  "list_fire (register_view s) SubmitRegister \<longleftrightarrow>
     \<not> rp_loading s \<and> rp_name s \<noteq> [] \<and> rp_email s \<noteq> [] \<and>
     8 \<le> length (rp_password s) \<and> 8 \<le> length (rp_confirm s)"
  by (auto simp: register_view_def register_hero_def register_form_def form_simps
      register_stats_def register_features_def)

definition register_inv :: "register_page \<Rightarrow> bool" where
  "register_inv s \<longleftrightarrow>
     length (rp_calls s) \<le> 1 \<and> (rp_loading s \<longleftrightarrow> rp_calls s \<noteq> []) \<and>
     list_all (\<lambda>(n, e, p). n \<noteq> [] \<and> e \<noteq> [] \<and> 8 \<le> length p) (rp_calls s)"

lemma register_inv_effects [simp]: "register_inv (register_effects b s) = register_inv s"
  by (simp add: register_inv_def register_effects_def Let_def)

lemma register_settle_keeps:
  "rp_calls (settle_register c r s) = remove1 c (rp_calls s)" "\<not> rp_loading (settle_register c r s)"
  by (auto simp: settle_register_def Let_def sbind_eq_Inr register_try_def split: sum.split)

lemma register_step_inv: "register_inv s \<Longrightarrow> register_possible s e \<Longrightarrow> register_inv (register_page_step s e)"
proof (cases e)
  case (RegisterSettles c r)
  then show "register_inv s \<Longrightarrow> register_possible s e \<Longrightarrow> ?thesis"
    unfolding register_page_step_def register_inv_effects
    by (cases "rp_calls s") (auto simp: register_inv_def register_settle_keeps)
next
  case SubmitRegister
  then show "register_inv s \<Longrightarrow> register_possible s e \<Longrightarrow> ?thesis"
    unfolding register_page_step_def register_inv_effects
    by (auto simp: register_inv_def register_submit_def Let_def fire_SubmitRegister)
qed (simp_all only: register_page_step_def register_inv_effects, simp_all add: register_inv_def)

interpretation register: machine register_page_step register_possible register_inv
  by unfold_locales (rule register_step_inv)

lemma register_inv_mount: "register_inv (register_mount w)"
  by (simp add: register_mount_def, simp add: register_page_initial_def register_inv_def)

text \<open>
  The registration page sends only valid forms, one at a time: from any mount, after any
  sequence of possible events, at most one request is in flight and only while the page is
  loading, with a name, an email and a password of at least eight characters; and a submission
  with passwords that differ, or too short ones, sends nothing and shows its message.
\<close>

theorem registration_is_validated:
  assumes "register.admissible (register_mount w) evs" and "s = foldl register_page_step (register_mount w) evs"
  shows "length (rp_calls s) \<le> 1 \<and> (rp_loading s \<longleftrightarrow> rp_calls s \<noteq> [])
    \<and> list_all (\<lambda>(n, e, p). n \<noteq> [] \<and> e \<noteq> [] \<and> 8 \<le> length p) (rp_calls s)
    \<and> (rp_password s \<noteq> rp_confirm s \<longrightarrow>
         rp_calls (register_page_step s SubmitRegister) = rp_calls s \<and>
         rp_error (register_page_step s SubmitRegister) = ''Passwords do not match'')
    \<and> (rp_password s = rp_confirm s \<and> length (rp_password s) < 8 \<longrightarrow>
         rp_calls (register_page_step s SubmitRegister) = rp_calls s \<and>
         rp_error (register_page_step s SubmitRegister) = ''Password must be at least 8 characters'')"
proof -
  have "register_inv s"
    unfolding assms(2) by (rule register.fold_inv [OF register_inv_mount assms(1)])
  then show ?thesis
    by (simp add: register_inv_def register_page_step_def register_effects_def register_submit_def Let_def)
qed

definition register_session :: "register_event list" where
  "register_session = [RSetName ''A'', RSetEmail ''a@b.c'', RSetPassword ''12345678'', RSetConfirm ''12345678'', SubmitRegister]"

lemma register_change_fires:
  "list_fire (register_view s) (RSetName t)" "list_fire (register_view s) (RSetEmail t)"
  "list_fire (register_view s) (RSetPassword t)" "list_fire (register_view s) (RSetConfirm t)"
  by (auto simp: register_view_def register_form_def)

theorem registration_is_validated_witness:
  "length (rp_calls (foldl register_page_step (register_mount signed_out_world) register_session)) \<le> 1"
proof -
  have "register.admissible (register_mount signed_out_world) register_session"
    by (simp add: register_session_def register_change_fires fire_SubmitRegister register_mount_def
        register_page_initial_def register_effects_def register_page_step_def signed_out_world_def auth_initial_def Let_def)
  from registration_is_validated [OF this refl] show ?thesis by blast
qed

end
