(* ===== verification/Messaging.thy ===== *)
theory Messaging
  imports DashboardService UiKit
begin

text \<open>
  Sending messages: the voice input control (\<open>components/ui/VoiceInput.tsx\<close>) and the two pages
  \<open>features/member/pages/SendSmsPage.tsx\<close> and \<open>BulkSmsPage.tsx\<close>. A page is its state with the
  requests in flight, the handlers, the callbacks of its mutations and its view. The mutations of
  \<open>react-query\<close> are used as documented: \<open>mutate\<close> runs the function on the values of the last
  render, the mutation is pending until it settles, and an exception in \<open>onSuccess\<close> goes to
  \<open>onError\<close>. What the browser's controls let a user type is part of the possible events: a text
  area with a \<open>maxLength\<close> does not let a text grow beyond it, a \<open>select\<close> yields one of its options.
  Dates are read and shown in the host's time zone and locale, which are the parameter \<open>host\<close>.
  Typographic characters are spelled in ASCII.
\<close>

section \<open>Voice input\<close>

record voice =
  isListening :: bool
  isSupported :: bool
  has_recognition :: bool

datatype voice_event =
    Mount bool
  | Toggle bool
  | Heard "(bool \<times> string) list"
  | RecognitionFails
  | RecognitionEnds

definition voice_initial :: voice where
  "voice_initial = \<lparr>isListening = False, isSupported = True, has_recognition = False\<rparr>"

text \<open>
  \<open>Mount\<close> says whether the browser has the interface, \<open>Toggle\<close> whether \<open>start()\<close> throws, \<open>Heard\<close>
  the results so far with their \<open>isFinal\<close> flags. The second component is the text passed to
  \<open>onResult\<close>.
\<close>

fun voice_step :: "voice \<Rightarrow> voice_event \<Rightarrow> voice \<times> string option" where
  "voice_step s (Mount available) =
     (if available then s\<lparr>has_recognition := True\<rparr> else s\<lparr>isSupported := False\<rparr>, None)"
| "voice_step s (Toggle start_throws) =
     ((if \<not> has_recognition s then s
       else if isListening s then s\<lparr>isListening := False\<rparr>
       else if start_throws then s\<lparr>isListening := False\<rparr> else s\<lparr>isListening := True\<rparr>), None)"
| "voice_step s (Heard results) =
     (s, if results \<noteq> [] \<and> fst (last results) then Some (concat (map snd results)) else None)"
| "voice_step s RecognitionFails = (s\<lparr>isListening := False\<rparr>, None)"
| "voice_step s RecognitionEnds = (s\<lparr>isListening := False\<rparr>, None)"

definition VoiceInput :: "voice \<Rightarrow> bool \<Rightarrow> 'e handler list \<Rightarrow> 'e vnode list" where
  "VoiceInput s disabled toggle =
     when_do (isSupported s)
       [El ''button''
          ([(''type'', ''button'')] @ flag ''disabled'' disabled @
           [(''title'', if isListening s then ''Stop recording'' else ''Start voice input'')])
          toggle [box [if isListening s then span [] else El ''svg'' [] [] []]]]"

section \<open>Shared parts of the two pages\<close>

definition device_id :: "jsval \<Rightarrow> string" where
  "device_id d = to_str (opt_get d ''id'')"

definition selected_device :: "jsval list \<Rightarrow> string \<Rightarrow> jsval option" where
  "selected_device devices i = find (\<lambda>d. opt_get d ''id'' = JStr i) devices"

definition option_node :: "string \<Rightarrow> string \<Rightarrow> 'e vnode" where
  "option_node v label = El ''option'' [(''value'', v)] [] [Txt label]"

definition device_label :: "jsval \<Rightarrow> string" where
  "device_label d =
     to_str (opt_get d ''name'') @ '' '' @
     (if truthy (opt_get d ''phone_number'') then ''('' @ to_str (opt_get d ''phone_number'') @ '')'' else '''') @
     '' - '' @ to_str (opt_get d ''carrier'')"

definition device_selector :: "jsval list \<Rightarrow> string \<Rightarrow> (string \<Rightarrow> 'e) \<Rightarrow> 'e vnode" where
  "device_selector devices i change =
     box ([El ''label'' [] [] [Txt ''Device''],
       if devices = [] then
         box [Txt ''No online devices available. Make sure your device is connected and online.'']
       else
         El ''select'' [(''value'', i), (''required'', [])] [OnText ''change'' change]
           (option_node [] ''Select a device...'' # map (\<lambda>d. option_node (device_id d) (device_label d)) devices)] @
       (case selected_device devices i of
          None \<Rightarrow> []
        | Some d \<Rightarrow>
            [box [Badge True [Txt ''Online''],
               span [Txt (to_str (opt_get d ''carrier'') @ '' - SIM '' @ to_str (opt_get d ''sim_slot''))]]]))"

definition message_types :: "(string \<times> string) list" where
  "message_types = [(''transactional'', ''Transactional''), (''marketing'', ''Marketing''), (''otp'', ''OTP'')]"

definition type_selector :: "string \<Rightarrow> (string \<Rightarrow> 'e) \<Rightarrow> 'e vnode" where
  "type_selector t change =
     box [El ''label'' [] [] [Txt ''Message type''],
       El ''select'' [(''value'', t)] [OnText ''change'' change] (map (\<lambda>(v, l). option_node v l) message_types)]"

text \<open>The message counter and the text area with its limit of 160.\<close>

definition message_area :: "attrs \<Rightarrow> string \<Rightarrow> (string \<Rightarrow> 'e) \<Rightarrow> 'e vnode list" where
  "message_area rest m change =
     [El ''label'' [] [] [span [Txt ''Message''], span [Txt (show_nat (length m) @ ''/160'')]],
      El ''textarea'' ([(''value'', m), (''maxLength'', ''160'')] @ rest) [OnText ''change'' change] []]"

definition may_type :: "nat \<Rightarrow> string \<Rightarrow> string \<Rightarrow> bool" where
  "may_type limit old new \<longleftrightarrow> length new \<le> limit \<or> length new \<le> length old"

definition blank :: "string \<Rightarrow> bool" where
  "blank t \<longleftrightarrow> js_trim t = []"

definition result_box :: "(bool \<times> string) option \<Rightarrow> 'e vnode list" where
  "result_box r = (case r of None \<Rightarrow> [] | Some (ok, m) \<Rightarrow> [box [box [Txt m]]])"

section \<open>Sending one message\<close>

record send_page =
  recipient :: string
  selectedDeviceId :: string
  message :: string
  messageType :: string
  sd_result :: "(bool \<times> string) option"
  sd_devices :: "jsval list"
  sd_calls :: "jsval list"
  sd_voice :: voice

datatype send_event =
    SetDevice string
  | SetRecipient string
  | SetMessage string
  | SetType string
  | VoiceEvent voice_event
  | Send
  | SendSettles jsval "js_error + jsval"
  | DevicesLoad "jsval list"

definition send_initial :: send_page where
  "send_initial = \<lparr>recipient = [], selectedDeviceId = [], message = [], messageType = ''transactional'',
     sd_result = None, sd_devices = [], sd_calls = [], sd_voice = voice_initial\<rparr>"

definition send_payload :: "send_page \<Rightarrow> jsval" where
  "send_payload s = JObj [(''device_id'', JStr (selectedDeviceId s)), (''recipient'', JStr (recipient s)),
     (''message'', JStr (message s)), (''message_type'', JStr (messageType s))]"

definition handleVoiceResult :: "string option \<Rightarrow> send_page \<Rightarrow> send_page" where
  "handleVoiceResult t s = (case t of None \<Rightarrow> s | Some text \<Rightarrow> s\<lparr>message := message s @ text\<rparr>)"

definition send_click :: "send_page \<Rightarrow> send_page" where
  "send_click s = s\<lparr>sd_result := None, sd_calls := sd_calls s @ [send_payload s]\<rparr>"

text \<open>\<open>data.message_id.slice(0, 8)\<close>, which throws unless the id is a text.\<close>

definition send_success :: "jsval \<Rightarrow> send_page \<Rightarrow> js_error + send_page" where
  "send_success data s =
     sbind (js_get data ''message_id'') (\<lambda>i.
       case i of
         JStr t \<Rightarrow> Inr (s\<lparr>sd_result := Some (True, ''Message queued ('' @ take 8 t @ ''...)''),
                           recipient := [], message := [], messageType := ''transactional''\<rparr>)
       | _ \<Rightarrow> Inl (TypeErr ''data.message_id.slice is not a function''))"

definition send_settles :: "jsval \<Rightarrow> js_error + jsval \<Rightarrow> send_page \<Rightarrow> send_page" where
  "send_settles c r s =
     (let s1 = (case sbind r (\<lambda>data. send_success data s) of
                  Inl e \<Rightarrow> s\<lparr>sd_result := Some (False, err_message e)\<rparr>
                | Inr s' \<Rightarrow> s')
      in s1\<lparr>sd_calls := remove1 c (sd_calls s1)\<rparr>)"

fun send_step :: "send_page \<Rightarrow> send_event \<Rightarrow> send_page" where
  "send_step s (SetDevice t) = s\<lparr>selectedDeviceId := t\<rparr>"
| "send_step s (SetRecipient t) = s\<lparr>recipient := t\<rparr>"
| "send_step s (SetMessage t) = s\<lparr>message := t\<rparr>"
| "send_step s (SetType t) = s\<lparr>messageType := t\<rparr>"
| "send_step s (VoiceEvent e) =
     (case voice_step (sd_voice s) e of (v, t) \<Rightarrow> handleVoiceResult t (s\<lparr>sd_voice := v\<rparr>))"
| "send_step s Send = send_click s"
| "send_step s (SendSettles c r) = (if c \<in> set (sd_calls s) then send_settles c r s else s)"
| "send_step s (DevicesLoad ds) = s\<lparr>sd_devices := ds\<rparr>"

subsection \<open>View of the send page\<close>

definition send_disabled :: "send_page \<Rightarrow> bool" where
  "send_disabled s \<longleftrightarrow> selectedDeviceId s = [] \<or> blank (recipient s) \<or> blank (message s)"

definition send_button :: "send_page \<Rightarrow> send_event vnode" where
  "send_button s =
     Button (button\<lparr>b_on := [On ''click'' Send], b_loading := sd_calls s \<noteq> [], b_disabled := send_disabled s\<rparr>)
       [Txt (''Send'' @ (case selected_device (sd_devices s) (selectedDeviceId s) of
               None \<Rightarrow> '''' | Some d \<Rightarrow> '' via '' @ to_str (opt_get d ''name'')))]"

definition page_hero :: "string \<Rightarrow> string \<Rightarrow> 'e vnode" where
  "page_hero title intro = box [box [El ''h1'' [] [] [span [Txt title]], El ''p'' [] [] [Txt intro]]]"

definition send_view :: "send_page \<Rightarrow> send_event vnode list" where
  "send_view s =
     [page_hero ''Send SMS'' ''Send a test message through your online devices'',
      box [device_selector (sd_devices s) (selectedDeviceId s) SetDevice,
        Input (input\<lparr>i_label := Some ''Recipient'',
          i_rest := [(''value'', recipient s), (''placeholder'', ''+1234567890''), (''required'', [])],
          i_on := [OnText ''change'' SetRecipient]\<rparr>),
        box (message_area [(''placeholder'', ''Type or speak your SMS message here...''), (''required'', [])]
               (message s) SetMessage @
             [box (VoiceInput (sd_voice s) False
                [On ''click'' (VoiceEvent (Toggle False)), On ''click'' (VoiceEvent (Toggle True))])]),
        type_selector (messageType s) SetType,
        box [send_button s]]] @
     result_box (sd_result s)"

text \<open>
  What can happen next: what the view offers, within what its controls yield, and the events of
  the environment (voice recognition, the device query, a settling request).
\<close>

fun send_possible :: "send_page \<Rightarrow> send_event \<Rightarrow> bool" where
  "send_possible s (SetMessage t) = may_type 160 (message s) t"
| "send_possible s (SetDevice t) = (sd_devices s \<noteq> [] \<and> (t = [] \<or> t \<in> device_id ` set (sd_devices s)))"
| "send_possible s (SetType t) = (t \<in> fst ` set message_types)"
| "send_possible s (SendSettles c r) = (c \<in> set (sd_calls s))"
| "send_possible s (VoiceEvent e) = (\<forall>b. e = Toggle b \<longrightarrow> list_fire (send_view s) (VoiceEvent e))"
| "send_possible s (DevicesLoad ds) = True"
| "send_possible s e = list_fire (send_view s) e"

subsection \<open>Properties of the send page\<close>

lemma option_node_fires [simp]: "\<not> may_fire (option_node v l) e"
  by (simp add: option_node_def)

lemma device_selector_fires [simp]:
  "may_fire (device_selector ds i f) e \<longleftrightarrow> ds \<noteq> [] \<and> (\<exists>t. f t = e)"
  by (auto simp: device_selector_def list_fire_map split: option.splits)

lemma type_selector_fires [simp]: "may_fire (type_selector t f) e \<longleftrightarrow> (\<exists>t. f t = e)"
  by (auto simp: type_selector_def message_types_def)

lemma message_area_fires [simp]:
  "attr rest ''disabled'' = None \<Longrightarrow> list_fire (message_area rest m f) e \<longleftrightarrow> (\<exists>t. f t = e)"
  by (auto simp: message_area_def)

lemma result_box_fires [simp]: "\<not> list_fire (result_box r) e"
  by (auto simp: result_box_def split: option.splits)

lemma page_hero_fires [simp]: "\<not> may_fire (page_hero t i) e"
  by (simp add: page_hero_def)

lemma VoiceInput_fires [simp]:
  "list_fire (VoiceInput v disabled hs) e \<longleftrightarrow> isSupported v \<and> \<not> disabled \<and> (\<exists>h \<in> set hs. raises h e)"
  by (auto simp: VoiceInput_def split: option.splits)

lemma fire_Send: "list_fire (send_view s) Send \<longleftrightarrow> sd_calls s = [] \<and> \<not> send_disabled s"
  by (auto simp: send_view_def send_button_def)

definition payload_ok :: "jsval \<Rightarrow> bool" where
  "payload_ok c \<longleftrightarrow>
     (\<exists>d r m t. c = JObj [(''device_id'', JStr d), (''recipient'', JStr r), (''message'', JStr m), (''message_type'', JStr t)]
        \<and> d \<noteq> [] \<and> \<not> blank r \<and> \<not> blank m)"

definition send_inv :: "send_page \<Rightarrow> bool" where
  "send_inv s \<longleftrightarrow> length (sd_calls s) \<le> 1 \<and> (\<forall>c \<in> set (sd_calls s). payload_ok c)"

lemma send_success_keeps:
  assumes "send_success data s = Inr s'" shows "sd_calls s' = sd_calls s \<and> message s' = []"
proof -
  obtain i where "(case i of JStr t \<Rightarrow> Inr (s\<lparr>sd_result := Some (True, ''Message queued ('' @ take 8 t @ ''...)''),
      recipient := [], message := [], messageType := ''transactional''\<rparr>)
    | _ \<Rightarrow> Inl (TypeErr ''data.message_id.slice is not a function'')) = Inr s'"
    using assms unfolding send_success_def sbind_eq_Inr by blast
  then show ?thesis by (cases i) auto
qed

lemma send_settles_keeps:
  "sd_calls (send_settles c r s) = remove1 c (sd_calls s) \<and> message (send_settles c r s) \<in> {message s, []}"
proof (cases "sbind r (\<lambda>data. send_success data s)")
  case (Inr s')
  then have "sd_calls s' = sd_calls s \<and> message s' = []" by (auto simp: sbind_eq_Inr dest: send_success_keeps)
  with Inr show ?thesis by (simp add: send_settles_def Let_def)
qed (simp add: send_settles_def Let_def)

lemma send_settles_calls: "sd_calls (send_settles c r s) = remove1 c (sd_calls s)"
  using send_settles_keeps by blast

lemma voice_keeps: "sd_calls (handleVoiceResult t s) = sd_calls s"
  by (simp add: handleVoiceResult_def split: option.split)

lemma send_step_inv: "send_inv s \<Longrightarrow> send_possible s e \<Longrightarrow> send_inv (send_step s e)"
proof (cases e)
  case Send
  then show "send_inv s \<Longrightarrow> send_possible s e \<Longrightarrow> ?thesis"
    by (auto simp: send_inv_def fire_Send send_click_def send_payload_def payload_ok_def send_disabled_def)
next
  case (SendSettles c r)
  then show "send_inv s \<Longrightarrow> send_possible s e \<Longrightarrow> ?thesis"
    by (cases "sd_calls s") (auto simp: send_inv_def send_settles_calls)
next
  case (VoiceEvent v)
  then show "send_inv s \<Longrightarrow> send_possible s e \<Longrightarrow> ?thesis"
    by (auto simp: send_inv_def voice_keeps split: prod.split)
qed (auto simp: send_inv_def)

interpretation sending: machine send_step send_possible send_inv
  by unfold_locales (rule send_step_inv)

lemma send_inv_initial: "send_inv send_initial"
  by (simp add: send_inv_def send_initial_def)

text \<open>
  The send page sends complete messages, one at a time: after any sequence of possible events
  at most one message is in flight, the button is dead while it is, and every message sent has a
  device, and a recipient and a text that are not blank; a failure keeps the form and shows the
  error, a success clears it.
\<close>

theorem messages_are_complete:
  assumes "sending.admissible send_initial evs" and "s = foldl send_step send_initial evs"
  shows "length (sd_calls s) \<le> 1 \<and> (sd_calls s \<noteq> [] \<longrightarrow> \<not> list_fire (send_view s) Send)
    \<and> (\<forall>c \<in> set (sd_calls s). payload_ok c \<and>
         (\<forall>e. let s' = send_step s (SendSettles c (Inl e)) in
            message s' = message s \<and> recipient s' = recipient s \<and> sd_result s' = Some (False, err_message e)) \<and>
         (\<forall>d i. obj_get d ''message_id'' = JStr i \<longrightarrow>
            (let s' = send_step s (SendSettles c (Inr (JObj d))) in
               message s' = [] \<and> recipient s' = [] \<and> (\<exists>m. sd_result s' = Some (True, m)))))"
proof -
  have "send_inv s" unfolding assms(2) by (rule sending.fold_inv [OF send_inv_initial assms(1)])
  then show ?thesis
    by (auto simp: send_inv_def fire_Send send_settles_def send_success_def Let_def)
qed

definition online_device :: jsval where
  "online_device = JObj [(''id'', JStr ''d1''), (''name'', JStr ''Pixel''), (''carrier'', JStr ''X'')]"

definition send_session :: "send_event list" where
  "send_session = [DevicesLoad [online_device], SetDevice ''d1'', SetRecipient ''+1'', SetMessage ''hi'', Send]"

lemmas send_eval =
  send_session_def send_initial_def online_device_def device_id_def may_type_def
  send_disabled_def send_click_def blank_def send_payload_def

lemma fire_SetRecipient: "list_fire (send_view s) (SetRecipient t)"
  by (simp add: send_view_def)

lemma send_session_possible: "sending.admissible send_initial send_session"
proof -
  have "js_trim ''+1'' \<noteq> []" "js_trim ''hi'' \<noteq> []" by code_simp+
  then show ?thesis by (simp add: send_eval fire_Send fire_SetRecipient)
qed

theorem messages_are_complete_witness:
  "list_all payload_ok (sd_calls (foldl send_step send_initial send_session))"
  using messages_are_complete [OF send_session_possible refl] unfolding list_all_iff by blast

definition short_inv :: "send_page \<Rightarrow> bool" where
  "short_inv s \<longleftrightarrow>
     length (message s) \<le> 160 \<and>
     (\<forall>c \<in> set (sd_calls s). \<exists>m. opt_get c ''message'' = JStr m \<and> length m \<le> 160)"

fun typed_event :: "send_page \<Rightarrow> send_event \<Rightarrow> bool" where
  "typed_event s (VoiceEvent e) = (\<forall>rs. e \<noteq> Heard rs)"
| "typed_event s e = send_possible s e"

lemma short_step: "short_inv s \<Longrightarrow> typed_event s e \<Longrightarrow> short_inv (send_step s e)"
proof (cases e)
  case (SendSettles c r)
  have "message (send_settles c r s) \<in> {message s, []}" using send_settles_keeps by blast
  with SendSettles show "short_inv s \<Longrightarrow> typed_event s e \<Longrightarrow> ?thesis"
    by (auto simp: short_inv_def send_settles_calls dest: notin_set_remove1 intro: set_remove1_subset [THEN subsetD])
next
  case (VoiceEvent v)
  then show "short_inv s \<Longrightarrow> typed_event s e \<Longrightarrow> ?thesis"
    by (cases v) (auto simp: short_inv_def handleVoiceResult_def)
qed (auto simp: short_inv_def send_click_def send_payload_def may_type_def)

interpretation typing: machine send_step typed_event short_inv
  by unfold_locales (rule short_step)

text \<open>
  The limit of 160 characters holds for typed messages and not for spoken ones: without
  recognised speech every message sent has at most 160 characters, but recognised speech of any
  length is appended, and the page then offers to send it and sends it in full.
\<close>

theorem message_limit_is_only_typed:
  assumes "typing.admissible send_initial evs" and "s = foldl send_step send_initial evs"
    and "heard = send_step s (VoiceEvent (Heard [(True, t)]))"
  shows "(\<forall>c \<in> set (sd_calls s). \<exists>m. opt_get c ''message'' = JStr m \<and> length m \<le> 160)
    \<and> (selectedDeviceId s \<noteq> [] \<and> \<not> blank (recipient s) \<and> sd_calls s = [] \<and> \<not> blank (message s @ t) \<longrightarrow>
         list_fire (send_view heard) Send \<and>
         map (\<lambda>c. opt_get c ''message'') (sd_calls (send_step heard Send)) = [JStr (message s @ t)])"
proof -
  have "short_inv send_initial" by (simp add: short_inv_def send_initial_def)
  then have "short_inv s" unfolding assms(2) by (rule typing.fold_inv [OF _ assms(1)])
  then show ?thesis
    by (simp add: short_inv_def assms(3) handleVoiceResult_def fire_Send send_disabled_def send_click_def send_payload_def)
qed

theorem message_limit_is_only_typed_witness:
  "list_all (\<lambda>c. \<exists>m. opt_get c ''message'' = JStr m \<and> length m \<le> 160)
    (sd_calls (foldl send_step send_initial send_session))"
proof -
  have "js_trim ''+1'' \<noteq> []" "js_trim ''hi'' \<noteq> []" by code_simp+
  then have "typing.admissible send_initial send_session" by (simp add: send_eval fire_Send fire_SetRecipient)
  from message_limit_is_only_typed [OF this refl refl] show ?thesis unfolding list_all_iff by blast
qed

section \<open>Sending to many and scheduling\<close>

text \<open>\<open>recipients.split(/[\n,]+/).map((r) => r.trim()).filter(Boolean)\<close>: a run of separators splits once.\<close>

definition is_separator :: "char \<Rightarrow> bool" where
  "is_separator c \<longleftrightarrow> char_code c = 10 \<or> char_code c = 44"

function split_runs :: "string \<Rightarrow> string list" where
  "split_runs t =
     (case dropWhile (\<lambda>c. \<not> is_separator c) t of
        [] \<Rightarrow> [t]
      | c # rest \<Rightarrow> takeWhile (\<lambda>c. \<not> is_separator c) t # split_runs (dropWhile is_separator rest))"
  by pat_completeness auto
termination
proof (relation "measure length")
  fix t rest :: string and c
  assume "dropWhile (\<lambda>c. \<not> is_separator c) t = c # rest"
  then have "Suc (length rest) \<le> length t"
    using dropWhile_length_le [of "\<lambda>c. \<not> is_separator c" t] by simp
  then show "(dropWhile is_separator rest, t) \<in> measure length"
    using dropWhile_length_le [of is_separator rest] by simp
qed simp

declare split_runs.simps [simp del]

definition recipientList :: "string \<Rightarrow> string list" where
  "recipientList t = filter (\<lambda>r. r \<noteq> []) (map js_trim (split_runs t))"

text \<open>
  The host's reading and printing of dates: the ISO text of what a date control holds (\<open>None\<close>
  where \<open>toISOString\<close> throws) and the local text of an ISO date.
\<close>

record host =
  to_iso :: "string \<Rightarrow> string option"
  to_local :: "string \<Rightarrow> string"

datatype send_mode = Now | Schedule

record bulk_page =
  mode :: send_mode
  bk_device :: string
  recipients :: string
  bk_message :: string
  scheduledAt :: string
  bk_type :: string
  bk_result :: "(bool \<times> string) option"
  bk_devices :: "jsval list"
  bulk_calls :: "jsval list"
  schedule_calls :: "jsval list"

datatype bulk_event =
    SetMode send_mode
  | BSetDevice string
  | SetRecipients string
  | BSetMessage string
  | SetScheduledAt string
  | BSetType string
  | BulkClick
  | BulkSettles jsval "js_error + jsval"
  | ScheduleSettles jsval "js_error + jsval"
  | BDevicesLoad "jsval list"

definition bulk_initial :: bulk_page where
  "bulk_initial = \<lparr>mode = Now, bk_device = [], recipients = [], bk_message = [], scheduledAt = [],
     bk_type = ''transactional'', bk_result = None, bk_devices = [], bulk_calls = [], schedule_calls = []\<rparr>"

definition bulk_payload :: "bulk_page \<Rightarrow> jsval" where
  "bulk_payload s = JObj [(''device_id'', JStr (bk_device s)),
     (''recipients'', JArr (map JStr (recipientList (recipients s)))),
     (''message'', JStr (bk_message s)), (''message_type'', JStr (bk_type s))]"

definition schedule_payload :: "host \<Rightarrow> bulk_page \<Rightarrow> js_error + jsval" where
  "schedule_payload h s =
     (case to_iso h (scheduledAt s) of
        None \<Rightarrow> Inl (JsError ''Invalid time value'')
      | Some at \<Rightarrow> Inr (JObj [(''device_id'', JStr (bk_device s)),
          (''recipient'', JStr (case recipientList (recipients s) of [] \<Rightarrow> [] | r # rs \<Rightarrow> r)),
          (''message'', JStr (bk_message s)), (''scheduled_at'', JStr at), (''message_type'', JStr (bk_type s))]))"

definition bulk_click :: "host \<Rightarrow> bulk_page \<Rightarrow> bulk_page" where
  "bulk_click h s =
     (let s0 = s\<lparr>bk_result := None\<rparr>
      in if mode s = Now then s0\<lparr>bulk_calls := bulk_calls s @ [bulk_payload s]\<rparr>
         else (case schedule_payload h s of
                 Inl e \<Rightarrow> s0\<lparr>bk_result := Some (False, err_message e)\<rparr>
               | Inr p \<Rightarrow> s0\<lparr>schedule_calls := schedule_calls s @ [p]\<rparr>))"

definition count_status :: "string \<Rightarrow> jsval list \<Rightarrow> nat" where
  "count_status t rs = length (filter (\<lambda>r. opt_get r ''status'' = JStr t) rs)"

definition bulk_success :: "jsval \<Rightarrow> bulk_page \<Rightarrow> js_error + bulk_page" where
  "bulk_success data s =
     sbind (js_get data ''results'') (\<lambda>results.
       case results of
         JArr rs \<Rightarrow>
           (let successCount = count_status ''queued'' rs; failCount = count_status ''failed'' rs
            in Inr (s\<lparr>bk_result := Some (failCount = 0,
                 show_nat successCount @ '' sent, '' @ show_nat failCount @ '' failed out of '' @
                 to_str (opt_get data ''total'') @ '' recipients'')\<rparr>))
       | _ \<Rightarrow> Inl (TypeErr ''data.results.filter is not a function''))"

definition settle_result :: "(bulk_page \<Rightarrow> js_error + bulk_page) \<Rightarrow> bulk_page \<Rightarrow> bulk_page" where
  "settle_result f s =
     (case f s of Inl e \<Rightarrow> s\<lparr>bk_result := Some (False, err_message e)\<rparr> | Inr s' \<Rightarrow> s')"

definition bulk_settles :: "jsval \<Rightarrow> js_error + jsval \<Rightarrow> bulk_page \<Rightarrow> bulk_page" where
  "bulk_settles c r s =
     (let s1 = settle_result (\<lambda>s. sbind r (\<lambda>data. bulk_success data s)) s
      in s1\<lparr>bulk_calls := remove1 c (bulk_calls s1)\<rparr>)"

definition schedule_settles :: "host \<Rightarrow> jsval \<Rightarrow> js_error + jsval \<Rightarrow> bulk_page \<Rightarrow> bulk_page" where
  "schedule_settles h c r s =
     (let s1 = settle_result (\<lambda>s. sbind r (\<lambda>data. sbind (js_get data ''scheduled_at'') (\<lambda>at.
                 Inr (s\<lparr>bk_result := Some (True, ''Message scheduled for '' @ to_local h (to_str at))\<rparr>)))) s
      in s1\<lparr>schedule_calls := remove1 c (schedule_calls s1)\<rparr>)"

fun bulk_step :: "host \<Rightarrow> bulk_page \<Rightarrow> bulk_event \<Rightarrow> bulk_page" where
  "bulk_step h s (SetMode m) = s\<lparr>mode := m, bk_result := None\<rparr>"
| "bulk_step h s (BSetDevice t) = s\<lparr>bk_device := t\<rparr>"
| "bulk_step h s (SetRecipients t) = s\<lparr>recipients := t\<rparr>"
| "bulk_step h s (BSetMessage t) = s\<lparr>bk_message := t\<rparr>"
| "bulk_step h s (SetScheduledAt t) = s\<lparr>scheduledAt := t\<rparr>"
| "bulk_step h s (BSetType t) = s\<lparr>bk_type := t\<rparr>"
| "bulk_step h s BulkClick = bulk_click h s"
| "bulk_step h s (BulkSettles c r) = (if c \<in> set (bulk_calls s) then bulk_settles c r s else s)"
| "bulk_step h s (ScheduleSettles c r) = (if c \<in> set (schedule_calls s) then schedule_settles h c r s else s)"
| "bulk_step h s (BDevicesLoad ds) = s\<lparr>bk_devices := ds\<rparr>"

subsection \<open>View of the bulk page\<close>

definition bulk_loading :: "bulk_page \<Rightarrow> bool" where
  "bulk_loading s \<longleftrightarrow> bulk_calls s \<noteq> [] \<or> schedule_calls s \<noteq> []"

definition bulk_disabled :: "bulk_page \<Rightarrow> bool" where
  "bulk_disabled s \<longleftrightarrow>
     bk_device s = [] \<or> blank (recipients s) \<or> blank (bk_message s) \<or> (mode s = Schedule \<and> scheduledAt s = [])"

definition bulk_button :: "bulk_page \<Rightarrow> bulk_event vnode" where
  "bulk_button s =
     (let n = length (recipientList (recipients s))
      in Button (button\<lparr>b_on := [On ''click'' BulkClick], b_loading := bulk_loading s, b_disabled := bulk_disabled s\<rparr>)
           [Txt (if mode s = Now then ''Send to '' @ show_nat n @ '' recipient'' @ (if n \<noteq> 1 then ''s'' else '''')
                 else ''Schedule message'')])"

definition recipients_box :: "bulk_page \<Rightarrow> bulk_event vnode" where
  "recipients_box s =
     (let rs = recipientList (recipients s)
      in box ([El ''label'' [] []
                 (Txt ''Recipients '' #
                  when_do (mode s = Now) [span [Txt (''('' @ show_nat (length rs) @ '' entered)'')]]),
               El ''textarea'' [(''value'', recipients s)] [OnText ''change'' SetRecipients] []] @
              when_do (mode s = Now \<and> rs \<noteq> [])
                [box (map (\<lambda>r. Badge False [Txt r]) (take 20 rs) @
                      when_do (length rs > 20) [Badge False [Txt (''+'' @ show_nat (length rs - 20) @ '' more'')]])] @
              when_do (mode s = Schedule)
                [El ''p'' [] [] [Txt ''Enter a single recipient for scheduled messages'']]))"

definition bulk_view :: "bulk_page \<Rightarrow> bulk_event vnode list" where
  "bulk_view s =
     [page_hero ''Bulk SMS'' ''Send messages to multiple recipients or schedule for later delivery'',
      box [El ''button'' [] [On ''click'' (SetMode Now)] [Txt ''Send now''],
           El ''button'' [] [On ''click'' (SetMode Schedule)] [Txt ''Schedule'']],
      box ([device_selector (bk_devices s) (bk_device s) BSetDevice,
            recipients_box s,
            box (message_area [(''placeholder'', ''Type your SMS message here...'')] (bk_message s) BSetMessage),
            type_selector (bk_type s) BSetType] @
           when_do (mode s = Schedule)
             [Input (input\<lparr>i_label := Some ''Schedule for'',
                i_rest := [(''type'', ''datetime-local''), (''value'', scheduledAt s)],
                i_on := [OnText ''change'' SetScheduledAt]\<rparr>)] @
           [box (bulk_button s #
                 (case selected_device (bk_devices s) (bk_device s) of
                    None \<Rightarrow> [] | Some d \<Rightarrow> [span [Txt (''via '' @ to_str (opt_get d ''name''))]]))])] @
     result_box (bk_result s)"

fun bulk_possible :: "bulk_page \<Rightarrow> bulk_event \<Rightarrow> bool" where
  "bulk_possible s (BSetMessage t) = may_type 160 (bk_message s) t"
| "bulk_possible s (BSetDevice t) = (bk_devices s \<noteq> [] \<and> (t = [] \<or> t \<in> device_id ` set (bk_devices s)))"
| "bulk_possible s (BSetType t) = (t \<in> fst ` set message_types)"
| "bulk_possible s (BulkSettles c r) = (c \<in> set (bulk_calls s))"
| "bulk_possible s (ScheduleSettles c r) = (c \<in> set (schedule_calls s))"
| "bulk_possible s (BDevicesLoad ds) = True"
| "bulk_possible s e = list_fire (bulk_view s) e"

subsection \<open>Properties of the bulk page\<close>

lemma fire_BulkClick: "list_fire (bulk_view s) BulkClick \<longleftrightarrow> \<not> bulk_loading s \<and> \<not> bulk_disabled s"
  by (auto simp: bulk_view_def recipients_box_def bulk_button_def Let_def list_fire_map split: option.splits)

lemma split_runs_clean: "r \<in> set (split_runs t) \<Longrightarrow> c \<in> set r \<Longrightarrow> \<not> is_separator c"
proof (induction t rule: split_runs.induct)
  case (1 t)
  show ?case
  proof (cases "dropWhile (\<lambda>c. \<not> is_separator c) t")
    case Nil
    with "1.prems" show ?thesis by (auto simp: split_runs.simps [of t] dropWhile_eq_Nil_conv)
  next
    case (Cons d rest)
    with "1.prems" consider "r = takeWhile (\<lambda>c. \<not> is_separator c) t" | "r \<in> set (split_runs (dropWhile is_separator rest))"
      by (auto simp: split_runs.simps [of t])
    then show ?thesis
    proof cases
      case 1
      with "1.prems"(2) show ?thesis by (auto dest: set_takeWhileD)
    next
      case 2
      from "1.IH" [OF Cons 2 "1.prems"(2)] show ?thesis .
    qed
  qed
qed

lemma js_trim_set: "set (js_trim t) \<subseteq> set t"
  by (auto simp: js_trim_def dest!: set_dropWhileD)

lemma recipientList_clean: "r \<in> set (recipientList t) \<Longrightarrow> r \<noteq> [] \<and> (\<forall>c \<in> set r. \<not> is_separator c)"
  using js_trim_set split_runs_clean by (fastforce simp: recipientList_def)

definition clean_recipient :: "jsval \<Rightarrow> bool" where
  "clean_recipient v \<longleftrightarrow> (\<exists>r. v = JStr r \<and> r \<noteq> [] \<and> (\<forall>c \<in> set r. \<not> is_separator c))"

definition bulk_call_ok :: "jsval \<Rightarrow> bool" where
  "bulk_call_ok c \<longleftrightarrow>
     (\<exists>rs m. opt_get c ''recipients'' = JArr rs \<and> (\<forall>r \<in> set rs. clean_recipient r) \<and>
       opt_get c ''message'' = JStr m \<and> \<not> blank m \<and> length m \<le> 160)"

definition bulk_inv :: "bulk_page \<Rightarrow> bool" where
  "bulk_inv s \<longleftrightarrow>
     length (bulk_calls s) + length (schedule_calls s) \<le> 1 \<and> length (bk_message s) \<le> 160 \<and>
     (\<forall>c \<in> set (bulk_calls s). bulk_call_ok c)"

lemma settle_result_keeps:
  "(\<And>s'. f s = Inr s' \<Longrightarrow> bulk_calls s' = bulk_calls s \<and> schedule_calls s' = schedule_calls s \<and> bk_message s' = bk_message s) \<Longrightarrow>
   bulk_calls (settle_result f s) = bulk_calls s \<and> schedule_calls (settle_result f s) = schedule_calls s \<and>
   bk_message (settle_result f s) = bk_message s"
  by (auto simp: settle_result_def split: sum.split)

lemma bulk_success_keeps:
  assumes "bulk_success data s = Inr s'"
  shows "bulk_calls s' = bulk_calls s \<and> schedule_calls s' = schedule_calls s \<and> bk_message s' = bk_message s"
proof (cases "js_get data ''results''")
  case (Inr v)
  with assms show ?thesis by (cases v) (auto simp: bulk_success_def Let_def)
qed (use assms in \<open>simp add: bulk_success_def\<close>)

lemma bulk_settles_keeps:
  "bulk_calls (bulk_settles c r s) = remove1 c (bulk_calls s)"
  "schedule_calls (bulk_settles c r s) = schedule_calls s" "bk_message (bulk_settles c r s) = bk_message s"
proof -
  have "bulk_calls (settle_result (\<lambda>s. sbind r (\<lambda>data. bulk_success data s)) s) = bulk_calls s \<and>
    schedule_calls (settle_result (\<lambda>s. sbind r (\<lambda>data. bulk_success data s)) s) = schedule_calls s \<and>
    bk_message (settle_result (\<lambda>s. sbind r (\<lambda>data. bulk_success data s)) s) = bk_message s"
    by (rule settle_result_keeps) (auto simp: sbind_eq_Inr dest: bulk_success_keeps)
  then show "bulk_calls (bulk_settles c r s) = remove1 c (bulk_calls s)"
    "schedule_calls (bulk_settles c r s) = schedule_calls s" "bk_message (bulk_settles c r s) = bk_message s"
    by (simp_all add: bulk_settles_def Let_def)
qed

lemma schedule_settles_keeps:
  "bulk_calls (schedule_settles h c r s) = bulk_calls s"
  "schedule_calls (schedule_settles h c r s) = remove1 c (schedule_calls s)"
  "bk_message (schedule_settles h c r s) = bk_message s"
  by (auto simp: schedule_settles_def settle_result_def Let_def sbind_eq_Inr split: sum.split)

lemma bulk_click_inv: "bulk_inv s \<Longrightarrow> \<not> bulk_loading s \<Longrightarrow> \<not> bulk_disabled s \<Longrightarrow> bulk_inv (bulk_click h s)"
  using recipientList_clean
  by (auto simp: bulk_inv_def bulk_click_def bulk_loading_def bulk_disabled_def bulk_call_ok_def bulk_payload_def
      clean_recipient_def Let_def split: sum.split)

lemma bulk_step_inv: "bulk_inv s \<Longrightarrow> bulk_possible s e \<Longrightarrow> bulk_inv (bulk_step h s e)"
proof (cases e)
  case BulkClick
  then show "bulk_inv s \<Longrightarrow> bulk_possible s e \<Longrightarrow> ?thesis" by (simp add: fire_BulkClick bulk_click_inv)
next
  case (BulkSettles c r)
  then show "bulk_inv s \<Longrightarrow> bulk_possible s e \<Longrightarrow> ?thesis"
    by (cases "bulk_calls s") (auto simp: bulk_inv_def bulk_settles_keeps)
next
  case (ScheduleSettles c r)
  then show "bulk_inv s \<Longrightarrow> bulk_possible s e \<Longrightarrow> ?thesis"
    by (cases "schedule_calls s") (auto simp: bulk_inv_def schedule_settles_keeps)
qed (auto simp: bulk_inv_def may_type_def)

interpretation bulk: machine "bulk_step h" bulk_possible bulk_inv for h
  by unfold_locales (rule bulk_step_inv)

lemma bulk_inv_initial: "bulk_inv bulk_initial"
  by (simp add: bulk_inv_def bulk_initial_def)

text \<open>
  C11. The bulk page sends clean lists, one request at a time: after any sequence of possible
  events at most one request is in flight over both of its modes, and the button is dead while
  one is; every bulk request carries recipients that are not empty and hold neither comma nor
  line break, and a text that is not blank and has at most 160 characters.
\<close>

theorem bulk_requests_are_clean:
  assumes "bulk.admissible h bulk_initial evs" and "s = foldl (bulk_step h) bulk_initial evs"
  shows "length (bulk_calls s) + length (schedule_calls s) \<le> 1
    \<and> (bulk_calls s \<noteq> [] \<or> schedule_calls s \<noteq> [] \<longrightarrow> \<not> list_fire (bulk_view s) BulkClick)
    \<and> (\<forall>c \<in> set (bulk_calls s). bulk_call_ok c)"
proof -
  have "bulk_inv s" unfolding assms(2) by (rule bulk.fold_inv [OF bulk_inv_initial assms(1)])
  then show ?thesis by (auto simp: bulk_inv_def fire_BulkClick bulk_loading_def)
qed

definition utc_host :: host where
  "utc_host = \<lparr>to_iso = \<lambda>t. Some (t @ '':00.000Z''), to_local = \<lambda>t. t\<rparr>"

definition bulk_session :: "bulk_event list" where
  "bulk_session = [BDevicesLoad [online_device], BSetDevice ''d1'', SetRecipients ''+1, +2'', BSetMessage ''hi'', BulkClick]"

lemma fire_SetRecipients: "list_fire (bulk_view s) (SetRecipients t)"
  by (simp add: bulk_view_def recipients_box_def Let_def)

lemma bulk_session_possible: "bulk.admissible utc_host bulk_initial bulk_session"
proof -
  have "js_trim ''+1, +2'' \<noteq> []" "js_trim ''hi'' \<noteq> []" by code_simp+
  then show ?thesis
    by (simp add: bulk_session_def bulk_initial_def online_device_def device_id_def may_type_def
        fire_SetRecipients fire_BulkClick bulk_loading_def bulk_disabled_def blank_def)
qed

theorem bulk_requests_are_clean_witness:
  "list_all bulk_call_ok (bulk_calls (foldl (bulk_step utc_host) bulk_initial bulk_session))"
  using bulk_requests_are_clean [OF bulk_session_possible refl] by (auto simp: list_all_iff)

text \<open>
  What the form lets through: recipients that are only separators leave the button live, and it
  sends to an empty list; and scheduling sends to the first of the recipients only.
\<close>

lemma separators_send_to_nobody:
  "recipientList '','' = [] \<and> \<not> blank '',''"
  by code_simp

lemma scheduling_drops_recipients:
  assumes "schedule_payload h s = Inr p" and "recipientList (recipients s) = r # rs"
  shows "opt_get p ''recipient'' = JStr r"
  using assms by (auto simp: schedule_payload_def split: option.splits)

end
