(* ===== verification/Clock.thy ===== *)
theory Clock
  imports Prelude
begin

text \<open>
  Points in time as the pages show them: \<open>timeAgo\<close> of \<open>utils/format.ts\<close>, \<open>timeAgo\<close> of
  \<open>components/layouts/Header.tsx\<close> and \<open>formatTimeAgo\<close> of \<open>features/settings/pages/SettingsPage.tsx\<close>.
  Reading and printing dates and printing numbers in the host's locale is the parameter
  \<open>calendar\<close>; \<open>Date.now()\<close> is the argument \<open>now\<close>, in milliseconds.
\<close>

text \<open>
  \<open>new Date(s).getTime()\<close>, \<open>None\<close> where it is \<open>NaN\<close>; \<open>toLocaleDateString()\<close> without and with the
  options of \<open>formatDate\<close>; \<open>toLocaleTimeString()\<close>; \<open>toLocaleString()\<close> of a number.
\<close>

record calendar =
  get_time :: "string \<Rightarrow> int option"
  local_date :: "string \<Rightarrow> string"
  us_date :: "string \<Rightarrow> string"
  local_time :: "string \<Rightarrow> string"
  local_number :: "int \<Rightarrow> string"

definition formatDate :: "calendar \<Rightarrow> string \<Rightarrow> string" where
  "formatDate c d = us_date c d"

text \<open>Every comparison with \<open>NaN\<close> is false, so that an unreadable date falls through to the end.\<close>

definition timeAgo :: "calendar \<Rightarrow> int \<Rightarrow> string \<Rightarrow> string" where
  "timeAgo c now d =
     (case get_time c d of
        None \<Rightarrow> formatDate c d
      | Some t \<Rightarrow>
          (let seconds = (now - t) div 1000; minutes = seconds div 60;
               hours = minutes div 60; days = hours div 24
           in if seconds < 60 then show_int seconds @ ''s ago''
              else if minutes < 60 then show_int minutes @ ''m ago''
              else if hours < 24 then show_int hours @ ''h ago''
              else if days < 30 then show_int days @ ''d ago''
              else formatDate c d))"

definition headerTimeAgo :: "int \<Rightarrow> int \<Rightarrow> string" where
  "headerTimeAgo now timestamp =
     (let seconds = (now - timestamp) div 1000; minutes = seconds div 60;
          hours = minutes div 60; days = hours div 24
      in if seconds < 5 then ''just now''
         else if seconds < 60 then show_int seconds @ ''s ago''
         else if minutes < 60 then show_int minutes @ ''m ago''
         else if hours < 24 then show_int hours @ ''h ago''
         else show_int days @ ''d ago'')"

definition formatTimeAgo :: "calendar \<Rightarrow> int \<Rightarrow> string \<Rightarrow> string" where
  "formatTimeAgo c now d =
     (case get_time c d of
        None \<Rightarrow> ''NaNd ago''
      | Some t \<Rightarrow>
          (let mins = (now - t) div 60000; hours = mins div 60; days = hours div 24
           in if mins < 1 then ''Just now''
              else if mins < 60 then show_int mins @ ''m ago''
              else if hours < 24 then show_int hours @ ''h ago''
              else show_int days @ ''d ago''))"

text \<open>A page of 24-hour days printed as they are, for the concrete instances.\<close>

definition plain_calendar :: calendar where
  "plain_calendar = \<lparr>get_time = (\<lambda>s. if s = [] then None else Some 0), local_date = id, us_date = id,
     local_time = id, local_number = show_int\<rparr>"

lemma minutes_of_ms: "(n::int) div 60000 = n div 1000 div 60"
  using zdiv_zmult2_eq [of 60 n 1000] by simp

text \<open>
  The three ways the pages print how long ago something was agree wherever they should: for a
  readable date between one minute and thirty days old, \<open>timeAgo\<close>, the header's \<open>timeAgo\<close> and the
  settings' \<open>formatTimeAgo\<close> print the same text, a positive number of minutes below 60, of hours
  below 24 or of days below 30.
\<close>

theorem times_ago_agree:
  assumes "get_time c d = Some t" and "60 * 1000 \<le> now - t" and "now - t < 30 * 24 * 60 * 60 * 1000"
  shows "timeAgo c now d = headerTimeAgo now t \<and> formatTimeAgo c now d = headerTimeAgo now t
    \<and> (\<exists>n u. timeAgo c now d = show_int n @ u \<and> 1 \<le> n \<and>
          (n < 60 \<and> u = ''m ago'' \<or> n < 24 \<and> u = ''h ago'' \<or> n < 30 \<and> u = ''d ago''))"
proof -
  define m where "m = (now - t) div 1000 div 60"
  have m: "(now - t) div 60000 = m" by (simp add: m_def minutes_of_ms)
  have s: "\<not> (now - t) div 1000 < 5" "\<not> (now - t) div 1000 < 60" using assms(2) by linarith+
  have "1 \<le> m" "m div 60 div 24 < 30" unfolding m [symmetric] using assms(2,3) by linarith+
  then have b: "\<not> m < 1" "m div 60 div 24 < 30" "1 \<le> m" by linarith+
  define h where "h = m div 60"
  define k where "k = h div 24"
  have h: "1 \<le> h" if "\<not> m < 60" using that unfolding h_def by linarith
  have k: "1 \<le> k" if "\<not> h < 24" using that unfolding k_def by linarith
  have k30: "k < 30" using b(2) by (simp add: h_def k_def)
  let ?text = "if m < 60 then show_int m @ ''m ago'' else if h < 24 then show_int h @ ''h ago'' else show_int k @ ''d ago''"
  have "timeAgo c now d = ?text" "headerTimeAgo now t = ?text" "formatTimeAgo c now d = ?text"
    unfolding timeAgo_def headerTimeAgo_def formatTimeAgo_def assms(1) m Let_def m_def [symmetric]
      h_def [symmetric] k_def [symmetric] option.case
    by (simp_all only: s b(1) k30 if_False if_True)
  moreover have "\<exists>n u. ?text = show_int n @ u \<and> 1 \<le> n \<and>
      (n < 60 \<and> u = ''m ago'' \<or> n < 24 \<and> u = ''h ago'' \<or> n < 30 \<and> u = ''d ago'')"
    using b(3) h k k30 by metis
  ultimately show ?thesis by simp
qed

theorem times_ago_agree_witness:
  "timeAgo plain_calendar 7200000 ''2024-01-01'' = headerTimeAgo 7200000 0"
  using times_ago_agree [of plain_calendar "''2024-01-01''" 0 7200000] by (simp add: plain_calendar_def)

end
