(* ===== verification/Selection.thy ===== *)
theory Selection
  imports Prelude
begin

text \<open>
  Choosing items: the contract of a toggle (the locale \<open>toggling\<close>), the JavaScript \<open>Set\<close> of
  identifiers the list pages keep their selection in, and the two handlers those pages share,
  \<open>toggleSelect\<close> and \<open>toggleSelectAll\<close>. A \<open>Set\<close> is the list of its elements in the order of
  their insertion, which is the order \<open>Array.from\<close> lists them in.
\<close>

section \<open>The contract of a toggle\<close>

locale toggling =
  fixes toggle :: "'k \<Rightarrow> 's \<Rightarrow> 's"
    and chosen :: "'s \<Rightarrow> 'k set"
    and wf :: "'s \<Rightarrow> bool"
  assumes chosen_toggle: "wf s \<Longrightarrow> chosen (toggle k s) = (if k \<in> chosen s then chosen s - {k} else insert k (chosen s))"
    and wf_toggle: "wf s \<Longrightarrow> wf (toggle k s)"
begin

lemma toggle_twice: "wf s \<Longrightarrow> chosen (toggle k (toggle k s)) = chosen s"
  by (auto simp: chosen_toggle wf_toggle)

lemma toggle_commutes: "wf s \<Longrightarrow> chosen (toggle j (toggle k s)) = chosen (toggle k (toggle j s))"
  by (auto simp: chosen_toggle wf_toggle)

lemma wf_toggles: "wf s \<Longrightarrow> wf (foldl (\<lambda>s k. toggle k s) s ks)"
  by (induction ks arbitrary: s) (simp_all add: wf_toggle)

text \<open>After any clicks, what is chosen is what was clicked an odd number of times, over the start.\<close>

lemma chosen_toggles:
  "wf s \<Longrightarrow> k \<in> chosen (foldl (\<lambda>s k. toggle k s) s ks) \<longleftrightarrow> (k \<in> chosen s) \<noteq> odd (count_list ks k)"
proof (induction ks arbitrary: s)
  case (Cons j ks)
  have "k \<in> chosen (foldl (\<lambda>s k. toggle k s) (toggle j s) ks) \<longleftrightarrow>
      (k \<in> chosen (toggle j s)) \<noteq> odd (count_list ks k)"
    by (rule Cons.IH [OF wf_toggle [OF Cons.prems]])
  then show ?case by (auto simp: chosen_toggle [OF Cons.prems])
qed simp

end

section \<open>Sets of identifiers\<close>

definition set_add :: "string \<Rightarrow> string list \<Rightarrow> string list" where
  "set_add x s = (if x \<in> set s then s else s @ [x])"

definition set_delete :: "string \<Rightarrow> string list \<Rightarrow> string list" where
  "set_delete x s = filter (\<lambda>y. y \<noteq> x) s"

text \<open>\<open>new Set(xs)\<close>.\<close>

definition js_set :: "string list \<Rightarrow> string list" where
  "js_set xs = foldl (\<lambda>s x. set_add x s) [] xs"

definition toggleSelect :: "string \<Rightarrow> string list \<Rightarrow> string list" where
  "toggleSelect i s = (if i \<in> set s then set_delete i s else set_add i s)"

text \<open>The ids on show are compared with the selection by number only.\<close>

definition toggleSelectAll :: "string list \<Rightarrow> string list \<Rightarrow> string list" where
  "toggleSelectAll ids s = (if length s = length ids then [] else js_set ids)"

definition isAllSelected :: "string list \<Rightarrow> string list \<Rightarrow> bool" where
  "isAllSelected ids s \<longleftrightarrow> 0 < length ids \<and> length s = length ids"

text \<open>The toggle of a plain array: \<open>prev.includes(x) ? prev.filter(y => y !== x) : [...prev, x]\<close>.\<close>

definition array_toggle :: "string \<Rightarrow> string list \<Rightarrow> string list" where
  "array_toggle x s = (if x \<in> set s then filter (\<lambda>y. y \<noteq> x) s else s @ [x])"

lemma set_ops [simp]:
  "set (set_add x s) = insert x (set s)" "set (set_delete x s) = set s - {x}"
  "distinct s \<Longrightarrow> distinct (set_add x s)" "distinct s \<Longrightarrow> distinct (set_delete x s)"
  by (auto simp: set_add_def set_delete_def)

lemma foldl_set_add:
  "set (foldl (\<lambda>s x. set_add x s) s xs) = set s \<union> set xs \<and>
   (distinct s \<longrightarrow> distinct (foldl (\<lambda>s x. set_add x s) s xs)) \<and>
   (distinct (s @ xs) \<longrightarrow> foldl (\<lambda>s x. set_add x s) s xs = s @ xs)"
proof (induction xs arbitrary: s)
  case (Cons x xs)
  from Cons.IH [of "set_add x s"] show ?case by (auto simp: set_add_def)
qed simp

lemma js_set_simps [simp]:
  "set (js_set xs) = set xs" "distinct (js_set xs)" "distinct xs \<Longrightarrow> js_set xs = xs"
  using foldl_set_add [of "[]" xs] by (auto simp: js_set_def)

lemma toggleSelect_simps [simp]:
  "set (toggleSelect i s) = (if i \<in> set s then set s - {i} else insert i (set s))"
  "distinct s \<Longrightarrow> distinct (toggleSelect i s)"
  by (auto simp: toggleSelect_def)

lemma array_toggle_simps [simp]:
  "set (array_toggle i s) = (if i \<in> set s then set s - {i} else insert i (set s))"
  "distinct s \<Longrightarrow> distinct (array_toggle i s)"
  by (auto simp: array_toggle_def)

lemma toggleSelectAll_distinct [simp]: "distinct s \<Longrightarrow> distinct (toggleSelectAll ids s)"
  by (simp add: toggleSelectAll_def)

interpretation ids: toggling toggleSelect set distinct
  by unfold_locales simp_all

interpretation array: toggling array_toggle set distinct
  by unfold_locales simp_all

text \<open>
  While only items on show are selected, counting is enough: the head says that all are selected
  exactly when they are, and its click selects all of them, or none where all were.
\<close>

lemma counting_suffices:
  assumes "distinct s" and "distinct ids" and "set s \<subseteq> set ids"
  shows "isAllSelected ids s \<longleftrightarrow> ids \<noteq> [] \<and> set s = set ids"
    and "set (toggleSelectAll ids s) = (if set s = set ids then {} else set ids)"
proof -
  have "card (set s) = length s" "card (set ids) = length ids" using assms(1,2) by (simp_all add: distinct_card)
  then have "length s = length ids \<longleftrightarrow> set s = set ids" using card_subset_eq [OF _ assms(3)] by auto
  then show "isAllSelected ids s \<longleftrightarrow> ids \<noteq> [] \<and> set s = set ids"
    and "set (toggleSelectAll ids s) = (if set s = set ids then {} else set ids)"
    by (auto simp: isAllSelected_def toggleSelectAll_def)
qed

text \<open>An item selected elsewhere breaks it: nothing on show is selected, and the head says all are.\<close>

lemma counting_misleads: "isAllSelected [''b''] [''a''] \<and> toggleSelectAll [''b''] [''a''] = []"
  by (simp add: isAllSelected_def toggleSelectAll_def)

end
