(* ===== verification/Settings.thy ===== *)
theory Settings
  imports AuthService DashboardService Forms Clock Selection
begin

text \<open>
  The settings page (\<open>features/settings/pages/SettingsPage.tsx\<close>). Its sections (profile, password,
  second factor, notifications, sessions, API keys, identity verification) share no state but the
  authentication store, so each is a machine of its own: a part of the state with the requests it
  has in flight, its handlers split at the \<open>await\<close>, its step and its share of the view. The page
  is their product. A request in flight keeps the values its closure captured, and its outcome
  is the argument of the settling event. A field the types declare a text is read as a text.
\<close>

section \<open>Messages and shared controls\<close>

type_synonym msg = "(bool \<times> string) option"

definition MsgBanner :: "msg \<Rightarrow> 'e vnode list" where
  "MsgBanner m = (case m of None \<Rightarrow> [] | Some (ok, t) \<Rightarrow> [box [box [Txt t]]])"

definition Toggle :: "string \<Rightarrow> string option \<Rightarrow> jsval \<Rightarrow> (bool \<Rightarrow> 'e) \<Rightarrow> 'e vnode" where
  "Toggle label description enabled change =
     box [box (El ''p'' [] [] [Txt label] # when_do (set_text description) [El ''p'' [] [] [Txt (the description)]]),
       El ''button'' [(''type'', ''button'')] [On ''click'' (change (\<not> truthy enabled))] [span []]]"

definition code_input :: "string \<Rightarrow> (string \<Rightarrow> 'e) \<Rightarrow> 'e vnode" where
  "code_input code change =
     Input (input\<lparr>i_rest := [(''placeholder'', ''000000''), (''value'', code), (''maxLength'', ''6'')],
       i_on := [OnText ''change'' change]\<rparr>)"

lemma MsgBanner_fires [simp]: "\<not> list_fire (MsgBanner m) e"
  by (auto simp: MsgBanner_def split: option.splits)

lemma Toggle_fires [simp]: "may_fire (Toggle l d v f) e \<longleftrightarrow> e = f (\<not> truthy v)"
  by (auto simp: Toggle_def)

lemma code_input_fires [simp]: "may_fire (code_input c f) e \<longleftrightarrow> (\<exists>t. f t = e)"
  by (simp add: code_input_def)

section \<open>Profile\<close>

datatype profile_call =
    LoadProfile
  | UpdateProfile jsval string

record profile_part =
  pf_name :: string
  pf_email :: string
  pf_msg :: msg
  pf_loading :: bool
  pf_calls :: "profile_call list"
  pf_auth :: auth_world

datatype profile_event =
    SetName string
  | SubmitProfile
  | ProfileSettles profile_call "js_error + jsval"
  | StoreActs auth_action

fun profile_service :: "profile_call \<Rightarrow> service" where
  "profile_service LoadProfile = getProfile"
| "profile_service (UpdateProfile u n) = updateProfile (obj1 ''name'' (JStr n))"

definition profile_mount :: "auth_world \<Rightarrow> profile_part" where
  "profile_mount w =
     \<lparr>pf_name = to_str (coalesce (opt_get (user (fst w)) ''name'') (JStr [])),
      pf_email = to_str (coalesce (opt_get (user (fst w)) ''email'') (JStr [])),
      pf_msg = None, pf_loading = False, pf_calls = [LoadProfile], pf_auth = w\<rparr>"

text \<open>The \<open>then\<close> and \<open>catch\<close> of the load on mounting.\<close>

definition profile_loaded :: "js_error + jsval \<Rightarrow> profile_part \<Rightarrow> profile_part" where
  "profile_loaded r s =
     (case r of
        Inl e \<Rightarrow> s
      | Inr d \<Rightarrow>
          if truthy d then
            s\<lparr>pf_name := to_str (coalesce (opt_get d ''name'') (JStr [])),
              pf_email := to_str (coalesce (opt_get d ''email'') (JStr []))\<rparr>
          else s)"

definition handleProfileUpdate :: "profile_part \<Rightarrow> profile_part" where
  "handleProfileUpdate s =
     s\<lparr>pf_loading := True, pf_msg := None,
       pf_calls := pf_calls s @ [UpdateProfile (user (fst (pf_auth s))) (pf_name s)]\<rparr>"

text \<open>\<open>{ ...user, name }\<close>.\<close>

definition with_name :: "jsval \<Rightarrow> string \<Rightarrow> jsval" where
  "with_name u n = (case u of JObj kvs \<Rightarrow> JObj (obj_set kvs ''name'' (JStr n)) | _ \<Rightarrow> JObj [(''name'', JStr n)])"

definition profile_updated :: "jsval \<Rightarrow> string \<Rightarrow> js_error + jsval \<Rightarrow> profile_part \<Rightarrow> profile_part" where
  "profile_updated u n r s =
     (case r of
        Inl e \<Rightarrow> s\<lparr>pf_msg := Some (False, err_message e)\<rparr>
      | Inr d \<Rightarrow>
          (if truthy d \<and> truthy u
           then s\<lparr>pf_auth := setUser (with_name u (to_str (coalesce (opt_get d ''name'') (JStr n)))) (pf_auth s)\<rparr>
           else s)\<lparr>pf_msg := Some (True, ''Profile updated successfully'')\<rparr>)\<lparr>pf_loading := False\<rparr>"

definition profile_settles :: "profile_call \<Rightarrow> js_error + jsval \<Rightarrow> profile_part \<Rightarrow> profile_part" where
  "profile_settles c r s =
     (case c of LoadProfile \<Rightarrow> profile_loaded r s | UpdateProfile u n \<Rightarrow> profile_updated u n r s)
       \<lparr>pf_calls := remove1 c (pf_calls s)\<rparr>"

text \<open>\<open>StoreActs\<close> is an action on the store by another component, such as the header's logout.\<close>

fun profile_step :: "profile_part \<Rightarrow> profile_event \<Rightarrow> profile_part" where
  "profile_step s (SetName t) = s\<lparr>pf_name := t\<rparr>"
| "profile_step s SubmitProfile = handleProfileUpdate s"
| "profile_step s (ProfileSettles c r) = (if c \<in> set (pf_calls s) then profile_settles c r s else s)"
| "profile_step s (StoreActs a) = s\<lparr>pf_auth := auth_step (pf_auth s) a\<rparr>"

definition profile_card :: "profile_part \<Rightarrow> profile_event vnode" where
  "profile_card s =
     Card False [CardHeader [box [box [], CardTitle [Txt ''Profile'']]],
       El ''form'' [] [On ''submit'' SubmitProfile]
         (MsgBanner (pf_msg s) @
          [Input (input\<lparr>i_label := Some ''Name'', i_rest := [(''value'', pf_name s)], i_on := [OnText ''change'' SetName]\<rparr>),
           Input (input\<lparr>i_label := Some ''Email'', i_hint := Some ''Contact support to change your email'',
             i_rest := [(''value'', pf_email s), (''disabled'', [])]\<rparr>),
           submit_control (pf_loading s) False [Txt ''Save changes'']])]"

section \<open>Password\<close>

record password_part =
  currentPassword :: string
  newPassword :: string
  showCurrentPw :: bool
  showNewPw :: bool
  pw_msg :: msg
  pw_loading :: bool
  pw_calls :: "(string \<times> string) list"

datatype password_event =
    SetCurrent string
  | SetNew string
  | ShowCurrent
  | ShowNew
  | SubmitPassword
  | PasswordSettles "string \<times> string" "js_error + jsval"

definition password_initial :: password_part where
  "password_initial = \<lparr>currentPassword = [], newPassword = [], showCurrentPw = False, showNewPw = False,
     pw_msg = None, pw_loading = False, pw_calls = []\<rparr>"

definition handlePasswordChange :: "password_part \<Rightarrow> password_part" where
  "handlePasswordChange s =
     s\<lparr>pw_loading := True, pw_msg := None, pw_calls := pw_calls s @ [(currentPassword s, newPassword s)]\<rparr>"

fun password_service :: "string \<times> string \<Rightarrow> service" where
  "password_service (cur, new) = changePassword cur new"

definition password_settles :: "string \<times> string \<Rightarrow> js_error + jsval \<Rightarrow> password_part \<Rightarrow> password_part" where
  "password_settles c r s =
     (case r of
        Inl e \<Rightarrow> s\<lparr>pw_msg := Some (False, err_message e)\<rparr>
      | Inr d \<Rightarrow> s\<lparr>pw_msg := Some (True, ''Password changed successfully''), currentPassword := [], newPassword := []\<rparr>)
       \<lparr>pw_loading := False, pw_calls := remove1 c (pw_calls s)\<rparr>"

fun password_step :: "password_part \<Rightarrow> password_event \<Rightarrow> password_part" where
  "password_step s (SetCurrent t) = s\<lparr>currentPassword := t\<rparr>"
| "password_step s (SetNew t) = s\<lparr>newPassword := t\<rparr>"
| "password_step s ShowCurrent = s\<lparr>showCurrentPw := \<not> showCurrentPw s\<rparr>"
| "password_step s ShowNew = s\<lparr>showNewPw := \<not> showNewPw s\<rparr>"
| "password_step s SubmitPassword = handlePasswordChange s"
| "password_step s (PasswordSettles c r) = (if c \<in> set (pw_calls s) then password_settles c r s else s)"

definition eye_button :: "'e \<Rightarrow> 'e vnode" where
  "eye_button e = El ''button'' [(''type'', ''button'')] [On ''click'' e] [El ''svg'' [] [] []]"

definition password_card :: "password_part \<Rightarrow> password_event vnode" where
  "password_card s =
     Card False [CardHeader [box [box [], CardTitle [Txt ''Change password'']]],
       El ''form'' [] [On ''submit'' SubmitPassword]
         (MsgBanner (pw_msg s) @
          [box [text_input ''Current password'' [(''type'', if showCurrentPw s then ''text'' else ''password'')]
                  (currentPassword s) SetCurrent, eye_button ShowCurrent],
           box [hinted_input ''New password''
                  [(''type'', if showNewPw s then ''text'' else ''password''), (''minLength'', ''8'')]
                  ''Minimum 8 characters'' (newPassword s) SetNew, eye_button ShowNew],
           submit_control (pw_loading s) False [Txt ''Change password'']])]"

section \<open>Second factor\<close>

datatype twofa_call =
    LoadStatus
  | Setup
  | Verify string
  | Disable string

record twofa_part =
  twoFAEnabled :: bool
  tf_loading :: bool
  tf_msg :: msg
  showSetup2FA :: bool
  twoFASecret :: string
  twoFAUrl :: string
  setupCode :: string
  showDisable2FA :: bool
  disableCode :: string
  tf_calls :: "twofa_call list"

datatype twofa_event =
    Enable2FA
  | SetSetupCode string
  | SubmitVerify
  | CloseSetup
  | AskDisable
  | SetDisableCode string
  | SubmitDisable
  | CloseDisable
  | TwoFASettles twofa_call "js_error + jsval"

fun twofa_service :: "twofa_call \<Rightarrow> service" where
  "twofa_service LoadStatus = get2FAStatus"
| "twofa_service Setup = setup2FA"
| "twofa_service (Verify code) = verify2FA code"
| "twofa_service (Disable code) = disable2FA code"

definition twofa_mount :: twofa_part where
  "twofa_mount = \<lparr>twoFAEnabled = False, tf_loading = False, tf_msg = None, showSetup2FA = False,
     twoFASecret = [], twoFAUrl = [], setupCode = [], showDisable2FA = False, disableCode = [],
     tf_calls = [LoadStatus]\<rparr>"

text \<open>The three handlers begin alike: the flag, no message, and the request.\<close>

definition twofa_start :: "twofa_call \<Rightarrow> twofa_part \<Rightarrow> twofa_part" where
  "twofa_start c s = s\<lparr>tf_loading := True, tf_msg := None, tf_calls := tf_calls s @ [c]\<rparr>"

definition handleSetup2FA :: "twofa_part \<Rightarrow> twofa_part" where
  "handleSetup2FA s = twofa_start Setup s"

definition handleVerify2FA :: "twofa_part \<Rightarrow> twofa_part" where
  "handleVerify2FA s = twofa_start (Verify (setupCode s)) s"

definition handleDisable2FA :: "twofa_part \<Rightarrow> twofa_part" where
  "handleDisable2FA s = twofa_start (Disable (disableCode s)) s"

definition twofa_try :: "twofa_call \<Rightarrow> jsval \<Rightarrow> twofa_part \<Rightarrow> js_error + twofa_part" where
  "twofa_try c d s =
     (case c of
        LoadStatus \<Rightarrow> sbind (js_get d ''enabled'') (\<lambda>e. Inr (s\<lparr>twoFAEnabled := truthy e\<rparr>))
      | Setup \<Rightarrow>
          sbind (js_get d ''secret'') (\<lambda>secret.
          sbind (js_get d ''url'') (\<lambda>url.
            Inr (s\<lparr>twoFASecret := shown_text secret, twoFAUrl := shown_text url, showSetup2FA := True\<rparr>)))
      | Verify code \<Rightarrow>
          Inr (s\<lparr>twoFAEnabled := True, showSetup2FA := False, setupCode := [], twoFASecret := [], twoFAUrl := [],
                 tf_msg := Some (True, ''2FA enabled successfully'')\<rparr>)
      | Disable code \<Rightarrow>
          Inr (s\<lparr>twoFAEnabled := False, showDisable2FA := False, disableCode := [],
                 tf_msg := Some (True, ''2FA disabled successfully'')\<rparr>))"

text \<open>A failed load of the status is ignored; the others show the message, and end the loading.\<close>

definition twofa_settles :: "twofa_call \<Rightarrow> js_error + jsval \<Rightarrow> twofa_part \<Rightarrow> twofa_part" where
  "twofa_settles c r s =
     (let s1 = (case sbind r (\<lambda>d. twofa_try c d s) of
                  Inl e \<Rightarrow> if c = LoadStatus then s else s\<lparr>tf_msg := Some (False, err_message e)\<rparr>
                | Inr s' \<Rightarrow> s')
      in s1\<lparr>tf_loading := (if c = LoadStatus then tf_loading s else False), tf_calls := remove1 c (tf_calls s)\<rparr>)"

fun twofa_step :: "twofa_part \<Rightarrow> twofa_event \<Rightarrow> twofa_part" where
  "twofa_step s Enable2FA = handleSetup2FA s"
| "twofa_step s (SetSetupCode t) = s\<lparr>setupCode := take 6 (digits_only t)\<rparr>"
| "twofa_step s SubmitVerify = handleVerify2FA s"
| "twofa_step s CloseSetup = s\<lparr>showSetup2FA := False, setupCode := []\<rparr>"
| "twofa_step s AskDisable = s\<lparr>showDisable2FA := True\<rparr>"
| "twofa_step s (SetDisableCode t) = s\<lparr>disableCode := take 6 (digits_only t)\<rparr>"
| "twofa_step s SubmitDisable = handleDisable2FA s"
| "twofa_step s CloseDisable = s\<lparr>showDisable2FA := False, disableCode := []\<rparr>"
| "twofa_step s (TwoFASettles c r) = (if c \<in> set (tf_calls s) then twofa_settles c r s else s)"

definition twofa_card :: "twofa_part \<Rightarrow> twofa_event vnode" where
  "twofa_card s =
     Card False
       ([CardHeader [box [box [], CardTitle [Txt ''Two-factor auth'']]]] @ MsgBanner (tf_msg s) @
        [box [box [El ''p'' [] [] [Txt ''Status''], Badge False [Txt (if twoFAEnabled s then ''Enabled'' else ''Disabled'')]],
           if twoFAEnabled s then small_button (tf_loading s) False AskDisable ''Disable''
           else small_button (tf_loading s) False Enable2FA ''Enable 2FA'']] @
        when_do (\<not> twoFAEnabled s)
          [box [box [El ''p'' [] [] [Txt ''2FA is recommended for account security. Enable it to protect your account.'']]]])"

definition setup_modal :: "twofa_part \<Rightarrow> twofa_event vnode list" where
  "setup_modal s =
     Modal (showSetup2FA s) CloseSetup (Some ''Enable two-factor authentication'') None
       [box [box [if twoFAUrl s \<noteq> [] then box [El ''svg'' [(''value'', twoFAUrl s)] [] []]
                  else box [span [Txt ''Loading QR code...'']],
                El ''p'' [] [] [Txt ''Scan this QR code with your authenticator app''],
                El ''details'' [] []
                  [El ''summary'' [] [] [Txt ''Or enter manually''],
                   box [El ''p'' [] [] [Txt ''Manual key''], El ''p'' [] [] [Txt (twoFASecret s)]],
                   box [El ''p'' [] [] [Txt ''URI''], El ''p'' [] [] [Txt (twoFAUrl s)]]]],
           box [El ''p'' [] [] [Txt ''Enter the 6-digit code from your app to verify:''], code_input (setupCode s) SetSetupCode],
           box [small_button False False CloseSetup ''Cancel'',
                small_button (tf_loading s) (length (setupCode s) \<noteq> 6) SubmitVerify ''Verify & enable'']]] []"

definition disable_modal :: "twofa_part \<Rightarrow> twofa_event vnode list" where
  "disable_modal s =
     Modal (showDisable2FA s) CloseDisable (Some ''Disable two-factor authentication'') None
       [box [El ''p'' [] [] [Txt ''Enter your current 2FA code to confirm disabling:''],
             code_input (disableCode s) SetDisableCode,
             box [small_button False False CloseDisable ''Cancel'',
                  small_button (tf_loading s) (length (disableCode s) \<noteq> 6) SubmitDisable ''Disable 2FA'']]] []"

definition twofa_view :: "twofa_part \<Rightarrow> twofa_event vnode list" where
  "twofa_view s = [twofa_card s] @ setup_modal s @ disable_modal s"

section \<open>Notifications\<close>

datatype pref = EmailNotifs | SmsNotifs | WebhookNotifs | BillingAlerts | SecurityAlerts

datatype notif_call =
    LoadPrefs
  | SavePrefs jsval

record notif_part =
  emailNotifs :: jsval
  smsNotifs :: jsval
  webhookNotifs :: jsval
  billingAlerts :: jsval
  securityAlerts :: jsval
  nf_msg :: msg
  nf_loading :: bool
  nf_calls :: "notif_call list"

datatype notif_event =
    SetPref pref bool
  | SubmitPrefs
  | NotifSettles notif_call "js_error + jsval"

fun notif_service :: "notif_call \<Rightarrow> service" where
  "notif_service LoadPrefs = getPreferences"
| "notif_service (SavePrefs p) = updatePreferences p"

definition notif_mount :: notif_part where
  "notif_mount = \<lparr>emailNotifs = JBool True, smsNotifs = JBool False, webhookNotifs = JBool False,
     billingAlerts = JBool True, securityAlerts = JBool True, nf_msg = None, nf_loading = False,
     nf_calls = [LoadPrefs]\<rparr>"

definition prefs_loaded :: "js_error + jsval \<Rightarrow> notif_part \<Rightarrow> notif_part" where
  "prefs_loaded r s =
     (case r of
        Inl e \<Rightarrow> s
      | Inr d \<Rightarrow> if nullish d then s else
          s\<lparr>emailNotifs := opt_get d ''email_notifications'', smsNotifs := opt_get d ''sms_notifications'',
            webhookNotifs := opt_get d ''webhook_notifications'', billingAlerts := opt_get d ''billing_alerts'',
            securityAlerts := opt_get d ''security_alerts''\<rparr>)"

definition prefs_payload :: "notif_part \<Rightarrow> jsval" where
  "prefs_payload s = JObj
     [(''email_notifications'', emailNotifs s), (''sms_notifications'', smsNotifs s),
      (''webhook_notifications'', webhookNotifs s), (''billing_alerts'', billingAlerts s),
      (''security_alerts'', securityAlerts s)]"

definition handleSaveNotifications :: "notif_part \<Rightarrow> notif_part" where
  "handleSaveNotifications s =
     s\<lparr>nf_loading := True, nf_msg := None, nf_calls := nf_calls s @ [SavePrefs (prefs_payload s)]\<rparr>"

definition prefs_saved :: "js_error + jsval \<Rightarrow> notif_part \<Rightarrow> notif_part" where
  "prefs_saved r s =
     (case r of
        Inl e \<Rightarrow> s\<lparr>nf_msg := Some (False, err_message e)\<rparr>
      | Inr d \<Rightarrow> s\<lparr>nf_msg := Some (True, ''Notification preferences saved'')\<rparr>)\<lparr>nf_loading := False\<rparr>"

definition notif_settles :: "notif_call \<Rightarrow> js_error + jsval \<Rightarrow> notif_part \<Rightarrow> notif_part" where
  "notif_settles c r s =
     (case c of LoadPrefs \<Rightarrow> prefs_loaded r s | SavePrefs p \<Rightarrow> prefs_saved r s)\<lparr>nf_calls := remove1 c (nf_calls s)\<rparr>"

fun set_pref :: "pref \<Rightarrow> jsval \<Rightarrow> notif_part \<Rightarrow> notif_part" where
  "set_pref EmailNotifs v s = s\<lparr>emailNotifs := v\<rparr>"
| "set_pref SmsNotifs v s = s\<lparr>smsNotifs := v\<rparr>"
| "set_pref WebhookNotifs v s = s\<lparr>webhookNotifs := v\<rparr>"
| "set_pref BillingAlerts v s = s\<lparr>billingAlerts := v\<rparr>"
| "set_pref SecurityAlerts v s = s\<lparr>securityAlerts := v\<rparr>"

fun notif_step :: "notif_part \<Rightarrow> notif_event \<Rightarrow> notif_part" where
  "notif_step s (SetPref p b) = set_pref p (JBool b) s"
| "notif_step s SubmitPrefs = handleSaveNotifications s"
| "notif_step s (NotifSettles c r) = (if c \<in> set (nf_calls s) then notif_settles c r s else s)"

definition notif_card :: "notif_part \<Rightarrow> notif_event vnode" where
  "notif_card s =
     Card False [CardHeader [box [box [], CardTitle [Txt ''Notifications'']]],
       box ((case nf_msg s of None \<Rightarrow> [] | Some m \<Rightarrow> [box (MsgBanner (Some m))]) @
         [Toggle ''Email notifications'' (Some ''Receive updates and alerts via email'') (emailNotifs s) (SetPref EmailNotifs),
          Toggle ''SMS notifications'' (Some ''Get critical alerts via SMS'') (smsNotifs s) (SetPref SmsNotifs),
          Toggle ''Webhook notifications'' (Some ''Forward events to your configured endpoints'') (webhookNotifs s) (SetPref WebhookNotifs),
          Toggle ''Billing alerts'' (Some ''Payment due, subscription expiry, and invoice notifications'') (billingAlerts s) (SetPref BillingAlerts),
          Toggle ''Security alerts'' (Some ''Login attempts, password changes, and suspicious activity'') (securityAlerts s) (SetPref SecurityAlerts)]),
       box [small_button (nf_loading s) False SubmitPrefs ''Save preferences'']]"

section \<open>Sessions\<close>

datatype load_reason = Mounting | Following

datatype sessions_call =
    LoadSessions load_reason
  | RevokeOne string
  | RevokeOthers

record sessions_part =
  sessions :: "jsval list"
  sessionsLoading :: bool
  sessionMsg :: msg
  ss_calls :: "sessions_call list"

datatype sessions_event =
    ClickRevoke string
  | ClickRevokeAll
  | SessionsSettle sessions_call "js_error + jsval"

fun sessions_service :: "sessions_call \<Rightarrow> service" where
  "sessions_service (LoadSessions w) = getSessions"
| "sessions_service (RevokeOne i) = revokeSession i"
| "sessions_service RevokeOthers = revokeAllSessions"

definition loadSessions :: "load_reason \<Rightarrow> sessions_part \<Rightarrow> sessions_part" where
  "loadSessions w s = s\<lparr>sessionsLoading := True, ss_calls := ss_calls s @ [LoadSessions w]\<rparr>"

definition sessions_mount :: sessions_part where
  "sessions_mount = loadSessions Mounting
     \<lparr>sessions = [], sessionsLoading = False, sessionMsg = None, ss_calls = []\<rparr>"

text \<open>The reload after all others were revoked is awaited before the message is shown.\<close>

definition sessions_loaded :: "load_reason \<Rightarrow> js_error + jsval \<Rightarrow> sessions_part \<Rightarrow> sessions_part" where
  "sessions_loaded w r s =
     (let s1 = (case r of Inl e \<Rightarrow> s | Inr d \<Rightarrow> s\<lparr>sessions := items_of d\<rparr>)\<lparr>sessionsLoading := False\<rparr>
      in if w = Following then s1\<lparr>sessionMsg := Some (True, ''All other sessions revoked'')\<rparr> else s1)"

definition handleRevokeSession :: "string \<Rightarrow> sessions_part \<Rightarrow> sessions_part" where
  "handleRevokeSession i s = s\<lparr>sessionMsg := None, ss_calls := ss_calls s @ [RevokeOne i]\<rparr>"

definition session_revoked :: "string \<Rightarrow> js_error + jsval \<Rightarrow> sessions_part \<Rightarrow> sessions_part" where
  "session_revoked i r s =
     (case r of
        Inl e \<Rightarrow> s\<lparr>sessionMsg := Some (False, err_message e)\<rparr>
      | Inr d \<Rightarrow> s\<lparr>sessions := filter (\<lambda>x. \<not> has_id i x) (sessions s), sessionMsg := Some (True, ''Session revoked'')\<rparr>)"

definition handleRevokeAllSessions :: "sessions_part \<Rightarrow> sessions_part" where
  "handleRevokeAllSessions s = s\<lparr>sessionMsg := None, ss_calls := ss_calls s @ [RevokeOthers]\<rparr>"

definition others_revoked :: "js_error + jsval \<Rightarrow> sessions_part \<Rightarrow> sessions_part" where
  "others_revoked r s =
     (case r of
        Inl e \<Rightarrow> s\<lparr>sessionMsg := Some (False, err_message e)\<rparr>
      | Inr d \<Rightarrow> loadSessions Following s)"

definition sessions_settle :: "sessions_call \<Rightarrow> js_error + jsval \<Rightarrow> sessions_part \<Rightarrow> sessions_part" where
  "sessions_settle c r s =
     (let s0 = s\<lparr>ss_calls := remove1 c (ss_calls s)\<rparr>
      in case c of
           LoadSessions w \<Rightarrow> sessions_loaded w r s0
         | RevokeOne i \<Rightarrow> session_revoked i r s0
         | RevokeOthers \<Rightarrow> others_revoked r s0)"

fun sessions_step :: "sessions_part \<Rightarrow> sessions_event \<Rightarrow> sessions_part" where
  "sessions_step s (ClickRevoke i) = handleRevokeSession i s"
| "sessions_step s ClickRevokeAll = handleRevokeAllSessions s"
| "sessions_step s (SessionsSettle c r) = (if c \<in> set (ss_calls s) then sessions_settle c r s else s)"

text \<open>\<open>parseUA\<close>: the browser and the system a user agent is shown as.\<close>

definition parseUA :: "string \<Rightarrow> string \<times> string" where
  "parseUA ua =
     (let lower = map to_lower ua; has = str_includes lower
      in if has ''chrome'' \<and> \<not> has ''edg'' then (''Chrome'', if has ''android'' then ''Android'' else ''Desktop'')
         else if has ''firefox'' then (''Firefox'', ''Desktop'')
         else if has ''safari'' \<and> \<not> has ''chrome'' then (''Safari'', ''macOS'')
         else if has ''edg'' then (''Edge'', ''Desktop'')
         else if has ''android'' then (''Browser'', ''Android'')
         else if has ''iphone'' \<or> has ''ipad'' then (''Safari'', ''iOS'')
         else (''Unknown'', ''Unknown''))"

definition session_row :: "calendar \<Rightarrow> int \<Rightarrow> jsval \<Rightarrow> sessions_event vnode" where
  "session_row c now x =
     (case parseUA (shown_text (js_or (opt_get x ''user_agent'') (JStr []))) of (browser, os) \<Rightarrow>
        box [box [box [El ''svg'' [] [] []],
               box [El ''p'' [] [] [Txt (browser @ '' - '' @ os)],
                 box [span [Txt (shown_text (js_or (opt_get x ''ip_address'') (JStr ''Unknown IP'')))], span [Txt ''-''],
                      span [Txt (formatTimeAgo c now (shown_text (js_or (opt_get x ''last_active'') (opt_get x ''created_at''))))]]]],
             small_button False False (ClickRevoke (shown_text (opt_get x ''id''))) []])"

definition sessions_card :: "calendar \<Rightarrow> int \<Rightarrow> sessions_part \<Rightarrow> sessions_event vnode" where
  "sessions_card c now s =
     Card False
       ([CardHeader [box ([box [box [], CardTitle [Txt ''Active Sessions'']]] @
           when_do (1 < length (sessions s)) [small_button False False ClickRevokeAll ''Revoke all others''])]] @
        MsgBanner (sessionMsg s) @
        [if sessionsLoading s then box (replicate 2 (box []))
         else if sessions s = [] then El ''p'' [] [] [Txt ''No active sessions'']
         else box (map (session_row c now) (sessions s))])"

section \<open>API keys\<close>

datatype keys_call =
    LoadKeys load_reason
  | CreateKey jsval
  | RevokeKey string

record keys_part =
  apiKeys :: "jsval list"
  apiKeysLoading :: bool
  apiKeyMsg :: msg
  showCreateKey :: bool
  newKeyName :: string
  newKeyScopes :: "string list"
  newKeyExpiry :: string
  createKeyLoading :: bool
  createdKeyValue :: string
  copiedKey :: bool
  detailKey :: "jsval option"
  copiedExample :: bool
  ak_calls :: "keys_call list"

text \<open>The clipboard and the timeouts answer with \<open>KeyCopied\<close>, \<open>KeyCopyFades\<close> and their like.\<close>

datatype keys_event =
    NewKey
  | CloseNewKey
  | SetKeyName string
  | ToggleScope string
  | SetExpiry string
  | SubmitKey
  | DismissKey
  | CopyKey
  | KeyCopied
  | KeyCopyFades
  | ShowDetail jsval
  | CloseDetail
  | CopyExample
  | ExampleCopied
  | ExampleCopyFades
  | ClickRevokeKey string
  | KeysSettle keys_call "js_error + jsval"

fun keys_service :: "keys_call \<Rightarrow> service" where
  "keys_service (LoadKeys w) = listApiKeys"
| "keys_service (CreateKey form) = createApiKey form"
| "keys_service (RevokeKey i) = revokeApiKey i"

definition availableScopes :: "string list" where
  "availableScopes = [''send'', ''read'', ''otp'', ''webhook'']"

definition loadApiKeys :: "load_reason \<Rightarrow> keys_part \<Rightarrow> keys_part" where
  "loadApiKeys w s = s\<lparr>apiKeysLoading := True, ak_calls := ak_calls s @ [LoadKeys w]\<rparr>"

definition keys_mount :: keys_part where
  "keys_mount = loadApiKeys Mounting
     \<lparr>apiKeys = [], apiKeysLoading = False, apiKeyMsg = None, showCreateKey = False, newKeyName = [],
      newKeyScopes = [''send'', ''read''], newKeyExpiry = [], createKeyLoading = False,
      createdKeyValue = [], copiedKey = False, detailKey = None, copiedExample = False, ak_calls = []\<rparr>"

text \<open>The reload after a key was created is awaited before the form stops loading.\<close>

definition keys_loaded :: "load_reason \<Rightarrow> js_error + jsval \<Rightarrow> keys_part \<Rightarrow> keys_part" where
  "keys_loaded w r s =
     (let s1 = (case r of
                  Inl e \<Rightarrow> s
                | Inr d \<Rightarrow> s\<lparr>apiKeys := filter (\<lambda>k. \<not> truthy (opt_get k ''revoked_at'')) (items_of d)\<rparr>)
               \<lparr>apiKeysLoading := False\<rparr>
      in if w = Following then s1\<lparr>createKeyLoading := False\<rparr> else s1)"

definition key_form :: "keys_part \<Rightarrow> jsval" where
  "key_form s = JObj [(''label'', JStr (newKeyName s)), (''scopes'', JArr (map JStr (newKeyScopes s))),
     (''expires_in'', if newKeyExpiry s = [] then JUndef else JStr (newKeyExpiry s))]"

definition handleCreateApiKey :: "keys_part \<Rightarrow> keys_part" where
  "handleCreateApiKey s =
     s\<lparr>createKeyLoading := True, apiKeyMsg := None, ak_calls := ak_calls s @ [CreateKey (key_form s)]\<rparr>"

definition key_created :: "js_error + jsval \<Rightarrow> keys_part \<Rightarrow> keys_part" where
  "key_created r s =
     (case sbind r (\<lambda>d. js_get d ''api_key'') of
        Inl e \<Rightarrow> s\<lparr>apiKeyMsg := Some (False, err_message e), createKeyLoading := False\<rparr>
      | Inr k \<Rightarrow>
          loadApiKeys Following
            (s\<lparr>createdKeyValue := shown_text k, newKeyName := [], newKeyScopes := [''send'', ''read''],
               newKeyExpiry := [], showCreateKey := False\<rparr>))"

definition handleRevokeApiKey :: "string \<Rightarrow> keys_part \<Rightarrow> keys_part" where
  "handleRevokeApiKey i s = s\<lparr>apiKeyMsg := None, ak_calls := ak_calls s @ [RevokeKey i]\<rparr>"

definition key_revoked :: "string \<Rightarrow> js_error + jsval \<Rightarrow> keys_part \<Rightarrow> keys_part" where
  "key_revoked i r s =
     (case r of
        Inl e \<Rightarrow> s\<lparr>apiKeyMsg := Some (False, err_message e)\<rparr>
      | Inr d \<Rightarrow> s\<lparr>apiKeys := filter (\<lambda>k. \<not> has_id i k) (apiKeys s), apiKeyMsg := Some (True, ''API key revoked'')\<rparr>)"

definition keys_settle :: "keys_call \<Rightarrow> js_error + jsval \<Rightarrow> keys_part \<Rightarrow> keys_part" where
  "keys_settle c r s =
     (let s0 = s\<lparr>ak_calls := remove1 c (ak_calls s)\<rparr>
      in case c of
           LoadKeys w \<Rightarrow> keys_loaded w r s0
         | CreateKey form \<Rightarrow> key_created r s0
         | RevokeKey i \<Rightarrow> key_revoked i r s0)"

definition toggleScope :: "string \<Rightarrow> keys_part \<Rightarrow> keys_part" where
  "toggleScope x s = s\<lparr>newKeyScopes := array_toggle x (newKeyScopes s)\<rparr>"

fun keys_step :: "keys_part \<Rightarrow> keys_event \<Rightarrow> keys_part" where
  "keys_step s NewKey = s\<lparr>showCreateKey := True, newKeyName := [], newKeyScopes := [''send'', ''read''], newKeyExpiry := []\<rparr>"
| "keys_step s CloseNewKey = s\<lparr>showCreateKey := False\<rparr>"
| "keys_step s (SetKeyName t) = s\<lparr>newKeyName := t\<rparr>"
| "keys_step s (ToggleScope x) = toggleScope x s"
| "keys_step s (SetExpiry t) = s\<lparr>newKeyExpiry := t\<rparr>"
| "keys_step s SubmitKey = handleCreateApiKey s"
| "keys_step s DismissKey = s\<lparr>createdKeyValue := []\<rparr>"
| "keys_step s CopyKey = s"
| "keys_step s KeyCopied = s\<lparr>copiedKey := True\<rparr>"
| "keys_step s KeyCopyFades = s\<lparr>copiedKey := False\<rparr>"
| "keys_step s (ShowDetail k) = s\<lparr>detailKey := Some k\<rparr>"
| "keys_step s CloseDetail = s\<lparr>detailKey := None, copiedExample := False\<rparr>"
| "keys_step s CopyExample = s"
| "keys_step s ExampleCopied = s\<lparr>copiedExample := True\<rparr>"
| "keys_step s ExampleCopyFades = s\<lparr>copiedExample := False\<rparr>"
| "keys_step s (ClickRevokeKey i) = handleRevokeApiKey i s"
| "keys_step s (KeysSettle c r) = (if c \<in> set (ak_calls s) then keys_settle c r s else s)"

subsection \<open>View of the API keys\<close>

definition key_date :: "calendar \<Rightarrow> string \<Rightarrow> jsval \<Rightarrow> string" where
  "key_date c label v = label @ local_date c (shown_text v)"

definition request_count :: "calendar \<Rightarrow> jsval \<Rightarrow> string" where
  "request_count c k =
     (case coalesce (opt_get k ''request_count'') (JNum 0) of JNum n \<Rightarrow> local_number c n | v \<Rightarrow> to_str v)"

definition key_scopes :: "jsval \<Rightarrow> string list" where
  "key_scopes k = map shown_text (items_of (opt_get k ''scopes''))"

definition key_row :: "calendar \<Rightarrow> int \<Rightarrow> jsval \<Rightarrow> keys_event vnode" where
  "key_row c now k =
     El ''button'' [] [On ''click'' (ShowDetail k)]
       [box [box [],
          box [El ''p'' [] [] [Txt (shown_text (opt_get k ''label''))],
            box ([span [Txt (join_with '', '' (key_scopes k))]] @
                 when_do (truthy (opt_get k ''expires_at''))
                   [span [Txt ''-''], span [Txt (key_date c ''Expires '' (opt_get k ''expires_at''))]] @
                 [span [Txt ''-''], span [Txt (formatTimeAgo c now (shown_text (opt_get k ''created_at'')))]]),
            box ([span [Txt (request_count c k @ '' requests'')]] @
                 when_do (truthy (opt_get k ''last_used_at''))
                   [span [Txt ''-''], span [Txt (''Last used '' @ formatTimeAgo c now (shown_text (opt_get k ''last_used_at'')))]])]],
        box [small_button False False (ClickRevokeKey (shown_text (opt_get k ''id''))) [], El ''svg'' [] [] []]]"

definition created_key_box :: "keys_part \<Rightarrow> keys_event vnode list" where
  "created_key_box s =
     when_do (createdKeyValue s \<noteq> [])
       [box [box [box [El ''p'' [] [] [Txt ''Your new API key (shown only once):''], El ''code'' [] [] [Txt (createdKeyValue s)]],
               El ''button'' [] [On ''click'' CopyKey] [El ''svg'' [] [] []]],
          El ''p'' [] [] [Txt ''Copy this key now - you won't be able to see it again.''],
          El ''button'' [] [On ''click'' DismissKey] [Txt ''Dismiss'']]]"

definition keys_card :: "calendar \<Rightarrow> int \<Rightarrow> keys_part \<Rightarrow> keys_event vnode" where
  "keys_card c now s =
     Card False
       ([CardHeader [box [box [box [], CardTitle [Txt ''API Keys'']], small_button False False NewKey '' New key'']]] @
        MsgBanner (apiKeyMsg s) @ created_key_box s @
        [if apiKeysLoading s then box (replicate 2 (box []))
         else if apiKeys s = [] then El ''p'' [] [] [Txt ''No API keys yet. Create one to start using the API.'']
         else box (map (key_row c now) (apiKeys s))])"

definition scopeDescriptions :: "string \<Rightarrow> (string \<times> string) option" where
  "scopeDescriptions = map_of
     [(''send'', ''Send messages'', ''Allows sending SMS messages via POST /api/v1/send''),
      (''read'', ''Read messages'', ''Allows listing and reading message history via GET /api/v1/messages''),
      (''otp'', ''Send & verify OTP'', ''Allows sending and verifying one-time passwords via /api/v1/otp/*''),
      (''webhook'', ''Webhook access'', ''Allows managing webhook endpoints for delivery notifications'')]"

text \<open>
  The usage example, by the first of \<open>send\<close>, \<open>otp\<close> and \<open>read\<close> among the scopes. A backslash at the
  end of a line of the source's template joins the lines.
\<close>

definition example_lines :: "jsval \<Rightarrow> string list" where
  \<open>example_lines k =
     (let auth = ''  -H "Authorization: Bearer YOUR_API_KEY"''; json = ''   -H "Content-Type: application/json"'';
          q = [CHR 0x27]
      in if ''send'' \<in> set (key_scopes k) then
           [''curl -X POST https://api.aeroxe.com/api/v1/send '' @ auth @ json @ ''   -d '' @ q @ ''{'',
            ''    "recipient": "+1234567890",'', ''    "message": "Hello from AeroXe!",'',
            ''    "message_type": "transactional",'', ''    "idempotency_key": "unique-req-001"'', ''  }'' @ q]
         else if ''otp'' \<in> set (key_scopes k) then
           [''# Send OTP'',
            ''curl -X POST https://api.aeroxe.com/api/v1/otp/send '' @ auth @ json @
              ''   -d '' @ q @ ''{"phone": "+1234567890", "length": 6}'' @ q,
            [], ''# Verify OTP'',
            ''curl -X POST https://api.aeroxe.com/api/v1/otp/verify '' @ auth @ json @
              ''   -d '' @ q @ ''{"phone": "+1234567890", "code": "123456"}'' @ q]
         else if ''read'' \<in> set (key_scopes k) then
           [''curl https://api.aeroxe.com/api/v1/messages '' @ auth]
         else [''# Use this key with the AeroXe API'', ''curl https://api.aeroxe.com/api/v1/health '' @ auth])\<close>

definition generateUsageExample :: "jsval \<Rightarrow> string" where
  "generateUsageExample k = join_with [CHR 0x0A] (example_lines k)"

definition detail_facts :: "calendar \<Rightarrow> int \<Rightarrow> jsval \<Rightarrow> (string \<times> string) list" where
  "detail_facts c now k =
     (let at = (\<lambda>f. shown_text (opt_get k f))
      in [(''Created'', local_date c (at ''created_at'') @ '' at '' @ local_time c (at ''created_at'')),
          (''Expires'', if truthy (opt_get k ''expires_at'') then local_date c (at ''expires_at'') else ''Never''),
          (''Requests'', request_count c k),
          (''Last used'', if truthy (opt_get k ''last_used_at'') then formatTimeAgo c now (at ''last_used_at'') else ''Never''),
          (''Key ID'', at ''id'')])"

definition scope_box :: "string \<Rightarrow> 'e vnode" where
  "scope_box scope =
     (case scopeDescriptions scope of
        Some (l, d) \<Rightarrow> box [box [box [], El ''p'' [] [] [Txt l]], El ''p'' [] [] [Txt d]]
      | None \<Rightarrow> box [box [box [], El ''p'' [] [] [Txt scope]], El ''p'' [] [] [Txt (''Scope: '' @ scope)]])"

definition detail_modal :: "calendar \<Rightarrow> int \<Rightarrow> keys_part \<Rightarrow> keys_event vnode list" where
  "detail_modal c now s =
     Modal (detailKey s \<noteq> None) CloseDetail (Some ''API key details'') None
       (case detailKey s of
          None \<Rightarrow> []
        | Some k \<Rightarrow>
            [box [box [box [El ''h4'' [] [] [Txt (shown_text (opt_get k ''label''))], Badge False [Txt ''Active'']],
                    box (map (\<lambda>(l, v). box [El ''p'' [] [] [Txt l], El ''p'' [] [] [Txt v]]) (detail_facts c now k))],
               box [box [El ''svg'' [] [] [], El ''h4'' [] [] [Txt ''Permissions'']],
                    box (map scope_box (key_scopes k) @
                      when_do (key_scopes k = []) [El ''p'' [] [] [Txt ''No scopes configured'']])],
               box [box [box [El ''svg'' [] [] [], El ''h4'' [] [] [Txt ''Usage example'']],
                      El ''button'' [] [On ''click'' CopyExample]
                        [El ''svg'' [] [] [], Txt (if copiedExample s then ''Copied'' else ''Copy'')]],
                    El ''pre'' [] [] [Txt (generateUsageExample k)]],
               small_button False False CloseDetail ''Close'']]) []"

definition expiry_options :: "(string \<times> string) list" where
  "expiry_options = [([], ''Never expires''), (''24h'', ''24 hours''), (''720h'', ''30 days''), (''2160h'', ''90 days''), (''8760h'', ''1 year'')]"

definition create_modal :: "keys_part \<Rightarrow> keys_event vnode list" where
  "create_modal s =
     Modal (showCreateKey s) CloseNewKey (Some ''Create API key'') None
       [El ''form'' [] [On ''submit'' SubmitKey]
          ([text_input ''Key name'' [(''placeholder'', ''e.g. Production server'')] (newKeyName s) SetKeyName,
            box [El ''label'' [] [] [Txt ''Scopes''],
              box (map (\<lambda>x. El ''button'' [(''type'', ''button'')] [On ''click'' (ToggleScope x)] [Txt x]) availableScopes),
              El ''p'' [] [] [Txt ''Select what this key can access'']],
            select_box ''Expiration (optional)'' (newKeyExpiry s) expiry_options SetExpiry] @
           when_do (newKeyScopes s = []) [El ''p'' [] [] [Txt ''Select at least one scope'']] @
           [box [small_button False False CloseNewKey ''Cancel'',
                 submit_control (createKeyLoading s) (newKeyName s = [] \<or> newKeyScopes s = []) [Txt ''Create key'']]])] []"

definition keys_view :: "calendar \<Rightarrow> int \<Rightarrow> keys_part \<Rightarrow> keys_event vnode list" where
  "keys_view c now s = [keys_card c now s] @ detail_modal c now s @ create_modal s"

section \<open>Identity verification\<close>

datatype kyc_call =
    LoadKyc
  | SubmitKyc jsval

record kyc_part =
  kycStatus :: string
  showKYCForm :: bool
  kycFullName :: string
  kycDocType :: string
  kycDocNumber :: string
  kycDocUrl :: string
  kycMsg :: msg
  kycLoading :: bool
  ky_calls :: "kyc_call list"

datatype kyc_event =
    OpenKyc
  | CloseKyc
  | SetKycName string
  | SetKycType string
  | SetKycNumber string
  | SetKycUrl string
  | SubmitKycForm
  | KycSettles kyc_call "js_error + jsval"

fun kyc_service :: "kyc_call \<Rightarrow> service" where
  "kyc_service LoadKyc = getKycStatus"
| "kyc_service (SubmitKyc form) = submitKyc form"

definition kyc_mount :: kyc_part where
  "kyc_mount = \<lparr>kycStatus = ''not_submitted'', showKYCForm = False, kycFullName = [], kycDocType = ''passport'',
     kycDocNumber = [], kycDocUrl = [], kycMsg = None, kycLoading = False, ky_calls = [LoadKyc]\<rparr>"

definition kyc_loaded :: "js_error + jsval \<Rightarrow> kyc_part \<Rightarrow> kyc_part" where
  "kyc_loaded r s =
     (case r of
        Inl e \<Rightarrow> s
      | Inr d \<Rightarrow>
          if nullish d then s else
            s\<lparr>kycStatus := shown_text (opt_get d ''status''),
              kycFullName := (let n = opt_get d ''full_name'' in if truthy n then shown_text n else kycFullName s),
              kycDocType := (let t = opt_get d ''document_type'' in if truthy t then shown_text t else kycDocType s)\<rparr>)"

definition kyc_form :: "kyc_part \<Rightarrow> jsval" where
  "kyc_form s = JObj [(''full_name'', JStr (kycFullName s)), (''document_type'', JStr (kycDocType s)),
     (''document_number'', JStr (kycDocNumber s)), (''document_url'', JStr (kycDocUrl s))]"

definition handleKYCSubmit :: "kyc_part \<Rightarrow> kyc_part" where
  "handleKYCSubmit s = s\<lparr>kycLoading := True, kycMsg := None, ky_calls := ky_calls s @ [SubmitKyc (kyc_form s)]\<rparr>"

definition kyc_submitted :: "js_error + jsval \<Rightarrow> kyc_part \<Rightarrow> kyc_part" where
  "kyc_submitted r s =
     (case r of
        Inl e \<Rightarrow> s\<lparr>kycMsg := Some (False, err_message e)\<rparr>
      | Inr d \<Rightarrow> s\<lparr>kycStatus := ''pending'', showKYCForm := False, kycMsg := Some (True, ''KYC submitted for review'')\<rparr>)
       \<lparr>kycLoading := False\<rparr>"

definition kyc_settles :: "kyc_call \<Rightarrow> js_error + jsval \<Rightarrow> kyc_part \<Rightarrow> kyc_part" where
  "kyc_settles c r s =
     (case c of LoadKyc \<Rightarrow> kyc_loaded r s | SubmitKyc form \<Rightarrow> kyc_submitted r s)\<lparr>ky_calls := remove1 c (ky_calls s)\<rparr>"

fun kyc_step :: "kyc_part \<Rightarrow> kyc_event \<Rightarrow> kyc_part" where
  "kyc_step s OpenKyc = s\<lparr>showKYCForm := True\<rparr>"
| "kyc_step s CloseKyc = s\<lparr>showKYCForm := False\<rparr>"
| "kyc_step s (SetKycName t) = s\<lparr>kycFullName := t\<rparr>"
| "kyc_step s (SetKycType t) = s\<lparr>kycDocType := t\<rparr>"
| "kyc_step s (SetKycNumber t) = s\<lparr>kycDocNumber := t\<rparr>"
| "kyc_step s (SetKycUrl t) = s\<lparr>kycDocUrl := t\<rparr>"
| "kyc_step s SubmitKycForm = handleKYCSubmit s"
| "kyc_step s (KycSettles c r) = (if c \<in> set (ky_calls s) then kyc_settles c r s else s)"

definition kycStatusLabel :: "string \<Rightarrow> string" where
  "kycStatusLabel st =
     (case map_of [(''verified'', ''Verified''), (''pending'', ''Pending review''), (''rejected'', ''Rejected''),
        (''not_submitted'', ''Not submitted'')] st of Some t \<Rightarrow> t | None \<Rightarrow> ''Unknown'')"

definition kyc_card :: "kyc_part \<Rightarrow> kyc_event vnode" where
  "kyc_card s =
     Card False
       ([CardHeader [box [box [], CardTitle [Txt ''Identity verification'']]]] @ MsgBanner (kycMsg s) @
        [box ([box [El ''p'' [] [] [Txt ''KYC Status''], Badge False [Txt (kycStatusLabel (kycStatus s))]]] @
           (if kycStatus s = ''not_submitted'' \<or> kycStatus s = ''rejected'' then [small_button False False OpenKyc ''Submit'']
            else if kycStatus s = ''pending'' then [span [Txt ''Under review'']] else []))])"

definition doc_types :: "(string \<times> string) list" where
  "doc_types = [(''passport'', ''Passport''), (''drivers_license'', ''Driver's License''), (''national_id'', ''National ID'')]"

definition kyc_modal :: "kyc_part \<Rightarrow> kyc_event vnode list" where
  "kyc_modal s =
     Modal (showKYCForm s) CloseKyc (Some ''Submit identity verification'') None
       [El ''form'' [] [On ''submit'' SubmitKycForm]
          [text_input ''Full legal name'' [(''placeholder'', ''As shown on your ID'')] (kycFullName s) SetKycName,
           select_box ''Document type'' (kycDocType s) doc_types SetKycType,
           text_input ''Document number'' [(''placeholder'', ''e.g. AB1234567'')] (kycDocNumber s) SetKycNumber,
           hinted_input ''Document URL'' [(''placeholder'', ''https://drive.google.com/...'')]
             ''Link to a scanned copy of your document'' (kycDocUrl s) SetKycUrl,
           box [small_button False False CloseKyc ''Cancel'', submit_control (kycLoading s) False [Txt ''Submit for review'']]]] []"

definition kyc_view :: "kyc_part \<Rightarrow> kyc_event vnode list" where
  "kyc_view s = [kyc_card s] @ kyc_modal s"

section \<open>The page\<close>

record settings_page =
  st_profile :: profile_part
  st_password :: password_part
  st_twofa :: twofa_part
  st_notif :: notif_part
  st_sessions :: sessions_part
  st_keys :: keys_part
  st_kyc :: kyc_part

datatype settings_event =
    Profile profile_event
  | Password password_event
  | TwoFA twofa_event
  | Notif notif_event
  | Sessions sessions_event
  | Keys keys_event
  | Kyc kyc_event

definition settings_mount :: "auth_world \<Rightarrow> settings_page" where
  "settings_mount w = \<lparr>st_profile = profile_mount w, st_password = password_initial, st_twofa = twofa_mount,
     st_notif = notif_mount, st_sessions = sessions_mount, st_keys = keys_mount, st_kyc = kyc_mount\<rparr>"

fun settings_step :: "settings_page \<Rightarrow> settings_event \<Rightarrow> settings_page" where
  "settings_step s (Profile e) = s\<lparr>st_profile := profile_step (st_profile s) e\<rparr>"
| "settings_step s (Password e) = s\<lparr>st_password := password_step (st_password s) e\<rparr>"
| "settings_step s (TwoFA e) = s\<lparr>st_twofa := twofa_step (st_twofa s) e\<rparr>"
| "settings_step s (Notif e) = s\<lparr>st_notif := notif_step (st_notif s) e\<rparr>"
| "settings_step s (Sessions e) = s\<lparr>st_sessions := sessions_step (st_sessions s) e\<rparr>"
| "settings_step s (Keys e) = s\<lparr>st_keys := keys_step (st_keys s) e\<rparr>"
| "settings_step s (Kyc e) = s\<lparr>st_kyc := kyc_step (st_kyc s) e\<rparr>"

definition is_staff :: "jsval \<Rightarrow> bool" where
  "is_staff u \<longleftrightarrow> opt_get u ''role'' = JStr ''admin'' \<or> opt_get u ''role'' = JStr ''staff''"

definition settings_user :: "settings_page \<Rightarrow> jsval" where
  "settings_user s = user (fst (pf_auth (st_profile s)))"

definition security_card :: "settings_page \<Rightarrow> settings_event vnode" where
  "security_card s =
     (let fact = (\<lambda>l v. box [span [Txt l], v])
      in Card False [CardHeader [box [box [], CardTitle [Txt ''Security'']]],
           box ([fact ''Password'' (Badge False [Txt ''Set'']),
              fact ''Two-factor auth'' (Badge False [Txt (if twoFAEnabled (st_twofa s) then ''On'' else ''Off'')])] @
             when_do (\<not> is_staff (settings_user s))
               [fact ''KYC verification'' (Badge False [Txt (kycStatusLabel (kycStatus (st_kyc s)))])] @
             [fact ''Last login'' (span [Txt (if truthy (settings_user s) then ''Current session'' else ''-'')])])])"

definition settings_hero :: "'e vnode" where
  "settings_hero = box [box [El ''h1'' [] [] [span [Txt ''Settings'']],
     El ''p'' [] [] [Txt ''Manage your account, security, and preferences'']]]"

definition settings_view :: "calendar \<Rightarrow> int \<Rightarrow> settings_page \<Rightarrow> settings_event vnode list" where
  "settings_view c now s =
     (let member = \<not> is_staff (settings_user s)
      in [settings_hero,
          box [box ([vmap Profile (profile_card (st_profile s)), vmap Password (password_card (st_password s)),
                 vmap Notif (notif_card (st_notif s)), vmap Sessions (sessions_card c now (st_sessions s))] @
                 when_do member [vmap Keys (keys_card c now (st_keys s))]),
               box ([vmap TwoFA (twofa_card (st_twofa s))] @ when_do member [vmap Kyc (kyc_card (st_kyc s))] @ [security_card s])]] @
         map (vmap TwoFA) (setup_modal (st_twofa s) @ disable_modal (st_twofa s)) @
         map (vmap Kyc) (kyc_modal (st_kyc s)) @
         map (vmap Keys) (detail_modal c now (st_keys s) @ create_modal (st_keys s)))"

end
