(* ===== verification/SettingsProofs.thy ===== *)
theory SettingsProofs
  imports Settings Router
begin

text \<open>
  What the settings page guarantees: the requests its sections send and when, the status of the
  second factor against the answers of the server, the preferences, the list of API keys, and
  what a profile update does to the authentication store.
\<close>

section \<open>What the sections let the user do\<close>

lemma nodes_eye_button:
  "list_all filled (nodes (eye_button e))" "\<not> list_ex submit_button (nodes (eye_button e))"
  by (simp_all add: eye_button_def)

lemma nodes_MsgBanner:
  "list_all filled (concat (map nodes (MsgBanner m)))" "\<not> list_ex submit_button (concat (map nodes (MsgBanner m)))"
  by (auto simp: MsgBanner_def split: option.splits)

lemmas settings_form_simps = form_simps nodes_eye_button nodes_MsgBanner

lemma fire_SubmitProfile: "may_fire (profile_card s) SubmitProfile \<longleftrightarrow> \<not> pf_loading s"
  by (auto simp: profile_card_def settings_form_simps Input_def input_id_def when_do_def opt_attr_def)

lemma fire_SubmitPassword:
  "may_fire (password_card s) SubmitPassword \<longleftrightarrow>
     \<not> pw_loading s \<and> currentPassword s \<noteq> [] \<and> 8 \<le> length (newPassword s)"
  by (auto simp: password_card_def settings_form_simps eye_button_def)

lemma fire_twofa:
  "list_fire (twofa_view s) Enable2FA \<longleftrightarrow> \<not> twoFAEnabled s \<and> \<not> tf_loading s"
  "list_fire (twofa_view s) SubmitVerify \<longleftrightarrow> showSetup2FA s \<and> \<not> tf_loading s \<and> length (setupCode s) = 6"
  "list_fire (twofa_view s) SubmitDisable \<longleftrightarrow> showDisable2FA s \<and> \<not> tf_loading s \<and> length (disableCode s) = 6"
  by (auto simp: twofa_view_def twofa_card_def setup_modal_def disable_modal_def)

lemma fire_SubmitPrefs: "may_fire (notif_card s) SubmitPrefs \<longleftrightarrow> \<not> nf_loading s"
  by (auto simp: notif_card_def split: option.splits)

lemma scope_box_fires [simp]: "\<not> may_fire (scope_box x) e"
  by (auto simp: scope_box_def split: option.splits)

lemma key_row_fires [simp]:
  "may_fire (key_row c now k) e \<longleftrightarrow> e = ShowDetail k \<or> e = ClickRevokeKey (shown_text (opt_get k ''id''))"
  by (auto simp: key_row_def)

lemma keys_card_fires:
  "may_fire (keys_card c now s) e \<longleftrightarrow>
     e = NewKey \<or> createdKeyValue s \<noteq> [] \<and> (e = CopyKey \<or> e = DismissKey) \<or>
     \<not> apiKeysLoading s \<and> (\<exists>k \<in> set (apiKeys s). e = ShowDetail k \<or> e = ClickRevokeKey (shown_text (opt_get k ''id'')))"
  by (auto simp: keys_card_def created_key_box_def list_fire_map)

lemma detail_modal_fires:
  "list_fire (detail_modal c now s) e \<longleftrightarrow> detailKey s \<noteq> None \<and> (e = CloseDetail \<or> e = CopyExample)"
  by (auto simp: detail_modal_def list_fire_map split: option.splits)

lemma create_modal_fires:
  "list_fire (create_modal s) e \<longleftrightarrow>
     showCreateKey s \<and>
     (e = CloseNewKey \<or> (\<exists>t. e = SetKeyName t \<or> e = SetExpiry t) \<or> (\<exists>x \<in> set availableScopes. e = ToggleScope x) \<or>
      e = SubmitKey \<and> \<not> createKeyLoading s \<and> newKeyName s \<noteq> [] \<and> newKeyScopes s \<noteq> [])"
  by (cases "newKeyScopes s = []")
    (auto simp: create_modal_def availableScopes_def settings_form_simps)

lemma fire_keys:
  "list_fire (keys_view c now s) SubmitKey \<longleftrightarrow>
     showCreateKey s \<and> \<not> createKeyLoading s \<and> newKeyName s \<noteq> [] \<and> newKeyScopes s \<noteq> []"
  "list_fire (keys_view c now s) (ToggleScope x) \<longleftrightarrow> showCreateKey s \<and> x \<in> set availableScopes"
  by (auto simp: keys_view_def keys_card_fires detail_modal_fires create_modal_fires)

lemma fire_SubmitKycForm:
  "list_fire (kyc_view s) SubmitKycForm \<longleftrightarrow>
     showKYCForm s \<and> \<not> kycLoading s \<and> kycFullName s \<noteq> [] \<and> kycDocNumber s \<noteq> [] \<and> kycDocUrl s \<noteq> []"
  by (auto simp: kyc_view_def kyc_card_def kyc_modal_def settings_form_simps)

lemma security_card_fires [simp]: "\<not> may_fire (security_card s) e"
  by (auto simp: security_card_def Let_def)

lemma settings_view_fires:
  "list_fire (settings_view c now s) (Profile e1) \<longleftrightarrow> may_fire (profile_card (st_profile s)) e1"
  "list_fire (settings_view c now s) (Password e2) \<longleftrightarrow> may_fire (password_card (st_password s)) e2"
  "list_fire (settings_view c now s) (TwoFA e3) \<longleftrightarrow> list_fire (twofa_view (st_twofa s)) e3"
  "list_fire (settings_view c now s) (Notif e4) \<longleftrightarrow> may_fire (notif_card (st_notif s)) e4"
  "list_fire (settings_view c now s) (Sessions e5) \<longleftrightarrow> may_fire (sessions_card c now (st_sessions s)) e5"
  "list_fire (settings_view c now s) (Keys e6) \<Longrightarrow> list_fire (keys_view c now (st_keys s)) e6"
  "list_fire (settings_view c now s) (Kyc e7) \<Longrightarrow> list_fire (kyc_view (st_kyc s)) e7"
  by (auto simp: settings_view_def settings_hero_def Let_def may_fire_vmap list_fire_vmap twofa_view_def keys_view_def kyc_view_def
      simp flip: map_append)

section \<open>The invariants of the sections\<close>

fun is_update :: "profile_call \<Rightarrow> bool" where
  "is_update LoadProfile = False"
| "is_update (UpdateProfile u n) = True"

definition profile_inv :: "profile_part \<Rightarrow> bool" where
  "profile_inv s \<longleftrightarrow> one_at_a_time (pf_loading s) is_update (pf_calls s)"

definition password_inv :: "password_part \<Rightarrow> bool" where
  "password_inv s \<longleftrightarrow>
     one_at_a_time (pw_loading s) (\<lambda>c. True) (pw_calls s) \<and>
     list_all (\<lambda>(cur, new). cur \<noteq> [] \<and> 8 \<le> length new) (pw_calls s)"

definition six_digits :: "string \<Rightarrow> bool" where
  "six_digits code \<longleftrightarrow> length code = 6 \<and> list_all is_digit code"

fun twofa_call_ok :: "twofa_call \<Rightarrow> bool" where
  "twofa_call_ok (Verify code) = six_digits code"
| "twofa_call_ok (Disable code) = six_digits code"
| "twofa_call_ok _ = True"

definition twofa_inv :: "twofa_part \<Rightarrow> bool" where
  "twofa_inv s \<longleftrightarrow>
     one_at_a_time (tf_loading s) (\<lambda>c. c \<noteq> LoadStatus) (tf_calls s) \<and>
     list_all is_digit (setupCode s) \<and> list_all is_digit (disableCode s) \<and> list_all twofa_call_ok (tf_calls s)"

fun is_save :: "notif_call \<Rightarrow> bool" where
  "is_save LoadPrefs = False"
| "is_save (SavePrefs p) = True"

definition notif_inv :: "notif_part \<Rightarrow> bool" where
  "notif_inv s \<longleftrightarrow> one_at_a_time (nf_loading s) is_save (nf_calls s)"

text \<open>A creation is under way from its request to the end of the reload that follows it.\<close>

fun creating :: "keys_call \<Rightarrow> bool" where
  "creating (CreateKey form) = True"
| "creating (LoadKeys w) = (w = Following)"
| "creating (RevokeKey i) = False"

definition key_form_ok :: "jsval \<Rightarrow> bool" where
  "key_form_ok form \<longleftrightarrow>
     (\<exists>label scopes expiry. form = JObj [(''label'', JStr label), (''scopes'', JArr (map JStr scopes)), (''expires_in'', expiry)] \<and>
        label \<noteq> [] \<and> scopes \<noteq> [] \<and> distinct scopes \<and> set scopes \<subseteq> set availableScopes)"

fun keys_call_ok :: "keys_call \<Rightarrow> bool" where
  "keys_call_ok (CreateKey form) = key_form_ok form"
| "keys_call_ok _ = True"

definition unrevoked :: "jsval \<Rightarrow> bool" where
  "unrevoked k \<longleftrightarrow> \<not> truthy (opt_get k ''revoked_at'')"

definition keys_inv :: "keys_part \<Rightarrow> bool" where
  "keys_inv s \<longleftrightarrow>
     one_at_a_time (createKeyLoading s) creating (ak_calls s) \<and> list_all keys_call_ok (ak_calls s) \<and>
     distinct (newKeyScopes s) \<and> set (newKeyScopes s) \<subseteq> set availableScopes \<and> list_all unrevoked (apiKeys s)"

fun is_submission :: "kyc_call \<Rightarrow> bool" where
  "is_submission LoadKyc = False"
| "is_submission (SubmitKyc form) = True"

definition kyc_form_ok :: "jsval \<Rightarrow> bool" where
  "kyc_form_ok form \<longleftrightarrow>
     (\<forall>k \<in> {''full_name'', ''document_number'', ''document_url''}. \<exists>t. opt_get form k = JStr t \<and> t \<noteq> [])"

fun kyc_call_ok :: "kyc_call \<Rightarrow> bool" where
  "kyc_call_ok (SubmitKyc form) = kyc_form_ok form"
| "kyc_call_ok LoadKyc = True"

definition kyc_inv :: "kyc_part \<Rightarrow> bool" where
  "kyc_inv s \<longleftrightarrow> one_at_a_time (kycLoading s) is_submission (ky_calls s) \<and> list_all kyc_call_ok (ky_calls s)"

lemmas section_invs = profile_inv_def password_inv_def twofa_inv_def notif_inv_def keys_inv_def kyc_inv_def

lemma profile_step_inv:
  assumes "profile_inv s" and "e = SubmitProfile \<longrightarrow> \<not> pf_loading s"
  shows "profile_inv (profile_step s e)"
proof (cases e)
  case (ProfileSettles c r)
  show ?thesis
  proof (cases "c \<in> set (pf_calls s)")
    case True
    show ?thesis
    proof (cases c)
      case LoadProfile
      then show ?thesis using True assms(1) ProfileSettles
        by (auto simp: profile_settles_def profile_loaded_def profile_inv_def one_at_a_time_other split: sum.split)
    next
      case (UpdateProfile u n)
      then show ?thesis using True assms(1) ProfileSettles
        by (auto simp: profile_settles_def profile_updated_def profile_inv_def one_at_a_time_settle split: sum.split)
    qed
  qed (use assms(1) ProfileSettles in simp)
qed (use assms in \<open>auto simp: profile_inv_def handleProfileUpdate_def one_at_a_time_start\<close>)

lemma password_step_inv:
  assumes "password_inv s"
    and "e = SubmitPassword \<longrightarrow> \<not> pw_loading s \<and> currentPassword s \<noteq> [] \<and> 8 \<le> length (newPassword s)"
  shows "password_inv (password_step s e)"
proof (cases e)
  case (PasswordSettles c r)
  then show ?thesis using assms(1)
    by (auto simp: password_inv_def password_settles_def list_all_remove1 one_at_a_time_settle split: sum.split)
qed (use assms in \<open>auto simp: password_inv_def handlePasswordChange_def one_at_a_time_start\<close>)

lemma notif_step_inv:
  assumes "notif_inv s" and "e = SubmitPrefs \<longrightarrow> \<not> nf_loading s"
  shows "notif_inv (notif_step s e)"
proof (cases e)
  case (NotifSettles c r)
  show ?thesis
  proof (cases c)
    case LoadPrefs
    then show ?thesis using assms(1) NotifSettles
      by (auto simp: notif_settles_def prefs_loaded_def notif_inv_def one_at_a_time_other split: sum.split)
  next
    case (SavePrefs p)
    then show ?thesis using assms(1) NotifSettles
      by (auto simp: notif_settles_def prefs_saved_def notif_inv_def one_at_a_time_settle split: sum.split)
  qed
next
  case (SetPref p b)
  then show ?thesis using assms(1) by (cases p) (simp_all add: notif_inv_def)
qed (use assms in \<open>auto simp: notif_inv_def handleSaveNotifications_def one_at_a_time_start\<close>)

lemma kyc_step_inv:
  assumes "kyc_inv s"
    and "e = SubmitKycForm \<longrightarrow> \<not> kycLoading s \<and> kycFullName s \<noteq> [] \<and> kycDocNumber s \<noteq> [] \<and> kycDocUrl s \<noteq> []"
  shows "kyc_inv (kyc_step s e)"
proof (cases e)
  case (KycSettles c r)
  show ?thesis
  proof (cases c)
    case LoadKyc
    then show ?thesis using assms(1) KycSettles
      by (auto simp: kyc_settles_def kyc_loaded_def kyc_inv_def one_at_a_time_other list_all_remove1 Let_def split: sum.split)
  next
    case (SubmitKyc p)
    then show ?thesis using assms(1) KycSettles
      by (auto simp: kyc_settles_def kyc_submitted_def kyc_inv_def one_at_a_time_settle list_all_remove1 split: sum.split)
  qed
qed (use assms in \<open>auto simp: kyc_inv_def handleKYCSubmit_def one_at_a_time_start kyc_form_def kyc_form_ok_def obj_get_def\<close>)

lemma twofa_settles_keeps:
  "tf_calls (twofa_settles c r s) = remove1 c (tf_calls s)"
  "tf_loading (twofa_settles c r s) = (c = LoadStatus \<and> tf_loading s)"
  "list_all is_digit (setupCode s) \<Longrightarrow> list_all is_digit (setupCode (twofa_settles c r s))"
  "list_all is_digit (disableCode s) \<Longrightarrow> list_all is_digit (disableCode (twofa_settles c r s))"
  by (auto simp: twofa_settles_def Let_def twofa_try_def sbind_eq_Inr split: sum.split twofa_call.split_asm)

lemma twofa_step_inv:
  assumes "twofa_inv s"
    and "e = Enable2FA \<longrightarrow> \<not> tf_loading s"
    and "e = SubmitVerify \<longrightarrow> \<not> tf_loading s \<and> length (setupCode s) = 6"
    and "e = SubmitDisable \<longrightarrow> \<not> tf_loading s \<and> length (disableCode s) = 6"
  shows "twofa_inv (twofa_step s e)"
proof (cases e)
  case (TwoFASettles c r)
  show ?thesis
  proof (cases "c = LoadStatus")
    case True
    then show ?thesis using assms(1) TwoFASettles
      by (auto simp: twofa_inv_def twofa_settles_keeps one_at_a_time_other list_all_remove1)
  next
    case False
    then show ?thesis using assms(1) TwoFASettles one_at_a_time_settle [of "tf_loading s" "\<lambda>c. c \<noteq> LoadStatus" "tf_calls s" c]
      by (auto simp: twofa_inv_def twofa_settles_keeps list_all_remove1)
  qed
qed (use assms in \<open>auto simp: twofa_inv_def handleSetup2FA_def handleVerify2FA_def handleDisable2FA_def twofa_start_def
      one_at_a_time_start six_digits_def digits_take\<close>)

lemma keys_inv_load:
  "keys_inv s \<Longrightarrow> LoadKeys w \<in> set (ak_calls s) \<Longrightarrow>
     keys_inv (keys_loaded w r (s\<lparr>ak_calls := remove1 (LoadKeys w) (ak_calls s)\<rparr>))"
  using one_at_a_time_settle [of "createKeyLoading s" creating "ak_calls s" "LoadKeys w"]
  by (cases w)
    (auto simp: keys_inv_def keys_loaded_def Let_def list_all_remove1 one_at_a_time_other unrevoked_def list_all_iff split: sum.split)

lemma keys_inv_create:
  assumes "keys_inv s" and "CreateKey form \<in> set (ak_calls s)"
  shows "keys_inv (key_created r (s\<lparr>ak_calls := remove1 (CreateKey form) (ak_calls s)\<rparr>))"
proof -
  have free: "one_at_a_time False creating (remove1 (CreateKey form) (ak_calls s))"
    using assms by (auto simp: keys_inv_def intro: one_at_a_time_settle)
  have "createKeyLoading s"
    using assms by (force simp: keys_inv_def one_at_a_time_def filter_empty_conv)
  with assms(1) show ?thesis
    by (auto simp: keys_inv_def key_created_def loadApiKeys_def list_all_remove1 free one_at_a_time_start [OF free]
        availableScopes_def split: sum.split)
qed

lemma keys_inv_revoke:
  "keys_inv s \<Longrightarrow> keys_inv (key_revoked i r (s\<lparr>ak_calls := remove1 (RevokeKey i) (ak_calls s)\<rparr>))"
  by (auto simp: keys_inv_def key_revoked_def list_all_remove1 one_at_a_time_other list_all_iff split: sum.split
      dest: list_all_remove1)

lemma keys_step_inv:
  assumes "keys_inv s"
    and "e = SubmitKey \<longrightarrow> \<not> createKeyLoading s \<and> newKeyName s \<noteq> [] \<and> newKeyScopes s \<noteq> []"
    and "\<forall>x. e = ToggleScope x \<longrightarrow> x \<in> set availableScopes"
  shows "keys_inv (keys_step s e)"
proof (cases e)
  case (KeysSettle c r)
  then show ?thesis
    using assms(1) by (cases c) (auto simp: keys_settle_def intro: keys_inv_load keys_inv_create keys_inv_revoke)
next
  case (ToggleScope x)
  then show ?thesis using assms by (auto simp: keys_inv_def toggleScope_def)
next
  case SubmitKey
  have "key_form_ok (key_form s)"
    using assms(1,2) SubmitKey by (auto simp: keys_inv_def key_form_ok_def key_form_def)
  then show ?thesis
    using assms(1,2) SubmitKey by (simp add: keys_inv_def handleCreateApiKey_def one_at_a_time_start)
next
  case NewKey
  then show ?thesis using assms(1) by (simp add: keys_inv_def availableScopes_def)
qed (use assms(1) in \<open>simp_all add: keys_inv_def handleRevokeApiKey_def one_at_a_time_other\<close>)

section \<open>The page as a machine\<close>

definition settings_inv :: "settings_page \<Rightarrow> bool" where
  "settings_inv s \<longleftrightarrow>
     profile_inv (st_profile s) \<and> password_inv (st_password s) \<and> twofa_inv (st_twofa s) \<and>
     notif_inv (st_notif s) \<and> keys_inv (st_keys s) \<and> kyc_inv (st_kyc s)"

text \<open>The events that are not the user's: settling requests, the store, the clipboard and its timeouts.\<close>

fun ambient :: "settings_event \<Rightarrow> bool" where
  "ambient (Profile (ProfileSettles c r)) = True"
| "ambient (Profile (StoreActs a)) = True"
| "ambient (Password (PasswordSettles c r)) = True"
| "ambient (TwoFA (TwoFASettles c r)) = True"
| "ambient (Notif (NotifSettles c r)) = True"
| "ambient (Sessions (SessionsSettle c r)) = True"
| "ambient (Keys (KeysSettle c r)) = True"
| "ambient (Keys e) = (e \<in> {KeyCopied, KeyCopyFades, ExampleCopied, ExampleCopyFades})"
| "ambient (Kyc (KycSettles c r)) = True"
| "ambient e = False"

definition settings_possible :: "calendar \<Rightarrow> int \<Rightarrow> settings_page \<Rightarrow> settings_event \<Rightarrow> bool" where
  "settings_possible c now s e \<longleftrightarrow> ambient e \<or> list_fire (settings_view c now s) e"

lemma settings_step_inv:
  assumes "settings_inv s" and "settings_possible c now s e"
  shows "settings_inv (settings_step s e)"
proof (cases e)
  case (Profile e')
  then have "profile_inv (profile_step (st_profile s) e')"
    using assms by (intro profile_step_inv) (auto simp: settings_inv_def settings_possible_def settings_view_fires fire_SubmitProfile)
  with assms(1) Profile show ?thesis by (simp add: settings_inv_def)
next
  case (Password e')
  then have "password_inv (password_step (st_password s) e')"
    using assms by (intro password_step_inv) (auto simp: settings_inv_def settings_possible_def settings_view_fires fire_SubmitPassword)
  with assms(1) Password show ?thesis by (simp add: settings_inv_def)
next
  case (TwoFA e')
  then have "twofa_inv (twofa_step (st_twofa s) e')"
    using assms by (intro twofa_step_inv) (auto simp: settings_inv_def settings_possible_def settings_view_fires fire_twofa)
  with assms(1) TwoFA show ?thesis by (simp add: settings_inv_def)
next
  case (Notif e')
  then have "notif_inv (notif_step (st_notif s) e')"
    using assms by (intro notif_step_inv) (auto simp: settings_inv_def settings_possible_def settings_view_fires fire_SubmitPrefs)
  with assms(1) Notif show ?thesis by (simp add: settings_inv_def)
next
  case (Sessions e')
  with assms(1) show ?thesis by (simp add: settings_inv_def)
next
  case (Keys e')
  then have "keys_inv (keys_step (st_keys s) e')"
    using assms by (intro keys_step_inv) (auto simp: settings_inv_def settings_possible_def fire_keys dest!: settings_view_fires(6))
  with assms(1) Keys show ?thesis by (simp add: settings_inv_def)
next
  case (Kyc e')
  then have "kyc_inv (kyc_step (st_kyc s) e')"
    using assms by (intro kyc_step_inv)
      (auto simp: settings_inv_def settings_possible_def fire_SubmitKycForm dest!: settings_view_fires(7))
  with assms(1) Kyc show ?thesis by (simp add: settings_inv_def)
qed

interpretation settings: machine settings_step "settings_possible c now" settings_inv for c now
  by unfold_locales (rule settings_step_inv)

lemma settings_inv_mount: "settings_inv (settings_mount w)"
  by (simp add: settings_inv_def settings_mount_def profile_mount_def password_initial_def twofa_mount_def
      notif_mount_def keys_mount_def loadApiKeys_def kyc_mount_def section_invs one_at_a_time_first)
    (simp add: one_at_a_time_def availableScopes_def)

section \<open>Properties of the page\<close>


definition password_session :: "settings_event list" where
  "password_session = [Password (SetCurrent ''old''), Password (SetNew ''12345678''), Password SubmitPassword]"

lemma password_session_possible: "settings.admissible c now (settings_mount w) password_session"
  by (simp add: password_session_def settings_possible_def settings_view_fires fire_SubmitPassword settings_mount_def
      password_initial_def) (simp add: password_card_def)


text \<open>
  The abstract view of the second factor: what the last successful answer of the server said.
\<close>

fun answer_says :: "bool \<Rightarrow> twofa_call \<times> (js_error + jsval) \<Rightarrow> bool" where
  "answer_says b (c, Inl e) = b"
| "answer_says b (LoadStatus, Inr d) = (if nullish d then b else truthy (opt_get d ''enabled''))"
| "answer_says b (Setup, Inr d) = b"
| "answer_says b (Verify code, Inr d) = True"
| "answer_says b (Disable code, Inr d) = False"

text \<open>The answers a run takes in: those to requests in flight.\<close>

fun answers :: "twofa_part \<Rightarrow> twofa_event list \<Rightarrow> (twofa_call \<times> (js_error + jsval)) list" where
  "answers s [] = []"
| "answers s (e # es) =
     (case e of TwoFASettles c r \<Rightarrow> if c \<in> set (tf_calls s) then [(c, r)] else [] | _ \<Rightarrow> []) @ answers (twofa_step s e) es"

lemma twofa_settles_says: "twoFAEnabled (twofa_settles c r s) = answer_says (twoFAEnabled s) (c, r)"
proof (cases r)
  case (Inr d)
  show ?thesis
  proof (cases "nullish d")
    case True
    then obtain e1 e2 where "js_get d ''enabled'' = Inl e1" "js_get d ''secret'' = Inl e2"
      using js_get_absent by blast
    with Inr True show ?thesis by (cases c) (simp_all add: twofa_settles_def twofa_try_def)
  next
    case False
    with Inr show ?thesis by (cases c) (simp_all add: twofa_settles_def twofa_try_def js_get_present)
  qed
qed (simp add: twofa_settles_def)

lemma twofa_step_says:
  "twoFAEnabled (twofa_step s e) =
     foldl answer_says (twoFAEnabled s)
       (case e of TwoFASettles c r \<Rightarrow> if c \<in> set (tf_calls s) then [(c, r)] else [] | _ \<Rightarrow> [])"
  by (cases e) (auto simp: twofa_settles_says handleSetup2FA_def handleVerify2FA_def handleDisable2FA_def twofa_start_def)


text \<open>
  A profile update changes the name and nothing else, and a late one cannot reopen the
  application. When it succeeds, the user of the store becomes the user it was sent for with the
  name of the answer, every other field (the role among them) as it was, and the session
  storage is untouched. If the user logged out in the meantime the store says it is
  authenticated again, but there is no session, and every navigation from outside the protected
  pages still ends at a public page.
\<close>

theorem late_profile_update_is_contained:
  assumes "route_matcher m" and "UpdateProfile u n \<in> set (pf_calls s)" and "u = JObj kvs"
    and "s1 = profile_step s (StoreActs Logout)"
    and "s2 = profile_step s1 (ProfileSettles (UpdateProfile u n) (Inr (JObj d)))"
  shows "(\<forall>f. f \<noteq> ''name'' \<longrightarrow> opt_get (user (fst (pf_auth s2))) f = opt_get u f)
    \<and> opt_get (user (fst (pf_auth s2))) ''name'' = JStr (to_str (coalesce (obj_get d ''name'') (JStr n)))
    \<and> snd (pf_auth s2) = snd (pf_auth s1) \<and> isAuthenticated (fst (pf_auth s2))
    \<and> (resolve m k False (pf_auth s2) p = Some (Shown ls pg, q, w') \<longrightarrow> pg \<in> set public_pages)"
proof -
  have auth: "pf_auth s2 = setUser (with_name u (to_str (coalesce (obj_get d ''name'') (JStr n)))) (logout (pf_auth s))"
    using assms(2-5) by (simp add: profile_settles_def profile_updated_def)
  have "\<not> stored_session (snd (pf_auth s2))" by (simp add: auth setUser_def logout_def)
  then have "resolve m k False (pf_auth s2) p = Some (Shown ls pg, q, w') \<longrightarrow> pg \<in> set public_pages"
    using route_matcher.resolve_without_session [OF assms(1)] by blast
  then show ?thesis by (simp add: auth setUser_def with_name_def assms(3,4))
qed

definition editing_profile :: profile_part where
  "editing_profile = foldl profile_step (profile_mount (login (JStr ''t'') JUndef member_user (auth_initial, Map.empty)))
     [SetName ''Ann'', SubmitProfile]"

theorem late_profile_update_is_contained_witness:
  "isAuthenticated (fst (pf_auth (foldl profile_step editing_profile
      [StoreActs Logout, ProfileSettles (UpdateProfile member_user ''Ann'') (Inr (JObj []))])))"
proof -
  have "UpdateProfile member_user ''Ann'' \<in> set (pf_calls editing_profile)"
    by (simp add: editing_profile_def profile_mount_def handleProfileUpdate_def login_def)
  moreover obtain kvs where "member_user = JObj kvs" by (auto simp: member_user_def sample_user_def)
  ultimately have "isAuthenticated (fst (pf_auth (profile_step (profile_step editing_profile (StoreActs Logout))
      (ProfileSettles (UpdateProfile member_user ''Ann'') (Inr (JObj []))))))"
    using late_profile_update_is_contained [OF table_matcher _ _ refl refl, where s = editing_profile and d = "[]"] by blast
  then show ?thesis by (simp only: foldl.simps)
qed

text \<open>
  Preferences that were loaded and saved without a change are sent back as they came, and every
  toggle changes its own one and is undone by a second click.
\<close>

lemma preferences_round_trip:
  assumes "LoadPrefs \<in> set (nf_calls s)" and "conforms UserPreferences (JObj d)"
  shows "\<exists>p. nf_calls (foldl notif_step s [NotifSettles LoadPrefs (Inr (JObj d)), SubmitPrefs])
      = remove1 LoadPrefs (nf_calls s) @ [SavePrefs p]
    \<and> (\<forall>k \<in> {''email_notifications'', ''sms_notifications'', ''webhook_notifications'', ''billing_alerts'', ''security_alerts''}.
         opt_get p k = obj_get d k)"
  using assms(1)
  by (auto simp: notif_settles_def prefs_loaded_def nullish_def handleSaveNotifications_def prefs_payload_def obj_get_def)

lemma toggles_are_independent:
  "(p \<noteq> q \<longrightarrow> set_pref p v (set_pref q w s) = set_pref q w (set_pref p v s)) \<and> set_pref p v (set_pref p w s) = set_pref p v s"
  by (cases p; cases q) simp_all

text \<open>Revoking a key takes exactly its row out of the list, and shows that it did.\<close>

lemma revoked_key_leaves_the_list:
  assumes "RevokeKey i \<in> set (ak_calls s)" and "s' = keys_step s (KeysSettle (RevokeKey i) (Inr d))"
  shows "apiKeys s' = filter (\<lambda>k. \<not> has_id i k) (apiKeys s) \<and> apiKeyMsg s' = Some (True, ''API key revoked'')"
  using assms by (simp add: keys_settle_def key_revoked_def)

text \<open>Safari on a telephone is shown as a Mac: the branch for \<open>iphone\<close> is behind the one for \<open>safari\<close>.\<close>

lemma phones_look_like_macs:
  assumes "str_includes (map to_lower ua) ''safari''" and "\<not> str_includes (map to_lower ua) ''chrome''"
    and "\<not> str_includes (map to_lower ua) ''firefox''"
  shows "parseUA ua = (''Safari'', ''macOS'')"
  using assms by (simp add: parseUA_def Let_def)

end
