(* ===== verification/ListPage.thy ===== *)
theory ListPage
  imports JsValue Forms Selection
begin

text \<open>
  What the pages that list things share: the state of a query of \<open>react-query\<close>, the list and the
  number of pages in its answer, the mutations in flight, the notifications a page asks for,
  the simple pager, and the contract of an action on the selected items (the locale
  \<open>bulk_action\<close>). \<open>react-query\<close> is used as documented: a query is loading until its first answer
  or failure, keeps its data while it is fetched again, and a mutation runs its function on the
  values of the last render when it starts and its callbacks on those when it settles.
\<close>

section \<open>Queries\<close>

datatype query = Loading | Failed | Ready jsval

fun query_answered :: "js_error + jsval \<Rightarrow> query \<Rightarrow> query" where
  "query_answered (Inr d) q = Ready d"
| "query_answered (Inl e) (Ready d) = Ready d"
| "query_answered (Inl e) q = Failed"

definition query_data :: "query \<Rightarrow> jsval" where
  "query_data q = (case q of Ready d \<Rightarrow> d | _ \<Rightarrow> JUndef)"

text \<open>\<open>data?.data ?? []\<close> and \<open>data?.total_pages ?? 1\<close>.\<close>

definition page_rows :: "query \<Rightarrow> jsval list" where
  "page_rows q = items_of (coalesce (opt_get (query_data q) ''data'') (JArr []))"

definition page_count :: "query \<Rightarrow> int" where
  "page_count q = (case coalesce (opt_get (query_data q) ''total_pages'') (JNum 1) of JNum n \<Rightarrow> n | _ \<Rightarrow> 1)"

section \<open>Texts, notifications and the pager\<close>

text \<open>A notification is its message and its variant.\<close>

type_synonym notice = "string \<times> string"

definition note_ok :: "string \<Rightarrow> notice" where
  "note_ok m = (m, ''success'')"

definition note_error :: "js_error \<Rightarrow> string \<Rightarrow> notice" where
  "note_error e fallback = (if err_message e = [] then fallback else err_message e, ''error'')"

definition plural :: "nat \<Rightarrow> string" where
  "plural n = (if n > 1 then ''s'' else [])"

definition prev_page :: "int \<Rightarrow> int" where
  "prev_page p = max 1 (p - 1)"

definition next_page :: "int \<Rightarrow> int \<Rightarrow> int" where
  "next_page pages p = min pages (p + 1)"

definition simple_pager :: "int \<Rightarrow> int \<Rightarrow> 'e \<Rightarrow> 'e \<Rightarrow> 'e vnode list" where
  "simple_pager page pages back_event next_event =
     when_do (pages > 1)
       [box [small_button False (page = 1) back_event ''Prev'',
          span [Txt (''Page '' @ show_int page @ '' of '' @ show_int pages)],
          small_button False (page = pages) next_event ''Next'']]"

text \<open>The box of an item and the one that selects all.\<close>

definition select_icon :: "bool \<Rightarrow> 'e vnode" where
  "select_icon on = El ''svg'' (flag ''checked'' on) [] []"

definition item_box :: "string list \<Rightarrow> string \<Rightarrow> 'e \<Rightarrow> 'e vnode" where
  "item_box s i toggle = El ''button'' [] [On ''click'' toggle] [select_icon (i \<in> set s)]"

definition select_all_box :: "string list \<Rightarrow> string list \<Rightarrow> 'e \<Rightarrow> 'e vnode list" where
  "select_all_box ids s toggle =
     when_do (ids \<noteq> [])
       [box [El ''button'' [] [On ''click'' toggle]
          [select_icon (isAllSelected ids s), Txt (if isAllSelected ids s then ''Deselect all'' else ''Select all'')]]]"

lemma list_page_fires [simp]:
  "list_fire (simple_pager p n b f) e \<longleftrightarrow> 1 < n \<and> (p \<noteq> 1 \<and> e = b \<or> p \<noteq> n \<and> e = f)"
  "\<not> may_fire (select_icon c) e" "may_fire (item_box s i t) e \<longleftrightarrow> e = t"
  "list_fire (select_all_box ids s t) e \<longleftrightarrow> ids \<noteq> [] \<and> e = t"
  by (auto simp: simple_pager_def select_icon_def item_box_def select_all_box_def)

lemma pager_in_range:
  "1 \<le> p \<Longrightarrow> p \<le> n \<Longrightarrow> 1 \<le> prev_page p \<and> prev_page p \<le> n \<and> 1 \<le> next_page n p \<and> next_page n p \<le> n"
  by (simp add: prev_page_def next_page_def)

section \<open>Actions on the selection\<close>

text \<open>The arguments of the calls of one kind.\<close>

definition calls_of :: "('c \<Rightarrow> 'a option) \<Rightarrow> 'c list \<Rightarrow> 'a list" where
  "calls_of k cs = map the (filter (\<lambda>o'. o' \<noteq> None) (map k cs))"

lemma calls_of_simps [simp]:
  "calls_of k [] = []" "calls_of k (c # cs) = (case k c of None \<Rightarrow> [] | Some a \<Rightarrow> [a]) @ calls_of k cs"
  "calls_of k (cs @ ds) = calls_of k cs @ calls_of k ds"
  by (auto simp: calls_of_def split: option.split)

lemma calls_of_remove1:
  assumes "\<And>c'. k c' = Some a \<longleftrightarrow> c' = c"
  shows "calls_of k (remove1 c cs) = remove1 a (calls_of k cs)"
proof (induction cs)
  case (Cons d ds)
  show ?case
  proof (cases "d = c")
    case True
    then have "k d = Some a" using assms by blast
    with True show ?thesis by simp
  next
    case False
    then have "k d \<noteq> Some a" using assms by blast
    then show ?thesis using False Cons.IH by (cases "k d") auto
  qed
qed simp

lemma calls_of_other: "k c = None \<Longrightarrow> calls_of k (remove1 c cs) = calls_of k cs"
  by (induction cs) (auto split: option.split)

lemma calls_of_settled: "set (calls_of k (remove1 c cs)) \<subseteq> set (calls_of k cs) \<and> length (calls_of k (remove1 c cs)) \<le> length (calls_of k cs)"
  by (induction cs) (auto split: option.splits)

text \<open>At most one call of a kind is in flight.\<close>

definition lone :: "('c \<Rightarrow> 'a option) \<Rightarrow> 'c list \<Rightarrow> bool" where
  "lone k cs \<longleftrightarrow> length (calls_of k cs) \<le> 1"

lemma lone_simps [simp]:
  "lone k []" "lone k cs \<Longrightarrow> lone k (remove1 c cs)"
  "calls_of k cs = [] \<Longrightarrow> lone k (cs @ [c])" "k c = None \<Longrightarrow> lone k (cs @ [c]) = lone k cs"
  using calls_of_settled [of k c cs] by (auto simp: lone_def split: option.splits)

lemma calls_settled_all [simp]: "list_all P (calls_of k cs) \<Longrightarrow> list_all P (calls_of k (remove1 c cs))"
  using calls_of_settled [of k c cs] by (auto simp: list_all_iff)

lemma calls_of_iff: "a \<in> set (calls_of k cs) \<longleftrightarrow> (\<exists>c \<in> set cs. k c = Some a)"
  by (auto simp: calls_of_def image_iff)

text \<open>Once the only call of its kind is answered, none is in flight.\<close>

lemma lone_settled:
  assumes "lone k cs" and "c \<in> set cs" and "\<And>c'. k c' = Some a \<longleftrightarrow> c' = c"
  shows "calls_of k (remove1 c cs) = []"
proof -
  have "k c = Some a" using assms(3) by blast
  then have "a \<in> set (calls_of k cs)" using assms(2) calls_of_iff [of a k cs] by blast
  with assms(1) have "calls_of k cs = [a]" by (cases "calls_of k cs") (auto simp: lone_def)
  then show ?thesis by (simp add: calls_of_remove1 [OF assms(3)])
qed

text \<open>
  What a page promises of an action on its selection: confirming sends the selected ids and keeps
  them selected; a success takes its request out of flight and clears the selection; a failure
  keeps the selection.
\<close>

locale bulk_action =
  fixes sel :: "'s \<Rightarrow> string list"
    and sent :: "'s \<Rightarrow> string list list"
    and confirm :: "'s \<Rightarrow> 's"
    and settle :: "string list \<Rightarrow> js_error + jsval \<Rightarrow> 's \<Rightarrow> 's"
  assumes sent_confirm: "sent (confirm s) = sent s @ [sel s]"
    and sel_confirm: "sel (confirm s) = sel s"
    and sent_settle: "ids \<in> set (sent s) \<Longrightarrow> sent (settle ids r s) = remove1 ids (sent s)"
    and sel_success: "ids \<in> set (sent s) \<Longrightarrow> sel (settle ids (Inr d) s) = []"
    and sel_failure: "sel (settle ids (Inl e) s) = sel s"
begin

lemma sends_the_selection: "sent s = [] \<Longrightarrow> sent (confirm s) = [sel s]"
  by (simp add: sent_confirm)

lemma success_clears:
  "sent s = [] \<Longrightarrow> sel (settle (sel s) (Inr d) (confirm s)) = [] \<and> sent (settle (sel s) (Inr d) (confirm s)) = []"
  by (simp add: sel_success sent_settle sent_confirm)

lemma failure_can_be_retried:
  assumes "sent s = []"
  shows "sel (settle (sel s) (Inl e) (confirm s)) = sel s
    \<and> sent (confirm (settle (sel s) (Inl e) (confirm s))) = [sel s]"
  using assms by (simp add: sel_failure sel_confirm sent_settle sent_confirm)

text \<open>Together: one round of the action, on either outcome.\<close>

lemma round:
  assumes "sent s = []"
  shows "sent (confirm s) = [sel s] \<and>
    sel (settle (sel s) (Inr d) (confirm s)) = [] \<and> sent (settle (sel s) (Inr d) (confirm s)) = [] \<and>
    sel (settle (sel s) (Inl e) (confirm s)) = sel s \<and>
    sent (confirm (settle (sel s) (Inl e) (confirm s))) = [sel s]"
  using sends_the_selection [OF assms] success_clears [OF assms] failure_can_be_retried [OF assms] by blast

end

end
