(* ===== verification/Templates.thy ===== *)
theory Templates
  imports DashboardService ListPage Messaging
begin

text \<open>
  The administrators' templates page (\<open>features/templates/pages/TemplatesPage.tsx\<close>): tabs over a
  page of templates, single and bulk decisions, creation with voice input and generation by the
  AI service. The state holds the query of every page of the list, the calls in flight and
  the notifications asked for.
\<close>

section \<open>State\<close>

datatype filter_tab = AllTab | PendingTab | ApprovedTab | RejectedTab

datatype template_call =
    Generate string jsval
  | SaveTemplate string string
  | DeleteTemplate "string option"
  | ApproveOne string
  | RejectOne string
  | BulkDelete "string list"
  | BulkApprove "string list"
  | BulkReject "string list"

record templates_page =
  activeTab :: filter_tab
  tp_showForm :: bool
  tp_deleteTarget :: "jsval option"
  tp_selected :: "string list"
  showBulkDelete :: bool
  showBulkApprove :: bool
  showBulkReject :: bool
  tp_name :: string
  tp_body :: string
  tp_error :: string
  aiPrompt :: string
  isGenerating :: bool
  tp_page :: int
  tp_queries :: "int \<Rightarrow> query"
  tp_calls :: "template_call list"
  tp_notes :: "notice list"
  tp_voice :: voice

datatype templates_event =
    SetTab filter_tab
  | NewTemplate
  | CloseForm
  | SetTemplateName string
  | SetTemplateBody string
  | SetPrompt string
  | GenerateAI
  | SaveNew
  | ToggleOne string
  | ToggleAll
  | ClearSelection
  | AskDelete jsval
  | CloseDelete
  | ConfirmDelete
  | AskBulkDelete | CloseBulkDelete | ConfirmBulkDelete
  | AskBulkApprove | CloseBulkApprove | ConfirmBulkApprove
  | AskBulkReject | CloseBulkReject | ConfirmBulkReject
  | Approve string
  | Reject string
  | PrevPage
  | NextPage
  | Speech voice_event
  | TemplatesAnswer int "js_error + jsval"
  | TemplateSettles template_call "js_error + jsval"

definition templates_initial :: templates_page where
  "templates_initial = \<lparr>activeTab = AllTab, tp_showForm = False, tp_deleteTarget = None, tp_selected = [],
     showBulkDelete = False, showBulkApprove = False, showBulkReject = False, tp_name = [], tp_body = [],
     tp_error = [], aiPrompt = [], isGenerating = False, tp_page = 1, tp_queries = (\<lambda>p. Loading),
     tp_calls = [], tp_notes = [], tp_voice = voice_initial\<rparr>"

definition PAGE_SIZE :: int where
  "PAGE_SIZE = 30"

definition templates_query :: "int \<Rightarrow> service" where
  "templates_query p = getTemplates (JObj [(''page'', JNum p), (''pageSize'', JNum PAGE_SIZE)])"

definition ids_json :: "string list \<Rightarrow> jsval" where
  "ids_json ids = JArr (map JStr ids)"

fun template_service :: "template_call \<Rightarrow> service option" where
  "template_service (Generate prompt ctx) = Some (generateAITemplate prompt ctx)"
| "template_service (SaveTemplate n b) =
     Some (createTemplate (JObj [(''name'', JStr n), (''body'', JStr b), (''variables'', JArr [])]))"
| "template_service (DeleteTemplate target) = map_option deleteTemplate target"
| "template_service (ApproveOne i) = Some (approveTemplate i)"
| "template_service (RejectOne i) = Some (rejectTemplate i)"
| "template_service (BulkDelete ids) = Some (bulkDeleteTemplates (ids_json ids))"
| "template_service (BulkApprove ids) = Some (bulkApproveTemplates (ids_json ids))"
| "template_service (BulkReject ids) = Some (bulkRejectTemplates (ids_json ids))"

text \<open>What the page computes from its state.\<close>

definition templates :: "templates_page \<Rightarrow> jsval list" where
  "templates s = page_rows (tp_queries s (tp_page s))"

definition tp_totalPages :: "templates_page \<Rightarrow> int" where
  "tp_totalPages s = page_count (tp_queries s (tp_page s))"

fun tab_key :: "filter_tab \<Rightarrow> string" where
  "tab_key AllTab = ''all''"
| "tab_key PendingTab = ''pending''"
| "tab_key ApprovedTab = ''approved''"
| "tab_key RejectedTab = ''rejected''"

definition has_status :: "string \<Rightarrow> jsval \<Rightarrow> bool" where
  "has_status st t \<longleftrightarrow> opt_get t ''approval_status'' = JStr st"

definition filteredTemplates :: "templates_page \<Rightarrow> jsval list" where
  "filteredTemplates s =
     (if activeTab s = AllTab then templates s
      else filter (has_status (tab_key (activeTab s))) (templates s))"

definition pendingCount :: "templates_page \<Rightarrow> nat" where
  "pendingCount s = length (filter (has_status ''pending'') (templates s))"

definition selectedTemplates :: "templates_page \<Rightarrow> jsval list" where
  "selectedTemplates s = filter (\<lambda>t. row_id t \<in> set (tp_selected s)) (templates s)"

definition selectedPendingCount :: "templates_page \<Rightarrow> nat" where
  "selectedPendingCount s = length (filter (has_status ''pending'') (selectedTemplates s))"

definition shown_ids :: "templates_page \<Rightarrow> string list" where
  "shown_ids s = map row_id (filteredTemplates s)"

section \<open>Handlers and callbacks\<close>

definition tp_send :: "template_call \<Rightarrow> templates_page \<Rightarrow> templates_page" where
  "tp_send c s = s\<lparr>tp_calls := tp_calls s @ [c]\<rparr>"

definition tp_note :: "notice \<Rightarrow> templates_page \<Rightarrow> templates_page" where
  "tp_note n s = s\<lparr>tp_notes := tp_notes s @ [n]\<rparr>"

definition handleGenerateAI :: "templates_page \<Rightarrow> templates_page" where
  "handleGenerateAI s =
     (if js_trim (aiPrompt s) = [] then s
      else tp_send (Generate (js_trim (aiPrompt s)) (if tp_body s = [] then JUndef else JStr (tp_body s)))
             (s\<lparr>isGenerating := True\<rparr>))"

text \<open>
  After the \<open>await\<close>: the name and the body are set before \<open>result.variables.length\<close> is read, and
  stay set when that throws.
\<close>

definition generated :: "js_error + jsval \<Rightarrow> templates_page \<Rightarrow> templates_page" where
  "generated r s =
     (case r of
        Inl e \<Rightarrow> tp_note (err_message e, ''error'') s
      | Inr d \<Rightarrow>
          (let s1 = (if truthy (opt_get d ''name'') then s\<lparr>tp_name := to_str (opt_get d ''name'')\<rparr> else s);
               s2 = (if truthy (opt_get d ''body'') then s1\<lparr>tp_body := to_str (opt_get d ''body'')\<rparr> else s1)
           in case sbind (js_get d ''variables'') (\<lambda>v. js_get v ''length'') of
                Inl e \<Rightarrow> tp_note (err_message e, ''error'') s2
              | Inr n \<Rightarrow>
                  if truthy n then
                    tp_note (''Variables detected: '' @ join_with '', '' (map shown_text (items_of (opt_get d ''variables''))), ''info'') s2
                  else s2))\<lparr>isGenerating := False\<rparr>"

text \<open>The callbacks of a mutation: \<open>onSuccess\<close> with its state and notification, and \<open>onError\<close>.\<close>

definition mutation ::
  "(templates_page \<Rightarrow> templates_page) \<Rightarrow> (js_error \<Rightarrow> templates_page \<Rightarrow> templates_page) \<Rightarrow> js_error + jsval \<Rightarrow>
     templates_page \<Rightarrow> templates_page" where
  "mutation success failure r s = (case r of Inl e \<Rightarrow> failure e s | Inr d \<Rightarrow> success s)"

definition report :: "string \<Rightarrow> js_error \<Rightarrow> templates_page \<Rightarrow> templates_page" where
  "report fallback e s = tp_note (note_error e fallback) s"

definition template_saved :: "js_error + jsval \<Rightarrow> templates_page \<Rightarrow> templates_page" where
  "template_saved = mutation
     (\<lambda>s. tp_note (note_ok ''Template created'') (s\<lparr>tp_showForm := False, tp_name := [], tp_body := []\<rparr>))
     (\<lambda>e s. (report ''Failed to create template'' e s)\<lparr>tp_error := err_message e\<rparr>)"

definition template_deleted :: "js_error + jsval \<Rightarrow> templates_page \<Rightarrow> templates_page" where
  "template_deleted = mutation
     (\<lambda>s. tp_note (note_ok ''Template deleted'') (s\<lparr>tp_deleteTarget := None\<rparr>))
     (report ''Failed to delete template'')"

definition template_approved :: "js_error + jsval \<Rightarrow> templates_page \<Rightarrow> templates_page" where
  "template_approved = mutation (tp_note (note_ok ''Template approved'')) (report ''Failed to approve template'')"

definition template_rejected :: "js_error + jsval \<Rightarrow> templates_page \<Rightarrow> templates_page" where
  "template_rejected = mutation (tp_note (note_ok ''Template rejected'')) (report ''Failed to reject template'')"

definition bulk_deleted :: "js_error + jsval \<Rightarrow> templates_page \<Rightarrow> templates_page" where
  "bulk_deleted = mutation
     (\<lambda>s. tp_note (note_ok (show_nat (length (tp_selected s)) @ '' templates deleted''))
            (s\<lparr>tp_selected := [], showBulkDelete := False\<rparr>))
     (report ''Failed to bulk delete templates'')"

definition bulk_approved :: "js_error + jsval \<Rightarrow> templates_page \<Rightarrow> templates_page" where
  "bulk_approved = mutation
     (\<lambda>s. tp_note (note_ok (show_nat (selectedPendingCount s) @ '' templates approved''))
            (s\<lparr>tp_selected := [], showBulkApprove := False\<rparr>))
     (report ''Failed to bulk approve templates'')"

definition bulk_rejected :: "js_error + jsval \<Rightarrow> templates_page \<Rightarrow> templates_page" where
  "bulk_rejected = mutation
     (\<lambda>s. tp_note (note_ok (show_nat (selectedPendingCount s) @ '' templates rejected''))
            (s\<lparr>tp_selected := [], showBulkReject := False\<rparr>))
     (report ''Failed to bulk reject templates'')"

fun template_callback :: "template_call \<Rightarrow> js_error + jsval \<Rightarrow> templates_page \<Rightarrow> templates_page" where
  "template_callback (Generate p c) = generated"
| "template_callback (SaveTemplate n b) = template_saved"
| "template_callback (DeleteTemplate i) = template_deleted"
| "template_callback (ApproveOne i) = template_approved"
| "template_callback (RejectOne i) = template_rejected"
| "template_callback (BulkDelete ids) = bulk_deleted"
| "template_callback (BulkApprove ids) = bulk_approved"
| "template_callback (BulkReject ids) = bulk_rejected"

definition template_settles :: "template_call \<Rightarrow> js_error + jsval \<Rightarrow> templates_page \<Rightarrow> templates_page" where
  "template_settles c r s = (template_callback c r s)\<lparr>tp_calls := remove1 c (tp_calls s)\<rparr>"

fun templates_step :: "templates_page \<Rightarrow> templates_event \<Rightarrow> templates_page" where
  "templates_step s (SetTab t) = s\<lparr>activeTab := t, tp_selected := []\<rparr>"
| "templates_step s NewTemplate = s\<lparr>tp_error := [], tp_showForm := True\<rparr>"
| "templates_step s CloseForm = s\<lparr>tp_showForm := False\<rparr>"
| "templates_step s (SetTemplateName t) = s\<lparr>tp_name := t\<rparr>"
| "templates_step s (SetTemplateBody t) = s\<lparr>tp_body := t\<rparr>"
| "templates_step s (SetPrompt t) = s\<lparr>aiPrompt := t\<rparr>"
| "templates_step s GenerateAI = handleGenerateAI s"
| "templates_step s SaveNew = tp_send (SaveTemplate (tp_name s) (tp_body s)) s"
| "templates_step s (ToggleOne i) = s\<lparr>tp_selected := toggleSelect i (tp_selected s)\<rparr>"
| "templates_step s ToggleAll = s\<lparr>tp_selected := toggleSelectAll (shown_ids s) (tp_selected s)\<rparr>"
| "templates_step s ClearSelection = s\<lparr>tp_selected := []\<rparr>"
| "templates_step s (AskDelete t) = s\<lparr>tp_deleteTarget := Some t\<rparr>"
| "templates_step s CloseDelete = s\<lparr>tp_deleteTarget := None\<rparr>"
| "templates_step s ConfirmDelete = tp_send (DeleteTemplate (map_option row_id (tp_deleteTarget s))) s"
| "templates_step s AskBulkDelete = s\<lparr>showBulkDelete := True\<rparr>"
| "templates_step s CloseBulkDelete = s\<lparr>showBulkDelete := False\<rparr>"
| "templates_step s ConfirmBulkDelete = tp_send (BulkDelete (tp_selected s)) s"
| "templates_step s AskBulkApprove = s\<lparr>showBulkApprove := True\<rparr>"
| "templates_step s CloseBulkApprove = s\<lparr>showBulkApprove := False\<rparr>"
| "templates_step s ConfirmBulkApprove = tp_send (BulkApprove (tp_selected s)) s"
| "templates_step s AskBulkReject = s\<lparr>showBulkReject := True\<rparr>"
| "templates_step s CloseBulkReject = s\<lparr>showBulkReject := False\<rparr>"
| "templates_step s ConfirmBulkReject = tp_send (BulkReject (tp_selected s)) s"
| "templates_step s (Approve i) = tp_send (ApproveOne i) s"
| "templates_step s (Reject i) = tp_send (RejectOne i) s"
| "templates_step s PrevPage = s\<lparr>tp_page := prev_page (tp_page s)\<rparr>"
| "templates_step s NextPage = s\<lparr>tp_page := next_page (tp_totalPages s) (tp_page s)\<rparr>"
| "templates_step s (Speech e) =
     (case voice_step (tp_voice s) e of
        (v, t) \<Rightarrow> s\<lparr>tp_voice := v, tp_body := tp_body s @ (case t of None \<Rightarrow> [] | Some x \<Rightarrow> x)\<rparr>)"
| "templates_step s (TemplatesAnswer p r) = s\<lparr>tp_queries := (tp_queries s)(p := query_answered r (tp_queries s p))\<rparr>"
| "templates_step s (TemplateSettles c r) = (if c \<in> set (tp_calls s) then template_settles c r s else s)"

section \<open>View\<close>

text \<open>\<open>isPending\<close> of the mutation a kind of call belongs to.\<close>

definition pending :: "(template_call \<Rightarrow> 'a option) \<Rightarrow> templates_page \<Rightarrow> bool" where
  "pending k s \<longleftrightarrow> calls_of k (tp_calls s) \<noteq> []"

fun saves :: "template_call \<Rightarrow> (string \<times> string) option" where
  "saves (SaveTemplate n b) = Some (n, b)" | "saves _ = None"
fun deletes :: "template_call \<Rightarrow> string option option" where
  "deletes (DeleteTemplate i) = Some i" | "deletes _ = None"
fun approves :: "template_call \<Rightarrow> string option" where
  "approves (ApproveOne i) = Some i" | "approves _ = None"
fun rejects :: "template_call \<Rightarrow> string option" where
  "rejects (RejectOne i) = Some i" | "rejects _ = None"
fun bulk_deletes :: "template_call \<Rightarrow> string list option" where
  "bulk_deletes (BulkDelete ids) = Some ids" | "bulk_deletes _ = None"
fun bulk_approves :: "template_call \<Rightarrow> string list option" where
  "bulk_approves (BulkApprove ids) = Some ids" | "bulk_approves _ = None"
fun bulk_rejects :: "template_call \<Rightarrow> string list option" where
  "bulk_rejects (BulkReject ids) = Some ids" | "bulk_rejects _ = None"

definition templates_hero :: "templates_event vnode" where
  "templates_hero =
     box [box [box [El ''h1'' [] [] [span [Txt ''Templates'']],
              El ''p'' [] [] [Txt ''Manage and approve message templates'']],
          small_button False False NewTemplate ''New template'']]"

definition tab_list :: "templates_page \<Rightarrow> (filter_tab \<times> string \<times> nat option) list" where
  "tab_list s = [(AllTab, ''All'', Some (length (templates s))), (PendingTab, ''Pending'', Some (pendingCount s)),
     (ApprovedTab, ''Approved'', None), (RejectedTab, ''Rejected'', None)]"

definition tab_bar :: "templates_page \<Rightarrow> templates_event vnode" where
  "tab_bar s =
     box (map (\<lambda>(tab, label, count).
            El ''button'' [] [On ''click'' (SetTab tab)]
              (Txt label # (case count of None \<Rightarrow> [] | Some n \<Rightarrow> when_do (n > 0) [span [Txt (show_nat n)]])))
          (tab_list s))"

definition bulk_bar :: "templates_page \<Rightarrow> templates_event vnode list" where
  "bulk_bar s =
     (let n = length (tp_selected s); pend = selectedPendingCount s
      in when_do (n > 0)
           [box [box [span [Txt (show_nat n @ '' template'' @ plural n @ '' selected'')],
              box ([small_button False False ClearSelection ''Clear''] @
                   when_do (pend > 0)
                     [small_button False False AskBulkApprove (''Approve ('' @ show_nat pend @ '')''),
                      small_button False False AskBulkReject (''Reject ('' @ show_nat pend @ '')'')] @
                   [small_button False False AskBulkDelete (''Delete ('' @ show_nat n @ '')'')])]]])"

definition template_card :: "templates_page \<Rightarrow> jsval \<Rightarrow> templates_event vnode" where
  "template_card s t =
     Card True
       ([box [item_box (tp_selected s) (row_id t) (ToggleOne (row_id t)),
           box (El ''h3'' [] [] [Txt (shown_text (opt_get t ''name''))] #
                when_do (truthy (opt_get t ''account_name''))
                  [El ''p'' [] [] [Txt (''Account: '' @ shown_text (opt_get t ''account_name''))]]),
           Badge True [Txt (shown_text (opt_get t ''approval_status''))]],
         El ''p'' [] [] [Txt (shown_text (opt_get t ''body''))]] @
        when_do (has_status ''pending'' t)
          [box [small_button (pending approves s) False (Approve (row_id t)) ''Approve'',
                small_button (pending rejects s) False (Reject (row_id t)) ''Reject'']] @
        [box [small_button False False (AskDelete t) ''Delete'']])"

definition template_list :: "templates_page \<Rightarrow> templates_event vnode" where
  "template_list s =
     (if filteredTemplates s = [] then
        EmptyState (''No '' @ (if activeTab s = AllTab then [] else tab_key (activeTab s)) @ '' templates'')
          (Some ''Templates will appear here once created.'')
          (if activeTab s = AllTab then Some (small_button False False NewTemplate ''Create template'') else None)
      else box (map (template_card s) (filteredTemplates s)))"

definition new_template_modal :: "templates_page \<Rightarrow> templates_event vnode list" where
  "new_template_modal s =
     Modal (tp_showForm s) CloseForm (Some ''New template'') None
       [box (error_box (tp_error s) @
          [text_input ''Template name'' [] (tp_name s) SetTemplateName,
           box [El ''label'' [] [] [Txt ''Body''],
             box [El ''textarea'' [(''value'', tp_body s), (''required'', [])] [OnText ''change'' SetTemplateBody] [],
               box (VoiceInput (tp_voice s) False [On ''click'' (Speech (Toggle False)), On ''click'' (Speech (Toggle True))])]],
           box [box [span [Txt ''AI Generate'']],
             box [El ''input'' [(''value'', aiPrompt s), (''placeholder'', ''Describe the template you want...'')]
                    [OnText ''change'' SetPrompt, On ''keydown:Enter'' GenerateAI] [],
                  small_button (isGenerating s) (js_trim (aiPrompt s) = []) GenerateAI ''Generate'']],
           box [Txt ''New templates are created with '', El ''strong'' [] [] [Txt ''pending''],
             Txt '' status and require admin approval before they can be used.'']])]
       [small_button False (pending saves s) CloseForm ''Cancel'',
        small_button (pending saves s) False SaveNew ''Create'']"

definition template_dialogs :: "templates_page \<Rightarrow> templates_event vnode list" where
  "template_dialogs s =
     (let n = length (tp_selected s); pend = selectedPendingCount s
      in ConfirmDialog (tp_deleteTarget s \<noteq> None) CloseDelete ConfirmDelete ''Delete template''
           (Some (''Are you sure you want to delete \"'' @
              (case tp_deleteTarget s of None \<Rightarrow> ''undefined'' | Some t \<Rightarrow> to_str (opt_get t ''name'')) @ ''\"?''))
           ''Confirm'' ''Cancel'' (pending deletes s) @
         ConfirmDialog (showBulkDelete s) CloseBulkDelete ConfirmBulkDelete ''Bulk delete templates''
           (Some (''Are you sure you want to delete '' @ show_nat n @ '' template'' @ plural n @ ''? This cannot be undone.''))
           ''Confirm'' ''Cancel'' (pending bulk_deletes s) @
         ConfirmDialog (showBulkApprove s) CloseBulkApprove ConfirmBulkApprove ''Bulk approve templates''
           (Some (''Approve '' @ show_nat pend @ '' pending template'' @ plural pend @ ''? They will be available for use immediately.''))
           ''Confirm'' ''Cancel'' (pending bulk_approves s) @
         ConfirmDialog (showBulkReject s) CloseBulkReject ConfirmBulkReject ''Bulk reject templates''
           (Some (''Reject '' @ show_nat pend @ '' pending template'' @ plural pend @ ''? They will be marked as rejected.''))
           ''Confirm'' ''Cancel'' (pending bulk_rejects s))"

definition templates_view :: "templates_page \<Rightarrow> templates_event vnode list" where
  "templates_view s =
     (if tp_queries s (tp_page s) = Loading then [PageSkeleton]
      else [templates_hero, tab_bar s] @ bulk_bar s @ [template_list s] @
           select_all_box (shown_ids s) (tp_selected s) ToggleAll @
           simple_pager (tp_page s) (tp_totalPages s) PrevPage NextPage @
           new_template_modal s @ template_dialogs s)"

section \<open>What the page lets the user do\<close>

lemma templates_fires:
  assumes "tp_queries s (tp_page s) \<noteq> Loading"
  shows "list_fire (templates_view s) SaveNew \<longleftrightarrow> tp_showForm s \<and> \<not> pending saves s"
    and "list_fire (templates_view s) ConfirmDelete \<longleftrightarrow> tp_deleteTarget s \<noteq> None \<and> \<not> pending deletes s"
    and "list_fire (templates_view s) ConfirmBulkDelete \<longleftrightarrow> showBulkDelete s \<and> \<not> pending bulk_deletes s"
    and "list_fire (templates_view s) ConfirmBulkApprove \<longleftrightarrow> showBulkApprove s \<and> \<not> pending bulk_approves s"
    and "list_fire (templates_view s) ConfirmBulkReject \<longleftrightarrow> showBulkReject s \<and> \<not> pending bulk_rejects s"
    and "list_fire (templates_view s) (Approve i) \<longleftrightarrow>
      (\<exists>t \<in> set (filteredTemplates s). has_status ''pending'' t \<and> i = row_id t) \<and> \<not> pending approves s"
    and "list_fire (templates_view s) (Reject i) \<longleftrightarrow>
      (\<exists>t \<in> set (filteredTemplates s). has_status ''pending'' t \<and> i = row_id t) \<and> \<not> pending rejects s"
  using assms
  by (auto simp: templates_view_def templates_hero_def tab_bar_def tab_list_def bulk_bar_def template_list_def
      template_card_def new_template_modal_def template_dialogs_def ConfirmDialog_def list_fire_map Let_def)

fun templates_ambient :: "templates_event \<Rightarrow> bool" where
  "templates_ambient (TemplatesAnswer p r) = True"
| "templates_ambient (TemplateSettles c r) = True"
| "templates_ambient (Speech e) = (\<forall>b. e \<noteq> Toggle b)"
| "templates_ambient e = False"

definition templates_possible :: "templates_page \<Rightarrow> templates_event \<Rightarrow> bool" where
  "templates_possible s e \<longleftrightarrow> templates_ambient e \<or> list_fire (templates_view s) e"

text \<open>A request that changes data is the only one of its kind; what it carries is a set of ids.\<close>

abbreviation single :: "(template_call \<Rightarrow> 'a option) \<Rightarrow> templates_page \<Rightarrow> bool" where
  "single k s \<equiv> lone k (tp_calls s)"

definition templates_inv :: "templates_page \<Rightarrow> bool" where
  "templates_inv s \<longleftrightarrow>
     distinct (tp_selected s) \<and> single saves s \<and> single deletes s \<and> single approves s \<and> single rejects s \<and>
     single bulk_deletes s \<and> single bulk_approves s \<and> single bulk_rejects s \<and>
     list_all distinct (calls_of bulk_deletes (tp_calls s)) \<and> list_all distinct (calls_of bulk_approves (tp_calls s)) \<and>
     list_all distinct (calls_of bulk_rejects (tp_calls s))"

lemma callback_keeps: "tp_selected (template_callback c r s) \<in> {tp_selected s, []}"
  by (cases c; cases r)
    (simp_all add: generated_def template_saved_def template_deleted_def template_approved_def template_rejected_def
      bulk_deleted_def bulk_approved_def bulk_rejected_def mutation_def report_def tp_note_def Let_def split: sum.split)

lemma settles_keep [simp]:
  "single k s \<Longrightarrow> single k (template_settles c r s)"
  "list_all P (calls_of k (tp_calls s)) \<Longrightarrow> list_all P (calls_of k (tp_calls (template_settles c r s)))"
  "distinct (tp_selected s) \<Longrightarrow> distinct (tp_selected (template_settles c r s))"
proof -
  have s: "tp_calls (template_settles c r s) = remove1 c (tp_calls s)" by (simp add: template_settles_def)
  show "single k s \<Longrightarrow> single k (template_settles c r s)"
    by (simp add: s)
  show "list_all P (calls_of k (tp_calls s)) \<Longrightarrow> list_all P (calls_of k (tp_calls (template_settles c r s)))"
    using calls_of_settled [of k c "tp_calls s"] by (auto simp: list_all_iff s)
  show "distinct (tp_selected s) \<Longrightarrow> distinct (tp_selected (template_settles c r s))"
    using callback_keeps [of c r s] by (auto simp: template_settles_def)
qed

lemma settles_inv: "templates_inv s \<Longrightarrow> templates_inv (template_settles c r s)"
  unfolding templates_inv_def by (intro conjI) (simp_all only: settles_keep)

lemma templates_step_inv:
  assumes "templates_inv s" and "templates_possible s e"
  shows "templates_inv (templates_step s e)"
proof -
  have loaded: "tp_queries s (tp_page s) \<noteq> Loading" if "\<not> templates_ambient e"
    using assms(2) that by (auto simp: templates_possible_def templates_view_def)
  note defs = templates_inv_def lone_def tp_send_def
  show ?thesis
  proof (cases e)
    case (TemplateSettles c r)
    then show ?thesis using assms(1) by (simp add: settles_inv)
  next
    case GenerateAI
    then show ?thesis using assms(1) by (simp add: defs handleGenerateAI_def)
  next
    case SaveNew
    then show ?thesis using assms loaded by (auto simp: templates_possible_def templates_fires pending_def defs)
  next
    case ConfirmDelete
    then show ?thesis using assms loaded by (auto simp: templates_possible_def templates_fires pending_def defs)
  next
    case ConfirmBulkDelete
    then show ?thesis using assms loaded by (auto simp: templates_possible_def templates_fires pending_def defs)
  next
    case ConfirmBulkApprove
    then show ?thesis using assms loaded by (auto simp: templates_possible_def templates_fires pending_def defs)
  next
    case ConfirmBulkReject
    then show ?thesis using assms loaded by (auto simp: templates_possible_def templates_fires pending_def defs)
  next
    case (Approve i)
    then show ?thesis using assms loaded by (auto simp: templates_possible_def templates_fires pending_def defs)
  next
    case (Reject i)
    then show ?thesis using assms loaded by (auto simp: templates_possible_def templates_fires pending_def defs)
  qed (use assms(1) in \<open>auto simp: defs split: prod.split\<close>)
qed

interpretation templates: machine templates_step templates_possible templates_inv
  by unfold_locales (rule templates_step_inv)

interpretation deleting: bulk_action tp_selected "\<lambda>s. calls_of bulk_deletes (tp_calls s)"
    "\<lambda>s. templates_step s ConfirmBulkDelete" "\<lambda>ids r s. template_settles (BulkDelete ids) r s"
proof unfold_locales
  have "bulk_deletes c = Some ids \<longleftrightarrow> c = BulkDelete ids" for c ids by (cases c) auto
  then show "calls_of bulk_deletes (tp_calls (template_settles (BulkDelete ids) r s))
      = remove1 ids (calls_of bulk_deletes (tp_calls s))" for ids r s
    by (simp add: template_settles_def calls_of_remove1)
qed (simp_all add: tp_send_def template_settles_def bulk_deleted_def mutation_def report_def tp_note_def)

interpretation approving: bulk_action tp_selected "\<lambda>s. calls_of bulk_approves (tp_calls s)"
    "\<lambda>s. templates_step s ConfirmBulkApprove" "\<lambda>ids r s. template_settles (BulkApprove ids) r s"
proof unfold_locales
  have "bulk_approves c = Some ids \<longleftrightarrow> c = BulkApprove ids" for c ids by (cases c) auto
  then show "calls_of bulk_approves (tp_calls (template_settles (BulkApprove ids) r s))
      = remove1 ids (calls_of bulk_approves (tp_calls s))" for ids r s
    by (simp add: template_settles_def calls_of_remove1)
qed (simp_all add: tp_send_def template_settles_def bulk_approved_def mutation_def report_def tp_note_def)

interpretation rejecting: bulk_action tp_selected "\<lambda>s. calls_of bulk_rejects (tp_calls s)"
    "\<lambda>s. templates_step s ConfirmBulkReject" "\<lambda>ids r s. template_settles (BulkReject ids) r s"
proof unfold_locales
  have "bulk_rejects c = Some ids \<longleftrightarrow> c = BulkReject ids" for c ids by (cases c) auto
  then show "calls_of bulk_rejects (tp_calls (template_settles (BulkReject ids) r s))
      = remove1 ids (calls_of bulk_rejects (tp_calls s))" for ids r s
    by (simp add: template_settles_def calls_of_remove1)
qed (simp_all add: tp_send_def template_settles_def bulk_rejected_def mutation_def report_def tp_note_def)

section \<open>Properties of the page\<close>

lemma templates_inv_initial: "templates_inv templates_initial"
  by (simp add: templates_inv_def templates_initial_def lone_def)


definition two_templates :: jsval where
  "two_templates = JObj [(''data'', JArr
     [JObj [(''id'', JStr ''t1''), (''approval_status'', JStr ''pending'')],
      JObj [(''id'', JStr ''t2''), (''approval_status'', JStr ''rejected'')]]), (''total_pages'', JNum 1)]"

definition approving_session :: "templates_event list" where
  "approving_session = [TemplatesAnswer 1 (Inr two_templates), ToggleOne ''t1'', ToggleOne ''t2'', AskBulkApprove, ConfirmBulkApprove]"

lemmas templates_eval = two_templates_def templates_initial_def templates_def page_rows_def query_data_def items_of_def
  coalesce_def nullish_def obj_get_def row_id_def has_status_def selectedTemplates_def selectedPendingCount_def
  filteredTemplates_def toggleSelect_def set_add_def tp_send_def

lemma approving_session_possible: "templates.admissible templates_initial approving_session"
  by (simp add: approving_session_def templates_possible_def templates_view_def list_fire_map templates_eval
      bulk_bar_def Let_def)
    (simp add: template_dialogs_def template_list_def template_card_def templates_eval list_fire_map ConfirmDialog_def
      pending_def Let_def)


text \<open>
  A bulk decision reaches templates that are already decided: confirming a bulk approval sends
  every selected id, although the bar, the dialog and the notification count only the pending
  ones: a selected template of any other status is among the ids sent, and counts for none
  of the three.
\<close>

theorem bulk_approval_sends_everything:
  assumes "t \<in> set (selectedTemplates s)" and "\<not> has_status ''pending'' t" and "distinct (tp_selected s)"
    and "inj_on row_id (set (templates s))" and "distinct (templates s)"
    and "s' = templates_step s ConfirmBulkApprove"
  shows "calls_of bulk_approves (tp_calls s') = calls_of bulk_approves (tp_calls s) @ [tp_selected s]
    \<and> row_id t \<in> set (tp_selected s) \<and> selectedPendingCount s < length (tp_selected s)
    \<and> tp_notes (template_settles (BulkApprove (tp_selected s)) (Inr d) s') =
        tp_notes s @ [(show_nat (selectedPendingCount s) @ '' templates approved'', ''success'')]"
proof -
  let ?sel = "selectedTemplates s" and ?pend = "filter (has_status ''pending'') (selectedTemplates s)"
  have sub: "set (map row_id ?pend) \<subseteq> set (tp_selected s) - {row_id t}"
  proof
    fix i assume "i \<in> set (map row_id ?pend)"
    then obtain u where u: "u \<in> set ?sel" "has_status ''pending'' u" "i = row_id u" by auto
    moreover have "row_id u \<noteq> row_id t"
      using u assms(1,2) inj_onD [OF assms(4), of u t] by (auto simp: selectedTemplates_def)
    ultimately show "i \<in> set (tp_selected s) - {row_id t}" by (auto simp: selectedTemplates_def)
  qed
  have "distinct ?pend" using assms(5) by (simp add: selectedTemplates_def)
  moreover have "inj_on row_id (set ?pend)"
    by (rule inj_on_subset [OF assms(4)]) (auto simp: selectedTemplates_def)
  ultimately have "length ?pend = card (set (map row_id ?pend))"
    using distinct_card [of ?pend] by (simp add: card_image)
  also have "\<dots> \<le> card (set (tp_selected s) - {row_id t})" by (rule card_mono [OF _ sub]) simp
  also have "\<dots> < length (tp_selected s)"
    using assms(1) card_Diff1_less [of "set (tp_selected s)" "row_id t"]
    by (simp add: selectedTemplates_def distinct_card [OF assms(3)] del: card_Diff_insert)
  finally have "selectedPendingCount s < length (tp_selected s)" by (simp add: selectedPendingCount_def)
  then show ?thesis
    using assms(1,6)
    by (simp add: tp_send_def template_settles_def bulk_approved_def mutation_def tp_note_def note_ok_def
        selectedTemplates_def selectedPendingCount_def templates_def)
qed

theorem bulk_approval_sends_everything_witness:
  "selectedPendingCount (foldl templates_step templates_initial (take 4 approving_session)) < 2"
proof -
  let ?s = "foldl templates_step templates_initial (take 4 approving_session)"
  have "JObj [(''id'', JStr ''t2''), (''approval_status'', JStr ''rejected'')] \<in> set (selectedTemplates ?s)"
    "distinct (tp_selected ?s)" "inj_on row_id (set (templates ?s))" "distinct (templates ?s)" "length (tp_selected ?s) = 2"
    by (simp_all add: approving_session_def templates_eval)
  with bulk_approval_sends_everything [of _ ?s, OF _ _ _ _ _ refl] show ?thesis
    by (simp add: has_status_def obj_get_def)
qed

end
