(* ===== verification/Filters.thy ===== *)
theory Filters
  imports Forms
begin

text \<open>
  The filter panel (\<open>components/ui/FilterPanel.tsx\<close>): a fold over a control per field, a mark and
  a reset while any filter is set. The values are an object of texts, as the association list
  of its keys in the order they were added.
\<close>

type_synonym filters = "(string \<times> string) list"

definition filter_value :: "filters \<Rightarrow> string \<Rightarrow> string" where
  "filter_value fs k = (case map_of fs k of Some v \<Rightarrow> v | None \<Rightarrow> [])"

datatype field_kind = SelectField "(string \<times> string) list" | TypedField string

record filter_field =
  ff_key :: string
  ff_label :: string
  ff_kind :: field_kind

definition hasActiveFilters :: "filters \<Rightarrow> bool" where
  "hasActiveFilters fs \<longleftrightarrow> list_ex (\<lambda>(k, v). v \<noteq> []) fs"

definition filter_control :: "filters \<Rightarrow> (string \<Rightarrow> string \<Rightarrow> 'e) \<Rightarrow> filter_field \<Rightarrow> 'e vnode" where
  "filter_control fs change f =
     box [case ff_kind f of
            SelectField options \<Rightarrow>
              box [El ''label'' [] [] [Txt (ff_label f)],
                El ''select'' [(''value'', filter_value fs (ff_key f))] [OnText ''change'' (change (ff_key f))]
                  (El ''option'' [(''value'', [])] [] [Txt ''All''] #
                   map (\<lambda>(l, v). El ''option'' [(''value'', v)] [] [Txt l]) options)]
          | TypedField ty \<Rightarrow>
              Input (input\<lparr>i_label := Some (ff_label f),
                i_rest := [(''type'', ty), (''value'', filter_value fs (ff_key f))],
                i_on := [OnText ''change'' (change (ff_key f))]\<rparr>)]"

definition FilterPanel ::
  "filter_field list \<Rightarrow> filters \<Rightarrow> bool \<Rightarrow> 'e \<Rightarrow> (string \<Rightarrow> string \<Rightarrow> 'e) \<Rightarrow> 'e option \<Rightarrow> 'e vnode list \<Rightarrow> 'e vnode" where
  "FilterPanel fds fs expanded fold_event change reset children =
     box (box (box (El ''button'' [] [On ''click'' fold_event] [El ''svg'' [] [] [], Txt ''Filters''] #
                when_do (hasActiveFilters fs) [span [Txt ''Active'']]) # children) #
       when_do expanded
         [box [box (box (map (filter_control fs change) fds) #
            (case reset of None \<Rightarrow> []
             | Some e \<Rightarrow> when_do (hasActiveFilters fs) [box [small_button False False e ''Clear all'']]))]])"

lemma filter_control_fires [simp]:
  "may_fire (filter_control fs change f) e \<longleftrightarrow> (\<exists>t. change (ff_key f) t = e)"
  by (auto simp: filter_control_def list_fire_map split: field_kind.split)

lemma FilterPanel_fires [simp]:
  "may_fire (FilterPanel fds fs expanded fold_event change reset children) e \<longleftrightarrow>
     e = fold_event \<or> list_fire children e \<or>
     expanded \<and> ((\<exists>f \<in> set fds. \<exists>t. change (ff_key f) t = e) \<or> hasActiveFilters fs \<and> reset = Some e)"
  by (auto simp: FilterPanel_def list_fire_map split: option.splits)

end
