(* ===== verification/Smishing.thy ===== *)
theory Smishing
  imports DashboardService ListPage Filters
begin

text \<open>
  The smishing flags page (\<open>features/fraud/pages/SmishingFlagsPage.tsx\<close>): filtering the flags by category, severity, status and date,
  selecting among them, and reviewing one or many. Dates are milliseconds; the host reads a
  date text with \<open>zone_time\<close> and its local time differs from UTC by the constant \<open>zone_offset\<close>.
\<close>

section \<open>The category of a flag\<close>

definition categoryThemes :: "(string \<times> string) list" where
  "categoryThemes = [(''smishing'', ''Smishing''), (''phishing'', ''Phishing''), (''scam'', ''Scam''),
     (''suspicious_sender'', ''Suspicious Sender''), (''suspicious_recipient'', ''Suspicious Recipient'')]"

definition getCategoryTheme :: "string \<Rightarrow> string" where
  "getCategoryTheme flag_type =
     (case find (\<lambda>(key, theme). str_includes (map to_lower flag_type) key) categoryThemes of
        Some (key, theme) \<Rightarrow> theme | None \<Rightarrow> ''Social Engineering'')"

text \<open>\<open>flagType.match(/sensitive content detected:\s*(\w+)/i)\<close>: the leftmost match.\<close>

definition is_word :: "char \<Rightarrow> bool" where
  "is_word c \<longleftrightarrow> is_digit c \<or> char_code c = 95 \<or> (65 \<le> char_code c \<and> char_code c \<le> 90) \<or> (97 \<le> char_code c \<and> char_code c \<le> 122)"

definition category_marker :: string where
  "category_marker = ''sensitive content detected:''"

definition category_here :: "string \<Rightarrow> string option" where
  "category_here t =
     (if prefix category_marker (map to_lower t) then
        (case takeWhile is_word (dropWhile is_space (drop (length category_marker) t)) of [] \<Rightarrow> None | w \<Rightarrow> Some w)
      else None)"

fun category_match :: "string \<Rightarrow> string option" where
  "category_match [] = category_here []"
| "category_match (c # cs) = (case category_here (c # cs) of Some w \<Rightarrow> Some w | None \<Rightarrow> category_match cs)"

definition extractCategory :: "string \<Rightarrow> string" where
  "extractCategory t = (case category_match t of Some w \<Rightarrow> w | None \<Rightarrow> ''unknown'')"

section \<open>Filtering\<close>

record zone =
  zone_time :: "string \<Rightarrow> int option"
  zone_offset :: int
  zone_date :: "string \<Rightarrow> string"

text \<open>\<open>handleFilterChange\<close>: an empty value takes the key out.\<close>

fun put_filter :: "string \<Rightarrow> string \<Rightarrow> filters \<Rightarrow> filters" where
  "put_filter k v [] = [(k, v)]"
| "put_filter k v ((k', w) # fs) = (if k' = k then (k, v) # fs else (k', w) # put_filter k v fs)"

definition handleFilterChange :: "string \<Rightarrow> string \<Rightarrow> filters \<Rightarrow> filters" where
  "handleFilterChange k v fs = (if v = [] then filter (\<lambda>kv. fst kv \<noteq> k) fs else put_filter k v fs)"

definition DAY :: int where
  "DAY = 24 * 60 * 60 * 1000"

text \<open>\<open>new Date(to.getFullYear(), to.getMonth(), to.getDate(), 23, 59, 59)\<close>: the local day of \<open>to\<close>.\<close>

definition endOfDay :: "zone \<Rightarrow> int \<Rightarrow> int" where
  "endOfDay z to = (to + zone_offset z) div DAY * DAY - zone_offset z + ((23 * 60 + 59) * 60 + 59) * 1000"

text \<open>A comparison with \<open>NaN\<close> is false: an unreadable date keeps the flag.\<close>

definition later :: "int option \<Rightarrow> int option \<Rightarrow> bool" where
  "later a b = (case (a, b) of (Some x, Some y) \<Rightarrow> x > y | _ \<Rightarrow> False)"

definition created :: "zone \<Rightarrow> jsval \<Rightarrow> int option" where
  "created z f = zone_time z (shown_text (opt_get f ''created_at''))"

definition keeps_flag :: "zone \<Rightarrow> filters \<Rightarrow> jsval \<Rightarrow> bool" where
  "keeps_flag z fs f \<longleftrightarrow>
     (let v = filter_value fs in
      (v ''category'' \<noteq> [] \<longrightarrow> extractCategory (shown_text (opt_get f ''flag_type'')) = v ''category'') \<and>
      (v ''severity'' \<noteq> [] \<longrightarrow> opt_get f ''severity'' = JStr (v ''severity'')) \<and>
      (v ''status'' \<noteq> [] \<longrightarrow> opt_get f ''reviewed'' = JBool (v ''status'' = ''reviewed'')) \<and>
      (v ''dateFrom'' \<noteq> [] \<longrightarrow> \<not> later (zone_time z (v ''dateFrom'')) (created z f)) \<and>
      (v ''dateTo'' \<noteq> [] \<longrightarrow> \<not> later (created z f) (map_option (endOfDay z) (zone_time z (v ''dateTo'')))))"

definition filterFlags :: "zone \<Rightarrow> jsval list \<Rightarrow> filters \<Rightarrow> jsval list" where
  "filterFlags z flags fs = filter (keeps_flag z fs) flags"

section \<open>The page\<close>

datatype review_call =
    ReviewOne string
  | BulkReview "string list"

record smishing_page =
  sm_query :: query
  sm_selected :: "string list"
  showBulkReview :: bool
  sm_filters :: filters
  sm_expanded :: bool
  sm_calls :: "review_call list"
  sm_notes :: "notice list"

datatype smishing_event =
    ToggleFlag string
  | ToggleAllFlags
  | ClearFlags
  | SetFilter string string
  | ResetFilters
  | FoldPanel
  | Review string
  | AskBulkReview | CloseBulkReview | ConfirmBulkReview
  | FlagsAnswer "js_error + jsval"
  | ReviewSettles review_call "js_error + jsval"

definition smishing_initial :: smishing_page where
  "smishing_initial = \<lparr>sm_query = Loading, sm_selected = [], showBulkReview = False, sm_filters = [],
     sm_expanded = False, sm_calls = [], sm_notes = []\<rparr>"

fun review_service :: "review_call \<Rightarrow> service" where
  "review_service (ReviewOne i) = reviewSmishingFlag i"
| "review_service (BulkReview ids) = bulkReviewSmishingFlags (JArr (map JStr ids))"

definition flags :: "smishing_page \<Rightarrow> jsval list" where
  "flags s = items_of (query_data (sm_query s))"

definition filteredFlags :: "zone \<Rightarrow> smishing_page \<Rightarrow> jsval list" where
  "filteredFlags z s = filterFlags z (flags s) (sm_filters s)"

definition flag_ids :: "zone \<Rightarrow> smishing_page \<Rightarrow> string list" where
  "flag_ids z s = map row_id (filteredFlags z s)"

definition pending_flag :: "jsval \<Rightarrow> bool" where
  "pending_flag f \<longleftrightarrow> \<not> truthy (opt_get f ''reviewed'')"

definition sm_pendingCount :: "zone \<Rightarrow> smishing_page \<Rightarrow> nat" where
  "sm_pendingCount z s = length (filter (\<lambda>f. pending_flag f \<and> row_id f \<in> set (sm_selected s)) (filteredFlags z s))"

definition s_unless_one :: "nat \<Rightarrow> string" where
  "s_unless_one n = (if n \<noteq> 1 then ''s'' else [])"

definition sm_send :: "review_call \<Rightarrow> smishing_page \<Rightarrow> smishing_page" where
  "sm_send c s = s\<lparr>sm_calls := sm_calls s @ [c]\<rparr>"

definition sm_note :: "notice \<Rightarrow> smishing_page \<Rightarrow> smishing_page" where
  "sm_note n s = s\<lparr>sm_notes := sm_notes s @ [n]\<rparr>"

definition flag_reviewed :: "js_error + jsval \<Rightarrow> smishing_page \<Rightarrow> smishing_page" where
  "flag_reviewed r s =
     (case r of
        Inl e \<Rightarrow> sm_note (note_error e ''Failed to review flag'') s
      | Inr d \<Rightarrow> sm_note (note_ok ''Flag reviewed successfully'') s)"

definition bulk_reviewed :: "zone \<Rightarrow> js_error + jsval \<Rightarrow> smishing_page \<Rightarrow> smishing_page" where
  "bulk_reviewed z r s =
     (case r of
        Inl e \<Rightarrow> sm_note (note_error e ''Bulk review failed'') s
      | Inr d \<Rightarrow>
          (let n = sm_pendingCount z s
           in sm_note (note_ok (show_nat n @ '' flag'' @ s_unless_one n @ '' reviewed''))
                (s\<lparr>sm_selected := [], showBulkReview := False\<rparr>)))"

definition review_settles :: "zone \<Rightarrow> review_call \<Rightarrow> js_error + jsval \<Rightarrow> smishing_page \<Rightarrow> smishing_page" where
  "review_settles z c r s =
     (case c of ReviewOne i \<Rightarrow> flag_reviewed r s | BulkReview ids \<Rightarrow> bulk_reviewed z r s)\<lparr>sm_calls := remove1 c (sm_calls s)\<rparr>"

fun smishing_step :: "zone \<Rightarrow> smishing_page \<Rightarrow> smishing_event \<Rightarrow> smishing_page" where
  "smishing_step z s (ToggleFlag i) = s\<lparr>sm_selected := toggleSelect i (sm_selected s)\<rparr>"
| "smishing_step z s ToggleAllFlags = s\<lparr>sm_selected := toggleSelectAll (flag_ids z s) (sm_selected s)\<rparr>"
| "smishing_step z s ClearFlags = s\<lparr>sm_selected := []\<rparr>"
| "smishing_step z s (SetFilter k v) = s\<lparr>sm_filters := handleFilterChange k v (sm_filters s)\<rparr>"
| "smishing_step z s ResetFilters = s\<lparr>sm_filters := []\<rparr>"
| "smishing_step z s FoldPanel = s\<lparr>sm_expanded := \<not> sm_expanded s\<rparr>"
| "smishing_step z s (Review i) = sm_send (ReviewOne i) s"
| "smishing_step z s AskBulkReview = s\<lparr>showBulkReview := True\<rparr>"
| "smishing_step z s CloseBulkReview = s\<lparr>showBulkReview := False\<rparr>"
| "smishing_step z s ConfirmBulkReview = sm_send (BulkReview (sm_selected s)) s"
| "smishing_step z s (FlagsAnswer r) = s\<lparr>sm_query := query_answered r (sm_query s)\<rparr>"
| "smishing_step z s (ReviewSettles c r) = (if c \<in> set (sm_calls s) then review_settles z c r s else s)"

section \<open>View\<close>

fun reviews :: "review_call \<Rightarrow> string option" where
  "reviews (ReviewOne i) = Some i" | "reviews _ = None"
fun bulk_reviews :: "review_call \<Rightarrow> string list option" where
  "bulk_reviews (BulkReview ids) = Some ids" | "bulk_reviews _ = None"

definition sm_pending :: "(review_call \<Rightarrow> 'a option) \<Rightarrow> smishing_page \<Rightarrow> bool" where
  "sm_pending k s \<longleftrightarrow> calls_of k (sm_calls s) \<noteq> []"

definition categoryOptions :: "(string \<times> string) list" where
  "categoryOptions = [(''Smishing'', ''smishing''), (''Phishing'', ''phishing''), (''Scam'', ''scam''),
     (''Suspicious Sender'', ''suspicious_sender''), (''Suspicious Recipient'', ''suspicious_recipient'')]"
definition severityOptions :: "(string \<times> string) list" where
  "severityOptions = [(''High'', ''high''), (''Medium'', ''medium''), (''Low'', ''low'')]"
definition statusOptions :: "(string \<times> string) list" where
  "statusOptions = [(''Pending'', ''pending''), (''Reviewed'', ''reviewed'')]"

definition filterFields :: "filter_field list" where
  "filterFields =
     [\<lparr>ff_key = ''category'', ff_label = ''Category'', ff_kind = SelectField categoryOptions\<rparr>,
      \<lparr>ff_key = ''severity'', ff_label = ''Severity'', ff_kind = SelectField severityOptions\<rparr>,
      \<lparr>ff_key = ''status'', ff_label = ''Status'', ff_kind = SelectField statusOptions\<rparr>,
      \<lparr>ff_key = ''dateFrom'', ff_label = ''From date'', ff_kind = TypedField ''date''\<rparr>,
      \<lparr>ff_key = ''dateTo'', ff_label = ''To date'', ff_kind = TypedField ''date''\<rparr>]"

definition smishing_hero :: "'e vnode" where
  "smishing_hero = box [box [El ''h1'' [] [] [span [Txt ''Smishing Flags'']],
     El ''p'' [] [] [Txt ''Social engineering & content-based fraud - delivery scams, phishing, suspicious senders/recipients'']]]"

definition review_bar :: "zone \<Rightarrow> smishing_page \<Rightarrow> smishing_event vnode list" where
  "review_bar z s =
     (let n = length (sm_selected s); pend = sm_pendingCount z s
      in when_do (n > 0)
           [box [box [box [span [Txt (show_nat n @ '' flag'' @ s_unless_one n @ '' selected'')]],
              box (small_button False False ClearFlags ''Clear'' #
                   when_do (pend > 0) [small_button False False AskBulkReview (''Review ('' @ show_nat pend @ '')'')])]]])"

definition all_box :: "zone \<Rightarrow> smishing_page \<Rightarrow> smishing_event vnode" where
  "all_box z s = El ''button'' [] [On ''click'' ToggleAllFlags] [select_icon (isAllSelected (flag_ids z s) (sm_selected s))]"

definition flag_row :: "zone \<Rightarrow> smishing_page \<Rightarrow> jsval \<Rightarrow> smishing_event vnode" where
  "flag_row z s f =
     (let td = (\<lambda>kids. El ''td'' [] [] kids)
      in El ''tr'' [] []
           [td [item_box (sm_selected s) (row_id f) (ToggleFlag (row_id f))],
            td [Txt (take 8 (shown_text (opt_get f ''account_id'')) @ ''...'')],
            td [Badge False [Txt (getCategoryTheme (shown_text (opt_get f ''flag_type'')))]],
            td [Badge False [Txt (shown_text (opt_get f ''severity''))]],
            td [Txt (shown_text (opt_get f ''description''))],
            td [Txt (zone_date z (shown_text (opt_get f ''created_at'')))],
            td [Badge True [Txt (if pending_flag f then ''Pending'' else ''Reviewed'')]],
            td (when_do (pending_flag f) [small_button (sm_pending reviews s) False (Review (row_id f)) ''Review''])])"

definition flag_table :: "zone \<Rightarrow> smishing_page \<Rightarrow> smishing_event vnode" where
  "flag_table z s =
     (let shown = filteredFlags z s; some_filter = sm_filters s \<noteq> []
      in if shown = [] then
           EmptyState (if some_filter then ''No matching flags'' else ''No smishing flags'')
             (Some (if some_filter then ''Try adjusting your filters to see more results.''
                    else ''Social engineering and phishing attempts flagged by the content filter will appear here for review.''))
             None
         else
           box (review_bar z s @
             [box [box [all_box z s,
                span [Txt (''Showing '' @ show_nat (length shown) @ '' of '' @ show_nat (length (flags s)) @ '' flag'' @
                      s_unless_one (length (flags s)))]]],
              El ''table'' [] []
                [El ''thead'' [] []
                   [El ''tr'' [] []
                      (El ''th'' [] [] [all_box z s] #
                       map (\<lambda>h. El ''th'' [] [] [Txt h])
                         [''Account'', ''Category'', ''Severity'', ''Description'', ''Date'', ''Status'', []])],
                 El ''tbody'' [] [] (map (flag_row z s) shown)]]))"

definition review_dialog :: "zone \<Rightarrow> smishing_page \<Rightarrow> smishing_event vnode list" where
  "review_dialog z s =
     (let n = sm_pendingCount z s
      in ConfirmDialog (showBulkReview s) CloseBulkReview ConfirmBulkReview ''Bulk review smishing flags''
           (Some (''Mark '' @ show_nat n @ '' pending flag'' @ s_unless_one n @
              '' as reviewed? They will no longer appear in the pending count badge.''))
           ''Review all'' ''Cancel'' (sm_pending bulk_reviews s))"

definition smishing_view :: "zone \<Rightarrow> smishing_page \<Rightarrow> smishing_event vnode list" where
  "smishing_view z s =
     (if sm_query s = Loading then [PageSkeleton]
      else [smishing_hero,
            FilterPanel filterFields (sm_filters s) (sm_expanded s) FoldPanel SetFilter (Some ResetFilters) [],
            flag_table z s] @ review_dialog z s)"

section \<open>What the page lets the user do\<close>

lemma smishing_fires:
  assumes "sm_query s \<noteq> Loading"
  shows "list_fire (smishing_view z s) (Review i) \<longleftrightarrow>
      (\<exists>f \<in> set (filteredFlags z s). pending_flag f \<and> i = row_id f) \<and> \<not> sm_pending reviews s"
    and "list_fire (smishing_view z s) ConfirmBulkReview \<longleftrightarrow> showBulkReview s \<and> \<not> sm_pending bulk_reviews s"
    and "list_fire (smishing_view z s) AskBulkReview \<longleftrightarrow> 0 < sm_pendingCount z s"
proof -
  have n: "sm_selected s \<noteq> []" "filteredFlags z s \<noteq> []" if "0 < sm_pendingCount z s"
    using that by (auto simp: sm_pendingCount_def)
  note defs = smishing_view_def smishing_hero_def flag_table_def review_bar_def all_box_def flag_row_def
    review_dialog_def ConfirmDialog_def list_fire_map Let_def
  show "list_fire (smishing_view z s) (Review i) \<longleftrightarrow>
      (\<exists>f \<in> set (filteredFlags z s). pending_flag f \<and> i = row_id f) \<and> \<not> sm_pending reviews s"
    and "list_fire (smishing_view z s) ConfirmBulkReview \<longleftrightarrow> showBulkReview s \<and> \<not> sm_pending bulk_reviews s"
    and "list_fire (smishing_view z s) AskBulkReview \<longleftrightarrow> 0 < sm_pendingCount z s"
    using assms n by (auto simp: defs)
qed

fun smishing_ambient :: "smishing_event \<Rightarrow> bool" where
  "smishing_ambient (FlagsAnswer r) = True"
| "smishing_ambient (ReviewSettles c r) = True"
| "smishing_ambient e = False"

definition smishing_possible :: "zone \<Rightarrow> smishing_page \<Rightarrow> smishing_event \<Rightarrow> bool" where
  "smishing_possible z s e \<longleftrightarrow> smishing_ambient e \<or> list_fire (smishing_view z s) e"

definition good_filters :: "filters \<Rightarrow> bool" where
  "good_filters fs \<longleftrightarrow> distinct (map fst fs) \<and> list_all (\<lambda>kv. snd kv \<noteq> []) fs"

definition smishing_inv :: "smishing_page \<Rightarrow> bool" where
  "smishing_inv s \<longleftrightarrow>
     distinct (sm_selected s) \<and> lone reviews (sm_calls s) \<and> lone bulk_reviews (sm_calls s) \<and>
     list_all distinct (calls_of bulk_reviews (sm_calls s)) \<and> good_filters (sm_filters s)"

lemma good_filters_Nil [simp]: "good_filters []"
  by (simp add: good_filters_def)

lemma map_of_put_filter [simp]: "map_of (put_filter k v fs) = (map_of fs)(k \<mapsto> v)"
  by (induction fs) (auto simp: fun_eq_iff)

lemma put_filter_keys: "set (map fst (put_filter k v fs)) = insert k (set (map fst fs))"
  by (induction k v fs rule: put_filter.induct) (simp_all add: insert_commute)

lemma put_filter_good: "v \<noteq> [] \<Longrightarrow> good_filters fs \<Longrightarrow> good_filters (put_filter k v fs)"
proof (induction fs)
  case (Cons kv fs)
  obtain j w where kv: "kv = (j, w)" by (cases kv)
  with Cons have "good_filters (put_filter k v fs)" by (simp add: good_filters_def)
  with Cons.prems kv show ?case using put_filter_keys [of k v fs] by (auto simp: good_filters_def simp del: set_map)
qed (simp add: good_filters_def)

lemma handleFilterChange_good [simp]: "good_filters fs \<Longrightarrow> good_filters (handleFilterChange k v fs)"
  by (auto simp: handleFilterChange_def put_filter_good)
    (auto simp: good_filters_def distinct_map_filter list_all_iff)

lemma review_callbacks_keep [simp]:
  "sm_calls (review_settles z c r s) = remove1 c (sm_calls s)"
  "sm_filters (review_settles z c r s) = sm_filters s"
  "distinct (sm_selected s) \<Longrightarrow> distinct (sm_selected (review_settles z c r s))"
  by (cases c; cases r; simp add: review_settles_def flag_reviewed_def bulk_reviewed_def sm_note_def Let_def)+

lemma smishing_step_inv:
  assumes "smishing_inv s" and "smishing_possible z s e"
  shows "smishing_inv (smishing_step z s e)"
proof -
  have loaded: "sm_query s \<noteq> Loading" if "\<not> smishing_ambient e"
    using assms(2) that by (auto simp: smishing_possible_def smishing_view_def)
  note defs = smishing_inv_def sm_send_def
  show ?thesis
  proof (cases e)
    case (Review i)
    then show ?thesis using assms loaded by (simp add: smishing_possible_def smishing_fires sm_pending_def defs)
  next
    case ConfirmBulkReview
    then show ?thesis using assms loaded by (simp add: smishing_possible_def smishing_fires sm_pending_def defs)
  qed (use assms(1) in \<open>auto simp: defs\<close>)
qed

interpretation smishing: machine "smishing_step z" "smishing_possible z" smishing_inv for z
  by unfold_locales (rule smishing_step_inv)

interpretation reviewing: bulk_action sm_selected "\<lambda>s. calls_of bulk_reviews (sm_calls s)"
    "\<lambda>s. smishing_step z s ConfirmBulkReview" "\<lambda>ids r s. review_settles z (BulkReview ids) r s" for z
proof unfold_locales
  have "bulk_reviews c = Some ids \<longleftrightarrow> c = BulkReview ids" for c ids by (cases c) auto
  then show "calls_of bulk_reviews (sm_calls (review_settles z (BulkReview ids) r s))
      = remove1 ids (calls_of bulk_reviews (sm_calls s))" for ids r s
    by (simp add: calls_of_remove1)
qed (simp_all add: sm_send_def review_settles_def bulk_reviewed_def sm_note_def Let_def)

section \<open>What the filters keep\<close>

text \<open>The condition one filter puts on a flag.\<close>

lemma filter_value_simps [simp]:
  "filter_value [] k = []" "filter_value ((j, v) # fs) k = (if j = k then v else filter_value fs k)"
  by (simp_all add: filter_value_def)

lemma filter_value_mem: "good_filters fs \<Longrightarrow> filter_value fs k \<noteq> [] \<Longrightarrow> (k, filter_value fs k) \<in> set fs"
  by (auto simp: filter_value_def good_filters_def split: option.splits dest: map_of_SomeD)

lemma mem_filter_value: "good_filters fs \<Longrightarrow> (k, v) \<in> set fs \<Longrightarrow> filter_value fs k = v"
  by (simp add: filter_value_def good_filters_def)

definition passes :: "zone \<Rightarrow> jsval \<Rightarrow> string \<Rightarrow> string \<Rightarrow> bool" where
  "passes z f k v \<longleftrightarrow> v \<noteq> [] \<longrightarrow>
     (k = ''category'' \<longrightarrow> extractCategory (shown_text (opt_get f ''flag_type'')) = v) \<and>
     (k = ''severity'' \<longrightarrow> opt_get f ''severity'' = JStr v) \<and>
     (k = ''status'' \<longrightarrow> opt_get f ''reviewed'' = JBool (v = ''reviewed'')) \<and>
     (k = ''dateFrom'' \<longrightarrow> \<not> later (zone_time z v) (created z f)) \<and>
     (k = ''dateTo'' \<longrightarrow> \<not> later (created z f) (map_option (endOfDay z) (zone_time z v)))"

lemma passes_empty [simp]: "passes z f k []"
  by (simp add: passes_def)

lemma keeps_flag_passes:
  "keeps_flag z fs f \<longleftrightarrow>
     passes z f ''category'' (filter_value fs ''category'') \<and> passes z f ''severity'' (filter_value fs ''severity'') \<and>
     passes z f ''status'' (filter_value fs ''status'') \<and> passes z f ''dateFrom'' (filter_value fs ''dateFrom'') \<and>
     passes z f ''dateTo'' (filter_value fs ''dateTo'')"
  by (simp add: keeps_flag_def passes_def Let_def)

lemma keeps_flag_single: "keeps_flag z [(k, v)] f \<longleftrightarrow> passes z f k v"
  by (simp add: keeps_flag_passes) (simp add: passes_def)

lemma keeps_flag_each:
  assumes "good_filters fs"
  shows "keeps_flag z fs f \<longleftrightarrow> (\<forall>kv \<in> set fs. keeps_flag z [kv] f)"
proof
  assume kept: "keeps_flag z fs f"
  have "passes z f k v" if "(k, v) \<in> set fs" for k v
    using kept by (simp add: keeps_flag_passes mem_filter_value [OF assms that, symmetric]) (auto simp: passes_def)
  then show "\<forall>kv \<in> set fs. keeps_flag z [kv] f" by (auto simp: keeps_flag_single)
next
  assume each: "\<forall>kv \<in> set fs. keeps_flag z [kv] f"
  have "passes z f k (filter_value fs k)" for k
    using each filter_value_mem [OF assms, of k] by (cases "filter_value fs k = []") (auto simp: keeps_flag_single)
  then show "keeps_flag z fs f" by (simp add: keeps_flag_passes)
qed

lemma fold_filters: "fold (\<lambda>x. filter (p x)) xs ys = filter (\<lambda>y. \<forall>x \<in> set xs. p x y) ys"
  by (induction xs arbitrary: ys) (auto simp: conj_commute intro: filter_cong)

definition local_day :: "zone \<Rightarrow> int \<Rightarrow> int" where
  "local_day z t = (t + zone_offset z) div DAY"

definition local_time :: "zone \<Rightarrow> int \<Rightarrow> int" where
  "local_time z t = (t + zone_offset z) mod DAY"

lemma day_order:
  assumes "0 \<le> r" "r < n" "0 \<le> m" "(m::int) < n"
  shows "q * n + r \<le> l * n + m \<longleftrightarrow> q < l \<or> q = l \<and> r \<le> m"
proof (cases q l rule: linorder_cases)
  case less
  then have "(q + 1) * n \<le> l * n" using assms by (intro mult_right_mono) auto
  with less assms show ?thesis by (simp add: distrib_right)
next
  case greater
  then have "(l + 1) * n \<le> q * n" using assms by (intro mult_right_mono) auto
  with greater assms show ?thesis by (simp add: distrib_right)
qed simp


text \<open>A zone five hours behind UTC, a day and a flag of its afternoon.\<close>

definition new_york :: zone where
  "new_york = \<lparr>zone_time = (\<lambda>t. if t = ''2024-01-15'' then Some (19737 * DAY)
       else if t = ''afternoon'' then Some (19737 * DAY + DAY div 24 * 20) else None),
     zone_offset = - (DAY div 24 * 5), zone_date = id\<rparr>"

definition one_flag :: jsval where
  "one_flag = JObj [(''id'', JStr ''f1''), (''created_at'', JStr ''afternoon''), (''severity'', JStr ''high'')]"

definition filtering_session :: "smishing_event list" where
  "filtering_session = [FlagsAnswer (Inr (JArr [one_flag])), FoldPanel, SetFilter ''severity'' ''high'', SetFilter ''dateTo'' ''2024-01-15'']"

lemma filtering_session_possible: "smishing.admissible new_york smishing_initial filtering_session"
  by (simp add: filtering_session_def smishing_possible_def smishing_view_def smishing_initial_def filterFields_def)


text \<open>
  The date filters follow the day of UTC, not the user's: a date text names midnight UTC, the end
  of the day is taken of the local day that instant falls in. East of Greenwich \<open>dateTo\<close> keeps
  the chosen local day up to its last second and \<open>dateFrom\<close> drops its first hours; west
  of it \<open>dateTo\<close> drops the whole chosen day and \<open>dateFrom\<close> keeps the last hours of the day before.
\<close>

theorem date_filters_follow_utc:
  assumes "zone_time z d = Some (D * DAY)" and "d \<noteq> []" and "\<bar>zone_offset z\<bar> < DAY" and "created z f = Some t"
  shows "(keeps_flag z [(''dateTo'', d)] f \<longleftrightarrow>
      (let last = (if zone_offset z < 0 then D - 1 else D)
       in local_day z t < last \<or> local_day z t = last \<and> local_time z t \<le> DAY - 1000))
    \<and> (keeps_flag z [(''dateFrom'', d)] f \<longleftrightarrow>
      (let first = (if zone_offset z \<ge> 0 then D else D - 1)
       in first < local_day z t \<or> first = local_day z t \<and> zone_offset z mod DAY \<le> local_time z t))"
proof -
  have D: "0 < DAY" "1000 < DAY" by (simp_all add: DAY_def)
  let ?o = "zone_offset z"
  have split: "t + ?o = local_day z t * DAY + local_time z t" "0 \<le> local_time z t" "local_time z t < DAY"
    using D by (simp_all add: local_day_def local_time_def)
  have neg_day: "?o div DAY = -1" if "?o < 0"
  proof -
    have "(?o + DAY) div DAY = 0" by (rule div_pos_pos_trivial) (use that assms(3) in auto)
    moreover have "(?o + DAY) div DAY = ?o div DAY + 1" by (rule div_add_self2) (simp add: DAY_def)
    ultimately show ?thesis by linarith
  qed
  have day: "(D * DAY + ?o) div DAY = (if ?o < 0 then D - 1 else D)"
    using assms(3) D div_pos_pos_trivial [of ?o DAY] div_mult_self3 [of DAY D ?o]
    by (auto simp: neg_day)
  let ?last = "if ?o < 0 then D - 1 else D"
  have e: "endOfDay z (D * DAY) = ?last * DAY - ?o + (DAY - 1000)"
  proof -
    have m: "((23 * 60 + 59) * 60 + 59) * 1000 = DAY - 1000" by (simp add: DAY_def)
    show ?thesis unfolding endOfDay_def day m ..
  qed
  have "t \<le> endOfDay z (D * DAY) \<longleftrightarrow> local_day z t * DAY + local_time z t \<le> ?last * DAY + (DAY - 1000)"
    using split(1) by (simp only: e) linarith
  also have "\<dots> \<longleftrightarrow> local_day z t < ?last \<or> local_day z t = ?last \<and> local_time z t \<le> DAY - 1000"
    by (rule day_order) (use split D in simp_all)
  finally have upto: "keeps_flag z [(''dateTo'', d)] f \<longleftrightarrow>
      local_day z t < ?last \<or> local_day z t = ?last \<and> local_time z t \<le> DAY - 1000"
    using assms(1,2,4) by (simp add: keeps_flag_single) (simp add: passes_def later_def not_less)
  have "D * DAY \<le> t \<longleftrightarrow> D * DAY + ?o \<le> t + ?o" by simp
  also have "\<dots> \<longleftrightarrow> ?last * DAY + ?o mod DAY \<le> local_day z t * DAY + local_time z t"
    using div_mult_mod_eq [of "D * DAY + ?o" DAY] by (simp add: day split(1))
  also have "\<dots> \<longleftrightarrow> ?last < local_day z t \<or> ?last = local_day z t \<and> ?o mod DAY \<le> local_time z t"
    by (rule day_order) (use split D in simp_all)
  finally have onwards: "keeps_flag z [(''dateFrom'', d)] f \<longleftrightarrow>
      ?last < local_day z t \<or> ?last = local_day z t \<and> ?o mod DAY \<le> local_time z t"
    using assms(1,2,4) by (simp add: keeps_flag_single) (simp add: passes_def later_def not_less)
  show ?thesis unfolding upto onwards by (simp add: Let_def not_less)
qed

theorem date_filters_follow_utc_witness:
  "local_day new_york (19737 * DAY + DAY div 24 * 20) = 19737 \<and> \<not> keeps_flag new_york [(''dateTo'', ''2024-01-15'')] one_flag"
proof -
  let ?t = "19737 * DAY + DAY div 24 * 20"
  have "created new_york one_flag = Some ?t" "zone_time new_york ''2024-01-15'' = Some (19737 * DAY)"
    by (simp_all add: created_def one_flag_def new_york_def obj_get_def shown_text_def)
  moreover have "\<bar>zone_offset new_york\<bar> < DAY" "zone_offset new_york < 0" "local_day new_york ?t = 19737"
    by (simp_all add: new_york_def local_day_def DAY_def)
  ultimately show ?thesis
    using date_filters_follow_utc [of new_york "''2024-01-15''" 19737 one_flag ?t] by simp
qed

text \<open>
  Changing a filter keeps the selection: flags it hides are still sent, and counted by no text
  of the page.
\<close>

lemma hidden_flags_are_reviewed:
  assumes "i \<in> set (sm_selected s)" and "s' = smishing_step z s (SetFilter k v)" and "i \<notin> set (flag_ids z s')"
  shows "\<exists>ids. calls_of bulk_reviews (sm_calls (smishing_step z s' ConfirmBulkReview)) = calls_of bulk_reviews (sm_calls s) @ [ids]
      \<and> i \<in> set ids \<and> \<not> (\<exists>f \<in> set (filteredFlags z s'). row_id f = i)"
  using assms by (auto simp: sm_send_def flag_ids_def)

end
