(* ===== verification/WebhookParts.thy ===== *)
theory WebhookParts
  imports DashboardService ListPage
begin

text \<open>
  What the two webhook pages (\<open>features/webhooks/pages/WebhooksPage.tsx\<close> and
  \<open>features/member/pages/MemberWebhooksPage.tsx\<close>) have in common, line for line: the dialogs that
  reveal a secret, the delivery logs with their cache, the test of an endpoint, and the guide to
  verifying signatures (\<open>components/ui/WebhookVerificationDocs.tsx\<close>). Each is a machine of its own,
  a part of either page. Dashes, ellipses and bullets of the texts are written in ASCII.
\<close>

section \<open>The guide to verifying signatures\<close>

definition apos :: char where
  "apos = CHR 0x27"

definition node_sample :: "string list" where
  "node_sample =
     [''import { createHmac, timingSafeEqual } from '' @ apos # ''crypto'' @ [apos],
      [],
      ''function verifyWebhookSignature('',
      ''  rawBody: Buffer,'',
      ''  signature: string,'',
      ''  secret: string'',
      ''): boolean {'',
      ''  const expected = createHmac('' @ apos # ''sha256'' @ apos # '', secret)'',
      ''    .update(rawBody)'',
      ''    .digest('' @ apos # ''hex'' @ apos # '')'',
      [],
      ''  return timingSafeEqual('',
      ''    Buffer.from(expected),'',
      ''    Buffer.from(signature)'',
      ''  )'',
      ''}'']"

definition python_sample :: "string list" where
  "python_sample =
     [''import hmac'',
      ''import hashlib'',
      [],
      ''def verify_webhook_signature('',
      ''    raw_body: bytes,'',
      ''    signature: str,'',
      ''    secret: str'',
      '') -> bool:'',
      ''    expected = hmac.new('',
      ''        secret.encode(),'',
      ''        raw_body,'',
      ''        hashlib.sha256'',
      ''    ).hexdigest()'',
      ''    return hmac.compare_digest(expected, signature)'']"

definition go_sample :: "string list" where
  "go_sample =
     [''import ('',
      ''  \"crypto/hmac\"'',
      ''  \"crypto/sha256\"'',
      ''  \"encoding/hex\"'',
      '')'',
      [],
      ''func VerifySignature('',
      ''  payload []byte,'',
      ''  secret string,'',
      ''  signature string,'',
      '') bool {'',
      ''  mac := hmac.New(sha256.New, []byte(secret))'',
      ''  mac.Write(payload)'',
      ''  expected := hex.EncodeToString(mac.Sum(nil))'',
      ''  return hmac.Equal('',
      ''    []byte(expected),'',
      ''    []byte(signature),'',
      ''  )'',
      ''}'']"

definition sample_box :: "string \<Rightarrow> string list \<Rightarrow> 'e vnode" where
  "sample_box name ls =
     box [box [El ''svg'' [] [] [], span [Txt name]], El ''pre'' [] [] [El ''code'' [] [] [Txt (join_with [CHR 0x0A] ls)]]]"

definition WebhookVerificationDocs :: "'e vnode" where
  "WebhookVerificationDocs =
     box [box [El ''svg'' [] [] [], span [Txt ''Signature Verification'']],
       El ''p'' [] []
         [Txt ''Every webhook request includes an '', El ''code'' [] [] [Txt ''X-Signature''],
          Txt '' header containing an HMAC-SHA256 signature of the raw request body. Use your webhook secret to verify the signature before processing the payload.''],
       sample_box ''Node.js / TypeScript'' node_sample, sample_box ''Python'' python_sample, sample_box ''Go'' go_sample,
       box [El ''p'' [] []
         [El ''strong'' [] [] [Txt ''Security tip:''], Txt '' Always use a constant-time comparison function (like '',
          El ''code'' [] [] [Txt ''timingSafeEqual''], Txt '' or '', El ''code'' [] [] [Txt ''compare_digest''],
          Txt '') when verifying signatures. This prevents timing attacks.'']]]"

lemma docs_fire [simp]: "\<not> may_fire WebhookVerificationDocs e"
  by (simp add: WebhookVerificationDocs_def sample_box_def)

section \<open>Event lists\<close>

text \<open>\<open>events.split(',').map((e) => e.trim()).filter(Boolean)\<close>.\<close>

definition eventList :: "string \<Rightarrow> string list" where
  "eventList t = filter (\<lambda>e. e \<noteq> []) (map js_trim (split_on (CHR '','') t))"

definition target_url :: "jsval option \<Rightarrow> string" where
  "target_url t = (case t of None \<Rightarrow> ''undefined'' | Some w \<Rightarrow> to_str (opt_get w ''url''))"

section \<open>Revealing a secret\<close>

record secret_part =
  createdSecret :: jsval
  createdWebhookUrl :: jsval
  rotatedSecret :: jsval
  secretVisible :: bool
  copied :: bool

text \<open>The mutations of the page raise \<open>Created\<close> and \<open>Rotated\<close>, the clipboard and the timeout the two of the copy.\<close>

datatype secret_event =
    Created jsval jsval
  | Rotated jsval
  | CloseCreated
  | CloseRotated
  | Reveal
  | CopySecret
  | SecretCopied
  | CopyFades

definition no_secret :: secret_part where
  "no_secret = \<lparr>createdSecret = JNull, createdWebhookUrl = JStr [], rotatedSecret = JNull,
     secretVisible = False, copied = False\<rparr>"

fun secret_step :: "secret_part \<Rightarrow> secret_event \<Rightarrow> secret_part" where
  "secret_step s (Created v u) = s\<lparr>createdSecret := v, createdWebhookUrl := u\<rparr>"
| "secret_step s (Rotated v) = s\<lparr>rotatedSecret := v\<rparr>"
| "secret_step s CloseCreated = s\<lparr>createdSecret := JNull, secretVisible := False, copied := False\<rparr>"
| "secret_step s CloseRotated = s\<lparr>rotatedSecret := JNull, secretVisible := False, copied := False\<rparr>"
| "secret_step s Reveal = s\<lparr>secretVisible := \<not> secretVisible s\<rparr>"
| "secret_step s CopySecret = s"
| "secret_step s SecretCopied = s\<lparr>copied := True\<rparr>"
| "secret_step s CopyFades = s\<lparr>copied := False\<rparr>"

definition secret_text :: "bool \<Rightarrow> jsval \<Rightarrow> string" where
  "secret_text visible v = (if visible then to_str v else replicate (min (length (to_str v)) 48) (CHR ''*''))"

definition secret_field :: "secret_part \<Rightarrow> string \<Rightarrow> jsval \<Rightarrow> secret_event vnode" where
  "secret_field s label v =
     box [El ''label'' [] [] [Txt label],
       box [box [El ''code'' [] [] [Txt (secret_text (secretVisible s) v)]],
         El ''button'' [(''title'', if secretVisible s then ''Hide secret'' else ''Show secret'')] [On ''click'' Reveal] [El ''svg'' [] [] []],
         El ''button'' [(''title'', ''Copy secret'')] [On ''click'' CopySecret]
           [El ''svg'' [(''icon'', if copied s then ''Check'' else ''Copy'')] [] []]]]"

definition created_modal :: "secret_part \<Rightarrow> secret_event vnode list" where
  "created_modal s =
     Modal (truthy (createdSecret s)) CloseCreated (Some ''Webhook created'') None
       (when_do (truthy (createdSecret s))
          [box [box [El ''p'' [] [] [Txt ''Your webhook endpoint '', span [Txt (shown_text (createdWebhookUrl s))], Txt '' has been created.''],
                  El ''p'' [] [] [El ''svg'' [] [] [],
                    Txt ''This secret is shown once. Save it now - you'll need it to verify webhook signatures.'']],
                secret_field s ''Webhook Secret'' (createdSecret s), WebhookVerificationDocs]])
       [small_button False False CloseCreated ''I've saved the secret'']"

definition rotated_modal :: "secret_part \<Rightarrow> secret_event vnode list" where
  "rotated_modal s =
     Modal (truthy (rotatedSecret s)) CloseRotated (Some ''Secret rotated'') None
       (when_do (truthy (rotatedSecret s))
          [box [box [El ''p'' [] [] [Txt ''The webhook secret has been rotated.''],
                  El ''p'' [] [] [El ''svg'' [] [] [],
                    Txt ''Update your endpoint's signature verification with the new secret. The old secret will no longer work.'']],
                secret_field s ''New Secret'' (rotatedSecret s), WebhookVerificationDocs]])
       [small_button False False CloseRotated ''Done'']"

definition secret_view :: "secret_part \<Rightarrow> secret_event vnode list" where
  "secret_view s = created_modal s @ rotated_modal s"

section \<open>Delivery logs\<close>

record log_part =
  logsExpanded :: "string \<Rightarrow> bool"
  deliveriesCache :: "string \<Rightarrow> jsval"
  loadingLogs :: "string \<Rightarrow> bool"
  lg_calls :: "string list"
  lg_notes :: "notice list"

datatype log_event =
    ToggleLogs string
  | LogsSettle string "js_error + jsval"

definition logs_initial :: log_part where
  "logs_initial = \<lparr>logsExpanded = (\<lambda>i. False), deliveriesCache = (\<lambda>i. JUndef), loadingLogs = (\<lambda>i. False),
     lg_calls = [], lg_notes = []\<rparr>"

definition toggle_logs :: "string \<Rightarrow> log_part \<Rightarrow> log_part" where
  "toggle_logs i s =
     (let expanded = \<not> logsExpanded s i; s1 = s\<lparr>logsExpanded := (logsExpanded s)(i := expanded)\<rparr>
      in if expanded \<and> \<not> truthy (deliveriesCache s i) then
           s1\<lparr>loadingLogs := (loadingLogs s)(i := True), lg_calls := lg_calls s @ [i]\<rparr>
         else s1)"

definition logs_settle :: "string \<Rightarrow> js_error + jsval \<Rightarrow> log_part \<Rightarrow> log_part" where
  "logs_settle i r s =
     (case r of
        Inr d \<Rightarrow> s\<lparr>deliveriesCache := (deliveriesCache s)(i := d)\<rparr>
      | Inl e \<Rightarrow> s\<lparr>deliveriesCache := (deliveriesCache s)(i := JArr []),
                  lg_notes := lg_notes s @ [(''Failed to load delivery logs'', ''error'')]\<rparr>)
       \<lparr>loadingLogs := (loadingLogs s)(i := False), lg_calls := remove1 i (lg_calls s)\<rparr>"

fun log_step :: "log_part \<Rightarrow> log_event \<Rightarrow> log_part" where
  "log_step s (ToggleLogs i) = toggle_logs i s"
| "log_step s (LogsSettle i r) = (if i \<in> set (lg_calls s) then logs_settle i r s else s)"

text \<open>The icon of a delivery; a date is printed by the host with \<open>locale_string\<close>.\<close>

definition starts_with :: "string \<Rightarrow> string \<Rightarrow> bool" where
  "starts_with t p \<longleftrightarrow> take (length p) t = p"

definition delivery_icon :: "jsval \<Rightarrow> string" where
  "delivery_icon d =
     (let status = opt_get d ''last_status''
      in if truthy (opt_get d ''completed'') \<and> status = JStr ''delivered'' then ''CheckCircle''
         else if status = JStr ''dead_letter'' then ''XCircle''
         else if starts_with (to_str status) ''failed'' then ''XCircle''
         else ''Clock'')"

definition above :: "jsval \<Rightarrow> int \<Rightarrow> bool" where
  "above v n \<longleftrightarrow> (case v of JNum k \<Rightarrow> k > n | _ \<Rightarrow> False)"

definition delivery_row :: "(string \<Rightarrow> string) \<Rightarrow> jsval \<Rightarrow> 'e vnode" where
  "delivery_row locale_string d =
     box [box [El ''svg'' [(''icon'', delivery_icon d)] [] []],
       box [box ([span [Txt (shown_text (opt_get d ''last_status''))]] @
              when_do (above (opt_get d ''status_code'') 0) [span [Txt (''HTTP '' @ shown_text (opt_get d ''status_code''))]] @
              [span [Txt ''-''], span [Txt (shown_text (opt_get d ''event''))]]),
            box ([span [Txt (take 8 (to_str (opt_get d ''message_id'')) @ ''...'')], span [Txt ''-''],
              span [Txt (locale_string (to_str (js_or (opt_get d ''last_attempt_at'') (opt_get d ''created_at''))))]] @
              when_do (above (opt_get d ''attempt_count'') 1)
                [span [Txt ''-''], span [Txt (shown_text (opt_get d ''attempt_count'') @ '' attempts'')]])]]"

definition DeliveryLogTable :: "(string \<Rightarrow> string) \<Rightarrow> jsval list \<Rightarrow> bool \<Rightarrow> 'e vnode" where
  "DeliveryLogTable locale_string deliveries loading =
     (if loading then box [El ''svg'' [] [] [], Txt ''Loading delivery logs...'']
      else if deliveries = [] then
        box [Txt ''No delivery logs yet. Deliveries will appear here when webhooks are triggered.'']
      else box (map (delivery_row locale_string) (take 10 deliveries) @
             when_do (length deliveries > 10)
               [El ''p'' [] [] [Txt (''+'' @ show_nat (length deliveries - 10) @ '' more'')]]))"

definition log_section :: "(string \<Rightarrow> string) \<Rightarrow> log_part \<Rightarrow> string \<Rightarrow> log_event vnode" where
  "log_section locale_string s i =
     box ([El ''button'' [] [On ''click'' (ToggleLogs i)]
             ([El ''svg'' [] [] [], span [Txt ''Delivery logs'']] @ when_do (loadingLogs s i) [El ''svg'' [] [] []] @
              [El ''svg'' [(''icon'', if logsExpanded s i then ''ChevronDown'' else ''ChevronRight'')] [] []])] @
          when_do (logsExpanded s i)
            [box [DeliveryLogTable locale_string (items_of (js_or (deliveriesCache s i) (JArr []))) (loadingLogs s i)]])"

section \<open>Testing an endpoint\<close>

text \<open>A result is kept with the id and the address of the webhook it was asked for.\<close>

record test_part =
  testResult :: "(string \<times> string \<times> jsval) option"
  testLoading :: "string option"
  ts_calls :: "(string \<times> string) list"
  ts_notes :: "notice list"

datatype test_event =
    SendTest string string
  | TestSettles string string "js_error + jsval"
  | CloseResult

definition tests_initial :: test_part where
  "tests_initial = \<lparr>testResult = None, testLoading = None, ts_calls = [], ts_notes = []\<rparr>"

definition test_settles :: "string \<Rightarrow> string \<Rightarrow> js_error + jsval \<Rightarrow> test_part \<Rightarrow> test_part" where
  "test_settles i u r s =
     (case r of
        Inr d \<Rightarrow> s\<lparr>testResult := Some (i, u, d)\<rparr>
      | Inl e \<Rightarrow> s\<lparr>ts_notes := ts_notes s @ [(''Failed to test webhook'', ''error'')]\<rparr>)
       \<lparr>testLoading := None, ts_calls := remove1 (i, u) (ts_calls s)\<rparr>"

fun test_step :: "test_part \<Rightarrow> test_event \<Rightarrow> test_part" where
  "test_step s (SendTest i u) = s\<lparr>testLoading := Some i, ts_calls := ts_calls s @ [(i, u)]\<rparr>"
| "test_step s (TestSettles i u r) = (if (i, u) \<in> set (ts_calls s) then test_settles i u r s else s)"
| "test_step s CloseResult = s\<lparr>testResult := None\<rparr>"

definition test_button :: "test_part \<Rightarrow> string \<Rightarrow> string \<Rightarrow> test_event vnode" where
  "test_button s i u = small_button (testLoading s = Some i) False (SendTest i u) ''Test''"

definition status_ok :: "jsval \<Rightarrow> bool" where
  "status_ok v \<longleftrightarrow> above v 199 \<and> \<not> above v 299"

definition result_modal :: "test_part \<Rightarrow> test_event vnode list" where
  "result_modal s =
     Modal (testResult s \<noteq> None) CloseResult (Some ''Webhook test result'') None
       (case testResult s of
          None \<Rightarrow> []
        | Some (i, u, d) \<Rightarrow>
            (let code = opt_get d ''status_code''
             in [box ([box [El ''p'' [] [] [Txt ''Sent test payload to '', span [Txt u]],
                     El ''p'' [] [] [Txt ''Event: '', El ''code'' [] [] [Txt ''test.ping'']]],
                   box [El ''svg'' [(''icon'', if status_ok code then ''CheckCircle'' else ''XCircle'')] [] [],
                     box (El ''p'' [] [] [Txt (''HTTP '' @ shown_text code @ (if status_ok code then '' - Success'' else '' - Error''))] #
                       when_do (truthy (opt_get d ''error'')) [El ''p'' [] [] [Txt (shown_text (opt_get d ''error''))]])]] @
                   when_do (truthy (opt_get d ''response_body''))
                     [box [El ''label'' [] [] [Txt ''Response Body''],
                           El ''pre'' [] [] [Txt (shown_text (opt_get d ''response_body''))]]])]))
       [small_button False False CloseResult ''Done'']"

section \<open>What the parts promise\<close>

subsection \<open>Secrets\<close>

lemma secret_view_fires [simp]:
  "list_fire (secret_view s) e \<longleftrightarrow>
     truthy (createdSecret s) \<and> e \<in> {CloseCreated, Reveal, CopySecret} \<or>
     truthy (rotatedSecret s) \<and> e \<in> {CloseRotated, Reveal, CopySecret}"
  by (auto simp: secret_view_def created_modal_def rotated_modal_def secret_field_def)

text \<open>The secrets the server answers with are not empty.\<close>

fun secret_possible :: "secret_part \<Rightarrow> secret_event \<Rightarrow> bool" where
  "secret_possible s (Created v u) = truthy v"
| "secret_possible s (Rotated v) = truthy v"
| "secret_possible s SecretCopied = True"
| "secret_possible s CopyFades = True"
| "secret_possible s e = list_fire (secret_view s) e"

definition on_show :: "secret_part \<Rightarrow> bool" where
  "on_show s \<longleftrightarrow> truthy (createdSecret s) \<or> truthy (rotatedSecret s)"

text \<open>A secret in the clear is one that a dialog is open for, unless the other dialog was closed with it.\<close>

definition secret_inv :: "secret_part \<Rightarrow> bool" where
  "secret_inv s \<longleftrightarrow> (secretVisible s \<longrightarrow> on_show s)"

interpretation secrets: machine secret_step secret_possible secret_inv
proof
  fix s e assume "secret_inv s" "secret_possible s e"
  then show "secret_inv (secret_step s e)" by (cases e) (auto simp: secret_inv_def on_show_def)
qed

text \<open>
  A secret starts hidden and is shown once: in every state the dialogs can reach without a
  secret on show, the dialog that opens on a created or a rotated secret prints bullets in its
  place, at most 48 of them, and once that dialog is closed nothing of it is left in the
  view or in the state.
\<close>

theorem secrets_start_hidden:
  assumes "secrets.admissible no_secret evs" and "s = foldl secret_step no_secret evs" and "\<not> on_show s"
    and "c = secret_step s (Created v u)" and "r = secret_step s (Rotated v)" and "truthy v"
  shows "secret_text (secretVisible c) v = replicate (min (length (to_str v)) 48) (CHR ''*'')
    \<and> secret_text (secretVisible r) v = replicate (min (length (to_str v)) 48) (CHR ''*'')
    \<and> list_fire (secret_view c) Reveal \<and> list_fire (secret_view r) Reveal
    \<and> secret_view (secret_step c CloseCreated) = [] \<and> createdSecret (secret_step c CloseCreated) = JNull
    \<and> secret_view (secret_step r CloseRotated) = [] \<and> rotatedSecret (secret_step r CloseRotated) = JNull"
proof -
  have "secret_inv no_secret" by (simp add: secret_inv_def no_secret_def)
  then have "secret_inv s" unfolding assms(2) by (rule secrets.fold_inv [OF _ assms(1)])
  with assms(3) have "\<not> secretVisible s" by (simp add: secret_inv_def)
  with assms(3-6) show ?thesis
    by (simp add: secret_text_def on_show_def secret_view_def created_modal_def rotated_modal_def secret_field_def Modal_def)
qed

definition secret_session :: "secret_event list" where
  "secret_session = [Created (JStr ''s3cret'') (JStr ''https://a.b''), Reveal, CopySecret, SecretCopied, CloseCreated, CopyFades]"

theorem secrets_start_hidden_witness:
  "secret_text (secretVisible (foldl secret_step no_secret (secret_session @ [Rotated (JStr ''k1'')]))) (JStr ''k1'') = ''**''"
proof -
  have "secrets.admissible no_secret secret_session" "\<not> on_show (foldl secret_step no_secret secret_session)"
    by (simp_all add: secret_session_def no_secret_def on_show_def)
  from secrets_start_hidden [OF this(1) refl this(2) refl refl, of "JStr ''k1''"] show ?thesis
    by (simp add: numeral_2_eq_2)
qed

text \<open>A second secret, arriving while another is shown in the clear, is shown in the clear at once.\<close>

lemma second_secret_is_shown:
  "secretVisible s \<Longrightarrow> secret_text (secretVisible (secret_step s (Rotated v))) v = to_str v"
  by (simp add: secret_text_def)

subsection \<open>Delivery logs\<close>

text \<open>
  A delivery log is settled for good: once its only request is answered, whatever events
  follow, what the answer left in the cache stays there, no request for it is sent again and it is
  never loading. This includes a failure: it leaves the empty list, so that the log
  says that there were no deliveries, and opening it again does not ask again.
\<close>

theorem delivery_log_is_final:
  assumes "count_list (lg_calls s) i = 1" and "v = (case r of Inl e \<Rightarrow> JArr [] | Inr d \<Rightarrow> d)" and "truthy v"
    and "t = foldl log_step (log_step s (LogsSettle i r)) evs"
  shows "deliveriesCache t i = v \<and> i \<notin> set (lg_calls t) \<and> \<not> loadingLogs t i
    \<and> (logsExpanded t i \<and> v = JArr [] \<longrightarrow>
        ''No delivery logs yet. Deliveries will appear here when webhooks are triggered.'' \<in> set (texts (log_section f t i)))"
proof -
  define keeps where "keeps x \<longleftrightarrow> deliveriesCache x i = v \<and> i \<notin> set (lg_calls x) \<and> \<not> loadingLogs x i" for x :: log_part
  have step: "keeps (log_step x e)" if "keeps x" for x e
  proof (cases e)
    case (ToggleLogs j)
    with that assms(3) show ?thesis by (auto simp: keeps_def toggle_logs_def Let_def)
  next
    case (LogsSettle j q)
    with that show ?thesis by (auto simp: keeps_def logs_settle_def dest: notin_set_remove1 split: sum.split)
  qed
  have "i \<in> set (lg_calls s)" using assms(1) by (metis count_list_0_iff zero_neq_one)
  moreover have "i \<notin> set (remove1 i (lg_calls s))"
    using assms(1) by (simp add: count_list_0_iff [symmetric] count_list_remove1)
  ultimately have "keeps (log_step s (LogsSettle i r))"
    using assms(2) by (simp add: keeps_def logs_settle_def split: sum.splits)
  then have "keeps t" unfolding assms(4) by (induction evs arbitrary: s rule: rev_induct) (simp_all add: step)
  then show ?thesis
    by (auto simp: keeps_def log_section_def DeliveryLogTable_def items_of_def js_or_def)
qed

definition broken_log_session :: "log_event list" where
  "broken_log_session = [ToggleLogs ''w1'', ToggleLogs ''w1'']"

theorem delivery_log_is_final_witness:
  "let t = foldl log_step (log_step (log_step logs_initial (ToggleLogs ''w1'')) (LogsSettle ''w1'' (Inl (JsError ''down'')))) broken_log_session
   in logsExpanded t ''w1'' \<and> lg_calls t = []
     \<and> ''No delivery logs yet. Deliveries will appear here when webhooks are triggered.'' \<in> set (texts (log_section id t ''w1''))"
proof -
  define s where "s = log_step logs_initial (ToggleLogs ''w1'')"
  define t where "t = foldl log_step (log_step s (LogsSettle ''w1'' (Inl (JsError ''down'')))) broken_log_session"
  have "count_list (lg_calls s) ''w1'' = 1" "logsExpanded t ''w1''" "lg_calls t = []"
    by (simp_all add: s_def t_def logs_initial_def broken_log_session_def toggle_logs_def logs_settle_def)
  with delivery_log_is_final [of s "''w1''" "JArr []" "Inl (JsError ''down'')", OF _ _ _ t_def] show ?thesis
    unfolding Let_def t_def [symmetric] s_def [symmetric] by simp
qed

subsection \<open>Tests\<close>

text \<open>The button of a webhook is busy only while a test of that webhook runs; a second test hides the first.\<close>

definition test_inv :: "test_part \<Rightarrow> bool" where
  "test_inv s \<longleftrightarrow> (case testLoading s of None \<Rightarrow> True | Some i \<Rightarrow> i \<in> set (map fst (ts_calls s)))"

definition test_possible :: "test_part \<Rightarrow> test_event \<Rightarrow> bool" where
  "test_possible s e \<longleftrightarrow> (case e of SendTest i u \<Rightarrow> testLoading s \<noteq> Some i | CloseResult \<Rightarrow> testResult s \<noteq> None | _ \<Rightarrow> True)"

interpretation tests: machine test_step test_possible test_inv
proof
  fix s e assume "test_inv s" "test_possible s e"
  then show "test_inv (test_step s e)"
    by (cases e) (auto simp: test_inv_def test_settles_def split: option.splits sum.splits)
qed

lemma test_repeated_while_running:
  "a \<noteq> b \<Longrightarrow> (a, u) \<in> set (ts_calls s) \<Longrightarrow>
    (let t = test_step (test_step s (SendTest b v)) (TestSettles b v r) in (a, u) \<in> set (ts_calls t) \<and> test_possible t (SendTest a u))"
  by (auto simp: test_settles_def test_possible_def Let_def split: sum.splits)

lemma part_fires [simp]:
  "may_fire (test_button s i u) e \<longleftrightarrow> testLoading s \<noteq> Some i \<and> e = SendTest i u"
  "list_fire (result_modal s) e \<longleftrightarrow> testResult s \<noteq> None \<and> e = CloseResult"
  "may_fire (log_section f l i) le \<longleftrightarrow> le = ToggleLogs i"
proof -
  show "may_fire (test_button s i u) e \<longleftrightarrow> testLoading s \<noteq> Some i \<and> e = SendTest i u"
    by (simp add: test_button_def)
  show "list_fire (result_modal s) e \<longleftrightarrow> testResult s \<noteq> None \<and> e = CloseResult"
    by (auto simp: result_modal_def Let_def split: option.splits prod.splits)
  have row: "\<not> may_fire (delivery_row f d :: log_event vnode) le" for d by (simp add: delivery_row_def)
  show "may_fire (log_section f l i) le \<longleftrightarrow> le = ToggleLogs i"
    by (auto simp: log_section_def DeliveryLogTable_def list_fire_map row)
qed

subsection \<open>Event lists\<close>

text \<open>A name that the list prints and reads back as itself.\<close>

definition plain_event :: "string \<Rightarrow> bool" where
  "plain_event e \<longleftrightarrow> e \<noteq> [] \<and> CHR '','' \<notin> set e \<and> js_trim e = e"

lemma trim_after_space: "js_trim (CHR '' '' # e) = js_trim e"
  by (simp add: js_trim_def is_space_def char_code_def)

lemma eventList_cons:
  "CHR '','' \<notin> set w \<Longrightarrow> js_trim w \<noteq> [] \<Longrightarrow> eventList (w @ CHR '','' # t) = js_trim w # eventList t"
  by (simp add: eventList_def split_on_append)

lemma eventList_space: "es \<noteq> [] \<Longrightarrow> list_all plain_event es \<Longrightarrow> eventList (CHR '' '' # join_with '', '' es) = es"
proof (induction "'', ''" es rule: join_with.induct)
  case (2 x)
  then show ?case by (simp add: eventList_def split_on_none plain_event_def trim_after_space)
next
  case (3 x y xs)
  then have x: "js_trim (CHR '' '' # x) = x" "CHR '','' \<notin> set (CHR '' '' # x)" "x \<noteq> []"
    by (simp_all add: plain_event_def trim_after_space)
  have "eventList ((CHR '' '' # x) @ CHR '','' # CHR '' '' # join_with '', '' (y # xs)) =
      x # eventList (CHR '' '' # join_with '', '' (y # xs))"
    by (subst eventList_cons) (use x in simp_all)
  with 3 show ?case by simp
qed simp

lemma eventList_join:
  assumes "list_all plain_event es"
  shows "eventList (join_with '', '' es) = es"
proof (cases es)
  case Nil
  then show ?thesis by (simp add: eventList_def)
next
  case (Cons x xs)
  have "js_trim (CHR '' '' # t) = js_trim t" for t by (rule trim_after_space)
  then have "eventList (CHR '' '' # t) = eventList t" for t
    by (simp add: eventList_def split: list.split)
  with eventList_space [of es] Cons assms show ?thesis by simp
qed

end
