(* ===== verification/Webhooks.thy ===== *)
theory Webhooks
  imports WebhookParts
begin

text \<open>
  The administrators' webhooks page (\<open>features/webhooks/pages/WebhooksPage.tsx\<close>): a page of
  webhooks with creation, single and bulk deletion, rotation of secrets and activation, over the
  parts of \<open>WebhookParts\<close>. Those parts keep the notifications they ask for in their own lists.
\<close>

section \<open>State\<close>

datatype webhook_call =
    SaveWebhook string string
  | DeleteOne "string option"
  | BulkDelete "string list"
  | RotateSecret string
  | ToggleActive string bool

record webhooks_page =
  wp_showForm :: bool
  wp_deleteTarget :: "jsval option"
  rotateTarget :: "jsval option"
  wp_selected :: "string list"
  wp_showBulkDelete :: bool
  wp_url :: string
  wp_events :: string
  wp_error :: string
  showVerificationDocs :: bool
  wp_page :: int
  wp_queries :: "int \<Rightarrow> query"
  wp_calls :: "webhook_call list"
  wp_notes :: "notice list"
  wp_secrets :: secret_part
  wp_logs :: log_part
  wp_tests :: test_part

datatype webhooks_event =
    NewWebhook
  | CloseForm
  | SetUrl string
  | SetEvents string
  | Save
  | ToggleOne string
  | ToggleAll
  | ClearSelection
  | AskDelete jsval | CloseDelete | ConfirmDelete
  | AskRotate jsval | CloseRotate | ConfirmRotate
  | AskBulkDelete | CloseBulkDelete | ConfirmBulkDelete
  | SetActive string bool
  | ToggleDocs
  | PrevPage | NextPage
  | WebhooksAnswer int "js_error + jsval"
  | Settles webhook_call "js_error + jsval"
  | SecretEv secret_event
  | LogEv log_event
  | TestEv test_event

definition webhooks_initial :: webhooks_page where
  "webhooks_initial = \<lparr>wp_showForm = False, wp_deleteTarget = None, rotateTarget = None, wp_selected = [],
     wp_showBulkDelete = False, wp_url = [], wp_events = [], wp_error = [], showVerificationDocs = False,
     wp_page = 1, wp_queries = (\<lambda>p. Loading), wp_calls = [], wp_notes = [],
     wp_secrets = no_secret, wp_logs = logs_initial, wp_tests = tests_initial\<rparr>"

definition webhooks_query :: "int \<Rightarrow> service" where
  "webhooks_query p = getWebhooks (JObj [(''page'', JNum p), (''pageSize'', JNum 30)])"

definition webhook_form :: "string \<Rightarrow> string \<Rightarrow> jsval" where
  "webhook_form url events = JObj [(''url'', JStr url), (''events'', JArr (map JStr (eventList events)))]"

text \<open>\<open>api.put\<close> on the webhook itself, and the body of its answer.\<close>

definition set_active :: "string \<Rightarrow> bool \<Rightarrow> service" where
  "set_active i active = Service (put_req (''/webhooks/'' @ i) (obj1 ''active'' (JBool active))) (on_body Inr)"

text \<open>A deletion without a target sends nothing and succeeds.\<close>

fun webhook_service :: "webhook_call \<Rightarrow> service option" where
  "webhook_service (SaveWebhook u e) = Some (createWebhook (webhook_form u e))"
| "webhook_service (DeleteOne target) = map_option deleteWebhook target"
| "webhook_service (BulkDelete ids) = Some (bulkDeleteWebhooks (JArr (map JStr ids)))"
| "webhook_service (RotateSecret i) = Some (rotateWebhookSecret i)"
| "webhook_service (ToggleActive i active) = Some (set_active i active)"

text \<open>The deliveries and the tests ask these services.\<close>

definition log_service :: "string \<Rightarrow> service" where
  "log_service i = getWebhookDeliveries i"

definition test_service :: "string \<Rightarrow> service" where
  "test_service i = testWebhook i"

definition webhooks :: "webhooks_page \<Rightarrow> jsval list" where
  "webhooks s = page_rows (wp_queries s (wp_page s))"

definition wp_totalPages :: "webhooks_page \<Rightarrow> int" where
  "wp_totalPages s = page_count (wp_queries s (wp_page s))"

definition webhook_ids :: "webhooks_page \<Rightarrow> string list" where
  "webhook_ids s = map row_id (webhooks s)"

section \<open>Handlers and callbacks\<close>

definition wp_send :: "webhook_call \<Rightarrow> webhooks_page \<Rightarrow> webhooks_page" where
  "wp_send c s = s\<lparr>wp_calls := wp_calls s @ [c]\<rparr>"

definition wp_note :: "notice \<Rightarrow> webhooks_page \<Rightarrow> webhooks_page" where
  "wp_note n s = s\<lparr>wp_notes := wp_notes s @ [n]\<rparr>"

definition tell_secret :: "secret_event \<Rightarrow> webhooks_page \<Rightarrow> webhooks_page" where
  "tell_secret e s = s\<lparr>wp_secrets := secret_step (wp_secrets s) e\<rparr>"

text \<open>After the \<open>await\<close> in the mutation the secret is read, before \<open>onSuccess\<close>; an answer of \<open>null\<close> throws there.\<close>

definition webhook_saved :: "js_error + jsval \<Rightarrow> webhooks_page \<Rightarrow> webhooks_page" where
  "webhook_saved r s =
     (case sbind r (\<lambda>d. js_get d ''secret'') of
        Inl e \<Rightarrow> (wp_note (note_error e ''Failed to create webhook'') s)\<lparr>wp_error := err_message e\<rparr>
      | Inr secret \<Rightarrow>
          let url = (case r of Inr d \<Rightarrow> opt_get d ''url'' | Inl e \<Rightarrow> JUndef);
              s1 = (if truthy secret then tell_secret (Created secret url) s else s)
          in wp_note (note_ok ''Webhook created'') (s1\<lparr>wp_showForm := False, wp_url := [], wp_events := []\<rparr>))"

text \<open>The deletions have no \<open>onError\<close>: a failure is not reported.\<close>

definition webhook_deleted :: "js_error + jsval \<Rightarrow> webhooks_page \<Rightarrow> webhooks_page" where
  "webhook_deleted r s =
     (case r of Inl e \<Rightarrow> s | Inr d \<Rightarrow> wp_note (note_ok ''Webhook deleted'') (s\<lparr>wp_deleteTarget := None\<rparr>))"

definition webhooks_deleted :: "js_error + jsval \<Rightarrow> webhooks_page \<Rightarrow> webhooks_page" where
  "webhooks_deleted r s =
     (case r of
        Inl e \<Rightarrow> s
      | Inr d \<Rightarrow> wp_note (note_ok (show_nat (length (wp_selected s)) @ '' webhooks deleted''))
                   (s\<lparr>wp_selected := [], wp_showBulkDelete := False\<rparr>))"

definition secret_rotated :: "js_error + jsval \<Rightarrow> webhooks_page \<Rightarrow> webhooks_page" where
  "secret_rotated r s =
     (case r of Inl e \<Rightarrow> s | Inr secret \<Rightarrow> wp_note (note_ok ''Secret rotated'') (tell_secret (Rotated secret) s))"

definition active_toggled :: "js_error + jsval \<Rightarrow> webhooks_page \<Rightarrow> webhooks_page" where
  "active_toggled r s = (case r of Inl e \<Rightarrow> wp_note (note_error e ''Failed to toggle webhook'') s | Inr d \<Rightarrow> s)"

fun webhook_callback :: "webhook_call \<Rightarrow> js_error + jsval \<Rightarrow> webhooks_page \<Rightarrow> webhooks_page" where
  "webhook_callback (SaveWebhook u e) = webhook_saved"
| "webhook_callback (DeleteOne t) = webhook_deleted"
| "webhook_callback (BulkDelete ids) = webhooks_deleted"
| "webhook_callback (RotateSecret i) = secret_rotated"
| "webhook_callback (ToggleActive i a) = active_toggled"

definition webhook_settles :: "webhook_call \<Rightarrow> js_error + jsval \<Rightarrow> webhooks_page \<Rightarrow> webhooks_page" where
  "webhook_settles c r s = (webhook_callback c r s)\<lparr>wp_calls := remove1 c (wp_calls s)\<rparr>"

definition confirm_rotate :: "webhooks_page \<Rightarrow> webhooks_page" where
  "confirm_rotate s =
     (case rotateTarget s of None \<Rightarrow> s | Some w \<Rightarrow> (wp_send (RotateSecret (row_id w)) s)\<lparr>rotateTarget := None\<rparr>)"

fun webhooks_step :: "webhooks_page \<Rightarrow> webhooks_event \<Rightarrow> webhooks_page" where
  "webhooks_step s NewWebhook = s\<lparr>wp_error := [], wp_showForm := True\<rparr>"
| "webhooks_step s CloseForm = s\<lparr>wp_showForm := False\<rparr>"
| "webhooks_step s (SetUrl t) = s\<lparr>wp_url := t\<rparr>"
| "webhooks_step s (SetEvents t) = s\<lparr>wp_events := t\<rparr>"
| "webhooks_step s Save = wp_send (SaveWebhook (wp_url s) (wp_events s)) s"
| "webhooks_step s (ToggleOne i) = s\<lparr>wp_selected := toggleSelect i (wp_selected s)\<rparr>"
| "webhooks_step s ToggleAll = s\<lparr>wp_selected := toggleSelectAll (webhook_ids s) (wp_selected s)\<rparr>"
| "webhooks_step s ClearSelection = s\<lparr>wp_selected := []\<rparr>"
| "webhooks_step s (AskDelete w) = s\<lparr>wp_deleteTarget := Some w\<rparr>"
| "webhooks_step s CloseDelete = s\<lparr>wp_deleteTarget := None\<rparr>"
| "webhooks_step s ConfirmDelete = wp_send (DeleteOne (map_option row_id (wp_deleteTarget s))) s"
| "webhooks_step s (AskRotate w) = s\<lparr>rotateTarget := Some w\<rparr>"
| "webhooks_step s CloseRotate = s\<lparr>rotateTarget := None\<rparr>"
| "webhooks_step s ConfirmRotate = confirm_rotate s"
| "webhooks_step s AskBulkDelete = s\<lparr>wp_showBulkDelete := True\<rparr>"
| "webhooks_step s CloseBulkDelete = s\<lparr>wp_showBulkDelete := False\<rparr>"
| "webhooks_step s ConfirmBulkDelete = wp_send (BulkDelete (wp_selected s)) s"
| "webhooks_step s (SetActive i a) = wp_send (ToggleActive i a) s"
| "webhooks_step s ToggleDocs = s\<lparr>showVerificationDocs := \<not> showVerificationDocs s\<rparr>"
| "webhooks_step s PrevPage = s\<lparr>wp_page := prev_page (wp_page s)\<rparr>"
| "webhooks_step s NextPage = s\<lparr>wp_page := next_page (wp_totalPages s) (wp_page s)\<rparr>"
| "webhooks_step s (WebhooksAnswer p r) = s\<lparr>wp_queries := (wp_queries s)(p := query_answered r (wp_queries s p))\<rparr>"
| "webhooks_step s (Settles c r) = (if c \<in> set (wp_calls s) then webhook_settles c r s else s)"
| "webhooks_step s (SecretEv e) = tell_secret e s"
| "webhooks_step s (LogEv e) = s\<lparr>wp_logs := log_step (wp_logs s) e\<rparr>"
| "webhooks_step s (TestEv e) = s\<lparr>wp_tests := test_step (wp_tests s) e\<rparr>"

section \<open>View\<close>

fun wp_saves :: "webhook_call \<Rightarrow> (string \<times> string) option" where
  "wp_saves (SaveWebhook u e) = Some (u, e)" | "wp_saves _ = None"
fun wp_deletes :: "webhook_call \<Rightarrow> string option option" where
  "wp_deletes (DeleteOne t) = Some t" | "wp_deletes _ = None"
fun wp_bulk_deletes :: "webhook_call \<Rightarrow> string list option" where
  "wp_bulk_deletes (BulkDelete ids) = Some ids" | "wp_bulk_deletes _ = None"
fun wp_rotates :: "webhook_call \<Rightarrow> string option" where
  "wp_rotates (RotateSecret i) = Some i" | "wp_rotates _ = None"

definition wp_pending :: "(webhook_call \<Rightarrow> 'a option) \<Rightarrow> webhooks_page \<Rightarrow> bool" where
  "wp_pending k s \<longleftrightarrow> calls_of k (wp_calls s) \<noteq> []"

definition webhooks_hero :: "webhooks_event vnode" where
  "webhooks_hero =
     box [box [box [El ''h1'' [] [] [span [Txt ''Webhooks'']],
              El ''p'' [] [] [Txt ''Configure event notifications to your endpoints'']],
          small_button False False NewWebhook ''New webhook'']]"

definition wp_bulk_bar :: "webhooks_page \<Rightarrow> webhooks_event vnode list" where
  "wp_bulk_bar s =
     (let n = length (wp_selected s)
      in when_do (n > 0)
           [box [box [span [Txt (show_nat n @ '' webhook'' @ plural n @ '' selected'')],
              box [small_button False False ClearSelection ''Clear'',
                   small_button False False AskBulkDelete (''Delete ('' @ show_nat n @ '')'')]]]])"

definition webhook_card :: "(string \<Rightarrow> string) \<Rightarrow> webhooks_page \<Rightarrow> jsval \<Rightarrow> webhooks_event vnode" where
  "webhook_card f s w =
     (let i = row_id w; url = shown_text (opt_get w ''url''); active = truthy (opt_get w ''active'')
      in Card True
           [box [item_box (wp_selected s) i (ToggleOne i),
              box ([El ''h3'' [] [] [Txt url]] @
                when_do (truthy (opt_get w ''account_name''))
                  [El ''p'' [] [] [Txt (''Account: '' @ shown_text (opt_get w ''account_name''))]] @
                [box (map (\<lambda>e. Badge False [Txt (shown_text e)]) (items_of (opt_get w ''events'')))]),
              El ''button'' [] [On ''click'' (SetActive i (\<not> active))]
                [span [], Txt (if active then ''Active'' else ''Inactive'')]],
            box [vmap TestEv (test_button (wp_tests s) i url),
              small_button False False (AskRotate w) ''Rotate secret'',
              small_button False False (AskDelete w) ''Delete''],
            vmap LogEv (log_section f (wp_logs s) i)])"

definition webhook_list :: "(string \<Rightarrow> string) \<Rightarrow> webhooks_page \<Rightarrow> webhooks_event vnode" where
  "webhook_list f s =
     (if webhooks s = [] then
        EmptyState ''No webhooks configured'' (Some ''Add a webhook to receive event notifications.'')
          (Some (small_button False False NewWebhook ''Add webhook''))
      else box (map (webhook_card f s) (webhooks s)))"

definition webhook_modal :: "webhooks_page \<Rightarrow> webhooks_event vnode list" where
  "webhook_modal s =
     Modal (wp_showForm s) CloseForm (Some ''New webhook'') None
       [box (error_box (wp_error s) @
          [text_input ''Endpoint URL'' [(''type'', ''url''), (''placeholder'', ''https://example.com/webhook'')] (wp_url s) SetUrl,
           hinted_input ''Events'' [] ''Comma-separated events'' (wp_events s) SetEvents])]
       [small_button False (wp_pending wp_saves s) CloseForm ''Cancel'',
        small_button (wp_pending wp_saves s) False Save ''Create'']"

definition docs_section :: "webhooks_page \<Rightarrow> webhooks_event vnode" where
  "docs_section s =
     box (El ''button'' [] [On ''click'' ToggleDocs]
            [box [box [El ''svg'' [] [] []],
               box [span [Txt ''How to verify webhook signatures''],
                 El ''p'' [] [] [Txt ''Learn how to validate incoming webhook payloads'']]],
             El ''svg'' [(''icon'', if showVerificationDocs s then ''ChevronDown'' else ''ChevronRight'')] [] []] #
          when_do (showVerificationDocs s) [box [WebhookVerificationDocs]])"

definition delete_dialog :: "webhooks_page \<Rightarrow> webhooks_event vnode list" where
  "delete_dialog s =
     ConfirmDialog (wp_deleteTarget s \<noteq> None) CloseDelete ConfirmDelete ''Delete webhook''
       (Some (''Are you sure you want to delete the webhook for '' @ target_url (wp_deleteTarget s) @ ''?''))
       ''Confirm'' ''Cancel'' (wp_pending wp_deletes s)"

definition rotate_dialog :: "webhooks_page \<Rightarrow> webhooks_event vnode list" where
  "rotate_dialog s =
     ConfirmDialog (rotateTarget s \<noteq> None) CloseRotate ConfirmRotate ''Rotate webhook secret''
       (Some (''Are you sure you want to rotate the secret for '' @ target_url (rotateTarget s) @
          ''? The current secret will stop working immediately.''))
       ''Rotate'' ''Cancel'' (wp_pending wp_rotates s)"

definition bulk_delete_dialog :: "webhooks_page \<Rightarrow> webhooks_event vnode list" where
  "bulk_delete_dialog s =
     (let n = length (wp_selected s)
      in ConfirmDialog (wp_showBulkDelete s) CloseBulkDelete ConfirmBulkDelete ''Bulk delete webhooks''
           (Some (''Are you sure you want to delete '' @ show_nat n @ '' webhook'' @ plural n @ ''? This cannot be undone.''))
           ''Confirm'' ''Cancel'' (wp_pending wp_bulk_deletes s))"

definition webhooks_view :: "(string \<Rightarrow> string) \<Rightarrow> webhooks_page \<Rightarrow> webhooks_event vnode list" where
  "webhooks_view f s =
     (if wp_queries s (wp_page s) = Loading then [PageSkeleton]
      else [webhooks_hero] @ wp_bulk_bar s @ [webhook_list f s] @
           select_all_box (webhook_ids s) (wp_selected s) ToggleAll @
           simple_pager (wp_page s) (wp_totalPages s) PrevPage NextPage @
           webhook_modal s @ map (vmap SecretEv) (secret_view (wp_secrets s)) @ [docs_section s] @
           delete_dialog s @ map (vmap TestEv) (result_modal (wp_tests s)) @ rotate_dialog s @ bulk_delete_dialog s)"

section \<open>What the page lets the user do\<close>

lemma webhooks_fires:
  assumes "wp_queries s (wp_page s) \<noteq> Loading"
  shows "list_fire (webhooks_view f s) Save \<longleftrightarrow> wp_showForm s \<and> \<not> wp_pending wp_saves s"
    and "list_fire (webhooks_view f s) ConfirmDelete \<longleftrightarrow> wp_deleteTarget s \<noteq> None \<and> \<not> wp_pending wp_deletes s"
    and "list_fire (webhooks_view f s) ConfirmRotate \<longleftrightarrow> rotateTarget s \<noteq> None \<and> \<not> wp_pending wp_rotates s"
    and "list_fire (webhooks_view f s) ConfirmBulkDelete \<longleftrightarrow> wp_showBulkDelete s \<and> \<not> wp_pending wp_bulk_deletes s"
    and "list_fire (webhooks_view f s) (SetActive i a) \<longleftrightarrow>
      (\<exists>w \<in> set (webhooks s). i = row_id w \<and> a = (\<not> truthy (opt_get w ''active'')))"
  using assms
  by (auto simp: webhooks_view_def webhooks_hero_def wp_bulk_bar_def webhook_list_def webhook_card_def webhook_modal_def
      docs_section_def delete_dialog_def rotate_dialog_def bulk_delete_dialog_def ConfirmDialog_def list_fire_map
      list_fire_vmap may_fire_vmap Let_def)

fun webhooks_ambient :: "webhooks_event \<Rightarrow> bool" where
  "webhooks_ambient (WebhooksAnswer p r) = True"
| "webhooks_ambient (Settles c r) = True"
| "webhooks_ambient (LogEv e) = (case e of LogsSettle i r \<Rightarrow> True | _ \<Rightarrow> False)"
| "webhooks_ambient (TestEv e) = (case e of TestSettles i u r \<Rightarrow> True | _ \<Rightarrow> False)"
| "webhooks_ambient (SecretEv e) = (e = SecretCopied \<or> e = CopyFades)"
| "webhooks_ambient e = False"

definition webhooks_possible :: "webhooks_page \<Rightarrow> webhooks_event \<Rightarrow> bool" where
  "webhooks_possible s e \<longleftrightarrow> webhooks_ambient e \<or> (\<exists>f. list_fire (webhooks_view f s) e)"

definition webhooks_inv :: "webhooks_page \<Rightarrow> bool" where
  "webhooks_inv s \<longleftrightarrow>
     distinct (wp_selected s) \<and> lone wp_saves (wp_calls s) \<and> lone wp_deletes (wp_calls s) \<and> lone wp_rotates (wp_calls s) \<and>
     lone wp_bulk_deletes (wp_calls s) \<and> list_all distinct (calls_of wp_bulk_deletes (wp_calls s))"

lemma webhook_callbacks_keep [simp]:
  "wp_calls (webhook_settles c r s) = remove1 c (wp_calls s)"
  "distinct (wp_selected s) \<Longrightarrow> distinct (wp_selected (webhook_settles c r s))"
proof -
  show "wp_calls (webhook_settles c r s) = remove1 c (wp_calls s)" by (simp add: webhook_settles_def)
  have "wp_selected (webhook_callback c r s) \<in> {wp_selected s, []}"
    by (cases c) (auto simp: webhook_saved_def webhook_deleted_def webhooks_deleted_def secret_rotated_def
      active_toggled_def wp_note_def tell_secret_def Let_def split: sum.split)
  then show "distinct (wp_selected s) \<Longrightarrow> distinct (wp_selected (webhook_settles c r s))"
    by (auto simp: webhook_settles_def)
qed

lemma webhooks_step_inv:
  assumes "webhooks_inv s" and "webhooks_possible s e"
  shows "webhooks_inv (webhooks_step s e)"
proof -
  have loaded: "wp_queries s (wp_page s) \<noteq> Loading" if "\<not> webhooks_ambient e"
    using assms(2) that by (auto simp: webhooks_possible_def webhooks_view_def)
  note defs = webhooks_inv_def wp_send_def
  note inv = assms(1) [unfolded webhooks_inv_def]
  show ?thesis
  proof (cases e)
    case Save
    then show ?thesis using inv assms(2) loaded by (simp add: webhooks_possible_def webhooks_fires wp_pending_def defs)
  next
    case ConfirmDelete
    then show ?thesis using inv assms(2) loaded by (simp add: webhooks_possible_def webhooks_fires wp_pending_def defs)
  next
    case ConfirmRotate
    then show ?thesis using inv assms(2) loaded
      by (auto simp: webhooks_possible_def webhooks_fires wp_pending_def confirm_rotate_def defs split: option.split)
  next
    case ConfirmBulkDelete
    then show ?thesis using inv assms(2) loaded by (simp add: webhooks_possible_def webhooks_fires wp_pending_def defs)
  qed (use inv in \<open>auto simp: defs tell_secret_def\<close>)
qed

interpretation webhooks: machine webhooks_step webhooks_possible webhooks_inv
  by unfold_locales (rule webhooks_step_inv)

interpretation deleting_webhooks: bulk_action wp_selected "\<lambda>s. calls_of wp_bulk_deletes (wp_calls s)"
    "\<lambda>s. webhooks_step s ConfirmBulkDelete" "\<lambda>ids r s. webhook_settles (BulkDelete ids) r s"
proof unfold_locales
  have "wp_bulk_deletes c = Some ids \<longleftrightarrow> c = BulkDelete ids" for c ids by (cases c) auto
  then show "calls_of wp_bulk_deletes (wp_calls (webhook_settles (BulkDelete ids) r s))
      = remove1 ids (calls_of wp_bulk_deletes (wp_calls s))" for ids r s
    by (simp add: calls_of_remove1)
qed (simp_all add: wp_send_def webhook_settles_def webhooks_deleted_def wp_note_def)

lemma webhooks_inv_initial: "webhooks_inv webhooks_initial"
  by (simp add: webhooks_inv_def webhooks_initial_def)

section \<open>Properties of the page\<close>

text \<open>
  A failed deletion or rotation passes in silence: after any possible events, when the server
  refuses one, the page is the same but for the request: no notification, no error text.
  The dialog of a deletion stays, ready to send it again; that of a rotation was closed when
  it was confirmed, so nothing on the page tells that the secret was not rotated.
\<close>

theorem failed_deletions_are_silent:
  assumes "webhooks.admissible webhooks_initial evs" and "s = foldl webhooks_step webhooks_initial evs"
    and "c \<in> set (wp_calls s)" and "c = DeleteOne t \<or> c = BulkDelete ids \<or> c = RotateSecret i"
    and "s' = webhooks_step s (Settles c (Inl err))" and "wp_queries s (wp_page s) \<noteq> Loading"
  shows "s' = s\<lparr>wp_calls := remove1 c (wp_calls s)\<rparr>
    \<and> (c = DeleteOne t \<longrightarrow> (list_fire (webhooks_view f s') ConfirmDelete \<longleftrightarrow> wp_deleteTarget s \<noteq> None))
    \<and> (c = BulkDelete ids \<longrightarrow> (list_fire (webhooks_view f s') ConfirmBulkDelete \<longleftrightarrow> wp_showBulkDelete s))
    \<and> rotateTarget (webhooks_step s ConfirmRotate) = None"
proof -
  have inv: "webhooks_inv s"
    unfolding assms(2) by (rule webhooks.fold_inv [OF webhooks_inv_initial assms(1)])
  have s': "s' = s\<lparr>wp_calls := remove1 c (wp_calls s)\<rparr>"
    using assms(3-5) by (auto simp: webhook_settles_def webhook_deleted_def webhooks_deleted_def secret_rotated_def)
  moreover have "\<not> wp_pending wp_deletes s'" if "c = DeleteOne t"
  proof -
    have k: "wp_deletes c' = Some t \<longleftrightarrow> c' = c" for c' using that by (cases c') auto
    have "calls_of wp_deletes (remove1 c (wp_calls s)) = []"
      by (rule lone_settled [OF _ assms(3) k]) (use inv in \<open>simp add: webhooks_inv_def\<close>)
    then show ?thesis by (simp add: wp_pending_def s')
  qed
  moreover have "\<not> wp_pending wp_bulk_deletes s'" if "c = BulkDelete ids"
  proof -
    have k: "wp_bulk_deletes c' = Some ids \<longleftrightarrow> c' = c" for c' using that by (cases c') auto
    have "calls_of wp_bulk_deletes (remove1 c (wp_calls s)) = []"
      by (rule lone_settled [OF _ assms(3) k]) (use inv in \<open>simp add: webhooks_inv_def\<close>)
    then show ?thesis by (simp add: wp_pending_def s')
  qed
  ultimately show ?thesis using assms(6)
    by (auto simp: webhooks_fires confirm_rotate_def split: option.split)
qed

definition one_webhook :: jsval where
  "one_webhook = JObj [(''data'', JArr [JObj [(''id'', JStr ''w1''), (''url'', JStr ''u'')]]), (''total_pages'', JNum 1)]"

definition deleting_session :: "webhooks_event list" where
  "deleting_session = [WebhooksAnswer 1 (Inr one_webhook), ToggleOne ''w1'', AskBulkDelete, ConfirmBulkDelete]"

lemmas webhooks_eval = deleting_session_def one_webhook_def webhooks_initial_def webhooks_def page_rows_def query_data_def
  items_of_def coalesce_def nullish_def row_id_def toggleSelect_def set_add_def wp_send_def

lemma deleting_session_possible: "webhooks.admissible webhooks_initial deleting_session"
  by (simp add: webhooks_eval webhooks_possible_def webhooks_view_def webhook_list_def webhook_card_def wp_bulk_bar_def Let_def)
    (simp add: bulk_delete_dialog_def ConfirmDialog_def wp_pending_def webhooks_eval Let_def)

theorem failed_deletions_are_silent_witness:
  "let s = foldl webhooks_step webhooks_initial deleting_session
   in wp_notes (webhooks_step s (Settles (BulkDelete [''w1'']) (Inl (JsError ''no'')))) = []"
proof -
  let ?s = "foldl webhooks_step webhooks_initial deleting_session"
  have "BulkDelete [''w1''] \<in> set (wp_calls ?s)" "wp_notes ?s = []" "wp_queries ?s (wp_page ?s) \<noteq> Loading"
    by (simp_all add: webhooks_eval)
  with failed_deletions_are_silent [OF deleting_session_possible refl this(1) _ refl this(3), of undefined "[''w1'']"] show ?thesis
    by simp
qed

end
