(* ===== verification/MemberWebhooks.thy ===== *)
theory MemberWebhooks
  imports WebhookParts
begin

text \<open>
  The members' webhooks page (\<open>features/member/pages/MemberWebhooksPage.tsx\<close>): creation, editing,
  deletion, rotation and activation of a member's webhooks, straight through the HTTP client,
  over the parts of \<open>WebhookParts\<close>. An answer of the client is the body of its response.
\<close>

section \<open>State\<close>

datatype member_call =
    SaveWebhook "string option" string string
  | DeleteWebhook "string option"
  | RotateSecret string
  | ToggleActive string bool

record member_webhooks =
  mw_showForm :: bool
  mw_editing :: "jsval option"
  mw_deleteTarget :: "jsval option"
  mw_rotateTarget :: "jsval option"
  mw_url :: string
  mw_events :: string
  mw_error :: string
  mw_showDocs :: bool
  mw_query :: query
  mw_calls :: "member_call list"
  mw_notes :: "notice list"
  mw_secrets :: secret_part
  mw_logs :: log_part
  mw_tests :: test_part

datatype member_event =
    OpenForm "jsval option"
  | CloseForm
  | SetUrl string
  | SetEvents string
  | Save
  | AskDelete jsval | CloseDelete | ConfirmDelete
  | AskRotate jsval | CloseRotate | ConfirmRotate
  | SetActive string bool
  | ToggleDocs
  | WebhooksAnswer "js_error + jsval"
  | Settles member_call "js_error + jsval"
  | SecretEv secret_event
  | LogEv log_event
  | TestEv test_event

definition member_initial :: member_webhooks where
  "member_initial = \<lparr>mw_showForm = False, mw_editing = None, mw_deleteTarget = None, mw_rotateTarget = None,
     mw_url = [], mw_events = [], mw_error = [], mw_showDocs = False, mw_query = Loading, mw_calls = [],
     mw_notes = [], mw_secrets = no_secret, mw_logs = logs_initial, mw_tests = tests_initial\<rparr>"

section \<open>Requests\<close>

text \<open>\<open>res.data.data?.data || []\<close>.\<close>

definition member_query :: service where
  "member_query = Service (get_req ''/member/webhooks'')
     (on_body (\<lambda>b. sbind (js_get b ''data'') (\<lambda>d. Inr (js_or (opt_get d ''data'') (JArr [])))))"

definition member_form :: "string \<Rightarrow> string \<Rightarrow> jsval" where
  "member_form url events = JObj [(''url'', JStr url), (''events'', JArr (map JStr (eventList events)))]"

definition member_path :: "string \<Rightarrow> string" where
  "member_path i = ''/member/webhooks/'' @ i"

definition send_body :: "request \<Rightarrow> service" where
  "send_body rq = Service rq (on_body Inr)"

fun member_service :: "member_call \<Rightarrow> service option" where
  "member_service (SaveWebhook (Some i) u e) = Some (send_body (put_req (member_path i) (member_form u e)))"
| "member_service (SaveWebhook None u e) = Some (send_body (post_req ''/member/webhooks'' (member_form u e)))"
| "member_service (DeleteWebhook target) = map_option (\<lambda>i. send_body (delete_req (member_path i))) target"
| "member_service (RotateSecret i) = Some (send_body (post_req (member_path i @ ''/rotate-secret'') JUndef))"
| "member_service (ToggleActive i active) = Some (send_body (put_req (member_path i) (obj1 ''active'' (JBool active))))"

definition member_log_service :: "string \<Rightarrow> service" where
  "member_log_service i = getMemberWebhookDeliveries i"

definition member_test_service :: "string \<Rightarrow> service" where
  "member_test_service i = testMemberWebhook i"

definition member_rows :: "member_webhooks \<Rightarrow> jsval list" where
  "member_rows s = items_of (query_data (mw_query s))"

section \<open>Handlers and callbacks\<close>

definition mw_send :: "member_call \<Rightarrow> member_webhooks \<Rightarrow> member_webhooks" where
  "mw_send c s = s\<lparr>mw_calls := mw_calls s @ [c]\<rparr>"

definition mw_note :: "notice \<Rightarrow> member_webhooks \<Rightarrow> member_webhooks" where
  "mw_note n s = s\<lparr>mw_notes := mw_notes s @ [n]\<rparr>"

definition mw_tell :: "secret_event \<Rightarrow> member_webhooks \<Rightarrow> member_webhooks" where
  "mw_tell e s = s\<lparr>mw_secrets := secret_step (mw_secrets s) e\<rparr>"

text \<open>\<open>webhook?.url || ''\<close> and \<open>webhook?.events?.join(', ') || ''\<close>.\<close>

definition url_of :: "jsval option \<Rightarrow> string" where
  "url_of w = (case w of None \<Rightarrow> [] | Some v \<Rightarrow> shown_text (opt_get v ''url''))"

definition events_text :: "jsval option \<Rightarrow> string" where
  "events_text w = (case w of None \<Rightarrow> [] | Some v \<Rightarrow> join_with '', '' (map to_str (items_of (opt_get v ''events''))))"

definition openForm :: "jsval option \<Rightarrow> member_webhooks \<Rightarrow> member_webhooks" where
  "openForm w s = s\<lparr>mw_editing := w, mw_url := url_of w, mw_events := events_text w, mw_error := [], mw_showForm := True\<rparr>"

definition closeForm :: "member_webhooks \<Rightarrow> member_webhooks" where
  "closeForm s = s\<lparr>mw_showForm := False, mw_editing := None, mw_url := [], mw_events := [], mw_error := []\<rparr>"

text \<open>\<open>res.data.success && res.data.data?.secret\<close>, the body being read first.\<close>

definition answered_secret :: "jsval \<Rightarrow> js_error + jsval option" where
  "answered_secret b =
     sbind (js_get b ''success'') (\<lambda>ok.
       let secret = opt_get (opt_get b ''data'') ''secret''
       in Inr (if truthy ok \<and> truthy secret then Some secret else None))"

definition save_failed :: "js_error \<Rightarrow> member_webhooks \<Rightarrow> member_webhooks" where
  "save_failed e s = (mw_note (note_error e ''Failed to save webhook'') s)\<lparr>mw_error := err_message e\<rparr>"

definition member_saved :: "string option \<Rightarrow> js_error + jsval \<Rightarrow> member_webhooks \<Rightarrow> member_webhooks" where
  "member_saved edited r s =
     (case r of
        Inl e \<Rightarrow> save_failed e s
      | Inr b \<Rightarrow>
          if edited \<noteq> None then closeForm s
          else case answered_secret b of
                 Inl e \<Rightarrow> save_failed e s
               | Inr None \<Rightarrow> closeForm s
               | Inr (Some v) \<Rightarrow> closeForm (mw_tell (Created v (opt_get (opt_get b ''data'') ''url'')) s))"

definition member_deleted :: "js_error + jsval \<Rightarrow> member_webhooks \<Rightarrow> member_webhooks" where
  "member_deleted r s =
     (case r of Inl e \<Rightarrow> mw_note (note_error e ''Failed to delete webhook'') s | Inr b \<Rightarrow> s\<lparr>mw_deleteTarget := None\<rparr>)"

definition member_rotated :: "js_error + jsval \<Rightarrow> member_webhooks \<Rightarrow> member_webhooks" where
  "member_rotated r s =
     (case sbind r answered_secret of
        Inl e \<Rightarrow> mw_note (note_error e ''Failed to rotate secret'') s
      | Inr None \<Rightarrow> s
      | Inr (Some v) \<Rightarrow> mw_tell (Rotated v) s)"

definition member_toggled :: "js_error + jsval \<Rightarrow> member_webhooks \<Rightarrow> member_webhooks" where
  "member_toggled r s = (case r of Inl e \<Rightarrow> mw_note (note_error e ''Failed to toggle webhook'') s | Inr b \<Rightarrow> s)"

fun member_callback :: "member_call \<Rightarrow> js_error + jsval \<Rightarrow> member_webhooks \<Rightarrow> member_webhooks" where
  "member_callback (SaveWebhook i u e) = member_saved i"
| "member_callback (DeleteWebhook t) = member_deleted"
| "member_callback (RotateSecret i) = member_rotated"
| "member_callback (ToggleActive i a) = member_toggled"

definition member_settles :: "member_call \<Rightarrow> js_error + jsval \<Rightarrow> member_webhooks \<Rightarrow> member_webhooks" where
  "member_settles c r s = (member_callback c r s)\<lparr>mw_calls := remove1 c (mw_calls s)\<rparr>"

definition member_confirm_rotate :: "member_webhooks \<Rightarrow> member_webhooks" where
  "member_confirm_rotate s =
     (case mw_rotateTarget s of None \<Rightarrow> s | Some w \<Rightarrow> (mw_send (RotateSecret (row_id w)) s)\<lparr>mw_rotateTarget := None\<rparr>)"

fun member_step :: "member_webhooks \<Rightarrow> member_event \<Rightarrow> member_webhooks" where
  "member_step s (OpenForm w) = openForm w s"
| "member_step s CloseForm = closeForm s"
| "member_step s (SetUrl t) = s\<lparr>mw_url := t\<rparr>"
| "member_step s (SetEvents t) = s\<lparr>mw_events := t\<rparr>"
| "member_step s Save = mw_send (SaveWebhook (map_option row_id (mw_editing s)) (mw_url s) (mw_events s)) s"
| "member_step s (AskDelete w) = s\<lparr>mw_deleteTarget := Some w\<rparr>"
| "member_step s CloseDelete = s\<lparr>mw_deleteTarget := None\<rparr>"
| "member_step s ConfirmDelete = mw_send (DeleteWebhook (map_option row_id (mw_deleteTarget s))) s"
| "member_step s (AskRotate w) = s\<lparr>mw_rotateTarget := Some w\<rparr>"
| "member_step s CloseRotate = s\<lparr>mw_rotateTarget := None\<rparr>"
| "member_step s ConfirmRotate = member_confirm_rotate s"
| "member_step s (SetActive i a) = mw_send (ToggleActive i a) s"
| "member_step s ToggleDocs = s\<lparr>mw_showDocs := \<not> mw_showDocs s\<rparr>"
| "member_step s (WebhooksAnswer r) = s\<lparr>mw_query := query_answered r (mw_query s)\<rparr>"
| "member_step s (Settles c r) = (if c \<in> set (mw_calls s) then member_settles c r s else s)"
| "member_step s (SecretEv e) = mw_tell e s"
| "member_step s (LogEv e) = s\<lparr>mw_logs := log_step (mw_logs s) e\<rparr>"
| "member_step s (TestEv e) = s\<lparr>mw_tests := test_step (mw_tests s) e\<rparr>"

section \<open>View\<close>

fun mw_saves :: "member_call \<Rightarrow> (string option \<times> string \<times> string) option" where
  "mw_saves (SaveWebhook i u e) = Some (i, u, e)" | "mw_saves _ = None"
fun mw_deletes :: "member_call \<Rightarrow> string option option" where
  "mw_deletes (DeleteWebhook t) = Some t" | "mw_deletes _ = None"
fun mw_rotates :: "member_call \<Rightarrow> string option" where
  "mw_rotates (RotateSecret i) = Some i" | "mw_rotates _ = None"

definition mw_pending :: "(member_call \<Rightarrow> 'a option) \<Rightarrow> member_webhooks \<Rightarrow> bool" where
  "mw_pending k s \<longleftrightarrow> calls_of k (mw_calls s) \<noteq> []"

definition member_hero :: "member_event vnode" where
  "member_hero =
     box [box [box [El ''h1'' [] [] [span [Txt ''Webhooks'']],
              El ''p'' [] [] [Txt ''Configure event notifications to your endpoints'']],
          small_button False False (OpenForm None) ''New webhook'']]"

text \<open>
  The delivery log of a row, the dialogs that show a secret and the result of a test are written again in
  this page, with the same code as in the other one.
\<close>

definition member_logs :: "(string \<Rightarrow> string) \<Rightarrow> member_webhooks \<Rightarrow> string \<Rightarrow> member_event vnode" where
  [simp]: "member_logs f s i = vmap LogEv (log_section f (mw_logs s) i)"

definition member_secrets :: "member_webhooks \<Rightarrow> member_event vnode list" where
  [simp]: "member_secrets s = map (vmap SecretEv) (secret_view (mw_secrets s))"

definition member_result :: "member_webhooks \<Rightarrow> member_event vnode list" where
  [simp]: "member_result s = map (vmap TestEv) (result_modal (mw_tests s))"

definition member_card :: "(string \<Rightarrow> string) \<Rightarrow> member_webhooks \<Rightarrow> jsval \<Rightarrow> member_event vnode" where
  "member_card f s w =
     (let i = row_id w; url = shown_text (opt_get w ''url''); active = truthy (opt_get w ''active'')
      in Card True
           [box [box [El ''h3'' [] [] [Txt url],
                box (map (\<lambda>e. Badge False [Txt (shown_text e)]) (items_of (opt_get w ''events'')))],
              El ''button'' [] [On ''click'' (SetActive i (\<not> active))]
                [span [], Txt (if active then ''Active'' else ''Inactive'')]],
            box [small_button False False (OpenForm (Some w)) ''Edit'',
              vmap TestEv (test_button (mw_tests s) i url),
              small_button False False (AskRotate w) ''Rotate secret'',
              small_button False False (AskDelete w) ''Delete''],
            member_logs f s i])"

definition member_list :: "(string \<Rightarrow> string) \<Rightarrow> member_webhooks \<Rightarrow> member_event vnode" where
  "member_list f s =
     (if member_rows s = [] then
        EmptyState ''No webhooks configured'' (Some ''Add a webhook to receive event notifications.'')
          (Some (small_button False False (OpenForm None) ''Add webhook''))
      else box (map (member_card f s) (member_rows s)))"

definition member_modal :: "member_webhooks \<Rightarrow> member_event vnode list" where
  "member_modal s =
     (let edits = mw_editing s \<noteq> None; busy = mw_pending mw_saves s
      in Modal (mw_showForm s) CloseForm (Some (if edits then ''Edit webhook'' else ''New webhook'')) None
           [box (error_box (mw_error s) @
              [text_input ''Endpoint URL'' [(''type'', ''url''), (''placeholder'', ''https://example.com/webhook'')] (mw_url s) SetUrl,
               hinted_input ''Events'' [] ''Comma-separated, e.g. message.delivered, message.failed'' (mw_events s) SetEvents])]
           [small_button False busy CloseForm ''Cancel'',
            small_button busy False Save (if edits then ''Update'' else ''Create'')])"

definition member_docs :: "member_webhooks \<Rightarrow> member_event vnode" where
  "member_docs s =
     box (El ''button'' [] [On ''click'' ToggleDocs]
            [box [box [El ''svg'' [] [] []],
               box [span [Txt ''How to verify webhook signatures''],
                 El ''p'' [] [] [Txt ''Learn how to validate incoming webhook payloads'']]],
             El ''svg'' [(''icon'', if mw_showDocs s then ''ChevronDown'' else ''ChevronRight'')] [] []] #
          when_do (mw_showDocs s) [box [WebhookVerificationDocs]])"

definition member_dialogs :: "member_webhooks \<Rightarrow> member_event vnode list" where
  "member_dialogs s =
     ConfirmDialog (mw_rotateTarget s \<noteq> None) CloseRotate ConfirmRotate ''Rotate webhook secret''
       (Some (''Are you sure you want to rotate the secret for '' @ target_url (mw_rotateTarget s) @
          ''? The current secret will stop working immediately.''))
       ''Rotate'' ''Cancel'' (mw_pending mw_rotates s) @
     ConfirmDialog (mw_deleteTarget s \<noteq> None) CloseDelete ConfirmDelete ''Delete webhook''
       (Some (''Are you sure you want to delete the webhook for '' @ target_url (mw_deleteTarget s) @ ''?''))
       ''Confirm'' ''Cancel'' (mw_pending mw_deletes s)"

definition member_view :: "(string \<Rightarrow> string) \<Rightarrow> member_webhooks \<Rightarrow> member_event vnode list" where
  "member_view f s =
     (if mw_query s = Loading then [PageSkeleton]
      else [member_hero, member_list f s] @ member_modal s @ member_secrets s @
           [member_docs s] @ member_result s @ member_dialogs s)"

section \<open>What the page lets the user do\<close>

lemma member_fires:
  assumes "mw_query s \<noteq> Loading"
  shows "list_fire (member_view f s) Save \<longleftrightarrow> mw_showForm s \<and> \<not> mw_pending mw_saves s"
    and "list_fire (member_view f s) CloseForm \<longleftrightarrow> mw_showForm s"
    and "list_fire (member_view f s) ConfirmDelete \<longleftrightarrow> mw_deleteTarget s \<noteq> None \<and> \<not> mw_pending mw_deletes s"
    and "list_fire (member_view f s) ConfirmRotate \<longleftrightarrow> mw_rotateTarget s \<noteq> None \<and> \<not> mw_pending mw_rotates s"
    and "list_fire (member_view f s) (OpenForm (Some w)) \<longleftrightarrow> w \<in> set (member_rows s)"
  using assms
  by (auto simp: member_view_def member_hero_def member_list_def member_card_def member_modal_def member_docs_def
      member_dialogs_def ConfirmDialog_def list_fire_map list_fire_vmap may_fire_vmap Let_def)

fun member_ambient :: "member_event \<Rightarrow> bool" where
  "member_ambient (WebhooksAnswer r) = True"
| "member_ambient (Settles c r) = True"
| "member_ambient (LogEv e) = (case e of LogsSettle i r \<Rightarrow> True | _ \<Rightarrow> False)"
| "member_ambient (TestEv e) = (case e of TestSettles i u r \<Rightarrow> True | _ \<Rightarrow> False)"
| "member_ambient (SecretEv e) = (e = SecretCopied \<or> e = CopyFades)"
| "member_ambient e = False"

definition member_possible :: "member_webhooks \<Rightarrow> member_event \<Rightarrow> bool" where
  "member_possible s e \<longleftrightarrow> member_ambient e \<or> (\<exists>f. list_fire (member_view f s) e)"

definition member_inv :: "member_webhooks \<Rightarrow> bool" where
  "member_inv s \<longleftrightarrow>
     lone mw_saves (mw_calls s) \<and> lone mw_deletes (mw_calls s) \<and> lone mw_rotates (mw_calls s) \<and>
     (\<not> mw_showForm s \<longrightarrow> mw_editing s = None)"

lemma member_callbacks_keep [simp]:
  "mw_calls (member_settles c r s) = remove1 c (mw_calls s)"
  "\<not> mw_showForm s \<longrightarrow> mw_editing s = None \<Longrightarrow>
     \<not> mw_showForm (member_settles c r s) \<longrightarrow> mw_editing (member_settles c r s) = None"
  by (cases c; simp add: member_settles_def member_saved_def save_failed_def member_deleted_def member_rotated_def
      member_toggled_def mw_note_def mw_tell_def closeForm_def split: sum.split option.split)+

lemma member_step_inv:
  assumes "member_inv s" and "member_possible s e"
  shows "member_inv (member_step s e)"
proof -
  have loaded: "mw_query s \<noteq> Loading" if "\<not> member_ambient e"
    using assms(2) that by (auto simp: member_possible_def member_view_def)
  note defs = member_inv_def mw_send_def
  note inv = assms(1) [unfolded member_inv_def]
  show ?thesis
  proof (cases e)
    case Save
    then show ?thesis using inv assms(2) loaded by (simp add: member_possible_def member_fires mw_pending_def defs)
  next
    case ConfirmDelete
    then show ?thesis using inv assms(2) loaded by (simp add: member_possible_def member_fires mw_pending_def defs)
  next
    case ConfirmRotate
    then show ?thesis using inv assms(2) loaded
      by (auto simp: member_possible_def member_fires mw_pending_def member_confirm_rotate_def defs split: option.split)
  next
    case (Settles c r)
    then show ?thesis using inv member_callbacks_keep(2) [of s c r] by (auto simp: defs simp del: member_callbacks_keep(2))
  qed (use inv in \<open>auto simp: defs mw_tell_def openForm_def closeForm_def\<close>)
qed

interpretation members: machine member_step member_possible member_inv
  by unfold_locales (rule member_step_inv)

section \<open>Properties of the page\<close>

text \<open>
  Editing keeps what it does not touch: opening the form on a webhook and saving it unchanged
  sends the webhook's own address and its own list of events, for event names without commas
  and without spaces at their ends; a second save cannot be sent before the first is answered.
\<close>

theorem editing_keeps_the_events:
  assumes "opt_get w ''events'' = JArr (map JStr es)" and "list_all plain_event es" and "opt_get w ''url'' = JStr u"
    and "t = member_step (member_step s (OpenForm (Some w))) Save"
    and "mw_query s \<noteq> Loading"
  shows "\<exists>c. mw_calls t = mw_calls s @ [c]
    \<and> member_service c = Some (send_body (put_req (member_path (row_id w))
        (JObj [(''url'', JStr u), (''events'', JArr (map JStr es))])))
    \<and> \<not> list_fire (member_view f t) Save"
proof -
  have names: "map to_str (items_of (JArr (map JStr es))) = es" by (simp add: items_of_def o_def)
  have "mw_calls t = mw_calls s @ [SaveWebhook (Some (row_id w)) u (join_with '', '' es)]"
    using assms(1,3,4) names by (simp add: mw_send_def openForm_def url_of_def events_text_def shown_text_def)
  moreover have "mw_query t = mw_query s" by (simp add: assms(4) mw_send_def openForm_def)
  ultimately show ?thesis using assms(2,5)
    by (simp add: member_form_def eventList_join member_fires mw_pending_def)
qed

definition two_events :: jsval where
  "two_events = JObj [(''id'', JStr ''w1''), (''url'', JStr ''https://a.b''),
     (''events'', JArr [JStr ''message.failed'', JStr ''message.sent''])]"

theorem editing_keeps_the_events_witness:
  "let s = member_step member_initial (WebhooksAnswer (Inr (JArr [two_events])))
   in length (mw_calls (member_step (member_step s (OpenForm (Some two_events))) Save)) = 1"
proof -
  define s where "s = member_step member_initial (WebhooksAnswer (Inr (JArr [two_events])))"
  have "opt_get two_events ''events'' = JArr (map JStr [''message.failed'', ''message.sent''])"
    "opt_get two_events ''url'' = JStr ''https://a.b''" "mw_query s \<noteq> Loading"
    by (simp_all add: s_def two_events_def member_initial_def)
  moreover have "list_all plain_event [''message.failed'', ''message.sent'']" by code_simp
  ultimately obtain c where "mw_calls (member_step (member_step s (OpenForm (Some two_events))) Save) = mw_calls s @ [c]"
    using editing_keeps_the_events [of two_events "[''message.failed'', ''message.sent'']" "''https://a.b''" _ s, OF _ _ _ refl] by blast
  moreover have "mw_calls s = []" by (simp add: s_def member_initial_def)
  ultimately show ?thesis unfolding s_def [symmetric] Let_def by simp
qed

text \<open>
  A save answered late closes the next form: while a save is in flight the form can be closed and
  opened on another webhook; the answer of the first save then closes that second form and
  throws away what was typed into it, and until then nothing of it could be saved.
\<close>

theorem late_save_closes_the_next_form:
  assumes "members.admissible member_initial evs" and "s = foldl member_step member_initial evs"
    and "SaveWebhook (Some i) u e \<in> set (mw_calls s)" and "mw_showForm s" and "w \<in> set (member_rows s)"
    and "t = foldl member_step s [CloseForm, OpenForm (Some w), SetUrl typed]"
    and "mw_query s \<noteq> Loading"
    and "t' = member_step t (Settles (SaveWebhook (Some i) u e) (Inr b))"
  shows "members.admissible s [CloseForm, OpenForm (Some w)] \<and> mw_showForm t \<and> mw_url t = typed
    \<and> mw_editing t = Some w \<and> \<not> list_fire (member_view f t) Save
    \<and> \<not> mw_showForm t' \<and> mw_url t' = [] \<and> mw_editing t' = None \<and> mw_notes t' = mw_notes s
    \<and> lone mw_saves (mw_calls t')"
proof -
  have inv: "member_inv s"
  proof -
    have "member_inv member_initial" by (simp add: member_inv_def member_initial_def)
    then show ?thesis unfolding assms(2) by (rule members.fold_inv [OF _ assms(1)])
  qed
  have t: "t = s\<lparr>mw_showForm := True, mw_editing := Some w, mw_url := typed, mw_events := events_text (Some w), mw_error := []\<rparr>"
    by (simp add: assms(6) openForm_def closeForm_def)
  have "mw_pending mw_saves t"
  proof -
    have "\<exists>c \<in> set (mw_calls s). mw_saves c = Some (Some i, u, e)" by (rule bexI [OF _ assms(3)]) simp
    then show ?thesis unfolding calls_of_iff [symmetric] by (auto simp: mw_pending_def t)
  qed
  moreover have "w \<in> set (member_rows (closeForm s))" using assms(5) by (simp add: member_rows_def closeForm_def)
  ultimately show ?thesis using assms(3,4,7) inv
    by (simp add: t assms(8) member_settles_def member_saved_def closeForm_def member_possible_def member_fires member_inv_def)
qed

definition saving_session :: "member_event list" where
  "saving_session = [WebhooksAnswer (Inr (JArr [two_events])), OpenForm (Some two_events), Save]"

lemmas member_eval = saving_session_def member_initial_def member_rows_def query_data_def items_of_def openForm_def mw_send_def

lemma saving_session_possible: "members.admissible member_initial saving_session"
  by (simp add: member_eval member_possible_def member_fires mw_pending_def)

theorem late_save_closes_the_next_form_witness:
  "let t = foldl member_step (foldl member_step member_initial saving_session) [CloseForm, OpenForm (Some two_events), SetUrl ''new'']
   in mw_showForm t \<and> \<not> mw_showForm (member_step t (Settles (SaveWebhook (Some ''w1'') ''https://a.b'' (events_text (Some two_events))) (Inr JUndef)))"
proof -
  define s where "s = foldl member_step member_initial saving_session"
  have "SaveWebhook (Some ''w1'') ''https://a.b'' (events_text (Some two_events)) \<in> set (mw_calls s)" "mw_showForm s"
    "two_events \<in> set (member_rows s)" "mw_query s \<noteq> Loading"
    by (simp_all add: s_def member_eval) (simp add: two_events_def url_of_def shown_text_def row_id_def)
  from late_save_closes_the_next_form [OF saving_session_possible s_def this(1-3) refl this(4) refl]
  show ?thesis unfolding s_def [symmetric] Let_def by blast
qed

text \<open>
  The member's page takes a refusal for success: an answer whose envelope says that the request was
  not successful makes the administrators' services throw its error, while the member's page, which
  sends its requests without them, closes the form or the dialog as on success and
  notifies nobody.
\<close>

theorem refusals_pass_for_success:
  assumes "b = JObj ((''success'', JBool False) # rest)"
  shows "(\<exists>m. sv_then (createWebhook form) (Inr b) = Inl (JsError m))
    \<and> (\<exists>m. sv_then (deleteWebhook i) (Inr b) = Inl (JsError m))
    \<and> (\<exists>m. sv_then (rotateWebhookSecret i) (Inr b) = Inl (JsError m))
    \<and> member_settles (SaveWebhook j u e) (Inr b) s = (closeForm s)\<lparr>mw_calls := remove1 (SaveWebhook j u e) (mw_calls s)\<rparr>
    \<and> member_settles (DeleteWebhook j) (Inr b) s =
        s\<lparr>mw_deleteTarget := None, mw_calls := remove1 (DeleteWebhook j) (mw_calls s)\<rparr>
    \<and> member_settles (RotateSecret i) (Inr b) s = s\<lparr>mw_calls := remove1 (RotateSecret i) (mw_calls s)\<rparr>"
  using assms
  by (simp add: createWebhook_def deleteWebhook_def rotateWebhookSecret_def data_service_def void_service_def on_body_def
      guard_data_def guard_success_def throw_api_def member_settles_def member_saved_def member_deleted_def
      member_rotated_def answered_secret_def closeForm_def Let_def)

theorem refusals_pass_for_success_witness:
  "mw_notes (member_settles (DeleteWebhook (Some ''w1'')) (Inr (JObj [(''success'', JBool False), (''error'', JStr ''no'')])) member_initial) = []"
  using refusals_pass_for_success [where j = "Some ''w1''" and s = member_initial, OF refl]
  by (simp add: member_initial_def)

end
