(* ===== verification/Uri.thy ===== *)
theory Uri
  imports Prelude
begin

text \<open>
  \<open>encodeURIComponent\<close> on a text given by its bytes in UTF-8, which the layout, the price list and the
  contact form build addresses with, and its inverse.
\<close>

definition uri_hex :: "nat \<Rightarrow> char" where
  "uri_hex n = (if n < 10 then char_of (48 + n) else char_of (55 + n))"

definition uri_safe :: "char \<Rightarrow> bool" where
  "uri_safe c \<longleftrightarrow>
     is_digit c \<or> (65 \<le> char_code c \<and> char_code c \<le> 90) \<or> (97 \<le> char_code c \<and> char_code c \<le> 122) \<or>
     c \<in> set ''-_.!~*()'' \<or> char_code c = 39"

definition encode_uri :: "string \<Rightarrow> string" where
  "encode_uri t =
     concat (map (\<lambda>c. if uri_safe c then [c]
                      else [CHR ''%'', uri_hex (char_code c div 16), uri_hex (char_code c mod 16)]) t)"

section \<open>Decoding\<close>

text \<open>The inverse of the encoding: \<open>%\<close> and two hexadecimal digits are one character.\<close>

definition uri_val :: "char \<Rightarrow> nat" where
  "uri_val c = (if is_digit c then char_code c - 48 else char_code c - 55)"

fun decode_uri :: "string \<Rightarrow> string" where
  "decode_uri [] = []"
| "decode_uri (c # cs) =
     (case cs of
        a # b # ds \<Rightarrow> if c = CHR ''%'' then char_of (16 * uri_val a + uri_val b) # decode_uri ds else c # decode_uri cs
      | _ \<Rightarrow> c # decode_uri cs)"

lemma char_code_of [simp]: "n < 256 \<Longrightarrow> char_code (char_of n) = n"
  by (simp add: char_code_def)

lemma char_of_char_code [simp]: "char_of (char_code c) = c"
  by (simp add: char_code_def)

lemma uri_hex_code: "n < 16 \<Longrightarrow> char_code (uri_hex n) = (if n < 10 then 48 + n else 55 + n)"
  by (simp add: uri_hex_def)

lemma uri_val_hex [simp]: "n < 16 \<Longrightarrow> uri_val (uri_hex n) = n"
  by (simp add: uri_val_def is_digit_def uri_hex_code)

lemma char_code_bound: "char_code c < 256"
  by (simp add: char_code_def)

lemma uri_safe_percent [simp]: "\<not> uri_safe (CHR ''%'')"
  by (simp add: uri_safe_def is_digit_def char_code_def)

lemma decode_safe: "uri_safe c \<Longrightarrow> decode_uri (c # cs) = c # decode_uri cs"
proof -
  assume "uri_safe c"
  then have "c \<noteq> CHR ''%''" using uri_safe_percent by blast
  then show ?thesis by (subst decode_uri.simps(2)) (simp del: decode_uri.simps split: list.split)
qed

lemma decode_encoded:
  "decode_uri (CHR ''%'' # uri_hex (char_code c div 16) # uri_hex (char_code c mod 16) # cs) = c # decode_uri cs"
proof -
  have "char_code c div 16 < 16" using char_code_bound [of c] by simp
  then show ?thesis by simp
qed

declare decode_uri.simps(2) [simp del]

theorem decode_encode: "decode_uri (encode_uri t) = t"
  unfolding encode_uri_def
proof (induction t)
  case (Cons c t)
  then show ?case by (simp add: decode_encoded decode_safe)
qed simp

text \<open>No character of an encoded text ends a parameter or the query it stands in.\<close>

lemma encoded_clean: "list_all (\<lambda>c. c \<notin> set ''&#+? '') (encode_uri t)"
proof -
  have code: "char_code c \<in> {38, 35, 43, 63, 32}" if "c \<in> set ''&#+? ''" for c
    using that by (auto simp: char_code_def)
  have hex: "uri_hex n \<notin> set ''&#+? ''" if "n < 16" for n
  proof
    assume "uri_hex n \<in> set ''&#+? ''"
    then have "char_code (uri_hex n) \<in> {38, 35, 43, 63, 32}" by (rule code)
    then show False using that by (simp add: uri_hex_code split: if_splits)
  qed
  have safe: "c \<notin> set ''&#+? ''" if "uri_safe c" for c
    using that by (auto simp: uri_safe_def is_digit_def char_code_def)
  have "char_code c div 16 < 16" for c using char_code_bound [of c] by simp
  then show ?thesis using hex safe by (auto simp: encode_uri_def list_all_iff split: if_splits)
qed

end
