(* ===== verification/Layout.thy ===== *)
theory Layout
  imports AuthService Toast UiStore Sidebar Clock Uri
begin

text \<open>
  The shell of the protected pages: the header (\<open>components/layouts/Header.tsx\<close>) with the user's
  menu, signing out and the bell of past notifications, and the layout around it
  (\<open>components/layouts/AppLayout.tsx\<close>) with its stream of server events. The header reads the
  stores of authentication and of the user interface, which render it again when they change, and
  the notifications' context, a variable of the module \<open>Toast.tsx\<close>, which does not: the part of the
  state \<open>shown_history\<close> is the history as of the header's last rendering.
\<close>

section \<open>State\<close>

record shell =
  sh_auth :: auth_world
  sh_ui :: ui_world
  sh_toasts :: toast_state
  sh_path :: string
  dropdownOpen :: bool
  historyOpen :: bool
  prevHistoryLength :: nat
  shown_history :: "history_entry list"
  hasNewHistory :: bool
  sh_signouts :: nat

text \<open>\<open>MouseDown d h\<close>: a press of the mouse inside or outside the two menus.\<close>

datatype header_event =
    OpenSidebar
  | ToggleHistory
  | ClearHistoryClick
  | ToggleDropdown
  | GoSettings
  | SignOut
  | SignOutSettles "js_error + jsval"
  | MouseDown bool bool
  | ToastActs int toast_event
  | StoreActs auth_action
  | UiActs ui_action

section \<open>Rendering\<close>

text \<open>
  A rendering takes the history of the moment and compares its length with the one noted; its
  effect then notes the length while the panel is open.
\<close>

definition render_header :: "shell \<Rightarrow> shell" where
  "render_header s =
     (let n = length (toastHistory (sh_toasts s))
      in s\<lparr>shown_history := toastHistory (sh_toasts s), hasNewHistory := prevHistoryLength s < n,
           prevHistoryLength := (if historyOpen s then n else prevHistoryLength s)\<rparr>)"

definition rerenders :: "shell \<Rightarrow> shell \<Rightarrow> bool" where
  "rerenders s s' \<longleftrightarrow>
     dropdownOpen s' \<noteq> dropdownOpen s \<or> historyOpen s' \<noteq> historyOpen s \<or>
     user (fst (sh_auth s')) \<noteq> user (fst (sh_auth s)) \<or> ui (sh_ui s') \<noteq> ui (sh_ui s)"

definition mount_header :: "auth_world \<Rightarrow> ui_world \<Rightarrow> toast_state \<Rightarrow> string \<Rightarrow> shell" where
  "mount_header w u t p =
     render_header \<lparr>sh_auth = w, sh_ui = u, sh_toasts = t, sh_path = p, dropdownOpen = False, historyOpen = False,
       prevHistoryLength = 0, shown_history = [], hasNewHistory = False, sh_signouts = 0\<rparr>"

section \<open>Handlers\<close>

text \<open>\<open>handleLogout\<close> after its \<open>await\<close>: an error of the service is caught and ignored.\<close>

definition logged_out :: "js_error + jsval \<Rightarrow> shell \<Rightarrow> shell" where
  "logged_out r s = s\<lparr>sh_auth := logout (sh_auth s), sh_path := ''/login'', sh_signouts := sh_signouts s - 1\<rparr>"

fun header_handle :: "shell \<Rightarrow> header_event \<Rightarrow> shell" where
  "header_handle s OpenSidebar = s\<lparr>sh_ui := setSidebarOpen True (sh_ui s)\<rparr>"
| "header_handle s ToggleHistory = s\<lparr>historyOpen := \<not> historyOpen s, prevHistoryLength := length (shown_history s)\<rparr>"
| "header_handle s ClearHistoryClick = s\<lparr>sh_toasts := clearHistory (sh_toasts s)\<rparr>"
| "header_handle s ToggleDropdown = s\<lparr>dropdownOpen := \<not> dropdownOpen s\<rparr>"
| "header_handle s GoSettings = s\<lparr>sh_path := ''/settings'', dropdownOpen := False\<rparr>"
| "header_handle s SignOut = s\<lparr>sh_signouts := sh_signouts s + 1\<rparr>"
| "header_handle s (SignOutSettles r) = (if 0 < sh_signouts s then logged_out r s else s)"
| "header_handle s (MouseDown in_dropdown in_history) =
     s\<lparr>dropdownOpen := dropdownOpen s \<and> in_dropdown, historyOpen := historyOpen s \<and> in_history\<rparr>"
| "header_handle s (ToastActs now e) = s\<lparr>sh_toasts := toast_step (sh_toasts s) (now, e)\<rparr>"
| "header_handle s (StoreActs a) = s\<lparr>sh_auth := auth_step (sh_auth s) a\<rparr>"
| "header_handle s (UiActs a) = s\<lparr>sh_ui := ui_step (sh_ui s) a\<rparr>"

definition header_step :: "shell \<Rightarrow> header_event \<Rightarrow> shell" where
  "header_step s e =
     (let s' = header_handle s e in if rerenders s s' then render_header s' else s')"

section \<open>View\<close>

definition history_row :: "int \<Rightarrow> history_entry \<Rightarrow> 'e vnode" where
  "history_row now h =
     box [box [span [El ''svg'' [] [] []]],
       box [El ''p'' [] [] [Txt (h_message h)],
         box (when_do (h_count h > 1) [span [Txt (cap99 (int (h_count h)) @ ''x'')]] @
           [span [El ''svg'' [] [] [], Txt (headerTimeAgo now (h_timestamp h))]])]]"

definition history_panel :: "int \<Rightarrow> shell \<Rightarrow> header_event vnode" where
  "history_panel now s =
     (let hs = shown_history s; n = length hs
      in box [box (box ([El ''svg'' [] [] [], span [Txt ''Notifications'']] @
                when_do (n > 0) [span [Txt (cap99 (int n))]]) #
              when_do (n > 0) [El ''button'' [] [On ''click'' ClearHistoryClick] [El ''svg'' [] [] [], Txt ''Clear all'']]),
           box [if hs = [] then
                  box [El ''svg'' [] [] [], El ''p'' [] [] [Txt ''No notifications yet''],
                    El ''p'' [] [] [Txt ''Notifications will appear here as they arrive'']]
                else box (map (history_row now) (rev hs))]])"

definition user_text :: "shell \<Rightarrow> string \<Rightarrow> string \<Rightarrow> string" where
  "user_text s k fallback =
     (let v = opt_get (user (fst (sh_auth s))) k in if truthy v then to_str v else fallback)"

definition avatar :: "shell \<Rightarrow> string" where
  "avatar s =
     (let v = opt_get (user (fst (sh_auth s))) ''name'' in if truthy v then initials (to_str v) else ''??'')"

definition user_menu :: "shell \<Rightarrow> header_event vnode" where
  "user_menu s =
     box [box [El ''p'' [] [] [Txt (user_text s ''name'' ''User'')], El ''p'' [] [] [Txt (user_text s ''email'' [])]],
       box [El ''button'' [] [On ''click'' GoSettings] [box [El ''svg'' [] [] []], Txt ''Settings''],
         El ''button'' [] [On ''click'' SignOut] [box [El ''svg'' [] [] []], Txt ''Sign out'']]]"

definition Header :: "int \<Rightarrow> shell \<Rightarrow> header_event vnode" where
  "Header now s =
     El ''header'' [] []
       [box [El ''button'' [] [On ''click'' OpenSidebar] [El ''svg'' [] [] []],
          box [],
          box [box (El ''button'' [] [On ''click'' ToggleHistory]
                      (El ''svg'' [] [] [] # when_do (hasNewHistory s) [span [span [], span []]]) #
                    when_do (historyOpen s) [history_panel now s]),
               box (El ''button'' [] [On ''click'' ToggleDropdown]
                      [box [box [Txt (avatar s)], span []],
                       box [El ''p'' [] [] [Txt (user_text s ''name'' ''User'')], El ''p'' [] [] [Txt (user_text s ''role'' ''member'')]],
                       El ''svg'' [] [] []] #
                    when_do (dropdownOpen s) [user_menu s])]]]"

section \<open>The layout and its stream of events\<close>

text \<open>The address the layout opens while a session is stored.\<close>

definition stream_url :: "storage \<Rightarrow> string option" where
  "stream_url st =
     (let token = get_item st ''auth_token''
      in if truthy_text token then Some (''/api/v1/events/stream?token='' @ encode_uri (the token)) else None)"

text \<open>The listener on \<open>scheduled.released\<close>: what it notifies of, if the text of the event can be parsed.\<close>

definition released_note :: "string \<Rightarrow> (string \<times> toast_variant) option" where
  "released_note t =
     (case json_parse t of
        None \<Rightarrow> None
      | Some d \<Rightarrow>
          (case js_get d ''recipient'' of
             Inl e \<Rightarrow> None
           | Inr r \<Rightarrow>
               Some (''Scheduled message '' @ (if truthy r then ''to '' @ to_str r else []) @ '' picked up for delivery'', TInfo)))"

definition main_margin :: "bool \<Rightarrow> bool \<Rightarrow> nat" where
  "main_margin isMobile isOpen = (if isMobile then 0 else if isOpen then 240 else 64)"

text \<open>The parts of the layout raise their own events.\<close>

datatype layout_event = BarEv sidebar_event | HeadEv header_event

definition app_layout ::
  "int \<Rightarrow> bool \<Rightarrow> sidebar_env \<Rightarrow> sidebar \<Rightarrow> shell \<Rightarrow> layout_event vnode \<Rightarrow> layout_event vnode" where
  "app_layout now isMobile env bar s outlet =
     box (map (vmap BarEv) (Sidebar env bar) @ [vmap HeadEv (Header now s),
       El ''main'' [(''marginLeft'', show_nat (main_margin isMobile (sidebarOpen (ui (sh_ui s)))))] [] [box [outlet]]])"

section \<open>What the shell promises\<close>

context route_matcher begin

lemma login_of_signed_out:
  "signed_out w \<Longrightarrow> resolve m (Suc n) mounted w ''/login'' = Some (Shown [AuthLayout] LoginPage, ''/login'', w)"
  by (simp add: at commit_def signed_out_def)

text \<open>No layout is rendered before the store was hydrated.\<close>

lemma first_commit: "m p = Some els \<Longrightarrow> commit auth_initial els = Shown ls pg \<Longrightarrow> AppLayout \<notin> set ls"
  by (drule match_shape, erule branch_shape.cases) (auto simp: commit_def auth_initial_def split: option.splits)

end

lemma signed_out_logout: "signed_out (logout w)"
  by (simp add: signed_out_def logout_def)

text \<open>
  C20. Signing out always ends at the login page: whatever the server answers to the request (an error
  included), once it is answered the store is signed out, nothing of the session is stored, the
  header has asked for \<open>/login\<close>, where the navigation ends at the login page outside the layout, and
  the layout would open no stream of events. Two answers leave the same state.
\<close>

theorem signing_out_always_ends:
  assumes "route_matcher m" and "0 < sh_signouts s" and "s' = header_step s (SignOutSettles r)"
  shows "signed_out (sh_auth s') \<and> stream_url (snd (sh_auth s')) = None
    \<and> resolve m 4 mounted (sh_auth s') (sh_path s') = Some (Shown [AuthLayout] LoginPage, ''/login'', sh_auth s')
    \<and> header_step s (SignOutSettles r') = s'"
proof -
  have auth: "sh_auth s' = logout (sh_auth s)" "sh_path s' = ''/login''"
    using assms(2,3) by (simp_all add: header_step_def logged_out_def render_header_def Let_def)
  have four: "(4::nat) = Suc 3" by simp
  have "stream_url (snd (logout (sh_auth s))) = None"
    by (simp add: stream_url_def logout_def get_clear_session Let_def)
  moreover have "header_step s (SignOutSettles r') = s'"
    using assms(2,3) by (simp add: header_step_def logged_out_def)
  ultimately show ?thesis
    unfolding auth four using route_matcher.login_of_signed_out [OF assms(1) signed_out_logout] signed_out_logout by blast
qed

theorem signing_out_always_ends_witness:
  "let s = header_step (mount_header (auth_initial, Map.empty) (ui_load Map.empty False) toast_initial ''/member'') SignOut
   in sh_path (header_step s (SignOutSettles (Inl (JsError ''down'')))) = ''/login''
     \<and> signed_out (sh_auth (header_step s (SignOutSettles (Inl (JsError ''down'')))))"
proof -
  define s where "s = header_step (mount_header (auth_initial, Map.empty) (ui_load Map.empty False) toast_initial ''/member'') SignOut"
  have "0 < sh_signouts s" by (simp add: s_def header_step_def rerenders_def)
  moreover from this have "sh_path (header_step s (SignOutSettles (Inl (JsError ''down'')))) = ''/login''"
    by (simp add: header_step_def logged_out_def render_header_def Let_def)
  ultimately show ?thesis
    using signing_out_always_ends [OF table_matcher _ refl, of s] unfolding s_def [symmetric] Let_def by blast
qed

text \<open>
  Notifications do not reach the header by themselves: whatever happens to the toasts (new ones, timers,
  dismissals), the header on screen stays the same, bell included, until something else
  renders it; opening the panel does, and then it lists the whole history, the newest
  entry first, and the bell rings exactly if there is more of it than the header last knew.
\<close>

theorem toasts_do_not_reach_the_header:
  assumes "s' = foldl header_step s (map (\<lambda>(t, e). ToastActs t e) es)" and "\<not> historyOpen s"
    and "t = header_step s' ToggleHistory"
  shows "Header now s' = Header now s \<and> sh_toasts s' = foldl toast_step (sh_toasts s) es
    \<and> historyOpen t \<and> shown_history t = toastHistory (sh_toasts s') \<and> prevHistoryLength t = length (shown_history t)
    \<and> hasNewHistory t = (length (shown_history s) < length (toastHistory (sh_toasts s')))"
proof -
  have "foldl header_step s (map (\<lambda>(t, e). ToastActs t e) es) = s\<lparr>sh_toasts := foldl toast_step (sh_toasts s) es\<rparr>"
    by (induction es rule: rev_induct) (auto simp: header_step_def rerenders_def)
  then have s': "s' = s\<lparr>sh_toasts := foldl toast_step (sh_toasts s) es\<rparr>" using assms(1) by simp
  then have "Header now s' = Header now s"
    by (simp add: Header_def history_panel_def user_menu_def user_text_def avatar_def Let_def)
  moreover have "t = render_header (s'\<lparr>historyOpen := True, prevHistoryLength := length (shown_history s)\<rparr>)"
    using assms(2,3) s' by (simp add: header_step_def rerenders_def)
  ultimately show ?thesis by (simp add: s' render_header_def Let_def)
qed

definition busy_header :: shell where
  "busy_header = mount_header (auth_initial, Map.empty) (ui_load Map.empty False)
     (toast_initial\<lparr>toasts := [\<lparr>t_id = ''a'', t_variant = TInfo, t_message = ''hi'', t_count = 1, t_timer = 0\<rparr>], timers := [(0, ''a'')]\<rparr>)
     ''/member''"

theorem toasts_do_not_reach_the_header_witness:
  "let s' = foldl header_step busy_header [ToastActs 9 (TimerFires 0)]
   in Header 9 s' = Header 9 busy_header \<and> length (toastHistory (sh_toasts s')) = 1 \<and> hasNewHistory (header_step s' ToggleHistory)"
proof -
  have "\<not> historyOpen busy_header" by (simp add: busy_header_def mount_header_def render_header_def Let_def)
  moreover have "length (toastHistory (foldl toast_step (sh_toasts busy_header) [(9, TimerFires 0)])) = 1"
    "shown_history busy_header = []"
    by (simp_all add: busy_header_def mount_header_def render_header_def toast_initial_def toast_step_def collapse_def
        fireTimer_def drop_toast_def clearTimeout_def pushToHistory_def MAX_HISTORY_def Let_def)
  moreover from this(1) have "toastHistory (foldl toast_step (sh_toasts busy_header) [(9, TimerFires 0)]) \<noteq> []" by auto
  ultimately show ?thesis
    using toasts_do_not_reach_the_header [of _ busy_header "[(9, TimerFires 0)]", OF refl _ refl, of 9] by (simp add: Let_def)
qed

text \<open>
  Clearing the notifications silences the bell: once they are cleared in the panel and the panel is
  closed, then as long as it is not opened again, whatever happens, the bell rings only when
  more notifications are shown than had been cleared; with a full history, never again.
\<close>

theorem clearing_silences_the_bell:
  assumes "historyOpen s" and "s' = foldl header_step s [ClearHistoryClick, ToggleHistory]"
    and "ToggleHistory \<notin> set evs" and "t = foldl header_step s' evs"
  shows "\<not> historyOpen t \<and> prevHistoryLength t = length (shown_history s)
    \<and> (hasNewHistory t \<longrightarrow> length (shown_history s) < length (shown_history t))"
proof -
  define quiet where "quiet x \<longleftrightarrow> \<not> historyOpen x \<and> prevHistoryLength x = length (shown_history s)
    \<and> (hasNewHistory x \<longrightarrow> length (shown_history s) < length (shown_history x))" for x :: shell
  have handled: "\<not> historyOpen (header_handle x e) \<and> prevHistoryLength (header_handle x e) = prevHistoryLength x
      \<and> shown_history (header_handle x e) = shown_history x \<and> hasNewHistory (header_handle x e) = hasNewHistory x"
    if "\<not> historyOpen x" "e \<noteq> ToggleHistory" for x e
    using that by (cases e) (auto simp: logged_out_def)
  have step: "quiet (header_step x e)" if "quiet x" "e \<noteq> ToggleHistory" for x e
    using that handled [of x e] by (auto simp: quiet_def header_step_def render_header_def Let_def)
  have "quiet s'"
    using assms(1,2) by (simp add: quiet_def header_step_def rerenders_def render_header_def clearHistory_def Let_def)
  then have "quiet t" unfolding assms(4) using assms(3)
  proof (induction evs rule: rev_induct)
    case (snoc e evs)
    then show ?case using step by auto
  qed simp
  then show ?thesis by (simp add: quiet_def)
qed

theorem clearing_silences_the_bell_witness:
  "let s = header_step (header_step busy_header (ToastActs 9 (TimerFires 0))) ToggleHistory
   in prevHistoryLength (foldl header_step (foldl header_step s [ClearHistoryClick, ToggleHistory]) [ToggleDropdown]) = length (shown_history s)"
proof -
  define s where "s = header_step (header_step busy_header (ToastActs 9 (TimerFires 0))) ToggleHistory"
  have "historyOpen s"
    by (simp add: s_def header_step_def rerenders_def render_header_def busy_header_def mount_header_def Let_def)
  with clearing_silences_the_bell [of s _ "[ToggleDropdown]", OF _ refl _ refl] show ?thesis
    unfolding s_def [symmetric] Let_def by simp
qed

section \<open>The stream's address\<close>

text \<open>
  The stream's address carries the stored token unchanged: while a session is stored, what follows
  \<open>token=\<close> in the address decodes to the token, and none of its characters ends the
  parameter or the query (no \<open>&\<close>, \<open>#\<close>, \<open>+\<close> or space).
\<close>

theorem stream_carries_the_token:
  assumes "get_item st ''auth_token'' = Some t" and "t \<noteq> []"
  shows "\<exists>q. stream_url st = Some (''/api/v1/events/stream?token='' @ q) \<and> decode_uri q = t
    \<and> list_all (\<lambda>c. c \<notin> set ''&#+ '') q"
  using assms encoded_clean [of t] by (auto simp: stream_url_def Let_def decode_encode list_all_iff)

theorem stream_carries_the_token_witness:
  "stream_url (Map.empty(''auth_token'' \<mapsto> ''a+b'')) = Some ''/api/v1/events/stream?token=a%2Bb''
    \<and> decode_uri ''a%2Bb'' = ''a+b''"
proof -
  have "stream_url (Map.empty(''auth_token'' \<mapsto> ''a+b'')) = Some ''/api/v1/events/stream?token=a%2Bb''" by code_simp
  then show ?thesis
    using stream_carries_the_token [of "Map.empty(''auth_token'' \<mapsto> ''a+b'')" "''a+b''"] by (simp add: get_item_def)
qed

end
