(* ===== verification/Debounce.thy ===== *)
theory Debounce
  imports Prelude
begin

text \<open>
  \<open>hooks/useDebounce.ts\<close>: the hook's state, the value it was last rendered with and the timer its
  effect has running. A rendering with another value clears that timer and starts a new one; a
  timer that fires reports the value it was started for.
\<close>

record 'a debounce =
  db_value :: 'a
  debounced :: 'a
  db_timer :: bool

definition useDebounce :: "'a \<Rightarrow> 'a debounce" where
  "useDebounce v = \<lparr>db_value = v, debounced = v, db_timer = True\<rparr>"

definition debounce_render :: "'a \<Rightarrow> 'a debounce \<Rightarrow> 'a debounce" where
  "debounce_render v s = (if v = db_value s then s else s\<lparr>db_value := v, db_timer := True\<rparr>)"

definition debounce_fire :: "'a debounce \<Rightarrow> 'a debounce" where
  "debounce_fire s = (if db_timer s then s\<lparr>debounced := db_value s, db_timer := False\<rparr> else s)"

datatype 'a debounce_event = Rendered 'a | TimerFires

fun debounce_step :: "'a debounce \<Rightarrow> 'a debounce_event \<Rightarrow> 'a debounce" where
  "debounce_step s (Rendered v) = debounce_render v s"
| "debounce_step s TimerFires = debounce_fire s"

text \<open>What is reported, without timers: the value rendered last before the last firing.\<close>

fun rested :: "'a \<Rightarrow> 'a \<Rightarrow> 'a debounce_event list \<Rightarrow> 'a" where
  "rested v d [] = d"
| "rested v d (Rendered w # es) = rested w d es"
| "rested v d (TimerFires # es) = rested v v es"

definition debounce_inv :: "'a debounce \<Rightarrow> bool" where
  "debounce_inv s \<longleftrightarrow> (\<not> db_timer s \<longrightarrow> debounced s = db_value s)"

interpretation debounce: machine debounce_step "\<lambda>s e. True" debounce_inv
proof
  fix s :: "'a debounce" and e assume "debounce_inv s"
  then show "debounce_inv (debounce_step s e)"
    by (cases e) (auto simp: debounce_inv_def debounce_render_def debounce_fire_def)
qed

lemma debounced_is_rested:
  "debounce_inv s \<Longrightarrow> debounced (foldl debounce_step s es) = rested (db_value s) (debounced s) es"
proof (induction es arbitrary: s)
  case (Cons e es)
  have inv: "debounce_inv (debounce_step s e)" using Cons.prems debounce.step_inv [of s e] by simp
  have "db_value (debounce_step s e) = (case e of Rendered v \<Rightarrow> v | TimerFires \<Rightarrow> db_value s)"
    by (cases e) (auto simp: debounce_render_def debounce_fire_def)
  moreover have "debounced (debounce_step s e) = (case e of Rendered v \<Rightarrow> debounced s | TimerFires \<Rightarrow> db_value s)"
    using Cons.prems by (cases e) (auto simp: debounce_render_def debounce_fire_def debounce_inv_def)
  ultimately show ?case using Cons.IH [OF inv] by (cases e) simp_all
qed simp

text \<open>
  A debounced value is one that was at rest: after any renderings and firings it is the value rendered
  last before the last firing (the first value if none fired), so a value replaced before its
  timer fires is never reported; once the timer has fired the latest value is.
\<close>

theorem debounce_reports_values_at_rest:
  "debounced (foldl debounce_step (useDebounce v) es) = rested v v es
    \<and> debounced (debounce_fire (foldl debounce_step (useDebounce v) es)) = db_value (foldl debounce_step (useDebounce v) es)"
proof -
  have inv: "debounce_inv (useDebounce v)" by (simp add: debounce_inv_def useDebounce_def)
  have "debounce_inv (foldl debounce_step (useDebounce v) es)"
    by (rule debounce.run_inv [OF inv]) simp
  with debounced_is_rested [OF inv, of es] show ?thesis
    by (auto simp: useDebounce_def debounce_inv_def debounce_fire_def)
qed

end
