(* ===== verification/PageParts.thy ===== *)
theory PageParts
  imports DashboardService ListPage Pagination Debounce
begin

text \<open>
  What the pages that show tables and lists write alike: the hero at the top, the error banner, the
  columns of a table, a plain select, the wide pager, and the callbacks of a mutation.
\<close>

section \<open>Parts of a view\<close>

definition hero :: "string \<Rightarrow> string \<Rightarrow> 'e vnode list \<Rightarrow> 'e vnode" where
  "hero title subtitle actions =
     box [box (box [El ''h1'' [] [] [span [Txt title]], El ''p'' [] [] [Txt subtitle]] # actions)]"

definition error_banner :: "string \<Rightarrow> 'e \<Rightarrow> 'e vnode list" where
  "error_banner err dismiss =
     when_do (err \<noteq> []) [box [Txt err, El ''button'' [] [On ''click'' dismiss] [Txt ''Dismiss'']]]"

definition text_column :: "string \<Rightarrow> string \<Rightarrow> 'e column" where
  "text_column k h = \<lparr>c_key = k, c_header = h, c_sortable = False, c_render = None\<rparr>"

definition shown_column :: "string \<Rightarrow> string \<Rightarrow> bool \<Rightarrow> (jsval \<Rightarrow> 'e vnode) \<Rightarrow> 'e column" where
  "shown_column k h sortable f = \<lparr>c_key = k, c_header = h, c_sortable = sortable, c_render = Some (\<lambda>r i. f r)\<rparr>"

definition plain_select :: "string \<Rightarrow> (string \<times> string) list \<Rightarrow> (string \<Rightarrow> 'e) \<Rightarrow> 'e vnode" where
  "plain_select v options change =
     El ''select'' [(''value'', v)] [OnText ''change'' change]
       (map (\<lambda>(w, l). El ''option'' [(''value'', w)] [] [Txt l]) options)"

text \<open>The pager of the lists: \<open>disabled={page <= 1}\<close> and \<open>disabled={page >= totalPages}\<close>.\<close>

definition wide_pager :: "int \<Rightarrow> int \<Rightarrow> (int \<Rightarrow> 'e) \<Rightarrow> 'e vnode list" where
  "wide_pager page pages go =
     when_do (pages > 1)
       [box [span [Txt (''Page '' @ show_int page @ '' of '' @ show_int pages)],
          box [small_button False (page \<le> 1) (go (page - 1)) ''Previous'',
               small_button False (page \<ge> pages) (go (page + 1)) ''Next'']]]"

definition tab_buttons :: "string list \<Rightarrow> (string \<Rightarrow> 'e) \<Rightarrow> 'e vnode" where
  "tab_buttons tabs pick =
     box (map (\<lambda>t. El ''button'' [] [On ''click'' (pick t)] [Txt (if t = [] then ''All'' else t)]) tabs)"

definition skeleton_rows :: "nat \<Rightarrow> 'e vnode" where
  "skeleton_rows n = box (replicate n (box []))"

text \<open>A text of an answer, with the one shown in its place when it is empty.\<close>

definition text_of :: "jsval \<Rightarrow> string \<Rightarrow> string" where
  "text_of v k = shown_text (opt_get v k)"

definition text_either :: "jsval \<Rightarrow> string \<Rightarrow> string \<Rightarrow> string" where
  "text_either v k k' = shown_text (js_or (opt_get v k) (opt_get v k'))"

text \<open>\<open>t.replace(/_/g, ' ')\<close>.\<close>

definition spaced :: "string \<Rightarrow> string" where
  "spaced t = map (\<lambda>c. if c = CHR ''_'' then CHR '' '' else c) t"

lemma page_parts_fire [simp]:
  "may_fire (hero t u vs) e \<longleftrightarrow> list_fire vs e"
  "list_fire (error_banner err d) e \<longleftrightarrow> err \<noteq> [] \<and> e = d"
  "may_fire (plain_select v os f) e \<longleftrightarrow> (\<exists>t. f t = e)"
  "list_fire (wide_pager p n go) e \<longleftrightarrow> 1 < n \<and> (1 < p \<and> e = go (p - 1) \<or> p < n \<and> e = go (p + 1))"
  "may_fire (tab_buttons tabs pick) e \<longleftrightarrow> (\<exists>t \<in> set tabs. e = pick t)"
  "\<not> may_fire (skeleton_rows k) e"
  by (auto simp: hero_def error_banner_def plain_select_def wide_pager_def tab_buttons_def skeleton_rows_def list_fire_map)

section \<open>Mutations and answers\<close>

text \<open>\<open>useMutation\<close>: \<open>onSuccess\<close> with the result, or \<open>onError\<close>.\<close>

definition mutation_settles :: "(jsval \<Rightarrow> 's \<Rightarrow> 's) \<Rightarrow> (js_error \<Rightarrow> 's \<Rightarrow> 's) \<Rightarrow> js_error + jsval \<Rightarrow> 's \<Rightarrow> 's" where
  "mutation_settles success failure r s = (case r of Inl e \<Rightarrow> failure e s | Inr d \<Rightarrow> success d s)"

lemma mutation_settles_simps [simp]:
  "mutation_settles f g (Inr d) s = f d s" "mutation_settles f g (Inl e) s = g e s"
  by (simp_all add: mutation_settles_def)

definition or_text :: "string \<Rightarrow> string \<Rightarrow> string" where
  "or_text t fallback = (if t = [] then fallback else t)"

text \<open>\<open>data?.total ?? 0\<close>.\<close>

definition page_total :: "query \<Rightarrow> int" where
  "page_total q = (case coalesce (opt_get (query_data q) ''total'') (JNum 0) of JNum n \<Rightarrow> n | _ \<Rightarrow> 0)"

text \<open>The last answer of each key, over answers in the order they came in.\<close>

definition answers_of :: "'k \<Rightarrow> ('k \<times> (js_error + jsval)) list \<Rightarrow> (js_error + jsval) list" where
  "answers_of k as = map snd (filter (\<lambda>(j, r). j = k) as)"

definition query_of :: "(js_error + jsval) list \<Rightarrow> query" where
  "query_of rs = foldl (\<lambda>q r. query_answered r q) Loading rs"

text \<open>The queries of a page, one per key.\<close>

definition answered :: "'k \<Rightarrow> js_error + jsval \<Rightarrow> ('k \<Rightarrow> query) \<Rightarrow> 'k \<Rightarrow> query" where
  "answered k r q = q(k := query_answered r (q k))"

lemma answered_run:
  "foldl (\<lambda>q (k, r). answered k r q) q as k = foldl (\<lambda>q r. query_answered r q) (q k) (answers_of k as)"
  by (induction as arbitrary: q) (auto simp: answers_of_def answered_def split: prod.splits)

end
