(* ===== verification/Users.thy ===== *)
theory Users
  imports PageParts
begin

text \<open>
  The staff users page (\<open>features/users/pages/UsersPage.tsx\<close>): a table filtered by a debounced
  search and two choices, deletion of one user and of the selected ones, and the dialog that
  creates and edits a user. The page loads its list itself: \<open>loadUsers\<close> is a callback over the
  page and the filters of one rendering, run by an effect whenever those change and by the handlers
  after a change, which keep the callback of the rendering they were started in.
\<close>

section \<open>State\<close>

record user_query =
  q_page :: int
  q_search :: string
  q_role :: string
  q_status :: string

datatype users_call =
    LoadUsers user_query
  | DeleteUser string user_query
  | BulkDeleteUsers "string list" user_query
  | SaveUser nat user_query "string option" jsval

text \<open>A dialog has a number: one opened later is another instance with a state of its own.\<close>

record user_modal =
  um_number :: nat
  um_user :: "jsval option"
  um_name :: string
  um_email :: string
  um_password :: string
  um_role :: string
  um_status :: string
  um_error :: string
  um_loading :: bool

record users_page =
  us_users :: "jsval list"
  us_total :: jsval
  us_page :: int
  us_search :: "string debounce"
  us_role :: string
  us_status :: string
  us_loading :: bool
  us_modal :: "user_modal option"
  us_dialogs :: nat
  us_selected :: "string list"
  us_error :: string
  us_deletingId :: "string option"
  us_bulkDeleting :: bool
  us_calls :: "users_call list"
  us_notes :: "notice list"

datatype users_event =
    SetSearch string
  | SearchRests
  | SetRole string
  | SetStatus string
  | SetPage int
  | SelectUsers "string list"
  | EditUser jsval
  | AddUser
  | DeleteOne string
  | DeleteSelected
  | DismissError
  | CloseModal
  | SetName string
  | SetEmail string
  | SetPassword string
  | SetUserRole string
  | SetUserStatus string
  | SubmitUser
  | UsersSettle users_call "js_error + jsval"

definition users_pageSize :: int where
  "users_pageSize = 20"

text \<open>What a rendering's \<open>loadUsers\<close> asks for.\<close>

definition users_query :: "users_page \<Rightarrow> user_query" where
  "users_query s = \<lparr>q_page = us_page s, q_search = debounced (us_search s), q_role = us_role s, q_status = us_status s\<rparr>"

definition query_json :: "user_query \<Rightarrow> jsval" where
  "query_json q = JObj [(''page'', JNum (q_page q)), (''pageSize'', JNum users_pageSize), (''search'', JStr (q_search q)),
     (''role'', JStr (q_role q)), (''status'', JStr (q_status q))]"

fun users_service :: "users_call \<Rightarrow> service" where
  "users_service (LoadUsers q) = getUsers (query_json q)"
| "users_service (DeleteUser i q) = deleteUser i"
| "users_service (BulkDeleteUsers ids q) = bulkDeleteUsers (JArr (map JStr ids))"
| "users_service (SaveUser k q (Some i) form) = updateUser i form"
| "users_service (SaveUser k q None form) = createUser form"

section \<open>Handlers\<close>

definition us_send :: "users_call \<Rightarrow> users_page \<Rightarrow> users_page" where
  "us_send c s = s\<lparr>us_calls := us_calls s @ [c]\<rparr>"

definition us_note :: "notice \<Rightarrow> users_page \<Rightarrow> users_page" where
  "us_note n s = s\<lparr>us_notes := us_notes s @ [n]\<rparr>"

definition loadUsers :: "user_query \<Rightarrow> users_page \<Rightarrow> users_page" where
  "loadUsers q s = us_send (LoadUsers q) (s\<lparr>us_loading := True, us_error := []\<rparr>)"

definition users_loaded :: "js_error + jsval \<Rightarrow> users_page \<Rightarrow> users_page" where
  "users_loaded r s =
     (case r of
        Inr d \<Rightarrow> s\<lparr>us_users := items_of (opt_get d ''data''), us_total := opt_get d ''total''\<rparr>
      | Inl e \<Rightarrow> s\<lparr>us_error := err_message e\<rparr>)\<lparr>us_loading := False\<rparr>"

definition handleDelete :: "string \<Rightarrow> users_page \<Rightarrow> users_page" where
  "handleDelete i s = us_send (DeleteUser i (users_query s)) (s\<lparr>us_deletingId := Some i\<rparr>)"

definition user_deleted :: "user_query \<Rightarrow> js_error + jsval \<Rightarrow> users_page \<Rightarrow> users_page" where
  "user_deleted q r s =
     (case r of
        Inr d \<Rightarrow> us_note (''User deleted'', ''success'') (loadUsers q s)
      | Inl e \<Rightarrow> (us_note (err_message e, ''error'') s)\<lparr>us_error := err_message e\<rparr>)\<lparr>us_deletingId := None\<rparr>"

definition handleBulkDelete :: "users_page \<Rightarrow> users_page" where
  "handleBulkDelete s =
     (if us_selected s = [] then s
      else us_send (BulkDeleteUsers (us_selected s) (users_query s)) (s\<lparr>us_bulkDeleting := True\<rparr>))"

definition users_deleted :: "string list \<Rightarrow> user_query \<Rightarrow> js_error + jsval \<Rightarrow> users_page \<Rightarrow> users_page" where
  "users_deleted ids q r s =
     (case r of
        Inr d \<Rightarrow> us_note (show_nat (length ids) @ '' users deleted'', ''success'') (loadUsers q (s\<lparr>us_selected := []\<rparr>))
      | Inl e \<Rightarrow> (us_note (err_message e, ''error'') s)\<lparr>us_error := err_message e\<rparr>)\<lparr>us_bulkDeleting := False\<rparr>"

text \<open>\<open>UserModal\<close>: the fields start from the user it edits.\<close>

definition text_or :: "jsval \<Rightarrow> string \<Rightarrow> string" where
  "text_or v d = to_str (coalesce v (JStr d))"

definition open_modal :: "nat \<Rightarrow> jsval option \<Rightarrow> user_modal" where
  "open_modal k u =
     (let get = (\<lambda>k. case u of None \<Rightarrow> JUndef | Some v \<Rightarrow> opt_get v k)
      in \<lparr>um_number = k, um_user = u, um_name = text_or (get ''name'') [], um_email = text_or (get ''email'') [], um_password = [],
          um_role = text_or (get ''role'') ''staff'', um_status = text_or (get ''status'') ''active'',
          um_error = [], um_loading = False\<rparr>)"

text \<open>\<open>setEditingUser(u); setShowCreate(true)\<close>: a dialog that is open already keeps what was typed.\<close>

definition show_modal :: "jsval option \<Rightarrow> users_page \<Rightarrow> users_page" where
  "show_modal u s =
     (case us_modal s of
        Some m \<Rightarrow> s\<lparr>us_modal := Some (m\<lparr>um_user := u\<rparr>)\<rparr>
      | None \<Rightarrow> s\<lparr>us_modal := Some (open_modal (us_dialogs s) u), us_dialogs := us_dialogs s + 1\<rparr>)"

text \<open>
  \<open>handleSubmit\<close>: the dialog afterwards, and the request it sends, with the \<open>loadUsers\<close> of the rendering
  it was submitted in.
\<close>

definition submit_user :: "user_query \<Rightarrow> user_modal \<Rightarrow> user_modal \<times> users_call option" where
  "submit_user q m =
     (case um_user m of
        Some u \<Rightarrow>
          (m\<lparr>um_loading := True, um_error := []\<rparr>,
           Some (SaveUser (um_number m) q (Some (row_id u))
             (JObj [(''name'', JStr (um_name m)), (''role'', JStr (um_role m)), (''status'', JStr (um_status m))])))
      | None \<Rightarrow>
          if um_password m = [] then (m\<lparr>um_error := ''Password is required'', um_loading := False\<rparr>, None)
          else (m\<lparr>um_loading := True, um_error := []\<rparr>,
            Some (SaveUser (um_number m) q None (JObj [(''name'', JStr (um_name m)), (''email'', JStr (um_email m)),
              (''password'', JStr (um_password m)), (''role'', JStr (um_role m))]))))"

text \<open>
  \<open>onSaved\<close> closes the dialog that is open, whichever it is, and loads; a failure is written to the
  dialog it was submitted in, if that is still there.
\<close>

definition user_saved :: "nat \<Rightarrow> user_query \<Rightarrow> js_error + jsval \<Rightarrow> users_page \<Rightarrow> users_page" where
  "user_saved k q r s =
     (case r of
        Inr d \<Rightarrow> loadUsers q (s\<lparr>us_modal := None\<rparr>)
      | Inl e \<Rightarrow> s\<lparr>us_modal := map_option (\<lambda>m.
                   if um_number m = k then m\<lparr>um_error := err_message e, um_loading := False\<rparr> else m) (us_modal s)\<rparr>)"

definition users_settle :: "users_call \<Rightarrow> js_error + jsval \<Rightarrow> users_page \<Rightarrow> users_page" where
  "users_settle c r s0 =
     (let s = s0\<lparr>us_calls := remove1 c (us_calls s0)\<rparr>
      in case c of
           LoadUsers q \<Rightarrow> users_loaded r s
         | DeleteUser i q \<Rightarrow> user_deleted q r s
         | BulkDeleteUsers ids q \<Rightarrow> users_deleted ids q r s
         | SaveUser k q i form \<Rightarrow> user_saved k q r s)"

definition in_modal :: "(user_modal \<Rightarrow> user_modal) \<Rightarrow> users_page \<Rightarrow> users_page" where
  "in_modal f s = s\<lparr>us_modal := map_option f (us_modal s)\<rparr>"

definition submit_modal :: "users_page \<Rightarrow> users_page" where
  "submit_modal s =
     (case us_modal s of
        None \<Rightarrow> s
      | Some m \<Rightarrow> (case submit_user (users_query s) m of
                    (m', None) \<Rightarrow> s\<lparr>us_modal := Some m'\<rparr>
                  | (m', Some c) \<Rightarrow> us_send c (s\<lparr>us_modal := Some m'\<rparr>)))"

fun users_handle :: "users_page \<Rightarrow> users_event \<Rightarrow> users_page" where
  "users_handle s (SetSearch t) = s\<lparr>us_search := debounce_render t (us_search s), us_page := 1\<rparr>"
| "users_handle s SearchRests = s\<lparr>us_search := debounce_fire (us_search s)\<rparr>"
| "users_handle s (SetRole t) = s\<lparr>us_role := t, us_page := 1\<rparr>"
| "users_handle s (SetStatus t) = s\<lparr>us_status := t, us_page := 1\<rparr>"
| "users_handle s (SetPage p) = s\<lparr>us_page := p\<rparr>"
| "users_handle s (SelectUsers ids) = s\<lparr>us_selected := ids\<rparr>"
| "users_handle s (EditUser u) = show_modal (Some u) s"
| "users_handle s AddUser = show_modal None s"
| "users_handle s (DeleteOne i) = handleDelete i s"
| "users_handle s DeleteSelected = handleBulkDelete s"
| "users_handle s DismissError = s\<lparr>us_error := []\<rparr>"
| "users_handle s CloseModal = s\<lparr>us_modal := None\<rparr>"
| "users_handle s (SetName t) = in_modal (\<lambda>m. m\<lparr>um_name := t\<rparr>) s"
| "users_handle s (SetEmail t) = in_modal (\<lambda>m. m\<lparr>um_email := t\<rparr>) s"
| "users_handle s (SetPassword t) = in_modal (\<lambda>m. m\<lparr>um_password := t\<rparr>) s"
| "users_handle s (SetUserRole t) = in_modal (\<lambda>m. m\<lparr>um_role := t\<rparr>) s"
| "users_handle s (SetUserStatus t) = in_modal (\<lambda>m. m\<lparr>um_status := t\<rparr>) s"
| "users_handle s SubmitUser = submit_modal s"
| "users_handle s (UsersSettle c r) = (if c \<in> set (us_calls s) then users_settle c r s else s)"

text \<open>After a rendering in which the page or a filter changed, the effect loads.\<close>

definition users_step :: "users_page \<Rightarrow> users_event \<Rightarrow> users_page" where
  "users_step s e =
     (let s' = users_handle s e
      in if users_query s' = users_query s then s' else loadUsers (users_query s') s')"

definition users_mount :: users_page where
  "users_mount =
     loadUsers \<lparr>q_page = 1, q_search = [], q_role = [], q_status = []\<rparr>
       \<lparr>us_users = [], us_total = JNum 0, us_page = 1, us_search = useDebounce [], us_role = [], us_status = [],
         us_loading = True, us_modal = None, us_dialogs = 0, us_selected = [], us_error = [], us_deletingId = None,
         us_bulkDeleting = False, us_calls = [], us_notes = []\<rparr>"

section \<open>View\<close>

definition user_columns :: "(string \<Rightarrow> string) \<Rightarrow> users_page \<Rightarrow> users_event column list" where
  "user_columns locale_date s =
     [shown_column ''name'' ''Name'' True (\<lambda>r.
        box [box [Txt (initials (to_str (opt_get r ''name'')))], span [Txt (shown_text (opt_get r ''name''))]]),
      text_column ''email'' ''Email'',
      shown_column ''role'' ''Role'' False (\<lambda>r. Badge False [Txt (shown_text (opt_get r ''role''))]),
      shown_column ''status'' ''Status'' False (\<lambda>r. Badge True [Txt (shown_text (opt_get r ''status''))]),
      shown_column ''last_login'' ''Last login'' False (\<lambda>r.
        if truthy (opt_get r ''last_login'') then Txt (locale_date (to_str (opt_get r ''last_login''))) else span [Txt ''Never'']),
      shown_column ''actions'' [] False (\<lambda>r.
        box [small_button False False (EditUser r) ''Edit'',
             small_button (us_deletingId s = Some (row_id r)) False (DeleteOne (row_id r)) ''Delete''])]"

definition users_hero :: "users_page \<Rightarrow> users_event vnode" where
  "users_hero s =
     (let n = length (us_selected s)
      in box [box [box [El ''h1'' [] [] [span [Txt ''Staff users'']],
                El ''p'' [] [] [Txt ''Manage team members and permissions'']],
              box (when_do (n > 0)
                     [small_button (us_bulkDeleting s) False DeleteSelected (''Delete ('' @ show_nat n @ '')'')] @
                   [small_button False False AddUser ''Add user''])]])"

definition role_options :: "(string \<times> string) list" where
  "role_options = [(''admin'', ''Admin''), (''staff'', ''Staff''), (''viewer'', ''Viewer'')]"
definition status_options :: "(string \<times> string) list" where
  "status_options = [(''active'', ''Active''), (''inactive'', ''Inactive''), (''suspended'', ''Suspended'')]"

definition users_filters :: "users_page \<Rightarrow> users_event vnode" where
  "users_filters s =
     box [Input (input\<lparr>i_rest := [(''placeholder'', ''Search users...''), (''value'', db_value (us_search s))],
            i_on := [OnText ''change'' SetSearch]\<rparr>),
          plain_select (us_role s) (([], ''All roles'') # role_options) SetRole,
          plain_select (us_status s) (([], ''All statuses'') # status_options) SetStatus]"

definition users_table :: "(string \<Rightarrow> string) \<Rightarrow> users_page \<Rightarrow> users_event vnode" where
  "users_table locale_date s =
     DataTable (table_defaults\<lparr>rows := us_users s, columns := user_columns locale_date s, tb_loading := us_loading s,
       totalItems := (case us_total s of JNum n \<Rightarrow> n | _ \<Rightarrow> 0), tb_page := us_page s, tb_pageSize := users_pageSize,
       onPageChange := Some SetPage, emptyTitle := ''No users found'',
       emptyDescription := Some ''No staff users match your filters.'',
       selectedIds := us_selected s, onSelectionChange := Some SelectUsers, getRowId := Some row_id\<rparr>)"

definition UserModal :: "user_modal \<Rightarrow> users_event vnode list" where
  "UserModal m =
     (let edits = um_user m \<noteq> None
      in Modal True CloseModal (Some (if edits then ''Edit user'' else ''Create user'')) None
           [El ''form'' [] [On ''submit'' SubmitUser]
              (error_box (um_error m) @
               [text_input ''Name'' [] (um_name m) SetName] @
               when_do (\<not> edits)
                 [text_input ''Email'' [(''type'', ''email'')] (um_email m) SetEmail,
                  hinted_input ''Password'' [(''type'', ''password''), (''minLength'', ''8'')] ''Minimum 8 characters'' (um_password m) SetPassword] @
               [select_box ''Role'' (um_role m) role_options SetUserRole] @
               when_do edits [select_box ''Status'' (um_status m) status_options SetUserStatus])]
           [small_button False (um_loading m) CloseModal ''Cancel'',
            small_button (um_loading m) False SubmitUser (if edits then ''Update'' else ''Create'')])"

definition users_view :: "(string \<Rightarrow> string) \<Rightarrow> users_page \<Rightarrow> users_event vnode list" where
  "users_view locale_date s =
     [users_hero s] @
     error_banner (us_error s) DismissError @
     [users_filters s, users_table locale_date s] @
     (case us_modal s of None \<Rightarrow> [] | Some m \<Rightarrow> UserModal m)"

section \<open>No spinner stays\<close>

text \<open>What is shown as busy waits for a request that is in flight.\<close>

definition awaited :: "users_page \<Rightarrow> bool" where
  "awaited s \<longleftrightarrow>
     (us_loading s \<longrightarrow> (\<exists>q. LoadUsers q \<in> set (us_calls s))) \<and>
     (\<forall>i. us_deletingId s = Some i \<longrightarrow> (\<exists>q. DeleteUser i q \<in> set (us_calls s))) \<and>
     (us_bulkDeleting s \<longrightarrow> (\<exists>ids q. BulkDeleteUsers ids q \<in> set (us_calls s))) \<and>
     (\<forall>m. us_modal s = Some m \<longrightarrow> um_loading m \<longrightarrow> (\<exists>q i form. SaveUser (um_number m) q i form \<in> set (us_calls s)))"

definition users_busy :: "users_page \<Rightarrow> bool" where
  "users_busy s \<longleftrightarrow> us_loading s \<or> us_deletingId s \<noteq> None \<or> us_bulkDeleting s \<or>
     (case us_modal s of None \<Rightarrow> False | Some m \<Rightarrow> um_loading m)"

lemma in_remove1_other: "x \<in> set xs \<Longrightarrow> x \<noteq> y \<Longrightarrow> x \<in> set (remove1 y xs)"
  by simp

lemma awaited_load: "awaited s \<Longrightarrow> awaited (loadUsers q s)"
  by (fastforce simp: awaited_def loadUsers_def us_send_def)

lemma awaited_settled:
  assumes "awaited s" and "c \<in> set (us_calls s)"
  shows "awaited (users_settle c r s)"
proof (cases c)
  case (LoadUsers q)
  then show ?thesis using assms(1)
    by (cases r) (fastforce simp: awaited_def users_settle_def users_loaded_def intro: in_remove1_other)+
next
  case (DeleteUser i q)
  then show ?thesis using assms(1)
    by (cases r) (fastforce simp: awaited_def users_settle_def user_deleted_def us_note_def loadUsers_def us_send_def
        intro: in_remove1_other)+
next
  case (BulkDeleteUsers ids q)
  then show ?thesis using assms(1)
    by (cases r) (fastforce simp: awaited_def users_settle_def users_deleted_def us_note_def loadUsers_def us_send_def
        intro: in_remove1_other)+
next
  case (SaveUser k q i form)
  define t where "t = s\<lparr>us_calls := remove1 c (us_calls s)\<rparr>"
  have rest: "us_loading t \<longrightarrow> (\<exists>q. LoadUsers q \<in> set (us_calls t))"
    "\<forall>j. us_deletingId t = Some j \<longrightarrow> (\<exists>q. DeleteUser j q \<in> set (us_calls t))"
    "us_bulkDeleting t \<longrightarrow> (\<exists>ids q. BulkDeleteUsers ids q \<in> set (us_calls t))"
    using assms(1) SaveUser unfolding awaited_def t_def by (auto intro!: in_remove1_other)
  have kept: "\<exists>q i form. SaveUser (um_number m) q i form \<in> set (us_calls t)"
    if "us_modal s = Some m" and "um_loading m" and "um_number m \<noteq> k" for m
  proof -
    note h = that
    obtain q' j f where "SaveUser (um_number m) q' j f \<in> set (us_calls s)"
      using assms(1) h(1,2) unfolding awaited_def by blast
    then show ?thesis using SaveUser h(3) unfolding t_def by (auto intro!: in_remove1_other)
  qed
  show ?thesis
  proof (cases r)
    case (Inr d)
    have "awaited (t\<lparr>us_modal := None\<rparr>)" using rest by (simp add: awaited_def)
    then show ?thesis using Inr SaveUser by (simp add: users_settle_def user_saved_def awaited_load t_def Let_def)
  next
    case (Inl e)
    define g :: "user_modal \<Rightarrow> user_modal" where "g = (\<lambda>m. if um_number m = k then m\<lparr>um_error := err_message e, um_loading := False\<rparr> else m)"
    have "users_settle c r s = t\<lparr>us_modal := map_option g (us_modal t)\<rparr>"
      using SaveUser Inl by (simp add: users_settle_def user_saved_def t_def g_def Let_def)
    moreover have "\<exists>q i form. SaveUser (um_number m) q i form \<in> set (us_calls t)"
      if "map_option g (us_modal t) = Some m" "um_loading m" for m
    proof -
      note h = that
      obtain n where n: "us_modal s = Some n" "m = g n" using h(1) by (auto simp: t_def)
      with h(2) have "um_loading n" "um_number n \<noteq> k" "m = n" by (auto simp: g_def split: if_splits)
      with kept [of n] n show ?thesis by simp
    qed
    ultimately show ?thesis using rest by (simp add: awaited_def)
  qed
qed

lemma submit_user_awaits:
  "submit_user q m = (m', c) \<Longrightarrow> um_number m' = um_number m \<and>
     (case c of None \<Rightarrow> \<not> um_loading m' | Some c' \<Rightarrow> \<exists>i form. c' = SaveUser (um_number m) q i form)"
  by (auto simp: submit_user_def split: option.splits if_splits)

lemma awaited_submit: "awaited s \<Longrightarrow> awaited (submit_modal s)"
proof (cases "us_modal s")
  case (Some m)
  obtain m' c where mc: "submit_user (users_query s) m = (m', c)" by force
  assume "awaited s"
  then show ?thesis using Some mc submit_user_awaits [OF mc]
    by (cases c) (fastforce simp: submit_modal_def awaited_def us_send_def)+
qed (simp add: submit_modal_def)

lemma awaited_in_modal:
  assumes "awaited s" and "\<And>m. um_number (f m) = um_number m \<and> um_loading (f m) = um_loading m"
  shows "awaited (in_modal f s)"
  using assms by (auto simp: awaited_def in_modal_def)

lemma awaited_same:
  "awaited s \<Longrightarrow> us_loading t = us_loading s \<Longrightarrow> us_deletingId t = us_deletingId s \<Longrightarrow>
   us_bulkDeleting t = us_bulkDeleting s \<Longrightarrow> us_modal t = us_modal s \<Longrightarrow> us_calls t = us_calls s \<Longrightarrow> awaited t"
  by (simp add: awaited_def)

lemma awaited_show: "awaited s \<Longrightarrow> awaited (show_modal u s)"
  by (cases "us_modal s") (auto simp: awaited_def show_modal_def open_modal_def Let_def)

lemma awaited_delete: "awaited s \<Longrightarrow> awaited (handleDelete i s)"
  by (fastforce simp: awaited_def handleDelete_def us_send_def)

lemma awaited_bulk: "awaited s \<Longrightarrow> awaited (handleBulkDelete s)"
  by (fastforce simp: awaited_def handleBulkDelete_def us_send_def)

lemma awaited_close: "awaited s \<Longrightarrow> awaited (s\<lparr>us_modal := None\<rparr>)"
  by (simp add: awaited_def)

lemma awaited_handle: "awaited s \<Longrightarrow> awaited (users_handle s e)"
  by (cases e) (simp_all add: awaited_settled awaited_submit awaited_in_modal awaited_show awaited_delete awaited_bulk
      awaited_close awaited_same [of s])

interpretation users_page: machine users_step "\<lambda>s e. True" awaited
  by unfold_locales (simp add: users_step_def Let_def awaited_handle awaited_load)

lemma awaited_mount: "awaited users_mount"
  by (simp add: awaited_def users_mount_def loadUsers_def us_send_def)

lemma awaited_idle: "awaited s \<Longrightarrow> us_calls s = [] \<Longrightarrow> \<not> users_busy s"
  by (auto simp: awaited_def users_busy_def split: option.splits)

text \<open>
  C21. No spinner of the users page stays: after any events whatever (clicks, answers and failures in
  any order), once no request is in flight neither the table, a delete button, the deletion of the
  selection nor the dialog is shown as busy.
\<close>

theorem users_page_comes_to_rest:
  assumes "us_calls (foldl users_step users_mount es) = []"
  shows "\<not> users_busy (foldl users_step users_mount es)"
  by (rule awaited_idle [OF users_page.run_inv [OF awaited_mount] assms]) simp

theorem users_page_comes_to_rest_witness:
  "us_calls (foldl users_step users_mount [UsersSettle (LoadUsers (users_query users_mount)) (Inl (JsError ''gone''))]) = []
    \<and> \<not> users_busy (foldl users_step users_mount [UsersSettle (LoadUsers (users_query users_mount)) (Inl (JsError ''gone''))])"
proof -
  have "us_calls (foldl users_step users_mount [UsersSettle (LoadUsers (users_query users_mount)) (Inl (JsError ''gone''))]) = []"
    by code_simp
  then show ?thesis using users_page_comes_to_rest by blast
qed

section \<open>Late answers\<close>

text \<open>
  An answer replaces the rows whatever it was asked for: with the load of an earlier page or filter and
  that of the present one both in flight, if the earlier one is answered last the table ends up with
  its rows, not loading and without an error, while the controls stay on the present filters.
\<close>

theorem late_answer_replaces_rows:
  assumes "LoadUsers q \<in> set (us_calls s)" and "LoadUsers (users_query s) \<in> set (us_calls s)"
    and "q \<noteq> users_query s"
  shows "let s' = foldl users_step s [UsersSettle (LoadUsers (users_query s)) (Inr new), UsersSettle (LoadUsers q) (Inr old)]
    in us_users s' = items_of (opt_get old ''data'') \<and> us_total s' = opt_get old ''total'' \<and>
       users_query s' = users_query s \<and> \<not> us_loading s' \<and> us_error s' = us_error s"
  using assms by (simp add: users_step_def users_settle_def users_loaded_def users_query_def Let_def in_set_remove1)

theorem late_answer_replaces_rows_witness:
  "let s = users_step users_mount (SetRole ''admin'');
       rows = (\<lambda>n. JObj [(''data'', JArr [JObj [(''id'', JStr n)]]), (''total'', JNum 1)]);
       s' = foldl users_step s [UsersSettle (LoadUsers (users_query s)) (Inr (rows ''an admin'')),
              UsersSettle (LoadUsers (users_query users_mount)) (Inr (rows ''a viewer''))]
   in us_role s' = ''admin'' \<and> us_users s' = [JObj [(''id'', JStr ''a viewer'')]] \<and> \<not> us_loading s'"
proof -
  define s where "s = users_step users_mount (SetRole ''admin'')"
  define rows where "rows = (\<lambda>n::string. JObj [(''data'', JArr [JObj [(''id'', JStr n)]]), (''total'', JNum 1)])"
  have "us_calls s = [LoadUsers (users_query users_mount), LoadUsers (users_query s)]"
    "users_query users_mount \<noteq> users_query s" "us_role s = ''admin''"
    unfolding s_def by code_simp+
  then show ?thesis
    using late_answer_replaces_rows [of "users_query users_mount" s "rows ''an admin''" "rows ''a viewer''"]
    by (simp add: s_def [symmetric] Let_def users_query_def items_of_def opt_get_def rows_def)
qed

text \<open>
  The dialog's button does not ask the form: with any non-empty password, however short, and whatever
  the name and the email are, pressing Create sends the account with them; the field's own
  minimum of eight characters and the required fields bind only a form that is submitted itself,
  and this one has no submit button.
\<close>

theorem create_button_skips_the_form:
  assumes "us_modal s = Some m" and "um_user m = None" and "um_password m \<noteq> []" and "\<not> um_loading m"
  shows "list_fire (UserModal m) SubmitUser \<and>
    us_calls (users_step s SubmitUser) = us_calls s @ [SaveUser (um_number m) (users_query s) None
      (JObj [(''name'', JStr (um_name m)), (''email'', JStr (um_email m)),
             (''password'', JStr (um_password m)), (''role'', JStr (um_role m))])]"
  using assms by (auto simp: UserModal_def users_step_def submit_modal_def submit_user_def us_send_def users_query_def Let_def)

theorem create_button_skips_the_form_witness:
  "let s = foldl users_step users_mount [AddUser, SetPassword ''x'']
   in last (us_calls (users_step s SubmitUser)) = SaveUser 0 (users_query s) None
        (JObj [(''name'', JStr []), (''email'', JStr []), (''password'', JStr ''x''), (''role'', JStr ''staff'')])"
proof -
  define s where "s = foldl users_step users_mount [AddUser, SetPassword ''x'']"
  define m where "m = (open_modal 0 None)\<lparr>um_password := ''x''\<rparr>"
  have "us_modal s = Some m" unfolding s_def m_def by code_simp
  moreover have "um_user m = None" "um_password m \<noteq> []" "\<not> um_loading m" "um_number m = 0" "um_name m = []" "um_email m = []"
    "um_password m = ''x''" "um_role m = ''staff''" unfolding m_def by code_simp+
  ultimately have "us_calls (users_step s SubmitUser) = us_calls s @ [SaveUser 0 (users_query s) None
        (JObj [(''name'', JStr []), (''email'', JStr []), (''password'', JStr ''x''), (''role'', JStr ''staff'')])]"
    using create_button_skips_the_form [of s m] by simp
  then show ?thesis unfolding s_def [symmetric] Let_def by simp
qed

end
