(* ===== verification/Reviews.thy ===== *)
theory Reviews
  imports PageParts
begin

text \<open>
  The two pages on which administrators decide on requests of members: identity checks
  (\<open>features/accounts/pages/KycReviewPage.tsx\<close>) and changes of plan
  (\<open>features/billing/pages/AdminSubscriptionsPage.tsx\<close>). Both open a dialog on a request, take notes
  and send a decision with them; the locale \<open>review_desk\<close> is what both promise of that.
\<close>

section \<open>The contract\<close>

datatype decision = Approval | Refusal

type_synonym decision_call = "decision \<times> string \<times> string"

locale review_desk =
  fixes target :: "'s \<Rightarrow> jsval option"
    and noted :: "'s \<Rightarrow> string"
    and sent :: "'s \<Rightarrow> decision_call list"
    and pick :: "decision \<Rightarrow> jsval \<Rightarrow> 's \<Rightarrow> 's"
    and jot :: "string \<Rightarrow> 's \<Rightarrow> 's"
    and confirm :: "decision \<Rightarrow> 's \<Rightarrow> 's"
    and settle :: "decision_call \<Rightarrow> js_error + jsval \<Rightarrow> 's \<Rightarrow> 's"
  assumes picked: "target (pick d t s) = Some t" "noted (pick d t s) = []" "sent (pick d t s) = sent s"
    and written: "target (jot w s) = target s" "noted (jot w s) = w" "sent (jot w s) = sent s"
    and confirmed: "target (confirm d s) = target s" "noted (confirm d s) = noted s"
      "target s = Some t \<Longrightarrow> sent (confirm d s) = sent s @ [(d, row_id t, noted s)]"
    and succeeded: "target (settle c (Inr v) s) = None" "noted (settle c (Inr v) s) = []"
    and failed: "target (settle c (Inl e) s) = target s" "noted (settle c (Inl e) s) = noted s"
    and settled: "c \<in> set (sent s) \<Longrightarrow> sent (settle c r s) = remove1 c (sent s)"
begin

text \<open>One decision, on either outcome.\<close>

lemma round:
  fixes d t w s
  defines "s1 \<equiv> confirm d (jot w (pick d t s))" and "c \<equiv> (d, row_id t, w)"
  shows "sent s1 = sent s @ [c] \<and> target (settle c (Inr v) s1) = None \<and>
    sent (settle c (Inr v) s1) = remove1 c (sent s @ [c]) \<and>
    target (settle c (Inl e) s1) = Some t \<and> noted (settle c (Inl e) s1) = w \<and>
    sent (confirm d (settle c (Inl e) s1)) = remove1 c (sent s @ [c]) @ [c]"
proof -
  have s1: "sent s1 = sent s @ [c]" "target s1 = Some t" "noted s1 = w"
    unfolding s1_def c_def by (simp_all add: confirmed picked written)
  then have "c \<in> set (sent s1)" by simp
  then have "sent (settle c r s1) = remove1 c (sent s @ [c])" for r using settled s1(1) by simp
  then show ?thesis using s1 by (simp add: succeeded failed confirmed c_def)
qed

text \<open>A decision answered while the next one is prepared throws it away.\<close>

lemma late_success:
  "target (settle c (Inr v) (jot w (pick d t s))) = None \<and> noted (settle c (Inr v) (jot w (pick d t s))) = []"
  by (simp add: succeeded)

end

section \<open>Identity checks\<close>

record kyc_page =
  ky_page :: int
  ky_status :: string
  ky_target :: "jsval option"
  ky_notes :: string
  ky_action :: decision
  ky_queries :: "int \<times> string \<Rightarrow> query"
  ky_calls :: "decision_call list"
  ky_said :: "notice list"

datatype review_event =
    PickStatus string
  | GoPage int
  | OpenReview decision jsval
  | CloseReview
  | SetNotes string
  | Confirm decision
  | ReviewsAnswer "int \<times> string" "js_error + jsval"
  | ReviewSettles decision_call "js_error + jsval"

definition submission_initial :: kyc_page where
  "submission_initial = \<lparr>ky_page = 1, ky_status = ''pending'', ky_target = None, ky_notes = [], ky_action = Approval,
     ky_queries = (\<lambda>k. Loading), ky_calls = [], ky_said = []\<rparr>"

definition or_undef :: "string \<Rightarrow> jsval" where
  "or_undef t = (if t = [] then JUndef else JStr t)"

definition submission_query :: "int \<times> string \<Rightarrow> service" where
  "submission_query k = getKycSubmissions (JObj [(''page'', JNum (fst k)), (''pageSize'', JNum 10), (''status'', or_undef (snd k))])"

fun submission_service :: "decision_call \<Rightarrow> service" where
  "submission_service (Approval, i, n) = approveKyc i (JStr n)"
| "submission_service (Refusal, i, n) = rejectKyc i (JStr n)"

definition submission_now :: "kyc_page \<Rightarrow> query" where
  "submission_now s = ky_queries s (ky_page s, ky_status s)"

definition openReview :: "decision \<Rightarrow> jsval \<Rightarrow> kyc_page \<Rightarrow> kyc_page" where
  "openReview a t s = s\<lparr>ky_action := a, ky_target := Some t, ky_notes := []\<rparr>"

definition closeReview :: "kyc_page \<Rightarrow> kyc_page" where
  "closeReview s = s\<lparr>ky_target := None, ky_notes := []\<rparr>"

definition submission_note :: "notice \<Rightarrow> kyc_page \<Rightarrow> kyc_page" where
  "submission_note n s = s\<lparr>ky_said := ky_said s @ [n]\<rparr>"

definition submission_confirm :: "decision \<Rightarrow> kyc_page \<Rightarrow> kyc_page" where
  "submission_confirm d s =
     (case ky_target s of
        None \<Rightarrow> s
      | Some t \<Rightarrow> s\<lparr>ky_calls := ky_calls s @ [(d, row_id t, ky_notes s)]\<rparr>)"

fun submission_callback :: "decision_call \<Rightarrow> js_error + jsval \<Rightarrow> kyc_page \<Rightarrow> kyc_page" where
  "submission_callback (Approval, i, n) =
     mutation_settles (\<lambda>d s. submission_note (note_ok ''KYC approved'') (closeReview s))
       (\<lambda>e. submission_note (note_error e ''Failed to approve KYC''))"
| "submission_callback (Refusal, i, n) =
     mutation_settles (\<lambda>d s. submission_note (note_ok ''KYC rejected'') (closeReview s))
       (\<lambda>e. submission_note (note_error e ''Failed to reject KYC''))"

definition submission_settles :: "decision_call \<Rightarrow> js_error + jsval \<Rightarrow> kyc_page \<Rightarrow> kyc_page" where
  "submission_settles c r s = (submission_callback c r s)\<lparr>ky_calls := remove1 c (ky_calls s)\<rparr>"

fun submission_step :: "kyc_page \<Rightarrow> review_event \<Rightarrow> kyc_page" where
  "submission_step s (PickStatus t) = s\<lparr>ky_status := t, ky_page := 1\<rparr>"
| "submission_step s (GoPage p) = s\<lparr>ky_page := p\<rparr>"
| "submission_step s (OpenReview a t) = openReview a t s"
| "submission_step s CloseReview = closeReview s"
| "submission_step s (SetNotes t) = s\<lparr>ky_notes := t\<rparr>"
| "submission_step s (Confirm d) = submission_confirm d s"
| "submission_step s (ReviewsAnswer k r) = s\<lparr>ky_queries := answered k r (ky_queries s)\<rparr>"
| "submission_step s (ReviewSettles c r) = (if c \<in> set (ky_calls s) then submission_settles c r s else s)"

text \<open>The view.\<close>

definition deciding :: "decision \<Rightarrow> decision_call list \<Rightarrow> bool" where
  "deciding d cs \<longleftrightarrow> list_ex (\<lambda>c. fst c = d) cs"

definition labelled :: "string \<Rightarrow> string \<Rightarrow> 'e vnode" where
  "labelled l t = El ''p'' [] [] [El ''strong'' [] [] [Txt l], span [Txt t]]"

definition submission_card :: "(string \<Rightarrow> string) \<Rightarrow> jsval \<Rightarrow> review_event vnode" where
  "submission_card locale_date r =
     Card True [CardContent [box
       (box ([box [span [Txt (text_either r ''user_name'' ''user_email'')], Badge False [Txt (text_of r ''status'')]],
              El ''p'' [] [] [Txt ''Name: '', span [Txt (text_of r ''full_name'')],
                Txt ('' - '' @ text_of r ''document_type'' @ '' - '' @ text_of r ''document_number'')]] @
             when_do (truthy (opt_get r ''document_url''))
               [El ''a'' [(''href'', to_str (opt_get r ''document_url''))] [] [El ''svg'' [] [] [], Txt ''View document'']] @
             [El ''p'' [] [] [Txt (''Submitted '' @ locale_date (to_str (opt_get r ''created_at'')))]]) #
        when_do (opt_get r ''status'' = JStr ''pending'')
          [box [small_button False False (OpenReview Refusal r) ''Reject'',
                small_button False False (OpenReview Approval r) ''Approve'']])]]"

definition submission_list :: "(string \<Rightarrow> string) \<Rightarrow> kyc_page \<Rightarrow> review_event vnode" where
  "submission_list locale_date s =
     (if submission_now s = Loading then skeleton_rows 5
      else if page_rows (submission_now s) = [] then
        Card False [CardContent [EmptyState ''No KYC submissions'' (Some ''No identity verification requests match your filter.'') None]]
      else box (map (submission_card locale_date) (page_rows (submission_now s))))"

definition submission_modal :: "kyc_page \<Rightarrow> review_event vnode list" where
  "submission_modal s =
     (let label = (case ky_action s of Approval \<Rightarrow> ''Approve'' | Refusal \<Rightarrow> ''Reject'')
      in Modal (ky_target s \<noteq> None) CloseReview (Some (label @ '' KYC Submission'')) None
           (case ky_target s of
              None \<Rightarrow> []
            | Some t \<Rightarrow>
                [box [box [labelled ''User:'' (text_either t ''user_name'' ''user_email''),
                     labelled ''Full name:'' (text_of t ''full_name''),
                     labelled ''Document:'' (text_of t ''document_type'' @ '' -- '' @ text_of t ''document_number'')],
                   Input (input\<lparr>i_label := Some ''Notes (optional)'', i_rest := [(''value'', ky_notes s), (''placeholder'', ''Optional reason...'')],
                     i_on := [OnText ''change'' SetNotes]\<rparr>),
                   box [small_button False False CloseReview ''Cancel'',
                     small_button (deciding (ky_action s) (ky_calls s)) False (Confirm (ky_action s)) label]]])
           [])"

definition submission_view :: "(string \<Rightarrow> string) \<Rightarrow> kyc_page \<Rightarrow> review_event vnode list" where
  "submission_view locale_date s =
     [hero ''KYC Reviews'' (''Review and approve member identity verification ('' @ show_int (page_total (submission_now s)) @ '' total)'') [],
      tab_buttons [''pending'', ''verified'', ''rejected'', []] PickStatus, submission_list locale_date s] @
     wide_pager (ky_page s) (page_count (submission_now s)) GoPage @ submission_modal s"

section \<open>Changes of plan\<close>

record plan_requests =
  pr_page :: int
  pr_status :: string
  pr_target :: "jsval option"
  pr_notes :: string
  pr_queries :: "int \<times> string \<Rightarrow> query"
  pr_calls :: "decision_call list"
  pr_said :: "notice list"

definition requests_initial :: plan_requests where
  "requests_initial = \<lparr>pr_page = 1, pr_status = [], pr_target = None, pr_notes = [],
     pr_queries = (\<lambda>k. Loading), pr_calls = [], pr_said = []\<rparr>"

definition requests_query :: "int \<times> string \<Rightarrow> service" where
  "requests_query k =
     getSubscriptionRequests (JObj [(''page'', JNum (fst k)), (''pageSize'', JNum 10), (''status'', or_undef (snd k))])"

fun request_service :: "decision_call \<Rightarrow> service" where
  "request_service (Approval, i, n) = approveSubscriptionRequest i (JStr n)"
| "request_service (Refusal, i, n) = rejectSubscriptionRequest i (JStr n)"

definition requests_now :: "plan_requests \<Rightarrow> query" where
  "requests_now s = pr_queries s (pr_page s, pr_status s)"

text \<open>\<open>response?.data || []\<close>, \<open>response?.total_pages || 1\<close> and \<open>response?.total || 0\<close>.\<close>

definition request_rows :: "query \<Rightarrow> jsval list" where
  "request_rows q = items_of (js_or (opt_get (query_data q) ''data'') (JArr []))"

definition request_number :: "query \<Rightarrow> string \<Rightarrow> int \<Rightarrow> int" where
  "request_number q k d = (case js_or (opt_get (query_data q) k) (JNum d) of JNum n \<Rightarrow> n | _ \<Rightarrow> d)"

definition request_note :: "notice \<Rightarrow> plan_requests \<Rightarrow> plan_requests" where
  "request_note n s = s\<lparr>pr_said := pr_said s @ [n]\<rparr>"

definition request_confirm :: "decision \<Rightarrow> plan_requests \<Rightarrow> plan_requests" where
  "request_confirm d s =
     (case pr_target s of
        None \<Rightarrow> s
      | Some t \<Rightarrow> s\<lparr>pr_calls := pr_calls s @ [(d, row_id t, pr_notes s)]\<rparr>)"

definition request_decided :: "string \<Rightarrow> string \<Rightarrow> js_error + jsval \<Rightarrow> plan_requests \<Rightarrow> plan_requests" where
  "request_decided done failed =
     mutation_settles (\<lambda>d s. request_note (note_ok done) (s\<lparr>pr_target := None, pr_notes := []\<rparr>))
       (\<lambda>e. request_note (note_error e failed))"

fun request_callback :: "decision_call \<Rightarrow> js_error + jsval \<Rightarrow> plan_requests \<Rightarrow> plan_requests" where
  "request_callback (Approval, i, n) = request_decided ''Request approved'' ''Failed to approve request''"
| "request_callback (Refusal, i, n) = request_decided ''Request rejected'' ''Failed to reject request''"

definition request_settles :: "decision_call \<Rightarrow> js_error + jsval \<Rightarrow> plan_requests \<Rightarrow> plan_requests" where
  "request_settles c r s = (request_callback c r s)\<lparr>pr_calls := remove1 c (pr_calls s)\<rparr>"

fun requests_step :: "plan_requests \<Rightarrow> review_event \<Rightarrow> plan_requests" where
  "requests_step s (PickStatus t) = s\<lparr>pr_status := t, pr_page := 1\<rparr>"
| "requests_step s (GoPage p) = s\<lparr>pr_page := p\<rparr>"
| "requests_step s (OpenReview a t) = s\<lparr>pr_target := Some t, pr_notes := []\<rparr>"
| "requests_step s CloseReview = s\<lparr>pr_target := None\<rparr>"
| "requests_step s (SetNotes t) = s\<lparr>pr_notes := t\<rparr>"
| "requests_step s (Confirm d) = request_confirm d s"
| "requests_step s (ReviewsAnswer k r) = s\<lparr>pr_queries := answered k r (pr_queries s)\<rparr>"
| "requests_step s (ReviewSettles c r) = (if c \<in> set (pr_calls s) then request_settles c r s else s)"

definition request_card :: "jsval \<Rightarrow> review_event vnode" where
  "request_card r =
     Card True [CardContent
       (box ([box [span [Txt (text_either r ''account_name'' ''account_id'')], Badge False [Txt (text_of r ''status'')]],
              El ''p'' [] [] [Txt ''Upgrade: '', span [Txt (text_either r ''current_plan_name'' ''current_plan'')], El ''svg'' [] [] [],
                span [Txt (text_either r ''requested_plan_name'' ''requested_plan'')],
                Txt ('' ('' @ text_of r ''requested_billing_cycle'' @ '')'')]] @
             when_do (truthy (opt_get r ''reason'')) [El ''p'' [] [] [Txt (''Reason: '' @ text_of r ''reason'')]] @
             when_do (truthy (opt_get r ''reviewed_by_name'')) [El ''p'' [] [] [Txt (''Reviewed by: '' @ text_of r ''reviewed_by_name'')]]) #
        when_do (opt_get r ''status'' = JStr ''pending'')
          [box [small_button False False (OpenReview Refusal r) ''Reject'',
                small_button False False (OpenReview Approval r) ''Approve'']])]"

definition request_list :: "plan_requests \<Rightarrow> review_event vnode" where
  "request_list s =
     (if requests_now s = Loading then skeleton_rows 5
      else if request_rows (requests_now s) = [] then
        Card False [CardContent [El ''p'' [] [] [Txt ''No subscription requests found'']]]
      else box (map request_card (request_rows (requests_now s))))"

definition request_modal :: "plan_requests \<Rightarrow> review_event vnode list" where
  "request_modal s =
     Modal (pr_target s \<noteq> None) CloseReview (Some ''Review Subscription Request'') None
       (case pr_target s of
          None \<Rightarrow> []
        | Some t \<Rightarrow>
            [box [box ([labelled ''Account:'' (text_of t ''account_name''),
                  labelled ''Current Plan:'' (text_either t ''current_plan_name'' ''current_plan''),
                  labelled ''Requested Plan:'' (text_either t ''requested_plan_name'' ''requested_plan''),
                  labelled ''Billing Cycle:'' (text_of t ''requested_billing_cycle'')] @
                  when_do (truthy (opt_get t ''reason'')) [labelled ''Reason:'' (text_of t ''reason'')]),
               box [El ''label'' [] [] [Txt ''Notes (optional)''],
                 El ''textarea'' [(''value'', pr_notes s)] [OnText ''change'' SetNotes] []],
               box [small_button False False CloseReview ''Cancel'',
                 small_button (deciding Refusal (pr_calls s)) False (Confirm Refusal) ''Reject'',
                 small_button (deciding Approval (pr_calls s)) False (Confirm Approval) ''Approve'']]])
       []"

definition requests_view :: "plan_requests \<Rightarrow> review_event vnode list" where
  "requests_view s =
     [hero ''Subscription Requests''
        (''Review and approve member upgrade/recharge requests ('' @ show_int (request_number (requests_now s) ''total'' 0) @ '' total)'') [],
      tab_buttons [[], ''pending'', ''approved'', ''rejected''] PickStatus, request_list s] @
     wide_pager (pr_page s) (request_number (requests_now s) ''total_pages'' 1) GoPage @ request_modal s"

section \<open>Both keep the contract\<close>

lemma submission_callback_keeps:
  "ky_target (submission_callback c r s) = (case r of Inl e \<Rightarrow> ky_target s | Inr v \<Rightarrow> None)"
  "ky_notes (submission_callback c r s) = (case r of Inl e \<Rightarrow> ky_notes s | Inr v \<Rightarrow> [])"
  by (cases c rule: submission_callback.cases; cases r; simp add: submission_note_def closeReview_def)+

lemma request_callback_keeps:
  "pr_target (request_callback c r s) = (case r of Inl e \<Rightarrow> pr_target s | Inr v \<Rightarrow> None)"
  "pr_notes (request_callback c r s) = (case r of Inl e \<Rightarrow> pr_notes s | Inr v \<Rightarrow> [])"
  by (cases c rule: request_callback.cases; cases r; simp add: request_note_def request_decided_def)+

interpretation kyc: review_desk ky_target ky_notes ky_calls "\<lambda>d t s. submission_step s (OpenReview d t)" "\<lambda>w s. submission_step s (SetNotes w)"
    "\<lambda>d s. submission_step s (Confirm d)" submission_settles
  by unfold_locales
    (auto simp: openReview_def submission_confirm_def submission_settles_def submission_callback_keeps split: option.splits)

interpretation requests: review_desk pr_target pr_notes pr_calls "\<lambda>d t s. requests_step s (OpenReview d t)"
    "\<lambda>w s. requests_step s (SetNotes w)" "\<lambda>d s. requests_step s (Confirm d)" request_settles
  by unfold_locales
    (auto simp: request_confirm_def request_settles_def request_callback_keeps split: option.splits)

text \<open>
  C22. Both desks keep the contract of a review: opening a request, writing notes and confirming sends one
  decision, for that request and with those notes; a success closes the dialog, a failure leaves it
  open with its notes, and confirming again sends the same decision.
\<close>

theorem reviews_keep_their_contract:
  "(let s1 = foldl submission_step s [OpenReview d t, SetNotes w, Confirm d]; c = (d, row_id t, w)
    in ky_calls s1 = ky_calls s @ [c] \<and> ky_target (submission_settles c (Inr v) s1) = None \<and>
       ky_target (submission_settles c (Inl e) s1) = Some t \<and> ky_notes (submission_settles c (Inl e) s1) = w \<and>
       ky_calls (submission_step (submission_settles c (Inl e) s1) (Confirm d)) = remove1 c (ky_calls s @ [c]) @ [c]) \<and>
   (let p1 = foldl requests_step p [OpenReview d t, SetNotes w, Confirm d]; c = (d, row_id t, w)
    in pr_calls p1 = pr_calls p @ [c] \<and> pr_target (request_settles c (Inr v) p1) = None \<and>
       pr_target (request_settles c (Inl e) p1) = Some t \<and> pr_notes (request_settles c (Inl e) p1) = w \<and>
       pr_calls (requests_step (request_settles c (Inl e) p1) (Confirm d)) = remove1 c (pr_calls p @ [c]) @ [c])"
  using kyc.round [where d = d and t = t and w = w and s = s] requests.round [where d = d and t = t and w = w and s = p]
  unfolding Let_def foldl.simps by blast

section \<open>What they do not prevent\<close>

text \<open>Nothing else lets a desk send a decision than the dialog's own buttons.\<close>

lemma reviews_fire:
  "list_fire (submission_view ld s) (Confirm d) \<longleftrightarrow> ky_target s \<noteq> None \<and> d = ky_action s \<and> \<not> deciding d (ky_calls s)"
  "list_fire (requests_view p) (Confirm d) \<longleftrightarrow> pr_target p \<noteq> None \<and> \<not> deciding d (pr_calls p)"
  by (cases d; auto simp: submission_view_def submission_list_def submission_card_def submission_modal_def requests_view_def request_list_def
      request_card_def request_modal_def labelled_def list_fire_map Let_def split: option.splits)+

text \<open>
  A change of plan can be approved and rejected at once: while its approval is in flight the dialog
  on it still offers the rejection, and pressing it sends the opposite decision for the
  same request. The desk of identity checks offers only the decision it was opened for.
\<close>

theorem opposite_decisions_in_flight:
  assumes "pr_target s = Some t" and "pr_calls s = []"
  shows "let s1 = requests_step s (Confirm Approval)
    in list_fire (requests_view s1) (Confirm Refusal) \<and> \<not> list_fire (requests_view s1) (Confirm Approval) \<and>
       pr_calls (requests_step s1 (Confirm Refusal)) = [(Approval, row_id t, pr_notes s), (Refusal, row_id t, pr_notes s)] \<and>
       (ky_target k \<noteq> None \<longrightarrow> list_fire (submission_view ld k) (Confirm d) \<longrightarrow> d = ky_action k)"
proof -
  define s1 where "s1 = requests_step s (Confirm Approval)"
  have s1: "pr_target s1 = Some t" "pr_calls s1 = [(Approval, row_id t, pr_notes s)]" "pr_notes s1 = pr_notes s"
    unfolding s1_def by (simp_all add: request_confirm_def assms)
  then show ?thesis
    unfolding Let_def s1_def [symmetric] reviews_fire by (simp add: deciding_def request_confirm_def)
qed

theorem opposite_decisions_in_flight_witness:
  "let s = requests_step requests_initial (OpenReview Approval (JObj [(''id'', JStr ''r1'')]))
   in pr_calls (foldl requests_step s [Confirm Approval, Confirm Refusal]) = [(Approval, ''r1'', []), (Refusal, ''r1'', [])]"
proof -
  define s where "s = requests_step requests_initial (OpenReview Approval (JObj [(''id'', JStr ''r1'')]))"
  have s: "pr_target s = Some (JObj [(''id'', JStr ''r1'')])" "pr_calls s = []" "pr_notes s = []"
    by (simp_all add: s_def requests_initial_def)
  from opposite_decisions_in_flight [OF s(1,2)] s(3) show ?thesis
    unfolding s_def [symmetric] Let_def by (simp add: row_id_def opt_get_def obj_get_def)
qed

end
