(* ===== verification/Accounts.thy ===== *)
theory Accounts
  imports PageParts
begin

text \<open>
  The accounts page (\<open>features/accounts/pages/AccountsPage.tsx\<close>): a table of member accounts under a
  debounced search and a choice of status, with suspension, activation and deletion. Its list is a
  query of \<open>react-query\<close> under the key of the page and the filters.
\<close>

section \<open>State\<close>

type_synonym accounts_tuple = "int \<times> string \<times> string"

datatype account_call =
    SuspendAccount string
  | ActivateAccount string
  | DeleteAccount string

record accounts_page =
  ac_page :: int
  ac_search :: "string debounce"
  ac_status :: string
  ac_sortBy :: string
  ac_sortOrder :: string
  ac_error :: string
  suspendTarget :: "jsval option"
  ac_deleteTarget :: "jsval option"
  ac_queries :: "accounts_tuple \<Rightarrow> query"
  ac_calls :: "account_call list"
  ac_notes :: "notice list"

datatype accounts_event =
    SearchAccounts string
  | AccountSearchRests
  | PickAccountStatus string
  | GoAccounts int
  | SortAccounts string
  | DismissAccounts
  | AskSuspend jsval
  | CloseSuspend
  | ConfirmSuspend
  | Activate string
  | AskDeleteAccount jsval
  | CloseDeleteAccount
  | ConfirmDeleteAccount
  | AccountsAnswer accounts_tuple "js_error + jsval"
  | AccountSettles account_call "js_error + jsval"

definition accounts_initial :: accounts_page where
  "accounts_initial = \<lparr>ac_page = 1, ac_search = useDebounce [], ac_status = [], ac_sortBy = ''created_at'', ac_sortOrder = ''desc'',
     ac_error = [], suspendTarget = None, ac_deleteTarget = None, ac_queries = (\<lambda>k. Loading), ac_calls = [], ac_notes = []\<rparr>"

definition accounts_key :: "accounts_page \<Rightarrow> accounts_tuple" where
  "accounts_key s = (ac_page s, debounced (ac_search s), ac_status s)"

fun accounts_query :: "accounts_tuple \<Rightarrow> service" where
  "accounts_query (p, t, st) =
     getAccounts (JObj [(''page'', JNum p), (''pageSize'', JNum 20), (''search'', JStr t), (''status'', JStr st)])"

fun account_service :: "account_call \<Rightarrow> service" where
  "account_service (SuspendAccount i) = suspendAccount i"
| "account_service (ActivateAccount i) = activateAccount i"
| "account_service (DeleteAccount i) = deleteAccount i"

definition accounts_now :: "accounts_page \<Rightarrow> query" where
  "accounts_now s = ac_queries s (accounts_key s)"

section \<open>Handlers\<close>

definition ac_send :: "account_call \<Rightarrow> accounts_page \<Rightarrow> accounts_page" where
  "ac_send c s = s\<lparr>ac_calls := ac_calls s @ [c]\<rparr>"

definition ac_note :: "notice \<Rightarrow> accounts_page \<Rightarrow> accounts_page" where
  "ac_note n s = s\<lparr>ac_notes := ac_notes s @ [n]\<rparr>"

text \<open>\<open>onError\<close>: the notification and the banner say the same.\<close>

definition ac_failed :: "string \<Rightarrow> js_error \<Rightarrow> accounts_page \<Rightarrow> accounts_page" where
  "ac_failed fallback e s = (ac_note (note_error e fallback) s)\<lparr>ac_error := or_text (err_message e) fallback\<rparr>"

fun account_callback :: "account_call \<Rightarrow> js_error + jsval \<Rightarrow> accounts_page \<Rightarrow> accounts_page" where
  "account_callback (SuspendAccount i) =
     mutation_settles (\<lambda>d s. ac_note (note_ok ''Account suspended'') (s\<lparr>ac_error := [], suspendTarget := None\<rparr>))
       (ac_failed ''Failed to suspend account'')"
| "account_callback (ActivateAccount i) =
     mutation_settles (\<lambda>d s. ac_note (note_ok ''Account activated'') (s\<lparr>ac_error := []\<rparr>))
       (ac_failed ''Failed to activate account'')"
| "account_callback (DeleteAccount i) =
     mutation_settles (\<lambda>d s. ac_note (note_ok ''Account deleted'') (s\<lparr>ac_error := [], ac_deleteTarget := None\<rparr>))
       (ac_failed ''Failed to delete account'')"

definition account_settles :: "account_call \<Rightarrow> js_error + jsval \<Rightarrow> accounts_page \<Rightarrow> accounts_page" where
  "account_settles c r s = (account_callback c r s)\<lparr>ac_calls := remove1 c (ac_calls s)\<rparr>"

text \<open>\<open>onSort\<close>.\<close>

definition sort_accounts :: "string \<Rightarrow> accounts_page \<Rightarrow> accounts_page" where
  "sort_accounts k s =
     (if k = ac_sortBy s then s\<lparr>ac_sortOrder := (if ac_sortOrder s = ''asc'' then ''desc'' else ''asc'')\<rparr>
      else s\<lparr>ac_sortBy := k, ac_sortOrder := ''asc''\<rparr>)"

fun accounts_step :: "accounts_page \<Rightarrow> accounts_event \<Rightarrow> accounts_page" where
  "accounts_step s (SearchAccounts t) = s\<lparr>ac_search := debounce_render t (ac_search s), ac_page := 1\<rparr>"
| "accounts_step s AccountSearchRests = s\<lparr>ac_search := debounce_fire (ac_search s)\<rparr>"
| "accounts_step s (PickAccountStatus t) = s\<lparr>ac_status := t, ac_page := 1\<rparr>"
| "accounts_step s (GoAccounts p) = s\<lparr>ac_page := p\<rparr>"
| "accounts_step s (SortAccounts k) = sort_accounts k s"
| "accounts_step s DismissAccounts = s\<lparr>ac_error := []\<rparr>"
| "accounts_step s (AskSuspend a) = s\<lparr>suspendTarget := Some a\<rparr>"
| "accounts_step s CloseSuspend = s\<lparr>suspendTarget := None\<rparr>"
| "accounts_step s ConfirmSuspend =
     (case suspendTarget s of None \<Rightarrow> s | Some a \<Rightarrow> ac_send (SuspendAccount (row_id a)) s)"
| "accounts_step s (Activate i) = ac_send (ActivateAccount i) s"
| "accounts_step s (AskDeleteAccount a) = s\<lparr>ac_deleteTarget := Some a\<rparr>"
| "accounts_step s CloseDeleteAccount = s\<lparr>ac_deleteTarget := None\<rparr>"
| "accounts_step s ConfirmDeleteAccount =
     (case ac_deleteTarget s of None \<Rightarrow> s | Some a \<Rightarrow> ac_send (DeleteAccount (row_id a)) s)"
| "accounts_step s (AccountsAnswer k r) = s\<lparr>ac_queries := answered k r (ac_queries s)\<rparr>"
| "accounts_step s (AccountSettles c r) = (if c \<in> set (ac_calls s) then account_settles c r s else s)"

section \<open>View\<close>

fun suspends :: "account_call \<Rightarrow> string option" where
  "suspends (SuspendAccount i) = Some i" | "suspends _ = None"
fun activates :: "account_call \<Rightarrow> string option" where
  "activates (ActivateAccount i) = Some i" | "activates _ = None"
fun account_deletes :: "account_call \<Rightarrow> string option" where
  "account_deletes (DeleteAccount i) = Some i" | "account_deletes _ = None"

definition ac_pending :: "(account_call \<Rightarrow> 'a option) \<Rightarrow> accounts_page \<Rightarrow> bool" where
  "ac_pending k s \<longleftrightarrow> calls_of k (ac_calls s) \<noteq> []"

text \<open>\<open>to_fixed\<close> stands for \<open>toFixed(2)\<close> on the risk score, \<open>locale_date\<close> for the host's date format.\<close>

definition account_columns ::
  "(string \<Rightarrow> string) \<Rightarrow> (jsval \<Rightarrow> string) \<Rightarrow> accounts_page \<Rightarrow> accounts_event column list" where
  "account_columns locale_date to_fixed s =
     [(text_column ''name'' ''Name'')\<lparr>c_sortable := True\<rparr>,
      text_column ''email'' ''Email'',
      shown_column ''plan_id'' ''Plan'' False (\<lambda>r. Badge False [Txt (text_of r ''plan_id'')]),
      shown_column ''status'' ''Status'' False (\<lambda>r. Badge True [Txt (text_of r ''status'')]),
      shown_column ''verified'' ''Verified'' False (\<lambda>r.
        if truthy (opt_get r ''verified'') then Badge False [Txt ''Yes''] else span [Txt ''--'']),
      shown_column ''risk_score'' ''Risk'' False (\<lambda>r. span [Txt (to_fixed (opt_get r ''risk_score''))]),
      shown_column ''created_at'' ''Created'' False (\<lambda>r. Txt (locale_date (to_str (opt_get r ''created_at'')))),
      shown_column ''actions'' [] False (\<lambda>r.
        box [if opt_get r ''status'' = JStr ''active'' then small_button False False (AskSuspend r) ''Suspend''
             else small_button (ac_pending activates s) False (Activate (row_id r)) ''Activate'',
             small_button False False (AskDeleteAccount r) ''Delete''])]"

definition account_filters :: "accounts_page \<Rightarrow> accounts_event vnode" where
  "account_filters s =
     box [Input (input\<lparr>i_rest := [(''placeholder'', ''Search accounts...''), (''value'', db_value (ac_search s))],
            i_on := [OnText ''change'' SearchAccounts]\<rparr>),
          plain_select (ac_status s)
            [([], ''All statuses''), (''active'', ''Active''), (''suspended'', ''Suspended''), (''disabled'', ''Disabled'')]
            PickAccountStatus]"

definition target_name :: "jsval option \<Rightarrow> string" where
  "target_name t = (case t of None \<Rightarrow> ''undefined'' | Some v \<Rightarrow> to_str (opt_get v ''name''))"

definition account_dialogs :: "accounts_page \<Rightarrow> accounts_event vnode list" where
  "account_dialogs s =
     ConfirmDialog (suspendTarget s \<noteq> None) CloseSuspend ConfirmSuspend ''Suspend account''
       (Some (''Are you sure you want to suspend \"'' @ target_name (suspendTarget s) @
          ''\"? They will be unable to send messages until their account is reactivated.''))
       ''Suspend'' ''Cancel'' (ac_pending suspends s) @
     ConfirmDialog (ac_deleteTarget s \<noteq> None) CloseDeleteAccount ConfirmDeleteAccount ''Delete account''
       (Some (''Are you sure you want to delete \"'' @ target_name (ac_deleteTarget s) @
          ''\"? This will permanently remove their account and all associated data.''))
       ''Delete'' ''Cancel'' (ac_pending account_deletes s)"

definition accounts_table ::
  "(string \<Rightarrow> string) \<Rightarrow> (jsval \<Rightarrow> string) \<Rightarrow> accounts_page \<Rightarrow> accounts_event vnode" where
  "accounts_table locale_date to_fixed s =
     DataTable (table_defaults\<lparr>rows := page_rows (accounts_now s), columns := account_columns locale_date to_fixed s,
       tb_loading := accounts_now s = Loading, totalItems := page_total (accounts_now s), tb_page := ac_page s,
       tb_pageSize := 20, onPageChange := Some GoAccounts, sortBy := Some (ac_sortBy s), sortOrder := Some (ac_sortOrder s),
       onSort := Some SortAccounts, emptyTitle := ''No accounts found'',
       emptyDescription := Some ''No member accounts match your filters.''\<rparr>)"

definition accounts_view ::
  "(string \<Rightarrow> string) \<Rightarrow> (jsval \<Rightarrow> string) \<Rightarrow> accounts_page \<Rightarrow> accounts_event vnode list" where
  "accounts_view locale_date to_fixed s =
     [hero ''Accounts'' ''Manage member accounts on your platform'' []] @ error_banner (ac_error s) DismissAccounts @
     [account_filters s] @ account_dialogs s @ [accounts_table locale_date to_fixed s]"

section \<open>The rows on show\<close>

text \<open>The answers among the events, and what an event does to the key.\<close>

fun account_answers :: "accounts_event list \<Rightarrow> (accounts_tuple \<times> (js_error + jsval)) list" where
  "account_answers [] = []"
| "account_answers (AccountsAnswer k r # es) = (k, r) # account_answers es"
| "account_answers (e # es) = account_answers es"

lemma callback_keeps_queries [simp]: "ac_queries (account_callback c r s) = ac_queries s"
  by (cases c; cases r) (simp_all add: ac_note_def ac_failed_def)

lemma step_queries:
  "ac_queries (accounts_step s e) = foldl (\<lambda>q (k, r). answered k r q) (ac_queries s) (account_answers [e])"
  by (cases e) (simp_all add: sort_accounts_def ac_send_def account_settles_def split: option.split)

lemma account_answers_Cons: "account_answers (e # es) = account_answers [e] @ account_answers es"
  by (cases e) simp_all

lemma run_queries:
  "ac_queries (foldl accounts_step s es) = foldl (\<lambda>q (k, r). answered k r q) (ac_queries s) (account_answers es)"
proof (induction es arbitrary: s)
  case (Cons e es)
  show ?case by (subst account_answers_Cons) (simp add: Cons.IH step_queries)
qed simp


text \<open>
  The header of a sortable column changes its arrow and nothing else: after any clicks on it the page
  asks for the same list, shows the same rows in the same order, and an even number of clicks on the column
  that is sorted by restores the arrow. The request has no parameter for an order.
\<close>

theorem sorting_changes_only_the_arrow:
  "accounts_key (foldl accounts_step s (map SortAccounts ks)) = accounts_key s
    \<and> accounts_query (accounts_key (foldl accounts_step s (map SortAccounts ks))) = accounts_query (accounts_key s)
    \<and> page_rows (accounts_now (foldl accounts_step s (map SortAccounts ks))) = page_rows (accounts_now s)
    \<and> foldl accounts_step (sort_accounts k s) (replicate (2 * n) (SortAccounts k)) = sort_accounts k s"
proof -
  have keeps: "accounts_key (sort_accounts k s) = accounts_key s" "ac_queries (sort_accounts k s) = ac_queries s" for k s
    by (simp_all add: sort_accounts_def accounts_key_def)
  have all: "accounts_key (foldl accounts_step s (map SortAccounts ks)) = accounts_key s
      \<and> ac_queries (foldl accounts_step s (map SortAccounts ks)) = ac_queries s"
    by (induction ks arbitrary: s) (simp_all add: keeps)
  have two: "sort_accounts k (sort_accounts k t) = t" if "ac_sortBy t = k" "ac_sortOrder t \<in> {''asc'', ''desc''}" for t k
    using that by (auto simp: sort_accounts_def)
  show ?thesis
  proof (intro conjI)
    show "foldl accounts_step (sort_accounts k s) (replicate (2 * n) (SortAccounts k)) = sort_accounts k s"
    proof (induction n)
      case (Suc n)
      have "ac_sortBy (sort_accounts k s) = k" "ac_sortOrder (sort_accounts k s) \<in> {''asc'', ''desc''}"
        by (auto simp: sort_accounts_def)
      then show ?case using Suc.IH by (simp add: two)
    qed simp
  qed (use all in \<open>simp_all add: accounts_now_def\<close>)
qed

end
