(* ===== verification/Pricing.thy ===== *)
theory Pricing
  imports Complex_Main "HOL-Library.Multiset" UiKit Uri
begin

text \<open>
  The price list of the landing page (\<open>landing/components/Pricing.tsx\<close>): plans of the public API, sorted and
  completed from a list of fallbacks, the features generated for plans without any, the table that
  compares them, and the choice of a plan. Prices are rationals; how the host prints one is a
  parameter (\<open>show_num\<close>, and \<open>show_fixed\<close> for \<open>toFixed(4)\<close>). Rotations and depths are styling.
\<close>

section \<open>Data\<close>

text \<open>A field that the code guards against being \<open>undefined\<close> or \<open>null\<close>.\<close>

datatype 'a field_value = Missing | Nulled | Given 'a

record api_plan =
  ap_id :: string
  ap_name :: string
  ap_price :: "rat field_value"
  ap_daily :: int
  ap_monthly :: int
  ap_perSms :: rat
  ap_devices :: int
  ap_strategy :: string
  ap_pool :: bool
  ap_popular :: "bool field_value"
  ap_cta :: string
  ap_features :: "string list option"

record pricing_plan =
  pp_name :: string
  pp_planId :: string
  pp_monthly :: rat
  pp_yearly :: rat
  pp_description :: string
  pp_features :: "string list option"
  pp_cta :: string
  pp_popular :: bool
  pp_quota :: "int option"
  pp_daily :: "int option"
  pp_devices :: "int option"
  pp_perSms :: "rat option"

definition fallback_plan :: "string \<Rightarrow> string \<Rightarrow> rat \<Rightarrow> rat \<Rightarrow> string \<Rightarrow> string \<Rightarrow> bool \<Rightarrow> pricing_plan" where
  "fallback_plan i n m y d c p = \<lparr>pp_name = n, pp_planId = i, pp_monthly = m, pp_yearly = y, pp_description = d,
     pp_features = None, pp_cta = c, pp_popular = p, pp_quota = None, pp_daily = None, pp_devices = None, pp_perSms = None\<rparr>"

definition PRICING_PLANS :: "pricing_plan list" where
  "PRICING_PLANS =
     [fallback_plan ''free'' ''Free'' 0 0 ''For getting started and testing'' ''Get Started Free'' False,
      fallback_plan ''pro'' ''Pro'' (2999/100) (2999/10) ''For growing businesses'' ''Start Free Trial'' False,
      fallback_plan ''scale'' ''Scale'' (9999/100) (9999/10) ''For high-volume operations'' ''Contact Sales'' True,
      fallback_plan ''enterprise'' ''Enterprise'' (29999/100) (29999/10) ''For large-scale operations'' ''Contact Sales'' False]"

section \<open>Features\<close>

text \<open>\<open>toFixed(0)\<close> of a quotient of non-negative integers rounds halves up.\<close>

definition formatQuota :: "int \<Rightarrow> string" where
  "formatQuota n =
     (if n \<ge> 1000000 then show_int ((n + 500000) div 1000000) @ ''M''
      else if n \<ge> 1000 then show_int ((n + 500) div 1000) @ ''K''
      else show_int n)"

definition routing_names :: "(string \<times> string) list" where
  "routing_names = [(''fastest_delivery'', ''Fastest delivery routing''), (''lowest_cost'', ''Lowest-cost routing''),
     (''highest_reliability'', ''Highest-reliability routing''), (''geo_affinity'', ''Geo-affinity routing''),
     (''profit_optimized'', ''Profit-optimized routing'')]"

definition formatRoutingStrategy :: "string \<Rightarrow> string" where
  "formatRoutingStrategy strategy =
     (case map_of routing_names strategy of
        Some t \<Rightarrow> t
      | None \<Rightarrow> map (\<lambda>c. if c = CHR ''_'' then CHR '' '' else c) strategy @ '' routing'')"

definition price_of :: "rat field_value \<Rightarrow> rat" where
  "price_of v = (case v of Given p \<Rightarrow> p | _ \<Rightarrow> 0)"

definition analytics_level :: "nat \<Rightarrow> string" where
  "analytics_level i = (if i = 0 then ''Basic analytics'' else if i \<le> 1 then ''Advanced analytics'' else ''Full analytics suite'')"

definition support_level :: "nat \<Rightarrow> string" where
  "support_level i =
     (if i = 0 then ''Community support'' else if i \<le> 1 then ''Priority support''
      else if i \<le> 2 then ''Dedicated support'' else ''Dedicated support & custom SLA'')"

definition device_line :: "int \<Rightarrow> string" where
  "device_line n = show_int n @ '' device connection'' @ (if n \<noteq> 1 then ''s'' else [])"

definition pool_line :: "bool \<Rightarrow> string" where
  "pool_line b = (if b then ''Dedicated device pool'' else ''Shared device pool'')"

definition generateFeatures :: "api_plan \<Rightarrow> nat \<Rightarrow> nat \<Rightarrow> string list" where
  "generateFeatures p i n =
     [formatQuota (ap_monthly p) @ '' SMS/month'', formatQuota (ap_daily p) @ '' daily SMS'', device_line (ap_devices p),
      formatRoutingStrategy (ap_strategy p), analytics_level i, support_level i, pool_line (ap_pool p)] @
     (if price_of (ap_price p) > 0 then [''Custom webhooks'', ''OTP system''] else []) @
     (if i \<ge> 2 then [''Cost & profit tracking''] else []) @
     (if i + 1 = n \<and> price_of (ap_price p) > 0 then [''Custom integrations''] else []) @
     [''API access'']"

text \<open>\<open>mapApiPlanToPricing\<close>; \<open>a ?? b\<close> takes \<open>b\<close> where \<open>a\<close> is missing or null.\<close>

definition given :: "'a field_value \<Rightarrow> 'a \<Rightarrow> 'a" where
  "given v d = (case v of Given x \<Rightarrow> x | _ \<Rightarrow> d)"

definition mapApiPlanToPricing :: "api_plan \<Rightarrow> nat \<Rightarrow> nat \<Rightarrow> pricing_plan" where
  "mapApiPlanToPricing p i n =
     (let fallback = find (\<lambda>f. pp_planId f = ap_id p) PRICING_PLANS;
          features = (case ap_features p of Some (f # fs) \<Rightarrow> f # fs | _ \<Rightarrow> generateFeatures p i n);
          monthly = given (ap_price p) (case fallback of Some f \<Rightarrow> pp_monthly f | None \<Rightarrow> 0)
      in \<lparr>pp_name = ap_name p, pp_planId = ap_id p, pp_monthly = monthly,
           pp_yearly = rat_of_int \<lfloor>monthly * 10 + 1/2\<rfloor>,
           pp_description = (case fallback of Some f \<Rightarrow> pp_description f | None \<Rightarrow> formatQuota (ap_monthly p) @ '' SMS/month''),
           pp_features = Some features,
           pp_cta = (if ap_cta p \<noteq> [] then ap_cta p else case fallback of Some f \<Rightarrow> pp_cta f | None \<Rightarrow> ''Get Started''),
           pp_popular = given (ap_popular p) (case fallback of Some f \<Rightarrow> pp_popular f | None \<Rightarrow> False),
           pp_quota = Some (ap_monthly p), pp_daily = Some (ap_daily p), pp_devices = Some (ap_devices p),
           pp_perSms = Some (ap_perSms p)\<rparr>)"

section \<open>Loading the plans\<close>

text \<open>
  What comes of one of the two requests: it does not arrive, is refused, has no valid body, or a body with
  its \<open>success\<close> and data. The data of the plans is a list, a page holding one, or neither.
\<close>

datatype 'a fetched = Unreached | NotOk | BadBody | Body bool 'a

datatype plans_data = PlainPlans "api_plan list" | PagedPlans "api_plan list" | NoPlans

record pricing =
  annual :: bool
  pr_plans :: "pricing_plan list"
  selectedPlan :: "string option"
  hoveredPlan :: "string option"
  paymentMethods :: "(string \<times> string) list"
  pricing_loading :: bool
  pr_location :: "string option"

fun plans_in :: "plans_data \<Rightarrow> api_plan list" where
  "plans_in (PlainPlans ps) = ps" | "plans_in (PagedPlans ps) = ps" | "plans_in NoPlans = []"

definition sorted_plans :: "api_plan list \<Rightarrow> api_plan list" where
  "sorted_plans ps = sort_key (\<lambda>p. price_of (ap_price p)) (filter (\<lambda>p. ap_price p \<noteq> Missing) ps)"

definition map_plans :: "api_plan list \<Rightarrow> pricing_plan list" where
  "map_plans ps = map (\<lambda>(i, p). mapApiPlanToPricing p i (length ps)) (zip [0..<length ps] ps)"

definition take_plans :: "plans_data \<Rightarrow> pricing \<Rightarrow> pricing" where
  "take_plans d s =
     (let mapped = map_plans (sorted_plans (plans_in d)) in if mapped = [] then s else s\<lparr>pr_plans := mapped\<rparr>)"

text \<open>\<open>fetchData\<close>: a plans body that is not JSON throws, and the payment methods are not read.\<close>

definition fetchData ::
  "plans_data fetched \<Rightarrow> (string \<times> string) list option fetched \<Rightarrow> pricing \<Rightarrow> pricing" where
  "fetchData plans methods s =
     (if plans = BadBody then s
      else
        let s1 = (case plans of Body True d \<Rightarrow> take_plans d s | _ \<Rightarrow> s)
        in case methods of Body True (Some ms) \<Rightarrow> s1\<lparr>paymentMethods := ms\<rparr> | _ \<Rightarrow> s1)\<lparr>pricing_loading := False\<rparr>"

text \<open>The effect over the plans and the selection.\<close>

definition auto_select :: "pricing \<Rightarrow> pricing" where
  "auto_select s =
     (if selectedPlan s = None \<or> selectedPlan s = Some [] then
        (case find pp_popular (pr_plans s) of Some p \<Rightarrow> s\<lparr>selectedPlan := Some (pp_planId p)\<rparr> | None \<Rightarrow> s)
      else s)"

datatype pricing_event =
    SetAnnual bool
  | SelectPlan string
  | HoverPlan "string option"
  | CallToAction pricing_plan
  | PricesFetched "plans_data fetched" "(string \<times> string) list option fetched"

definition cta_target :: "pricing_plan \<Rightarrow> string" where
  "cta_target p =
     (let t = map to_lower (pp_cta p)
      in if str_includes t ''contact'' \<or> str_includes t ''sales'' then ''/contact-sales?plan='' @ encode_uri (pp_name p)
         else ''/register'')"

fun pricing_handle :: "pricing \<Rightarrow> pricing_event \<Rightarrow> pricing" where
  "pricing_handle s (SetAnnual b) = s\<lparr>annual := b\<rparr>"
| "pricing_handle s (SelectPlan i) = s\<lparr>selectedPlan := Some i\<rparr>"
| "pricing_handle s (HoverPlan h) = s\<lparr>hoveredPlan := h\<rparr>"
| "pricing_handle s (CallToAction p) = s\<lparr>pr_location := Some (cta_target p)\<rparr>"
| "pricing_handle s (PricesFetched ps ms) = fetchData ps ms s"

definition pricing_step :: "pricing \<Rightarrow> pricing_event \<Rightarrow> pricing" where
  "pricing_step s e = auto_select (pricing_handle s e)"

definition pricing_mount :: pricing where
  "pricing_mount = auto_select \<lparr>annual = False, pr_plans = PRICING_PLANS, selectedPlan = None, hoveredPlan = None,
     paymentMethods = [], pricing_loading = True, pr_location = None\<rparr>"

section \<open>The comparison\<close>

text \<open>The patterns: a substring, or \<open>/cost.*track/\<close>, where the dot matches no line terminator.\<close>

datatype pattern = Contains string | CostTrack

fun seek_track :: "string \<Rightarrow> bool" where
  "seek_track [] = False"
| "seek_track (c # cs) = (prefix ''track'' (c # cs) \<or> (c \<noteq> CHR 0x0A \<and> c \<noteq> CHR 0x0D \<and> seek_track cs))"

fun seek_cost :: "string \<Rightarrow> bool" where
  "seek_cost [] = False"
| "seek_cost (c # cs) = ((prefix ''cost'' (c # cs) \<and> seek_track (drop 3 cs)) \<or> seek_cost cs)"

fun matches_text :: "pattern \<Rightarrow> string \<Rightarrow> bool" where
  "matches_text (Contains t) f = str_includes f t"
| "matches_text CostTrack f = seek_cost f"

datatype feature_cell = Shown string | Has bool

definition FEATURE_CATEGORIES :: "(string \<times> pattern \<times> bool) list" where
  "FEATURE_CATEGORIES =
     [(''Monthly SMS'', Contains ''SMS/month'', True), (''Daily SMS'', Contains ''daily SMS'', True),
      (''Devices'', Contains ''device connection'', True), (''Routing'', Contains ''routing'', True),
      (''Analytics'', Contains ''analytics'', True), (''Support'', Contains ''support'', True),
      (''Device Pool'', Contains ''device pool'', True), (''Webhooks'', Contains ''webhook'', False),
      (''OTP System'', Contains ''OTP'', False), (''Cost Tracking'', CostTrack, False),
      (''Integrations'', Contains ''integration'', False), (''API Access'', Contains ''API access'', False)]"

definition plan_features :: "pricing_plan \<Rightarrow> string list" where
  "plan_features p = (case pp_features p of None \<Rightarrow> [] | Some fs \<Rightarrow> fs)"

definition plan_cell :: "string \<times> pattern \<times> bool \<Rightarrow> pricing_plan \<Rightarrow> feature_cell" where
  "plan_cell cat p =
     (case cat of (label, pat, value) \<Rightarrow>
        (let feature = find (matches_text pat) (plan_features p)
         in if value then Shown (case feature of None \<Rightarrow> ''--'' | Some f \<Rightarrow> f) else Has (feature \<noteq> None)))"

definition cell_node :: "feature_cell \<Rightarrow> 'e vnode" where
  "cell_node c = (case c of Has True \<Rightarrow> span [El ''svg'' [] [] []] | Has False \<Rightarrow> span [Txt ''--''] | Shown t \<Rightarrow> span [Txt t])"

definition FeatureComparisonTable :: "pricing_plan list \<Rightarrow> pricing_event vnode" where
  "FeatureComparisonTable plans =
     (let popular = (\<lambda>p. when_do (pp_popular p) [span [Txt ''Popular'']])
      in box
       [box [El ''h3'' [] [] [Txt ''Compare all features''], El ''p'' [] [] [Txt ''See what each plan includes at a glance'']],
        box [El ''table'' [] []
          [El ''thead'' [] [] [El ''tr'' [] [] (El ''th'' [] [] [Txt ''Feature''] #
             map (\<lambda>p. El ''th'' [] [On ''mouseenter'' (HoverPlan (Some (pp_planId p))), On ''mouseleave'' (HoverPlan None),
                        On ''focus'' (HoverPlan (Some (pp_planId p))), On ''blur'' (HoverPlan None)] (Txt (pp_name p) # popular p)) plans)],
           El ''tbody'' [] [] (map (\<lambda>cat. El ''tr'' [] [] (El ''td'' [] [] [Txt (fst cat)] #
             map (\<lambda>p. El ''td'' [] [] [cell_node (plan_cell cat p)]) plans)) FEATURE_CATEGORIES)]],
        box (map (\<lambda>p. box [box (span [Txt (pp_name p)] # popular p),
          box (map (\<lambda>cat. box [span [Txt (fst cat)], cell_node (plan_cell cat p)]) FEATURE_CATEGORIES)]) plans)])"

section \<open>View\<close>

definition StatCard :: "string \<Rightarrow> string \<Rightarrow> 'e vnode" where
  "StatCard label v = box [box [El ''svg'' [] [] [], span [Txt label]], El ''p'' [] [] [Txt v]]"

definition PricingSkeleton :: "'e vnode" where
  "PricingSkeleton = box (replicate 4 (box (replicate 4 (box []) @ [box (replicate 5 (box []))])))"

definition opt_text :: "('a \<Rightarrow> string) \<Rightarrow> 'a option \<Rightarrow> string" where
  "opt_text f v = (case v of None \<Rightarrow> ''--'' | Some x \<Rightarrow> f x)"

definition price_text :: "(rat \<Rightarrow> string) \<Rightarrow> bool \<Rightarrow> pricing_plan \<Rightarrow> string" where
  "price_text show_num yearly p =
     (if pp_monthly p = 0 then ''Free'' else CHR ''$'' # show_num (if yearly then pp_yearly p else pp_monthly p))"

definition sms_price :: "(rat \<Rightarrow> string) \<Rightarrow> pricing_plan \<Rightarrow> string" where
  "sms_price show_fixed p =
     (let v = (case pp_perSms p of None \<Rightarrow> 0 | Some r \<Rightarrow> r) in if v = 0 then ''Free'' else CHR ''$'' # show_fixed v)"

definition plan_card :: "(rat \<Rightarrow> string) \<Rightarrow> (rat \<Rightarrow> string) \<Rightarrow> pricing \<Rightarrow> pricing_plan \<Rightarrow> pricing_event vnode" where
  "plan_card show_num show_fixed s p =
     (let chosen = (selectedPlan s = Some (pp_planId p)); i = pp_planId p
      in El ''div'' [(''role'', ''button'')]
           [On ''click'' (SelectPlan i), On ''keydown:Enter'' (SelectPlan i), On ''keydown: '' (SelectPlan i),
            On ''mouseenter'' (HoverPlan (Some i)), On ''mouseleave'' (HoverPlan None)]
           (when_do (chosen \<or> pp_popular p) [box []] @
            [box (when_do (pp_popular p) [box [span [El ''svg'' [] [] [], Txt ''Most Popular'']]] @
               when_do (chosen \<and> \<not> pp_popular p) [box [span [Txt ''Selected'']]] @
               [El ''h3'' [] [] [Txt (pp_name p)], El ''p'' [] [] [Txt (pp_description p)],
                box (span [Txt (price_text show_num (annual s) p)] #
                     when_do (pp_monthly p > 0) [span [Txt (''/'' @ (if annual s then ''year'' else ''mo''))]]),
                box [StatCard ''SMS/mo'' (opt_text formatQuota (pp_quota p)), StatCard ''Daily'' (opt_text formatQuota (pp_daily p)),
                     StatCard ''Devices'' (opt_text show_int (pp_devices p)), StatCard ''Per SMS'' (sms_price show_fixed p)],
                El ''ul'' [] [] (map (\<lambda>f. El ''li'' [] [] [El ''svg'' [] [] [], span [Txt f]]) (plan_features p)),
                El ''button'' [] [On ''click'' (CallToAction p)] [Txt (pp_cta p), El ''svg'' [] [] []]])]))"

definition pricing_view :: "(rat \<Rightarrow> string) \<Rightarrow> (rat \<Rightarrow> string) \<Rightarrow> pricing \<Rightarrow> pricing_event vnode" where
  "pricing_view show_num show_fixed s =
     El ''section'' [(''id'', ''pricing'')] []
       [box ([box [span [Txt ''Pricing''], El ''h2'' [] [] [Txt ''Simple, transparent '', span [Txt ''pricing'']],
               El ''p'' [] [] [Txt ''Start free. Scale as you grow. No hidden fees.''],
               box [El ''button'' [] [On ''click'' (SetAnnual False)] [Txt ''Monthly''],
                    El ''button'' [] [On ''click'' (SetAnnual True)] [Txt ''Yearly '', span [Txt ''Save 2 months'']]]],
             if pricing_loading s then PricingSkeleton else box (map (plan_card show_num show_fixed s) (pr_plans s))] @
            when_do (\<not> pricing_loading s \<and> pr_plans s \<noteq> []) [box [FeatureComparisonTable (pr_plans s)]] @
            when_do (paymentMethods s \<noteq> [])
              [box [El ''p'' [] [] [Txt ''Accepted payment methods''],
                 box (map (\<lambda>(m, l). span [El ''svg'' [] [] [], Txt l]) (paymentMethods s))]] @
            [box [El ''p'' [] [] [Txt ''Owned by '', span [Txt ''AeroXe Enterprise Pvt. Ltd.'']]]])]"

section \<open>Quotas\<close>

text \<open>
  A quota of thousands is printed to the nearest thousand, halves up, so within 500 of its value; but
  one that rounds up to a million is printed as a thousand thousands, \<open>1000K\<close> for everything from 999500 on,
  where the next number is printed as \<open>1M\<close>.
\<close>

theorem quotas_round_to_thousands:
  assumes "1000 \<le> n" and "n < 1000000"
  shows "\<exists>k. formatQuota n = show_int k @ ''K'' \<and> \<bar>1000 * k - n\<bar> \<le> 500 \<and> 1 \<le> k \<and> k \<le> 1000
      \<and> (k = 1000 \<longleftrightarrow> 999500 \<le> n) \<and> formatQuota 1000000 = ''1M''"
proof (intro exI conjI)
  define k m where "k = (n + 500) div 1000" and "m = (n + 500) mod 1000"
  have n: "n + 500 = 1000 * k + m" "0 \<le> m" "m < 1000" unfolding k_def m_def by simp_all
  show "formatQuota n = show_int k @ ''K''" using assms by (simp add: formatQuota_def k_def)
  show "\<bar>1000 * k - n\<bar> \<le> 500" using n by arith
  show "1 \<le> k" "k \<le> 1000" using assms n by linarith+
  show "k = 1000 \<longleftrightarrow> 999500 \<le> n" using assms n by linarith
  have "show_int 1 = ''1''" by code_simp
  then show "formatQuota 1000000 = ''1M''" by (simp add: formatQuota_def)
qed

theorem quotas_round_to_thousands_witness:
  "formatQuota 999500 = ''1000K'' \<and> (\<exists>k. formatQuota 999500 = show_int k @ ''K'' \<and> 1 \<le> k)"
proof -
  have "show_int 1000 = ''1000''" by code_simp
  then have "formatQuota 999500 = ''1000K''" by (simp add: formatQuota_def)
  with quotas_round_to_thousands [of 999500] show ?thesis by auto
qed

section \<open>The plans on show\<close>

text \<open>Which plans the page takes over, in which order, and where each one's tier comes from.\<close>

lemma map_plans_nth:
  "k < length ps \<Longrightarrow> map_plans ps ! k = mapApiPlanToPricing (ps ! k) k (length ps)"
  by (simp add: map_plans_def)

lemma map_plans_simps [simp]:
  "length (map_plans ps) = length ps" "map_plans ps = [] \<longleftrightarrow> ps = []"
  by (auto simp: map_plans_def)

lemma map_plans_ids: "map pp_planId (map_plans ps) = map ap_id ps"
  by (rule nth_equalityI) (simp_all add: map_plans_nth mapApiPlanToPricing_def Let_def)

lemma filter_by_key:
  "map f xs = map f' ys \<Longrightarrow> map g xs = map g' ys \<Longrightarrow>
   map f (filter (\<lambda>x. g x = q) xs) = map f' (filter (\<lambda>y. g' y = q) ys)"
proof (induction xs arbitrary: ys)
  case (Cons x xs)
  then show ?case by (cases ys) auto
qed simp

lemma mapped_price:
  "ap_price p = Given q \<Longrightarrow> pp_monthly (mapApiPlanToPricing p i n) = q"
  by (simp add: mapApiPlanToPricing_def given_def Let_def)



section \<open>The selected plan\<close>

fun last_pick :: "string \<Rightarrow> pricing_event list \<Rightarrow> string" where
  "last_pick i [] = i"
| "last_pick i (SelectPlan j # es) = last_pick j es"
| "last_pick i (e # es) = last_pick i es"

lemma auto_select_kept: "selectedPlan s = Some i \<Longrightarrow> i \<noteq> [] \<Longrightarrow> auto_select s = s"
  by (simp add: auto_select_def)

lemma fetch_keeps_selection: "selectedPlan (fetchData ps ms s) = selectedPlan s"
  by (simp add: fetchData_def take_plans_def Let_def split: fetched.split option.split bool.split)

text \<open>
  The plan the API marks as popular is never selected for the visitor: the built-in one is, when the
  page mounts, and from then on the selected plan is the one picked last (plans have non-empty ids), or
  still \<open>scale\<close>, whichever plans and popular marks the answers bring.
\<close>

theorem selection_ignores_the_api:
  assumes "SelectPlan [] \<notin> set es"
  shows "selectedPlan (foldl pricing_step pricing_mount es) = Some (last_pick ''scale'' es)"
proof -
  have "selectedPlan (foldl pricing_step s es) = Some (last_pick i es)"
    if "selectedPlan s = Some i" "i \<noteq> []" "SelectPlan [] \<notin> set es" for s i es
    using that
  proof (induction es arbitrary: s i)
    case (Cons e es)
    obtain j where j: "selectedPlan (pricing_step s e) = Some j" "j \<noteq> []" "last_pick i (e # es) = last_pick j es"
      using Cons.prems by (cases e) (auto simp: pricing_step_def auto_select_kept fetch_keeps_selection)
    then show ?case using Cons.IH [OF j(1,2)] Cons.prems(3) by simp
  qed simp
  moreover have "selectedPlan pricing_mount = Some ''scale''"
    by (simp add: pricing_mount_def auto_select_def PRICING_PLANS_def fallback_plan_def)
  ultimately show ?thesis using assms by blast
qed

theorem selection_ignores_the_api_witness:
  "selectedPlan (foldl pricing_step pricing_mount [SetAnnual True, SelectPlan ''pro'', PricesFetched NotOk Unreached]) = Some ''pro''"
  using selection_ignores_the_api [of "[SetAnnual True, SelectPlan ''pro'', PricesFetched NotOk Unreached]"] by simp

section \<open>The comparison of generated features\<close>

lemma includes_skip:
  "d \<notin> set pre \<Longrightarrow> str_includes (pre @ post) (d # ds) = str_includes post (d # ds)"
  by (induction pre) auto

lemma show_int_chars: "c \<in> set (show_int n) \<Longrightarrow> is_digit c \<or> c = CHR ''-''"
  using show_nat_digits [of "nat n"] show_nat_digits [of "nat (- n)"]
  by (auto simp: show_int_def list_all_iff split: if_splits)

lemma quota_chars: "c \<in> set (formatQuota n) \<Longrightarrow> is_digit c \<or> c \<in> set ''-KM''"
  using show_int_chars by (auto simp: formatQuota_def split: if_splits)

lemma no_letter: "is_digit d \<or> d \<in> set ''-KM'' \<Longrightarrow> d \<notin> set ''SdraswocDOiA''"
  by (auto simp: is_digit_def char_code_def)

lemma quota_skip:
  "d \<in> set ''SdraswocDOiA'' \<Longrightarrow> str_includes (formatQuota n @ post) (d # ds) = str_includes post (d # ds)"
  using quota_chars no_letter by (intro includes_skip) blast

lemma devices_skip:
  "d \<in> set ''SdraswocDOiA'' \<Longrightarrow> str_includes (show_int n @ post) (d # ds) = str_includes post (d # ds)"
  using show_int_chars no_letter by (intro includes_skip) fastforce

lemma seek_cost_skip: "CHR ''c'' \<notin> set pre \<Longrightarrow> seek_cost (pre @ post) = seek_cost post"
proof (induction pre)
  case (Cons c pre)
  then have "\<not> prefix ''cost'' (c # pre @ post)" by (auto simp: prefix_def)
  with Cons show ?case by simp
qed simp

lemma quota_cost: "seek_cost (formatQuota n @ post) = seek_cost post" "seek_cost (show_int n @ post) = seek_cost post"
  using quota_chars no_letter show_int_chars by (intro seek_cost_skip, fastforce)+

text \<open>Which rows of the table a feature matches.\<close>

definition row_matches :: "string \<Rightarrow> bool list" where
  "row_matches f = map (\<lambda>cat. matches_text (fst (snd cat)) f) FEATURE_CATEGORIES"

lemma row_matches_simps:
  "row_matches f = [str_includes f ''SMS/month'', str_includes f ''daily SMS'', str_includes f ''device connection'',
     str_includes f ''routing'', str_includes f ''analytics'', str_includes f ''support'', str_includes f ''device pool'',
     str_includes f ''webhook'', str_includes f ''OTP'', seek_cost f, str_includes f ''integration'', str_includes f ''API access'']"
  by (simp add: row_matches_def FEATURE_CATEGORIES_def)

definition only_row :: "nat \<Rightarrow> bool list" where
  "only_row k = (replicate 12 False)[k := True]"

lemma generated_rows:
  "row_matches (formatQuota n @ '' SMS/month'') = only_row 0"
  "row_matches (formatQuota n @ '' daily SMS'') = only_row 1"
  "row_matches (device_line d) = only_row 2"
  "s \<in> fst ` set routing_names \<Longrightarrow> row_matches (formatRoutingStrategy s) = only_row 3"
  "row_matches (analytics_level i) = only_row 4"
  "row_matches (support_level i) = only_row 5"
  "row_matches (pool_line b) = only_row 6"
  "row_matches ''Custom webhooks'' = only_row 7"
  "row_matches ''OTP system'' = only_row 8"
  "row_matches ''Cost & profit tracking'' = replicate 12 False"
  "row_matches ''Custom integrations'' = only_row 10"
  "row_matches ''API access'' = only_row 11"
proof -
  show "row_matches (formatQuota n @ '' SMS/month'') = only_row 0" "row_matches (formatQuota n @ '' daily SMS'') = only_row 1"
    unfolding row_matches_simps by (simp_all add: quota_skip quota_cost only_row_def numeral_eq_Suc)
  have "str_includes (show_int d @ x) (c # cs) = str_includes x (c # cs)" if "c \<in> set ''SdraswocDOiA''" for c cs x
    using that by (rule devices_skip)
  then show "row_matches (device_line d) = only_row 2"
    unfolding row_matches_simps device_line_def by (auto simp: quota_cost only_row_def numeral_eq_Suc)
  show "row_matches (formatRoutingStrategy s) = only_row 3" if "s \<in> fst ` set routing_names"
  proof -
    have "list_all (\<lambda>s. row_matches (formatRoutingStrategy s) = only_row 3) (map fst routing_names)" by code_simp
    then show ?thesis using that by (auto simp: list_all_iff)
  qed
  have "row_matches ''Basic analytics'' = only_row 4" "row_matches ''Advanced analytics'' = only_row 4"
    "row_matches ''Full analytics suite'' = only_row 4" by code_simp+
  then show "row_matches (analytics_level i) = only_row 4" by (simp add: analytics_level_def)
  have "row_matches ''Community support'' = only_row 5" "row_matches ''Priority support'' = only_row 5"
    "row_matches ''Dedicated support'' = only_row 5" "row_matches ''Dedicated support & custom SLA'' = only_row 5" by code_simp+
  then show "row_matches (support_level i) = only_row 5" by (simp add: support_level_def)
  have "row_matches ''Dedicated device pool'' = only_row 6" "row_matches ''Shared device pool'' = only_row 6" by code_simp+
  then show "row_matches (pool_line b) = only_row 6" by (simp add: pool_line_def)
  show "row_matches ''Custom webhooks'' = only_row 7" "row_matches ''OTP system'' = only_row 8"
    "row_matches ''Cost & profit tracking'' = replicate 12 False" "row_matches ''Custom integrations'' = only_row 10"
    "row_matches ''API access'' = only_row 11" by code_simp+
qed

lemma row_patterns:
  assumes "row_matches x = only_row k" and "k < 12"
  shows "str_includes x ''SMS/month'' = (k = 0)" "str_includes x ''daily SMS'' = (k = 1)"
    "str_includes x ''device connection'' = (k = 2)" "str_includes x ''routing'' = (k = 3)"
    "str_includes x ''analytics'' = (k = 4)" "str_includes x ''support'' = (k = 5)"
    "str_includes x ''device pool'' = (k = 6)" "str_includes x ''webhook'' = (k = 7)"
    "str_includes x ''OTP'' = (k = 8)" "seek_cost x = (k = 9)"
    "str_includes x ''integration'' = (k = 10)" "str_includes x ''API access'' = (k = 11)"
  using assms unfolding row_matches_simps only_row_def by (auto simp: numeral_eq_Suc less_Suc_eq)

definition paid :: "api_plan \<Rightarrow> bool" where
  "paid p \<longleftrightarrow> price_of (ap_price p) > 0"


definition sample_plan :: api_plan where
  "sample_plan = \<lparr>ap_id = ''max'', ap_name = ''Max'', ap_price = Given 10, ap_daily = 1, ap_monthly = 1, ap_perSms = 0,
     ap_devices = 2, ap_strategy = ''geo_affinity'', ap_pool = True, ap_popular = Missing, ap_cta = [], ap_features = None\<rparr>"


end
