(* ===== verification/ContactSales.thy ===== *)
theory ContactSales
  imports UiKit Uri Json
begin

text \<open>
  The contact page of the landing site (\<open>landing/pages/ContactSalesPage.tsx\<close>): a form sent to the public API,
  and after a success a timer that opens the visitor's mail program on a text built from the form.
\<close>

section \<open>State\<close>

record contact_form =
  cf_name :: string
  cf_email :: string
  cf_company :: string
  cf_phone :: string
  cf_plan :: string
  cf_message :: string

text \<open>How the request ends: accepted, refused with a body (if it is JSON), or not at all.\<close>

datatype contact_answer = Accepted | Refused "jsval option" | Failed js_error

record contact_page =
  submitted :: bool
  submitting :: bool
  formError :: string
  form :: contact_form
  cs_calls :: "jsval list"
  cs_timer :: "string option"
  cs_location :: "string option"

datatype contact_event =
    TypeField string string
  | DismissContact
  | SubmitContact
  | ContactSettles jsval contact_answer
  | MailTimer

definition contact_initial :: contact_page where
  "contact_initial = \<lparr>submitted = False, submitting = False, formError = [],
     form = \<lparr>cf_name = [], cf_email = [], cf_company = [], cf_phone = [], cf_plan = [], cf_message = []\<rparr>,
     cs_calls = [], cs_timer = None, cs_location = None\<rparr>"

section \<open>Handlers\<close>

definition set_field :: "string \<Rightarrow> string \<Rightarrow> contact_form \<Rightarrow> contact_form" where
  "set_field k v f =
     (if k = ''name'' then f\<lparr>cf_name := v\<rparr> else if k = ''email'' then f\<lparr>cf_email := v\<rparr>
      else if k = ''company'' then f\<lparr>cf_company := v\<rparr> else if k = ''phone'' then f\<lparr>cf_phone := v\<rparr>
      else if k = ''plan'' then f\<lparr>cf_plan := v\<rparr> else if k = ''message'' then f\<lparr>cf_message := v\<rparr> else f)"

definition updateField :: "string \<Rightarrow> string \<Rightarrow> contact_page \<Rightarrow> contact_page" where
  "updateField k v s = s\<lparr>form := set_field k v (form s), formError := []\<rparr>"

definition contact_body :: "contact_form \<Rightarrow> jsval" where
  "contact_body f = JObj [(''name'', JStr (cf_name f)), (''email'', JStr (cf_email f)), (''company'', JStr (cf_company f)),
     (''phone'', JStr (cf_phone f)), (''plan'', JStr (cf_plan f)), (''message'', JStr (cf_message f))]"

definition submit_contact :: "contact_page \<Rightarrow> contact_page" where
  "submit_contact s =
     (if submitting s then s else s\<lparr>submitting := True, cs_calls := cs_calls s @ [contact_body (form s)]\<rparr>)"

text \<open>
  The message of a failure: \<open>data.error || 'Submission failed'\<close> of a refusal, whose body is \<open>{}\<close> when it
  is not JSON.
\<close>

definition refusal_message :: "jsval option \<Rightarrow> string" where
  "refusal_message b =
     (case js_get (case b of None \<Rightarrow> JObj [] | Some d \<Rightarrow> d) ''error'' of
        Inl e \<Rightarrow> err_message e
      | Inr v \<Rightarrow> if truthy v then to_str v else ''Submission failed'')"

definition newline :: string where
  "newline = [CHR 0x0A]"

definition mail_subject :: "contact_form \<Rightarrow> string" where
  "mail_subject f = ''Sales Inquiry - '' @ (if cf_company f = [] then cf_name f else cf_company f)"

definition mail_body :: "contact_form \<Rightarrow> string" where
  "mail_body f =
     ''Hi AeroXe Bee Sales Team,'' @ newline @ newline @ ''Name: '' @ cf_name f @ newline @ ''Company: '' @ cf_company f @ newline @
     ''Email: '' @ cf_email f @ newline @ ''Phone: '' @ cf_phone f @ newline @ ''Interested Plan: '' @ cf_plan f @ newline @ newline @
     ''Message:'' @ newline @ cf_message f"

definition mail_address :: "contact_form \<Rightarrow> string" where
  "mail_address f =
     ''mailto:sales@aeroxbee.com?subject='' @ encode_uri (mail_subject f) @ ''&body='' @ encode_uri (mail_body f)"

text \<open>The request settles; once \<open>submitted\<close> is set the effect starts its timer over the form of that rendering.\<close>

definition contact_settles :: "contact_answer \<Rightarrow> contact_page \<Rightarrow> contact_page" where
  "contact_settles r s =
     (case r of
        Accepted \<Rightarrow> s\<lparr>submitted := True, cs_timer := (if submitted s then cs_timer s else Some (mail_address (form s)))\<rparr>
      | Refused b \<Rightarrow> s\<lparr>formError := refusal_message b\<rparr>
      | Failed e \<Rightarrow> s\<lparr>formError := err_message e\<rparr>)\<lparr>submitting := False\<rparr>"

fun contact_step :: "contact_page \<Rightarrow> contact_event \<Rightarrow> contact_page" where
  "contact_step s (TypeField k v) = updateField k v s"
| "contact_step s DismissContact = s\<lparr>formError := []\<rparr>"
| "contact_step s SubmitContact = submit_contact s"
| "contact_step s (ContactSettles b r) =
     (if b \<in> set (cs_calls s) then contact_settles r (s\<lparr>cs_calls := remove1 b (cs_calls s)\<rparr>) else s)"
| "contact_step s MailTimer =
     (case cs_timer s of None \<Rightarrow> s | Some a \<Rightarrow> s\<lparr>cs_timer := None, cs_location := Some a\<rparr>)"

section \<open>View\<close>

definition REASONS :: "(string \<times> string) list" where
  "REASONS = [(''Volume Pricing'', ''Custom pricing for high-volume SMS needs''),
     (''Enterprise Security'', ''Dedicated infrastructure and SLA guarantees''),
     (''Self-Hosting'', ''On-premise deployment options''), (''Team Onboarding'', ''Dedicated support for team setup'')]"

definition CONTACT_INFO :: "(string \<times> string \<times> string option) list" where
  "CONTACT_INFO = [(''Email'', ''sales@aeroxbee.com'', Some ''mailto:sales@aeroxbee.com''),
     (''Phone'', ''+91 70206 68210'', Some ''tel:+917020668210''), (''Office'', ''Jalgaon, Maharashtra, India'', None),
     (''Response Time'', ''Within 24 hours'', None)]"

definition contact_header :: "'e vnode" where
  "contact_header =
     El ''header'' [] []
       [box [El ''a'' [(''href'', ''/'')] [] [El ''svg'' [] [] [], Txt ''Back to home''],
             El ''a'' [(''href'', ''/'')] [] [box [El ''svg'' [] [] []], span [Txt ''AeroXe Bee'']],
             El ''a'' [(''href'', ''/login'')] [] [Txt ''Log in'']]]"

definition contact_hero :: "'e vnode" where
  "contact_hero =
     El ''section'' [] []
       [box [], box [], box [box [span [Txt ''Contact Sales''], El ''h1'' [] [] [Txt ''Let's talk about '', span [Txt ''your needs'']],
          El ''p'' [] [] [Txt ''Whether you need custom pricing, enterprise security, self-hosting options, or help scaling to millions of messages -- our team is here.'']]]]"

definition reasons_section :: "'e vnode" where
  "reasons_section =
     El ''section'' [] [] [box [box (map (\<lambda>(l, d). box [El ''svg'' [] [] [], El ''h3'' [] [] [Txt l], El ''p'' [] [] [Txt d]]) REASONS)]]"

definition contact_input :: "string \<Rightarrow> string \<Rightarrow> string \<Rightarrow> bool \<Rightarrow> string \<Rightarrow> contact_event vnode" where
  "contact_input k label kind must v =
     box [El ''label'' [(''for'', ''cs-'' @ k)] [] (Txt label # when_do must [span [Txt ''*'']]),
          El ''input'' ([(''id'', ''cs-'' @ k), (''type'', kind), (''value'', v)] @ flag ''required'' must)
            [OnText ''change'' (TypeField k)] []]"

definition plan_options :: "(string \<times> string) list" where
  "plan_options = [([], ''Select a plan...''), (''Scale'', ''Scale -- $99.99/mo''), (''Enterprise'', ''Enterprise -- $299.99/mo''),
     (''Custom'', ''Custom / Self-hosted''), (''Not sure'', ''Not sure yet'')]"

definition form_kids :: "contact_page \<Rightarrow> contact_event vnode list" where
  "form_kids s =
     when_do (formError s \<noteq> [])
       [box [Txt (formError s), El ''button'' [(''type'', ''button'')] [On ''click'' DismissContact] [Txt ''Dismiss'']]] @
     [box [contact_input ''name'' ''Full Name'' ''text'' True (cf_name (form s)),
           contact_input ''email'' ''Work Email'' ''email'' True (cf_email (form s))],
      box [contact_input ''company'' ''Company'' ''text'' False (cf_company (form s)),
           contact_input ''phone'' ''Phone Number'' ''tel'' False (cf_phone (form s))],
      box [El ''label'' [(''for'', ''cs-plan'')] [] [Txt ''Which plan are you interested in?''],
        El ''select'' [(''id'', ''cs-plan''), (''value'', cf_plan (form s))] [OnText ''change'' (TypeField ''plan'')]
          (map (\<lambda>(w, l). El ''option'' [(''value'', w)] [] [Txt l]) plan_options)],
      box [El ''label'' [(''for'', ''cs-message'')] [] [Txt ''Tell us about your needs '', span [Txt ''*'']],
        El ''textarea'' [(''id'', ''cs-message''), (''required'', []), (''value'', cf_message (form s))]
          [OnText ''change'' (TypeField ''message'')] []],
      El ''button'' ((''type'', ''submit'') # flag ''disabled'' (submitting s)) []
        (if submitting s then [box []] else [El ''svg'' [] [] [], Txt ''Send Message'']),
      El ''p'' [] [] [Txt ''We'll respond within 24 hours. No spam, ever.'']]"

definition contact_form_box :: "contact_page \<Rightarrow> contact_event vnode" where
  "contact_form_box s =
     box [El ''h2'' [] [] [Txt ''Send us a message''],
          El ''p'' [] [] [Txt ''Fill out the form and our team will get back to you within 24 hours.''],
          if submitted s then
            box [box [El ''svg'' [] [] []], El ''h3'' [] [] [Txt ''Message sent!''],
              El ''p'' [] [] [Txt ''Your inquiry has been recorded and our sales team will reach out within 24 hours. We're also opening your email client for a direct follow-up.''],
              El ''p'' [] [] [Txt ''Opening email client in a few seconds...'']]
          else El ''form'' [] [On ''submit'' SubmitContact] (form_kids s)]"

definition contact_sidebar :: "'e vnode" where
  "contact_sidebar =
     box [box [El ''h3'' [] [] [Txt ''Get in touch''],
            box (map (\<lambda>(l, v, h). box [box [El ''svg'' [] [] []], box [El ''p'' [] [] [Txt l],
              (case h of Some a \<Rightarrow> El ''a'' [(''href'', a)] [] [Txt v] | None \<Rightarrow> El ''p'' [] [] [Txt v])]]) CONTACT_INFO)],
          box [El ''svg'' [] [] [], El ''h3'' [] [] [Txt ''Prefer email?''],
            El ''p'' [] [] [Txt ''Skip the form and reach out directly. We'll get back to you promptly.''],
            El ''a'' [(''href'', ''mailto:sales@aeroxbee.com?subject=Sales%20Inquiry'')] [] [El ''svg'' [] [] [], Txt ''Email Sales Team'']],
          box [El ''h3'' [] [] [Txt ''What to expect''],
            El ''ul'' [] [] (map (\<lambda>t. El ''li'' [] [] [El ''svg'' [] [] [], Txt t])
              [''Response within 24 hours'', ''Custom pricing tailored to your volume'',
               ''Dedicated onboarding for enterprise'', ''Self-hosting consultation available''])]]"

definition contact_view :: "contact_page \<Rightarrow> contact_event vnode" where
  "contact_view s =
     box [contact_header, contact_hero, reasons_section,
       El ''section'' [] [] [box [], box [box [box [contact_form_box s], box [contact_sidebar]]]]]"

section \<open>What the form promises\<close>

lemma contact_static [simp]:
  "\<not> may_fire contact_header e" "\<not> may_fire contact_hero e" "\<not> may_fire reasons_section e" "\<not> may_fire contact_sidebar e"
  by (auto simp: contact_header_def contact_hero_def reasons_section_def contact_sidebar_def list_fire_map split: option.splits)

lemma contact_input_fires [simp]: "may_fire (contact_input k l t r v) e \<longleftrightarrow> (\<exists>x. e = TypeField k x)"
  by (auto simp: contact_input_def)

lemma options_inert:
  "list_all filled (concat (map (nodes \<circ> (\<lambda>(w, l). El ''option'' [(''value'', w)] [] [Txt l])) xs))"
  "\<not> list_ex submit_button (concat (map (nodes \<circ> (\<lambda>(w, l). El ''option'' [(''value'', w)] [] [Txt l])) xs))"
  by (induction xs) (auto simp: long_enough_def)

lemma form_kids_submit:
  "can_submit (form_kids s) \<longleftrightarrow>
     \<not> submitting s \<and> cf_name (form s) \<noteq> [] \<and> cf_email (form s) \<noteq> [] \<and> cf_message (form s) \<noteq> []"
  by (simp add: can_submit_def form_kids_def contact_input_def when_do_def flag_def Let_def long_enough_def options_inert)

lemma contact_fires:
  "may_fire (contact_view s) SubmitContact \<longleftrightarrow> \<not> submitted s \<and> can_submit (form_kids s)"
  "may_fire (contact_view s) (TypeField k v) \<longleftrightarrow>
     \<not> submitted s \<and> k \<in> {''name'', ''email'', ''company'', ''phone'', ''plan'', ''message''}"
  "\<not> may_fire (contact_view s) (ContactSettles b r)" "\<not> may_fire (contact_view s) MailTimer"
  by (auto simp: contact_view_def contact_form_box_def form_kids_def list_fire_map)

fun contact_ambient :: "contact_event \<Rightarrow> bool" where
  "contact_ambient (ContactSettles b r) = True" | "contact_ambient MailTimer = True" | "contact_ambient e = False"

definition contact_possible :: "contact_page \<Rightarrow> contact_event \<Rightarrow> bool" where
  "contact_possible s e \<longleftrightarrow> contact_ambient e \<or> may_fire (contact_view s) e"

definition complete :: "jsval \<Rightarrow> bool" where
  "complete b \<longleftrightarrow> (\<exists>f. b = contact_body f \<and> cf_name f \<noteq> [] \<and> cf_email f \<noteq> [] \<and> cf_message f \<noteq> [])"

definition contact_inv :: "contact_page \<Rightarrow> bool" where
  "contact_inv s \<longleftrightarrow>
     (if submitting s then length (cs_calls s) = 1 \<and> \<not> submitted s else cs_calls s = []) \<and> list_all complete (cs_calls s) \<and>
     (submitted s \<longrightarrow> (cs_timer s = Some (mail_address (form s)) \<and> cs_location s = None
                     \<or> cs_timer s = None \<and> cs_location s = Some (mail_address (form s)))) \<and>
     (\<not> submitted s \<longrightarrow> cs_timer s = None \<and> cs_location s = None)"

lemma contact_settles_inv:
  assumes "contact_inv s" and "b \<in> set (cs_calls s)"
  shows "contact_inv (contact_settles r (s\<lparr>cs_calls := remove1 b (cs_calls s)\<rparr>))"
proof -
  have "cs_calls s = [b]" "\<not> submitted s"
    using assms by (auto simp: contact_inv_def length_Suc_conv split: if_splits)
  then show ?thesis using assms(1) by (cases r) (simp_all add: contact_inv_def contact_settles_def)
qed

interpretation contact: machine contact_step contact_possible contact_inv
proof
  fix s e assume inv: "contact_inv s" and possible: "contact_possible s e"
  show "contact_inv (contact_step s e)"
  proof (cases e)
    case (TypeField k v)
    then show ?thesis using inv possible by (auto simp: contact_possible_def contact_fires contact_inv_def updateField_def)
  next
    case DismissContact
    then show ?thesis using inv by (simp add: contact_inv_def)
  next
    case SubmitContact
    then have "\<not> submitted s" "\<not> submitting s" "complete (contact_body (form s))"
      using possible by (auto simp: contact_possible_def contact_fires form_kids_submit complete_def)
    then show ?thesis using inv SubmitContact by (simp add: contact_inv_def submit_contact_def)
  next
    case (ContactSettles b r)
    then show ?thesis using inv contact_settles_inv by simp
  next
    case MailTimer
    then show ?thesis using inv by (auto simp: contact_inv_def split: option.split)
  qed
qed


definition contact_session :: "contact_event list" where
  "contact_session = [TypeField ''name'' ''Ann'', TypeField ''email'' ''a@b.c'', TypeField ''message'' ''hi'', SubmitContact]"

lemma contact_session_possible:
  "contact.admissible contact_initial contact_session"
  by (simp add: contact_session_def contact_possible_def contact_fires form_kids_submit updateField_def set_field_def contact_initial_def)


text \<open>
  What is mailed can differ from what was sent: the fields can be edited while the request is in
  flight, so that an accepted inquiry is mailed with a message that the server never received.
\<close>

theorem mail_can_differ_from_the_request:
  "\<exists>es b. contact.admissible contact_initial (contact_session @ es) \<and>
     cs_calls (foldl contact_step contact_initial contact_session) = [b] \<and>
     (let s = foldl contact_step contact_initial (contact_session @ es)
      in submitted s \<and> b \<noteq> contact_body (form s) \<and> cs_timer s = Some (mail_address (form s)))"
proof -
  define b where "b = contact_body \<lparr>cf_name = ''Ann'', cf_email = ''a@b.c'', cf_company = [], cf_phone = [], cf_plan = [], cf_message = ''hi''\<rparr>"
  define es where "es = [TypeField ''message'' ''bye'', ContactSettles b Accepted]"
  define s where "s = foldl contact_step contact_initial contact_session"
  have s: "s = contact_initial\<lparr>submitting := True, form := form s, cs_calls := [b]\<rparr>"
    "form s = \<lparr>cf_name = ''Ann'', cf_email = ''a@b.c'', cf_company = [], cf_phone = [], cf_plan = [], cf_message = ''hi''\<rparr>"
    by (simp_all add: s_def contact_session_def submit_contact_def updateField_def contact_initial_def set_field_def b_def)
  have "contact.admissible s es"
    unfolding es_def by (subst s(1), simp add: contact_possible_def contact_fires contact_initial_def)
  then have "contact.admissible contact_initial (contact_session @ es)"
    using contact_session_possible unfolding s_def by (simp add: contact_session_def)
  moreover have "cs_calls s = [b]" by (subst s(1)) simp
  moreover have "foldl contact_step s es = s\<lparr>submitting := False, submitted := True, cs_calls := [],
      form := (form s)\<lparr>cf_message := ''bye''\<rparr>, cs_timer := Some (mail_address ((form s)\<lparr>cf_message := ''bye''\<rparr>))\<rparr>"
    unfolding es_def by (subst (1 2) s(1)) (simp add: updateField_def set_field_def contact_settles_def contact_initial_def)
  ultimately show ?thesis
    by (intro exI [of _ es] exI [of _ b]) (simp add: s_def [symmetric] s(2) b_def contact_body_def Let_def)
qed

end
