(* ===== verification/Catalog.thy ===== *)
theory Catalog
  imports PageParts "HOL-Library.Multiset"
begin

text \<open>
  The catalogue of features (\<open>features/billing/pages/FeatureCatalogPage.tsx\<close>): features grouped by
  category, added, switched on and off and removed; the grouping of a list by a key, which the page of
  the remote configuration uses too; and the entry of the query cache the page shares with the page
  of plans.
\<close>

section \<open>Grouping\<close>

text \<open>
  \<open>reduce\<close> over an object of lists, \<open>acc[key] = acc[key] || []; acc[key].push(item)\<close>: the groups in the order
  in which their keys were first met (no key of the program is a number, which would come first).
\<close>

fun add_to :: "string \<Rightarrow> 'a \<Rightarrow> (string \<times> 'a list) list \<Rightarrow> (string \<times> 'a list) list" where
  "add_to k x [] = [(k, [x])]"
| "add_to k x ((j, xs) # gs) = (if j = k then (j, xs @ [x]) # gs else (j, xs) # add_to k x gs)"

definition group_by :: "('a \<Rightarrow> string) \<Rightarrow> 'a list \<Rightarrow> (string \<times> 'a list) list" where
  "group_by key xs = foldl (\<lambda>gs x. add_to (key x) x gs) [] xs"

lemma add_to_keys: "map fst (add_to k x gs) = (if k \<in> set (map fst gs) then map fst gs else map fst gs @ [k])"
  by (induction k x gs rule: add_to.induct) auto

lemma add_to_items: "mset (concat (map snd (add_to k x gs))) = mset (concat (map snd gs)) + {#x#}"
  by (induction k x gs rule: add_to.induct) (auto simp: union_assoc union_commute)

lemma add_to_group:
  "distinct (map fst gs) \<Longrightarrow> (j, ys) \<in> set (add_to k x gs) \<longleftrightarrow>
     (if j = k then ys = (case map_of gs k of None \<Rightarrow> [] | Some xs \<Rightarrow> xs) @ [x] else (j, ys) \<in> set gs)"
proof (induction k x gs rule: add_to.induct)
  case (2 k x j' xs gs)
  then show ?case by (force split: if_splits option.splits dest: map_of_SomeD simp: image_iff)
qed auto

lemma group_by_snoc: "group_by key (xs @ [x]) = add_to (key x) x (group_by key xs)"
  by (simp add: group_by_def)

lemma group_by_items: "mset (concat (map snd (group_by key xs))) = mset xs"
proof (induction xs rule: rev_induct)
  case Nil show ?case by (simp add: group_by_def)
next
  case (snoc x xs) then show ?case by (simp add: group_by_snoc add_to_items)
qed

lemma group_by_set: "(\<Union>(k, g) \<in> set (group_by key xs). set g) = set xs"
  using arg_cong [OF group_by_items [of key xs], of set_mset] by (simp add: case_prod_unfold)

text \<open>
  Grouping loses nothing and mixes nothing: the groups have distinct keys, each holds exactly the items
  of its key, in their order and at least one, and together they hold the items of the list.
\<close>

theorem groups_partition_the_list:
  "distinct (map fst (group_by key xs))
    \<and> set (map fst (group_by key xs)) = key ` set xs
    \<and> list_all (\<lambda>(k, g). g = filter (\<lambda>x. key x = k) xs) (group_by key xs)
    \<and> mset (concat (map snd (group_by key xs))) = mset xs"
proof (induction xs rule: rev_induct)
  case Nil
  show ?case by (simp add: group_by_def)
next
  case (snoc x xs)
  let ?g = "group_by key xs"
  from snoc have d: "distinct (map fst ?g)" and ks: "set (map fst ?g) = key ` set xs"
    and gs: "\<And>k g. (k, g) \<in> set ?g \<Longrightarrow> g = filter (\<lambda>x. key x = k) xs" and ms: "mset (concat (map snd ?g)) = mset xs"
    by (auto simp: list_all_iff)
  have lookup: "(case map_of ?g (key x) of None \<Rightarrow> [] | Some ys \<Rightarrow> ys) = filter (\<lambda>y. key y = key x) xs"
  proof (cases "map_of ?g (key x)")
    case None
    then have "key x \<notin> key ` set xs" using ks by (metis map_of_eq_None_iff set_map)
    then have "\<forall>y \<in> set xs. key y \<noteq> key x" by (metis imageI)
    then have "filter (\<lambda>y. key y = key x) xs = []" by simp
    with None show ?thesis by simp
  next
    case (Some ys)
    with gs [OF map_of_SomeD [OF Some]] show ?thesis by simp
  qed
  have "g = filter (\<lambda>y. key y = k) (xs @ [x])" if "(k, g) \<in> set (add_to (key x) x ?g)" for k g
    using that gs lookup unfolding add_to_group [OF d] by (auto split: if_splits)
  then have "list_all (\<lambda>(k, g). g = filter (\<lambda>y. key y = k) (xs @ [x])) (add_to (key x) x ?g)"
    by (auto simp: list_all_iff)
  moreover have "distinct (map fst (add_to (key x) x ?g))" "set (map fst (add_to (key x) x ?g)) = key ` set (xs @ [x])"
    using d ks by (auto simp: add_to_keys)
  moreover have "mset (concat (map snd (add_to (key x) x ?g))) = mset (xs @ [x])" by (simp add: add_to_items ms)
  ultimately show ?case unfolding group_by_snoc by blast
qed

section \<open>State\<close>

datatype catalog_call =
    CreateFeature string string
  | ToggleFeature string bool
  | DeleteFeature string

record catalog_page =
  showAddModal :: bool
  newName :: string
  newCategory :: string
  ct_deleteTarget :: "jsval option"
  filterCategory :: string
  ct_error :: string
  ct_query :: query
  ct_calls :: "catalog_call list"
  ct_notes :: "notice list"

datatype catalog_event =
    ShowAdd
  | CloseAdd
  | CancelAdd
  | TypeName string
  | PickCategory string
  | PressEnter
  | AddFeature
  | ToggleItem jsval
  | AskRemove jsval
  | CloseRemove
  | ConfirmRemove
  | FilterBy string
  | CatalogAnswer "js_error + jsval"
  | CatalogSettles catalog_call "js_error + jsval"

definition catalog_initial :: catalog_page where
  "catalog_initial = \<lparr>showAddModal = False, newName = [], newCategory = ''general'', ct_deleteTarget = None,
     filterCategory = ''all'', ct_error = [], ct_query = Loading, ct_calls = [], ct_notes = []\<rparr>"

definition CATEGORIES :: "string list" where
  "CATEGORIES = [''all'', ''quota'', ''devices'', ''routing'', ''analytics'', ''support'', ''infrastructure'', ''integration'', ''general'']"

fun catalog_service :: "catalog_call \<Rightarrow> service" where
  "catalog_service (CreateFeature n c) = createFeatureCatalogItem (JObj [(''name'', JStr n), (''category'', JStr c)])"
| "catalog_service (ToggleFeature i active) = toggleFeatureCatalogItem i active"
| "catalog_service (DeleteFeature i) = deleteFeatureCatalogItem i"

text \<open>\<open>const { data: features = [] }\<close>, the filter and the groups.\<close>

definition features_of :: "query \<Rightarrow> jsval list" where
  "features_of q = (if query_data q = JUndef then [] else items_of (query_data q))"

definition category_of :: "jsval \<Rightarrow> string" where
  "category_of f = to_str (opt_get f ''category'')"

definition catalog_filtered :: "catalog_page \<Rightarrow> jsval list" where
  "catalog_filtered s =
     (if filterCategory s = ''all'' then features_of (ct_query s)
      else filter (\<lambda>f. opt_get f ''category'' = JStr (filterCategory s)) (features_of (ct_query s)))"

definition catalog_grouped :: "catalog_page \<Rightarrow> (string \<times> jsval list) list" where
  "catalog_grouped s = group_by category_of (catalog_filtered s)"

definition is_active :: "jsval \<Rightarrow> bool" where
  "is_active f \<longleftrightarrow> truthy (opt_get f ''active'')"

section \<open>Handlers\<close>

definition ct_send :: "catalog_call \<Rightarrow> catalog_page \<Rightarrow> catalog_page" where
  "ct_send c s = s\<lparr>ct_calls := ct_calls s @ [c]\<rparr>"

definition ct_note :: "notice \<Rightarrow> catalog_page \<Rightarrow> catalog_page" where
  "ct_note n s = s\<lparr>ct_notes := ct_notes s @ [n]\<rparr>"

fun catalog_callback :: "catalog_call \<Rightarrow> js_error + jsval \<Rightarrow> catalog_page \<Rightarrow> catalog_page" where
  "catalog_callback (CreateFeature n c) =
     mutation_settles
       (\<lambda>d s. ct_note (note_ok ''Feature added to catalog'')
         (s\<lparr>showAddModal := False, newName := [], newCategory := ''general'', ct_error := []\<rparr>))
       (\<lambda>e s. (ct_note (note_error e ''Failed to add feature'') s)\<lparr>ct_error := err_message e\<rparr>)"
| "catalog_callback (ToggleFeature i a) =
     mutation_settles (\<lambda>d. ct_note (note_ok ''Feature toggled'')) (\<lambda>e. ct_note (note_error e ''Failed to toggle feature''))"
| "catalog_callback (DeleteFeature i) =
     mutation_settles (\<lambda>d s. ct_note (note_ok ''Feature removed'') (s\<lparr>ct_deleteTarget := None\<rparr>))
       (\<lambda>e. ct_note (note_error e ''Failed to delete feature''))"

definition catalog_settles :: "catalog_call \<Rightarrow> js_error + jsval \<Rightarrow> catalog_page \<Rightarrow> catalog_page" where
  "catalog_settles c r s = (catalog_callback c r s)\<lparr>ct_calls := remove1 c (ct_calls s)\<rparr>"

definition create_feature :: "catalog_page \<Rightarrow> catalog_page" where
  "create_feature s = ct_send (CreateFeature (newName s) (newCategory s)) s"

fun catalog_step :: "catalog_page \<Rightarrow> catalog_event \<Rightarrow> catalog_page" where
  "catalog_step s ShowAdd = s\<lparr>showAddModal := True\<rparr>"
| "catalog_step s CloseAdd = s\<lparr>showAddModal := False, ct_error := []\<rparr>"
| "catalog_step s CancelAdd = s\<lparr>showAddModal := False\<rparr>"
| "catalog_step s (TypeName t) = s\<lparr>newName := t, ct_error := []\<rparr>"
| "catalog_step s (PickCategory c) = s\<lparr>newCategory := c\<rparr>"
| "catalog_step s PressEnter = (if js_trim (newName s) \<noteq> [] then create_feature s else s)"
| "catalog_step s AddFeature = create_feature s"
| "catalog_step s (ToggleItem f) = ct_send (ToggleFeature (row_id f) (\<not> is_active f)) s"
| "catalog_step s (AskRemove f) = s\<lparr>ct_deleteTarget := Some f\<rparr>"
| "catalog_step s CloseRemove = s\<lparr>ct_deleteTarget := None\<rparr>"
| "catalog_step s ConfirmRemove =
     (case ct_deleteTarget s of None \<Rightarrow> s | Some f \<Rightarrow> ct_send (DeleteFeature (row_id f)) s)"
| "catalog_step s (FilterBy c) = s\<lparr>filterCategory := c\<rparr>"
| "catalog_step s (CatalogAnswer r) = s\<lparr>ct_query := query_answered r (ct_query s)\<rparr>"
| "catalog_step s (CatalogSettles c r) = (if c \<in> set (ct_calls s) then catalog_settles c r s else s)"

section \<open>View\<close>

fun creates_feature :: "catalog_call \<Rightarrow> (string \<times> string) option" where
  "creates_feature (CreateFeature n c) = Some (n, c)" | "creates_feature _ = None"
fun deletes_feature :: "catalog_call \<Rightarrow> string option" where
  "deletes_feature (DeleteFeature i) = Some i" | "deletes_feature _ = None"

definition ct_pending :: "(catalog_call \<Rightarrow> 'a option) \<Rightarrow> catalog_page \<Rightarrow> bool" where
  "ct_pending k s \<longleftrightarrow> calls_of k (ct_calls s) \<noteq> []"

definition catalog_stats :: "jsval list \<Rightarrow> 'e vnode" where
  "catalog_stats fs =
     (let stat = (\<lambda>l n. box [span [Txt l], Txt '' '', span [Txt (show_nat n)]])
      in box [stat ''Total:'' (length fs), stat ''Active:'' (length (filter is_active fs)),
              stat ''Inactive:'' (length (filter (\<lambda>f. \<not> is_active f) fs))])"

definition category_buttons :: "jsval list \<Rightarrow> catalog_event vnode" where
  "category_buttons fs =
     box (map (\<lambda>c. El ''button'' [] [On ''click'' (FilterBy c)]
       [Txt (if c = ''all'' then ''All ('' @ show_nat (length fs) @ '')''
             else c @ '' ('' @ show_nat (length (filter (\<lambda>f. opt_get f ''category'' = JStr c) fs)) @ '')'')]) CATEGORIES)"

definition catalog_item :: "jsval \<Rightarrow> catalog_event vnode" where
  "catalog_item f =
     box [box (El ''svg'' [] [] [] # span [Txt (text_of f ''name'')] # when_do (\<not> is_active f) [Badge False [Txt ''Inactive'']]),
          box [Button (button\<lparr>b_on := [On ''click'' (ToggleItem f)], b_rest := [(''title'', if is_active f then ''Deactivate'' else ''Activate'')]\<rparr>)
                 [El ''svg'' [] [] []],
               Button (button\<lparr>b_on := [On ''click'' (AskRemove f)], b_rest := [(''title'', ''Delete'')]\<rparr>) [El ''svg'' [] [] []]]]"

definition catalog_list :: "catalog_page \<Rightarrow> catalog_event vnode" where
  "catalog_list s =
     (if catalog_grouped s = [] then
        EmptyState ''No features in catalog'' (Some ''Add features that admins can quickly assign to any plan.'')
          (Some (small_button False False ShowAdd ''Add first feature''))
      else box (map (\<lambda>(c, items).
        Card False [box [span [Txt c], span [Txt (show_nat (length items) @ '' feature'' @ (if length items \<noteq> 1 then ''s'' else []))]],
                    box (map catalog_item items)]) (catalog_grouped s)))"

definition capitalized :: "string \<Rightarrow> string" where
  "capitalized t = map to_upper (take 1 t) @ drop 1 t"

definition add_modal :: "catalog_page \<Rightarrow> catalog_event vnode list" where
  "add_modal s =
     Modal (showAddModal s) CloseAdd (Some ''Add feature to catalog'') None
       [box (error_box (ct_error s) @
          [Input (input\<lparr>i_label := Some ''Feature name'',
             i_rest := [(''value'', newName s), (''placeholder'', ''e.g. 5K SMS/month, Priority support'')],
             i_on := [OnText ''change'' TypeName, On ''keydown:Enter'' PressEnter]\<rparr>),
           select_box ''Category'' (newCategory s) (map (\<lambda>c. (c, capitalized c)) (filter (\<lambda>c. c \<noteq> ''all'') CATEGORIES)) PickCategory])]
       [small_button False (ct_pending creates_feature s) CancelAdd ''Cancel'',
        small_button (ct_pending creates_feature s) False AddFeature ''Add'']"

definition remove_dialog :: "catalog_page \<Rightarrow> catalog_event vnode list" where
  "remove_dialog s =
     ConfirmDialog (ct_deleteTarget s \<noteq> None) CloseRemove ConfirmRemove ''Delete feature''
       (Some (''Remove \"'' @ (case ct_deleteTarget s of None \<Rightarrow> ''undefined'' | Some f \<Rightarrow> to_str (opt_get f ''name'')) @
          ''\" from the global catalog? This won't affect features already assigned to plans.''))
       ''Confirm'' ''Cancel'' (ct_pending deletes_feature s)"

definition catalog_view :: "catalog_page \<Rightarrow> catalog_event vnode list" where
  "catalog_view s =
     (if ct_query s = Loading then [PageSkeleton]
      else [hero ''Feature Catalog'' ''Manage the global list of features that auto-suggest across all plans''
              [small_button False False ShowAdd ''Add feature''],
            catalog_stats (features_of (ct_query s)), category_buttons (features_of (ct_query s)), catalog_list s] @
           add_modal s @ remove_dialog s)"

section \<open>What the page lets through\<close>

lemma enters:
  "js_trim (newName s) \<noteq> [] \<Longrightarrow> foldl catalog_step s (replicate n PressEnter) =
     s\<lparr>ct_calls := ct_calls s @ replicate n (CreateFeature (newName s) (newCategory s))\<rparr>"
proof (induction n arbitrary: s)
  case (Suc n)
  then show ?case by (simp add: create_feature_def ct_send_def)
qed simp

text \<open>
  The Enter key does not wait: while a creation is in flight the button is disabled, but pressing Enter in
  the name field sends the same creation again, as often as it is pressed; and the button, unlike the
  key, creates a feature without a name.
\<close>

theorem enter_repeats_the_creation:
  assumes "showAddModal s" and "js_trim (newName s) \<noteq> []" and "ct_query s \<noteq> Loading" and "ct_calls s = []"
  shows "let s1 = catalog_step s AddFeature; s2 = foldl catalog_step s1 (replicate n PressEnter)
    in \<not> list_fire (catalog_view s1) AddFeature \<and> list_fire (catalog_view s1) PressEnter \<and>
       ct_calls s2 = replicate (Suc n) (CreateFeature (newName s) (newCategory s)) \<and>
       list_fire (catalog_view (s\<lparr>newName := []\<rparr>)) AddFeature"
proof -
  define s1 where "s1 = catalog_step s AddFeature"
  have s1: "s1 = s\<lparr>ct_calls := [CreateFeature (newName s) (newCategory s)]\<rparr>"
    by (simp add: s1_def create_feature_def ct_send_def assms(4))
  have "foldl catalog_step s1 (replicate n PressEnter) = s\<lparr>ct_calls := replicate (Suc n) (CreateFeature (newName s) (newCategory s))\<rparr>"
    using enters [of s1 n] assms(2) by (simp add: s1)
  then show ?thesis
    unfolding Let_def s1_def [symmetric] using assms
    by (auto simp: s1 catalog_view_def add_modal_def remove_dialog_def catalog_stats_def category_buttons_def catalog_list_def
        catalog_item_def ConfirmDialog_def ct_pending_def error_box_def list_fire_map Let_def)
qed

section \<open>The shared entry of the cache\<close>

text \<open>
  Both pages that use the key \<open>['feature-catalog']\<close>, this one with \<open>getFeatureCatalog\<close> and the page of plans with
  \<open>getActiveFeatureCatalog\<close>, read one entry of the cache. Data is not fetched again while it is
  younger than \<open>staleTime\<close>, thirty seconds in \<open>app/providers.tsx\<close>. The entry holds its data and when
  they came; \<open>items\<close> is what the server has.
\<close>

type_synonym catalog_entry = "(int \<times> jsval list) option"

definition staleTime :: int where
  "staleTime = 30000"

definition visit :: "(jsval list \<Rightarrow> jsval list) \<Rightarrow> int \<Rightarrow> jsval list \<Rightarrow> catalog_entry \<Rightarrow> catalog_entry" where
  "visit fetch now items e =
     (case e of
        Some (t, d) \<Rightarrow> if now - t < staleTime then e else Some (now, fetch items)
      | None \<Rightarrow> Some (now, fetch items))"

definition visit_catalog :: "int \<Rightarrow> jsval list \<Rightarrow> catalog_entry \<Rightarrow> catalog_entry" where
  "visit_catalog = visit (\<lambda>items. items)"

definition visit_plans :: "int \<Rightarrow> jsval list \<Rightarrow> catalog_entry \<Rightarrow> catalog_entry" where
  "visit_plans = visit (filter is_active)"

text \<open>
  The two pages read each other's list: within thirty seconds of a visit to the page of plans that
  fetched, the catalogue shows only the active features and counts none as inactive, whatever the server
  has; within thirty seconds of a visit to the catalogue that fetched, the page of plans suggests the
  deactivated features too. Later visits fetch their own list.
\<close>

theorem pages_share_the_catalogue:
  "(now - t < 30000 \<longrightarrow>
      visit_catalog now items (visit_plans t items None) = Some (t, filter is_active items) \<and>
      filter (\<lambda>f. \<not> is_active f) (filter is_active items) = [] \<and>
      visit_plans now items (visit_catalog t items None) = Some (t, items)) \<and>
    (30000 \<le> now - t \<longrightarrow>
      visit_catalog now items (visit_plans t items None) = Some (now, items) \<and>
      visit_plans now items (visit_catalog t items None) = Some (now, filter is_active items))"
  by (simp add: visit_catalog_def visit_plans_def visit_def staleTime_def)

theorem enter_repeats_the_creation_witness:
  "let s = foldl catalog_step catalog_initial [CatalogAnswer (Inr (JArr [])), ShowAdd, TypeName ''Fax'']
   in ct_calls (foldl catalog_step (catalog_step s AddFeature) [PressEnter, PressEnter]) = replicate 3 (CreateFeature ''Fax'' ''general'')"
proof -
  define s where "s = foldl catalog_step catalog_initial [CatalogAnswer (Inr (JArr [])), ShowAdd, TypeName ''Fax'']"
  have "showAddModal s" "js_trim (newName s) \<noteq> []" "ct_query s \<noteq> Loading" "ct_calls s = []" "newName s = ''Fax''" "newCategory s = ''general''"
    unfolding s_def by code_simp+
  with enter_repeats_the_creation [of s 2] show ?thesis unfolding s_def [symmetric] by (simp add: numeral_eq_Suc Let_def)
qed

theorem pages_share_the_catalogue_witness:
  "visit_catalog 20000 [JObj []] (visit_plans 0 [JObj []] None) = Some (0, [])"
  using pages_share_the_catalogue [of 20000 0 "[JObj []]"] by (simp add: is_active_def opt_get_def obj_get_def)

end
