(* ===== verification/Plans.thy ===== *)
theory Plans
  imports Catalog
begin

text \<open>
  The page of plans (\<open>features/billing/pages/PlansPage.tsx\<close>): cards of the plans, and a form with twelve text
  fields, three choices and a list of features that is edited like tags. \<open>Number\<close> on a text is the
  parameter \<open>num\<close>, \<open>formatNumber\<close> the parameter \<open>fmt\<close>.
\<close>

section \<open>State\<close>

datatype plan_field =
    PlanId | PlanName | DailyQuota | MonthlyQuota | MonthlyPrice | PricePerSms | OverageBuffer | MaxQueueDepth
  | MaxDevices | MaxTemplates | CtaText | RoutingStrategy | Visibility

datatype plan_call = SavePlan "string option" jsval | DeletePlan "string option"

record plans_page =
  pl_showForm :: bool
  pl_editing :: "jsval option"
  pl_deleteTarget :: "jsval option"
  pl_error :: string
  pl_text :: "plan_field \<Rightarrow> string"
  dedicatedPool :: bool
  isPopular :: bool
  featuresList :: "string list"
  featureInput :: string
  pl_query :: query
  pl_catalog :: query
  pl_calls :: "plan_call list"
  pl_notes :: "notice list"

datatype plans_event =
    OpenPlan "jsval option"
  | ClosePlan
  | TypePlan plan_field string
  | SetDedicated bool
  | SetPopular bool
  | TypeFeature string
  | FeatureKey string
  | AddTyped
  | RemoveFeature nat
  | Suggest string
  | SavePlanClick
  | AskDeletePlan jsval
  | CloseDeletePlan
  | ConfirmDeletePlan
  | PlansAnswer "js_error + jsval"
  | PlanCatalogAnswer "js_error + jsval"
  | PlanSettles plan_call "js_error + jsval"

definition blank_texts :: "plan_field \<Rightarrow> string" where
  "blank_texts = (\<lambda>f. [])(RoutingStrategy := ''fastest_delivery'', Visibility := ''public'')"

definition plans_initial :: plans_page where
  "plans_initial = \<lparr>pl_showForm = False, pl_editing = None, pl_deleteTarget = None, pl_error = [], pl_text = blank_texts,
     dedicatedPool = False, isPopular = False, featuresList = [], featureInput = [], pl_query = Loading, pl_catalog = Loading,
     pl_calls = [], pl_notes = []\<rparr>"

text \<open>\<open>suggestions\<close>: the names of the catalogue, or the built-in ones when it is empty.\<close>

definition default_suggestions :: "string list" where
  "default_suggestions = [''5K SMS/month'', ''10K daily SMS'', ''Advanced analytics'', ''Priority support'',
     ''Custom webhooks'', ''OTP system'', ''API access'']"

definition suggestions :: "plans_page \<Rightarrow> string list" where
  "suggestions s =
     (if features_of (pl_catalog s) \<noteq> [] then map (\<lambda>f. text_of f ''name'') (features_of (pl_catalog s))
      else default_suggestions)"

section \<open>Opening and saving the form\<close>

definition plan_keys :: "(plan_field \<times> string) list" where
  "plan_keys = [(DailyQuota, ''daily_quota''), (MonthlyQuota, ''monthly_quota''), (MonthlyPrice, ''monthly_price''),
     (PricePerSms, ''price_per_sms''), (OverageBuffer, ''overage_buffer_pct''), (MaxQueueDepth, ''max_queue_depth''),
     (MaxDevices, ''max_devices''), (MaxTemplates, ''max_templates'')]"

text \<open>\<open>String(plan?.k ?? '')\<close> of a number, and \<open>plan?.k || d\<close> of a text.\<close>

definition number_text :: "jsval \<Rightarrow> string \<Rightarrow> string" where
  "number_text p k = to_str (coalesce (opt_get p k) (JStr []))"

definition text_default :: "jsval \<Rightarrow> string \<Rightarrow> string \<Rightarrow> string" where
  "text_default p k d = to_str (js_or (opt_get p k) (JStr d))"

definition plan_texts :: "jsval \<Rightarrow> plan_field \<Rightarrow> string" where
  "plan_texts p f =
     (case map_of plan_keys f of
        Some k \<Rightarrow> number_text p k
      | None \<Rightarrow>
          (case f of
             PlanId \<Rightarrow> text_default p ''id'' []
           | PlanName \<Rightarrow> text_default p ''name'' []
           | RoutingStrategy \<Rightarrow> text_default p ''default_routing_strategy'' ''fastest_delivery''
           | Visibility \<Rightarrow> text_default p ''visibility'' ''public''
           | _ \<Rightarrow> text_default p ''cta_text'' []))"

definition openForm_plan :: "jsval option \<Rightarrow> plans_page \<Rightarrow> plans_page" where
  "openForm_plan plan s =
     (let p = (case plan of None \<Rightarrow> JUndef | Some v \<Rightarrow> v)
      in s\<lparr>pl_editing := plan, pl_text := plan_texts p, dedicatedPool := truthy (opt_get p ''dedicated_pool''),
           isPopular := truthy (opt_get p ''is_popular''), featuresList := map to_str (items_of (opt_get p ''features'')),
           featureInput := [], pl_error := [], pl_showForm := True\<rparr>)"

definition closeForm_plan :: "plans_page \<Rightarrow> plans_page" where
  "closeForm_plan s = s\<lparr>pl_showForm := False, pl_editing := None, pl_error := []\<rparr>"

text \<open>\<open>Number(text) || d\<close>.\<close>

definition number_or :: "(string \<Rightarrow> jsval) \<Rightarrow> string \<Rightarrow> int \<Rightarrow> jsval" where
  "number_or num t d = js_or (num t) (JNum d)"

definition plan_payload :: "(string \<Rightarrow> jsval) \<Rightarrow> plans_page \<Rightarrow> jsval" where
  "plan_payload num s =
     (let t = pl_text s
      in JObj [(''id'', JStr (t PlanId)), (''name'', JStr (t PlanName)), (''visibility'', JStr (t Visibility)),
        (''daily_quota'', number_or num (t DailyQuota) 0), (''monthly_quota'', number_or num (t MonthlyQuota) 0),
        (''monthly_price'', number_or num (t MonthlyPrice) 0), (''price_per_sms'', number_or num (t PricePerSms) 0),
        (''overage_buffer_pct'', number_or num (t OverageBuffer) 0), (''max_queue_depth'', number_or num (t MaxQueueDepth) 100),
        (''max_devices'', number_or num (t MaxDevices) 1), (''max_templates'', number_or num (t MaxTemplates) 10),
        (''dedicated_pool'', JBool (dedicatedPool s)), (''default_routing_strategy'', JStr (t RoutingStrategy)),
        (''is_popular'', JBool (isPopular s)), (''cta_text'', JStr (or_text (t CtaText) ''Get Started'')),
        (''features'', JArr (map JStr (featuresList s)))])"

fun plan_service :: "plan_call \<Rightarrow> service option" where
  "plan_service (SavePlan (Some i) p) = Some (updatePlan i p)"
| "plan_service (SavePlan None p) = Some (createPlan p)"
| "plan_service (DeletePlan target) = map_option deletePlan target"

section \<open>The list of features\<close>

definition add_feature :: "string \<Rightarrow> string list \<Rightarrow> string list" where
  "add_feature f fs = (if f \<in> set fs then fs else fs @ [f])"

text \<open>Enter and comma, the button, and Backspace in an empty field.\<close>

definition add_typed :: "plans_page \<Rightarrow> plans_page" where
  "add_typed s =
     (let v = js_trim (featureInput s)
      in if v \<noteq> [] \<and> v \<notin> set (featuresList s) then s\<lparr>featuresList := featuresList s @ [v], featureInput := []\<rparr> else s)"

definition feature_key :: "string \<Rightarrow> plans_page \<Rightarrow> plans_page" where
  "feature_key k s =
     (let s1 = (if k = ''Enter'' \<or> k = '','' then add_typed s else s)
      in if k = ''Backspace'' \<and> featureInput s = [] \<and> featuresList s \<noteq> [] then s1\<lparr>featuresList := butlast (featuresList s)\<rparr>
         else s1)"

definition remove_at :: "nat \<Rightarrow> 'a list \<Rightarrow> 'a list" where
  "remove_at i xs = take i xs @ drop (Suc i) xs"

section \<open>Handlers\<close>

definition pl_send :: "plan_call \<Rightarrow> plans_page \<Rightarrow> plans_page" where
  "pl_send c s = s\<lparr>pl_calls := pl_calls s @ [c]\<rparr>"

definition pl_note :: "notice \<Rightarrow> plans_page \<Rightarrow> plans_page" where
  "pl_note n s = s\<lparr>pl_notes := pl_notes s @ [n]\<rparr>"

fun plan_callback :: "plan_call \<Rightarrow> js_error + jsval \<Rightarrow> plans_page \<Rightarrow> plans_page" where
  "plan_callback (SavePlan i p) =
     mutation_settles
       (\<lambda>d s. pl_note (note_ok (if pl_editing s \<noteq> None then ''Plan updated'' else ''Plan created'')) (closeForm_plan s))
       (\<lambda>e s. (pl_note (note_error e ''Failed to save plan'') s)\<lparr>pl_error := err_message e\<rparr>)"
| "plan_callback (DeletePlan i) =
     mutation_settles (\<lambda>d s. pl_note (note_ok ''Plan deleted'') (s\<lparr>pl_deleteTarget := None\<rparr>))
       (\<lambda>e. pl_note (note_error e ''Failed to delete plan''))"

definition plan_settles :: "plan_call \<Rightarrow> js_error + jsval \<Rightarrow> plans_page \<Rightarrow> plans_page" where
  "plan_settles c r s = (plan_callback c r s)\<lparr>pl_calls := remove1 c (pl_calls s)\<rparr>"

fun plans_step :: "(string \<Rightarrow> jsval) \<Rightarrow> plans_page \<Rightarrow> plans_event \<Rightarrow> plans_page" where
  "plans_step num s (OpenPlan p) = openForm_plan p s"
| "plans_step num s ClosePlan = closeForm_plan s"
| "plans_step num s (TypePlan f t) = s\<lparr>pl_text := (pl_text s)(f := t)\<rparr>"
| "plans_step num s (SetDedicated b) = s\<lparr>dedicatedPool := b\<rparr>"
| "plans_step num s (SetPopular b) = s\<lparr>isPopular := b\<rparr>"
| "plans_step num s (TypeFeature t) = s\<lparr>featureInput := t\<rparr>"
| "plans_step num s (FeatureKey k) = feature_key k s"
| "plans_step num s AddTyped = add_typed s"
| "plans_step num s (RemoveFeature i) = s\<lparr>featuresList := remove_at i (featuresList s)\<rparr>"
| "plans_step num s (Suggest f) = s\<lparr>featuresList := add_feature f (featuresList s)\<rparr>"
| "plans_step num s SavePlanClick = pl_send (SavePlan (map_option row_id (pl_editing s)) (plan_payload num s)) s"
| "plans_step num s (AskDeletePlan p) = s\<lparr>pl_deleteTarget := Some p\<rparr>"
| "plans_step num s CloseDeletePlan = s\<lparr>pl_deleteTarget := None\<rparr>"
| "plans_step num s ConfirmDeletePlan = pl_send (DeletePlan (map_option row_id (pl_deleteTarget s))) s"
| "plans_step num s (PlansAnswer r) = s\<lparr>pl_query := query_answered r (pl_query s)\<rparr>"
| "plans_step num s (PlanCatalogAnswer r) = s\<lparr>pl_catalog := query_answered r (pl_catalog s)\<rparr>"
| "plans_step num s (PlanSettles c r) = (if c \<in> set (pl_calls s) then plan_settles c r s else s)"

section \<open>View\<close>

fun saves_plan :: "plan_call \<Rightarrow> (string option \<times> jsval) option" where
  "saves_plan (SavePlan i p) = Some (i, p)" | "saves_plan _ = None"
fun deletes_plan :: "plan_call \<Rightarrow> string option option" where
  "deletes_plan (DeletePlan i) = Some i" | "deletes_plan _ = None"

definition pl_pending :: "(plan_call \<Rightarrow> 'a option) \<Rightarrow> plans_page \<Rightarrow> bool" where
  "pl_pending k s \<longleftrightarrow> calls_of k (pl_calls s) \<noteq> []"

definition or_dash :: "jsval \<Rightarrow> string" where
  "or_dash v = to_str (coalesce v (JStr ''--''))"

definition plan_stats :: "(jsval \<Rightarrow> string) \<Rightarrow> jsval \<Rightarrow> (string \<times> string) list" where
  "plan_stats fmt p =
     [(''Daily quota'', fmt (opt_get p ''daily_quota'')), (''Monthly quota'', fmt (opt_get p ''monthly_quota'')),
      (''Max devices'', or_dash (opt_get p ''max_devices'')), (''Max templates'', or_dash (opt_get p ''max_templates'')),
      (''Overage buffer'', to_str (opt_get p ''overage_buffer_pct'') @ ''%''),
      (''Price per SMS'', ''$'' @ to_str (opt_get p ''price_per_sms'')), (''Max queue'', fmt (opt_get p ''max_queue_depth'')),
      (''CTA text'', text_default p ''cta_text'' ''--'')]"

definition plan_box :: "(jsval \<Rightarrow> string) \<Rightarrow> jsval \<Rightarrow> plans_event vnode" where
  "plan_box fmt p =
     (let fs = items_of (js_or (opt_get p ''features'') (JArr []))
      in Card True
          [box [box [El ''h3'' [] [] [Txt (text_of p ''name'')],
                  El ''p'' [] [] [Txt (''$'' @ text_of p ''monthly_price''), span [Txt ''/mo'']]],
                box (when_do (truthy (opt_get p ''is_popular'')) [Badge False [Txt ''Popular'']] @
                     when_do (opt_get p ''visibility'' = JStr ''private'') [Badge False [Txt ''Private'']] @
                     when_do (opt_get p ''visibility'' = JStr ''custom'') [Badge False [Txt ''Custom'']] @
                     when_do (truthy (opt_get p ''dedicated_pool'')) [Badge False [Txt ''Dedicated'']])],
           box (map (\<lambda>(l, v). box [box [El ''svg'' [] [] [], span [Txt l]], span [Txt v]]) (plan_stats fmt p) @
                [box [box [El ''svg'' [] [] [], span [Txt ''Routing'']], Badge False [Txt (text_of p ''default_routing_strategy'')]]] @
                when_do (fs \<noteq> [])
                  [box [El ''p'' [] [] [Txt ''Features''],
                     box (map (\<lambda>f. span [Txt (shown_text f)]) (take 6 fs) @
                          when_do (length fs > 6) [span [Txt (''+'' @ show_nat (length fs - 6) @ '' more'')]])]]),
           box [small_button False False (OpenPlan (Some p)) ''Edit'', small_button False False (AskDeletePlan p) ''Delete'']])"

definition plan_input :: "plans_page \<Rightarrow> string \<Rightarrow> plan_field \<Rightarrow> attrs \<Rightarrow> plans_event vnode" where
  "plan_input s label f rest =
     Input (input\<lparr>i_label := Some label, i_rest := (''value'', pl_text s f) # rest, i_on := [OnText ''change'' (TypePlan f)]\<rparr>)"

definition check_box :: "bool \<Rightarrow> (bool \<Rightarrow> 'e) \<Rightarrow> string \<Rightarrow> 'e vnode" where
  "check_box on change label =
     El ''label'' [] [] [El ''input'' ((''type'', ''checkbox'') # flag ''checked'' on) [On ''change'' (change (\<not> on))] [], span [Txt label]]"

definition number_inputs :: "plans_page \<Rightarrow> plans_event vnode list" where
  "number_inputs s =
     (let n = [(''type'', ''number''), (''required'', [])]
      in [box [plan_input s ''Daily quota'' DailyQuota n, plan_input s ''Monthly quota'' MonthlyQuota n,
               plan_input s ''Max queue depth'' MaxQueueDepth n],
          box [plan_input s ''Monthly price ($)'' MonthlyPrice ((''step'', ''0.01'') # n),
               plan_input s ''Price per SMS ($)'' PricePerSms ((''step'', ''0.001'') # n),
               plan_input s ''Overage buffer (%)'' OverageBuffer n],
          box [plan_input s ''Max devices'' MaxDevices n, plan_input s ''Max templates'' MaxTemplates n,
               plan_input s ''CTA button text'' CtaText [(''placeholder'', ''e.g. Get Started, Contact Sales'')],
               check_box (isPopular s) SetPopular ''Mark as popular'']])"

definition feature_editor :: "plans_page \<Rightarrow> plans_event vnode" where
  "feature_editor s =
     box ([El ''label'' [] [] [Txt ''Plan Features''],
           El ''p'' [] [] [Txt ''These are displayed on the landing page pricing cards and comparison table.'']] @
          when_do (featuresList s \<noteq> [])
            [box (map (\<lambda>(i, f). span [Txt f, El ''button'' [(''type'', ''button'')] [On ''click'' (RemoveFeature i)] [El ''svg'' [] [] []]])
                   (zip [0..<length (featuresList s)] (featuresList s)))] @
          [box [El ''input'' [(''type'', ''text''), (''value'', featureInput s), (''placeholder'', ''Type a feature and press Enter to add...'')]
                  [OnText ''change'' TypeFeature, OnText ''keydown'' FeatureKey] [],
                Button (button\<lparr>b_on := [On ''click'' AddTyped], b_disabled := js_trim (featureInput s) = [], b_rest := [(''type'', ''button'')]\<rparr>)
                  [El ''svg'' [] [] []]],
           box (map (\<lambda>t. El ''button'' ((''type'', ''button'') # flag ''disabled'' (t \<in> set (featuresList s)))
                      [On ''click'' (Suggest t)] [Txt (''+ '' @ t)]) (take 12 (suggestions s)) @
                when_do (features_of (pl_catalog s) \<noteq> [])
                  [El ''a'' [(''href'', ''/feature-catalog''), (''target'', ''_self'')] [] [El ''svg'' [] [] [], Txt ''Manage catalog'']])])"

definition plan_modal :: "plans_page \<Rightarrow> plans_event vnode list" where
  "plan_modal s =
     (let edits = pl_editing s \<noteq> None
      in Modal (pl_showForm s) ClosePlan (Some (if edits then ''Edit plan'' else ''New plan'')) None
           [box (error_box (pl_error s) @
              [box [plan_input s ''Plan ID'' PlanId ([(''placeholder'', ''e.g. free, pro''), (''required'', [])] @ flag ''disabled'' edits),
                    plan_input s ''Plan name'' PlanName [(''placeholder'', ''e.g. Free, Pro''), (''required'', [])]]] @
              number_inputs s @
              [feature_editor s,
               box [select_box ''Visibility'' (pl_text s Visibility)
                      [(''public'', ''Public''), (''custom'', ''Custom''), (''private'', ''Private'')] (TypePlan Visibility),
                    select_box ''Routing strategy'' (pl_text s RoutingStrategy)
                      [(''fastest_delivery'', ''Fastest delivery''), (''lowest_cost'', ''Lowest cost''),
                       (''highest_reliability'', ''Highest reliability''), (''geo_affinity'', ''Geo affinity''),
                       (''profit_optimized'', ''Profit optimized'')] (TypePlan RoutingStrategy)],
               check_box (dedicatedPool s) SetDedicated ''Dedicated pool''])]
           [small_button False (pl_pending saves_plan s) ClosePlan ''Cancel'',
            small_button (pl_pending saves_plan s) False SavePlanClick (if edits then ''Update'' else ''Create'')])"

definition plans_view :: "(jsval \<Rightarrow> string) \<Rightarrow> plans_page \<Rightarrow> plans_event vnode list" where
  "plans_view fmt s =
     (if pl_query s = Loading then [PageSkeleton]
      else [hero ''Plans'' ''Manage subscription plans and pricing'' [small_button False False (OpenPlan None) ''New plan''],
            if features_of (pl_query s) = [] then
              EmptyState ''No plans configured'' (Some ''Create a plan to define pricing and quotas.'')
                (Some (small_button False False (OpenPlan None) ''Create plan''))
            else box (map (plan_box fmt) (features_of (pl_query s)))] @
           plan_modal s @
           ConfirmDialog (pl_deleteTarget s \<noteq> None) CloseDeletePlan ConfirmDeletePlan ''Delete plan''
             (Some (''Are you sure you want to delete the \"'' @
                (case pl_deleteTarget s of None \<Rightarrow> ''undefined'' | Some p \<Rightarrow> to_str (opt_get p ''name'')) @ ''\" plan?''))
             ''Confirm'' ''Cancel'' (pl_pending deletes_plan s))"

section \<open>Editing a plan\<close>

text \<open>\<open>Number(String(v))\<close> is \<open>v\<close> again, for a number \<open>v\<close>.\<close>

definition reads_back :: "(string \<Rightarrow> jsval) \<Rightarrow> jsval \<Rightarrow> bool" where
  "reads_back num v \<longleftrightarrow> \<not> nullish v \<and> num (to_str v) = v"

text \<open>The least value a limit is saved with, in place of zero.\<close>

definition limit_default :: "string \<Rightarrow> int" where
  "limit_default k = (if k = ''max_queue_depth'' then 100 else if k = ''max_devices'' then 1 else if k = ''max_templates'' then 10 else 0)"

lemma payload_fields:
  "opt_get (plan_payload num s) ''id'' = JStr (pl_text s PlanId)"
  "opt_get (plan_payload num s) ''name'' = JStr (pl_text s PlanName)"
  "opt_get (plan_payload num s) ''visibility'' = JStr (pl_text s Visibility)"
  "opt_get (plan_payload num s) ''daily_quota'' = number_or num (pl_text s DailyQuota) 0"
  "opt_get (plan_payload num s) ''monthly_quota'' = number_or num (pl_text s MonthlyQuota) 0"
  "opt_get (plan_payload num s) ''monthly_price'' = number_or num (pl_text s MonthlyPrice) 0"
  "opt_get (plan_payload num s) ''price_per_sms'' = number_or num (pl_text s PricePerSms) 0"
  "opt_get (plan_payload num s) ''overage_buffer_pct'' = number_or num (pl_text s OverageBuffer) 0"
  "opt_get (plan_payload num s) ''max_queue_depth'' = number_or num (pl_text s MaxQueueDepth) 100"
  "opt_get (plan_payload num s) ''max_devices'' = number_or num (pl_text s MaxDevices) 1"
  "opt_get (plan_payload num s) ''max_templates'' = number_or num (pl_text s MaxTemplates) 10"
  "opt_get (plan_payload num s) ''dedicated_pool'' = JBool (dedicatedPool s)"
  "opt_get (plan_payload num s) ''default_routing_strategy'' = JStr (pl_text s RoutingStrategy)"
  "opt_get (plan_payload num s) ''is_popular'' = JBool (isPopular s)"
  "opt_get (plan_payload num s) ''features'' = JArr (map JStr (featuresList s))"
  by (simp_all add: plan_payload_def Let_def)

lemma payload_numbers:
  "(f, k) \<in> set plan_keys \<Longrightarrow> opt_get (plan_payload num s) k = number_or num (pl_text s f) (limit_default k)"
proof -
  have "list_all (\<lambda>(f, k). opt_get (plan_payload num s) k = number_or num (pl_text s f) (limit_default k)) plan_keys"
    by (simp add: plan_keys_def payload_fields limit_default_def)
  then show "(f, k) \<in> set plan_keys \<Longrightarrow> opt_get (plan_payload num s) k = number_or num (pl_text s f) (limit_default k)"
    by (auto simp: list_all_iff)
qed


definition tiny_plan :: jsval where
  "tiny_plan = JObj ([(''id'', JStr ''free''), (''name'', JStr ''Free''), (''visibility'', JStr ''public''),
     (''default_routing_strategy'', JStr ''lowest_cost''), (''features'', JArr [])] @ map (\<lambda>(f, k). (k, JNum 0)) plan_keys)"


end
