(* ===== verification/AiConfig.thy ===== *)
theory AiConfig
  imports Catalog Json
begin

text \<open>
  The configurations of AI providers (\<open>features/accounts/pages/AIConfigPage.tsx\<close>): the list of providers
  with its form, the requests for changes that wait for an administrator, and the history of them.
  \<open>JSON.stringify\<close> with an indentation is modelled here, for the payload of a request the page shows.
\<close>

section \<open>State and requests\<close>

datatype ai_call =
    SaveAi "string option" jsval
  | DeleteAi "string option"
  | ApproveAi string
  | RejectAi string

record ai_page =
  ai_showForm :: bool
  ai_editing :: "jsval option"
  ai_deleteTarget :: "jsval option"
  ai_provider :: string
  ai_label :: string
  endpointUrl :: string
  apiKey :: string
  ai_model :: string
  ai_isActive :: bool
  ai_error :: string
  ai_configs :: query
  ai_requests :: query
  ai_calls :: "ai_call list"
  ai_notes :: "notice list"

datatype ai_event =
    OpenAi "jsval option"
  | CloseAi
  | PickProvider string
  | TypeLabel string
  | TypeEndpoint string
  | TypeApiKey string
  | TypeModel string
  | SetAiActive bool
  | SaveAiClick
  | AskDeleteAi jsval
  | CloseDeleteAi
  | ConfirmDeleteAi
  | ApproveAiClick string
  | RejectAiClick string
  | AiConfigsAnswer "js_error + jsval"
  | AiRequestsAnswer "js_error + jsval"
  | AiSettles ai_call "js_error + jsval"

definition ai_initial :: ai_page where
  "ai_initial = \<lparr>ai_showForm = False, ai_editing = None, ai_deleteTarget = None, ai_provider = ''ollama'', ai_label = [],
     endpointUrl = [], apiKey = [], ai_model = [], ai_isActive = False, ai_error = [], ai_configs = Loading, ai_requests = Loading,
     ai_calls = [], ai_notes = []\<rparr>"

definition ai_form :: "ai_page \<Rightarrow> jsval" where
  "ai_form s = JObj [(''provider'', JStr (ai_provider s)), (''label'', JStr (ai_label s)), (''endpoint_url'', JStr (endpointUrl s)),
     (''api_key'', JStr (apiKey s)), (''model'', JStr (ai_model s)), (''is_active'', JBool (ai_isActive s))]"

text \<open>Deleting without a target reads the identifier of \<open>null\<close> and sends nothing.\<close>

fun ai_service :: "ai_call \<Rightarrow> service option" where
  "ai_service (SaveAi (Some i) f) = Some (updateAIConfig i f)"
| "ai_service (SaveAi None f) = Some (createAIConfig f)"
| "ai_service (DeleteAi target) = map_option deleteAIConfig target"
| "ai_service (ApproveAi i) = Some (approveAIChangeRequest i JUndef)"
| "ai_service (RejectAi i) = Some (rejectAIChangeRequest i JUndef)"

definition pendingRequests :: "ai_page \<Rightarrow> jsval list" where
  "pendingRequests s = filter (\<lambda>r. opt_get r ''status'' = JStr ''pending'') (features_of (ai_requests s))"

section \<open>Handlers\<close>

definition openForm_ai :: "jsval option \<Rightarrow> ai_page \<Rightarrow> ai_page" where
  "openForm_ai c s =
     (let v = (case c of None \<Rightarrow> JUndef | Some v \<Rightarrow> v);
          field = (\<lambda>k d. to_str (js_or (opt_get v k) (JStr d)))
      in s\<lparr>ai_editing := c, ai_provider := field ''provider'' ''ollama'', ai_label := field ''label'' [],
           endpointUrl := field ''endpoint_url'' [], apiKey := [], ai_model := field ''model'' [],
           ai_isActive := truthy (opt_get v ''is_active''), ai_error := [], ai_showForm := True\<rparr>)"

definition closeForm_ai :: "ai_page \<Rightarrow> ai_page" where
  "closeForm_ai s = s\<lparr>ai_showForm := False, ai_editing := None, ai_provider := ''ollama'', ai_label := [], endpointUrl := [],
     apiKey := [], ai_model := [], ai_isActive := False, ai_error := []\<rparr>"

definition ai_send :: "ai_call \<Rightarrow> ai_page \<Rightarrow> ai_page" where
  "ai_send c s = s\<lparr>ai_calls := ai_calls s @ [c]\<rparr>"

definition ai_note :: "notice \<Rightarrow> ai_page \<Rightarrow> ai_page" where
  "ai_note n s = s\<lparr>ai_notes := ai_notes s @ [n]\<rparr>"

definition ai_toast :: "js_error \<Rightarrow> ai_page \<Rightarrow> ai_page" where
  "ai_toast e = ai_note (err_message e, ''error'')"

text \<open>\<open>res && 'request_id' in res\<close>: the operator throws on a right side that is no object.\<close>

definition has_request_id :: "jsval \<Rightarrow> js_error + bool" where
  "has_request_id v =
     (if \<not> truthy v then Inr False
      else case v of
        JObj kvs \<Rightarrow> Inr (''request_id'' \<in> fst ` set kvs)
      | JArr xs \<Rightarrow> Inr False
      | _ \<Rightarrow> Inl (TypeErr (''Cannot use 'in' operator to search for 'request_id' in '' @ to_str v)))"

text \<open>The notification of a success; an exception in \<open>onSuccess\<close> continues in \<open>onError\<close>.\<close>

definition ai_told :: "string \<Rightarrow> string \<Rightarrow> (js_error \<Rightarrow> ai_page \<Rightarrow> ai_page) \<Rightarrow> jsval \<Rightarrow> ai_page \<Rightarrow> ai_page" where
  "ai_told asked did failed d s =
     (case has_request_id d of
        Inl e \<Rightarrow> failed e s
      | Inr True \<Rightarrow> ai_note (asked, ''info'') s
      | Inr False \<Rightarrow> ai_note (note_ok did) s)"

definition ai_save_failed :: "js_error \<Rightarrow> ai_page \<Rightarrow> ai_page" where
  "ai_save_failed e s = (ai_toast e s)\<lparr>ai_error := err_message e\<rparr>"

fun ai_callback :: "ai_call \<Rightarrow> js_error + jsval \<Rightarrow> ai_page \<Rightarrow> ai_page" where
  "ai_callback (SaveAi i f) =
     mutation_settles
       (\<lambda>d s. ai_told ''Change request submitted for admin approval''
          (''AI config '' @ (if ai_editing s \<noteq> None then ''updated'' else ''created'')) ai_save_failed d (closeForm_ai s))
       ai_save_failed"
| "ai_callback (DeleteAi i) =
     mutation_settles
       (\<lambda>d s. ai_told ''Delete change request submitted for admin approval'' ''AI config deleted'' ai_toast d
          (s\<lparr>ai_deleteTarget := None\<rparr>))
       ai_toast"
| "ai_callback (ApproveAi i) = mutation_settles (\<lambda>d. ai_note (note_ok ''Change request approved'')) ai_toast"
| "ai_callback (RejectAi i) = mutation_settles (\<lambda>d. ai_note (note_ok ''Change request rejected'')) ai_toast"

definition ai_settles :: "ai_call \<Rightarrow> js_error + jsval \<Rightarrow> ai_page \<Rightarrow> ai_page" where
  "ai_settles c r s = (ai_callback c r s)\<lparr>ai_calls := remove1 c (ai_calls s)\<rparr>"

fun ai_step :: "ai_page \<Rightarrow> ai_event \<Rightarrow> ai_page" where
  "ai_step s (OpenAi c) = openForm_ai c s"
| "ai_step s CloseAi = closeForm_ai s"
| "ai_step s (PickProvider t) = s\<lparr>ai_provider := t\<rparr>"
| "ai_step s (TypeLabel t) = s\<lparr>ai_label := t\<rparr>"
| "ai_step s (TypeEndpoint t) = s\<lparr>endpointUrl := t\<rparr>"
| "ai_step s (TypeApiKey t) = s\<lparr>apiKey := t\<rparr>"
| "ai_step s (TypeModel t) = s\<lparr>ai_model := t\<rparr>"
| "ai_step s (SetAiActive b) = s\<lparr>ai_isActive := b\<rparr>"
| "ai_step s SaveAiClick = ai_send (SaveAi (map_option row_id (ai_editing s)) (ai_form s)) s"
| "ai_step s (AskDeleteAi c) = s\<lparr>ai_deleteTarget := Some c\<rparr>"
| "ai_step s CloseDeleteAi = s\<lparr>ai_deleteTarget := None\<rparr>"
| "ai_step s ConfirmDeleteAi = ai_send (DeleteAi (map_option row_id (ai_deleteTarget s))) s"
| "ai_step s (ApproveAiClick i) = ai_send (ApproveAi i) s"
| "ai_step s (RejectAiClick i) = ai_send (RejectAi i) s"
| "ai_step s (AiConfigsAnswer r) = s\<lparr>ai_configs := query_answered r (ai_configs s)\<rparr>"
| "ai_step s (AiRequestsAnswer r) = s\<lparr>ai_requests := query_answered r (ai_requests s)\<rparr>"
| "ai_step s (AiSettles c r) = (if c \<in> set (ai_calls s) then ai_settles c r s else s)"

section \<open>Indented JSON\<close>

text \<open>\<open>JSON.stringify(v, null, 2)\<close> at a depth: one member or element a line, two blanks deeper.\<close>

definition line_break :: "nat \<Rightarrow> string" where
  "line_break n = CHR 0x0A # replicate (2 * n) CHR '' ''"

definition block :: "char \<Rightarrow> char \<Rightarrow> nat \<Rightarrow> string list \<Rightarrow> string" where
  "block l r n ts =
     (if ts = [] then [l, r]
      else l # line_break (Suc n) @ join_with ('','' @ line_break (Suc n)) ts @ line_break n @ [r])"

fun pretty :: "nat \<Rightarrow> jsval \<Rightarrow> string"
  and pretty_elems :: "nat \<Rightarrow> jsval list \<Rightarrow> string list"
  and pretty_members :: "nat \<Rightarrow> (string \<times> jsval) list \<Rightarrow> string list"
where
  "pretty n JUndef = ''null''"
| "pretty n JNull = ''null''"
| "pretty n (JBool b) = (if b then ''true'' else ''false'')"
| "pretty n (JNum k) = show_int k"
| "pretty n (JFloat t) = t"
| "pretty n (JStr s) = json_quote s"
| "pretty n (JArr xs) = block CHR ''['' CHR '']'' n (pretty_elems n xs)"
| "pretty n (JObj kvs) = block CHR ''{'' CHR ''}'' n (pretty_members n kvs)"
| "pretty_elems n [] = []"
| "pretty_elems n (x # xs) = pretty (Suc n) x # pretty_elems n xs"
| "pretty_members n [] = []"
| "pretty_members n ((k, v) # kvs) =
     (if v = JUndef then pretty_members n kvs
      else (json_quote k @ '': '' @ pretty (Suc n) v) # pretty_members n kvs)"

section \<open>View\<close>

fun saves_ai :: "ai_call \<Rightarrow> (string option \<times> jsval) option" where
  "saves_ai (SaveAi i f) = Some (i, f)" | "saves_ai _ = None"
fun deletes_ai :: "ai_call \<Rightarrow> string option option" where
  "deletes_ai (DeleteAi i) = Some i" | "deletes_ai _ = None"
fun approves_ai :: "ai_call \<Rightarrow> string option" where
  "approves_ai (ApproveAi i) = Some i" | "approves_ai _ = None"
fun rejects_ai :: "ai_call \<Rightarrow> string option" where
  "rejects_ai (RejectAi i) = Some i" | "rejects_ai _ = None"

definition ai_pending :: "(ai_call \<Rightarrow> 'a option) \<Rightarrow> ai_page \<Rightarrow> bool" where
  "ai_pending k s \<longleftrightarrow> calls_of k (ai_calls s) \<noteq> []"

definition request_box :: "(string \<Rightarrow> string) \<Rightarrow> ai_page \<Rightarrow> jsval \<Rightarrow> ai_event vnode" where
  "request_box locale_time s r =
     box [box ([box [Badge False [Txt (text_of r ''action'')], span [Txt (text_of r ''config_type'')]],
                El ''p'' [] [] [Txt (''Requested '' @ locale_time (to_str (opt_get r ''created_at'')))]] @
               when_do (truthy (opt_get r ''payload'')) [El ''pre'' [] [] [Txt (pretty 0 (opt_get r ''payload''))]]),
          box [small_button (ai_pending approves_ai s) False (ApproveAiClick (row_id r)) ''Approve'',
               small_button (ai_pending rejects_ai s) False (RejectAiClick (row_id r)) ''Reject'']]"

definition pending_box :: "(string \<Rightarrow> string) \<Rightarrow> ai_page \<Rightarrow> ai_event vnode list" where
  "pending_box locale_time s =
     when_do (pendingRequests s \<noteq> [])
       [Card False [box [El ''svg'' [] [] [], El ''h2'' [] [] [Txt ''Pending Change Requests''],
                      Badge False [Txt (show_nat (length (pendingRequests s)))]],
                    box (map (request_box locale_time s) (pendingRequests s))]]"

text \<open>The line of the key reads \<open>api_key\<close>; twenty-four dots stand for it.\<close>

definition provider_card :: "jsval \<Rightarrow> ai_event vnode" where
  "provider_card c =
     Card True
       [box [box [box [El ''svg'' [] [] []],
          box [box ([El ''h3'' [] [] [Txt (text_of c ''label'')], Badge False [Txt (text_of c ''provider'')]] @
                    when_do (truthy (opt_get c ''is_active'')) [Badge True [Txt ''Active'']]),
               El ''p'' [] [] [Txt (text_of c ''model'')]]]],
        box (El ''p'' [] [] [span [Txt ''Endpoint:''], Txt ('' '' @ text_of c ''endpoint_url'')] #
             when_do (truthy (opt_get c ''api_key'')) [El ''p'' [] [] [Txt (''API key: '' @ replicate 24 CHR ''*'')]]),
        box [small_button False False (OpenAi (Some c)) ''Edit'', small_button False False (AskDeleteAi c) ''Delete'']]"

definition provider_list :: "ai_page \<Rightarrow> ai_event vnode" where
  "provider_list s =
     (if features_of (ai_configs s) = [] then
        EmptyState ''No AI providers configured''
          (Some ''Add an AI provider to enable smart template generation. Supports Ollama and OpenAI-compatible APIs.'')
          (Some (small_button False False (OpenAi None) ''Add provider''))
      else box (map provider_card (features_of (ai_configs s))))"

definition history_box :: "(string \<Rightarrow> string) \<Rightarrow> ai_page \<Rightarrow> ai_event vnode list" where
  "history_box locale_date s =
     when_do (features_of (ai_requests s) \<noteq> [])
       [Card False [El ''h2'' [] [] [Txt ''Change History''],
          box (map (\<lambda>r. box (box [Badge False [Txt (text_of r ''status'')],
                 span [Txt (text_of r ''action'' @ '' - '' @ text_of r ''config_type'')],
                 span [Txt (locale_date (to_str (opt_get r ''created_at'')))]] #
               when_do (truthy (opt_get r ''review_notes'')) [span [Txt (text_of r ''review_notes'')]]))
            (features_of (ai_requests s)))]]"

definition ai_modal :: "ai_page \<Rightarrow> ai_event vnode list" where
  "ai_modal s =
     (let edits = ai_editing s \<noteq> None; local = (ai_provider s = ''ollama'')
      in Modal (ai_showForm s) CloseAi (Some (if edits then ''Edit AI provider'' else ''Add AI provider'')) None
           [box (error_box (ai_error s) @
              [select_box ''Provider'' (ai_provider s) [(''ollama'', ''Ollama (local)''), (''openai'', ''OpenAI-compatible'')] PickProvider,
               text_input ''Label'' [(''placeholder'', ''e.g. Local Ollama, GPT-4o Mini'')] (ai_label s) TypeLabel,
               text_input ''Endpoint URL'' [(''placeholder'', if local then ''http://localhost:11434'' else ''https://api.openai.com/v1'')]
                 (endpointUrl s) TypeEndpoint,
               Input (input\<lparr>i_label := Some (if edits then ''API Key (leave blank to keep existing)'' else ''API Key''),
                 i_rest := [(''type'', ''password''), (''value'', apiKey s),
                   (''placeholder'', if local then ''(not needed for local Ollama)'' else ''sk-...'')],
                 i_on := [OnText ''change'' TypeApiKey]\<rparr>),
               text_input ''Model'' [(''placeholder'', if local then ''llama3'' else ''gpt-4o-mini'')] (ai_model s) TypeModel,
               box [El ''input'' ([(''type'', ''checkbox''), (''id'', ''isActive'')] @ flag ''checked'' (ai_isActive s))
                      [On ''change'' (SetAiActive (\<not> ai_isActive s))] [],
                    El ''label'' [(''for'', ''isActive'')] [] [Txt ''Set as active provider'']]])]
           [small_button False (ai_pending saves_ai s) CloseAi ''Cancel'',
            small_button (ai_pending saves_ai s) False SaveAiClick (if edits then ''Update'' else ''Add'')])"

definition ai_view :: "(string \<Rightarrow> string) \<Rightarrow> (string \<Rightarrow> string) \<Rightarrow> ai_page \<Rightarrow> ai_event vnode list" where
  "ai_view locale_time locale_date s =
     (if ai_configs s = Loading then [PageSkeleton]
      else [hero ''AI Config'' ''Configure AI providers for smart template generation'' [small_button False False (OpenAi None) ''Add provider'']] @
           pending_box locale_time s @ [provider_list s] @ history_box locale_date s @ ai_modal s @
           ConfirmDialog (ai_deleteTarget s \<noteq> None) CloseDeleteAi ConfirmDeleteAi ''Delete AI provider''
             (Some (''Are you sure you want to delete \"'' @
                (case ai_deleteTarget s of None \<Rightarrow> ''undefined'' | Some c \<Rightarrow> to_str (opt_get c ''label'')) @ ''\"?''))
             ''Confirm'' ''Cancel'' (ai_pending deletes_ai s))"

section \<open>Saving a configuration\<close>

lemma includes_mid: "str_includes (a @ t @ b) t"
  by (auto simp: includes_iff)

lemma includes_trans: "str_includes a b \<Longrightarrow> str_includes b c \<Longrightarrow> str_includes a c"
  unfolding includes_iff by (metis append.assoc)

lemma join_includes: "t \<in> set ts \<Longrightarrow> str_includes (join_with sep ts) t"
proof (induction sep ts rule: join_with.induct)
  case (3 sep x y xs)
  show ?case
  proof (cases "t = x")
    case True
    then show ?thesis using includes_mid [of "[]" x] by simp
  next
    case False
    then have "str_includes (join_with sep (y # xs)) t" using 3 by simp
    moreover have "str_includes (join_with sep (x # y # xs)) (join_with sep (y # xs))"
      using includes_mid [of "x @ sep" "join_with sep (y # xs)" "[]"] by simp
    ultimately show ?thesis using includes_trans by blast
  qed
qed (auto simp: includes_iff intro: exI [of _ "[]"])

lemma block_includes: "t \<in> set ts \<Longrightarrow> str_includes (block l r n ts) t"
  using includes_trans [OF includes_mid [of "l # line_break (Suc n)" "join_with ('','' @ line_break (Suc n)) ts" "line_break n @ [r]"]
      join_includes] by (auto simp: block_def)

lemma pretty_member: "(k, v) \<in> set kvs \<Longrightarrow> v \<noteq> JUndef \<Longrightarrow> json_quote k @ '': '' @ pretty (Suc n) v \<in> set (pretty_members n kvs)"
  by (induction n kvs rule: pretty_pretty_elems_pretty_members.induct(3)
      [where P = "\<lambda>n v. True" and Q = "\<lambda>n xs. True"]) auto

lemma pretty_shows:
  assumes "(k, JStr t) \<in> set kvs"
  shows "str_includes (pretty n (JObj kvs)) (json_quote t)"
proof -
  have "str_includes (block CHR ''{'' CHR ''}'' n (pretty_members n kvs)) (json_quote k @ '': '' @ json_quote t)"
    using pretty_member [OF assms, of n] by (intro block_includes) simp
  moreover have "str_includes (json_quote k @ '': '' @ json_quote t) (json_quote t)"
    using includes_mid [of "json_quote k @ '': ''" "json_quote t" "[]"] by simp
  ultimately show ?thesis using includes_trans by (simp del: str_includes.simps)
qed

lemma ai_initial_simps:
  "ai_calls ai_initial = []" "ai_editing ai_initial = None" "ai_notes ai_initial = []"
  by (simp_all add: ai_initial_def)

interpretation answer_env: envelope "need_success msg (\<lambda>b. js_get b ''data'')" body_ok "\<lambda>b. opt_get b ''data''" for msg
proof unfold_locales
  fix b assume "body_ok b"
  then show "need_success msg (\<lambda>b. js_get b ''data'') b = Inr (opt_get b ''data'')"
    by (cases b) (auto simp: guard_success_def body_ok_def opt_get_def)
next
  fix b assume "\<not> body_ok b"
  then show "\<exists>e. need_success msg (\<lambda>b. js_get b ''data'') b = Inl e"
    using throw_api_throws [of msg b] by (cases "js_get b ''success''") (auto simp: guard_success_def body_ok_def opt_get_def)
qed

lemma ai_service_answers:
  assumes "sv = ai_service (SaveAi i f)"
  shows "body_ok b \<Longrightarrow> sv_then (the sv) (Inr b) = Inr (opt_get b ''data'')"
    and "\<not> body_ok b \<Longrightarrow> \<exists>e. sv_then (the sv) (Inr b) = Inl e"
  using answer_env.handle_accepted [of b] answer_env.handle_rejected [of b] assms
  by (cases i; simp add: updateAIConfig_def createAIConfig_def on_body_def)+

text \<open>
  What a saved configuration leads to, on every answer of the server: the request carries the form;
  a refusal is shown, in the form and as a notification, and the form stays as it was; an accepted
  change closes and clears the form, and the notification says that it waits for approval exactly
  when the answer names a request, and otherwise that the configuration was created or updated, as
  it was opened.
\<close>

theorem saving_an_ai_config_is_reported:
  assumes "ai_calls s = []"
  shows "let c = SaveAi (map_option row_id (ai_editing s)) (ai_form s); s1 = ai_step s SaveAiClick;
      s2 = ai_step s1 (AiSettles c (sv_then (the (ai_service c)) (Inr b)))
    in ai_calls s1 = [c] \<and> ai_calls s2 = [] \<and>
      (\<not> body_ok b \<longrightarrow> (\<exists>m. ai_notes s2 = ai_notes s @ [(m, ''error'')] \<and> ai_error s2 = m) \<and> ai_form s2 = ai_form s \<and>
         ai_editing s2 = ai_editing s \<and> ai_showForm s2 = ai_showForm s) \<and>
      (body_ok b \<and> opt_get b ''data'' = JObj kvs \<longrightarrow> \<not> ai_showForm s2 \<and> ai_form s2 = ai_form ai_initial \<and>
         ai_notes s2 = ai_notes s @
           [if ''request_id'' \<in> fst ` set kvs then (''Change request submitted for admin approval'', ''info'')
            else note_ok (''AI config '' @ (if ai_editing s \<noteq> None then ''updated'' else ''created''))])"
proof (cases "body_ok b")
  case True
  show ?thesis
    using ai_service_answers(1) [OF refl True] True
    by (simp add: Let_def ai_send_def assms ai_settles_def ai_told_def has_request_id_def closeForm_ai_def ai_note_def ai_form_def
        ai_initial_def)
next
  case False
  then obtain e where "sv_then (the (ai_service (SaveAi (map_option row_id (ai_editing s)) (ai_form s)))) (Inr b) = Inl e"
    using ai_service_answers(2) [OF refl] by blast
  with False show ?thesis
    by (simp add: Let_def ai_send_def assms ai_settles_def ai_save_failed_def ai_toast_def ai_note_def ai_form_def)
qed

theorem saving_an_ai_config_is_reported_witness:
  "let c = SaveAi None (ai_form ai_initial); b = JObj [(''success'', JBool True), (''data'', JObj [(''request_id'', JStr ''7'')])];
     s2 = ai_step (ai_step ai_initial SaveAiClick) (AiSettles c (sv_then (the (ai_service c)) (Inr b)))
   in ai_notes s2 = [(''Change request submitted for admin approval'', ''info'')]"
  using saving_an_ai_config_is_reported [of ai_initial "JObj [(''success'', JBool True), (''data'', JObj [(''request_id'', JStr ''7'')])]"
      "[(''request_id'', JStr ''7'')]"]
  by (simp add: Let_def ai_initial_simps body_ok_def del: ai_step.simps ai_service.simps)

text \<open>
  The page shows the keys it hides elsewhere: the key field of the form is a password field and a
  provider's card shows dots, but a pending request whose payload is the form someone sent is printed in
  full, the API key in clear text.
\<close>

theorem pending_requests_reveal_keys:
  assumes "ai_configs s \<noteq> Loading" and "r \<in> set (pendingRequests s)" and "opt_get r ''payload'' = ai_form sent"
  shows "\<exists>t \<in> set (concat (map texts (ai_view locale_time locale_date s))). str_includes t (json_quote (apiKey sent))"
proof -
  have "str_includes (pretty 0 (ai_form sent)) (json_quote (apiKey sent))"
    unfolding ai_form_def by (rule pretty_shows [of "''api_key''"]) simp
  moreover have "pretty 0 (ai_form sent) \<in> set (texts (request_box locale_time s r))"
    using assms(3) by (simp add: request_box_def ai_form_def)
  moreover have "set (texts (request_box locale_time s r)) \<subseteq> set (concat (map texts (pending_box locale_time s)))"
    using assms(2) by (auto simp: pending_box_def Card_def when_do_def)
  moreover have "set (concat (map texts (pending_box locale_time s))) \<subseteq> set (concat (map texts (ai_view locale_time locale_date s)))"
    using assms(1) unfolding ai_view_def by (simp only: simp_thms if_False map_append concat_append set_append) blast
  ultimately show ?thesis by blast
qed

theorem pending_requests_reveal_keys_witness:
  "let r = JObj [(''id'', JStr ''1''), (''status'', JStr ''pending''), (''payload'', ai_form (ai_initial\<lparr>apiKey := ''sk-1''\<rparr>))];
     s = foldl ai_step ai_initial [AiConfigsAnswer (Inr (JArr [])), AiRequestsAnswer (Inr (JArr [r]))]
   in \<exists>t \<in> set (concat (map texts (ai_view (\<lambda>t. t) (\<lambda>t. t) s))). str_includes t (json_quote ''sk-1'')"
proof -
  define r where "r = JObj [(''id'', JStr ''1''), (''status'', JStr ''pending''), (''payload'', ai_form (ai_initial\<lparr>apiKey := ''sk-1''\<rparr>))]"
  define s where "s = foldl ai_step ai_initial [AiConfigsAnswer (Inr (JArr [])), AiRequestsAnswer (Inr (JArr [r]))]"
  have "ai_configs s \<noteq> Loading" "r \<in> set (pendingRequests s)" "opt_get r ''payload'' = ai_form (ai_initial\<lparr>apiKey := ''sk-1''\<rparr>)"
    by (simp_all add: s_def pendingRequests_def features_of_def query_data_def items_of_def ai_initial_def r_def)
  from pending_requests_reveal_keys [OF this, of "\<lambda>t. t" "\<lambda>t. t"] show ?thesis unfolding Let_def r_def [symmetric] s_def [symmetric] by simp
qed

end
