(* ===== verification/FirebaseConfig.thy ===== *)
theory FirebaseConfig
  imports Catalog "HOL-Library.AList"
begin

text \<open>
  The remote configuration of the mobile application (\<open>features/accounts/pages/FirebaseConfigPage.tsx\<close>):
  entries loaded by an effect, values edited in place and saved together. The edited values are a list of
  keys and values in the order the keys were first edited.
\<close>

section \<open>State\<close>

record firebase_page =
  fb_entries :: "jsval list"
  fb_loading :: bool
  fb_error :: string
  fb_saving :: bool
  editedValues :: "(string \<times> string) list"
  hasChanges :: bool
  fb_loads :: nat
  fb_saves :: "jsval list"
  fb_notes :: "notice list"

datatype firebase_event =
    ConfigLoaded "js_error + jsval"
  | ChangeValue string string
  | SaveAll
  | AllSaved jsval "js_error + jsval"
  | DismissConfig

section \<open>Handlers\<close>

text \<open>\<open>load\<close>: the start of a request, and its outcome.\<close>

definition firebase_request :: request where
  "firebase_request = get_req ''/admin/firebase-config''"

definition load_config :: "firebase_page \<Rightarrow> firebase_page" where
  "load_config s = s\<lparr>fb_loading := True, fb_error := [], fb_loads := Suc (fb_loads s)\<rparr>"

definition config_loaded :: "js_error + jsval \<Rightarrow> firebase_page \<Rightarrow> firebase_page" where
  "config_loaded r s =
     (case sbind r (\<lambda>b. js_get b ''data'') of
        Inr d \<Rightarrow> s\<lparr>fb_entries := items_of (js_or d (JArr []))\<rparr>
      | Inl e \<Rightarrow> s\<lparr>fb_error := err_message e\<rparr>)\<lparr>fb_loading := False\<rparr>"

definition firebase_mount :: firebase_page where
  "firebase_mount = load_config \<lparr>fb_entries = [], fb_loading = True, fb_error = [], fb_saving = False, editedValues = [],
     hasChanges = False, fb_loads = 0, fb_saves = [], fb_notes = []\<rparr>"

definition handleChange :: "string \<Rightarrow> string \<Rightarrow> firebase_page \<Rightarrow> firebase_page" where
  "handleChange k v s = s\<lparr>editedValues := AList.update k v (editedValues s), hasChanges := True\<rparr>"

definition entry_of :: "jsval list \<Rightarrow> string \<Rightarrow> jsval" where
  "entry_of es k = (case find (\<lambda>e. opt_get e ''config_key'' = JStr k) es of None \<Rightarrow> JUndef | Some e \<Rightarrow> e)"

definition entry_update :: "jsval list \<Rightarrow> string \<times> string \<Rightarrow> jsval" where
  "entry_update es kv =
     (let original = entry_of es (fst kv)
      in JObj [(''config_key'', JStr (fst kv)), (''config_value'', JStr (snd kv)),
           (''value_type'', js_or (opt_get original ''value_type'') (JStr ''string'')),
           (''category'', js_or (opt_get original ''category'') (JStr ''general'')),
           (''description'', js_or (opt_get original ''description'') (JStr [])),
           (''is_sensitive'', js_or (opt_get original ''is_sensitive'') (JBool False))])"

definition save_body :: "firebase_page \<Rightarrow> jsval" where
  "save_body s = JObj [(''entries'', JArr (map (entry_update (fb_entries s)) (editedValues s)))]"

definition save_request :: "jsval \<Rightarrow> request" where
  "save_request b = put_req ''/admin/firebase-config'' b"

definition handleSaveAll :: "firebase_page \<Rightarrow> firebase_page" where
  "handleSaveAll s = s\<lparr>fb_saving := True, fb_error := [], fb_saves := fb_saves s @ [save_body s]\<rparr>"

definition fb_note :: "notice \<Rightarrow> firebase_page \<Rightarrow> firebase_page" where
  "fb_note n s = s\<lparr>fb_notes := fb_notes s @ [n]\<rparr>"

text \<open>The rest of \<open>handleSaveAll\<close>; the body of the answer is not looked at.\<close>

definition all_saved :: "js_error + jsval \<Rightarrow> firebase_page \<Rightarrow> firebase_page" where
  "all_saved r s =
     (case r of
        Inr b \<Rightarrow> fb_note (note_ok ''Config saved'') (load_config (s\<lparr>editedValues := [], hasChanges := False\<rparr>))
      | Inl e \<Rightarrow> (fb_note (err_message e, ''error'') s)\<lparr>fb_error := err_message e\<rparr>)\<lparr>fb_saving := False\<rparr>"

fun firebase_step :: "firebase_page \<Rightarrow> firebase_event \<Rightarrow> firebase_page" where
  "firebase_step s (ConfigLoaded r) = (if 0 < fb_loads s then config_loaded r (s\<lparr>fb_loads := fb_loads s - 1\<rparr>) else s)"
| "firebase_step s (ChangeValue k v) = handleChange k v s"
| "firebase_step s SaveAll = handleSaveAll s"
| "firebase_step s (AllSaved b r) = (if b \<in> set (fb_saves s) then all_saved r (s\<lparr>fb_saves := remove1 b (fb_saves s)\<rparr>) else s)"
| "firebase_step s DismissConfig = s\<lparr>fb_error := []\<rparr>"

section \<open>View\<close>

definition config_labels :: "(string \<times> string) list" where
  "config_labels = [(''feature_flags'', ''Feature Flags''), (''update'', ''App Updates''), (''general'', ''General''),
     (''mqtt'', ''MQTT''), (''notifications'', ''Notifications''), (''security'', ''Security'')]"

definition config_category :: "jsval \<Rightarrow> string" where
  "config_category e = to_str (js_or (opt_get e ''category'') (JStr ''general''))"

definition config_key :: "jsval \<Rightarrow> string" where
  "config_key e = to_str (opt_get e ''config_key'')"

definition currentValue :: "firebase_page \<Rightarrow> jsval \<Rightarrow> string" where
  "currentValue s e = (case map_of (editedValues s) (config_key e) of None \<Rightarrow> to_str (opt_get e ''config_value'') | Some v \<Rightarrow> v)"

definition value_control :: "firebase_page \<Rightarrow> jsval \<Rightarrow> firebase_event vnode" where
  "value_control s e =
     (let change = ChangeValue (config_key e); v = currentValue s e
      in if opt_get e ''value_type'' = JStr ''boolean'' then plain_select v [(''true'', ''true''), (''false'', ''false'')] change
         else Input (input\<lparr>i_rest := (if opt_get e ''value_type'' = JStr ''integer'' then [(''type'', ''number'')] else []) @ [(''value'', v)],
                i_on := [OnText ''change'' change]\<rparr>))"

definition config_entry :: "(string \<Rightarrow> string) \<Rightarrow> firebase_page \<Rightarrow> jsval \<Rightarrow> firebase_event vnode" where
  "config_entry locale_time s e =
     box (box [box (box ([span [Txt (config_key e)], Badge False [Txt (text_of e ''value_type'')]] @
                   when_do (truthy (opt_get e ''is_sensitive'')) [Badge False [Txt ''Sensitive'']]) #
                 when_do (truthy (opt_get e ''description'')) [El ''p'' [] [] [Txt (text_of e ''description'')]]),
               box [value_control s e]] #
          when_do (truthy (opt_get e ''updated_at''))
            [El ''p'' [] [] [Txt (''Updated '' @ locale_time (to_str (opt_get e ''updated_at'')) @ '' '' @
               (if truthy (opt_get e ''updated_by_name'') then ''by '' @ to_str (opt_get e ''updated_by_name'') else []))]])"

definition config_groups :: "(string \<Rightarrow> string) \<Rightarrow> firebase_page \<Rightarrow> firebase_event vnode list" where
  "config_groups locale_time s =
     map (\<lambda>(c, es). Card False
       [box [span [El ''svg'' [] [] []], El ''h2'' [] [] [Txt (case map_of config_labels c of None \<Rightarrow> c | Some l \<Rightarrow> l)],
             Badge False [Txt (show_nat (length es))]],
        box (map (config_entry locale_time s) es)]) (group_by config_category (fb_entries s))"

definition firebase_view :: "(string \<Rightarrow> string) \<Rightarrow> firebase_page \<Rightarrow> firebase_event vnode list" where
  "firebase_view locale_time s =
     (if fb_loading s then [PageSkeleton]
      else [hero ''Firebase Config'' ''Manage remote configuration for the Android app''
              (when_do (hasChanges s) [small_button (fb_saving s) False SaveAll ''Save Changes''])] @
           error_banner (fb_error s) DismissConfig @ config_groups locale_time s)"

section \<open>Saving\<close>

lemma entry_fires: "may_fire (config_entry lt s x) e \<longleftrightarrow> (\<exists>v. e = ChangeValue (config_key x) v)"
  by (auto simp: config_entry_def value_control_def Let_def)

lemma groups_fire: "list_fire (config_groups lt s) e \<longleftrightarrow> (\<exists>x \<in> set (fb_entries s). \<exists>v. e = ChangeValue (config_key x) v)"
proof -
  have "list_fire (config_groups lt s) e \<longleftrightarrow>
      (\<exists>(c, es) \<in> set (group_by config_category (fb_entries s)). \<exists>x \<in> set es. \<exists>v. e = ChangeValue (config_key x) v)"
    by (auto simp: config_groups_def list_fire_map Card_def entry_fires case_prod_unfold)
  then show ?thesis unfolding group_by_set [of config_category "fb_entries s", symmetric] by blast
qed

lemma firebase_view_fires:
  "list_fire (firebase_view lt s) e \<longleftrightarrow> \<not> fb_loading s \<and>
     (hasChanges s \<and> \<not> fb_saving s \<and> e = SaveAll \<or> fb_error s \<noteq> [] \<and> e = DismissConfig
      \<or> (\<exists>x \<in> set (fb_entries s). \<exists>v. e = ChangeValue (config_key x) v))"
  by (auto simp: firebase_view_def groups_fire)

lemma foldl_changes:
  "foldl firebase_step s (map (\<lambda>(k, v). ChangeValue k v) kvs) =
     s\<lparr>editedValues := AList.updates (map fst kvs) (map snd kvs) (editedValues s), hasChanges := hasChanges s \<or> kvs \<noteq> []\<rparr>"
  by (induction kvs arbitrary: s) (auto simp: handleChange_def)

lemma updated_values: "map_of (AList.updates (map fst kvs) (map snd kvs) []) = map_of (rev kvs)"
proof -
  have "map_of (AList.updates (map fst kvs) (map snd kvs) []) = Map.empty(map fst kvs [\<mapsto>] map snd kvs)"
    by (simp add: updates_conv')
  also have "\<dots> = map_of (rev kvs)"
    by (simp add: map_upds_def zip_map_fst_snd)
  finally show ?thesis .
qed

lemma updates_distinct: "distinct (map fst (AList.updates ks vs []))"
  using AList.distinct_updates [of "[]" ks vs] by simp

text \<open>
  C28. Saving sends what was edited, once: after any changes to a page without earlier ones, the button is
  offered; it sends one body with an entry for each edited key and no other, each once, with the last
  value given to the key. When it succeeds nothing is left edited, the entries are loaded again and the
  button is gone; when it fails the values are still edited, the message is shown, and the same body can
  be sent again.
\<close>

theorem config_saves_what_was_edited:
  assumes "editedValues s = []" and "\<not> fb_loading s" and "\<not> fb_saving s" and "fb_saves s = []" and "kvs \<noteq> []"
  shows "let s1 = foldl firebase_step s (map (\<lambda>(k, v). ChangeValue k v) kvs); s2 = firebase_step s1 SaveAll; b = save_body s1
    in list_fire (firebase_view lt s1) SaveAll \<and> fb_saves s2 = [b] \<and> \<not> list_fire (firebase_view lt s2) SaveAll \<and>
       (\<exists>edits. b = JObj [(''entries'', JArr (map (entry_update (fb_entries s)) edits))] \<and>
          distinct (map fst edits) \<and> map_of edits = map_of (rev kvs)) \<and>
       (let s3 = firebase_step s2 (AllSaved b (Inr d)) in editedValues s3 = [] \<and> \<not> hasChanges s3 \<and> fb_loads s3 = Suc (fb_loads s)) \<and>
       (let s3 = firebase_step s2 (AllSaved b (Inl e)) in editedValues s3 = editedValues s1 \<and> fb_error s3 = err_message e \<and>
          list_fire (firebase_view lt s3) SaveAll \<and> fb_saves (firebase_step s3 SaveAll) = [b])"
proof -
  let ?edits = "AList.updates (map fst kvs) (map snd kvs) []"
  have s1: "foldl firebase_step s (map (\<lambda>(k, v). ChangeValue k v) kvs) = s\<lparr>editedValues := ?edits, hasChanges := True\<rparr>"
    using assms(1,5) by (simp add: foldl_changes)
  show ?thesis
    unfolding Let_def s1 using assms(2,3,4) updated_values [of kvs] updates_distinct [of "map fst kvs" "map snd kvs"]
    by (auto simp: firebase_view_fires handleSaveAll_def save_body_def all_saved_def load_config_def fb_note_def intro!: exI [of _ ?edits])
qed

theorem config_saves_what_was_edited_witness:
  "let s = firebase_step firebase_mount (ConfigLoaded (Inr (JObj [(''data'', JArr [])])));
     s1 = foldl firebase_step s [ChangeValue ''ttl'' ''5'', ChangeValue ''ttl'' ''60'']
   in fb_saves (firebase_step s1 SaveAll) = [save_body s1] \<and> map_of (editedValues s1) ''ttl'' = Some ''60''"
proof -
  define s where "s = firebase_step firebase_mount (ConfigLoaded (Inr (JObj [(''data'', JArr [])])))"
  have "editedValues s = []" "\<not> fb_loading s" "\<not> fb_saving s" "fb_saves s = []"
    unfolding s_def by code_simp+
  from config_saves_what_was_edited [OF this, of "[(''ttl'', ''5''), (''ttl'', ''60'')]"]
  show ?thesis unfolding s_def [symmetric] by (simp add: Let_def handleChange_def \<open>editedValues s = []\<close>)
qed

text \<open>
  What is edited while a save is in flight is lost: the controls stay enabled, and a value given then is
  in no request; when the save succeeds it is gone, and the page says that the configuration was saved.
  Only a failed save keeps it.
\<close>

theorem edits_while_saving_are_lost:
  assumes "\<not> fb_loading s" and "\<not> fb_saving s" and "fb_saves s = []" and "x \<in> set (fb_entries s)" and "k = config_key x"
  shows "let s1 = firebase_step s SaveAll; s2 = firebase_step s1 (ChangeValue k v)
    in list_fire (firebase_view lt s1) (ChangeValue k v) \<and> fb_saves s2 = [save_body s] \<and>
       map_of (editedValues s2) k = Some v \<and>
       (let s3 = firebase_step s2 (AllSaved (save_body s) (Inr d)) in editedValues s3 = [] \<and> fb_saves s3 = [] \<and>
          fb_notes s3 = fb_notes s @ [note_ok ''Config saved'']) \<and>
       map_of (editedValues (firebase_step s2 (AllSaved (save_body s) (Inl e)))) k = Some v"
proof -
  have "list_fire (firebase_view lt (firebase_step s SaveAll)) (ChangeValue k v)"
    using assms(1,4,5) by (auto simp: firebase_view_fires handleSaveAll_def)
  then show ?thesis
    unfolding Let_def using assms(3)
    by (simp add: handleSaveAll_def handleChange_def all_saved_def load_config_def fb_note_def update_conv' save_body_def)
qed

theorem edits_while_saving_are_lost_witness:
  "let x = JObj [(''config_key'', JStr ''ttl''), (''config_value'', JStr ''5'')];
     s = firebase_step firebase_mount (ConfigLoaded (Inr (JObj [(''data'', JArr [x])])));
     s2 = firebase_step (firebase_step s SaveAll) (ChangeValue ''ttl'' ''60'')
   in editedValues (firebase_step s2 (AllSaved (save_body s) (Inr JUndef))) = []"
proof -
  define x where "x = JObj [(''config_key'', JStr ''ttl''), (''config_value'', JStr ''5'')]"
  define s where "s = firebase_step firebase_mount (ConfigLoaded (Inr (JObj [(''data'', JArr [x])])))"
  have "\<not> fb_loading s" "\<not> fb_saving s" "fb_saves s = []" "x \<in> set (fb_entries s)" "''ttl'' = config_key x"
    unfolding s_def x_def by code_simp+
  from edits_while_saving_are_lost [OF this, where v = "''60''" and d = JUndef]
  show ?thesis unfolding x_def [symmetric] Let_def s_def [symmetric] by blast
qed

end
