(* ===== verification/Releases.thy ===== *)
theory Releases
  imports Catalog Json
begin

text \<open>
  The releases of the mobile application (\<open>features/accounts/pages/AppReleasesPage.tsx\<close>): the list with what
  each status allows, the form of a new release, and the upload of its file, a component of its own that
  lives while its dialog is open. The answers of \<open>confirm\<close> and \<open>prompt\<close> are part of the event. Numbers
  are exact: a version code beyond \<open>2 ^ 53\<close> would lose digits in the browser.
\<close>

section \<open>Numbers\<close>

text \<open>\<open>parseInt(t)\<close>: blanks, a sign, digits (hexadecimal after \<open>0x\<close>), and anything after them; None is \<open>NaN\<close>.\<close>

fun digits_value :: "nat \<Rightarrow> (char \<Rightarrow> nat option) \<Rightarrow> nat \<Rightarrow> string \<Rightarrow> nat" where
  "digits_value base val acc [] = acc"
| "digits_value base val acc (c # cs) =
     (case val c of None \<Rightarrow> acc | Some d \<Rightarrow> digits_value base val (base * acc + d) cs)"

definition decimal_val :: "char \<Rightarrow> nat option" where
  "decimal_val c = (if is_digit c then Some (digit_val c) else None)"

definition leading_number :: "nat \<Rightarrow> (char \<Rightarrow> nat option) \<Rightarrow> string \<Rightarrow> nat option" where
  "leading_number base val t =
     (case t of [] \<Rightarrow> None | c # cs \<Rightarrow> if val c = None then None else Some (digits_value base val 0 t))"

definition parse_int :: "string \<Rightarrow> int option" where
  "parse_int t =
     (let t1 = dropWhile is_space t;
          minus = (take 1 t1 = ''-'');
          t2 = (if take 1 t1 = ''-'' \<or> take 1 t1 = ''+'' then drop 1 t1 else t1);
          n = (if take 2 t2 = ''0x'' \<or> take 2 t2 = ''0X'' then leading_number 16 hex_val (drop 2 t2)
               else leading_number 10 decimal_val t2)
      in map_option (\<lambda>k. if minus then - int k else int k) n)"

text \<open>\<open>NaN\<close> is printed as \<open>null\<close>; \<open>parseInt(t) || 1\<close>.\<close>

definition int_json :: "int option \<Rightarrow> jsval" where
  "int_json n = (case n of None \<Rightarrow> JNull | Some k \<Rightarrow> JNum k)"

definition int_or_one :: "int option \<Rightarrow> int" where
  "int_or_one n = (case n of None \<Rightarrow> 1 | Some k \<Rightarrow> if k = 0 then 1 else k)"

text \<open>
  \<open>formatBytes\<close> of a positive size: the power of 1024 (the quotient of the logarithms, rounded down), and the
  size in that unit to one place, without a trailing zero.
\<close>

fun size_unit :: "nat \<Rightarrow> nat" where
  "size_unit n = (if n < 1024 then 0 else Suc (size_unit (n div 1024)))"

declare size_unit.simps [simp del]

definition size_tenths :: "nat \<Rightarrow> nat" where
  "size_tenths n = (20 * n + 1024 ^ size_unit n) div (2 * 1024 ^ size_unit n)"

definition size_names :: "string list" where
  "size_names = [''B'', ''KB'', ''MB'', ''GB'']"

definition show_tenths :: "nat \<Rightarrow> string" where
  "show_tenths k = show_nat (k div 10) @ (if k mod 10 = 0 then [] else ''.'' @ show_nat (k mod 10))"

definition formatBytes :: "nat \<Rightarrow> string" where
  "formatBytes n =
     (if n = 0 then ''0 B''
      else show_tenths (size_tenths n) @ '' '' @
        (if size_unit n < length size_names then size_names ! size_unit n else ''undefined''))"

section \<open>State and requests\<close>

datatype release_call =
    CreateRelease jsval
  | SubmitRelease string
  | ApproveRelease string
  | RejectRelease string string
  | PublishRelease string
  | DeleteRelease string

text \<open>
  The upload lives in \<open>up_mount\<close>, counted up whenever its dialog opens; a request in flight knows the
  mount that sent it.
\<close>

record release_form =
  rf_code :: string
  rf_name :: string
  rf_type :: string
  rf_title :: string
  rf_notes :: string
  rf_min :: string
  rf_url :: string

record releases_page =
  rl_error :: string
  rl_showCreate :: bool
  showUpload :: bool
  uploadReleaseId :: string
  rl_form :: release_form
  rl_query :: query
  rl_calls :: "release_call list"
  rl_said :: "notice list"
  up_mount :: nat
  up_file :: "string option"
  uploading :: bool
  up_error :: string
  up_calls :: "(nat \<times> string) list"

datatype release_event =
    ShowCreate
  | HideCreate
  | SetReleaseForm release_form
  | CreateClick
  | SubmitClick string
  | ApproveClick string
  | RejectClick string "string option"
  | PublishClick string bool
  | DeleteClick string bool
  | DismissRelease
  | OpenUpload string
  | HideUpload
  | ChooseFile "string option"
  | UploadSubmit
  | UploadSettles nat string "js_error + jsval"
  | ReleasesAnswer "js_error + jsval"
  | ReleaseSettles release_call "js_error + jsval"

definition blank_release :: release_form where
  "blank_release = \<lparr>rf_code = [], rf_name = [], rf_type = ''normal'', rf_title = [], rf_notes = [], rf_min = ''1'', rf_url = []\<rparr>"

definition releases_initial :: releases_page where
  "releases_initial = \<lparr>rl_error = [], rl_showCreate = False, showUpload = False, uploadReleaseId = [], rl_form = blank_release,
     rl_query = Loading, rl_calls = [], rl_said = [], up_mount = 0, up_file = None, uploading = False, up_error = [], up_calls = []\<rparr>"

definition releases_service :: service where
  "releases_service = Service (get_req ''/admin/releases'')
     (on_body (\<lambda>b. sbind (js_get b ''data'') (\<lambda>d. Inr (js_or (opt_get d ''data'') (JArr [])))))"

definition release_body :: "release_form \<Rightarrow> jsval" where
  "release_body f = JObj [(''version_code'', int_json (parse_int (rf_code f))), (''version_name'', JStr (rf_name f)),
     (''release_type'', JStr (rf_type f)), (''title'', JStr (rf_title f)), (''release_notes'', JStr (rf_notes f)),
     (''min_required_version'', JNum (int_or_one (parse_int (rf_min f)))), (''apk_url'', JStr (rf_url f))]"

definition release_url :: "string \<Rightarrow> string \<Rightarrow> string" where
  "release_url i action = ''/admin/releases/'' @ i @ action"

fun release_request :: "release_call \<Rightarrow> request" where
  "release_request (CreateRelease b) = post_req ''/admin/releases'' b"
| "release_request (SubmitRelease i) = post_req (release_url i ''/submit'') JUndef"
| "release_request (ApproveRelease i) = post_req (release_url i ''/approve'') JUndef"
| "release_request (RejectRelease i why) = post_req (release_url i ''/reject'') (JObj [(''reason'', JStr why)])"
| "release_request (PublishRelease i) = post_req (release_url i ''/release'') JUndef"
| "release_request (DeleteRelease i) = delete_req (release_url i [])"

section \<open>Handlers\<close>

definition rl_send :: "release_call \<Rightarrow> releases_page \<Rightarrow> releases_page" where
  "rl_send c s = s\<lparr>rl_calls := rl_calls s @ [c]\<rparr>"

text \<open>Every mutation clears the banner and tells of its success, or shows its failure in both places.\<close>

fun release_texts :: "release_call \<Rightarrow> string \<times> string" where
  "release_texts (CreateRelease b) = (''Release created'', ''Failed to create release'')"
| "release_texts (SubmitRelease i) = (''Release submitted for approval'', ''Failed to submit'')"
| "release_texts (ApproveRelease i) = (''Release approved'', ''Failed to approve'')"
| "release_texts (RejectRelease i w) = (''Release rejected'', ''Failed to reject'')"
| "release_texts (PublishRelease i) = (''Release published'', ''Failed to publish'')"
| "release_texts (DeleteRelease i) = (''Release deleted'', ''Failed to delete'')"

fun creates_release :: "release_call \<Rightarrow> jsval option" where
  "creates_release (CreateRelease b) = Some b" | "creates_release _ = None"

definition release_callback :: "release_call \<Rightarrow> js_error + jsval \<Rightarrow> releases_page \<Rightarrow> releases_page" where
  "release_callback c =
     mutation_settles
       (\<lambda>d s. (if creates_release c \<noteq> None then s\<lparr>rl_showCreate := False, rl_form := blank_release\<rparr> else s)
          \<lparr>rl_error := [], rl_said := rl_said s @ [note_ok (fst (release_texts c))]\<rparr>)
       (\<lambda>e s. s\<lparr>rl_error := or_text (err_message e) (snd (release_texts c)),
                rl_said := rl_said s @ [note_error e (snd (release_texts c))]\<rparr>)"

definition release_settles :: "release_call \<Rightarrow> js_error + jsval \<Rightarrow> releases_page \<Rightarrow> releases_page" where
  "release_settles c r s = (release_callback c r s)\<lparr>rl_calls := remove1 c (rl_calls s)\<rparr>"

text \<open>\<open>handlePublish\<close>, \<open>handleDelete\<close>, \<open>handleReject\<close>.\<close>

definition handlePublish :: "string \<Rightarrow> bool \<Rightarrow> releases_page \<Rightarrow> releases_page" where
  "handlePublish i agreed s = (if agreed then rl_send (PublishRelease i) s else s)"

definition handleDelete_release :: "string \<Rightarrow> bool \<Rightarrow> releases_page \<Rightarrow> releases_page" where
  "handleDelete_release i agreed s = (if agreed then rl_send (DeleteRelease i) s else s)"

definition handleReject :: "string \<Rightarrow> string option \<Rightarrow> releases_page \<Rightarrow> releases_page" where
  "handleReject i reason s = (case reason of None \<Rightarrow> s | Some w \<Rightarrow> rl_send (RejectRelease i w) s)"

text \<open>The upload: its component starts afresh each time its dialog opens, and stays while it is open.\<close>

definition open_upload :: "string \<Rightarrow> releases_page \<Rightarrow> releases_page" where
  "open_upload i s =
     (if showUpload s then s\<lparr>uploadReleaseId := i\<rparr>
      else s\<lparr>uploadReleaseId := i, showUpload := True, up_mount := Suc (up_mount s), up_file := None, uploading := False,
        up_error := []\<rparr>)"

definition upload_url :: "string \<Rightarrow> string" where
  "upload_url i = release_url i ''/upload''"

definition handleUpload :: "releases_page \<Rightarrow> releases_page" where
  "handleUpload s =
     (if up_file s = None then s
      else s\<lparr>uploading := True, up_error := [], up_calls := up_calls s @ [(up_mount s, uploadReleaseId s)]\<rparr>)"

text \<open>\<open>onDone\<close> is of the page; the other updates are lost when the component is no longer there.\<close>

definition upload_settled :: "nat \<Rightarrow> js_error + jsval \<Rightarrow> releases_page \<Rightarrow> releases_page" where
  "upload_settled m r s =
     (let here = (showUpload s \<and> up_mount s = m)
      in case sbind r (\<lambda>b. js_get b ''success'') of
        Inl e \<Rightarrow> if here then s\<lparr>up_error := err_message e, uploading := False\<rparr> else s
      | Inr ok \<Rightarrow>
          let s1 = (if truthy ok then s\<lparr>showUpload := False\<rparr> else s)
          in if here then s1\<lparr>uploading := False\<rparr> else s1)"

fun releases_step :: "releases_page \<Rightarrow> release_event \<Rightarrow> releases_page" where
  "releases_step s ShowCreate = s\<lparr>rl_showCreate := True\<rparr>"
| "releases_step s HideCreate = s\<lparr>rl_showCreate := False\<rparr>"
| "releases_step s (SetReleaseForm f) = s\<lparr>rl_form := f\<rparr>"
| "releases_step s CreateClick = rl_send (CreateRelease (release_body (rl_form s))) s"
| "releases_step s (SubmitClick i) = rl_send (SubmitRelease i) s"
| "releases_step s (ApproveClick i) = rl_send (ApproveRelease i) s"
| "releases_step s (RejectClick i w) = handleReject i w s"
| "releases_step s (PublishClick i b) = handlePublish i b s"
| "releases_step s (DeleteClick i b) = handleDelete_release i b s"
| "releases_step s DismissRelease = s\<lparr>rl_error := []\<rparr>"
| "releases_step s (OpenUpload i) = open_upload i s"
| "releases_step s HideUpload = s\<lparr>showUpload := False\<rparr>"
| "releases_step s (ChooseFile f) = s\<lparr>up_file := f\<rparr>"
| "releases_step s UploadSubmit = handleUpload s"
| "releases_step s (UploadSettles m i r) =
     (if (m, i) \<in> set (up_calls s) then upload_settled m r (s\<lparr>up_calls := remove1 (m, i) (up_calls s)\<rparr>) else s)"
| "releases_step s (ReleasesAnswer r) = s\<lparr>rl_query := query_answered r (rl_query s)\<rparr>"
| "releases_step s (ReleaseSettles c r) = (if c \<in> set (rl_calls s) then release_settles c r s else s)"

section \<open>View\<close>

definition status_label :: "jsval \<Rightarrow> string" where
  "status_label r =
     (case map_of [(''draft'', ''Draft''), (''pending_approval'', ''Pending Approval''), (''approved'', ''Approved''),
         (''released'', ''Released''), (''rejected'', ''Rejected'')] (to_str (opt_get r ''status'')) of
        None \<Rightarrow> text_of r ''status'' | Some l \<Rightarrow> l)"

definition rl_busy :: "(release_call \<Rightarrow> bool) \<Rightarrow> releases_page \<Rightarrow> bool" where
  "rl_busy k s \<longleftrightarrow> list_ex k (rl_calls s)"

fun is_submit :: "release_call \<Rightarrow> bool" where "is_submit (SubmitRelease i) = True" | "is_submit _ = False"
fun is_approve :: "release_call \<Rightarrow> bool" where "is_approve (ApproveRelease i) = True" | "is_approve _ = False"
fun is_reject :: "release_call \<Rightarrow> bool" where "is_reject (RejectRelease i w) = True" | "is_reject _ = False"
fun is_publish :: "release_call \<Rightarrow> bool" where "is_publish (PublishRelease i) = True" | "is_publish _ = False"
fun is_delete :: "release_call \<Rightarrow> bool" where "is_delete (DeleteRelease i) = True" | "is_delete _ = False"

definition asking_button :: "bool \<Rightarrow> release_event handler list \<Rightarrow> string \<Rightarrow> release_event vnode" where
  "asking_button busy hs label = Button (button\<lparr>b_on := hs, b_loading := busy\<rparr>) [Txt label]"

definition release_actions :: "releases_page \<Rightarrow> jsval \<Rightarrow> release_event vnode" where
  "release_actions s r =
     (let i = row_id r; st = opt_get r ''status''
      in box (when_do (st = JStr ''draft'')
                [small_button False False (OpenUpload i) ''Upload APK'',
                 small_button (rl_busy is_submit s) False (SubmitClick i) ''Submit'',
                 asking_button (rl_busy is_delete s) [On ''click'' (DeleteClick i True), On ''click'' (DeleteClick i False)] ''Delete''] @
              when_do (st = JStr ''pending_approval'')
                [small_button (rl_busy is_approve s) False (ApproveClick i) ''Approve'',
                 asking_button (rl_busy is_reject s)
                   [OnText ''click'' (\<lambda>t. RejectClick i (Some t)), On ''click'' (RejectClick i None)] ''Reject''] @
              when_do (st = JStr ''approved'')
                [asking_button (rl_busy is_publish s) [On ''click'' (PublishClick i True), On ''click'' (PublishClick i False)] ''Publish'']))"

definition release_size :: "jsval \<Rightarrow> 'e vnode list" where
  "release_size r = (case opt_get r ''apk_size_bytes'' of JNum n \<Rightarrow> when_do (n > 0) [span [Txt (formatBytes (nat n))]] | _ \<Rightarrow> [])"

definition release_card :: "(string \<Rightarrow> string) \<Rightarrow> (string \<Rightarrow> string) \<Rightarrow> releases_page \<Rightarrow> jsval \<Rightarrow> release_event vnode" where
  "release_card locale_time locale_date s r =
     (let forced = (opt_get r ''release_type'' = JStr ''force'')
      in Card False [box [box (
           [box [El ''h3'' [] [] [Txt (if truthy (opt_get r ''title'') then text_of r ''title'' else ''v'' @ to_str (opt_get r ''version_name''))],
                 Badge True [Txt (status_label r)], Badge False [Txt (if forced then ''Force Update'' else ''Normal'')]],
            box ([span [Txt (''v'' @ text_of r ''version_name'' @ '' (code: '' @ text_of r ''version_code'' @ '')'')],
                  span [Txt (''Min: v'' @ text_of r ''min_required_version'')]] @ release_size r @
                 [span [Txt (''By: '' @ text_of r ''submitted_by_name'')], span [Txt (locale_date (to_str (opt_get r ''created_at'')))]])] @
           when_do (truthy (opt_get r ''release_notes'')) [El ''p'' [] [] [Txt (text_of r ''release_notes'')]] @
           when_do (truthy (opt_get r ''rejection_reason'')) [El ''p'' [] [] [Txt (''Rejected: '' @ text_of r ''rejection_reason'')]] @
           when_do (truthy (opt_get r ''released_at'')) [El ''p'' [] [] [Txt (''Released: '' @ locale_time (to_str (opt_get r ''released_at'')))]]),
         release_actions s r]])"

definition release_input :: "string \<Rightarrow> attrs \<Rightarrow> string \<Rightarrow> (string \<Rightarrow> release_form) \<Rightarrow> release_event vnode" where
  "release_input label rest v put =
     Input (input\<lparr>i_label := Some label, i_rest := rest @ [(''value'', v)], i_on := [OnText ''change'' (\<lambda>t. SetReleaseForm (put t))]\<rparr>)"

definition create_modal_release :: "releases_page \<Rightarrow> release_event vnode list" where
  "create_modal_release s =
     (let f = rl_form s; num = (''type'', ''number'')
      in Modal (rl_showCreate s) HideCreate (Some ''New App Release'') None
           [box [release_input ''Version Code'' [num, (''placeholder'', ''1''), (''required'', [])] (rf_code f) (\<lambda>t. f\<lparr>rf_code := t\<rparr>),
                 release_input ''Version Name'' [(''placeholder'', ''1.0.0''), (''required'', [])] (rf_name f) (\<lambda>t. f\<lparr>rf_name := t\<rparr>),
                 release_input ''Min Required Version'' [num, (''placeholder'', ''1'')] (rf_min f) (\<lambda>t. f\<lparr>rf_min := t\<rparr>),
                 select_box ''Release Type'' (rf_type f) [(''normal'', ''Normal Update''), (''force'', ''Force Update'')]
                   (\<lambda>t. SetReleaseForm (f\<lparr>rf_type := t\<rparr>)),
                 release_input ''Title'' [(''placeholder'', ''Version 1.1.0'')] (rf_title f) (\<lambda>t. f\<lparr>rf_title := t\<rparr>),
                 box [El ''label'' [] [] [Txt ''Release Notes''],
                      El ''textarea'' [(''value'', rf_notes f)] [OnText ''change'' (\<lambda>t. SetReleaseForm (f\<lparr>rf_notes := t\<rparr>))] []],
                 release_input ''APK Download URL (optional)'' [(''placeholder'', ''https://example.com/app-v1.0.0.apk'')] (rf_url f)
                   (\<lambda>t. f\<lparr>rf_url := t\<rparr>)]]
           [small_button False False HideCreate ''Cancel'', small_button (rl_busy (\<lambda>c. creates_release c \<noteq> None) s) False CreateClick ''Create''])"

definition APKUpload :: "releases_page \<Rightarrow> release_event vnode" where
  "APKUpload s =
     El ''form'' [] [On ''submit'' UploadSubmit]
       ([El ''input'' [(''type'', ''file''), (''name'', ''apk''), (''accept'', ''.apk''), (''required'', []),
           (''value'', case up_file s of None \<Rightarrow> [] | Some f \<Rightarrow> f)] [OnText ''change'' (\<lambda>t. ChooseFile (Some t)), On ''change'' (ChooseFile None)] []] @
        when_do (up_error s \<noteq> []) [El ''p'' [] [] [Txt (up_error s)]] @
        [submit_control (uploading s) False [Txt ''Upload APK'']])"

definition releases_view :: "(string \<Rightarrow> string) \<Rightarrow> (string \<Rightarrow> string) \<Rightarrow> releases_page \<Rightarrow> release_event vnode list" where
  "releases_view locale_time locale_date s =
     (if rl_query s = Loading then [PageSkeleton]
      else [hero ''App Releases'' ''Manage Android app versions and force updates'' [small_button False False ShowCreate ''New Release'']] @
           error_banner (rl_error s) DismissRelease @
           [if features_of (rl_query s) = [] then
              EmptyState ''No releases yet'' (Some ''Create your first app release to start distributing updates.'')
                (Some (small_button False False ShowCreate ''Create Release''))
            else box (map (release_card locale_time locale_date s) (features_of (rl_query s)))] @
           create_modal_release s @
           Modal (showUpload s) HideUpload (Some ''Upload APK'') None [APKUpload s] [])"

section \<open>Numbers in requests\<close>

lemma digit_chars:
  "d < 10 \<Longrightarrow> digit_char d \<noteq> CHR ''-''" "d < 10 \<Longrightarrow> digit_char d \<noteq> CHR ''+''" "d < 10 \<Longrightarrow> \<not> is_space (digit_char d)"
  "d < 10 \<Longrightarrow> decimal_val (digit_char d) = Some d"
  using char_code_digit [of d] by (auto simp: char_code_def is_space_def decimal_val_def)

lemma decimal_digit: "is_digit c \<Longrightarrow> decimal_val c = Some (digit_val c)"
  by (simp add: decimal_val_def)

lemma digits_run:
  "list_all is_digit t \<Longrightarrow> (case u of [] \<Rightarrow> True | c # cs \<Rightarrow> \<not> is_digit c) \<Longrightarrow>
    digits_value 10 decimal_val acc (t @ u) = foldl (\<lambda>n c. 10 * n + digit_val c) acc t"
  by (induction t arbitrary: acc) (auto simp: decimal_val_def split: list.splits)

lemma show_nat_value: "foldl (\<lambda>n c. 10 * n + digit_val c) 0 (show_nat n) = n"
proof (induction n rule: show_nat.induct)
  case (1 n)
  show ?case
  proof (cases "n < 10")
    case True
    then show ?thesis by (subst show_nat.simps) simp
  next
    case False
    with 1 show ?thesis by (subst show_nat.simps) simp
  qed
qed

lemma digit_not_sign: "is_digit c \<Longrightarrow> c \<noteq> CHR ''-'' \<and> c \<noteq> CHR ''+'' \<and> \<not> is_space c"
  by (auto simp: is_digit_def is_space_def char_code_def)

lemma show_nat_leads:
  obtains c cs where "show_nat n = c # cs" "is_digit c" "list_all is_digit cs"
  using show_nat_digits [of n] show_nat_nonempty [of n] by (cases "show_nat n") auto

text \<open>The text of a number, followed by anything but a digit (or by an x after a zero), is read as that number.\<close>

lemma leading_show:
  assumes "case u of [] \<Rightarrow> True | c # cs \<Rightarrow> \<not> is_digit c"
  shows "leading_number 10 decimal_val (show_nat n @ u) = Some n"
proof -
  obtain c cs where c: "show_nat n = c # cs" "is_digit c" by (rule show_nat_leads)
  have "digits_value 10 decimal_val 0 (show_nat n @ u) = n"
    using digits_run [OF show_nat_digits assms] show_nat_value by simp
  with c show ?thesis by (simp add: leading_number_def decimal_digit)
qed

lemma no_hex:
  assumes "case u of [] \<Rightarrow> True | c # cs \<Rightarrow> \<not> is_digit c \<and> c \<noteq> CHR ''x'' \<and> c \<noteq> CHR ''X''"
  shows "take 2 (show_nat n @ u) \<noteq> ''0x'' \<and> take 2 (show_nat n @ u) \<noteq> ''0X''"
proof -
  obtain c cs where c: "show_nat n = c # cs" "list_all is_digit cs" by (rule show_nat_leads)
  have "\<not> is_digit CHR ''x''" "\<not> is_digit CHR ''X''" by (simp_all add: is_digit_def char_code_def)
  then show ?thesis using c assms by (cases cs; cases u) (auto simp: numeral_2_eq_2)
qed

lemma parse_int_show:
  assumes "case u of [] \<Rightarrow> True | c # cs \<Rightarrow> \<not> is_digit c \<and> c \<noteq> CHR ''x'' \<and> c \<noteq> CHR ''X''"
  shows "parse_int (show_int k @ u) = Some k"
proof -
  have u: "case u of [] \<Rightarrow> True | c # cs \<Rightarrow> \<not> is_digit c" using assms by (auto split: list.splits)
  have nonneg: "parse_int (show_nat n @ u) = Some (int n)" for n
  proof -
    obtain c cs where c: "show_nat n = c # cs" "is_digit c" by (rule show_nat_leads)
    then have "take 1 (show_nat n @ u) \<noteq> ''-''" "take 1 (show_nat n @ u) \<noteq> ''+''" "dropWhile is_space (show_nat n @ u) = show_nat n @ u"
      using digit_not_sign [of c] by simp_all
    then show ?thesis using no_hex [OF assms, of n] leading_show [OF u, of n] by (simp add: parse_int_def Let_def)
  qed
  have "parse_int (CHR ''-'' # show_nat n @ u) = Some (- int n)" for n
    using no_hex [OF assms, of n] leading_show [OF u, of n]
    by (simp add: parse_int_def Let_def is_space_def char_code_def)
  with nonneg show ?thesis by (simp add: show_int_def)
qed

text \<open>
  C29. How the numbers of a release are read: a version code typed as a number is sent as that number, and so
  is one with an exponent or a fraction after it, which a number field accepts: 1e5 is sent as 1. Without
  a version code the button is offered all the same and \<open>null\<close> is sent. The required version is never
  sent as zero.
\<close>

theorem release_numbers:
  assumes "rl_query s \<noteq> Loading" and "rl_showCreate s" and "rl_calls s = []"
  shows "opt_get (release_body (f\<lparr>rf_code := show_int k\<rparr>)) ''version_code'' = JNum k \<and>
    opt_get (release_body (f\<lparr>rf_code := show_int k @ ''e'' @ t\<rparr>)) ''version_code'' = JNum k \<and>
    opt_get (release_body (f\<lparr>rf_code := show_int k @ ''.'' @ t\<rparr>)) ''version_code'' = JNum k \<and>
    (rf_code (rl_form s) = [] \<longrightarrow> list_fire (releases_view lt ld s) CreateClick \<and>
      (\<exists>b. rl_calls (releases_step s CreateClick) = [CreateRelease b] \<and> opt_get b ''version_code'' = JNull)) \<and>
    opt_get (release_body f) ''min_required_version'' \<noteq> JNum 0"
proof (intro conjI impI)
  have e: "case ''e'' @ t of [] \<Rightarrow> True | c # cs \<Rightarrow> \<not> is_digit c \<and> c \<noteq> CHR ''x'' \<and> c \<noteq> CHR ''X''"
    "case ''.'' @ t of [] \<Rightarrow> True | c # cs \<Rightarrow> \<not> is_digit c \<and> c \<noteq> CHR ''x'' \<and> c \<noteq> CHR ''X''"
    by (simp_all add: is_digit_def char_code_def)
  show "opt_get (release_body (f\<lparr>rf_code := show_int k\<rparr>)) ''version_code'' = JNum k"
    using parse_int_show [of "[]" k] by (simp add: release_body_def int_json_def)
  show "opt_get (release_body (f\<lparr>rf_code := show_int k @ ''e'' @ t\<rparr>)) ''version_code'' = JNum k"
    "opt_get (release_body (f\<lparr>rf_code := show_int k @ ''.'' @ t\<rparr>)) ''version_code'' = JNum k"
    using parse_int_show [OF e(1), of k] parse_int_show [OF e(2), of k] by (simp_all add: release_body_def int_json_def)
  show "opt_get (release_body f) ''min_required_version'' \<noteq> JNum 0"
    by (auto simp: release_body_def int_or_one_def split: option.splits)
  assume empty: "rf_code (rl_form s) = []"
  show "list_fire (releases_view lt ld s) CreateClick"
    using assms by (auto simp: releases_view_def create_modal_release_def Modal_def rl_busy_def Let_def)
  show "\<exists>b. rl_calls (releases_step s CreateClick) = [CreateRelease b] \<and> opt_get b ''version_code'' = JNull"
    using assms empty by (auto simp: rl_busy_def rl_send_def release_body_def int_json_def parse_int_def leading_number_def Let_def)
qed

definition new_release :: releases_page where
  "new_release = foldl releases_step releases_initial [ReleasesAnswer (Inr (JArr [])), ShowCreate]"

lemma new_release_facts: "rl_query new_release \<noteq> Loading" "rl_showCreate new_release" "rl_calls new_release = []" "rf_code (rl_form new_release) = []"
  by (simp_all add: new_release_def releases_initial_def blank_release_def)

theorem release_numbers_witness:
  "opt_get (release_body (blank_release\<lparr>rf_code := show_int 1 @ ''e'' @ ''5''\<rparr>)) ''version_code'' = JNum 1
    \<and> (\<exists>b. rl_calls (releases_step new_release CreateClick) = [CreateRelease b] \<and> opt_get b ''version_code'' = JNull)"
  using release_numbers [OF new_release_facts(1-3), where f = blank_release and k = 1 and t = "''5''"]
    new_release_facts(4) by blast

section \<open>Sizes\<close>

lemma size_unit_bounds: "0 < n \<Longrightarrow> 1024 ^ size_unit n \<le> n \<and> n < 1024 * 1024 ^ size_unit n"
proof (induction n rule: size_unit.induct)
  case (1 n)
  show ?case
  proof (cases "n < 1024")
    case True
    then show ?thesis using 1(2) by (subst (1 2) size_unit.simps) simp
  next
    case False
    then have "0 < n div 1024" by simp
    with 1(1) [OF False] have "1024 ^ size_unit (n div 1024) \<le> n div 1024" "n div 1024 < 1024 * 1024 ^ size_unit (n div 1024)" by auto
    then have "1024 * 1024 ^ size_unit (n div 1024) \<le> n" "n < 1024 * (1024 * 1024 ^ size_unit (n div 1024))" by linarith+
    moreover have "size_unit n = Suc (size_unit (n div 1024))" using False by (subst size_unit.simps) simp
    ultimately show ?thesis by simp
  qed
qed

lemma size_unit_small: "n < 1024 ^ Suc k \<Longrightarrow> size_unit n \<le> k"
proof (rule ccontr)
  assume n: "n < 1024 ^ Suc k" and "\<not> size_unit n \<le> k"
  then have "Suc k \<le> size_unit n" by simp
  then have "(1024::nat) ^ Suc k \<le> 1024 ^ size_unit n" by (rule power_increasing) simp
  moreover have "0 < n" using \<open>Suc k \<le> size_unit n\<close> by (cases n) (simp_all add: size_unit.simps)
  ultimately show False using size_unit_bounds [of n] n by linarith
qed

text \<open>
  The size of a file is shown within a twentieth of its unit: for every positive size below a terabyte
  the unit is the largest that fits, the number shown is at least one and at most 1024, and it is the size
  in that unit rounded to one place. (Just below a unit the number is 1024 of the smaller one.)
\<close>

theorem sizes_are_rounded:
  assumes "0 < n" and "n < 1024 ^ 4"
  shows "\<exists>u k. u < 4 \<and> formatBytes n = show_tenths k @ '' '' @ [''B'', ''KB'', ''MB'', ''GB''] ! u \<and>
    1024 ^ u \<le> n \<and> n < 1024 * 1024 ^ u \<and> 10 \<le> k \<and> k \<le> 10240 \<and>
    2 * k * 1024 ^ u \<le> 20 * n + 1024 ^ u \<and> 20 * n < 2 * k * 1024 ^ u + 1024 ^ u"
proof -
  let ?u = "size_unit n" and ?k = "size_tenths n"
  define p :: nat where "p = 1024 ^ ?u"
  have p: "0 < p" by (simp add: p_def)
  have b: "p \<le> n" "n < 1024 * p" using size_unit_bounds [OF assms(1)] by (simp_all add: p_def)
  have k: "?k = (20 * n + p) div (2 * p)" by (simp add: size_tenths_def p_def)
  have "2 * p * ?k \<le> 20 * n + p" "20 * n + p < 2 * p * ?k + 2 * p"
    using mult_div_mod_eq [of "2 * p" "20 * n + p"] mod_less_divisor [of "2 * p" "20 * n + p"] p unfolding k by linarith+
  moreover have "10 \<le> ?k" using b(1) p unfolding k by (simp add: less_eq_div_iff_mult_less_eq)
  moreover have "20 * n + p < 10241 * (2 * p)" using b(2) by linarith
  then have "?k \<le> 10240" unfolding k using p by (simp add: div_less_iff_less_mult less_Suc_eq_le [symmetric])
  moreover have "?u < 4" using size_unit_small [of n 3] assms(2) by simp
  moreover have "formatBytes n = show_tenths ?k @ '' '' @ [''B'', ''KB'', ''MB'', ''GB''] ! ?u"
    using assms(1) \<open>?u < 4\<close> by (simp add: formatBytes_def size_names_def)
  ultimately show ?thesis
    using b unfolding p_def by (intro exI [of _ ?u] exI [of _ ?k]) (auto simp: ac_simps)
qed

theorem sizes_are_rounded_witness:
  "\<exists>k. 10 \<le> k \<and> k \<le> 10240 \<and> (formatBytes 1536 = show_tenths k @ '' '' @ ''KB'')"
proof -
  obtain u k where u: "u < 4" "formatBytes 1536 = show_tenths k @ '' '' @ [''B'', ''KB'', ''MB'', ''GB''] ! u"
      "1024 ^ u \<le> (1536::nat)" "(1536::nat) < 1024 * 1024 ^ u" "10 \<le> k" "k \<le> 10240"
    using sizes_are_rounded [of 1536] by auto
  from u(1) have "u = 0 \<or> u = 1 \<or> u = 2 \<or> u = 3" by linarith
  then have "u = 1" using u(3,4) by auto
  with u show ?thesis by auto
qed

section \<open>What a release goes through\<close>

text \<open>The release a call is about, and the status the list must show for it.\<close>

fun about_release :: "release_call \<Rightarrow> (string \<times> string) option" where
  "about_release (CreateRelease b) = None"
| "about_release (SubmitRelease i) = Some (i, ''draft'')"
| "about_release (ApproveRelease i) = Some (i, ''pending_approval'')"
| "about_release (RejectRelease i w) = Some (i, ''pending_approval'')"
| "about_release (PublishRelease i) = Some (i, ''approved'')"
| "about_release (DeleteRelease i) = Some (i, ''draft'')"

fun acts :: "release_event \<Rightarrow> bool" where
  "acts (SubmitClick i) = True" | "acts (ApproveClick i) = True" | "acts (RejectClick i w) = True"
| "acts (PublishClick i b) = True" | "acts (DeleteClick i b) = True" | "acts e = False"

lemma action_fires:
  "may_fire (release_actions s r) e \<longleftrightarrow>
     opt_get r ''status'' = JStr ''draft'' \<and> (e = OpenUpload (row_id r) \<or> e = SubmitClick (row_id r) \<and> \<not> rl_busy is_submit s
        \<or> (\<exists>b. e = DeleteClick (row_id r) b) \<and> \<not> rl_busy is_delete s) \<or>
     opt_get r ''status'' = JStr ''pending_approval'' \<and> (e = ApproveClick (row_id r) \<and> \<not> rl_busy is_approve s
        \<or> (\<exists>w. e = RejectClick (row_id r) w) \<and> \<not> rl_busy is_reject s) \<or>
     opt_get r ''status'' = JStr ''approved'' \<and> (\<exists>b. e = PublishClick (row_id r) b) \<and> \<not> rl_busy is_publish s"
proof -
  have b: "(\<exists>b. e = F b) \<longleftrightarrow> e = F True \<or> e = F False" for F :: "bool \<Rightarrow> release_event" by (metis (full_types))
  have w: "(\<exists>w. e = F w) \<longleftrightarrow> (\<exists>t. e = F (Some t)) \<or> e = F None" for F :: "string option \<Rightarrow> release_event"
    by (metis option.exhaust)
  show ?thesis
    unfolding release_actions_def Let_def b w by (auto simp: asking_button_def when_do_def)
qed

lemma card_acts: "acts e \<Longrightarrow> may_fire (release_card lt ld s r) e \<longleftrightarrow> may_fire (release_actions s r) e"
  by (auto simp: release_card_def Let_def Card_def release_size_def when_do_def split: jsval.splits)

lemma modal_acts: "acts e \<Longrightarrow> \<not> list_fire (create_modal_release s) e" "acts e \<Longrightarrow> \<not> may_fire (APKUpload s) e"
  by (auto simp: create_modal_release_def Modal_def release_input_def Let_def when_do_def APKUpload_def)

lemma view_acts:
  "acts e \<Longrightarrow> list_fire (releases_view lt ld s) e \<Longrightarrow> \<exists>r \<in> set (features_of (rl_query s)). may_fire (release_actions s r) e"
  using modal_acts [of e s]
  by (auto simp: releases_view_def list_fire_map card_acts Modal_def when_do_def split: if_splits)

lemma only_acts_send:
  "rl_calls (releases_step s e) = rl_calls s @ [c] \<Longrightarrow> about_release c = Some (i, st) \<Longrightarrow> \<forall>d r. e \<noteq> ReleaseSettles d r \<Longrightarrow>
    acts e \<and> (c = SubmitRelease i \<and> e = SubmitClick i \<or> c = ApproveRelease i \<and> e = ApproveClick i
      \<or> (\<exists>w. c = RejectRelease i w \<and> e = RejectClick i (Some w)) \<or> c = PublishRelease i \<and> e = PublishClick i True
      \<or> c = DeleteRelease i \<and> e = DeleteClick i True)"
  by (cases e) (auto simp: rl_send_def handleReject_def handlePublish_def handleDelete_release_def open_upload_def handleUpload_def
      upload_settled_def Let_def split: if_splits option.splits sum.splits)

text \<open>
  The page sends what the status allows: whatever the user does, a request about a release is sent only
  while the list shows the release with the status the request is for (a draft is submitted or deleted,
  a pending release approved or rejected, an approved one published), while no other request of its kind
  is in flight, and, for publishing, deleting and rejecting, only after the user has agreed.
\<close>

theorem release_actions_follow_the_status:
  assumes "list_fire (releases_view lt ld s) e" and "rl_calls (releases_step s e) = rl_calls s @ [c]" and "about_release c = Some (i, st)"
    and "\<forall>d r. e \<noteq> ReleaseSettles d r"
  shows "(\<exists>r \<in> set (features_of (rl_query s)). row_id r = i \<and> opt_get r ''status'' = JStr st) \<and>
    (\<forall>d \<in> set (rl_calls s). \<not> (is_submit c \<and> is_submit d \<or> is_approve c \<and> is_approve d \<or> is_reject c \<and> is_reject d \<or>
       is_publish c \<and> is_publish d \<or> is_delete c \<and> is_delete d)) \<and>
    e \<noteq> PublishClick i False \<and> e \<noteq> DeleteClick i False \<and> e \<noteq> RejectClick i None"
proof -
  note sent = only_acts_send [OF assms(2-4)]
  then obtain r where "r \<in> set (features_of (rl_query s))" "may_fire (release_actions s r) e"
    using view_acts assms(1) by blast
  with sent assms(3) show ?thesis by (auto simp: action_fires rl_busy_def list_ex_iff)
qed

definition one_draft :: releases_page where
  "one_draft = releases_step releases_initial
     (ReleasesAnswer (Inr (JArr [JObj [(''id'', JStr ''7''), (''status'', JStr ''draft'')]])))"

theorem release_actions_follow_the_status_witness:
  "rl_calls (releases_step one_draft (SubmitClick ''7'')) = [SubmitRelease ''7''] \<and>
   (\<exists>r \<in> set (features_of (rl_query one_draft)). row_id r = ''7'' \<and> opt_get r ''status'' = JStr ''draft'')"
proof -
  have s: "rl_calls one_draft = []" "rl_query one_draft = Ready (JArr [JObj [(''id'', JStr ''7''), (''status'', JStr ''draft'')]])"
    by (simp_all add: one_draft_def releases_initial_def)
  have "list_fire (releases_view (\<lambda>t. t) (\<lambda>t. t) one_draft) (SubmitClick ''7'')"
    using s by (simp add: releases_view_def features_of_def query_data_def items_of_def card_acts action_fires row_id_def rl_busy_def)
  moreover have "rl_calls (releases_step one_draft (SubmitClick ''7'')) = rl_calls one_draft @ [SubmitRelease ''7'']"
    by (simp add: rl_send_def)
  ultimately have "\<exists>r \<in> set (features_of (rl_query one_draft)). row_id r = ''7'' \<and> opt_get r ''status'' = JStr ''draft''"
    using release_actions_follow_the_status [of "\<lambda>t. t" "\<lambda>t. t" one_draft "SubmitClick ''7''" "SubmitRelease ''7''" "''7''" "''draft''"] by simp
  with s show ?thesis by (simp add: rl_send_def)
qed

text \<open>
  What the dialog of the upload does not keep apart: an answer without success is shown nowhere, and the
  form waits as if nothing had been sent; and the success of an upload whose dialog was closed closes
  the dialog of the next upload, whatever the release it is for.
\<close>

theorem uploads_reach_the_wrong_dialog:
  assumes "\<not> showUpload s" and "up_calls s = []" and "i \<noteq> j"
  shows "let s1 = foldl releases_step s [OpenUpload i, ChooseFile (Some f), UploadSubmit];
      s2 = foldl releases_step s1 [HideUpload, OpenUpload j, ChooseFile (Some g)];
      m = Suc (up_mount s)
    in up_calls s1 = [(m, i)] \<and>
       (let s3 = releases_step s1 (UploadSettles m i (Inr (JObj [(''success'', JBool False)])))
        in showUpload s3 \<and> up_error s3 = [] \<and> \<not> uploading s3 \<and> up_file s3 = Some f \<and> rl_said s3 = rl_said s) \<and>
       showUpload s2 \<and> uploadReleaseId s2 = j \<and>
       \<not> showUpload (releases_step s2 (UploadSettles m i (Inr (JObj [(''success'', JBool True)]))))"
  using assms by (simp add: Let_def open_upload_def handleUpload_def upload_settled_def)

theorem uploads_reach_the_wrong_dialog_witness:
  "\<not> showUpload (foldl releases_step one_draft [OpenUpload ''7'', ChooseFile (Some ''a.apk''), UploadSubmit, HideUpload, OpenUpload ''8'',
      ChooseFile (Some ''b.apk''), UploadSettles 1 ''7'' (Inr (JObj [(''success'', JBool True)]))])"
proof -
  have "\<not> showUpload one_draft" "up_calls one_draft = []" "up_mount one_draft = 0" "''7'' \<noteq> ''8''"
    by (simp_all add: one_draft_def releases_initial_def)
  then show ?thesis
    using uploads_reach_the_wrong_dialog [of one_draft "''7''" "''8''" "''a.apk''" "''b.apk''"]
    by (simp add: Let_def del: releases_step.simps)
qed

end
