(* ===== verification/Figures.thy ===== *)
theory Figures
  imports Complex_Main UiKit JsValue
begin

text \<open>
  The figures the pages show: rounding and \<open>toFixed(1)\<close>, \<open>formatNumber\<close> of \<open>utils/format.ts\<close>, shares of a
  total, and charts, which a library draws from the points it is given. Numbers are rationals where
  the source computes with floating point; \<open>loc\<close> stands for \<open>toLocaleString\<close>.
\<close>

section \<open>Rounding\<close>

definition math_round :: "rat \<Rightarrow> int" where
  "math_round x = \<lfloor>x + 1 / 2\<rfloor>"

definition tenths :: "rat \<Rightarrow> int" where
  "tenths x = \<lfloor>x * 10 + 1 / 2\<rfloor>"

definition show_tenth :: "int \<Rightarrow> string" where
  "show_tenth k = show_int (k div 10) @ ''.'' @ show_int (k mod 10)"

definition to_fixed1 :: "rat \<Rightarrow> string" where
  "to_fixed1 x = (if x < 0 then CHR ''-'' # show_tenth (tenths (- x)) else show_tenth (tenths x))"

lemma math_round_of_int [simp]: "math_round (of_int k) = k"
  by (simp add: math_round_def floor_eq_iff)

lemma tenths_bounds: "\<bar>of_int (tenths x) / 10 - x\<bar> \<le> 1 / 20"
proof -
  have "of_int (tenths x) \<le> x * 10 + 1 / 2" "x * 10 + 1 / 2 < of_int (tenths x) + 1"
    using floor_correct [of "x * 10 + 1 / 2"] by (simp_all add: tenths_def)
  then have "of_int (tenths x) / 10 - x \<le> 1 / 20" "x - of_int (tenths x) / 10 \<le> 1 / 20" by linarith+
  then show ?thesis by linarith
qed

lemma tenths_mono: "x \<le> y \<Longrightarrow> tenths x \<le> tenths y"
  by (simp add: tenths_def floor_mono)

lemma tenths_of_int [simp]: "tenths (of_int k) = 10 * k"
  unfolding tenths_def by (rule floor_unique) auto

section \<open>Numbers\<close>

definition formatNumber :: "(rat \<Rightarrow> string) \<Rightarrow> rat \<Rightarrow> string" where
  "formatNumber loc n =
     (if n \<ge> 1000000 then to_fixed1 (n / 1000000) @ ''M''
      else if n \<ge> 1000 then to_fixed1 (n / 1000) @ ''K''
      else loc n)"

definition formatPercent :: "rat \<Rightarrow> string" where
  "formatPercent n = to_fixed1 (n * 100) @ ''%''"

text \<open>
  An abbreviated number is right to a twentieth of its unit: from a thousand on it is shown in thousands,
  from a million on in millions, with one place; the number shown is at least one, never more than
  1000 before a K (999,950 is shown as 1000.0K), and larger numbers of one unit are never shown smaller.
\<close>

theorem numbers_are_abbreviated:
  assumes "1000 \<le> n"
  shows "\<exists>k. formatNumber loc n = show_tenth k @ (if n < 1000000 then ''K'' else ''M'') \<and>
      \<bar>of_int k / 10 - n / (if n < 1000000 then 1000 else 1000000)\<bar> \<le> 1 / 20 \<and> 10 \<le> k \<and> (n < 1000000 \<longrightarrow> k \<le> 10000) \<and>
      (\<forall>m. n \<le> m \<and> (m < 1000000 \<longleftrightarrow> n < 1000000) \<longrightarrow>
        (\<exists>j. formatNumber loc m = show_tenth j @ (if n < 1000000 then ''K'' else ''M'') \<and> k \<le> j))"
proof (cases "n < 1000000")
  case True
  have m: "formatNumber loc m = show_tenth (tenths (m / 1000)) @ ''K''" if "n \<le> m" "m < 1000000" for m
    using that assms by (simp add: formatNumber_def to_fixed1_def)
  have "tenths (n / 1000) \<le> tenths 1000" using True by (intro tenths_mono) simp
  then have "tenths (n / 1000) \<le> 10000" using tenths_of_int [of 1000] by simp
  moreover have "tenths 1 \<le> tenths (n / 1000)" using assms by (intro tenths_mono) simp
  then have "10 \<le> tenths (n / 1000)" using tenths_of_int [of 1] by simp
  ultimately show ?thesis
    using True m tenths_bounds [of "n / 1000"] tenths_mono
    by (intro exI [of _ "tenths (n / 1000)"]) (auto intro!: exI tenths_mono divide_right_mono)
next
  case False
  have m: "formatNumber loc m = show_tenth (tenths (m / 1000000)) @ ''M''" if "n \<le> m" for m
    using that False by (simp add: formatNumber_def to_fixed1_def)
  have "tenths 1 \<le> tenths (n / 1000000)" using False by (intro tenths_mono) simp
  then have "10 \<le> tenths (n / 1000000)" using tenths_of_int [of 1] by simp
  then show ?thesis
    using False m tenths_bounds [of "n / 1000000"]
    by (intro exI [of _ "tenths (n / 1000000)"]) (auto intro!: exI tenths_mono divide_right_mono)
qed

theorem numbers_are_abbreviated_witness:
  "\<exists>k. formatNumber loc 1500 = show_tenth k @ ''K'' \<and> \<bar>of_int k / 10 - (3 / 2 :: rat)\<bar> \<le> 1 / 20"
  using numbers_are_abbreviated [of 1500 loc] by auto

section \<open>Shares\<close>

text \<open>\<open>total > 0 ? part / total * 100 : 0\<close>.\<close>

definition percent :: "rat \<Rightarrow> rat \<Rightarrow> rat" where
  "percent part whole = (if whole > 0 then part / whole * 100 else 0)"

lemma percent_range: "0 \<le> a \<Longrightarrow> a \<le> b \<Longrightarrow> 0 \<le> percent a b \<and> percent a b \<le> 100"
  by (auto simp: percent_def field_simps)

lemma percents_add: "percent a t + percent b t = percent (a + b) t"
  by (simp add: percent_def add_divide_distrib ring_distribs)

lemma percents_sum: "sum_list (map (\<lambda>x. percent (f x) t) xs) = percent (sum_list (map f xs)) t"
  by (induction xs) (auto simp: percents_add, simp add: percent_def)

section \<open>Charts and cards\<close>

definition chart :: "string \<Rightarrow> string \<Rightarrow> (string \<times> string) list \<Rightarrow> 'e vnode" where
  "chart kind key points =
     El kind [(''dataKey'', key)] [] (map (\<lambda>(l, v). El ''point'' [(''label'', l), (''value'', v)] [] []) points)"

definition chart_or_empty :: "string \<Rightarrow> string \<Rightarrow> string \<Rightarrow> (string \<times> string) list \<Rightarrow> 'e vnode" where
  "chart_or_empty none kind key points =
     (if points = [] then EmptyState ''No data'' (Some none) None else box [chart kind key points])"

definition list_or :: "'a list option \<Rightarrow> 'a list" where
  "list_or v = (case v of None \<Rightarrow> [] | Some xs \<Rightarrow> xs)"

text \<open>A query whose last failure is shown even where there are earlier data.\<close>

datatype 'a shown = Pending | Broken | Loaded 'a

definition seen :: "js_error + 'a \<Rightarrow> 'a shown" where
  "seen r = (case r of Inl e \<Rightarrow> Broken | Inr d \<Rightarrow> Loaded d)"

definition broken_page :: "string \<Rightarrow> string \<Rightarrow> 'e vnode" where
  "broken_page title message = box [El ''h1'' [] [] [Txt title], box [Txt message]]"

end
