(* ===== verification/BIDashboard.thy ===== *)
theory BIDashboard
  imports Figures PageParts
begin

text \<open>
  The dashboard of business figures (\<open>features/analytics/pages/BIDashboardPage.tsx\<close>): what it derives from
  the answer of the server, and its forecasts by linear regression. A list the server leaves out or sends
  as \<open>null\<close> is \<open>None\<close>. Numbers are rationals; \<open>short\<close> stands for \<open>formatShortDate\<close>, \<open>future i\<close> for the short
  date of the day \<open>i + 1\<close> days from now, and \<open>loc\<close> for \<open>toLocaleString\<close>.
\<close>

section \<open>Regression\<close>

text \<open>\<open>for (const p of points)\<close> accumulates four sums.\<close>

definition regression_sums :: "(rat \<times> rat) list \<Rightarrow> rat \<times> rat \<times> rat \<times> rat" where
  "regression_sums ps =
     foldl (\<lambda>(sx, sy, sxy, sxx) (x, y). (sx + x, sy + y, sxy + x * y, sxx + x * x)) (0, 0, 0, 0) ps"

definition linearRegression :: "(rat \<times> rat) list \<Rightarrow> rat \<times> rat" where
  "linearRegression ps =
     (if length ps < 2 then (0, case ps of [] \<Rightarrow> 0 | p # qs \<Rightarrow> snd p)
      else case regression_sums ps of (sumX, sumY, sumXY, sumXX) \<Rightarrow>
        let n = of_nat (length ps);
            slope = (n * sumXY - sumX * sumY) / (n * sumXX - sumX * sumX)
        in (slope, (sumY - slope * sumX) / n))"

definition points_of :: "int list \<Rightarrow> (rat \<times> rat) list" where
  "points_of ys = map (\<lambda>(i, y). (of_nat i, of_int y)) (zip [0..<length ys] ys)"

definition forecast_at :: "rat \<times> rat \<Rightarrow> nat \<Rightarrow> int" where
  "forecast_at line i = max 0 (math_round (snd line + fst line * of_nat i))"

definition forecastDays :: nat where
  "forecastDays = 7"

definition forecast :: "int list \<Rightarrow> int list" where
  "forecast ys = map (\<lambda>i. forecast_at (linearRegression (points_of ys)) (length ys + i)) [0..<forecastDays]"

section \<open>The answer and what is derived from it\<close>

record bi_data =
  bi_accounts :: int
  bi_active :: int
  bi_devices :: int
  bi_online :: int
  bi_messages :: int
  bi_delivered :: int
  bi_failed :: int
  bi_revenue :: rat
  account_growth :: "(string \<times> int) list option"
  top_accounts :: "(string \<times> string \<times> int \<times> int \<times> int) list option"
  device_fleet :: "(string \<times> int) list option"
  routing_breakdown :: "(string \<times> int) list option"
  type_breakdown :: "(string \<times> int) list option"
  hourly_distribution :: "(int \<times> int) list option"
  delivery_trend :: "(string \<times> int) list option"
  revenue_by_plan :: "(string \<times> rat \<times> int) list option"

definition bi_deliveryRate :: "bi_data \<Rightarrow> rat" where
  "bi_deliveryRate d = percent (of_int (bi_delivered d)) (of_int (bi_messages d))"

definition formatHour :: "int \<Rightarrow> string" where
  "formatHour h = (let t = show_int h in replicate (2 - length t) CHR ''0'' @ t @ '':00'')"

definition routing_total :: "bi_data \<Rightarrow> int" where
  "routing_total d = sum_list (map snd (list_or (routing_breakdown d)))"

definition routing_share :: "bi_data \<Rightarrow> int \<Rightarrow> rat" where
  "routing_share d c = percent (of_int c) (of_int (routing_total d))"

definition growth_counts :: "bi_data \<Rightarrow> int list" where
  "growth_counts d = map snd (list_or (account_growth d))"

definition delivery_counts :: "bi_data \<Rightarrow> int list" where
  "delivery_counts d = map snd (list_or (delivery_trend d))"

definition totalRevenue :: "bi_data \<Rightarrow> rat" where
  "totalRevenue d = sum_list (map (\<lambda>(n, r, c). r) (list_or (revenue_by_plan d)))"

definition avgRevenuePerPlan :: "bi_data \<Rightarrow> rat" where
  "avgRevenuePerPlan d =
     (let k = length (list_or (revenue_by_plan d)) in if k > 0 then totalRevenue d / of_nat k else 0)"

definition projectedMonthly :: "bi_data \<Rightarrow> rat" where
  "projectedMonthly d = totalRevenue d * (11 / 10)"

definition growthRate :: "bi_data \<Rightarrow> rat" where
  "growthRate d =
     (let ys = growth_counts d
      in if length ys \<ge> 2 then fst (linearRegression (points_of ys)) / max (of_int (last ys)) 1 * 100 else 0)"

definition projected_accounts :: "bi_data \<Rightarrow> int" where
  "projected_accounts d = last (forecast (growth_counts d))"

text \<open>The bars of a forecast: what was, then what is expected. The dates of the accounts are formatted twice.\<close>

definition combined :: "(string \<Rightarrow> string) \<Rightarrow> (nat \<Rightarrow> string) \<Rightarrow> (string \<times> int) list \<Rightarrow> (string \<times> int \<times> bool) list" where
  "combined short future ps =
     map (\<lambda>(t, c). (short t, c, False)) ps @
     map (\<lambda>(i, c). (future i, c, True)) (zip [0..<forecastDays] (forecast (map snd ps)))"

definition combinedGrowth :: "(string \<Rightarrow> string) \<Rightarrow> (nat \<Rightarrow> string) \<Rightarrow> bi_data \<Rightarrow> (string \<times> int \<times> bool) list" where
  "combinedGrowth short future d = combined short future (map (\<lambda>(t, c). (short t, c)) (list_or (account_growth d)))"

definition combinedDelivery :: "(string \<Rightarrow> string) \<Rightarrow> (nat \<Rightarrow> string) \<Rightarrow> bi_data \<Rightarrow> (string \<times> int \<times> bool) list" where
  "combinedDelivery short future d = combined short future (list_or (delivery_trend d))"

definition trend_text :: "bi_data \<Rightarrow> string" where
  "trend_text d =
     (let slope = fst (linearRegression (points_of (delivery_counts d)))
      in (if slope > 0 then ''Improving'' else if slope < 0 then ''Declining'' else ''Stable'') @ '' trend'')"

section \<open>View\<close>

definition figure_card :: "string \<Rightarrow> string \<Rightarrow> string \<Rightarrow> 'e vnode" where
  "figure_card title value sub =
     Card True [box [box [El ''p'' [] [] [Txt title], El ''p'' [] [] [Txt value], El ''p'' [] [] [Txt sub]], box [El ''svg'' [] [] []]]]"

definition bi_figures :: "(rat \<Rightarrow> string) \<Rightarrow> bi_data \<Rightarrow> 'e vnode" where
  "bi_figures loc d =
     (let f = (\<lambda>n. formatNumber loc (of_int n))
      in box [figure_card ''Total accounts'' (f (bi_accounts d)) (show_int (bi_active d) @ '' active''),
              figure_card ''Total devices'' (f (bi_devices d)) (show_int (bi_online d) @ '' online''),
              figure_card ''Total messages'' (f (bi_messages d)) (to_fixed1 (bi_deliveryRate d) @ ''% delivered''),
              figure_card ''Monthly revenue'' (CHR ''$'' # formatNumber loc (bi_revenue d)) ''Active subscriptions''])"

definition titled_card :: "string \<Rightarrow> 'e vnode list \<Rightarrow> 'e vnode" where
  "titled_card title kids = Card False (CardHeader [CardTitle [Txt title]] # kids)"

definition int_points :: "(string \<times> int) list \<Rightarrow> (string \<times> string) list" where
  "int_points ps = map (\<lambda>(l, c). (l, show_int c)) ps"

definition bi_charts :: "(string \<Rightarrow> string) \<Rightarrow> bi_data \<Rightarrow> 'e vnode list" where
  "bi_charts short d =
     [box [titled_card ''Account growth (30 days)'' [chart_or_empty ''No account growth data yet.'' ''BarChart'' ''accounts''
             (int_points (map (\<lambda>(t, c). (short t, c)) (list_or (account_growth d))))],
           titled_card ''Message types (30d)'' [chart_or_empty ''No message type data yet.'' ''PieChart'' ''value''
             (int_points (list_or (type_breakdown d)))]],
      titled_card ''Hourly distribution (7d)'' [chart_or_empty ''No hourly data yet.'' ''BarChart'' ''messages''
        (int_points (map (\<lambda>(h, c). (formatHour h, c)) (list_or (hourly_distribution d))))]]"

definition strategy_name :: "string \<Rightarrow> string" where
  "strategy_name t = spaced t"

definition routing_bars :: "(rat \<Rightarrow> string) \<Rightarrow> (rat \<Rightarrow> string) \<Rightarrow> bi_data \<Rightarrow> 'e vnode" where
  "routing_bars loc show_num d =
     titled_card ''Routing strategies''
       [if list_or (routing_breakdown d) = [] then EmptyState ''No data'' (Some ''No routing data yet.'') None
        else box (map (\<lambda>(t, c). box [box [span [Txt (strategy_name t)],
               span [Txt (formatNumber loc (of_int c) @ '' ('' @ to_fixed1 (routing_share d c) @ ''%)'')]],
             box [El ''div'' [(''width'', show_num (routing_share d c) @ ''%'')] [] []]]) (list_or (routing_breakdown d)))]"

definition accounts_ranking :: "(rat \<Rightarrow> string) \<Rightarrow> bi_data \<Rightarrow> 'e vnode" where
  "accounts_ranking loc d =
     titled_card ''Top accounts by volume''
       [if list_or (top_accounts d) = [] then EmptyState ''No data'' (Some ''No account data yet.'') None
        else El ''table'' [] []
          [El ''thead'' [] [] [El ''tr'' [] [] (map (\<lambda>h. El ''th'' [] [] [Txt h]) [''Account'', ''Sent'', ''Delivered'', ''Failed''])],
           El ''tbody'' [] [] (map (\<lambda>(i, n, sent, del, fail). El ''tr'' [] []
             (map (\<lambda>t. El ''td'' [] [] [Txt t])
               (or_text n (take 8 i) # map (\<lambda>c. formatNumber loc (of_int c)) [sent, del, fail]))) (list_or (top_accounts d)))]]"

definition revenue_chart :: "(rat \<Rightarrow> string) \<Rightarrow> bi_data \<Rightarrow> 'e vnode" where
  "revenue_chart show_num d =
     titled_card ''Revenue by plan'' [chart_or_empty ''No revenue data yet.'' ''BarChart'' ''revenue''
       (map (\<lambda>(n, r, c). (n, show_num r)) (list_or (revenue_by_plan d)))]"

definition fleet_card :: "bi_data \<Rightarrow> 'e vnode" where
  "fleet_card d =
     titled_card ''Device fleet status''
       [box (map (\<lambda>(st, c). box [box [], span [Txt st], Badge False [Txt (show_int c)]]) (list_or (device_fleet d)) @
             when_do (list_or (device_fleet d) = []) [EmptyState ''No devices'' (Some ''No device data yet.'') None])]"

definition forecast_points :: "(string \<times> int \<times> bool) list \<Rightarrow> (string \<times> string) list" where
  "forecast_points ps = map (\<lambda>(l, c, f). (l, show_int c)) ps"

definition BusinessForecastSection ::
  "(rat \<Rightarrow> string) \<Rightarrow> (string \<Rightarrow> string) \<Rightarrow> (nat \<Rightarrow> string) \<Rightarrow> bi_data \<Rightarrow> 'e vnode" where
  "BusinessForecastSection loc short future d =
     (let plans = show_nat (length (list_or (revenue_by_plan d)))
      in box [box [box [El ''svg'' [] [] []], box [El ''h2'' [] [] [Txt ''Business Improvement Forecasting''],
                   El ''p'' [] [] [Txt ''Predictive analytics based on historical trends'']]],
              box [figure_card ''Projected accounts (+7d)'' (formatNumber loc (of_int (projected_accounts d)))
                     ((if growthRate d > 0 then ''+'' else []) @ to_fixed1 (growthRate d) @ ''% growth rate''),
                   figure_card ''Projected revenue (monthly)'' (CHR ''$'' # formatNumber loc (projectedMonthly d))
                     (''Based on '' @ plans @ '' active plans''),
                   figure_card ''Delivery rate trend'' (to_fixed1 (bi_deliveryRate d) @ ''%'') (trend_text d),
                   figure_card ''Avg revenue/plan'' (CHR ''$'' # formatNumber loc (avgRevenuePerPlan d))
                     (''Across '' @ plans @ '' plan types'')],
              box [titled_card ''Account growth forecast'' [chart_or_empty ''Insufficient data for forecasting.'' ''BarChart'' ''accounts''
                     (forecast_points (combinedGrowth short future d))],
                   titled_card ''Delivery trend forecast'' [chart_or_empty ''Insufficient data for forecasting.'' ''BarChart'' ''count''
                     (forecast_points (combinedDelivery short future d))]]])"

definition bi_view ::
  "(rat \<Rightarrow> string) \<Rightarrow> (rat \<Rightarrow> string) \<Rightarrow> (string \<Rightarrow> string) \<Rightarrow> (nat \<Rightarrow> string) \<Rightarrow> bi_data shown \<Rightarrow> 'e vnode list" where
  "bi_view loc show_num short future q =
     (case q of
        Pending \<Rightarrow> [PageSkeleton]
      | Broken \<Rightarrow> [broken_page ''BI Dashboard'' ''Failed to load BI data.'']
      | Loaded d \<Rightarrow>
          [hero ''BI Dashboard'' ''Business intelligence & platform analytics'' [], bi_figures loc d] @ bi_charts short d @
          [routing_bars loc show_num d, box [accounts_ranking loc d, revenue_chart show_num d], fleet_card d,
           BusinessForecastSection loc short future d])"

section \<open>Least squares\<close>

definition squared_error :: "(rat \<times> rat) list \<Rightarrow> rat \<Rightarrow> rat \<Rightarrow> rat" where
  "squared_error ps b a = sum_list (map (\<lambda>(x, y). (y - (a + b * x)) ^ 2) ps)"

lemma regression_sums_eq:
  "regression_sums ps = (sum_list (map fst ps), sum_list (map snd ps), sum_list (map (\<lambda>(x, y). x * y) ps), sum_list (map (\<lambda>(x, y). x * x) ps))"
proof -
  have "foldl (\<lambda>(sx, sy, sxy, sxx) (x, y). (sx + x, sy + y, sxy + x * y, sxx + x * x)) (a, b, c, d) ps =
      (a + sum_list (map fst ps), b + sum_list (map snd ps), c + sum_list (map (\<lambda>(x, y). x * y) ps), d + sum_list (map (\<lambda>(x, y). x * x) ps))"
    for a b c d :: rat
    by (induction ps arbitrary: a b c d) auto
  from this [of 0 0 0 0] show ?thesis by (simp add: regression_sums_def)
qed

lemma length_points [simp]: "length (points_of ys) = length ys"
  by (simp add: points_of_def)

lemma points_sum: "sum_list (map f (points_of ys)) = (\<Sum>i<length ys. f (of_nat i, of_int (ys ! i)))"
  by (simp add: points_of_def sum_list_sum_nth atLeast0LessThan)

lemma sums_of_indices:
  "2 * (\<Sum>i<n. of_nat i :: rat) = of_nat n * (of_nat n - 1)"
  "6 * (\<Sum>i<n. of_nat i * of_nat i :: rat) = (of_nat n - 1) * of_nat n * (2 * of_nat n - 1)"
  by (induction n) (simp_all add: algebra_simps)

lemma spread_positive:
  assumes "2 \<le> n"
  shows "0 < of_nat n * (\<Sum>i<n. of_nat i * of_nat i :: rat) - (\<Sum>i<n. of_nat i) * (\<Sum>i<n. of_nat i)"
proof -
  let ?n = "of_nat n :: rat" and ?s = "\<Sum>i<n. of_nat i :: rat" and ?q = "\<Sum>i<n. of_nat i * of_nat i :: rat"
  have n: "2 \<le> ?n" using assms by (metis of_nat_le_iff of_nat_numeral)
  have "12 * (?n * ?q - ?s * ?s) = 2 * ?n * (6 * ?q) - 3 * (2 * ?s) * (2 * ?s)" by (simp add: algebra_simps)
  also have "\<dots> = ?n * ?n * (?n - 1) * (?n + 1)"
    unfolding sums_of_indices by (simp add: algebra_simps)
  also have "\<dots> > 0" using n by (intro mult_pos_pos) auto
  finally show ?thesis by simp
qed

text \<open>The two equations a line of least squares satisfies, and why they are enough.\<close>

lemma normal_equations:
  fixes x y :: "nat \<Rightarrow> rat"
  assumes d: "0 < of_nat n * (\<Sum>i<n. x i * x i) - (\<Sum>i<n. x i) * (\<Sum>i<n. x i)"
    and m: "m = (of_nat n * (\<Sum>i<n. x i * y i) - (\<Sum>i<n. x i) * (\<Sum>i<n. y i)) / (of_nat n * (\<Sum>i<n. x i * x i) - (\<Sum>i<n. x i) * (\<Sum>i<n. x i))"
    and c: "c = ((\<Sum>i<n. y i) - m * (\<Sum>i<n. x i)) / of_nat n"
  shows "(\<Sum>i<n. y i - (c + m * x i)) = 0" "(\<Sum>i<n. (y i - (c + m * x i)) * x i) = 0"
proof -
  let ?n = "of_nat n :: rat" and ?x = "\<Sum>i<n. x i" and ?y = "\<Sum>i<n. y i" and ?xx = "\<Sum>i<n. x i * x i" and ?xy = "\<Sum>i<n. x i * y i"
  have n: "?n \<noteq> 0" using d by (cases n) auto
  have c': "?n * c = ?y - m * ?x" using n c by simp
  have m': "m * (?n * ?xx - ?x * ?x) = ?n * ?xy - ?x * ?y" using d m by simp
  show "(\<Sum>i<n. y i - (c + m * x i)) = 0"
    using c' by (simp add: sum_subtractf sum.distrib sum_distrib_left [symmetric])
  have "(\<Sum>i<n. (y i - (c + m * x i)) * x i) = ?xy - c * ?x - m * ?xx"
    by (simp add: algebra_simps sum_subtractf sum.distrib sum_distrib_left)
  moreover have "?n * (?xy - c * ?x - m * ?xx) = 0"
  proof -
    have "?n * (?xy - c * ?x - m * ?xx) = ?n * ?xy - (?n * c) * ?x - m * (?n * ?xx)" by (simp add: algebra_simps)
    also have "\<dots> = ?n * ?xy - ?x * ?y - m * (?n * ?xx - ?x * ?x)" unfolding c' by (simp add: algebra_simps)
    finally show ?thesis using m' by simp
  qed
  ultimately show "(\<Sum>i<n. (y i - (c + m * x i)) * x i) = 0" using n by simp
qed

lemma least_squares:
  fixes x y :: "nat \<Rightarrow> rat"
  assumes "(\<Sum>i<n. y i - (c + m * x i)) = 0" and "(\<Sum>i<n. (y i - (c + m * x i)) * x i) = 0"
  shows "(\<Sum>i<n. (y i - (c + m * x i)) ^ 2) \<le> (\<Sum>i<n. (y i - (a + b * x i)) ^ 2)"
proof -
  have "(y i - (a + b * x i)) ^ 2 = (y i - (c + m * x i)) ^ 2 + 2 * (c - a) * (y i - (c + m * x i)) + 2 * (m - b) * ((y i - (c + m * x i)) * x i)
      + ((c - a) + (m - b) * x i) ^ 2" for i
    by (simp add: power2_eq_square algebra_simps)
  then have "(\<Sum>i<n. (y i - (a + b * x i)) ^ 2) = (\<Sum>i<n. (y i - (c + m * x i)) ^ 2) + 2 * (c - a) * (\<Sum>i<n. y i - (c + m * x i))
      + 2 * (m - b) * (\<Sum>i<n. (y i - (c + m * x i)) * x i) + (\<Sum>i<n. ((c - a) + (m - b) * x i) ^ 2)"
    by (simp only: sum.distrib sum_distrib_left)
  then show ?thesis using assms by (simp add: sum_nonneg)
qed

lemma regression_line:
  assumes "2 \<le> length ys" and "linearRegression (points_of ys) = (m, c)"
  shows "(\<Sum>i<length ys. of_int (ys ! i) - (c + m * of_nat i)) = (0 :: rat)"
    and "(\<Sum>i<length ys. (of_int (ys ! i) - (c + m * of_nat i)) * of_nat i) = (0 :: rat)"
proof -
  have "(m, c) = linearRegression (points_of ys)" using assms(2) by simp
  then have m: "m = (of_nat (length ys) * (\<Sum>i<length ys. of_nat i * of_int (ys ! i)) - (\<Sum>i<length ys. of_nat i) * (\<Sum>i<length ys. of_int (ys ! i)))
        / (of_nat (length ys) * (\<Sum>i<length ys. of_nat i * of_nat i) - (\<Sum>i<length ys. of_nat i) * (\<Sum>i<length ys. of_nat i))"
    and c: "c = ((\<Sum>i<length ys. of_int (ys ! i)) - m * (\<Sum>i<length ys. of_nat i)) / of_nat (length ys)"
    using assms(1) by (simp_all add: linearRegression_def regression_sums_eq points_sum Let_def)
  show "(\<Sum>i<length ys. of_int (ys ! i) - (c + m * of_nat i)) = (0 :: rat)"
    "(\<Sum>i<length ys. (of_int (ys ! i) - (c + m * of_nat i)) * of_nat i) = (0 :: rat)"
    using normal_equations [OF spread_positive [OF assms(1)] m c] by simp_all
qed

text \<open>
  C30. The regression is the line of least squares: for any counts by day, no line has a smaller sum of squared
  distances to them than the one computed, the cases of no count and of one included.
\<close>

theorem regression_is_least_squares:
  "case linearRegression (points_of ys) of (slope, intercept) \<Rightarrow>
     squared_error (points_of ys) slope intercept \<le> squared_error (points_of ys) b a"
proof (cases "2 \<le> length ys")
  case True
  obtain m c where l: "linearRegression (points_of ys) = (m, c)" by (metis surj_pair)
  show ?thesis
    using least_squares [OF regression_line [OF True l]] by (simp add: l squared_error_def points_sum)
next
  case False
  then have "length ys = 0 \<or> length ys = 1" by linarith
  then show ?thesis
    by (auto simp: length_Suc_conv squared_error_def points_of_def linearRegression_def)
qed

lemma regression_of_line:
  assumes "2 \<le> n"
  shows "linearRegression (points_of (map (\<lambda>i. a + b * int i) [0..<n])) = (of_int b, of_int a)"
proof -
  let ?ys = "map (\<lambda>i. a + b * int i) [0..<n]"
  obtain m c where l: "linearRegression (points_of ?ys) = (m, c)" by (metis surj_pair)
  have two: "2 \<le> length ?ys" using assms by simp
  have "(\<Sum>i<n. (of_int (?ys ! i) - (c + m * of_nat i)) ^ 2) \<le> (\<Sum>i<n. (of_int (?ys ! i) - (of_int a + of_int b * of_nat i)) ^ 2 :: rat)"
    using least_squares [OF regression_line [OF two l], of "of_int a" "of_int b"] by simp
  moreover have "(\<Sum>i<n. (of_int (?ys ! i) - (of_int a + of_int b * of_nat i)) ^ 2) = (0 :: rat)"
    by (rule sum.neutral) simp
  ultimately have "(\<Sum>i<n. (of_int (?ys ! i) - (c + m * of_nat i)) ^ 2) \<le> 0" by simp
  then have "(\<Sum>i<n. (of_int (?ys ! i) - (c + m * of_nat i)) ^ 2) = 0" by (intro antisym sum_nonneg) auto
  then have zero: "of_int (?ys ! i) = c + m * of_nat i" if "i < n" for i
    using that by (simp add: sum_nonneg_eq_0_iff)
  have "of_int a = c" using zero [of 0] assms by simp
  moreover have "of_int (a + b) = c + m" using zero [of 1] assms by simp
  ultimately show ?thesis using l by simp
qed

text \<open>
  A steady trend is continued: where the counts grow or fall by the same amount every day, the forecast
  is the same line for the next seven days, cut off at zero.
\<close>

theorem steady_trends_are_continued:
  assumes "2 \<le> n"
  shows "forecast (map (\<lambda>i. a + b * int i) [0..<n]) = map (\<lambda>i. max 0 (a + b * int (n + i))) [0..<7]"
proof -
  have "math_round (of_int a + of_int b * (of_nat n + of_nat i)) = a + b * int (n + i)" for i
    using math_round_of_int [of "a + b * int (n + i)"] by simp
  then show ?thesis
    by (simp add: forecast_def regression_of_line [OF assms] forecastDays_def forecast_at_def)
qed

theorem steady_trends_are_continued_witness: "forecast (map (\<lambda>i. 10 - 4 * int i) [0..<2]) = [2, 0, 0, 0, 0, 0, 0]"
  using steady_trends_are_continued [of 2 10 "-4"] by (simp add: upt_rec numeral_eq_Suc)

text \<open>
  The card for the projected accounts shows the wrong quantity: the server counts the accounts created
  on each day, so the forecast is of new accounts in a day. With the same number created every day the
  card shows that number, whatever the total is, and however large; and the trend beside the delivery
  rate is that of the delivered messages of a day, not of the rate.
\<close>

theorem projection_ignores_the_total:
  assumes "growth_counts d = replicate n k" and "2 \<le> n" and "0 \<le> k"
  shows "projected_accounts (d\<lparr>bi_accounts := t\<rparr>) = k"
    and "trend_text (d\<lparr>bi_messages := u, bi_delivered := v\<rparr>) = trend_text d"
proof -
  have "growth_counts (d\<lparr>bi_accounts := t\<rparr>) = map (\<lambda>i. k + 0 * int i) [0..<n]"
    using assms(1) by (simp add: growth_counts_def map_replicate_trivial)
  then have "forecast (growth_counts (d\<lparr>bi_accounts := t\<rparr>)) = map (\<lambda>i. max 0 (k + 0 * int (n + i))) [0..<7]"
    using regression_of_line [OF assms(2), of k 0] by (simp add: forecast_def forecastDays_def forecast_at_def)
  then show "projected_accounts (d\<lparr>bi_accounts := t\<rparr>) = k"
    using assms(3) by (simp add: projected_accounts_def last_map)
  show "trend_text (d\<lparr>bi_messages := u, bi_delivered := v\<rparr>) = trend_text d"
    by (simp add: trend_text_def delivery_counts_def)
qed

definition quiet_month :: bi_data where
  "quiet_month = \<lparr>bi_accounts = 5000, bi_active = 0, bi_devices = 0, bi_online = 0, bi_messages = 0, bi_delivered = 0, bi_failed = 0,
     bi_revenue = 0, account_growth = Some [(''d1'', 3), (''d2'', 3)], top_accounts = None, device_fleet = None, routing_breakdown = None,
     type_breakdown = None, hourly_distribution = None, delivery_trend = None, revenue_by_plan = None\<rparr>"

theorem projection_ignores_the_total_witness: "projected_accounts (quiet_month\<lparr>bi_accounts := 5000\<rparr>) = 3"
proof (rule projection_ignores_the_total)
  show "growth_counts quiet_month = replicate 2 3"
    by (simp add: quiet_month_def growth_counts_def list_or_def numeral_2_eq_2)
qed simp_all

lemma of_int_sum_snd: "sum_list (map (\<lambda>(t, c). of_int c) cs) = (of_int (sum_list (map snd cs)) :: rat)"
  by (induction cs) auto

text \<open>
  The shares of the routing strategies are shares: each is between 0 and 100 and together they make
  100 percent, as long as any message was routed; the text of each is right to a twentieth of a percent.
\<close>

theorem routing_shares_add_up:
  assumes "\<forall>(t, c) \<in> set (list_or (routing_breakdown d)). 0 \<le> c" and "0 < routing_total d"
  shows "sum_list (map (\<lambda>(t, c). routing_share d c) (list_or (routing_breakdown d))) = 100"
    and "\<forall>(t, c) \<in> set (list_or (routing_breakdown d)). 0 \<le> routing_share d c \<and> routing_share d c \<le> 100 \<and>
      to_fixed1 (routing_share d c) = show_tenth (tenths (routing_share d c)) \<and>
      \<bar>of_int (tenths (routing_share d c)) / 10 - routing_share d c\<bar> \<le> 1 / 20"
proof -
  let ?cs = "list_or (routing_breakdown d)"
  have "sum_list (map (\<lambda>(t, c). routing_share d c) ?cs) = percent (sum_list (map (\<lambda>(t, c). of_int c) ?cs)) (of_int (routing_total d))"
    using percents_sum [of "\<lambda>(t, c). of_int c" "of_int (routing_total d)" ?cs] by (simp add: routing_share_def case_prod_unfold)
  also have "sum_list (map (\<lambda>(t, c). of_int c) ?cs) = (of_int (routing_total d) :: rat)"
    by (simp add: routing_total_def of_int_sum_snd)
  finally show "sum_list (map (\<lambda>(t, c). routing_share d c) ?cs) = 100"
    using assms(2) by (simp add: percent_def)
  have "c \<le> routing_total d" if "(t, c) \<in> set ?cs" for t c
    unfolding routing_total_def using that assms(1) by (intro member_le_sum_list) (force simp: image_iff)+
  then show "\<forall>(t, c) \<in> set ?cs. 0 \<le> routing_share d c \<and> routing_share d c \<le> 100 \<and>
      to_fixed1 (routing_share d c) = show_tenth (tenths (routing_share d c)) \<and>
      \<bar>of_int (tenths (routing_share d c)) / 10 - routing_share d c\<bar> \<le> 1 / 20"
    using assms(1) percent_range tenths_bounds by (auto simp: routing_share_def to_fixed1_def not_less)
qed

section \<open>The tooltip of a chart\<close>

text \<open>The chart passes whether the pointer is on it, the named values under it and their label.\<close>

definition ChartTooltip :: "(rat \<Rightarrow> string) \<Rightarrow> bool \<Rightarrow> (string \<times> rat) list \<Rightarrow> string \<Rightarrow> 'e vnode list" where
  "ChartTooltip loc active payload label =
     (if \<not> active \<or> payload = [] then []
      else [box (when_do (label \<noteq> []) [El ''p'' [] [] [Txt label]] @
              map (\<lambda>(name, value). box [span [], span [Txt name], span [Txt (formatNumber loc value)]]) payload)])"

end
