(* ===== verification/Analytics.thy ===== *)
theory Analytics
  imports Figures PageParts "HOL-Library.Multiset"
begin

text \<open>
  The pages of message figures: \<open>features/analytics/pages/AnalyticsPage.tsx\<close>,
  \<open>features/dashboard/pages/DashboardPage.tsx\<close> and the chart they share the data of,
  \<open>components/charts/MessageChart.tsx\<close>. \<open>time\<close> stands for \<open>new Date(t).getTime()\<close> on valid dates.
\<close>

section \<open>Days and totals\<close>

record day =
  day_id :: string
  day_date :: string
  total_sent :: int
  total_delivered :: int
  total_failed :: int
  otp_sent :: int
  transactional_sent :: int
  marketing_sent :: int

record totals =
  t_sent :: int
  t_delivered :: int
  t_failed :: int
  t_otp :: int
  t_transactional :: int
  t_marketing :: int

definition no_totals :: totals where
  "no_totals = \<lparr>t_sent = 0, t_delivered = 0, t_failed = 0, t_otp = 0, t_transactional = 0, t_marketing = 0\<rparr>"

definition add_day :: "totals \<Rightarrow> day \<Rightarrow> totals" where
  "add_day acc d = \<lparr>t_sent = t_sent acc + total_sent d, t_delivered = t_delivered acc + total_delivered d,
     t_failed = t_failed acc + total_failed d, t_otp = t_otp acc + otp_sent d,
     t_transactional = t_transactional acc + transactional_sent d, t_marketing = t_marketing acc + marketing_sent d\<rparr>"

definition totals_of :: "day list \<Rightarrow> totals" where
  "totals_of days = foldl add_day no_totals days"

definition an_deliveryRate :: "totals \<Rightarrow> rat" where
  "an_deliveryRate t = percent (of_int (t_delivered t)) (of_int (t_sent t))"

definition failRate :: "totals \<Rightarrow> rat" where
  "failRate t = percent (of_int (t_failed t)) (of_int (t_sent t))"

section \<open>The analytics page\<close>

definition count_text :: "(rat \<Rightarrow> string) \<Rightarrow> int \<Rightarrow> string" where
  "count_text loc n = formatNumber loc (of_int n)"

definition total_card :: "string \<Rightarrow> string \<Rightarrow> 'e vnode list \<Rightarrow> 'e vnode" where
  "total_card title value kids =
     Card True (box [box [El ''p'' [] [] [Txt title], El ''p'' [] [] [Txt value]], box [El ''svg'' [] [] []]] # kids)"

definition rate_bar :: "(rat \<Rightarrow> string) \<Rightarrow> rat \<Rightarrow> 'e vnode" where
  "rate_bar show_num r = box [El ''div'' [(''width'', show_num r @ ''%'')] [] []]"

definition analytics_cards :: "(rat \<Rightarrow> string) \<Rightarrow> (rat \<Rightarrow> string) \<Rightarrow> totals \<Rightarrow> 'e vnode list" where
  "analytics_cards loc show_num t =
     (let rate = to_fixed1 (an_deliveryRate t) @ ''%''
      in [box [total_card ''Total sent'' (count_text loc (t_sent t)) [],
               total_card ''Delivered'' (count_text loc (t_delivered t))
                 [box [rate_bar show_num (an_deliveryRate t), El ''p'' [] [] [Txt (rate @ '' delivery rate'')]]],
               total_card ''Failed'' (count_text loc (t_failed t))
                 [box [rate_bar show_num (failRate t), El ''p'' [] [] [Txt (to_fixed1 (failRate t) @ ''% failure rate'')]]],
               total_card ''Delivery rate'' (if t_sent t > 0 then rate else ''--'') []],
          box [total_card ''OTP messages'' (count_text loc (t_otp t)) [],
               total_card ''Transactional'' (count_text loc (t_transactional t)) [],
               total_card ''Marketing'' (count_text loc (t_marketing t)) []]])"

definition shown_days :: "day list \<Rightarrow> day list" where
  "shown_days days = take 30 days"

definition day_row :: "(rat \<Rightarrow> string) \<Rightarrow> (string \<Rightarrow> string) \<Rightarrow> day \<Rightarrow> 'e vnode" where
  "day_row loc locale_date d =
     El ''tr'' [] [] (map (\<lambda>t. El ''td'' [] [] [Txt t])
       (locale_date (day_date d) # map (count_text loc) [total_sent d, total_delivered d, total_failed d, otp_sent d, transactional_sent d, marketing_sent d]))"

definition daily_table :: "(rat \<Rightarrow> string) \<Rightarrow> (string \<Rightarrow> string) \<Rightarrow> day list \<Rightarrow> 'e vnode" where
  "daily_table loc locale_date days =
     Card False [CardHeader [CardTitle [Txt ''Daily breakdown'']],
       if days = [] then EmptyState ''No data yet'' (Some ''Analytics data will appear here once messages are sent.'') None
       else box [El ''table'' [] []
         [El ''thead'' [] [] [El ''tr'' [] [] (map (\<lambda>h. El ''th'' [] [] [Txt h])
            [''Date'', ''Sent'', ''Delivered'', ''Failed'', ''OTP'', ''Transactional'', ''Marketing''])],
          El ''tbody'' [] [] (map (day_row loc locale_date) (shown_days days))]]]"

definition analytics_view ::
  "(rat \<Rightarrow> string) \<Rightarrow> (rat \<Rightarrow> string) \<Rightarrow> (string \<Rightarrow> string) \<Rightarrow> day list shown \<Rightarrow> 'e vnode list" where
  "analytics_view loc show_num locale_date q =
     (case q of
        Pending \<Rightarrow> [PageSkeleton]
      | Broken \<Rightarrow> [broken_page ''Analytics'' ''Failed to load analytics data.'']
      | Loaded days \<Rightarrow> hero ''Analytics'' ''Platform-wide message analytics'' [] # analytics_cards loc show_num (totals_of days) @
          [daily_table loc locale_date days])"

section \<open>The chart\<close>

definition chartData :: "(string \<Rightarrow> int) \<Rightarrow> day list \<Rightarrow> (string \<times> int \<times> int \<times> int) list" where
  "chartData time days =
     map (\<lambda>d. (day_date d, total_sent d, total_delivered d, total_failed d)) (sort_key (\<lambda>d. time (day_date d)) days)"

definition chart_tooltip :: "(string \<Rightarrow> string) \<Rightarrow> bool \<Rightarrow> (string \<times> string) list \<Rightarrow> string \<Rightarrow> 'e vnode list" where
  "chart_tooltip short active payload label =
     when_do (active \<and> payload \<noteq> [])
       [box [El ''p'' [] [] [Txt (if label \<noteq> [] then short label else [])],
             box (map (\<lambda>(k, v). box [span [], span [Txt k], span [Txt v]]) payload)]]"

definition MessageChart :: "(string \<Rightarrow> int) \<Rightarrow> day list \<Rightarrow> 'e vnode" where
  "MessageChart time days =
     (let ps = chartData time days
      in if ps = [] then box [El ''p'' [] [] [Txt ''No chart data available'']]
         else box [chart ''Area'' ''sent'' (map (\<lambda>(t, a, b, c). (t, show_int a)) ps),
                   chart ''Area'' ''delivered'' (map (\<lambda>(t, a, b, c). (t, show_int b)) ps),
                   chart ''Area'' ''failed'' (map (\<lambda>(t, a, b, c). (t, show_int c)) ps)])"

section \<open>The dashboard\<close>

record dash_stats =
  ds_accounts :: int
  ds_devices :: int
  ds_sent :: int
  ds_delivered :: int
  ds_failed :: int
  ds_confidence :: "rat option"
  ds_circuits :: int
  ds_fraud :: int

text \<open>A rate of a total that is \<open>undefined\<close> or zero is zero.\<close>

definition dash_rate :: "dash_stats \<Rightarrow> rat" where
  "dash_rate s = (if ds_sent s \<noteq> 0 then of_int (ds_delivered s) / of_int (ds_sent s) * 100 else 0)"

definition dash_card :: "string \<Rightarrow> string \<Rightarrow> (string \<times> bool) option \<Rightarrow> 'e vnode" where
  "dash_card title value change =
     box [box [], box [box ([El ''p'' [] [] [Txt title], El ''p'' [] [] [Txt value]] @
       (case change of None \<Rightarrow> [] | Some (c, up) \<Rightarrow> when_do (c \<noteq> []) [box [El ''svg'' [] [] [], span [Txt c], span [Txt ''vs last month'']]])),
       box [El ''svg'' [] [] []]]]"

definition health_card :: "(rat \<Rightarrow> string) \<Rightarrow> (rat \<Rightarrow> string) \<Rightarrow> dash_stats \<Rightarrow> 'e vnode" where
  "health_card show_num fixed2 s =
     Card False [CardHeader [CardTitle [Txt ''Platform health'']],
       box [box [box [span [Txt ''Delivery rate''], span [Txt (if ds_sent s \<noteq> 0 then to_fixed1 (dash_rate s) @ ''%'' else ''--'')]],
                 rate_bar show_num (dash_rate s)],
            box [box [span [Txt ''Avg confidence''], span [Txt (case ds_confidence s of None \<Rightarrow> ''--'' | Some c \<Rightarrow> fixed2 c)]],
                 rate_bar show_num ((case ds_confidence s of None \<Rightarrow> 0 | Some c \<Rightarrow> c) * 100)],
            box [span [Txt ''Active circuits''], box [El ''svg'' [] [] [], span [Txt (show_int (ds_circuits s))]]],
            box [span [Txt ''Pending fraud''], box [El ''svg'' [] [] [], Badge False [Txt (show_int (ds_fraud s))]]]]]"

definition dashboard_view ::
  "(rat \<Rightarrow> string) \<Rightarrow> (rat \<Rightarrow> string) \<Rightarrow> (rat \<Rightarrow> string) \<Rightarrow> (string \<Rightarrow> int) \<Rightarrow> dash_stats shown \<Rightarrow> day list option \<Rightarrow> 'e vnode list" where
  "dashboard_view loc show_num fixed2 time q days =
     (case q of
        Pending \<Rightarrow> [PageSkeleton]
      | Broken \<Rightarrow> [broken_page ''Dashboard'' ''Failed to load dashboard data. Please try again.'']
      | Loaded s \<Rightarrow>
          [hero ''Platform Dashboard'' ''Overview of your platform activity and performance'' [],
           box [dash_card ''Total accounts'' (count_text loc (ds_accounts s)) None, dash_card ''Active devices'' (count_text loc (ds_devices s)) None,
                dash_card ''Total sent'' (count_text loc (ds_sent s)) None, dash_card ''Failed'' (count_text loc (ds_failed s)) None],
           box [Card False [CardHeader [CardTitle [Txt ''Message volume''], Badge True [Txt ''Last 30 days'']],
                  MessageChart time (list_or days)],
                health_card show_num fixed2 s]])"

section \<open>Properties\<close>

lemma add_days: "foldl add_day acc days =
   \<lparr>t_sent = t_sent acc + sum_list (map total_sent days), t_delivered = t_delivered acc + sum_list (map total_delivered days),
    t_failed = t_failed acc + sum_list (map total_failed days), t_otp = t_otp acc + sum_list (map otp_sent days),
    t_transactional = t_transactional acc + sum_list (map transactional_sent days),
    t_marketing = t_marketing acc + sum_list (map marketing_sent days)\<rparr>"
  by (induction days arbitrary: acc) (simp_all add: add_day_def)

lemma totals_are_sums:
  "t_sent (totals_of days) = sum_list (map total_sent days)" "t_delivered (totals_of days) = sum_list (map total_delivered days)"
  "t_failed (totals_of days) = sum_list (map total_failed days)" "t_otp (totals_of days) = sum_list (map otp_sent days)"
  "t_transactional (totals_of days) = sum_list (map transactional_sent days)" "t_marketing (totals_of days) = sum_list (map marketing_sent days)"
  by (simp_all add: totals_of_def add_days no_totals_def)

definition sound_day :: "day \<Rightarrow> bool" where
  "sound_day d \<longleftrightarrow> 0 \<le> total_delivered d \<and> 0 \<le> total_failed d \<and> total_delivered d + total_failed d \<le> total_sent d"

lemma sound_totals:
  "list_all sound_day days \<Longrightarrow> 0 \<le> t_delivered (totals_of days) \<and> 0 \<le> t_failed (totals_of days) \<and>
     t_delivered (totals_of days) + t_failed (totals_of days) \<le> t_sent (totals_of days)"
  by (induction days) (auto simp: totals_are_sums sound_day_def)

text \<open>
  The rates on the analytics page are rates: for days whose delivered and failed messages are among the
  sent ones, both rates lie between 0 and 100 and together do not exceed 100, no day at all included; and
  what the cards count beyond the thirty days of the table is the sum of the days left out.
\<close>

theorem analytics_rates_are_rates:
  assumes "list_all sound_day days"
  shows "0 \<le> an_deliveryRate (totals_of days) \<and> 0 \<le> failRate (totals_of days) \<and>
      an_deliveryRate (totals_of days) + failRate (totals_of days) \<le> 100"
    and "t_sent (totals_of days) = t_sent (totals_of (shown_days days)) + t_sent (totals_of (drop 30 days))"
proof -
  let ?t = "totals_of days"
  have s: "0 \<le> t_delivered ?t" "0 \<le> t_failed ?t" "t_delivered ?t + t_failed ?t \<le> t_sent ?t"
    using sound_totals [OF assms] by auto
  have "an_deliveryRate ?t + failRate ?t = percent (of_int (t_delivered ?t + t_failed ?t)) (of_int (t_sent ?t))"
    by (simp add: an_deliveryRate_def failRate_def percents_add)
  also have "\<dots> \<le> 100" using percent_range [of "of_int (t_delivered ?t + t_failed ?t)" "of_int (t_sent ?t)"] s by simp
  finally have "an_deliveryRate ?t + failRate ?t \<le> 100" .
  moreover have "0 \<le> an_deliveryRate ?t" "0 \<le> failRate ?t"
    using s percent_range [of "of_int (t_delivered ?t)" "of_int (t_sent ?t)"] percent_range [of "of_int (t_failed ?t)" "of_int (t_sent ?t)"]
    by (simp_all add: an_deliveryRate_def failRate_def)
  ultimately show "0 \<le> an_deliveryRate ?t \<and> 0 \<le> failRate ?t \<and> an_deliveryRate ?t + failRate ?t \<le> 100" by blast
  have "sum_list (map total_sent days) = sum_list (map total_sent (take 30 days @ drop 30 days))" by simp
  then show "t_sent (totals_of days) = t_sent (totals_of (shown_days days)) + t_sent (totals_of (drop 30 days))"
    by (simp only: totals_are_sums shown_days_def map_append sum_list_append)
qed

definition one_day :: day where
  "one_day = \<lparr>day_id = ''1'', day_date = ''2026-01-01'', total_sent = 3, total_delivered = 2, total_failed = 1, otp_sent = 0,
     transactional_sent = 3, marketing_sent = 0\<rparr>"

theorem analytics_rates_are_rates_witness:
  "an_deliveryRate (totals_of [one_day]) + failRate (totals_of [one_day]) \<le> 100"
  using analytics_rates_are_rates [of "[one_day]"] by (simp add: sound_day_def one_day_def)

text \<open>
  C31. The chart has the days in order and none is lost: its points are those of the days, rearranged so that
  their times do not decrease, and days of the same time stay as the server sent them.
\<close>

theorem chart_orders_the_days:
  "sorted (map (\<lambda>(t, a, b, c). time t) (chartData time days))
    \<and> mset (chartData time days) = mset (map (\<lambda>d. (day_date d, total_sent d, total_delivered d, total_failed d)) days)
    \<and> filter (\<lambda>(t, a, b, c). time t = k) (chartData time days) =
        map (\<lambda>d. (day_date d, total_sent d, total_delivered d, total_failed d)) (filter (\<lambda>d. time (day_date d) = k) days)"
proof -
  have "sorted (map (\<lambda>d. time (day_date d)) (sort_key (\<lambda>d. time (day_date d)) days))" by simp
  moreover have "filter (\<lambda>d. time (day_date d) = k) (sort_key (\<lambda>d. time (day_date d)) days) = filter (\<lambda>d. time (day_date d) = k) days"
    by (rule sort_key_stable)
  ultimately show ?thesis
    by (simp add: chartData_def comp_def filter_map case_prod_unfold)
qed

end
