(* ===== verification/Devices.thy ===== *)
theory Devices
  imports Figures PageParts
begin

text \<open>
  The devices of a member: the dialog that shows a pairing code and counts its seconds
  (\<open>features/member/components/AddDeviceQRModal.tsx\<close>), and the page around it
  (\<open>features/member/pages/MemberDevicesPage.tsx\<close>). Times are milliseconds; the clock of the host comes
  with the answer that reads it. The dialog is mounted while the page shows its list; requests in flight
  know the mount that sent them, and answers to an earlier one are lost.
\<close>

section \<open>The pairing code\<close>

datatype qr_status = Idle | Waiting | Expired | ErrorStatus

record qr_code =
  qr_token :: string
  expires_at :: int
  qr_value :: string

record qr =
  qr_open :: bool
  qrData :: "qr_code option"
  qr_loading :: bool
  qr_error :: "string option"
  timeLeft :: int
  qr_status :: qr_status
  qr_mount :: nat
  qr_calls :: "nat list"

text \<open>The body of an answer with a code, one without, or a failed request.\<close>

datatype qr_answer = Code qr_code | NoCode "string option" | QrFailed js_error

datatype qr_event =
    FetchQr
  | QrAnswer nat int qr_answer
  | Tick

definition qr_request :: request where
  "qr_request = post_req ''/member/devices/qr-code'' JUndef"

definition qr_blank :: "nat \<Rightarrow> nat list \<Rightarrow> qr" where
  "qr_blank m cs = \<lparr>qr_open = False, qrData = None, qr_loading = False, qr_error = None, timeLeft = 0, qr_status = Idle,
     qr_mount = m, qr_calls = cs\<rparr>"

definition fetchQRCode :: "qr \<Rightarrow> qr" where
  "fetchQRCode q = q\<lparr>qr_loading := True, qr_error := None, qr_calls := qr_calls q @ [qr_mount q]\<rparr>"

definition seconds_left :: "int \<Rightarrow> int \<Rightarrow> int" where
  "seconds_left expires now = max 0 ((expires - now) div 1000)"

definition qr_answered :: "int \<Rightarrow> qr_answer \<Rightarrow> qr \<Rightarrow> qr" where
  "qr_answered now a q =
     (case a of
        Code c \<Rightarrow> q\<lparr>qrData := Some c, qr_status := Waiting, timeLeft := seconds_left (expires_at c) now\<rparr>
      | NoCode e \<Rightarrow> q\<lparr>qr_error := Some (case e of None \<Rightarrow> ''Failed to generate QR code'' | Some m \<Rightarrow> or_text m ''Failed to generate QR code''),
          qr_status := ErrorStatus\<rparr>
      | QrFailed e \<Rightarrow> q\<lparr>qr_error := Some (err_message e), qr_status := ErrorStatus\<rparr>)\<lparr>qr_loading := False\<rparr>"

text \<open>The effect over \<open>open\<close>.\<close>

definition set_open :: "bool \<Rightarrow> qr \<Rightarrow> qr" where
  "set_open b q =
     (if b = qr_open q then q
      else if b then fetchQRCode (q\<lparr>qr_open := True\<rparr>)
      else q\<lparr>qr_open := False, qrData := None, qr_status := Idle, timeLeft := 0\<rparr>)"

definition counting :: "qr \<Rightarrow> bool" where
  "counting q \<longleftrightarrow> qr_status q = Waiting \<and> timeLeft q > 0"

definition tick :: "qr \<Rightarrow> qr" where
  "tick q =
     (if \<not> counting q then q
      else if timeLeft q \<le> 1 then q\<lparr>qr_status := Expired, timeLeft := 0\<rparr>
      else q\<lparr>timeLeft := timeLeft q - 1\<rparr>)"

fun qr_step :: "qr \<Rightarrow> qr_event \<Rightarrow> qr" where
  "qr_step q FetchQr = fetchQRCode q"
| "qr_step q (QrAnswer m now a) =
     (if m \<notin> set (qr_calls q) then q
      else let q1 = q\<lparr>qr_calls := remove1 m (qr_calls q)\<rparr> in if m = qr_mount q then qr_answered now a q1 else q1)"
| "qr_step q Tick = tick q"

definition formatTime :: "int \<Rightarrow> string" where
  "formatTime t =
     (let s = show_int (t mod 60) in show_int (t div 60) @ '':'' @ replicate (2 - length s) CHR ''0'' @ s)"

definition pairing_steps :: "string list" where
  "pairing_steps = [''Open the AeroXe Bee Android app'', ''Tap \"Scan QR Code\" on the login screen'',
     ''Point your camera at the QR code above'', ''The device will be paired automatically'']"

definition AddDeviceQRModal :: "(qr_event \<Rightarrow> 'e) \<Rightarrow> 'e \<Rightarrow> qr \<Rightarrow> 'e vnode list" where
  "AddDeviceQRModal ev onClose q =
     (let fetch = small_button (qr_loading q) False (ev FetchQr)
      in when_do (qr_open q)
        [El ''div'' [] [] [El ''div'' [] [On ''click'' onClose] [],
          box [box [box [box [El ''svg'' [] [] []], box [El ''h2'' [] [] [Txt ''Add New Device''], El ''p'' [] [] [Txt ''Scan QR code with the Android app'']]],
                    El ''button'' [] [On ''click'' onClose] [El ''svg'' [] [] []]],
               box ([Card True (
                  when_do (qr_loading q) [box [box [], El ''p'' [] [] [Txt ''Generating QR code...'']]] @
                  (case qr_error q of None \<Rightarrow> [] | Some m \<Rightarrow> when_do (m \<noteq> []) [box [El ''svg'' [] [] [], El ''p'' [] [] [Txt m], fetch ''Try Again'']]) @
                  (case qrData q of None \<Rightarrow> []
                   | Some c \<Rightarrow> when_do (qr_status q = Waiting)
                       [box [box [El ''QRCodeSVG'' [(''value'', qr_value c)] [] []],
                             box [El ''svg'' [] [] [], span [Txt (formatTime (timeLeft q))]]]]) @
                  when_do (qr_status q = Expired)
                    [box [El ''svg'' [] [] [], El ''p'' [] [] [Txt ''QR code expired''], fetch ''Generate New Code'']])] @
                 [box [El ''h3'' [] [] [Txt ''How to pair:''],
                       El ''ol'' [] [] (map (\<lambda>(i, t). El ''li'' [] [] [span [Txt (show_nat (Suc i))], span [Txt t]]) (zip [0..<4] pairing_steps))]] @
                 when_do (qr_status q = Waiting) [box [fetch ''Refresh Code'']])]]])"

section \<open>The page\<close>

datatype device_call = RenameDevice "string option" string | DisconnectDevice "string option"

record devices_page =
  renameTarget :: "jsval option"
  renameName :: string
  disconnectTarget :: "jsval option"
  showQRModal :: bool
  dv_query :: "jsval list shown"
  dv_calls :: "device_call list"
  dv_notes :: "notice list"
  dv_qr :: qr

datatype device_event =
    OpenRename jsval
  | CloseRename
  | TypeRename string
  | SaveRename
  | AskDisconnect jsval
  | CloseDisconnect
  | ConfirmDisconnect
  | ShowQr
  | HideQr
  | Qr qr_event
  | DevicesAnswer "js_error + jsval list"
  | DeviceSettles device_call "js_error + jsval"

definition devices_initial :: devices_page where
  "devices_initial = \<lparr>renameTarget = None, renameName = [], disconnectTarget = None, showQRModal = False, dv_query = Pending,
     dv_calls = [], dv_notes = [], dv_qr = qr_blank 0 []\<rparr>"

text \<open>\<open>res.data.data || []\<close> of the list; a mutation without its target sends nothing and succeeds.\<close>

definition devices_service :: service where
  "devices_service = Service (get_req ''/member/devices'') (on_body (\<lambda>b. sbind (js_get b ''data'') (\<lambda>d. Inr (js_or d (JArr [])))))"

fun device_request :: "device_call \<Rightarrow> request option" where
  "device_request (RenameDevice i n) = map_option (\<lambda>d. put_req (''/member/devices/'' @ d) (JObj [(''name'', JStr n)])) i"
| "device_request (DisconnectDevice i) = map_option (\<lambda>d. delete_req (''/member/devices/'' @ d)) i"

text \<open>The list is shown, and the dialog mounted, when there is a device in an answer without an error.\<close>

definition list_shown :: "jsval list shown \<Rightarrow> bool" where
  "list_shown q = (case q of Loaded ds \<Rightarrow> ds \<noteq> [] | _ \<Rightarrow> False)"

definition devices_of :: "jsval list shown \<Rightarrow> jsval list" where
  "devices_of q = (case q of Loaded ds \<Rightarrow> ds | _ \<Rightarrow> [])"

definition devices_answered :: "js_error + jsval list \<Rightarrow> devices_page \<Rightarrow> devices_page" where
  "devices_answered r s =
     (let s1 = s\<lparr>dv_query := seen r\<rparr>; q = dv_qr s
      in if list_shown (dv_query s1) = list_shown (dv_query s) then s1
         else if list_shown (dv_query s1) then s1\<lparr>dv_qr := set_open (showQRModal s) (qr_blank (Suc (qr_mount q)) (qr_calls q))\<rparr>
         else s1\<lparr>dv_qr := qr_blank (Suc (qr_mount q)) (qr_calls q)\<rparr>)"

definition dv_note :: "js_error \<Rightarrow> string \<Rightarrow> devices_page \<Rightarrow> devices_page" where
  "dv_note e fallback s = s\<lparr>dv_notes := dv_notes s @ [note_error e fallback]\<rparr>"

fun device_callback :: "device_call \<Rightarrow> js_error + jsval \<Rightarrow> devices_page \<Rightarrow> devices_page" where
  "device_callback (RenameDevice i n) =
     mutation_settles (\<lambda>d s. s\<lparr>renameTarget := None, renameName := []\<rparr>) (\<lambda>e. dv_note e ''Failed to rename device'')"
| "device_callback (DisconnectDevice i) =
     mutation_settles (\<lambda>d s. s\<lparr>disconnectTarget := None\<rparr>) (\<lambda>e. dv_note e ''Failed to disconnect device'')"

definition dv_send :: "device_call \<Rightarrow> devices_page \<Rightarrow> devices_page" where
  "dv_send c s = s\<lparr>dv_calls := dv_calls s @ [c]\<rparr>"

definition show_qr :: "bool \<Rightarrow> devices_page \<Rightarrow> devices_page" where
  "show_qr b s =
     (let s1 = s\<lparr>showQRModal := b\<rparr> in if list_shown (dv_query s) then s1\<lparr>dv_qr := set_open b (dv_qr s)\<rparr> else s1)"

fun devices_step :: "devices_page \<Rightarrow> device_event \<Rightarrow> devices_page" where
  "devices_step s (OpenRename d) = s\<lparr>renameTarget := Some d, renameName := to_str (opt_get d ''physical_device_id'')\<rparr>"
| "devices_step s CloseRename = s\<lparr>renameTarget := None, renameName := []\<rparr>"
| "devices_step s (TypeRename t) = s\<lparr>renameName := t\<rparr>"
| "devices_step s SaveRename = dv_send (RenameDevice (map_option row_id (renameTarget s)) (renameName s)) s"
| "devices_step s (AskDisconnect d) = s\<lparr>disconnectTarget := Some d\<rparr>"
| "devices_step s CloseDisconnect = s\<lparr>disconnectTarget := None\<rparr>"
| "devices_step s ConfirmDisconnect = dv_send (DisconnectDevice (map_option row_id (disconnectTarget s))) s"
| "devices_step s ShowQr = show_qr True s"
| "devices_step s HideQr = show_qr False s"
| "devices_step s (Qr e) = s\<lparr>dv_qr := qr_step (dv_qr s) e\<rparr>"
| "devices_step s (DevicesAnswer r) = devices_answered r s"
| "devices_step s (DeviceSettles c r) =
     (if c \<in> set (dv_calls s) then (device_callback c r s)\<lparr>dv_calls := remove1 c (dv_calls s)\<rparr> else s)"

section \<open>View of the page\<close>

fun renames :: "device_call \<Rightarrow> bool" where "renames (RenameDevice i n) = True" | "renames _ = False"
fun disconnects :: "device_call \<Rightarrow> bool" where "disconnects (DisconnectDevice i) = True" | "disconnects _ = False"

definition onlineCount :: "jsval list \<Rightarrow> nat" where
  "onlineCount ds = length (filter (\<lambda>d. opt_get d ''status'' = JStr ''ONLINE'') ds)"

text \<open>\<open>whole\<close> stands for \<open>(v * 100).toFixed(0)\<close>.\<close>

definition device_lines :: "(jsval \<Rightarrow> string) \<Rightarrow> (string \<Rightarrow> string) \<Rightarrow> jsval \<Rightarrow> (string \<times> string) list" where
  "device_lines whole locale_date d =
     [(''SIM slot'', text_of d ''sim_slot''), (''Reliability'', whole (opt_get d ''reliability_score'') @ ''%''),
      (''24h success'', whole (opt_get d ''success_rate_24h'') @ ''%''),
      (''Last seen'', if truthy (opt_get d ''last_seen'') then locale_date (to_str (opt_get d ''last_seen'')) else ''Never'')]"

definition device_card :: "(jsval \<Rightarrow> string) \<Rightarrow> (string \<Rightarrow> string) \<Rightarrow> jsval \<Rightarrow> device_event vnode" where
  "device_card whole locale_date d =
     Card True
       [box [box [El ''h3'' [] [] [Txt (text_of d ''physical_device_id'')],
               El ''p'' [] [] [Txt (if truthy (opt_get d ''carrier'') then text_of d ''carrier'' else ''Unknown carrier'')]],
             Badge True [Txt (map to_lower (to_str (opt_get d ''status'')))]],
        box (map (\<lambda>(l, v). box [span [Txt l], span [Txt v]]) (device_lines whole locale_date d)),
        box [small_button False False (OpenRename d) ''Rename'', small_button False False (AskDisconnect d) ''Disconnect'']]"

definition rename_modal :: "devices_page \<Rightarrow> device_event vnode list" where
  "rename_modal s =
     Modal (renameTarget s \<noteq> None) CloseRename (Some ''Rename device'') None
       [text_input ''Device name'' [] (renameName s) TypeRename]
       [small_button False (list_ex renames (dv_calls s)) CloseRename ''Cancel'',
        small_button (list_ex renames (dv_calls s)) False SaveRename ''Save'']"

definition devices_view :: "(jsval \<Rightarrow> string) \<Rightarrow> (string \<Rightarrow> string) \<Rightarrow> devices_page \<Rightarrow> device_event vnode list" where
  "devices_view whole locale_date s =
     (case dv_query s of
        Pending \<Rightarrow> [PageSkeleton]
      | Broken \<Rightarrow> [box [Txt ''Failed to load devices'']]
      | Loaded ds \<Rightarrow>
          if ds = [] then
            [box [El ''h1'' [] [] [Txt ''Devices''],
               EmptyState ''No devices registered'' (Some ''Download the Android app to register your first device.'') None]]
          else
            [hero ''Devices'' (show_nat (length ds) @ '' devices - '' @ show_nat (onlineCount ds) @ '' online'')
               [box [small_button False False ShowQr ''Add Device'']],
             box (map (device_card whole locale_date) ds)] @
            AddDeviceQRModal Qr HideQr (dv_qr s) @ rename_modal s @
            ConfirmDialog (disconnectTarget s \<noteq> None) CloseDisconnect ConfirmDisconnect ''Disconnect device''
              (Some (''Are you sure you want to disconnect '' @
                 (case disconnectTarget s of None \<Rightarrow> ''undefined'' | Some d \<Rightarrow> to_str (opt_get d ''physical_device_id'')) @ ''?''))
              ''Disconnect'' ''Cancel'' (list_ex disconnects (dv_calls s)))"

section \<open>The countdown\<close>

text \<open>A count is never negative, and a code that is waited for is there.\<close>

definition counted :: "qr \<Rightarrow> bool" where
  "counted q \<longleftrightarrow> 0 \<le> timeLeft q \<and> (qr_status q = Waiting \<longrightarrow> qrData q \<noteq> None)"

lemma counted_qr_step: "counted q \<Longrightarrow> counted (qr_step q e)"
  by (cases e)
    (auto simp: counted_def fetchQRCode_def qr_answered_def tick_def counting_def seconds_left_def Let_def split: qr_answer.splits)

interpretation qr_dialog: machine qr_step "\<lambda>q e. True" counted
  by unfold_locales (rule counted_qr_step)

lemma counted_set_open: "counted q \<Longrightarrow> counted (set_open b q)"
  by (simp add: counted_def set_open_def fetchQRCode_def)

lemma ticks:
  assumes "qr_status q = Waiting" and "int n < timeLeft q"
  shows "(tick ^^ n) q = q\<lparr>timeLeft := timeLeft q - int n\<rparr>"
  using assms(2)
  by (induction n) (use assms(1) in \<open>auto simp: tick_def counting_def\<close>)

lemma not_counting_ticks: "\<not> counting q \<Longrightarrow> (tick ^^ n) q = q"
  by (induction n) (auto simp: tick_def)

text \<open>
  C32. A code expires: answered with a code that is good for at least a second, the dialog counts it
  down one second at a time, offering the code while it does, and after exactly as many ticks as there
  are whole seconds it says that the code has expired, and stays so until a new one is asked for.
\<close>

theorem codes_expire:
  assumes "1000 \<le> expires_at c - now"
  defines "t \<equiv> nat ((expires_at c - now) div 1000)"
  shows "(tick ^^ n) (qr_answered now (Code c) q) =
           (if n < t then q\<lparr>qrData := Some c, qr_status := Waiting, timeLeft := int (t - n), qr_loading := False\<rparr>
            else q\<lparr>qrData := Some c, qr_status := Expired, timeLeft := 0, qr_loading := False\<rparr>)"
proof -
  let ?q = "qr_answered now (Code c) q"
  have t: "timeLeft ?q = int t" "qr_status ?q = Waiting" "0 < t"
    using assms(1) by (simp_all add: qr_answered_def seconds_left_def t_def)
  have last: "(tick ^^ t) ?q = ?q\<lparr>qr_status := Expired, timeLeft := 0\<rparr>"
    using ticks [of ?q "t - 1"] t by (cases t) (simp_all add: tick_def counting_def)
  have "(tick ^^ n) ?q = (tick ^^ (n - t)) ((tick ^^ t) ?q)" if "t \<le> n"
    using that by (metis comp_apply funpow_add le_add_diff_inverse2)
  then have "(tick ^^ n) ?q = ?q\<lparr>qr_status := Expired, timeLeft := 0\<rparr>" if "t \<le> n"
    using that by (simp add: last not_counting_ticks counting_def)
  then show ?thesis
    using ticks [of ?q n] t(1,2) by (auto simp: qr_answered_def of_nat_diff)
qed

definition sample_code :: qr_code where
  "sample_code = \<lparr>qr_token = ''t'', expires_at = 61500, qr_value = ''v''\<rparr>"

theorem codes_expire_witness:
  "qr_status ((tick ^^ 60) (qr_answered 1000 (Code sample_code) (qr_blank 0 []))) = Expired"
  using codes_expire [of sample_code 1000 60 "qr_blank 0 []"] by (simp add: sample_code_def)

text \<open>
  A code that is about to expire when its answer comes, or that the clock of the browser takes for
  expired, never expires in the dialog: it is shown with 0:00 for as long as nothing but the
  time passes, because the countdown that would report the expiry does not start.
\<close>

theorem expired_codes_stay:
  assumes "expires_at c - now < 1000"
  shows "let q' = qr_answered now (Code c) q
         in (tick ^^ n) q' = q' \<and> qr_status q' = Waiting \<and> qrData q' = Some c \<and> formatTime (timeLeft q') = ''0:00''"
proof -
  have "timeLeft (qr_answered now (Code c) q) = 0"
    using assms(1) by (simp add: qr_answered_def seconds_left_def)
  moreover have "formatTime 0 = ''0:00''" by code_simp
  ultimately show ?thesis
    by (simp add: Let_def not_counting_ticks counting_def) (simp add: qr_answered_def)
qed

theorem expired_codes_stay_witness:
  "qr_status ((tick ^^ n) (qr_answered 61000 (Code sample_code) (qr_blank 0 []))) = Waiting"
  using expired_codes_stay [of sample_code 61000 "qr_blank 0 []" n] by (simp add: sample_code_def Let_def)

section \<open>Old codes and first devices\<close>

text \<open>
  Closing the dialog does not disown a request in flight: its code is taken by the closed dialog and
  waits there, so that the dialog shows it at once when it is opened again, counting the seconds it
  had when it was answered, while the request of the new opening is only on its way. The old code
  may have been replaced, or have run out, by then.
\<close>

theorem old_codes_reappear:
  assumes "qr_open q" and "qr_mount q \<in> set (qr_calls q)"
  shows "let q1 = set_open True (qr_step (set_open False q) (QrAnswer (qr_mount q) now (Code c)))
    in qr_open q1 \<and> qr_status q1 = Waiting \<and> qrData q1 = Some c \<and> timeLeft q1 = seconds_left (expires_at c) now \<and>
      qr_loading q1 \<and> qr_mount q \<in> set (qr_calls q1)"
  using assms by (simp add: set_open_def qr_answered_def fetchQRCode_def Let_def)

theorem old_codes_reappear_witness:
  "let q = set_open True (qr_blank 0 [])
   in qrData (set_open True (qr_step (set_open False q) (QrAnswer 0 1000 (Code sample_code)))) = Some sample_code"
  using old_codes_reappear [of "set_open True (qr_blank 0 [])" 1000 sample_code]
  by (simp add: Let_def set_open_def fetchQRCode_def qr_answered_def qr_blank_def)

lemma only_lists_fire:
  assumes "\<not> list_shown (dv_query s)"
  shows "\<not> list_fire (devices_view whole loc s) e"
  using assms by (auto simp: devices_view_def list_shown_def broken_page_def split: shown.splits)

text \<open>What the user does with the page as it is shown, seconds going by, and answers without a device.\<close>

definition deviceless :: "devices_page \<Rightarrow> device_event \<Rightarrow> bool" where
  "deviceless s e \<longleftrightarrow>
     (\<exists>whole loc. list_fire (devices_view whole loc s) e) \<or> e = Qr Tick \<or> e = DevicesAnswer (Inr []) \<or> (\<exists>x. e = DevicesAnswer (Inl x))"

definition unpaired :: "devices_page \<Rightarrow> bool" where
  "unpaired s \<longleftrightarrow> \<not> list_shown (dv_query s) \<and> qr_calls (dv_qr s) = [] \<and> qr_status (dv_qr s) = Idle"

lemma unpaired_stays:
  assumes "unpaired s" and "deviceless s e"
  shows "unpaired (devices_step s e)"
proof -
  have "\<not> list_shown (dv_query s)" using assms(1) by (simp add: unpaired_def)
  from only_lists_fire [OF this] show ?thesis
    using assms by (auto simp: deviceless_def unpaired_def devices_answered_def list_shown_def seen_def tick_def counting_def Let_def)
qed

interpretation unpaired_page: machine devices_step deviceless unpaired
  by unfold_locales (rule unpaired_stays)

text \<open>
  A member without a device cannot pair one from this page: while the list is empty the page offers
  nothing, so however often it is loaded no pairing code is ever asked for; the button that
  would ask is on the page with the list only.
\<close>

theorem first_device_is_not_paired:
  assumes "unpaired_page.admissible devices_initial es"
  shows "qr_calls (dv_qr (foldl devices_step devices_initial es)) = [] \<and>
    \<not> list_fire (devices_view whole loc (foldl devices_step devices_initial es)) ShowQr"
proof -
  have "unpaired devices_initial"
    by (simp add: unpaired_def devices_initial_def list_shown_def qr_blank_def)
  from unpaired_page.fold_inv [OF this assms] show ?thesis using only_lists_fire by (auto simp: unpaired_def)
qed

theorem first_device_is_not_paired_witness:
  "\<not> list_fire (devices_view whole loc (foldl devices_step devices_initial [DevicesAnswer (Inr []), Qr Tick])) ShowQr"
  using first_device_is_not_paired [of "[DevicesAnswer (Inr []), Qr Tick]"] by (simp add: deviceless_def)

end
