(* ===== verification/MemberPlans.thy ===== *)
theory MemberPlans
  imports Catalog
begin

text \<open>
  The plan of a member: choosing another one and paying for it
  (\<open>features/member/pages/MemberUpgradePage.tsx\<close>), and the requests made so far
  (\<open>MemberPaymentRequestsPage.tsx\<close>, \<open>MemberSubscriptionRequestsPage.tsx\<close>). What the host computes with
  numbers is a record of functions.
\<close>

section \<open>Choosing and paying\<close>

record host_numbers =
  times_ten :: "jsval \<Rightarrow> jsval"
  is_positive :: "jsval \<Rightarrow> bool"
  locale_number :: "jsval \<Rightarrow> string"
  two_places :: "jsval \<Rightarrow> string"

datatype billing_cycle = Monthly | Yearly

datatype upgrade_call = SubscribeCall "jsval option" | PayCall "jsval option"

record upgrade_page =
  selectedPlan :: "jsval option"
  billingCycle :: billing_cycle
  paymentMethod :: string
  proofUrl :: string
  ug_plans :: query
  ug_methods :: query
  ug_calls :: "upgrade_call list"
  ug_notes :: "notice list"

datatype upgrade_event =
    PickCycle billing_cycle
  | PickPlan jsval
  | PickMethod string
  | TypeProof string
  | CancelUpgrade
  | PayClick
  | UpgradePlansAnswer "js_error + jsval"
  | MethodsAnswer "js_error + jsval"
  | UpgradeSettles upgrade_call "js_error + jsval"

definition upgrade_initial :: upgrade_page where
  "upgrade_initial = \<lparr>selectedPlan = None, billingCycle = Monthly, paymentMethod = [], proofUrl = [], ug_plans = Loading,
     ug_methods = Loading, ug_calls = [], ug_notes = []\<rparr>"

fun cycle_name :: "billing_cycle \<Rightarrow> string" where
  "cycle_name Monthly = ''monthly''"
| "cycle_name Yearly = ''yearly''"

definition calculatePrice :: "host_numbers \<Rightarrow> billing_cycle \<Rightarrow> jsval \<Rightarrow> jsval" where
  "calculatePrice h c plan =
     (if c = Yearly then times_ten h (opt_get plan ''monthly_price'') else opt_get plan ''monthly_price'')"

text \<open>The functions of the mutations; without their data they throw and send nothing.\<close>

definition subscribe_form :: "upgrade_page \<Rightarrow> jsval option" where
  "subscribe_form s =
     map_option (\<lambda>p. JObj [(''requested_plan'', opt_get p ''id''), (''requested_billing_cycle'', JStr (cycle_name (billingCycle s))),
       (''reason'', JStr (''Upgrade to '' @ to_str (opt_get p ''name'') @ '' ('' @ cycle_name (billingCycle s) @ '')''))])
     (selectedPlan s)"

definition pay_form :: "host_numbers \<Rightarrow> upgrade_page \<Rightarrow> jsval option" where
  "pay_form h s =
     (if paymentMethod s = [] then None
      else map_option (\<lambda>p. JObj [(''plan_id'', opt_get p ''id''), (''billing_cycle'', JStr (cycle_name (billingCycle s))),
        (''payment_method'', JStr (paymentMethod s)), (''amount'', calculatePrice h (billingCycle s) p), (''proof_url'', JStr (proofUrl s))])
      (selectedPlan s))"

fun upgrade_service :: "upgrade_call \<Rightarrow> service option" where
  "upgrade_service (SubscribeCall f) = map_option createSubscriptionRequest f"
| "upgrade_service (PayCall f) = map_option createPaymentRequest f"

definition ug_note :: "js_error \<Rightarrow> string \<Rightarrow> upgrade_page \<Rightarrow> upgrade_page" where
  "ug_note e fallback s = s\<lparr>ug_notes := ug_notes s @ [note_error e fallback]\<rparr>"

fun upgrade_callback :: "upgrade_call \<Rightarrow> js_error + jsval \<Rightarrow> upgrade_page \<Rightarrow> upgrade_page" where
  "upgrade_callback (SubscribeCall f) =
     mutation_settles (\<lambda>d s. s\<lparr>selectedPlan := None\<rparr>) (\<lambda>e. ug_note e ''Failed to submit upgrade request'')"
| "upgrade_callback (PayCall f) =
     mutation_settles (\<lambda>d s. s\<lparr>selectedPlan := None, paymentMethod := [], proofUrl := []\<rparr>)
       (\<lambda>e. ug_note e ''Failed to submit payment request'')"

fun upgrade_step :: "host_numbers \<Rightarrow> upgrade_page \<Rightarrow> upgrade_event \<Rightarrow> upgrade_page" where
  "upgrade_step h s (PickCycle c) = s\<lparr>billingCycle := c\<rparr>"
| "upgrade_step h s (PickPlan p) = s\<lparr>selectedPlan := Some p\<rparr>"
| "upgrade_step h s (PickMethod m) = s\<lparr>paymentMethod := m\<rparr>"
| "upgrade_step h s (TypeProof t) = s\<lparr>proofUrl := t\<rparr>"
| "upgrade_step h s CancelUpgrade = s\<lparr>selectedPlan := None, paymentMethod := []\<rparr>"
| "upgrade_step h s PayClick = s\<lparr>ug_calls := ug_calls s @ [PayCall (pay_form h s)]\<rparr>"
| "upgrade_step h s (UpgradePlansAnswer r) = s\<lparr>ug_plans := query_answered r (ug_plans s)\<rparr>"
| "upgrade_step h s (MethodsAnswer r) = s\<lparr>ug_methods := query_answered r (ug_methods s)\<rparr>"
| "upgrade_step h s (UpgradeSettles c r) =
     (if c \<in> set (ug_calls s) then (upgrade_callback c r s)\<lparr>ug_calls := remove1 c (ug_calls s)\<rparr> else s)"

section \<open>View of the upgrade\<close>

definition plan_lines :: "host_numbers \<Rightarrow> jsval \<Rightarrow> string list" where
  "plan_lines h p =
     [locale_number h (opt_get p ''daily_quota'') @ '' SMS/day'', locale_number h (opt_get p ''monthly_quota'') @ '' SMS/month'',
      locale_number h (opt_get p ''max_queue_depth'') @ '' queue depth''] @
     (if truthy (opt_get p ''dedicated_pool'') then [''Dedicated pool''] else []) @
     [spaced (to_str (opt_get p ''default_routing_strategy''))] @
     (if is_positive h (opt_get p ''price_per_sms'') then [''$'' @ to_str (opt_get p ''price_per_sms'') @ ''/SMS overage''] else [])"

definition upgrade_card :: "host_numbers \<Rightarrow> upgrade_page \<Rightarrow> jsval \<Rightarrow> upgrade_event vnode" where
  "upgrade_card h s p =
     El ''button'' [] [On ''click'' (PickPlan p)]
       [CardHeader [CardTitle [Txt (text_of p ''name'')],
          box [span [Txt (''$'' @ shown_text (calculatePrice h (billingCycle s) p))],
               span [Txt (if billingCycle s = Yearly then ''/year'' else ''/month'')]]],
        CardContent [El ''ul'' [] [] (map (\<lambda>f. El ''li'' [] [] [El ''svg'' [] [] [], Txt f]) (plan_lines h p))]]"

text \<open>\<open>Object.values(method.details).filter(Boolean).join(' --- ')\<close> of an object.\<close>

definition detail_text :: "jsval \<Rightarrow> string" where
  "detail_text m =
     join_with '' - '' (map to_str (filter truthy (case opt_get m ''details'' of JObj kvs \<Rightarrow> map snd kvs | _ \<Rightarrow> [])))"

definition method_button :: "jsval \<Rightarrow> upgrade_event vnode" where
  "method_button m =
     El ''button'' [] [On ''click'' (PickMethod (to_str (opt_get m ''method'')))]
       [box [El ''svg'' [] [] []],
        box [El ''p'' [] [] [Txt (text_of m ''label'')], El ''p'' [] [] [Txt (detail_text m)]]]"

definition payment_box :: "upgrade_page \<Rightarrow> upgrade_event vnode list" where
  "payment_box s =
     when_do (selectedPlan s \<noteq> None)
       [Card False [CardHeader [CardTitle [Txt ''Payment Method'']],
          CardContent [if ug_methods s = Loading then box []
            else box (map method_button (features_of (ug_methods s)) @
              when_do (paymentMethod s \<noteq> [])
                [Input (input\<lparr>i_label := Some ''Payment Proof URL (optional)'', i_rest := [(''value'', proofUrl s), (''placeholder'', ''https://...'')],
                   i_on := [OnText ''change'' TypeProof]\<rparr>)] @
              [box [small_button False False CancelUpgrade ''Cancel'',
                    small_button (ug_calls s \<noteq> []) (paymentMethod s = []) PayClick ''Submit Upgrade Request'']])]]]"

definition upgrade_view :: "host_numbers \<Rightarrow> upgrade_page \<Rightarrow> upgrade_event vnode list" where
  "upgrade_view h s =
     (if ug_plans s = Loading then [skeleton_rows 5]
      else [hero ''Upgrade Plan'' ''Choose a plan that fits your needs. Changes require admin approval.'' [],
            box [El ''button'' [] [On ''click'' (PickCycle Monthly)] [Txt ''Monthly''],
                 El ''button'' [] [On ''click'' (PickCycle Yearly)] [Txt ''Yearly '', span [Txt ''Save 2 months'']]],
            box (map (upgrade_card h s) (features_of (ug_plans s)))] @ payment_box s)"

section \<open>The requests made\<close>

record my_requests =
  mr_page :: int
  mr_queries :: "int \<Rightarrow> query"

datatype mine_event = GoMine int | MineAnswer int "js_error + jsval"

definition mine_initial :: my_requests where
  "mine_initial = \<lparr>mr_page = 1, mr_queries = (\<lambda>p. Loading)\<rparr>"

definition mine_form :: "int \<Rightarrow> jsval" where
  "mine_form p = JObj [(''page'', JNum p), (''pageSize'', JNum 10)]"

definition payments_query :: "int \<Rightarrow> service" where
  "payments_query p = getMyPaymentRequests (mine_form p)"

definition subscriptions_query :: "int \<Rightarrow> service" where
  "subscriptions_query p = getMySubscriptionRequests (mine_form p)"

fun mine_step :: "my_requests \<Rightarrow> mine_event \<Rightarrow> my_requests" where
  "mine_step s (GoMine p) = s\<lparr>mr_page := p\<rparr>"
| "mine_step s (MineAnswer p r) = s\<lparr>mr_queries := answered p r (mr_queries s)\<rparr>"

definition mine_now :: "my_requests \<Rightarrow> query" where
  "mine_now s = mr_queries s (mr_page s)"

text \<open>\<open>statusConfig[req.status] ?? statusConfig.pending\<close>.\<close>

definition status_def :: "jsval \<Rightarrow> string" where
  "status_def r =
     (case map_of [(''pending'', ''Pending Review''), (''approved'', ''Approved''), (''rejected'', ''Rejected'')] (to_str (opt_get r ''status'')) of
        None \<Rightarrow> ''Pending Review'' | Some l \<Rightarrow> l)"

definition labelled_box :: "string \<Rightarrow> string \<Rightarrow> 'e vnode" where
  "labelled_box l t = box [El ''p'' [] [] [Txt l], El ''p'' [] [] [Txt t]]"

definition noted :: "jsval \<Rightarrow> string \<Rightarrow> string \<Rightarrow> 'e vnode list" where
  "noted r k l = when_do (truthy (opt_get r k)) [labelled_box l (text_of r k)]"

definition mine_card :: "(string \<Rightarrow> string) \<Rightarrow> (jsval \<Rightarrow> 'e vnode list) \<Rightarrow> jsval \<Rightarrow> 'e vnode" where
  "mine_card us_date kids r =
     Card True [CardHeader [box [box [El ''svg'' [] [] [], Txt (status_def r)], span [Txt (us_date (to_str (opt_get r ''created_at'')))]]],
       CardContent (kids r)]"

definition payment_details :: "host_numbers \<Rightarrow> jsval \<Rightarrow> 'e vnode list" where
  "payment_details h r =
     [box [labelled_box ''Plan'' (text_either r ''plan_name'' ''plan_id''), labelled_box ''Billing Cycle'' (text_of r ''billing_cycle''),
           labelled_box ''Amount'' (''$'' @ (if nullish (opt_get r ''amount'') then ''--'' else two_places h (opt_get r ''amount''))),
           labelled_box ''Payment Method''
             (if nullish (opt_get r ''payment_method'') then [] else spaced (to_str (opt_get r ''payment_method'')))]] @
     when_do (truthy (opt_get r ''proof_url''))
       [box [El ''a'' [(''href'', to_str (opt_get r ''proof_url'')), (''target'', ''_blank'')] [] [Txt ''View Payment Proof '']]] @
     noted r ''review_notes'' ''Review Notes''"

definition subscription_details :: "jsval \<Rightarrow> 'e vnode list" where
  "subscription_details r =
     [box [labelled_box ''Current Plan'' (text_either r ''current_plan_name'' ''current_plan''), El ''svg'' [] [] [],
           labelled_box ''Requested Plan'' (text_either r ''requested_plan_name'' ''requested_plan''),
           labelled_box ''Billing Cycle'' (text_of r ''requested_billing_cycle'')]] @
     noted r ''reason'' ''Reason'' @ noted r ''review_notes'' ''Admin Notes''"

definition mine_pager :: "int \<Rightarrow> int \<Rightarrow> mine_event vnode list" where
  "mine_pager page pages =
     when_do (pages > 1)
       [box [small_button False (page \<le> 1) (GoMine (page - 1)) ''Previous'',
             span [Txt (''Page '' @ show_int page @ '' of '' @ show_int pages)],
             small_button False (page \<ge> pages) (GoMine (page + 1)) ''Next'']]"

definition mine_list :: "string \<Rightarrow> string \<Rightarrow> (jsval \<Rightarrow> mine_event vnode) \<Rightarrow> my_requests \<Rightarrow> mine_event vnode list" where
  "mine_list none hint show_row s =
     (if mine_now s = Loading then [skeleton_rows 4]
      else if page_rows (mine_now s) = [] then
        [Card False [CardContent [El ''svg'' [] [] [], El ''p'' [] [] [Txt none], El ''p'' [] [] [Txt hint]]]]
      else box (map show_row (page_rows (mine_now s))) # mine_pager (mr_page s) (page_count (mine_now s)))"

definition my_payments_view :: "host_numbers \<Rightarrow> (string \<Rightarrow> string) \<Rightarrow> my_requests \<Rightarrow> mine_event vnode list" where
  "my_payments_view h us_date s =
     hero ''Payment Requests'' ''Track your payment submissions and their approval status.'' [] #
     mine_list ''No payment requests yet.'' ''Payment requests are created when you upgrade your plan.''
       (mine_card us_date (payment_details h)) s"

definition my_subscriptions_view :: "(string \<Rightarrow> string) \<Rightarrow> my_requests \<Rightarrow> mine_event vnode list" where
  "my_subscriptions_view us_date s =
     hero ''Subscription Requests'' ''Track your plan upgrade requests and their approval status.'' [] #
     mine_list ''No subscription requests yet.'' ''Use the Upgrade Plan page to request a plan change.''
       (mine_card us_date subscription_details) s"

section \<open>What is sent\<close>

lemma upgrade_view_pays:
  "list_fire (upgrade_view h s) PayClick \<longleftrightarrow>
     ug_plans s \<noteq> Loading \<and> selectedPlan s \<noteq> None \<and> ug_methods s \<noteq> Loading \<and> paymentMethod s \<noteq> [] \<and> ug_calls s = []"
  by (auto simp: upgrade_view_def upgrade_card_def payment_box_def method_button_def list_fire_map)


definition plain_numbers :: host_numbers where
  "plain_numbers = \<lparr>times_ten = (\<lambda>v. case v of JNum n \<Rightarrow> JNum (10 * n) | _ \<Rightarrow> v), is_positive = (\<lambda>v. case v of JNum n \<Rightarrow> n > 0 | _ \<Rightarrow> False),
     locale_number = to_str, two_places = to_str\<rparr>"

definition choosing :: "upgrade_event list" where
  "choosing = [UpgradePlansAnswer (Inr (JArr [])), MethodsAnswer (Inr (JArr [])),
     PickPlan (JObj [(''id'', JStr ''p''), (''monthly_price'', JNum 30)]), PickCycle Yearly, PickMethod ''trc20'']"


text \<open>
  The page never asks for the change of plan itself: whatever happens on it, no subscription request is sent; what
  it sends are payment requests only. The list of subscription requests, which says that this
  page makes them, is not filled from here.
\<close>

theorem no_subscription_request_is_sent:
  "SubscribeCall f \<notin> set (ug_calls (foldl (upgrade_step h) upgrade_initial es))"
proof -
  have calls: "ug_calls (upgrade_callback c r s) = ug_calls s" for c r s
    by (cases c; cases r) (simp_all add: ug_note_def)
  have step: "SubscribeCall f \<notin> set (ug_calls (upgrade_step h s e))" if "SubscribeCall f \<notin> set (ug_calls s)" for s e
    using that by (cases e) (auto simp: calls dest: notin_set_remove1 [rotated] intro: notin_set_remove1)
  have "SubscribeCall f \<notin> set (ug_calls (foldl (upgrade_step h) s es))" if "SubscribeCall f \<notin> set (ug_calls s)" for s
    using that by (induction es arbitrary: s) (simp_all add: step)
  then show ?thesis by (simp add: upgrade_initial_def)
qed

section \<open>Pages that fail\<close>

lemma details_silent [simp]:
  "\<not> list_fire (payment_details h r) e" "\<not> list_fire (subscription_details r) e"
  by (auto simp: payment_details_def subscription_details_def noted_def labelled_box_def)

lemma mine_card_silent [simp]: "(\<And>r. \<not> list_fire (kids r) e) \<Longrightarrow> \<not> may_fire (mine_card us_date kids r) e"
  by (simp add: mine_card_def)

text \<open>
  A page of requests that cannot be loaded is a dead end: it is shown as if nothing had ever been requested, and,
  as the pager is part of the list, it offers no way back to the pages that were there.
\<close>

theorem failed_page_is_a_dead_end:
  assumes "mine_now s = Failed"
  shows "my_payments_view h us_date s = my_payments_view h us_date (s\<lparr>mr_queries := (mr_queries s)(mr_page s := Ready (JObj [(''data'', JArr [])]))\<rparr>)
    \<and> my_subscriptions_view us_date s = my_subscriptions_view us_date (s\<lparr>mr_queries := (mr_queries s)(mr_page s := Ready (JObj [(''data'', JArr [])]))\<rparr>)
    \<and> \<not> list_fire (my_payments_view h us_date s) e \<and> \<not> list_fire (my_subscriptions_view us_date s) e"
proof -
  have "page_rows Failed = []" "page_rows (Ready (JObj [(''data'', JArr [])])) = []"
    by (simp_all add: page_rows_def query_data_def coalesce_def nullish_def items_of_def opt_get_def obj_get_def)
  then show ?thesis
    using assms by (auto simp: my_payments_view_def my_subscriptions_view_def mine_list_def mine_now_def)
qed

definition lost_page :: my_requests where
  "lost_page = foldl mine_step mine_initial [MineAnswer 1 (Inr (JObj [(''total_pages'', JNum 2)])), GoMine 2, MineAnswer 2 (Inl (JsError ''offline''))]"

theorem failed_page_is_a_dead_end_witness:
  "mr_page lost_page = 2 \<and> \<not> list_fire (my_subscriptions_view us_date lost_page) (GoMine 1)"
proof -
  have "mine_now lost_page = Failed" "mr_page lost_page = 2"
    by (simp_all add: lost_page_def mine_initial_def mine_now_def answered_def)
  with failed_page_is_a_dead_end show ?thesis by blast
qed

end
