(* ===== verification/Operations.thy ===== *)
theory Operations
  imports Figures Catalog "HOL-Library.AList"
begin

text \<open>
  The pages of operators: fraud flags (\<open>features/fraud/pages/FraudFlagsPage.tsx\<close>), dead letters
  (\<open>features/dead-letters/pages/DeadLettersPage.tsx\<close>), circuit breakers
  (\<open>features/circuit-breakers/pages/CircuitBreakersPage.tsx\<close>), the plans (\<open>features/billing/pages/BillingPage.tsx\<close>)
  and the methods of payment (\<open>features/billing/pages/BillingSettingsPage.tsx\<close>).
\<close>

section \<open>Tables\<close>

definition plain_table :: "string list \<Rightarrow> 'e vnode list list list \<Rightarrow> 'e vnode" where
  "plain_table heads trs =
     box [El ''table'' [] [] [El ''thead'' [] [] [El ''tr'' [] [] (map (\<lambda>h. El ''th'' [] [] [Txt h]) heads)],
       El ''tbody'' [] [] (map (\<lambda>tds. El ''tr'' [] [] (map (El ''td'' [] []) tds)) trs)]]"

definition table_or_empty :: "string \<Rightarrow> string \<Rightarrow> string list \<Rightarrow> (jsval \<Rightarrow> 'e vnode list list) \<Rightarrow> jsval list \<Rightarrow> 'e vnode" where
  "table_or_empty none hint heads cells_of xs =
     (if xs = [] then EmptyState none (Some hint) None else plain_table heads (map cells_of xs))"

lemma plain_table_fire [simp]: "may_fire (plain_table hs trs) e \<longleftrightarrow> (\<exists>tds \<in> set trs. \<exists>td \<in> set tds. list_fire td e)"
  by (auto simp: plain_table_def list_fire_map)

lemma table_or_empty_fire [simp]:
  "may_fire (table_or_empty n h hs f xs) e \<longleftrightarrow> (\<exists>x \<in> set xs. \<exists>td \<in> set (f x). list_fire td e)"
  by (auto simp: table_or_empty_def)

section \<open>Fraud flags\<close>

record fraud_page =
  ff_query :: query
  ff_calls :: "string list"
  ff_notes :: "notice list"

datatype fraud_event =
    ReviewFlag string
  | FlagsAnswer "js_error + jsval"
  | FlagSettles string "js_error + jsval"

definition fraud_initial :: fraud_page where
  "fraud_initial = \<lparr>ff_query = Loading, ff_calls = [], ff_notes = []\<rparr>"

definition ff_note :: "notice \<Rightarrow> fraud_page \<Rightarrow> fraud_page" where
  "ff_note n s = s\<lparr>ff_notes := ff_notes s @ [n]\<rparr>"

definition fraud_service :: "string \<Rightarrow> service" where
  "fraud_service i = reviewFraudFlag i"

definition fraud_reviewed :: "js_error + jsval \<Rightarrow> fraud_page \<Rightarrow> fraud_page" where
  "fraud_reviewed = mutation_settles (\<lambda>d. ff_note (note_ok ''Flag reviewed successfully''))
     (\<lambda>e. ff_note (note_error e ''Failed to review flag''))"

fun fraud_step :: "fraud_page \<Rightarrow> fraud_event \<Rightarrow> fraud_page" where
  "fraud_step s (ReviewFlag i) = s\<lparr>ff_calls := ff_calls s @ [i]\<rparr>"
| "fraud_step s (FlagsAnswer r) = s\<lparr>ff_query := query_answered r (ff_query s)\<rparr>"
| "fraud_step s (FlagSettles i r) =
     (if i \<in> set (ff_calls s) then (fraud_reviewed r s)\<lparr>ff_calls := remove1 i (ff_calls s)\<rparr> else s)"

definition fraud_row :: "fraud_page \<Rightarrow> jsval \<Rightarrow> fraud_event vnode list list" where
  "fraud_row s f =
     [[Txt (take 8 (to_str (opt_get f ''account_id'')) @ ''...'')], [Badge False [Txt (text_of f ''flag_type'')]],
      [Badge False [Txt (text_of f ''severity'')]], [Txt (text_of f ''description'')],
      [Badge True [Txt (if truthy (opt_get f ''reviewed'') then ''Reviewed'' else ''Pending'')]],
      when_do (\<not> truthy (opt_get f ''reviewed'')) [small_button (ff_calls s \<noteq> []) False (ReviewFlag (row_id f)) ''Review'']]"

definition fraud_view :: "fraud_page \<Rightarrow> fraud_event vnode list" where
  "fraud_view s =
     (if ff_query s = Loading then [PageSkeleton]
      else [hero ''Fraud flags'' ''Review flagged suspicious activity'' [],
            table_or_empty ''No fraud flags'' ''Suspicious activity will be flagged here for review.''
              [''Account'', ''Type'', ''Severity'', ''Description'', ''Status'', []] (fraud_row s) (features_of (ff_query s))])"

section \<open>Dead letters\<close>

text \<open>
  Mutations are numbered in the order they start: what \<open>isPending\<close> says is about the last one.
\<close>

record dead_page =
  retryingId :: "string option"
  dl_query :: query
  dl_calls :: "(nat \<times> string) list"
  dl_started :: nat
  dl_notes :: "notice list"

datatype dead_event =
    RetryLetter string
  | LettersAnswer "js_error + jsval"
  | LetterSettles nat string "js_error + jsval"

definition dead_initial :: dead_page where
  "dead_initial = \<lparr>retryingId = None, dl_query = Loading, dl_calls = [], dl_started = 0, dl_notes = []\<rparr>"

definition dl_note :: "notice \<Rightarrow> dead_page \<Rightarrow> dead_page" where
  "dl_note n s = s\<lparr>dl_notes := dl_notes s @ [n]\<rparr>"

definition start_retry :: "string \<Rightarrow> dead_page \<Rightarrow> dead_page" where
  "start_retry i s = s\<lparr>retryingId := Some i, dl_calls := dl_calls s @ [(dl_started s, i)], dl_started := Suc (dl_started s)\<rparr>"

definition letter_retried :: "js_error + jsval \<Rightarrow> dead_page \<Rightarrow> dead_page" where
  "letter_retried = mutation_settles (\<lambda>d s. dl_note (note_ok ''Message requeued for retry'') (s\<lparr>retryingId := None\<rparr>))
     (\<lambda>e s. (dl_note (''Retry failed'', ''error'') s)\<lparr>retryingId := None\<rparr>)"

fun dead_step :: "dead_page \<Rightarrow> dead_event \<Rightarrow> dead_page" where
  "dead_step s (RetryLetter i) = start_retry i s"
| "dead_step s (LettersAnswer r) = s\<lparr>dl_query := query_answered r (dl_query s)\<rparr>"
| "dead_step s (LetterSettles n i r) =
     (if (n, i) \<in> set (dl_calls s) then (letter_retried r s)\<lparr>dl_calls := remove1 (n, i) (dl_calls s)\<rparr> else s)"

definition retry_pending :: "dead_page \<Rightarrow> bool" where
  "retry_pending s \<longleftrightarrow> list_ex (\<lambda>(n, i). Suc n = dl_started s) (dl_calls s)"

definition letter_row :: "(string \<Rightarrow> string) \<Rightarrow> dead_page \<Rightarrow> jsval \<Rightarrow> dead_event vnode list list" where
  "letter_row locale_time s l =
     [[Txt (text_of l ''stream'')], [Txt (text_of l ''message_id'')], [Txt (text_of l ''fail_reason'')],
      [Badge False [Txt (text_of l ''retry_count'')]], [Txt (locale_time (to_str (opt_get l ''failed_at'')))],
      [small_button (retry_pending s \<and> retryingId s = Some (row_id l)) False (RetryLetter (row_id l)) ''Retry'']]"

definition dead_view :: "(string \<Rightarrow> string) \<Rightarrow> dead_page \<Rightarrow> dead_event vnode list" where
  "dead_view locale_time s =
     (if dl_query s = Loading then [PageSkeleton]
      else [hero ''Dead letters'' ''Messages that failed delivery after all retries'' [],
            table_or_empty ''No dead letters'' ''Failed messages will appear here for inspection.''
              [''Stream'', ''Message ID'', ''Reason'', ''Retries'', ''Failed at'', []] (letter_row locale_time s) (features_of (dl_query s))])"

section \<open>Circuit breakers\<close>

record breakers_page =
  cb_query :: "jsval shown"
  cb_calls :: "(string \<times> string) list"
  cb_notes :: "notice list"

datatype breakers_event =
    ResetBreaker string string
  | BreakersAnswer "js_error + jsval"
  | BreakerSettles "string \<times> string" "js_error + jsval"

definition breakers_initial :: breakers_page where
  "breakers_initial = \<lparr>cb_query = Pending, cb_calls = [], cb_notes = []\<rparr>"

definition breaker_service :: "string \<times> string \<Rightarrow> service" where
  "breaker_service c = resetCircuitBreaker (fst c) (snd c)"

definition cb_note :: "notice \<Rightarrow> breakers_page \<Rightarrow> breakers_page" where
  "cb_note n s = s\<lparr>cb_notes := cb_notes s @ [n]\<rparr>"

definition breaker_reset :: "js_error + jsval \<Rightarrow> breakers_page \<Rightarrow> breakers_page" where
  "breaker_reset = mutation_settles (\<lambda>d. cb_note (note_ok ''Circuit breaker reset''))
     (\<lambda>e. cb_note (note_error e ''Failed to reset circuit breaker''))"

fun breakers_step :: "breakers_page \<Rightarrow> breakers_event \<Rightarrow> breakers_page" where
  "breakers_step s (ResetBreaker sc i) = s\<lparr>cb_calls := cb_calls s @ [(sc, i)]\<rparr>"
| "breakers_step s (BreakersAnswer r) = s\<lparr>cb_query := seen r\<rparr>"
| "breakers_step s (BreakerSettles c r) =
     (if c \<in> set (cb_calls s) then (breaker_reset r s)\<lparr>cb_calls := remove1 c (cb_calls s)\<rparr> else s)"

definition breaker_row :: "(string \<Rightarrow> string) \<Rightarrow> breakers_page \<Rightarrow> jsval \<Rightarrow> breakers_event vnode list list" where
  "breaker_row locale_time s e =
     [[Txt (text_of e ''scope'')], [Txt (text_of e ''scope_value'')], [Badge True [Txt (text_of e ''state'')]],
      [Txt (locale_time (to_str (opt_get e ''opened_at'')))], [Txt (text_of e ''reason'')],
      when_do (opt_get e ''state'' \<noteq> JStr ''CLOSED'')
        [small_button (cb_calls s \<noteq> []) False (ResetBreaker (to_str (opt_get e ''scope'')) (to_str (opt_get e ''scope_value''))) ''Reset'']]"

definition breakers_view :: "(string \<Rightarrow> string) \<Rightarrow> breakers_page \<Rightarrow> breakers_event vnode list" where
  "breakers_view locale_time s =
     (case cb_query s of
        Pending \<Rightarrow> [PageSkeleton]
      | Broken \<Rightarrow> [broken_page ''Circuit breakers'' ''Failed to load circuit breaker data.'']
      | Loaded d \<Rightarrow>
          [hero ''Circuit breakers'' ''Monitor circuit breaker state changes'' [],
           table_or_empty ''No circuit breaker events'' ''Circuit breaker events will appear here when thresholds are breached.''
             [''Scope'', ''Value'', ''State'', ''Opened'', ''Reason'', []] (breaker_row locale_time s) (items_of d)])"

section \<open>Plans\<close>

text \<open>Quotas are numbers, as the type of a plan declares.\<close>

definition quota_text :: "(rat \<Rightarrow> string) \<Rightarrow> jsval \<Rightarrow> string" where
  "quota_text loc v = (case v of JNum n \<Rightarrow> formatNumber loc (of_int n) | _ \<Rightarrow> to_str v)"

definition billing_lines :: "(rat \<Rightarrow> string) \<Rightarrow> jsval \<Rightarrow> (string \<times> string) list" where
  "billing_lines loc p =
     [(''Daily quota'', quota_text loc (opt_get p ''daily_quota'')), (''Monthly quota'', quota_text loc (opt_get p ''monthly_quota'')),
      (''Overage buffer'', to_str (opt_get p ''overage_buffer_pct'') @ ''%''), (''Max queue depth'', quota_text loc (opt_get p ''max_queue_depth'')),
      (''Price per SMS'', ''$'' @ to_str (opt_get p ''price_per_sms''))]"

definition billing_card :: "(rat \<Rightarrow> string) \<Rightarrow> jsval \<Rightarrow> 'e vnode" where
  "billing_card loc p =
     Card True
       [box [box [El ''h3'' [] [] [Txt (text_of p ''name'')], El ''p'' [] [] [Txt (''$'' @ text_of p ''monthly_price''), span [Txt ''/mo'']]],
             box (when_do (opt_get p ''visibility'' = JStr ''private'') [Badge False [Txt ''Private'']] @
                  when_do (opt_get p ''visibility'' = JStr ''custom'') [Badge False [Txt ''Custom'']] @
                  when_do (truthy (opt_get p ''dedicated_pool'')) [Badge False [Txt ''Dedicated'']])],
        box (map (\<lambda>(l, v). box [box [El ''svg'' [] [] [], span [Txt l]], span [Txt v]]) (billing_lines loc p) @
             [box [box [El ''svg'' [] [] [], span [Txt ''Routing strategy'']], Badge False [Txt (text_of p ''default_routing_strategy'')]]])]"

definition billing_view :: "(rat \<Rightarrow> string) \<Rightarrow> query \<Rightarrow> 'e vnode list" where
  "billing_view loc q =
     (if q = Loading then [PageSkeleton]
      else [hero ''Billing & plans'' ''Overview of available plans and pricing'' [],
            if features_of q = [] then EmptyState ''No plans available'' (Some ''Plans will appear here once configured.'') None
            else box (map (billing_card loc) (features_of q))])"

section \<open>Methods of payment\<close>

record payment_page =
  editingConfig :: "jsval option"
  formDetails :: "(string \<times> jsval) list"
  formLabel :: string
  formEnabled :: bool
  pc_query :: query
  pc_calls :: "jsval list"
  pc_notes :: "notice list"

datatype payment_event =
    EditConfig jsval
  | CloseConfig
  | SetConfigLabel string
  | ToggleConfig
  | SetDetail string string
  | SaveConfig
  | ConfigsAnswer "js_error + jsval"
  | ConfigSettles jsval "js_error + jsval"

definition payment_initial :: payment_page where
  "payment_initial = \<lparr>editingConfig = None, formDetails = [], formLabel = [], formEnabled = True, pc_query = Loading, pc_calls = [],
     pc_notes = []\<rparr>"

definition METHOD_LABELS :: "(string \<times> string) list" where
  "METHOD_LABELS = [(''bank_transfer'', ''Bank Transfer''), (''trc20'', ''TRC-20 (USDT)''), (''qr_code'', ''QR Code'')]"

text \<open>\<open>config.details || {}\<close>, an object as its members in order.\<close>

definition details_of :: "jsval \<Rightarrow> (string \<times> jsval) list" where
  "details_of c = (case opt_get c ''details'' of JObj kvs \<Rightarrow> kvs | _ \<Rightarrow> [])"

definition handleEdit :: "jsval \<Rightarrow> payment_page \<Rightarrow> payment_page" where
  "handleEdit c s = s\<lparr>editingConfig := Some c, formLabel := to_str (opt_get c ''label''), formEnabled := truthy (opt_get c ''enabled''),
     formDetails := details_of c\<rparr>"

definition handleSave :: "payment_page \<Rightarrow> payment_page" where
  "handleSave s =
     (case editingConfig s of
        None \<Rightarrow> s
      | Some c \<Rightarrow> s\<lparr>pc_calls := pc_calls s @ [JObj [(''method'', opt_get c ''method''), (''label'', JStr (formLabel s)),
          (''details'', JObj (formDetails s)), (''enabled'', JBool (formEnabled s))]]\<rparr>)"

definition payment_service :: "jsval \<Rightarrow> service" where
  "payment_service f = upsertPaymentConfig f"

definition pc_note :: "notice \<Rightarrow> payment_page \<Rightarrow> payment_page" where
  "pc_note n s = s\<lparr>pc_notes := pc_notes s @ [n]\<rparr>"

definition config_stored :: "js_error + jsval \<Rightarrow> payment_page \<Rightarrow> payment_page" where
  "config_stored = mutation_settles (\<lambda>d s. pc_note (note_ok ''Payment config saved'') (s\<lparr>editingConfig := None\<rparr>))
     (\<lambda>e. pc_note (note_error e ''Failed to save payment config''))"

fun payment_step :: "payment_page \<Rightarrow> payment_event \<Rightarrow> payment_page" where
  "payment_step s (EditConfig c) = handleEdit c s"
| "payment_step s CloseConfig = s\<lparr>editingConfig := None\<rparr>"
| "payment_step s (SetConfigLabel t) = s\<lparr>formLabel := t\<rparr>"
| "payment_step s ToggleConfig = s\<lparr>formEnabled := \<not> formEnabled s\<rparr>"
| "payment_step s (SetDetail k t) = s\<lparr>formDetails := AList.update k (JStr t) (formDetails s)\<rparr>"
| "payment_step s SaveConfig = handleSave s"
| "payment_step s (ConfigsAnswer r) = s\<lparr>pc_query := query_answered r (pc_query s)\<rparr>"
| "payment_step s (ConfigSettles f r) =
     (if f \<in> set (pc_calls s) then (config_stored r s)\<lparr>pc_calls := remove1 f (pc_calls s)\<rparr> else s)"

definition payment_card :: "jsval \<Rightarrow> payment_event vnode" where
  "payment_card c =
     Card True [CardHeader [box [CardTitle [Txt (text_of c ''label'')],
         Badge False [Txt (if truthy (opt_get c ''enabled'') then ''Enabled'' else ''Disabled'')]]],
       CardContent [El ''p'' [] [] [Txt (case map_of METHOD_LABELS (to_str (opt_get c ''method'')) of None \<Rightarrow> text_of c ''method'' | Some l \<Rightarrow> l)],
         box (map (\<lambda>(k, v). box [span [Txt (spaced k)], span [Txt (shown_text v)]]) (filter (\<lambda>(k, v). truthy v) (details_of c))),
         small_button False False (EditConfig c) ''Configure'']]"

definition detail_input :: "string \<times> jsval \<Rightarrow> payment_event vnode" where
  "detail_input d =
     box [El ''label'' [] [] [Txt (spaced (fst d))],
          El ''input'' [(''value'', if truthy (snd d) then to_str (snd d) else [])] [OnText ''change'' (SetDetail (fst d))] []]"

definition payment_modal :: "payment_page \<Rightarrow> payment_event vnode list" where
  "payment_modal s =
     Modal (editingConfig s \<noteq> None) CloseConfig
       (Some (''Configure '' @ (case editingConfig s of None \<Rightarrow> [] | Some c \<Rightarrow> to_str (js_or (opt_get c ''label'') (JStr []))))) None
       (when_do (editingConfig s \<noteq> None)
         [box ([box [El ''label'' [] [] [Txt ''Label''], El ''input'' [(''value'', formLabel s)] [OnText ''change'' SetConfigLabel] []],
                box [El ''label'' [] [] [Txt ''Enabled''], El ''button'' [] [On ''click'' ToggleConfig] [span []]]] @
               map detail_input (formDetails s) @
               [box [small_button False False CloseConfig ''Cancel'', small_button (pc_calls s \<noteq> []) False SaveConfig ''Save'']])]) []"

definition payment_view :: "payment_page \<Rightarrow> payment_event vnode list" where
  "payment_view s =
     [hero ''Billing Settings'' ''Configure payment methods available to members.'' [],
      if pc_query s = Loading then skeleton_rows 3 else box (map payment_card (features_of (pc_query s)))] @ payment_modal s"

section \<open>Editing a method of payment\<close>

lemma details_foldl:
  "foldl payment_step s (map (\<lambda>(k, t). SetDetail k t) kts) =
     s\<lparr>formDetails := AList.updates (map fst kts) (map (JStr \<circ> snd) kts) (formDetails s)\<rparr>"
  by (induction kts arbitrary: s) auto

lemma update_keys: "k \<in> fst ` set xs \<Longrightarrow> map fst (AList.update k v xs) = map fst xs"
  by (induction xs) auto

lemma updates_keys:
  "set (map fst kts) \<subseteq> fst ` set xs \<Longrightarrow> map fst (AList.updates (map fst kts) (map (JStr \<circ> snd) kts) xs) = map fst xs"
proof (induction kts arbitrary: xs)
  case (Cons kt kts)
  let ?xs = "AList.update (fst kt) (JStr (snd kt)) xs"
  have k: "map fst ?xs = map fst xs" using Cons.prems by (simp add: update_keys)
  then have "fst ` set ?xs = fst ` set xs" by (metis list.set_map)
  then show ?case using Cons k by simp
qed simp

lemma updates_map_of: "map_of (AList.updates (map fst kts) (map (JStr \<circ> snd) kts) xs) = map_of xs ++ map_of (rev (map (\<lambda>(k, t). (k, JStr t)) kts))"
proof -
  have z: "zip (map fst kts) (map (JStr \<circ> snd) kts) = map (\<lambda>(k, t). (k, JStr t)) kts"
    by (induction kts) auto
  show ?thesis by (simp add: updates_conv' map_upds_def z)
qed

lemma detail_offered:
  assumes "editingConfig s \<noteq> None"
  shows "list_fire (payment_view s) (SetDetail k t) \<longleftrightarrow> k \<in> fst ` set (formDetails s)"
  using assms
  by (auto simp: payment_view_def payment_modal_def payment_card_def detail_input_def list_fire_map image_iff split: prod.splits)

text \<open>
  The details of a method of payment survive editing: opening it and typing over some of its details sends
  its own method with exactly its own details in their order, those typed over with the last text
  given, all others as they were loaded; with nothing typed the loaded label, details and state are sent.
\<close>

theorem payment_details_survive_editing:
  assumes "opt_get c ''details'' = JObj kvs" and "set (map fst kts) \<subseteq> fst ` set kvs" and "pc_calls s = []"
  shows "let s1 = foldl payment_step (handleEdit c s) (map (\<lambda>(k, t). SetDetail k t) kts)
    in \<exists>ds. pc_calls (payment_step s1 SaveConfig) =
        [JObj [(''method'', opt_get c ''method''), (''label'', JStr (to_str (opt_get c ''label''))), (''details'', JObj ds),
               (''enabled'', JBool (truthy (opt_get c ''enabled'')))]] \<and>
      map fst ds = map fst kvs \<and> map_of ds = map_of kvs ++ map_of (rev (map (\<lambda>(k, t). (k, JStr t)) kts)) \<and>
      (\<forall>k t. list_fire (payment_view s1) (SetDetail k t) \<longleftrightarrow> k \<in> fst ` set kvs)"
proof -
  let ?ds = "AList.updates (map fst kts) (map (JStr \<circ> snd) kts) kvs"
  have s1: "foldl payment_step (handleEdit c s) (map (\<lambda>(k, t). SetDetail k t) kts) = (handleEdit c s)\<lparr>formDetails := ?ds\<rparr>"
    using assms(1) by (simp add: details_foldl handleEdit_def details_of_def)
  have keys: "map fst ?ds = map fst kvs" using assms(2) by (simp add: updates_keys)
  then have "fst ` set ?ds = fst ` set kvs" by (metis list.set_map)
  then show ?thesis
    using assms(3) keys unfolding Let_def s1
    by (intro exI [of _ ?ds]) (simp add: detail_offered handleSave_def updates_map_of, simp add: handleEdit_def detail_offered)
qed

definition wallet :: jsval where
  "wallet = JObj [(''method'', JStr ''trc20''), (''label'', JStr ''USDT''), (''enabled'', JBool True),
     (''details'', JObj [(''network'', JStr ''TRC-20''), (''address'', JStr ''T1'')])]"

theorem payment_details_survive_editing_witness:
  "\<exists>f. pc_calls (payment_step (foldl payment_step (handleEdit wallet payment_initial) (map (\<lambda>(k, t). SetDetail k t) [(''address'', ''T2'')])) SaveConfig) = [f]"
proof -
  have "opt_get wallet ''details'' = JObj [(''network'', JStr ''TRC-20''), (''address'', JStr ''T1'')]"
    by (simp add: wallet_def opt_get_def obj_get_def)
  from payment_details_survive_editing [OF this, of "[(''address'', ''T2'')]" payment_initial] show ?thesis
    unfolding Let_def by (auto simp: payment_initial_def)
qed

section \<open>What the monitors show and offer\<close>


definition letter_ids :: "dead_page \<Rightarrow> string set" where
  "letter_ids s = row_id ` set (features_of (dl_query s))"

lemma dead_view_retries:
  "list_fire (dead_view lt s) (RetryLetter i) \<longleftrightarrow>
     dl_query s \<noteq> Loading \<and> i \<in> letter_ids s \<and> \<not> (retry_pending s \<and> retryingId s = Some i)"
  by (auto simp: dead_view_def letter_row_def letter_ids_def)

text \<open>
  A message can be queued twice: the page remembers one row under retry, so that retrying a second row frees the button
  of the first while its request is still on its way. Every click below is one the page offers,
  and at the end two retries of the same message are in flight.
\<close>

theorem retries_can_be_doubled:
  assumes "dl_query s \<noteq> Loading" and "{i, j} \<subseteq> letter_ids s" and "i \<noteq> j" and "dl_calls s = []" and "dl_started s = 0"
  defines "s1 \<equiv> dead_step s (RetryLetter i)"
  defines "s2 \<equiv> dead_step s1 (RetryLetter j)"
  shows "list_fire (dead_view lt s) (RetryLetter i) \<and> \<not> list_fire (dead_view lt s1) (RetryLetter i) \<and>
    list_fire (dead_view lt s1) (RetryLetter j) \<and> list_fire (dead_view lt s2) (RetryLetter i) \<and>
    dl_calls (dead_step s2 (RetryLetter i)) = [(0, i), (1, j), (2, i)]"
  using assms(1-5)
  by (simp add: s1_def s2_def dead_view_retries start_retry_def retry_pending_def letter_ids_def)

definition two_letters :: dead_page where
  "two_letters = dead_step dead_initial (LettersAnswer (Inr (JArr [JObj [(''id'', JStr ''a'')], JObj [(''id'', JStr ''b'')]])))"

theorem retries_can_be_doubled_witness:
  "dl_calls (foldl dead_step two_letters [RetryLetter ''a'', RetryLetter ''b'', RetryLetter ''a'']) = [(0, ''a''), (1, ''b''), (2, ''a'')]"
proof -
  have "dl_query two_letters \<noteq> Loading" "{''a'', ''b''} \<subseteq> letter_ids two_letters" "dl_calls two_letters = []" "dl_started two_letters = 0"
    by (simp_all add: two_letters_def dead_initial_def letter_ids_def features_of_def query_data_def items_of_def row_id_def opt_get_def obj_get_def)
  from retries_can_be_doubled [OF this(1,2) _ this(3,4)] show ?thesis by simp
qed

text \<open>The other two pages disable all their buttons while a request is in flight.\<close>

definition fraud_possible :: "fraud_page \<Rightarrow> fraud_event \<Rightarrow> bool" where
  "fraud_possible s e \<longleftrightarrow> (\<forall>i. e = ReviewFlag i \<longrightarrow> list_fire (fraud_view s) e)"

definition breakers_possible :: "breakers_page \<Rightarrow> breakers_event \<Rightarrow> bool" where
  "breakers_possible s e \<longleftrightarrow> (\<forall>sc i. e = ResetBreaker sc i \<longrightarrow> (\<exists>lt. list_fire (breakers_view lt s) e))"

lemma fraud_view_reviews:
  "list_fire (fraud_view s) (ReviewFlag i) \<longleftrightarrow> ff_query s \<noteq> Loading \<and> ff_calls s = [] \<and>
     (\<exists>f \<in> set (features_of (ff_query s)). \<not> truthy (opt_get f ''reviewed'') \<and> i = row_id f)"
  by (auto simp: fraud_view_def fraud_row_def)

lemma breakers_view_resets:
  "list_fire (breakers_view lt s) (ResetBreaker sc i) \<Longrightarrow> cb_calls s = []"
  by (auto simp: breakers_view_def breaker_row_def broken_page_def split: shown.splits if_splits)

interpretation fraud_machine: machine fraud_step fraud_possible "\<lambda>s. length (ff_calls s) \<le> 1"
proof
  fix s e assume "length (ff_calls s) \<le> 1" "fraud_possible s e"
  then show "length (ff_calls (fraud_step s e)) \<le> 1"
    by (cases e) (auto simp: fraud_possible_def fraud_view_reviews length_remove1)
qed

interpretation breakers_machine: machine breakers_step breakers_possible "\<lambda>s. length (cb_calls s) \<le> 1"
proof
  fix s e assume "length (cb_calls s) \<le> 1" "breakers_possible s e"
  then show "length (cb_calls (breakers_step s e)) \<le> 1"
    by (cases e) (auto simp: breakers_possible_def dest: breakers_view_resets simp: length_remove1)
qed

text \<open>
  Fraud flags are reviewed, and circuit breakers are reset, one at a time: over any run in which clicks are ones the
  pages offer, at most one request is in flight; so the flag that keeps every button of its page
  disabled says the truth about all of them.
\<close>

theorem reviews_run_one_at_a_time:
  assumes "fraud_machine.admissible fraud_initial es" and "breakers_machine.admissible breakers_initial bs"
  shows "length (ff_calls (foldl fraud_step fraud_initial es)) \<le> 1 \<and> length (cb_calls (foldl breakers_step breakers_initial bs)) \<le> 1"
  using fraud_machine.fold_inv [OF _ assms(1)] breakers_machine.fold_inv [OF _ assms(2)]
  by (simp add: fraud_initial_def breakers_initial_def)

theorem reviews_run_one_at_a_time_witness:
  "length (ff_calls (foldl fraud_step fraud_initial [FlagsAnswer (Inr (JArr [JObj [(''id'', JStr ''f'')]])), ReviewFlag ''f''])) \<le> 1"
  using reviews_run_one_at_a_time [of "[FlagsAnswer (Inr (JArr [JObj [(''id'', JStr ''f'')]])), ReviewFlag ''f'']" "[]"]
  by (simp add: fraud_possible_def fraud_view_reviews fraud_initial_def features_of_def query_data_def items_of_def row_id_def opt_get_def obj_get_def)

end
