(* ===== verification/MemberPages.thy ===== *)
theory MemberPages
  imports Analytics
begin

text \<open>
  The pages of a member that only show things: the dashboard
  (\<open>features/member/pages/MemberDashboardPage.tsx\<close>), the analytics (\<open>MemberAnalyticsPage.tsx\<close>) and the
  messages (\<open>MemberMessagesPage.tsx\<close>), a table under a debounced search.
\<close>

section \<open>The dashboard\<close>

record member_plan =
  mp_type :: string
  mp_daily :: int
  mp_monthly :: int
  mp_renewal :: string

record member_dash =
  md_name :: string
  md_email :: string
  md_status :: string
  md_devices :: int
  md_online :: int
  md_sent :: int
  md_delivered :: int
  md_failed :: int
  md_rate :: rat
  md_daily :: int
  md_monthly :: int
  md_subscription :: "member_plan option"

definition member_figure :: "string \<Rightarrow> string \<Rightarrow> string option \<Rightarrow> 'e vnode" where
  "member_figure title value subtitle =
     Card True [box [box ([El ''p'' [] [] [Txt title], El ''p'' [] [] [Txt value]] @
         (case subtitle of None \<Rightarrow> [] | Some t \<Rightarrow> when_do (t \<noteq> []) [El ''p'' [] [] [Txt t]])),
       box [El ''svg'' [] [] []]]]"

definition usage_card :: "(rat \<Rightarrow> string) \<Rightarrow> string \<Rightarrow> int \<Rightarrow> int option \<Rightarrow> 'e vnode" where
  "usage_card loc title used quota =
     Card False (CardHeader [CardTitle [Txt title]] # El ''p'' [] [] [Txt (count_text loc used)] #
       (case quota of None \<Rightarrow> [] | Some q \<Rightarrow> [El ''p'' [] [] [Txt (''of '' @ count_text loc q @ '' quota'')]]))"

definition subscription_card :: "(string \<Rightarrow> string) \<Rightarrow> member_dash \<Rightarrow> member_plan \<Rightarrow> 'e vnode" where
  "subscription_card locale_date d p =
     Card False [CardHeader [CardTitle [Txt ''Subscription'']],
       box [box [El ''p'' [] [] [Txt ''Plan''], El ''p'' [] [] [Txt (mp_type p)]],
            box [El ''p'' [] [] [Txt ''Status''], El ''p'' [] [] [Badge False [Txt (md_status d)]]],
            box [El ''p'' [] [] [Txt ''Renewal''], El ''p'' [] [] [Txt (locale_date (mp_renewal p))]],
            box [El ''p'' [] [] [Txt ''Account''], El ''p'' [] [] [Txt (md_email d)]]]]"

text \<open>An answer without data is shown as nothing.\<close>

definition member_dashboard_view ::
  "(rat \<Rightarrow> string) \<Rightarrow> (string \<Rightarrow> string) \<Rightarrow> member_dash option shown \<Rightarrow> 'e vnode list" where
  "member_dashboard_view loc locale_date q =
     (case q of
        Pending \<Rightarrow> [PageSkeleton]
      | Broken \<Rightarrow> [box [Txt ''Failed to load dashboard data'']]
      | Loaded None \<Rightarrow> []
      | Loaded (Some d) \<Rightarrow>
          [hero ''Dashboard'' (''Welcome back, '' @ md_name d) [],
           box [member_figure ''Total sent'' (count_text loc (md_sent d)) None, member_figure ''Delivered'' (count_text loc (md_delivered d)) None,
                member_figure ''Failed'' (count_text loc (md_failed d)) None, member_figure ''Delivery rate'' (to_fixed1 (md_rate d) @ ''%'') None],
           box [Card False [CardHeader [CardTitle [Txt ''Devices'']], El ''p'' [] [] [Txt (show_int (md_devices d))],
                  Badge False [Txt (show_int (md_online d) @ '' online'')]],
                usage_card loc ''Daily usage'' (md_daily d) (map_option mp_daily (md_subscription d)),
                usage_card loc ''Monthly usage'' (md_monthly d) (map_option mp_monthly (md_subscription d))]] @
          (case md_subscription d of None \<Rightarrow> [] | Some p \<Rightarrow> [subscription_card locale_date d p]))"

section \<open>The analytics\<close>

definition member_totals :: "day list \<Rightarrow> int \<times> int \<times> int" where
  "member_totals days =
     foldl (\<lambda>(s, d, f) x. (s + total_sent x, d + total_delivered x, f + total_failed x)) (0, 0, 0) days"

definition day_rate :: "day \<Rightarrow> string" where
  "day_rate x = (if total_sent x > 0 then to_fixed1 (of_int (total_delivered x) / of_int (total_sent x) * 100) @ ''%'' else ''--'')"

definition member_day_row :: "(rat \<Rightarrow> string) \<Rightarrow> (string \<Rightarrow> string) \<Rightarrow> day \<Rightarrow> 'e vnode" where
  "member_day_row loc locale_date x =
     El ''tr'' [] [] (map (\<lambda>t. El ''td'' [] [] [Txt t])
         (locale_date (day_date x) # map (count_text loc) [total_sent x, total_delivered x, total_failed x]) @
       [El ''td'' [] [] [Badge False [Txt (day_rate x)]]])"

definition member_analytics_view :: "(rat \<Rightarrow> string) \<Rightarrow> (string \<Rightarrow> string) \<Rightarrow> day list shown \<Rightarrow> 'e vnode list" where
  "member_analytics_view loc locale_date q =
     (case q of
        Pending \<Rightarrow> [PageSkeleton]
      | Broken \<Rightarrow> [box [Txt ''Failed to load analytics'']]
      | Loaded days \<Rightarrow>
          (case member_totals days of (s, d, f) \<Rightarrow>
            [hero ''Analytics'' ''Your message delivery analytics'' [],
             box (map (\<lambda>(l, n). Card False [El ''p'' [] [] [Txt l], El ''p'' [] [] [Txt (count_text loc n)]])
               [(''Total sent'', s), (''Total delivered'', d), (''Total failed'', f)]),
             Card False [CardHeader [CardTitle [Txt ''Daily breakdown'']],
               if days = [] then El ''p'' [] [] [Txt ''No analytics data available yet.'']
               else box [El ''table'' [] []
                 [El ''thead'' [] [] [El ''tr'' [] [] (map (\<lambda>h. El ''th'' [] [] [Txt h]) [''Date'', ''Sent'', ''Delivered'', ''Failed'', ''Rate''])],
                  El ''tbody'' [] [] (map (member_day_row loc locale_date) (shown_days days))]]]]))"

section \<open>The messages\<close>

record messages_page =
  mm_page :: int
  mm_search :: "string debounce"
  mm_queries :: "int \<times> string \<Rightarrow> query"

datatype messages_event =
    SearchMessages string
  | MessageSearchRests
  | GoMessages int
  | MessagesAnswer "int \<times> string" "js_error + jsval"

definition messages_initial :: messages_page where
  "messages_initial = \<lparr>mm_page = 1, mm_search = useDebounce [], mm_queries = (\<lambda>k. Loading)\<rparr>"

definition messages_key :: "messages_page \<Rightarrow> int \<times> string" where
  "messages_key s = (mm_page s, debounced (mm_search s))"

text \<open>\<open>return res.data.data!\<close>.\<close>

definition messages_query :: "int \<times> string \<Rightarrow> service" where
  "messages_query k =
     Service (get_params ''/member/messages''
         (JObj [(''limit'', JNum 20), (''offset'', JNum ((fst k - 1) * 20)), (''search'', JStr (snd k))]))
       (on_body (\<lambda>b. js_get b ''data''))"

fun messages_step :: "messages_page \<Rightarrow> messages_event \<Rightarrow> messages_page" where
  "messages_step s (SearchMessages t) = s\<lparr>mm_search := debounce_render t (mm_search s), mm_page := 1\<rparr>"
| "messages_step s MessageSearchRests = s\<lparr>mm_search := debounce_fire (mm_search s)\<rparr>"
| "messages_step s (GoMessages p) = s\<lparr>mm_page := p\<rparr>"
| "messages_step s (MessagesAnswer k r) = s\<lparr>mm_queries := answered k r (mm_queries s)\<rparr>"

definition messages_now :: "messages_page \<Rightarrow> query" where
  "messages_now s = mm_queries s (messages_key s)"

definition message_columns :: "(jsval \<Rightarrow> string) \<Rightarrow> (string \<Rightarrow> string) \<Rightarrow> messages_event column list" where
  "message_columns whole locale_date =
     [text_column ''recipient'' ''Recipient'', text_column ''sender'' ''Sender'',
      shown_column ''message_type'' ''Type'' False (\<lambda>r. Badge False [Txt (text_of r ''message_type'')]),
      shown_column ''delivery_status'' ''Status'' False
        (\<lambda>r. Badge True [Txt (map to_lower (spaced (to_str (opt_get r ''delivery_status''))))]),
      shown_column ''confidence_score'' ''Confidence'' False (\<lambda>r. span [Txt (whole (opt_get r ''confidence_score'') @ ''%'')]),
      shown_column ''created_at'' ''Sent'' False (\<lambda>r. Txt (locale_date (to_str (opt_get r ''created_at''))))]"

definition messages_table :: "(jsval \<Rightarrow> string) \<Rightarrow> (string \<Rightarrow> string) \<Rightarrow> messages_page \<Rightarrow> messages_event vnode" where
  "messages_table whole locale_date s =
     DataTable (table_defaults\<lparr>rows := page_rows (messages_now s), columns := message_columns whole locale_date,
       tb_loading := messages_now s = Loading, totalItems := page_total (messages_now s), tb_page := mm_page s, tb_pageSize := 20,
       onPageChange := Some GoMessages, emptyTitle := ''No messages found'',
       emptyDescription := Some ''Messages you send will appear here.''\<rparr>)"

definition messages_view :: "(jsval \<Rightarrow> string) \<Rightarrow> (string \<Rightarrow> string) \<Rightarrow> messages_page \<Rightarrow> messages_event vnode list" where
  "messages_view whole locale_date s =
     (if messages_now s = Loading then [PageSkeleton]
      else [hero ''Messages'' ''View your message delivery history'' [],
            box [Input (input\<lparr>i_rest := [(''placeholder'', ''Search by recipient or sender...''), (''value'', db_value (mm_search s))],
              i_on := [OnText ''change'' SearchMessages]\<rparr>)],
            box [messages_table whole locale_date s]])"

section \<open>What the pages show\<close>

text \<open>
  Members and administrators are told the same: over the same days, the totals of the member's page are
  those of the administrators' page, which count every day, also those beyond the thirty in the table.
\<close>

theorem member_totals_agree:
  "member_totals days = (t_sent (totals_of days), t_delivered (totals_of days), t_failed (totals_of days)) \<and>
   member_totals days = (sum_list (map total_sent days), sum_list (map total_delivered days), sum_list (map total_failed days))"
proof -
  have m: "foldl (\<lambda>(s, d, f) x. (s + total_sent x, d + total_delivered x, f + total_failed x)) (a, b, c) days =
      (a + sum_list (map total_sent days), b + sum_list (map total_delivered days), c + sum_list (map total_failed days))" for a b c
    by (induction days arbitrary: a b c) simp_all
  have "t_sent (foldl add_day t days) = t_sent t + sum_list (map total_sent days) \<and>
      t_delivered (foldl add_day t days) = t_delivered t + sum_list (map total_delivered days) \<and>
      t_failed (foldl add_day t days) = t_failed t + sum_list (map total_failed days)" for t
    by (induction days arbitrary: t) (simp_all add: add_day_def)
  then show ?thesis by (simp add: member_totals_def totals_of_def m no_totals_def)
qed

text \<open>
  A new search takes the search field away: when the typing rests on a text whose first page was never loaded, the
  whole page, the field included, is a skeleton that offers nothing, until that answer comes; then
  the field is back and holds the text.
\<close>

theorem searching_hides_the_field:
  assumes "mm_queries s (1, t) = Loading" and "t \<noteq> db_value (mm_search s)"
  defines "s1 \<equiv> messages_step (messages_step s (SearchMessages t)) MessageSearchRests"
  shows "messages_key s1 = (1, t) \<and> messages_view w l s1 = [PageSkeleton] \<and> \<not> list_fire (messages_view w l s1) e \<and>
    (\<forall>r u. list_fire (messages_view w l (messages_step s1 (MessagesAnswer (1, t) r))) (SearchMessages u)) \<and>
    (\<forall>r. db_value (mm_search (messages_step s1 (MessagesAnswer (1, t) r))) = t)"
proof -
  have k: "messages_key s1 = (1, t)" "messages_now s1 = Loading" "db_value (mm_search s1) = t"
    using assms(1,2) by (simp_all add: s1_def messages_key_def messages_now_def debounce_render_def debounce_fire_def)
  have "messages_now (messages_step s1 (MessagesAnswer (1, t) r)) \<noteq> Loading" for r
    using k by (cases r) (simp_all add: messages_now_def messages_key_def answered_def)
  then show ?thesis using k by (simp add: messages_view_def)
qed

theorem searching_hides_the_field_witness:
  "messages_view w l (foldl messages_step messages_initial
     [MessagesAnswer (1, []) (Inr (JObj [])), SearchMessages ''bee'', MessageSearchRests]) = [PageSkeleton]"
  using searching_hides_the_field [of "messages_step messages_initial (MessagesAnswer (1, []) (Inr (JObj [])))" "''bee''"]
  by (simp add: messages_initial_def answered_def useDebounce_def)

lemma windows: "concat (map (\<lambda>p. take n (drop (p * n) xs)) [0..<m]) = take (m * n) xs"
  by (induction m) (simp_all add: take_add add.commute [of n])

definition window_of :: "jsval \<Rightarrow> 'a list \<Rightarrow> 'a list" where
  "window_of ps xs =
     (case (opt_get ps ''limit'', opt_get ps ''offset'') of (JNum l, JNum k) \<Rightarrow> take (nat l) (drop (nat k) xs) | _ \<Rightarrow> [])"

text \<open>
  Paging through the messages shows each of them once: with a back end that answers the window of its list that a
  request asks for, the windows of the pages the table counts are, one after the other, the whole list.
\<close>

theorem message_pages_are_the_list:
  "concat (map (\<lambda>p. case messages_query (p, t) of Service rq h \<Rightarrow> window_of (rq_params rq) xs) [1..totalPages (int (length xs)) 20]) = xs"
proof -
  let ?n = "totalPages (int (length xs)) 20"
  have "int (length xs) \<le> ?n * 20" "0 \<le> ?n"
    using ceil_div_bounds [of 20 "int (length xs)"] by (simp_all add: totalPages_def)
  then have n: "length xs \<le> nat ?n * 20" by linarith
  have "[1..?n] = map (\<lambda>p. int p + 1) [0..<nat ?n]"
    by (rule nth_equalityI) simp_all
  moreover have "nat (int p * 20) = p * 20" for p by simp
  ultimately have "concat (map (\<lambda>p. case messages_query (p, t) of Service rq h \<Rightarrow> window_of (rq_params rq) xs) [1..?n]) =
      concat (map (\<lambda>p. take 20 (drop (p * 20) xs)) [0..<nat ?n])"
    by (simp add: messages_query_def window_of_def get_params_def opt_get_def obj_get_def comp_def)
  also have "\<dots> = xs" using n by (simp add: windows)
  finally show ?thesis .
qed

end
