(* ===== verification/MemberTemplates.thy ===== *)
theory MemberTemplates
  imports Templates Catalog
begin

text \<open>
  The templates of a member (\<open>features/member/pages/MemberTemplatesPage.tsx\<close>): a list, one form for new
  and edited templates with voice input and generation by the AI service, and deletion.
\<close>

section \<open>State and requests\<close>

datatype own_call =
    GenerateOwn string jsval
  | SaveOwn "string option" jsval
  | DeleteOwn "string option"

record own_templates =
  ot_showForm :: bool
  ot_editing :: "jsval option"
  ot_deleteTarget :: "jsval option"
  ot_name :: string
  ot_body :: string
  ot_error :: string
  ot_prompt :: string
  ot_generating :: bool
  ot_query :: query
  ot_calls :: "own_call list"
  ot_notes :: "notice list"
  ot_voice :: voice

datatype own_event =
    OpenOwn "jsval option"
  | CloseOwn
  | TypeOwnName string
  | TypeOwnBody string
  | TypeOwnPrompt string
  | GenerateOwnClick
  | SaveOwnClick
  | AskDeleteOwn jsval
  | CloseDeleteOwn
  | ConfirmDeleteOwn
  | OwnSpeech voice_event
  | OwnAnswer "js_error + jsval"
  | OwnSettles own_call "js_error + jsval"

definition own_initial :: own_templates where
  "own_initial = \<lparr>ot_showForm = False, ot_editing = None, ot_deleteTarget = None, ot_name = [], ot_body = [], ot_error = [],
     ot_prompt = [], ot_generating = False, ot_query = Loading, ot_calls = [], ot_notes = [], ot_voice = voice_initial\<rparr>"

text \<open>\<open>return res.data.data?.data || []\<close>.\<close>

definition own_service :: service where
  "own_service = Service (get_req ''/member/templates'')
     (on_body (\<lambda>b. sbind (js_get b ''data'') (\<lambda>d. Inr (js_or (opt_get d ''data'') (JArr [])))))"

definition own_form :: "own_templates \<Rightarrow> jsval" where
  "own_form s = JObj [(''name'', JStr (ot_name s)), (''body'', JStr (ot_body s)), (''variables'', JArr [])]"

text \<open>Generation is a service; the mutations are requests, and none without a template to delete.\<close>

fun own_generation :: "own_call \<Rightarrow> service option" where
  "own_generation (GenerateOwn p c) = Some (generateAITemplate p c)"
| "own_generation _ = None"

fun own_request :: "own_call \<Rightarrow> request option" where
  "own_request (GenerateOwn p c) = None"
| "own_request (SaveOwn (Some i) f) = Some (put_req (''/member/templates/'' @ i) f)"
| "own_request (SaveOwn None f) = Some (post_req ''/member/templates'' f)"
| "own_request (DeleteOwn i) = map_option (\<lambda>j. delete_req (''/member/templates/'' @ j)) i"

section \<open>Handlers\<close>

definition ot_send :: "own_call \<Rightarrow> own_templates \<Rightarrow> own_templates" where
  "ot_send c s = s\<lparr>ot_calls := ot_calls s @ [c]\<rparr>"

definition ot_note :: "notice \<Rightarrow> own_templates \<Rightarrow> own_templates" where
  "ot_note n s = s\<lparr>ot_notes := ot_notes s @ [n]\<rparr>"

definition openForm_own :: "jsval option \<Rightarrow> own_templates \<Rightarrow> own_templates" where
  "openForm_own t s =
     (let field = (\<lambda>k. case t of None \<Rightarrow> [] | Some v \<Rightarrow> to_str (js_or (opt_get v k) (JStr [])))
      in s\<lparr>ot_editing := t, ot_name := field ''name'', ot_body := field ''body'', ot_error := [], ot_showForm := True\<rparr>)"

definition closeForm_own :: "own_templates \<Rightarrow> own_templates" where
  "closeForm_own s = s\<lparr>ot_showForm := False, ot_editing := None, ot_name := [], ot_body := [], ot_error := []\<rparr>"

definition generate_own :: "own_templates \<Rightarrow> own_templates" where
  "generate_own s =
     (if js_trim (ot_prompt s) = [] then s
      else ot_send (GenerateOwn (js_trim (ot_prompt s)) (if ot_body s = [] then JUndef else JStr (ot_body s)))
             (s\<lparr>ot_generating := True\<rparr>))"

text \<open>After the \<open>await\<close>: what was set before an exception stays set.\<close>

definition own_generated :: "js_error + jsval \<Rightarrow> own_templates \<Rightarrow> own_templates" where
  "own_generated r s =
     (case r of
        Inl e \<Rightarrow> ot_note (err_message e, ''error'') s
      | Inr d \<Rightarrow>
          (let s1 = (if truthy (opt_get d ''name'') then s\<lparr>ot_name := to_str (opt_get d ''name'')\<rparr> else s);
               s2 = (if truthy (opt_get d ''body'') then s1\<lparr>ot_body := to_str (opt_get d ''body'')\<rparr> else s1)
           in case sbind (js_get d ''variables'') (\<lambda>v. js_get v ''length'') of
                Inl e \<Rightarrow> ot_note (err_message e, ''error'') s2
              | Inr n \<Rightarrow>
                  if truthy n then
                    ot_note (''Variables detected: '' @ join_with '', '' (map shown_text (items_of (opt_get d ''variables''))), ''info'') s2
                  else s2))\<lparr>ot_generating := False\<rparr>"

fun own_callback :: "own_call \<Rightarrow> js_error + jsval \<Rightarrow> own_templates \<Rightarrow> own_templates" where
  "own_callback (GenerateOwn p c) = own_generated"
| "own_callback (SaveOwn i f) =
     mutation_settles (\<lambda>d. closeForm_own)
       (\<lambda>e s. (ot_note (note_error e ''Failed to save template'') s)\<lparr>ot_error := err_message e\<rparr>)"
| "own_callback (DeleteOwn i) =
     mutation_settles (\<lambda>d s. s\<lparr>ot_deleteTarget := None\<rparr>) (\<lambda>e. ot_note (note_error e ''Failed to delete template''))"

fun own_step :: "own_templates \<Rightarrow> own_event \<Rightarrow> own_templates" where
  "own_step s (OpenOwn t) = openForm_own t s"
| "own_step s CloseOwn = closeForm_own s"
| "own_step s (TypeOwnName t) = s\<lparr>ot_name := t\<rparr>"
| "own_step s (TypeOwnBody t) = s\<lparr>ot_body := t\<rparr>"
| "own_step s (TypeOwnPrompt t) = s\<lparr>ot_prompt := t\<rparr>"
| "own_step s GenerateOwnClick = generate_own s"
| "own_step s SaveOwnClick = ot_send (SaveOwn (map_option row_id (ot_editing s)) (own_form s)) s"
| "own_step s (AskDeleteOwn t) = s\<lparr>ot_deleteTarget := Some t\<rparr>"
| "own_step s CloseDeleteOwn = s\<lparr>ot_deleteTarget := None\<rparr>"
| "own_step s ConfirmDeleteOwn = ot_send (DeleteOwn (map_option row_id (ot_deleteTarget s))) s"
| "own_step s (OwnSpeech e) =
     (case voice_step (ot_voice s) e of
        (v, t) \<Rightarrow> s\<lparr>ot_voice := v, ot_body := ot_body s @ (case t of None \<Rightarrow> [] | Some x \<Rightarrow> x)\<rparr>)"
| "own_step s (OwnAnswer r) = s\<lparr>ot_query := query_answered r (ot_query s)\<rparr>"
| "own_step s (OwnSettles c r) =
     (if c \<in> set (ot_calls s) then (own_callback c r s)\<lparr>ot_calls := remove1 c (ot_calls s)\<rparr> else s)"

section \<open>View\<close>

fun saves_own :: "own_call \<Rightarrow> (string option \<times> jsval) option" where
  "saves_own (SaveOwn i f) = Some (i, f)" | "saves_own _ = None"
fun deletes_own :: "own_call \<Rightarrow> string option option" where
  "deletes_own (DeleteOwn i) = Some i" | "deletes_own _ = None"

definition own_pending :: "(own_call \<Rightarrow> 'a option) \<Rightarrow> own_templates \<Rightarrow> bool" where
  "own_pending k s \<longleftrightarrow> calls_of k (ot_calls s) \<noteq> []"

definition own_card :: "jsval \<Rightarrow> own_event vnode" where
  "own_card t =
     Card True
       [box [El ''h3'' [] [] [Txt (text_of t ''name'')], Badge True [Txt (text_of t ''approval_status'')]],
        El ''p'' [] [] [Txt (text_of t ''body'')],
        box [small_button False False (OpenOwn (Some t)) ''Edit'', small_button False False (AskDeleteOwn t) ''Delete'']]"

definition own_hint :: string where
  "own_hint = ''Templates require admin approval after creation. You can edit or delete templates while they are pending.''"

definition own_list :: "own_templates \<Rightarrow> own_event vnode" where
  "own_list s =
     (if features_of (ot_query s) = [] then
        EmptyState ''No templates yet'' (Some ''Create a template to reuse message content.'')
          (Some (small_button False False (OpenOwn None) ''Create template''))
      else box (map own_card (features_of (ot_query s))))"

definition own_modal :: "own_templates \<Rightarrow> own_event vnode list" where
  "own_modal s =
     (let edits = ot_editing s \<noteq> None
      in Modal (ot_showForm s) CloseOwn (Some (if edits then ''Edit template'' else ''New template'')) None
           [box (error_box (ot_error s) @
              [text_input ''Template name'' [] (ot_name s) TypeOwnName,
               box [El ''label'' [] [] [Txt ''Body''],
                 box [El ''textarea'' [(''value'', ot_body s), (''required'', [])] [OnText ''change'' TypeOwnBody] [],
                   box (VoiceInput (ot_voice s) False [On ''click'' (OwnSpeech (Toggle False)), On ''click'' (OwnSpeech (Toggle True))])]],
               box [box [span [Txt ''AI Generate'']],
                 box [El ''input'' [(''value'', ot_prompt s), (''placeholder'', ''Describe the template you want...'')]
                        [OnText ''change'' TypeOwnPrompt, On ''keydown:Enter'' GenerateOwnClick] [],
                      small_button (ot_generating s) (js_trim (ot_prompt s) = []) GenerateOwnClick ''Generate'']]])]
           [small_button False (own_pending saves_own s) CloseOwn ''Cancel'',
            small_button (own_pending saves_own s) False SaveOwnClick (if edits then ''Update'' else ''Create'')])"

definition own_view :: "own_templates \<Rightarrow> own_event vnode list" where
  "own_view s =
     (if ot_query s = Loading then [PageSkeleton]
      else [hero ''Templates'' ''Manage your message templates'' [small_button False False (OpenOwn None) ''New template''],
            box [Txt own_hint], own_list s] @ own_modal s @
           ConfirmDialog (ot_deleteTarget s \<noteq> None) CloseDeleteOwn ConfirmDeleteOwn ''Delete template''
             (Some (''Are you sure you want to delete \"'' @
                (case ot_deleteTarget s of None \<Rightarrow> ''undefined'' | Some t \<Rightarrow> to_str (opt_get t ''name'')) @ ''\"?''))
             ''Confirm'' ''Cancel'' (own_pending deletes_own s))"

section \<open>Generated and edited templates\<close>

text \<open>
  Members and administrators get the same of a generated template: from forms with the same name and body, any answer of the
  generation, a failure or one without its variables included, leaves both forms with the same
  name and body, adds the same notifications, and ends the generation on both pages.
\<close>

theorem generation_is_the_same_on_both_pages:
  assumes "tp_name p = ot_name s" and "tp_body p = ot_body s"
  shows "tp_name (generated r p) = ot_name (own_generated r s) \<and> tp_body (generated r p) = ot_body (own_generated r s) \<and>
    (\<exists>ns. tp_notes (generated r p) = tp_notes p @ ns \<and> ot_notes (own_generated r s) = ot_notes s @ ns) \<and>
    \<not> isGenerating (generated r p) \<and> \<not> ot_generating (own_generated r s)"
  using assms
  by (auto simp: generated_def own_generated_def tp_note_def ot_note_def Let_def split: sum.splits)

theorem generation_is_the_same_on_both_pages_witness:
  "ot_body (own_generated (Inr (JObj [(''body'', JStr ''hello'')])) own_initial) = ''hello''"
  using generation_is_the_same_on_both_pages [of templates_initial own_initial "Inr (JObj [(''body'', JStr ''hello'')])"]
  by (simp add: templates_initial_def own_initial_def generated_def tp_note_def opt_get_def obj_get_def Let_def)

lemma own_view_offers:
  assumes "ot_query s \<noteq> Loading"
  shows "list_fire (own_view s) (OpenOwn (Some t)) \<longleftrightarrow> t \<in> set (features_of (ot_query s))"
    and "list_fire (own_view s) SaveOwnClick \<longleftrightarrow> ot_showForm s \<and> \<not> own_pending saves_own s"
  using assms
  by (auto simp: own_view_def own_list_def own_card_def own_modal_def VoiceInput_def ConfirmDialog_def list_fire_map Let_def)

text \<open>
  The page lets members edit what has been decided, and empties the variables: whatever the status of a listed template, its
  form can be opened and saved, although the page says that only pending ones can be changed; what is sent
  keeps the name and the body of a form not typed in, and always carries an empty list of variables.
\<close>

theorem decided_templates_can_be_rewritten:
  assumes "t \<in> set (features_of (ot_query s))" and "ot_calls s = []"
  defines "s1 \<equiv> own_step s (OpenOwn (Some t))"
  shows "list_fire (own_view s) (OpenOwn (Some t)) \<and> list_fire (own_view s1) SaveOwnClick \<and>
    map own_request (ot_calls (own_step s1 SaveOwnClick)) =
      [Some (put_req (''/member/templates/'' @ row_id t)
         (JObj [(''name'', JStr (to_str (js_or (opt_get t ''name'') (JStr [])))),
                (''body'', JStr (to_str (js_or (opt_get t ''body'') (JStr [])))), (''variables'', JArr [])]))]"
proof -
  have "ot_query s \<noteq> Loading" using assms(1) by (auto simp: features_of_def query_data_def)
  then show ?thesis
    using assms(1,2) by (simp add: s1_def own_view_offers openForm_own_def own_pending_def own_form_def ot_send_def Let_def)
qed

definition approved_template :: jsval where
  "approved_template = JObj [(''id'', JStr ''t1''), (''name'', JStr ''otp''), (''body'', JStr ''Code {{code}}''),
     (''variables'', JArr [JStr ''code'']), (''approval_status'', JStr ''approved'')]"

theorem decided_templates_can_be_rewritten_witness:
  "list_fire (own_view (own_step (own_step own_initial (OwnAnswer (Inr (JArr [approved_template])))) (OpenOwn (Some approved_template)))) SaveOwnClick"
  using decided_templates_can_be_rewritten [of approved_template "own_step own_initial (OwnAnswer (Inr (JArr [approved_template])))"]
  by (simp add: own_initial_def features_of_def query_data_def items_of_def)

text \<open>
  A generation is written into whatever form is open when it ends: asked for in one form, its answer replaces the name and the
  body of the template opened meanwhile, and saving that form sends them to that template.
\<close>

theorem generation_lands_in_the_next_form:
  assumes "GenerateOwn q c \<in> set (ot_calls s)"
    and "opt_get d ''name'' = JStr n" and "opt_get d ''body'' = JStr b" and "n \<noteq> []" and "b \<noteq> []"
  shows "let s1 = own_step (own_step s (OpenOwn (Some t))) (OwnSettles (GenerateOwn q c) (Inr d))
    in ot_editing s1 = Some t \<and> ot_showForm s1 \<and> ot_name s1 = n \<and> ot_body s1 = b \<and>
      own_request (last (ot_calls (own_step s1 SaveOwnClick))) =
        Some (put_req (''/member/templates/'' @ row_id t) (JObj [(''name'', JStr n), (''body'', JStr b), (''variables'', JArr [])]))"
proof -
  have g: "ot_name (own_generated (Inr d) u) = n" "ot_body (own_generated (Inr d) u) = b"
    "ot_editing (own_generated (Inr d) u) = ot_editing u" "ot_showForm (own_generated (Inr d) u) = ot_showForm u" for u
    using assms(2-5) by (auto simp: own_generated_def ot_note_def Let_def split: sum.splits)
  show ?thesis using assms(1) by (simp add: g openForm_own_def own_form_def ot_send_def Let_def)
qed

definition generating_session :: own_templates where
  "generating_session = foldl own_step own_initial
     [OwnAnswer (Inr (JArr [approved_template])), OpenOwn None, TypeOwnPrompt ''greet'', GenerateOwnClick]"

theorem generation_lands_in_the_next_form_witness:
  "let d = JObj [(''name'', JStr ''hi''), (''body'', JStr ''Hello'')]
   in ot_body (own_step (own_step generating_session (OpenOwn (Some approved_template))) (OwnSettles (GenerateOwn ''greet'' JUndef) (Inr d))) = ''Hello''"
proof -
  have "js_trim ''greet'' = ''greet''" by code_simp
  then have c: "GenerateOwn ''greet'' JUndef \<in> set (ot_calls generating_session)"
    by (simp add: generating_session_def own_initial_def openForm_own_def generate_own_def ot_send_def Let_def)
  show ?thesis
    using generation_lands_in_the_next_form [OF c, of "JObj [(''name'', JStr ''hi''), (''body'', JStr ''Hello'')]" "''hi''" "''Hello''" approved_template]
    unfolding Let_def by (simp add: opt_get_def obj_get_def del: own_step.simps)
qed

end
