(* ===== verification/Seo.thy ===== *)
theory Seo
  imports Json "HOL-Library.AList"
begin

text \<open>
  The head of the document and the hook that fills it (\<open>hooks/useSEO.ts\<close>), with the two pages
  that use it (\<open>landing/pages/LandingPage.tsx\<close>, \<open>landing/pages/ContactSalesPage.tsx\<close>) and the
  head of \<open>index.html\<close> they start from.

  The named \<open>meta\<close> elements are an association list from the attribute that names an element
  and its name to its content, in document order. Reading \<open>href\<close> from a link yields the
  resolved address: the resolution is the browser's and the argument \<open>resolve\<close> here. Texts are
  given by their bytes in UTF-8.
\<close>

section \<open>The head\<close>

datatype meta_attribute = MName | MProperty

type_synonym meta_key = "meta_attribute \<times> string"

record head =
  doc_title :: string
  metas :: "(meta_key \<times> string) list"
  canonical :: "string option"
  json_ld :: "string option"

record seo_data =
  s_title :: string
  s_description :: string
  s_ogImage :: "string option"
  s_ogUrl :: "string option"
  s_schema :: "jsval option"

text \<open>The punctuation of the texts outside ASCII.\<close>

definition em_dash :: string where
  "em_dash = [CHR 0xE2, CHR 0x80, CHR 0x94]"

definition arrow :: string where
  "arrow = [CHR 0xE2, CHR 0x86, CHR 0x92]"

definition quote_open :: string where
  "quote_open = [CHR 0xE2, CHR 0x80, CHR 0x9C]"

definition quote_close :: string where
  "quote_close = [CHR 0xE2, CHR 0x80, CHR 0x9D]"

definition bullet :: string where
  "bullet = [CHR 0xE2, CHR 0x80, CHR 0xA2]"

definition copyright :: string where
  "copyright = [CHR 0xC2, CHR 0xA9]"

definition default_title :: string where
  "default_title = ''AeroXe Bee '' @ em_dash @ '' Distributed SMS Gateway Platform''"

definition default_description :: string where
  "default_description = ''Enterprise SMS delivery platform with intelligent multi-strategy routing, real-time analytics, and device fleet management. Self-hostable or managed SaaS.''"

definition default_ogImage :: string where
  "default_ogImage = ''/og-image.png''"

definition default_ogUrl :: string where
  "default_ogUrl = ''https://aeroxbee.com''"

definition setMeta :: "string \<Rightarrow> string \<Rightarrow> meta_attribute \<Rightarrow> head \<Rightarrow> head" where
  "setMeta property content attribute h =
     h\<lparr>metas := AList.update (attribute, property) content (metas h)\<rparr>"

definition setJsonLd :: "jsval \<Rightarrow> head \<Rightarrow> head" where
  "setJsonLd data h = h\<lparr>json_ld := Some (json_text data)\<rparr>"

definition removeJsonLd :: "head \<Rightarrow> head" where
  "removeJsonLd h = h\<lparr>json_ld := None\<rparr>"

definition setCanonical :: "string \<Rightarrow> head \<Rightarrow> head" where
  "setCanonical href h = h\<lparr>canonical := Some href\<rparr>"

text \<open>The ten elements both the effect and its cleanup set, in the order of the code.\<close>

definition set_metas :: "string \<Rightarrow> string \<Rightarrow> string \<Rightarrow> string \<Rightarrow> head \<Rightarrow> head" where
  "set_metas title description picture url =
     setMeta ''description'' description MName
     \<circ> setMeta ''twitter:image'' picture MProperty
     \<circ> setMeta ''twitter:description'' description MProperty
     \<circ> setMeta ''twitter:title'' title MProperty
     \<circ> setMeta ''og:url'' url MProperty
     \<circ> setMeta ''og:image:height'' ''630'' MProperty
     \<circ> setMeta ''og:image:width'' ''1200'' MProperty
     \<circ> setMeta ''og:image'' picture MProperty
     \<circ> setMeta ''og:description'' description MProperty
     \<circ> setMeta ''og:title'' title MProperty"

section \<open>The effect of the hook\<close>

text \<open>
  A mounted hook keeps the dependencies its effect ran with and what the cleanup closes over.
\<close>

record seo_mounted =
  ran_for :: "string \<times> string \<times> string option \<times> string option"
  prevTitle :: string
  prevCanonical :: string

definition seo_deps :: "seo_data \<Rightarrow> string \<times> string \<times> string option \<times> string option" where
  "seo_deps d = (s_title d, s_description d, s_ogImage d, s_ogUrl d)"

definition seo_url :: "seo_data \<Rightarrow> string" where
  "seo_url d = (case s_ogUrl d of None \<Rightarrow> default_ogUrl | Some u \<Rightarrow> u)"

definition seo_image :: "seo_data \<Rightarrow> string" where
  "seo_image d = (case s_ogImage d of None \<Rightarrow> default_ogImage | Some i \<Rightarrow> i)"

definition seo_effect :: "(string \<Rightarrow> string) \<Rightarrow> seo_data \<Rightarrow> head \<Rightarrow> head \<times> seo_mounted" where
  "seo_effect resolve d h0 =
     (let prev = \<lparr>ran_for = seo_deps d, prevTitle = doc_title h0,
                  prevCanonical = (case canonical h0 of None \<Rightarrow> '''' | Some u \<Rightarrow> resolve u)\<rparr>;
          h1 = h0\<lparr>doc_title := s_title d\<rparr>;
          h2 = set_metas (s_title d) (s_description d) (seo_image d) (seo_url d) h1;
          h3 = (if seo_url d \<noteq> '''' then setCanonical (seo_url d) h2 else h2);
          h4 = (case s_schema d of None \<Rightarrow> h3 | Some schema \<Rightarrow> setJsonLd schema h3)
      in (h4, prev))"

definition seo_cleanup :: "seo_mounted \<Rightarrow> head \<Rightarrow> head" where
  "seo_cleanup e h0 =
     (let h1 = h0\<lparr>doc_title := prevTitle e\<rparr>;
          h2 = set_metas default_title default_description default_ogImage default_ogUrl h1;
          h3 = (if prevCanonical e \<noteq> '''' then setCanonical (prevCanonical e) h2 else h2)
      in removeJsonLd h3)"

definition useSEO :: "(string \<Rightarrow> string) \<Rightarrow> seo_data \<Rightarrow> head \<times> seo_mounted option \<Rightarrow> head \<times> seo_mounted option" where
  "useSEO resolve d w =
     (case snd w of
        None \<Rightarrow> map_prod id Some (seo_effect resolve d (fst w))
      | Some e \<Rightarrow>
          if ran_for e = seo_deps d then w
          else map_prod id Some (seo_effect resolve d (seo_cleanup e (fst w))))"

definition unmount_seo :: "head \<times> seo_mounted option \<Rightarrow> head" where
  "unmount_seo w = (case snd w of None \<Rightarrow> fst w | Some e \<Rightarrow> seo_cleanup e (fst w))"

text \<open>A stay on a page: its renders, in order, and the unmount.\<close>

definition seo_stay :: "(string \<Rightarrow> string) \<Rightarrow> head \<Rightarrow> seo_data list \<Rightarrow> head" where
  "seo_stay resolve h ds = unmount_seo (foldl (\<lambda>w d. useSEO resolve d w) (h, None) ds)"

section \<open>The pages\<close>

definition landing_seo :: seo_data where
  "landing_seo = \<lparr>
     s_title = ''AeroXe Bee '' @ em_dash @ '' Distributed SMS Gateway Platform'',
     s_description = ''Enterprise SMS delivery with intelligent multi-strategy routing, real-time analytics, device fleet management, and self-hosting options. Start free, scale as you grow.'',
     s_ogImage = Some ''/og-image.svg'',
     s_ogUrl = Some ''https://aeroxbee.com'',
     s_schema = Some (JObj [
       (''@context'', JStr ''https://schema.org''),
       (''@type'', JStr ''WebSite''),
       (''name'', JStr ''AeroXe Bee''),
       (''url'', JStr ''https://aeroxbee.com''),
       (''description'', JStr ''Enterprise SMS delivery platform with intelligent multi-strategy routing, real-time analytics, and device fleet management.''),
       (''potentialAction'', JObj [
         (''@type'', JStr ''SearchAction''),
         (''target'', JStr ''https://aeroxbee.com/?q={search_term_string}''),
         (''query-input'', JStr ''required name=search_term_string'')])])\<rparr>"

definition contact_seo :: seo_data where
  "contact_seo = \<lparr>
     s_title = ''Contact Sales | AeroXe Bee'',
     s_description = ''Get in touch with the AeroXe Bee sales team for custom pricing, enterprise security, self-hosting options, and team onboarding. We respond within 24 hours.'',
     s_ogImage = Some ''/og-contact-sales.png'',
     s_ogUrl = Some ''https://aeroxbee.com/contact-sales'',
     s_schema = Some (JObj [
       (''@context'', JStr ''https://schema.org''),
       (''@type'', JStr ''ContactPage''),
       (''name'', JStr ''Contact Sales | AeroXe Bee''),
       (''description'', JStr ''Get in touch with the AeroXe Bee sales team for custom pricing, enterprise security, self-hosting options, and team onboarding.''),
       (''url'', JStr ''https://aeroxbee.com/contact-sales''),
       (''mainEntity'', JObj [
         (''@type'', JStr ''Organization''),
         (''name'', JStr ''AeroXe Bee''),
         (''url'', JStr ''https://aeroxbee.com''),
         (''email'', JStr ''sales@aeroxbee.com''),
         (''telephone'', JStr ''+917020668210''),
         (''address'', JObj [
           (''@type'', JStr ''PostalAddress''),
           (''addressLocality'', JStr ''Jalgaon''),
           (''addressRegion'', JStr ''Maharashtra''),
           (''addressCountry'', JStr ''IN'')])])])\<rparr>"

definition og_short :: string where
  "og_short = ''Enterprise SMS delivery with intelligent multi-strategy routing, real-time analytics, and device fleet management.''"

definition index_head :: head where
  "index_head = \<lparr>
     doc_title = default_title,
     metas = [
       ((MName, ''viewport''), ''width=device-width, initial-scale=1.0''),
       ((MName, ''description''), default_description),
       ((MName, ''keywords''), ''SMS gateway, SMS API, bulk SMS, enterprise messaging, device fleet management, self-hosted''),
       ((MName, ''theme-color''), ''#030712''),
       ((MProperty, ''og:type''), ''website''),
       ((MProperty, ''og:title''), default_title),
       ((MProperty, ''og:description''), og_short),
       ((MProperty, ''og:url''), ''https://aeroxbee.com''),
       ((MProperty, ''og:site_name''), ''AeroXe Bee''),
       ((MName, ''twitter:card''), ''summary_large_image''),
       ((MName, ''twitter:title''), default_title),
       ((MName, ''twitter:description''), og_short)],
     canonical = None,
     json_ld = None\<rparr>"

section \<open>What a stay leaves behind\<close>

definition default_metas :: "(meta_key \<times> string) list" where
  "default_metas = [
     ((MProperty, ''og:title''), default_title),
     ((MProperty, ''og:description''), default_description),
     ((MProperty, ''og:image''), default_ogImage),
     ((MProperty, ''og:image:width''), ''1200''),
     ((MProperty, ''og:image:height''), ''630''),
     ((MProperty, ''og:url''), default_ogUrl),
     ((MProperty, ''twitter:title''), default_title),
     ((MProperty, ''twitter:description''), default_description),
     ((MProperty, ''twitter:image''), default_ogImage),
     ((MName, ''description''), default_description)]"

definition other_metas :: "head \<Rightarrow> (meta_key \<times> string) list" where
  "other_metas h = filter (\<lambda>p. fst p \<notin> fst ` set default_metas) (metas h)"

lemma filter_updated: "\<not> P k \<Longrightarrow> filter (\<lambda>p. P (fst p)) (AList.update k v m) = filter (\<lambda>p. P (fst p)) m"
  by (induction m) auto

lemma set_metas_keep [simp]:
  "doc_title (set_metas t d i u h) = doc_title h"
  "canonical (set_metas t d i u h) = canonical h"
  "json_ld (set_metas t d i u h) = json_ld h"
  by (simp_all add: set_metas_def setMeta_def)

lemma setMeta_others:
  "(attribute, property) \<in> fst ` set default_metas \<Longrightarrow> other_metas (setMeta property c attribute h) = other_metas h"
  by (simp add: other_metas_def setMeta_def filter_updated [of "\<lambda>k. k \<notin> fst ` set default_metas"])

lemma our_metas: "fst ` set default_metas =
  {(MProperty, ''og:title''), (MProperty, ''og:description''), (MProperty, ''og:image''),
   (MProperty, ''og:image:width''), (MProperty, ''og:image:height''), (MProperty, ''og:url''),
   (MProperty, ''twitter:title''), (MProperty, ''twitter:description''), (MProperty, ''twitter:image''),
   (MName, ''description'')}"
  by (simp add: default_metas_def)

lemma set_metas_others: "other_metas (set_metas t d i u h) = other_metas h"
  by (simp add: set_metas_def setMeta_others our_metas)

lemma set_metas_default:
  assumes "map_of default_metas k = Some v"
  shows "map_of (metas (set_metas default_title default_description default_ogImage default_ogUrl h)) k = Some v"
  using assms by (simp add: default_metas_def set_metas_def setMeta_def update_conv' split: if_splits)

lemma others_only [simp]:
  "other_metas (h\<lparr>doc_title := t\<rparr>) = other_metas h" "other_metas (setCanonical u h) = other_metas h"
  "other_metas (setJsonLd s h) = other_metas h" "other_metas (removeJsonLd h) = other_metas h"
  by (simp_all add: other_metas_def setCanonical_def setJsonLd_def removeJsonLd_def)

lemmas seo_steps = setCanonical_def setJsonLd_def removeJsonLd_def Let_def

lemma cleanup_facts:
  "doc_title (seo_cleanup e h) = prevTitle e"
  "json_ld (seo_cleanup e h) = None"
  "other_metas (seo_cleanup e h) = other_metas h"
  "canonical (seo_cleanup e h) = (if prevCanonical e \<noteq> '''' then Some (prevCanonical e) else canonical h)"
  "map_of default_metas k = Some v \<Longrightarrow> map_of (metas (seo_cleanup e h)) k = Some v"
proof -
  show "other_metas (seo_cleanup e h) = other_metas h"
    by (simp add: seo_cleanup_def Let_def set_metas_others)
  show "map_of (metas (seo_cleanup e h)) k = Some v" if "map_of default_metas k = Some v"
    using set_metas_default [OF that, of "h\<lparr>doc_title := prevTitle e\<rparr>"]
    by (simp add: seo_cleanup_def seo_steps)
qed (simp_all add: seo_cleanup_def seo_steps)

lemma effect_facts:
  "prevTitle (snd (seo_effect resolve d h)) = doc_title h"
  "ran_for (snd (seo_effect resolve d h)) = seo_deps d"
  "prevCanonical (snd (seo_effect resolve d h)) = (case canonical h of None \<Rightarrow> '''' | Some u \<Rightarrow> resolve u)"
  "other_metas (fst (seo_effect resolve d h)) = other_metas h"
  "canonical (fst (seo_effect resolve d h)) = (if seo_url d \<noteq> '''' then Some (seo_url d) else canonical h)"
  "doc_title (fst (seo_effect resolve d h)) = s_title d"
proof -
  show "other_metas (fst (seo_effect resolve d h)) = other_metas h"
    by (cases "s_schema d") (simp_all add: seo_effect_def Let_def set_metas_others)
qed (cases "s_schema d"; simp add: seo_effect_def seo_steps)+

definition stay_inv :: "head \<Rightarrow> head \<times> seo_mounted option \<Rightarrow> bool" where
  "stay_inv h w \<longleftrightarrow> other_metas (fst w) = other_metas h \<and>
     (case snd w of None \<Rightarrow> doc_title (fst w) = doc_title h | Some e \<Rightarrow> prevTitle e = doc_title h)"

lemma useSEO_runs:
  "useSEO resolve d w =
     (let h = (case snd w of None \<Rightarrow> fst w | Some e \<Rightarrow> seo_cleanup e (fst w)) in
      if map_option ran_for (snd w) = Some (seo_deps d) then w
      else (fst (seo_effect resolve d h), Some (snd (seo_effect resolve d h))))"
  by (cases "snd w") (simp_all add: useSEO_def map_prod_def split_beta Let_def)

lemma useSEO_mounts: "snd (useSEO resolve d w) \<noteq> None"
  by (auto simp: useSEO_runs Let_def)

lemma useSEO_keeps_stay: "stay_inv h w \<Longrightarrow> stay_inv h (useSEO resolve d w)"
  by (auto simp: stay_inv_def useSEO_runs effect_facts cleanup_facts Let_def split: option.splits)

definition renders :: "(string \<Rightarrow> string) \<Rightarrow> head \<times> seo_mounted option \<Rightarrow> seo_data list \<Rightarrow> head \<times> seo_mounted option" where
  "renders resolve w ds = foldl (\<lambda>w d. useSEO resolve d w) w ds"

lemma renders_keep_stay: "stay_inv h w \<Longrightarrow> stay_inv h (renders resolve w ds)"
  unfolding renders_def by (induction ds arbitrary: w) (simp_all add: useSEO_keeps_stay)

lemma renders_mount: "ds \<noteq> [] \<Longrightarrow> snd (renders resolve w ds) \<noteq> None"
  unfolding renders_def by (induction ds rule: rev_induct) (simp_all add: useSEO_mounts)

lemma cleanup_canonical: "canonical h \<noteq> None \<Longrightarrow> canonical (seo_cleanup e h) \<noteq> None"
  by (simp add: cleanup_facts)

lemma useSEO_canonical: "canonical (fst w) \<noteq> None \<Longrightarrow> canonical (fst (useSEO resolve d w)) \<noteq> None"
  by (simp add: useSEO_runs effect_facts cleanup_facts Let_def split: option.splits)

lemma renders_canonical: "canonical (fst w) \<noteq> None \<Longrightarrow> canonical (fst (renders resolve w ds)) \<noteq> None"
  unfolding renders_def by (induction ds arbitrary: w) (simp_all del: not_None_eq add: useSEO_canonical)

lemma stay_canonical:
  assumes "seo_url (hd ds) \<noteq> ''''" "ds \<noteq> []"
  shows "canonical (seo_stay resolve h ds) \<noteq> None"
proof -
  obtain d ds' where ds: "ds = d # ds'" using assms by (cases ds) auto
  have "canonical (fst (useSEO resolve d (h, None))) \<noteq> None"
    using assms ds by (simp add: useSEO_runs effect_facts Let_def)
  then have "canonical (fst (renders resolve (h, None) ds)) \<noteq> None"
    using renders_canonical by (simp add: renders_def ds)
  then show ?thesis
    by (auto simp: seo_stay_def unmount_seo_def renders_def [symmetric] cleanup_facts split: option.splits)
qed

text \<open>
  C35. Whatever a page rendered, once it is left the document has the title it had before, no
  structured data of the hook, and the default content in the ten elements the hook manages;
  every other \<open>meta\<close> element is as it was. The link to the canonical address is the exception: a
  page that set one never takes it away.
\<close>

theorem leaving_restores_the_head:
  assumes "ds \<noteq> []"
  shows "let h' = seo_stay resolve h ds in
     doc_title h' = doc_title h \<and> json_ld h' = None \<and> other_metas h' = other_metas h \<and>
     (\<forall>k v. map_of default_metas k = Some v \<longrightarrow> map_of (metas h') k = Some v) \<and>
     (seo_url (hd ds) \<noteq> '''' \<longrightarrow> canonical h' \<noteq> None)"
proof -
  obtain e where e: "snd (renders resolve (h, None) ds) = Some e" using renders_mount [OF assms] by blast
  have "stay_inv h (renders resolve (h, None) ds)" by (rule renders_keep_stay) (simp add: stay_inv_def)
  then have inv: "prevTitle e = doc_title h" "other_metas (fst (renders resolve (h, None) ds)) = other_metas h"
    by (simp_all add: stay_inv_def e)
  have stay: "seo_stay resolve h ds = seo_cleanup e (fst (renders resolve (h, None) ds))"
    by (simp add: seo_stay_def unmount_seo_def renders_def [symmetric] e)
  have "seo_url (hd ds) \<noteq> '''' \<longrightarrow> canonical (seo_stay resolve h ds) \<noteq> None"
    using stay_canonical assms by blast
  moreover have "doc_title (seo_stay resolve h ds) = doc_title h" "json_ld (seo_stay resolve h ds) = None"
    "other_metas (seo_stay resolve h ds) = other_metas h"
    "\<forall>k v. map_of default_metas k = Some v \<longrightarrow> map_of (metas (seo_stay resolve h ds)) k = Some v"
    by (simp_all add: stay cleanup_facts inv)
  ultimately show ?thesis by (simp add: Let_def)
qed

theorem leaving_restores_the_head_witness:
  "let h' = seo_stay id index_head [landing_seo] in
     doc_title h' = default_title \<and> canonical h' \<noteq> None \<and> canonical index_head = None"
  using leaving_restores_the_head [of "[landing_seo]" id index_head]
  by (simp add: Let_def index_head_def seo_url_def landing_seo_def)

text \<open>The canonical address of the landing page stays on every page visited after it.\<close>

lemma landing_address_stays:
  "canonical (seo_stay resolve index_head [landing_seo]) = Some ''https://aeroxbee.com''"
proof -
  have "useSEO resolve landing_seo (index_head, None) =
      (fst (seo_effect resolve landing_seo index_head), Some (snd (seo_effect resolve landing_seo index_head)))"
    by (simp add: useSEO_runs)
  then show ?thesis
    by (simp add: seo_stay_def unmount_seo_def cleanup_facts effect_facts)
      (simp add: index_head_def landing_seo_def seo_url_def)
qed

text \<open>
  The page declares its cards for Twitter by \<open>name\<close>; the hook writes them by \<open>property\<close>: the first
  ones are never updated.
\<close>

lemma twitter_cards_are_stale:
  "map_of (metas (fst (useSEO resolve d (h, None)))) (MName, ''twitter:title'') = map_of (metas h) (MName, ''twitter:title'')"
  by (cases "s_schema d")
    (simp_all add: useSEO_runs seo_effect_def seo_steps set_metas_def setMeta_def update_conv')

text \<open>A new schema alone changes nothing: it is not among the dependencies of the effect.\<close>

lemma new_schema_is_missed:
  "useSEO resolve (d\<lparr>s_schema := s\<rparr>) (useSEO resolve d (h, None)) = useSEO resolve d (h, None)"
  by (simp add: useSEO_runs [of resolve "d\<lparr>s_schema := s\<rparr>"]) (simp add: useSEO_runs effect_facts seo_deps_def)

end
