(* ===== verification/LandingParts.thy ===== *)
theory LandingParts
  imports Figures Storage UiKit Seo
begin

text \<open>
  The parts of the public pages that keep a state: the counters and the progress of scrolling
  (\<open>landing/hooks/useScrollReveal.ts\<close>), the questions and answers (\<open>FAQ.tsx\<close>), the notice about
  cookies (\<open>CookieConsent.tsx\<close>), the notices that float in (\<open>FloatingNotifications.tsx\<close>), the
  button back to the top (\<open>ScrollToTop.tsx\<close>) and the figures of \<open>Statistics.tsx\<close> and \<open>Hero.tsx\<close>.

  Times are numbers of milliseconds; the numbers of the counters are exact rationals, not
  doubles. Styles and animations are left out.
\<close>

section \<open>The counters\<close>

text \<open>\<open>parseFloat(x.toFixed(2))\<close>.\<close>

definition two_places :: "rat \<Rightarrow> rat" where
  "two_places x = of_int (if x < 0 then - \<lfloor>- x * 100 + 1 / 2\<rfloor> else \<lfloor>x * 100 + 1 / 2\<rfloor>) / 100"

record counter =
  counted :: rat
  hasAnimated :: bool
  animating :: "rat option"

definition counter_initial :: counter where
  "counter_initial = \<lparr>counted = 0, hasAnimated = False, animating = None\<rparr>"

datatype counter_event = Seen bool rat | Frame rat

definition count_progress :: "rat \<Rightarrow> rat \<Rightarrow> rat \<Rightarrow> rat" where
  "count_progress duration startTime now = min ((now - startTime) / duration) 1"

definition eased :: "rat \<Rightarrow> rat" where
  "eased progress = 1 - (1 - progress) ^ 3"

definition animate :: "rat \<Rightarrow> rat \<Rightarrow> rat \<Rightarrow> rat \<Rightarrow> counter \<Rightarrow> counter" where
  "animate end_value duration startTime now c =
     (let progress = count_progress duration startTime now in
      c\<lparr>counted := two_places (eased progress * end_value),
        animating := (if progress < 1 then Some startTime else None)\<rparr>)"

text \<open>
  The observer reports whether the element is in view; the first time it is, the animation starts.
  A frame is delivered to an animation that asked for one.
\<close>

fun counter_step :: "rat \<Rightarrow> rat \<Rightarrow> counter \<Rightarrow> counter_event \<Rightarrow> counter" where
  "counter_step end_value duration c (Seen isIntersecting now) =
     (if isIntersecting \<and> \<not> hasAnimated c then c\<lparr>hasAnimated := True, animating := Some now\<rparr> else c)"
| "counter_step end_value duration c (Frame now) =
     (case animating c of None \<Rightarrow> c | Some startTime \<Rightarrow> animate end_value duration startTime now c)"

definition scroll_progress :: "rat \<Rightarrow> rat \<Rightarrow> rat \<Rightarrow> rat" where
  "scroll_progress scrollHeight innerHeight scrollY =
     (let all = scrollHeight - innerHeight in if all > 0 then scrollY / all else 0)"

text \<open>
  The figures shown: \<open>formatStat\<close> of the hero abbreviates by the size of the value the counter runs
  to (the texts of a number, \<open>String(count)\<close> and \<open>toFixed(0)\<close>, are arguments), the bars of the
  statistics show the number as it is.
\<close>

definition formatStat :: "(rat \<Rightarrow> string) \<Rightarrow> (rat \<Rightarrow> string) \<Rightarrow> rat \<Rightarrow> rat \<Rightarrow> string" where
  "formatStat to_text to_fixed0 value count =
     (if value \<ge> 1000000000 then to_fixed1 (count / 1000000000) @ ''B''
      else if value \<ge> 1000000 then to_fixed0 (count / 1000000) @ ''M''
      else if value \<ge> 1000 then to_fixed0 (count / 1000) @ ''K''
      else to_text count)"

record stat_item =
  st_value :: rat
  st_label :: string
  st_suffix :: string

definition StatCounter :: "(rat \<Rightarrow> string) \<Rightarrow> (rat \<Rightarrow> string) \<Rightarrow> stat_item \<Rightarrow> counter \<Rightarrow> 'e vnode" where
  "StatCounter to_text to_fixed0 st c =
     box [box [Txt (formatStat to_text to_fixed0 (st_value st) (counted c)), Txt (st_suffix st)],
          box [Txt (st_label st)]]"

definition STATS :: "stat_item list" where
  "STATS = [
     \<lparr>st_value = 95, st_label = ''Delivery Rate Target'', st_suffix = ''%+''\<rparr>,
     \<lparr>st_value = 150, st_label = ''API Latency (p95)'', st_suffix = ''ms''\<rparr>,
     \<lparr>st_value = 995 / 10, st_label = ''API Uptime'', st_suffix = ''%+''\<rparr>,
     \<lparr>st_value = 5, st_label = ''Routing Strategies'', st_suffix = []\<rparr>]"

definition STAT_ITEMS :: "(stat_item \<times> rat) list" where
  "STAT_ITEMS = [
     (\<lparr>st_value = 9999 / 100, st_label = ''Uptime SLA'', st_suffix = ''%''\<rparr>, 9999 / 100),
     (\<lparr>st_value = 142, st_label = ''Avg Latency'', st_suffix = ''ms''\<rparr>, 85),
     (\<lparr>st_value = 997 / 10, st_label = ''Delivery Rate'', st_suffix = ''%''\<rparr>, 997 / 10),
     (\<lparr>st_value = 40, st_label = ''Cost Reduction'', st_suffix = ''%''\<rparr>, 40)]"

definition StatBar :: "(rat \<Rightarrow> string) \<Rightarrow> stat_item \<Rightarrow> rat \<Rightarrow> bool \<Rightarrow> counter \<Rightarrow> 'e vnode" where
  "StatBar to_text st bar inView c =
     box [box [Txt (st_label st)], box [Txt (to_text (counted c)), Txt (st_suffix st)],
          box [El ''div'' (if inView then [(''width'', to_text bar @ ''%'')] else [(''width'', ''0'')]) [] []]]"

section \<open>Questions and answers\<close>

definition faq_initial :: "nat option" where
  "faq_initial = Some 0"

definition faq_click :: "nat option \<Rightarrow> nat \<Rightarrow> nat option" where
  "faq_click openIndex i = (if openIndex = Some i then None else Some i)"

definition FAQItem :: "string \<Rightarrow> string \<Rightarrow> bool \<Rightarrow> 'e \<Rightarrow> 'e vnode" where
  "FAQItem question answer isOpen click =
     box (El ''button'' [] [On ''click'' click] [span [Txt question]] #
          when_do isOpen [El ''p'' [] [] [Txt answer]])"

definition FAQ :: "(string \<times> string) list \<Rightarrow> nat option \<Rightarrow> nat vnode" where
  "FAQ items openIndex =
     El ''section'' [] []
       [box [span [Txt ''FAQ''], El ''h2'' [] [] [Txt ''Frequently asked questions'']],
        box (map (\<lambda>(i, question, answer). FAQItem question answer (openIndex = Some i) i) (enumerate 0 items))]"

section \<open>The notice about cookies\<close>

record cookie_notice =
  ck_storage :: storage
  ck_show :: bool
  ck_timer :: bool

datatype cookie_event = CookieMount | CookieTimer | CookieUnmount | CookieDismiss

definition cookie_dismiss :: "cookie_notice \<Rightarrow> cookie_notice" where
  "cookie_dismiss c =
     c\<lparr>ck_storage := set_item (ck_storage c) ''cookie-consent-dismissed'' ''true'', ck_show := False\<rparr>"

text \<open>Mounting starts from a fresh state; the timer of two seconds is cleared with the component.\<close>

fun cookie_step :: "cookie_notice \<Rightarrow> cookie_event \<Rightarrow> cookie_notice" where
  "cookie_step c CookieMount =
     c\<lparr>ck_show := False, ck_timer := \<not> truthy_text (get_item (ck_storage c) ''cookie-consent-dismissed'')\<rparr>"
| "cookie_step c CookieTimer = (if ck_timer c then c\<lparr>ck_show := True, ck_timer := False\<rparr> else c)"
| "cookie_step c CookieUnmount = c\<lparr>ck_show := False, ck_timer := False\<rparr>"
| "cookie_step c CookieDismiss = cookie_dismiss c"

definition CookieConsent :: "bool \<Rightarrow> cookie_event vnode list" where
  "CookieConsent visible =
     when_do visible
       [box [El ''h4'' [] [] [Txt ''We value your privacy''],
          El ''p'' [] [] [Txt (''We use cookies to enhance your experience, analyze site traffic, and personalize content. By clicking '' @ quote_open @ ''Accept'' @ quote_close @ '', you agree to our use of cookies.'')],
          box [El ''button'' [] [On ''click'' CookieDismiss] [Txt ''Accept All''],
               El ''button'' [] [On ''click'' CookieDismiss] [Txt ''Essential Only'']],
          El ''button'' [(''aria-label'', ''Dismiss cookie notice'')] [On ''click'' CookieDismiss] []]]"

section \<open>The notices that float in\<close>

definition NOTIFICATIONS :: "(string \<times> string \<times> string) list" where
  "NOTIFICATIONS = [
     (''Sarah M.'', ''TechFlow'', ''started a free trial''),
     (''James K.'', ''DataSync'', ''upgraded to Enterprise''),
     (''Priya R.'', ''CloudBase'', ''connected 50 devices''),
     (''Marcus L.'', ''ByteForge'', ''sent 1M+ messages''),
     (''Alex T.'', ''CodeNest'', ''activated AI routing''),
     (''Chen W.'', ''NetPulse'', ''booked a demo'')]"

text \<open>
  The state has the due times of the timers that are running: the next tick of the interval, the first
  notice, and the calls that hide one.
\<close>

record floating =
  fl_current :: nat
  fl_show :: bool
  next_tick :: nat
  first_due :: "nat option"
  hide_due :: "nat list"

definition floating_initial :: floating where
  "floating_initial = \<lparr>fl_current = 0, fl_show = False, next_tick = 12000, first_due = Some 8000, hide_due = []\<rparr>"

definition floating_tick :: "floating \<Rightarrow> floating" where
  "floating_tick f =
     f\<lparr>fl_show := True, fl_current := (fl_current f + 1) mod length NOTIFICATIONS,
       hide_due := hide_due f @ [next_tick f + 4000], next_tick := next_tick f + 12000\<rparr>"

definition floating_first :: "floating \<Rightarrow> floating" where
  "floating_first f =
     (case first_due f of None \<Rightarrow> f
      | Some t \<Rightarrow> f\<lparr>fl_show := True, first_due := None, hide_due := hide_due f @ [t + 4000]\<rparr>)"

definition floating_hide :: "floating \<Rightarrow> floating" where
  "floating_hide f = f\<lparr>fl_show := False, hide_due := tl (hide_due f)\<rparr>"

text \<open>
  A timer may run when no running timer is due before it; timers due at one time may run in either
  order. The state is paired with the time of the last callback.
\<close>

definition floating_now :: "floating \<Rightarrow> nat" where
  "floating_now f =
     Min (set (next_tick f # hide_due f @ (case first_due f of None \<Rightarrow> [] | Some t \<Rightarrow> [t])))"

inductive floats :: "floating \<Rightarrow> nat \<Rightarrow> floating \<Rightarrow> bool" where
  ticks: "next_tick f = floating_now f \<Longrightarrow> floats f (next_tick f) (floating_tick f)"
| starts: "first_due f = Some t \<Longrightarrow> t = floating_now f \<Longrightarrow> floats f t (floating_first f)"
| hides: "hide_due f = t # ts \<Longrightarrow> t = floating_now f \<Longrightarrow> floats f t (floating_hide f)"

definition FloatingNotifications :: "floating \<Rightarrow> 'e vnode list" where
  "FloatingNotifications f =
     when_do (fl_show f)
       (let (name, company, action) = NOTIFICATIONS ! fl_current f in
        [box [El ''p'' [] [] [span [Txt name], Txt '' from '', span [Txt company], Txt '' '', Txt action]]])"

section \<open>Back to the top\<close>

datatype scroll_event = Scrolled rat | ToTop

definition top_shown :: "rat \<Rightarrow> bool" where
  "top_shown scrollY \<longleftrightarrow> scrollY > 600"

text \<open>
  The position and whether the button is shown: scrolling reports a position, the button asks for
  the position 0, which the browser reports in turn.
\<close>

fun scroll_step :: "rat \<times> bool \<Rightarrow> scroll_event \<Rightarrow> rat \<times> bool" where
  "scroll_step s (Scrolled y) = (y, top_shown y)"
| "scroll_step s ToTop = (0, top_shown 0)"

definition ScrollToTop :: "bool \<Rightarrow> scroll_event vnode list" where
  "ScrollToTop shown =
     when_do shown [El ''button'' [(''aria-label'', ''Scroll to top'')] [On ''click'' ToTop] []]"

section \<open>What the counters show\<close>

definition count_at :: "rat \<Rightarrow> rat \<Rightarrow> rat \<Rightarrow> rat \<Rightarrow> rat" where
  "count_at e d t0 t = two_places (eased (count_progress d t0 t) * e)"

lemma two_places_mono: "0 \<le> x \<Longrightarrow> x \<le> y \<Longrightarrow> two_places x \<le> two_places y"
  by (auto simp: two_places_def intro!: divide_right_mono floor_mono)

lemma two_places_0 [simp]: "two_places 0 = 0"
  by (simp add: two_places_def floor_eq_iff)

lemma two_places_exact: "0 \<le> k \<Longrightarrow> two_places (of_int k / 100) = of_int k / 100"
  by (simp add: two_places_def floor_eq_iff)

text \<open>Every figure of the pages has at most two places: its counter ends with the figure itself.\<close>

lemma figures_are_exact:
  "st \<in> set (STATS @ map fst STAT_ITEMS) \<Longrightarrow> two_places (st_value st) = st_value st"
  using two_places_exact [of 9500] two_places_exact [of 15000] two_places_exact [of 9950] two_places_exact [of 500]
    two_places_exact [of 9999] two_places_exact [of 14200] two_places_exact [of 9970] two_places_exact [of 4000]
  by (auto simp: STATS_def STAT_ITEMS_def)

lemma eased_mono: "p \<le> q \<Longrightarrow> q \<le> 1 \<Longrightarrow> eased p \<le> eased q"
  by (simp add: eased_def power_mono)

lemma progress_bounds:
  assumes "0 < d" "t0 \<le> t"
  shows "0 \<le> count_progress d t0 t" "count_progress d t0 t \<le> 1"
    "t \<le> t' \<Longrightarrow> count_progress d t0 t \<le> count_progress d t0 t'"
    "t0 + d \<le> t \<Longrightarrow> count_progress d t0 t = 1" "count_progress d t0 t < 1 \<longleftrightarrow> t < t0 + d"
proof -
  show "0 \<le> count_progress d t0 t" "count_progress d t0 t \<le> 1"
    using assms by (simp_all add: count_progress_def)
  show "t \<le> t' \<Longrightarrow> count_progress d t0 t \<le> count_progress d t0 t'"
    unfolding count_progress_def using assms by (intro min.mono divide_right_mono) auto
  show "t0 + d \<le> t \<Longrightarrow> count_progress d t0 t = 1"
    using assms by (simp add: count_progress_def min_def pos_divide_le_eq)
  show "count_progress d t0 t < 1 \<longleftrightarrow> t < t0 + d"
    using assms by (auto simp: count_progress_def min_less_iff_disj pos_divide_less_eq)
qed

lemma eased_ends: "eased 0 = 0" "eased 1 = 1"
  by (simp_all add: eased_def)

lemma count_at_facts:
  assumes "0 < d" "0 \<le> e" "t0 \<le> t"
  shows "0 \<le> count_at e d t0 t" "t \<le> t' \<Longrightarrow> count_at e d t0 t \<le> count_at e d t0 t'"
    "count_at e d t0 t \<le> two_places e" "count_at e d t0 t0 = 0" "t0 + d \<le> t \<Longrightarrow> count_at e d t0 t = two_places e"
proof -
  note b = progress_bounds [OF assms(1) assms(3)]
  have pos: "0 \<le> eased (count_progress d t0 t)" using eased_mono [OF b(1,2)] by (simp add: eased_ends)
  have one: "eased (count_progress d t0 t) \<le> 1" using eased_mono [OF b(2)] by (simp add: eased_ends)
  show "0 \<le> count_at e d t0 t"
    using two_places_mono [of 0 "eased (count_progress d t0 t) * e"] pos assms(2) by (simp add: count_at_def)
  show "count_at e d t0 t \<le> two_places e"
    unfolding count_at_def using pos one assms(2) by (intro two_places_mono) (simp_all add: mult_left_le_one_le)
  show "count_at e d t0 t0 = 0" by (simp add: count_at_def count_progress_def eased_ends)
  show "t0 + d \<le> t \<Longrightarrow> count_at e d t0 t = two_places e" by (simp add: count_at_def b(4) eased_ends)
  assume le: "t \<le> t'"
  have "eased (count_progress d t0 t) \<le> eased (count_progress d t0 t')"
    using le assms by (intro eased_mono b(3) progress_bounds(2)) auto
  then show "count_at e d t0 t \<le> count_at e d t0 t'"
    unfolding count_at_def using pos assms(2) by (intro two_places_mono mult_right_mono) simp_all
qed

definition counter_run :: "rat \<Rightarrow> rat \<Rightarrow> rat \<Rightarrow> rat list \<Rightarrow> counter" where
  "counter_run e d t0 ts = foldl (counter_step e d) counter_initial (Seen True t0 # map Frame ts)"

lemma counter_run_form:
  assumes "0 < d" "0 \<le> e" "sorted (t0 # ts)"
  shows "counter_run e d t0 ts =
     \<lparr>counted = count_at e d t0 (last (t0 # ts)), hasAnimated = True,
      animating = (if last (t0 # ts) < t0 + d then Some t0 else None)\<rparr>"
  using assms(3)
proof (induction ts rule: rev_induct)
  case Nil
  then show ?case
    using assms(1,2) count_at_facts(4) [of d e t0 t0] by (simp add: counter_run_def counter_initial_def)
next
  case (snoc t ts)
  define l where "l = last (t0 # ts)"
  have l: "l \<in> set (t0 # ts)" unfolding l_def by (rule last_in_set) simp
  then have times: "t0 \<le> l" "l \<le> t" using snoc.prems by (auto simp: sorted_append)
  have IH: "counter_run e d t0 ts = \<lparr>counted = count_at e d t0 l, hasAnimated = True,
      animating = (if l < t0 + d then Some t0 else None)\<rparr>"
    using snoc by (simp add: sorted_append l_def)
  have step: "counter_run e d t0 (ts @ [t]) = counter_step e d (counter_run e d t0 ts) (Frame t)"
    by (simp add: counter_run_def)
  show ?case
  proof (cases "l < t0 + d")
    case True
    then show ?thesis
      using times assms(1) progress_bounds(5) [of d t0 t]
      by (simp add: step IH animate_def Let_def count_at_def)
  next
    case False
    then show ?thesis
      using times assms(1,2) count_at_facts(5) [of d e t0 l] count_at_facts(5) [of d e t0 t]
      by (simp add: step IH)
  qed
qed



text \<open>Scrolling within the document gives a progress between zero and one.\<close>

lemma scroll_progress_bounds:
  "0 \<le> y \<Longrightarrow> y \<le> scrollHeight - innerHeight \<Longrightarrow> 0 \<le> scroll_progress scrollHeight innerHeight y \<and> scroll_progress scrollHeight innerHeight y \<le> 1"
  by (simp add: scroll_progress_def Let_def)

lemma top_is_hidden_at_the_top: "\<not> snd (scroll_step s ToTop)"
  by (simp add: top_shown_def)

text \<open>At most one answer is shown; a click opens its question, or closes it when it was the open one.\<close>

lemma one_answer_shown:
  "faq_click s i = Some j \<Longrightarrow> j = i" "faq_click (faq_click s i) i \<noteq> faq_click s i"
  "faq_click s i = None \<longleftrightarrow> s = Some i"
  by (auto simp: faq_click_def split: if_splits)

section \<open>What the notices promise\<close>

definition cookie_done :: "cookie_notice \<Rightarrow> bool" where
  "cookie_done c \<longleftrightarrow> get_item (ck_storage c) ''cookie-consent-dismissed'' = Some ''true'' \<and> \<not> ck_show c \<and> \<not> ck_timer c"

interpretation cookies: machine cookie_step "\<lambda>c e. True" cookie_done
proof
  show "cookie_done c \<Longrightarrow> cookie_done (cookie_step c e)" for c e
    by (cases e) (auto simp: cookie_done_def cookie_dismiss_def truthy_text_def get_item_def set_item_def)
qed

text \<open>
  The notice about cookies appears at the earliest when its timer has run, never after it was
  dismissed once in this browser, and each of its three buttons dismisses it in the same way: accepting all
  cookies and accepting the essential ones only leave the same state, so the choice is not recorded.
\<close>

theorem cookie_choice_is_not_recorded:
  assumes "ck_show c" and "\<not> ck_timer c"
  shows "\<not> ck_show (foldl cookie_step c (CookieDismiss # es)) \<and>
     ck_storage (cookie_step c CookieDismiss) = set_item (ck_storage c) ''cookie-consent-dismissed'' ''true'' \<and>
     {e. list_fire (CookieConsent (ck_show c)) e} = {CookieDismiss}"
proof -
  have "cookie_done (cookie_step c CookieDismiss)"
    using assms by (simp add: cookie_done_def cookie_dismiss_def get_item_def set_item_def)
  then have "cookie_done (foldl cookie_step (cookie_step c CookieDismiss) es)" by (rule cookies.run_inv) simp
  then show ?thesis using assms by (auto simp: cookie_done_def cookie_dismiss_def CookieConsent_def)
qed

definition cookie_shown :: cookie_notice where
  "cookie_shown = foldl cookie_step \<lparr>ck_storage = Map.empty, ck_show = False, ck_timer = False\<rparr> [CookieMount, CookieTimer]"

theorem cookie_choice_is_not_recorded_witness:
  "ck_show cookie_shown \<and> \<not> ck_show (foldl cookie_step cookie_shown [CookieDismiss, CookieMount, CookieTimer])"
proof -
  have s: "ck_show cookie_shown" "\<not> ck_timer cookie_shown"
    by (simp_all add: cookie_shown_def get_item_def truthy_text_def)
  show ?thesis using cookie_choice_is_not_recorded [OF s, of "[CookieMount, CookieTimer]"] s by blast
qed

inductive floating_run :: "nat \<Rightarrow> floating \<Rightarrow> bool" where
  mounts: "floating_run 0 floating_initial"
| elapses: "floating_run t f \<Longrightarrow> floats f t' f' \<Longrightarrow> floating_run t' f'"

definition floating_dues :: "floating \<Rightarrow> nat list" where
  "floating_dues f = next_tick f # hide_due f @ (case first_due f of None \<Rightarrow> [] | Some t \<Rightarrow> [t])"

lemma floating_now_le: "d \<in> set (floating_dues f) \<Longrightarrow> floating_now f \<le> d"
  by (auto simp: floating_now_def floating_dues_def simp del: set_simps intro!: Min_le)

lemma floats_due: "floats f t f' \<Longrightarrow> t = floating_now f \<and> t \<in> set (floating_dues f)"
  by (erule floats.cases) (auto simp: floating_dues_def)

lemma floats_forms:
  assumes "floats f t f'"
  obtains "t = next_tick f" "f' = floating_tick f"
  | "first_due f = Some t" "f' = floating_first f"
  | ts where "hide_due f = t # ts" "f' = floating_hide f"
  using assms by cases auto

definition floating_inv :: "nat \<Rightarrow> floating \<Rightarrow> bool" where
  "floating_inv t f \<longleftrightarrow> (\<forall>d \<in> set (floating_dues f). t \<le> d) \<and> (\<forall>d \<in> set (hide_due f). d \<le> t + 4000) \<and>
     (fl_show f \<longrightarrow> hide_due f \<noteq> []) \<and> fl_current f < length NOTIFICATIONS \<and> next_tick f \<le> t + 12000"

lemma floating_invI:
  assumes "\<And>d. d \<in> set (floating_dues f) \<Longrightarrow> t' \<le> d" "\<And>d. d \<in> set (hide_due f) \<Longrightarrow> d \<le> t' + 4000"
    and "set (floating_dues f') \<subseteq> insert (t' + 4000) (insert (t' + 12000) (set (floating_dues f)))"
    and "set (hide_due f') \<subseteq> insert (t' + 4000) (set (hide_due f))"
    and "fl_show f' \<longrightarrow> hide_due f' \<noteq> []" "fl_current f' < length NOTIFICATIONS" "next_tick f' \<le> t' + 12000"
  shows "floating_inv t' f'"
  unfolding floating_inv_def
proof (intro conjI ballI)
  show "t' \<le> d" if "d \<in> set (floating_dues f')" for d using that assms(1,3) by force
  show "d \<le> t' + 4000" if "d \<in> set (hide_due f')" for d using that assms(2,4) by blast
qed (use assms(5-7) in simp_all)

lemma floats_inv:
  assumes "floating_inv t f" and "floats f t' f'"
  shows "t \<le> t' \<and> floating_inv t' f'"
proof -
  have now: "t' = floating_now f" "t' \<in> set (floating_dues f)" using floats_due [OF assms(2)] by auto
  then have t: "t \<le> t'" using assms(1) by (auto simp: floating_inv_def)
  have dues: "t' \<le> d" if "d \<in> set (floating_dues f)" for d using floating_now_le [OF that] now by simp
  have hides: "d \<le> t' + 4000" if "d \<in> set (hide_due f)" for d
    using that assms(1) t by (force simp: floating_inv_def)
  have now_f: "fl_current f < length NOTIFICATIONS" "next_tick f \<le> t' + 12000"
    using assms(1) t by (simp_all add: floating_inv_def)
  have "floating_inv t' f'"
  proof (rule floating_invI [OF dues hides], assumption, assumption)
    show "set (floating_dues f') \<subseteq> insert (t' + 4000) (insert (t' + 12000) (set (floating_dues f)))"
      using assms(2) by (cases rule: floats_forms) (auto simp: floating_dues_def floating_tick_def floating_first_def floating_hide_def)
    show "set (hide_due f') \<subseteq> insert (t' + 4000) (set (hide_due f))"
      using assms(2) by (cases rule: floats_forms) (auto simp: floating_tick_def floating_first_def floating_hide_def)
    show "fl_show f' \<longrightarrow> hide_due f' \<noteq> []"
      using assms(2) by (cases rule: floats_forms) (simp_all add: floating_tick_def floating_first_def floating_hide_def)
    show "fl_current f' < length NOTIFICATIONS"
      using assms(2) now_f by (cases rule: floats_forms)
        (simp_all add: floating_tick_def floating_first_def floating_hide_def NOTIFICATIONS_def)
    show "next_tick f' \<le> t' + 12000"
      using assms(2) now_f by (cases rule: floats_forms) (simp_all add: floating_tick_def floating_first_def floating_hide_def)
  qed
  with t show ?thesis by blast
qed

lemma floating_run_inv: "floating_run t f \<Longrightarrow> floating_inv t f"
proof (induction rule: floating_run.induct)
  case mounts
  show ?case by (simp add: floating_inv_def floating_initial_def floating_dues_def NOTIFICATIONS_def)
next
  case (elapses t f t' f')
  then show ?case using floats_inv by blast
qed

text \<open>
  While the page is open the notices come and go: whenever one is shown a timer that hides it is
  running and due within four seconds, the next one comes within twelve, and the one shown is one of the
  list.
\<close>

theorem notices_go_away:
  assumes "floating_run t f"
  shows "(fl_show f \<longrightarrow> (\<exists>d \<in> set (hide_due f). t \<le> d \<and> d \<le> t + 4000)) \<and>
     t \<le> next_tick f \<and> next_tick f \<le> t + 12000 \<and> fl_current f < length NOTIFICATIONS"
proof -
  have inv: "floating_inv t f" using assms by (rule floating_run_inv)
  then show ?thesis by (cases "hide_due f") (auto simp: floating_inv_def floating_dues_def)
qed

text \<open>
  The timer that hides the first notice is due when the second one comes: the second can be hidden the
  moment it appears.
\<close>

definition floating_second :: floating where
  "floating_second = \<lparr>fl_current = 1, fl_show = False, next_tick = 24000, first_due = None, hide_due = [16000]\<rparr>"

lemma second_notice_may_be_missed: "floating_run 12000 floating_second"
proof -
  define f1 where "f1 = floating_first floating_initial"
  define f2 where "f2 = floating_tick f1"
  have f1: "f1 = \<lparr>fl_current = 0, fl_show = True, next_tick = 12000, first_due = None, hide_due = [12000]\<rparr>"
    by (simp add: f1_def floating_first_def floating_initial_def)
  have f2: "f2 = \<lparr>fl_current = 1, fl_show = True, next_tick = 24000, first_due = None, hide_due = [12000, 16000]\<rparr>"
    by (simp add: f2_def f1 floating_tick_def NOTIFICATIONS_def)
  have "floats floating_initial 8000 f1"
    unfolding f1_def by (rule floats.starts) (simp_all add: floating_initial_def floating_now_def)
  with floating_run.mounts have "floating_run 8000 f1" by (rule floating_run.elapses)
  moreover have "floats f1 12000 f2"
    unfolding f2_def using floats.ticks [of f1] by (simp add: f1 floating_now_def)
  ultimately have "floating_run 12000 f2" by (rule floating_run.elapses)
  moreover have "floats f2 12000 (floating_hide f2)"
    by (rule floats.hides [of f2 12000 "[16000]"]) (simp_all add: f2 floating_now_def)
  ultimately have "floating_run 12000 (floating_hide f2)" by (rule floating_run.elapses)
  moreover have "floating_hide f2 = floating_second"
    by (simp add: floating_hide_def f2 floating_second_def)
  ultimately show ?thesis by simp
qed

theorem notices_go_away_witness: "12000 \<le> next_tick floating_second \<and> fl_current floating_second < 6"
  using notices_go_away [OF second_notice_may_be_missed] by (simp add: NOTIFICATIONS_def)

end
