(* ===== verification/Landing.thy ===== *)
theory Landing
  imports Seo LandingParts Pricing Router
begin

text \<open>
  The landing page (\<open>landing/pages/LandingPage.tsx\<close>): the constants of
  \<open>landing/constants/data.ts\<close> and of the sections, each section of \<open>landing/components/\<close> as a
  view, the page they make up with its state, and where its links lead. Icons, colours and
  animations are left out; texts are given by their bytes in UTF-8.
\<close>

section \<open>Constants\<close>

definition NAV_LINKS :: "(string \<times> string) list" where
  "NAV_LINKS = [
     (''Features'', ''#features''),
     (''Ecosystem'', ''#ecosystem''),
     (''Pricing'', ''#pricing''),
     (''Developers'', ''#developers''),
     (''Contact Sales'', ''/contact-sales'')]"

definition TRUSTED_COMPANIES :: "string list" where
  "TRUSTED_COMPANIES = [
     ''Acme Corp'', ''TechFlow'', ''DataSync'', ''CloudBase'', ''NetPulse'', ''SkyLink'', ''ByteForge'', ''CodeNest'', ''DevHub'', ''PixelCraft'', ''StackBuild'', ''WebForge'']"

definition FEATURES :: "(string \<times> string) list" where
  "FEATURES = [
     (''Secure Authentication'', ''Secure login with optional two-factor authentication. Role-based access control for admins, staff, and viewers.''),
     (''Smart Routing'', (''5 intelligent routing strategies optimized for speed, cost, reliability, geography, or profitability '' @ em_dash @ '' choose what matters most.'')),
     (''Device Fleet Management'', ''Turn phones into SMS-sending nodes. Real-time health monitoring, automatic failover, and intelligent load balancing across your fleet.''),
     (''Real-Time Analytics'', ''Delivery confidence scores, success rates, queue monitoring, and cost tracking across your entire device fleet.''),
     (''Priority Messaging'', (''Three priority lanes for OTP, transactional, and marketing messages '' @ em_dash @ '' ensuring critical messages always get delivered first.'')),
     (''Automatic Failover'', ''Smart circuit breakers detect issues and automatically reroute traffic. Self-healing system with configurable recovery.'')]"

definition ECOSYSTEM :: "(string \<times> string \<times> string) list" where
  "ECOSYSTEM = [
     (''Admin Dashboard'', ''Full control panel for account management, template approvals, fraud review, billing oversight, and platform-wide analytics.'', ''Web App''),
     (''Member Portal'', ''Self-service portal for device management, message history, analytics, templates, webhooks, and subscription management.'', ''Web App''),
     (''Mobile Client'', ''Turn any Android phone into an SMS-sending node. Real-time health monitoring, automatic failover, and intelligent load balancing.'', ''Android''),
     (''Core Platform'', ''Intelligent message routing, delivery confidence scoring, fraud detection, and webhook dispatch across your entire device fleet.'', ''Cloud Service'')]"

definition ROUTING_STRATEGIES :: "(string \<times> string) list" where
  "ROUTING_STRATEGIES = [
     (''Fastest Delivery'', ''Optimized for speed. Ideal for time-sensitive messages that need instant delivery.''),
     (''Lowest Cost'', ''Optimized for cost efficiency. Best for marketing and bulk message campaigns.''),
     (''Highest Reliability'', ''Optimized for delivery success. Ideal for OTP and critical transactional messages.''),
     (''Geo-Affinity'', ''Matches messages to devices in the same region as the recipient for better local delivery.'')]"

definition SECURITY_FEATURES :: "(string \<times> string) list" where
  "SECURITY_FEATURES = [
     (''End-to-End Encryption'', ''All message content, OTPs, and personal data encrypted at rest and in transit.''),
     (''Secure Transport'', ''All API and device communication encrypted with industry-standard protocols. No plaintext traffic allowed.''),
     (''Two-Factor Authentication'', ''Secure login with optional two-factor authentication for all admin accounts.''),
     (''Scoped API Keys'', ''Revocable API keys with per-key rate limiting and fine-grained scope restrictions.''),
     (''Signed Webhooks'', ''All webhook payloads cryptographically signed. Automatic retry with exponential backoff.''),
     (''Fraud Detection'', ''Pattern-based fraud and abuse detection with velocity anomaly monitoring and manual review.'')]"

definition INTEGRATIONS :: "string list" where
  "INTEGRATIONS = [
     ''REST API'', ''CLI Tool'', ''Cloud Hosting'', ''Webhooks'', ''Mobile SDK'', ''Payments'']"

definition CREDIBILITY_POINTS :: "(string \<times> string) list" where
  "CREDIBILITY_POINTS = [
     (''Multi-Strategy Routing'', ''5 intelligent routing strategies that automatically select the best device for each message based on your chosen priority.''),
     (''Predictive Health Monitoring'', ''Proactive device health tracking that detects issues early and automatically adjusts load before problems impact delivery.''),
     (''Honest Delivery Reporting'', ''Accurate delivery visibility using multiple signal sources to give you a true picture of message delivery status.''),
     (''Automatic Failover'', ''Smart circuit breakers at multiple levels that detect issues and automatically reroute traffic to healthy paths.'')]"

definition FAQ_ITEMS :: "(string \<times> string) list" where
  "FAQ_ITEMS = [
     (''How does the routing strategy system work?'', ''AeroXe Bee offers 5 selectable routing strategies optimized for different priorities: fastest delivery, lowest cost, highest reliability, geo-affinity, and profit-optimized. Each strategy intelligently selects the best device for each message based on your chosen priority.''),
     (''How does device fleet management work?'', ''Install the mobile app on phones with SIM cards, pair them via QR code, and they become SMS-sending nodes. Each device is continuously monitored for health, battery, network quality, and risk state. The platform automatically manages device selection and load balancing.''),
     (''What is delivery confidence scoring?'', ''Mobile SMS delivery reports are not always reliable. Our confidence model combines multiple signals to produce an honest delivery confidence score, giving you accurate visibility into message delivery status.''),
     (''How does the OTP system work?'', ''Generate verification codes via API, routed through a high-priority delivery channel with automatic lockout after failed attempts. Codes expire after a short window for maximum security.''),
     (''What security measures are in place?'', ''End-to-end encryption for all data, secure transport for all communication, two-factor authentication, revocable API keys with fine-grained permissions, cryptographically signed webhooks, and automatic fraud detection.''),
     (''Can I self-host the platform?'', ''Yes. AeroXe Bee is available as both a managed cloud service and a self-hosted deployment. Contact our sales team for self-hosting options and pricing.'')]"

definition STEPS :: "(string \<times> string \<times> string \<times> string list) list" where
  "STEPS = [
     (''01'', ''Connect your devices'', ''Install the Android app on phones with SIM cards. Pair them via QR code and they become SMS-sending nodes in your fleet.'', [''QR code pairing'', ''Real-time health monitoring'', ''Automatic failover'']),
     (''02'', ''Configure routing strategy'', (''Choose from 5 intelligent routing strategies '' @ em_dash @ '' fastest delivery, lowest cost, highest reliability, geo-affinity, or profit-optimized.''), [''Per-message strategy'', ''Dynamic device selection'', ''Cost optimization'']),
     (''03'', ''Send messages via API'', ''Use our REST API or SDK to send SMS. Messages are automatically routed through the optimal device based on your strategy.'', [''REST API'', ''Webhook callbacks'', ''Idempotent sends'']),
     (''04'', ''Monitor and optimize'', ''Track delivery confidence scores, device health, cost efficiency, and analytics in real-time through the dashboard.'', [''Delivery confidence'', ''Cost tracking'', ''Fleet analytics''])]"

definition differentiators :: "(string \<times> string) list" where
  "differentiators = [
     (''5 Intelligent Routing Strategies'', (''Fastest delivery, lowest cost, highest reliability, geo-affinity, or profit-optimized '' @ em_dash @ '' choose what matters most for each message type.'')),
     (''Device Fleet Management'', ''Turn Android phones into SMS-sending nodes with real-time health monitoring, automatic failover, and intelligent load balancing.''),
     (''Automatic Failover & Circuit Breakers'', ''Smart circuit breakers detect issues and automatically reroute traffic. Self-healing system with configurable recovery thresholds.''),
     (''Delivery Confidence Scoring'', ''Multiple signal sources combined to produce honest delivery confidence scores, giving you accurate visibility into message status.''),
     (''Priority Messaging Lanes'', (''Three dedicated lanes for OTP, transactional, and marketing messages '' @ em_dash @ '' ensuring critical messages always get delivered first.'')),
     (''Real-Time Analytics'', ''Live dashboards with delivery rates, queue depths, device health, and cost tracking across your entire fleet.'')]"

definition why_stats :: "(string \<times> string) list" where
  "why_stats = [
     (''95%+'', ''Delivery Rate Target''),
     (''150ms'', ''API Latency (p95)''),
     (''99.9%'', ''API Uptime''),
     (''5'', ''Routing Strategies'')]"

definition TESTIMONIALS :: "(string \<times> string \<times> string \<times> nat \<times> string) list" where
  "TESTIMONIALS = [
     (''Priya Sharma'', ''CTO, FinServe India'', ''PS'', 5, ''AeroXe Bee cut our OTP delivery costs by 40% while improving reliability. The smart routing alone paid for the entire platform in the first month.''),
     (''Marcus Chen'', ''Engineering Lead, CloudBase'', ''MC'', 5, ''We migrated from Twilio to AeroXe Bee for our transactional messaging. The device fleet management and circuit breaker system give us visibility we never had before.''),
     (''Sarah Mitchell'', ''VP Engineering, HealthConnect'', ''SM'', 5, ''The delivery confidence scoring changed how we think about SMS reliability. We can now make data-driven decisions about message routing strategies.''),
     (''Raj Patel'', ''Founder, QuickPoll'', ''RP'', 5, ''Self-hosting was seamless. We deployed the entire platform in under an hour and had our first messages sending within minutes. The API is beautifully designed.''),
     (''Emma Rodriguez'', ''Director of Ops, RetailFlow'', ''ER'', 5, ''The priority messaging lanes ensure our OTP messages always get through, even during peak marketing campaigns. Game changer for customer experience.''),
     (''David Kim'', ''Lead Developer, NovaTech'', ''DK'', 5, ''The webhook system and real-time analytics give us complete control over our messaging pipeline. Integration was straightforward with their REST API.'')]"

definition FOOTER_LINKS :: "(string \<times> (string \<times> string) list) list" where
  "FOOTER_LINKS = [
     (''Product'', [(''Features'', ''#features''), (''Pricing'', ''#pricing''), (''Integrations'', ''#integrations''), (''API Docs'', ''#''), (''Changelog'', ''#'')]),
     (''Solutions'', [(''Enterprise'', ''/contact-sales''), (''SMS Gateway'', ''#ecosystem''), (''Fleet Management'', ''#ecosystem''), (''Analytics'', ''#features''), (''AI Routing'', ''#routing'')]),
     (''Resources'', [(''Documentation'', ''#''), (''Blog'', ''#''), (''Community'', ''#''), (''Support'', ''#''), (''Status'', ''#'')]),
     (''Company'', [(''About'', ''#''), (''Careers'', ''#''), (''Contact Sales'', ''/contact-sales''), (''Security'', ''#''), (''Privacy'', ''#'')])]"

section \<open>Sections\<close>

abbreviation anchor :: "string \<Rightarrow> 'e vnode list \<Rightarrow> 'e vnode" where
  "anchor h kids \<equiv> El ''a'' [(''href'', h)] [] kids"

abbreviation part :: "string \<Rightarrow> 'e vnode list \<Rightarrow> 'e vnode" where
  "part i kids \<equiv> El ''section'' (if i = [] then [] else [(''id'', i)]) [] kids"

definition section_head :: "string \<Rightarrow> string \<Rightarrow> string \<Rightarrow> string \<Rightarrow> 'e vnode" where
  "section_head label lead marked below =
     box ([span [Txt label], El ''h2'' [] [] [Txt lead, span [Txt marked]]] @
       when_do (below \<noteq> []) [El ''p'' [] [] [Txt below]])"

definition titled :: "string \<times> string \<Rightarrow> 'e vnode" where
  "titled p = box [El ''h3'' [] [] [Txt (fst p)], El ''p'' [] [] [Txt (snd p)]]"

definition AnnouncementBar :: "'e vnode" where
  "AnnouncementBar =
     box [span [Txt ''Limited Time: Get 3 months free on Enterprise plans''], anchor ''/register'' [Txt ''Claim Offer'']]"

definition Navbar :: "'e \<Rightarrow> 'e \<Rightarrow> bool \<Rightarrow> 'e vnode" where
  "Navbar toggle close mobileOpen =
     El ''header'' [] []
       ([box [El ''nav'' [] []
          [anchor ''/'' [span [Txt ''AeroXe Bee'']],
           box (map (\<lambda>(label, href). anchor href [Txt label]) NAV_LINKS),
           box [anchor ''/login'' [Txt ''Log in''], anchor ''/register'' [Txt ''Get Started'']],
           El ''button'' [] [On ''click'' toggle] []]]] @
        when_do mobileOpen
          [box (map (\<lambda>(label, href). El ''a'' [(''href'', href)] [On ''click'' close] [Txt label]) NAV_LINKS @
             [box [anchor ''/login'' [Txt ''Log in''], anchor ''/register'' [Txt ''Get Started'']]])])"

definition Hero :: "(rat \<Rightarrow> string) \<Rightarrow> (rat \<Rightarrow> string) \<Rightarrow> counter list \<Rightarrow> 'e vnode" where
  "Hero to_text to_fixed0 counters =
     part []
       [box [anchor ''#features'' [span [], span [Txt ''New: 5 smart routing strategies now available'']]],
        box [El ''h1'' [] [] [Txt ''The future of '', span [Txt ''SMS delivery''], Txt '' is here''],
          El ''p'' [] [] [Txt (''Smart routing strategies, real-time delivery confidence scoring, device fleet management, and priority queues '' @ em_dash @ '' all from a single platform. Self-hostable or managed SaaS.'')],
          box [anchor ''/register'' [Txt ''Start Free Trial''], anchor ''#pricing'' [Txt ''View Documentation'']],
          box [box [Txt ''app.aeroxbee.com/dashboard''],
            box (map (\<lambda>(label, value, change). box [box [Txt label], box [Txt value], box [Txt change]])
              [(''Messages Sent'', ''1.2M'', ''+12.5%''), (''Delivery Confidence'', ''94.2%'', ''+2.1%''),
               (''Active Devices'', ''248'', ''+18''), (''Avg Latency (p95)'', ''142ms'', ''-23ms'')]),
            box (box [Txt (''Message Volume '' @ em_dash @ '' Last 30 Days'')] # replicate 30 (box [])),
            box [box [Txt ''Delivered''], box [Txt ''+12,847 today'']],
            box [box [Txt ''Queue Depth''], box [Txt ''3 priority lanes'']]],
          box [El ''p'' [] [] [Txt (''Open-source core '' @ bullet @ '' Self-hostable '' @ bullet @ '' Managed SaaS'')],
            box (map (\<lambda>name. span [Txt name]) (TRUSTED_COMPANIES @ TRUSTED_COMPANIES @ TRUSTED_COMPANIES)),
            box (map (\<lambda>(st, c). StatCounter to_text to_fixed0 st c) (zip STATS counters))]]]"

definition Features :: "'e vnode" where
  "Features =
     part ''features''
       [section_head ''Features'' ''Every capability '' ''you actually need''
          (''Real features backed by real infrastructure '' @ em_dash @ '' authentication, routing, fleet management, analytics, and more.''),
        box (map titled FEATURES)]"

definition ProductEcosystem :: "'e vnode" where
  "ProductEcosystem =
     part ''ecosystem''
       [section_head ''Ecosystem'' ''A complete '' ''platform ecosystem''
          ''Four interconnected products working together to deliver reliable SMS at scale.'',
        box (map (\<lambda>(title, description, badge). box [titled (title, description), box [span [Txt badge]]]) ECOSYSTEM),
        box [box [Txt ''How it works''],
          box (map (\<lambda>t. span [Txt t]) [''Devices'', arrow, ''Intelligent Routing'', arrow, ''Delivery'', arrow, ''Analytics''])]]"

definition SmartRouting :: "'e vnode" where
  "SmartRouting =
     part ''routing''
       [section_head ''Smart Routing'' ''Intelligent message routing '' ''for every use case''
          (''Choose from 5 routing strategies that weight reliability, cost, latency, and geography differently '' @ em_dash @ '' so each message takes the optimal path.''),
        box (map titled ROUTING_STRATEGIES),
        box [box (map (\<lambda>label. box [box [], span [Txt label]]) [''Reliability Score'', ''Reputation Score'', ''Cost Efficiency'', ''Geo Affinity'']),
          box [box [Txt ''Active Strategy''], span [Txt ''Highest Reliability''],
            El ''p'' [] [] [Txt (''Default for OTP traffic '' @ em_dash @ '' maximizes delivery guarantees'')]]]]"

definition Statistics :: "(rat \<Rightarrow> string) \<Rightarrow> bool \<Rightarrow> counter list \<Rightarrow> 'e vnode" where
  "Statistics to_text inView counters =
     part []
       [section_head ''Performance'' ''Numbers that '' ''speak for themselves'' [],
        box (map (\<lambda>((st, bar), c). StatBar to_text st bar inView c) (zip STAT_ITEMS counters))]"

definition Integrations :: "'e vnode" where
  "Integrations =
     part []
       [section_head ''Integrations'' ''Built with the '' ''right infrastructure''
          (''REST APIs, real-time messaging, webhooks, and native mobile SDK '' @ em_dash @ '' everything you need to integrate with your workflow.''),
        box (map (\<lambda>name. box [span [Txt name]]) INTEGRATIONS)]"

definition SecurityCompliance :: "'e vnode" where
  "SecurityCompliance =
     part []
       [section_head ''Security'' ''Enterprise-grade '' ''security built in''
          ''Zero-trust architecture with encryption at rest and in transit, scoped API keys, and automated fraud detection.'',
        box (map titled SECURITY_FEATURES)]"

definition ArchitectureCredibility :: "'e vnode" where
  "ArchitectureCredibility =
     part []
       [section_head ''Engineering'' ''Built on '' ''proven engineering patterns''
          (''Every subsystem is designed for production reliability '' @ em_dash @ '' not marketing claims.''),
        box (map titled CREDIBILITY_POINTS),
        box (map (\<lambda>(value, label). box [span [Txt value], box [Txt label]])
          [(''p95 < 150ms'', ''API Acceptance Latency''), (''0%'', ''Duplicate Send Target''), (''99.5%+'', ''API Availability Target'')])]"

definition line_feed :: string where
  "line_feed = [CHR 0x0A]"

definition quoted :: "string \<Rightarrow> string" where
  "quoted t = [dquote] @ t @ [dquote]"

definition go_on :: "'e vnode" where
  "go_on = span [Txt (backslash # line_feed)]"

definition DeveloperSection :: "'e vnode" where
  "DeveloperSection =
     part ''developers''
       [section_head ''Developers'' ''API-first '' ''architecture''
          (''Every feature is accessible via REST APIs. Send SMS, manage devices, configure webhooks, and query analytics '' @ em_dash @ '' all programmatically.''),
        box [anchor ''#'' [Txt ''View Documentation''], anchor ''#'' [Txt ''API Reference'']],
        box [span [Txt ''send-sms.sh''],
          El ''pre'' [] [] [El ''code'' [] []
            [span [Txt ''curl''], Txt '' '', span [Txt ''-X POST''], Txt '' '', go_on,
             span [Txt ''  https://api.aeroxbee.com/api/v1/send''], Txt '' '', go_on,
             span [Txt ''  -H''], Txt '' '', span [Txt (quoted ''Authorization: Bearer YOUR_API_KEY'')], Txt '' '', go_on,
             span [Txt ''  -H''], Txt '' '', span [Txt (quoted ''Content-Type: application/json'')], Txt '' '', go_on,
             span [Txt ''  -d''], Txt '' '', span [Txt ([CHR 0x27, CHR ''{''] @ line_feed)],
             span [Txt (''    '' @ quoted ''recipient'' @ '': '' @ quoted ''+1234567890'' @ '','' @ line_feed)],
             span [Txt (''    '' @ quoted ''message'' @ '': '' @ quoted ''Your OTP is 4829'' @ '','' @ line_feed)],
             span [Txt (''    '' @ quoted ''message_type'' @ '': '' @ quoted ''otp'' @ '','' @ line_feed)],
             span [Txt (''    '' @ quoted ''idempotency_key'' @ '': '' @ quoted ''unique-key-123'' @ line_feed)],
             span [Txt (''  }'' @ [CHR 0x27])]]],
          span [Txt (''202 Accepted '' @ em_dash @ '' queued for delivery via highest_reliability strategy'')]]]"

definition HowItWorks :: "'e vnode" where
  "HowItWorks =
     part ''how-it-works''
       [section_head ''How It Works'' ''From setup to '' ''first message in minutes''
          ''Four simple steps to transform your Android phones into a reliable, intelligent SMS delivery network.'',
        box (map (\<lambda>(number, title, description, details).
          box [span [Txt number], titled (title, description), El ''ul'' [] [] (map (\<lambda>d. El ''li'' [] [] [Txt d]) details)]) STEPS),
        box [anchor ''/register'' [Txt ''Start Sending in Minutes'']]]"

definition WhyChooseUs :: "'e vnode" where
  "WhyChooseUs =
     part []
       [section_head ''Why AeroXe Bee'' ''Built for teams who need '' ''reliable SMS delivery''
          (''Enterprise-grade SMS infrastructure with smart routing, device fleet management, and real-time visibility '' @ em_dash @ '' all from a single platform.''),
        box (map titled differentiators),
        box (map (\<lambda>(value, label). box [box [Txt value], box [Txt label]]) why_stats),
        box [anchor ''#pricing'' [Txt ''See Pricing'']]]"

definition Testimonials :: "'e vnode" where
  "Testimonials =
     part []
       [section_head ''Testimonials'' ''Trusted by '' ''engineering teams worldwide''
          ''Teams choose AeroXe Bee for reliable SMS delivery, smart routing, and complete control over their messaging infrastructure.'',
        box (map (\<lambda>(name, role, avatar, rating, text).
          box [box (replicate rating (El ''svg'' [] [] [])), El ''p'' [] [] [Txt (quote_open @ text @ quote_close)],
            box [box [Txt avatar], box [box [Txt name], box [Txt role]]]]) TESTIMONIALS)]"

definition CTABanner :: "'e vnode" where
  "CTABanner =
     part []
       [El ''h2'' [] [] [Txt ''Ready to transform your SMS infrastructure?''],
        El ''p'' [] [] [Txt (''Join teams using AeroXe Bee for reliable SMS delivery. Start your free trial today '' @ em_dash @ '' no credit card required.'')],
        box [anchor ''/register'' [Txt ''Start Free Trial''], anchor ''/contact-sales'' [Txt ''Talk to Sales'']]]"

text \<open>The form of the newsletter does nothing but keep the browser from sending it.\<close>

definition Footer :: "'e \<Rightarrow> string \<Rightarrow> 'e vnode" where
  "Footer subscribe year =
     El ''footer'' [] []
       [box [box [El ''h3'' [] [] [Txt ''Stay in the loop''],
            El ''p'' [] [] [Txt ''Get the latest product updates, engineering insights, and industry news.'']],
          El ''form'' [] [On ''submit'' subscribe]
            [El ''input'' [(''type'', ''email''), (''placeholder'', ''Enter your email'')] [] [],
             El ''button'' [] [] [Txt ''Subscribe'']]],
        box (box [anchor ''/'' [span [Txt ''AeroXe Bee'']],
            El ''p'' [] [] [Txt ''Distributed SMS gateway platform with intelligent routing.''],
            box (map (\<lambda>s. anchor ''#'' [Txt s]) [''X'', ''GH'', ''LI'', ''YT''])] #
          map (\<lambda>(title, links). box [El ''h4'' [] [] [Txt title],
            El ''ul'' [] [] (map (\<lambda>(label, href). El ''li'' [] [] [anchor href [Txt label]]) links)]) FOOTER_LINKS),
        box [El ''p'' [] [] [Txt (copyright @ '' '' @ year @ '' Aeroxe Enterprises Pvt. Ltd., Jalgaon, Maharashtra, India. All rights reserved.'')],
          box (map (\<lambda>t. anchor ''#'' [Txt t]) [''Privacy Policy'', ''Terms of Service'', ''Cookie Policy''])]]"

section \<open>The page\<close>

datatype landing_event =
    InPricing pricing_event
  | InFaq nat
  | InCookie cookie_event
  | InScroll scroll_event
  | InHero nat counter_event
  | InBars nat counter_event
  | BarsInView
  | ToggleMenu
  | CloseMenu
  | Subscribe

record landing_page =
  l_pricing :: pricing
  l_faq :: "nat option"
  l_cookie :: cookie_notice
  l_scroll :: "rat \<times> bool"
  scrolled :: bool
  mobileOpen :: bool
  l_hero :: "counter list"
  l_bars :: "counter list"
  barsSeen :: bool
  l_floating :: floating

definition landing_initial :: "storage \<Rightarrow> landing_page" where
  "landing_initial st = \<lparr>l_pricing = pricing_mount, l_faq = faq_initial,
     l_cookie = cookie_step \<lparr>ck_storage = st, ck_show = False, ck_timer = False\<rparr> CookieMount,
     l_scroll = (0, False), scrolled = False, mobileOpen = False,
     l_hero = replicate (length STATS) counter_initial, l_bars = replicate (length STAT_ITEMS) counter_initial,
     barsSeen = False, l_floating = floating_initial\<rparr>"

definition update_counter :: "rat list \<Rightarrow> nat \<Rightarrow> counter_event \<Rightarrow> counter list \<Rightarrow> counter list" where
  "update_counter ends n e cs =
     (if n < length cs then cs[n := counter_step (ends ! n) 2000 (cs ! n) e] else cs)"

text \<open>
  Scrolling is listened to by the bar of the navigation and by the button back to the top.
\<close>

fun landing_step :: "landing_page \<Rightarrow> landing_event \<Rightarrow> landing_page" where
  "landing_step s (InPricing e) = s\<lparr>l_pricing := pricing_step (l_pricing s) e\<rparr>"
| "landing_step s (InFaq i) = s\<lparr>l_faq := faq_click (l_faq s) i\<rparr>"
| "landing_step s (InCookie e) = s\<lparr>l_cookie := cookie_step (l_cookie s) e\<rparr>"
| "landing_step s (InScroll e) =
     (let p = scroll_step (l_scroll s) e in s\<lparr>l_scroll := p, scrolled := (fst p > 20)\<rparr>)"
| "landing_step s (InHero n e) = s\<lparr>l_hero := update_counter (map st_value STATS) n e (l_hero s)\<rparr>"
| "landing_step s (InBars n e) = s\<lparr>l_bars := update_counter (map (st_value \<circ> fst) STAT_ITEMS) n e (l_bars s)\<rparr>"
| "landing_step s BarsInView = s\<lparr>barsSeen := True\<rparr>"
| "landing_step s ToggleMenu = s\<lparr>mobileOpen := \<not> mobileOpen s\<rparr>"
| "landing_step s CloseMenu = s\<lparr>mobileOpen := False\<rparr>"
| "landing_step s Subscribe = s"

record number_texts =
  to_text :: "rat \<Rightarrow> string"
  to_fixed0 :: "rat \<Rightarrow> string"
  to_fixed4 :: "rat \<Rightarrow> string"
  this_year :: string

definition landing_view :: "number_texts \<Rightarrow> landing_page \<Rightarrow> landing_event vnode" where
  "landing_view t s =
     box ([box [AnnouncementBar, Navbar ToggleMenu CloseMenu (mobileOpen s)],
       El ''main'' [] []
         [Hero (to_text t) (to_fixed0 t) (l_hero s), Features, ProductEcosystem, SmartRouting,
          Statistics (to_text t) (barsSeen s) (l_bars s), Integrations, SecurityCompliance, ArchitectureCredibility,
          DeveloperSection, HowItWorks, WhyChooseUs, Testimonials,
          vmap InPricing (pricing_view (to_text t) (to_fixed4 t) (l_pricing s)),
          vmap InFaq (FAQ FAQ_ITEMS (l_faq s)), CTABanner],
       Footer Subscribe (this_year t)] @
       map (vmap InScroll) (ScrollToTop (snd (l_scroll s))) @
       map (vmap InCookie) (CookieConsent (ck_show (l_cookie s))) @
       FloatingNotifications (l_floating s))"

section \<open>Where the links lead\<close>

text \<open>The values an attribute has in a view, in document order.\<close>

fun attrs_named :: "string \<Rightarrow> 'e vnode \<Rightarrow> string list" where
  "attrs_named k (Txt s) = []"
| "attrs_named k (El t ats hs kids) =
     (case attr ats k of None \<Rightarrow> [] | Some v \<Rightarrow> [v]) @ concat (map (attrs_named k) kids)"

text \<open>
  A link of the page leads nowhere else (\<open>#\<close>), to an element of the page with that identifier, or to a
  route of the program.
\<close>

definition leads :: "'e vnode \<Rightarrow> string \<Rightarrow> bool" where
  "leads page h \<longleftrightarrow>
     h = ''#'' \<or> (if prefix ''#'' h then drop 1 h \<in> set (attrs_named ''id'' page) else h \<in> fst ` set branches)"

lemma attrs_vmap [simp]: "attrs_named k (vmap f v) = attrs_named k v"
proof (induction v)
  case (El t ats hs kids)
  then have "concat (map (attrs_named k \<circ> vmap f) kids) = concat (map (attrs_named k) kids)"
    by (induction kids) auto
  then show ?case by simp
qed simp

lemma attrs_when [simp]:
  "concat (map (attrs_named k) (when_do c vs)) = (if c then concat (map (attrs_named k) vs) else [])"
  by simp

lemma titled_attrs [simp]: "attrs_named k (titled p) = []" "attrs_named k (section_head a b c d) = []"
  by (simp_all add: titled_def section_head_def)

lemma part_lists [simp]:
  "concat (map (\<lambda>x. attrs_named k (f x)) xs) = [] \<longleftrightarrow> (\<forall>x \<in> set xs. attrs_named k (f x) = [])"
  by auto

lemma counter_attrs [simp]:
  "k \<noteq> ''width'' \<Longrightarrow> attrs_named k (StatBar tt st b i c) = []" "attrs_named k (StatCounter tt tf st c) = []"
  by (simp_all add: StatBar_def StatCounter_def)

lemma faq_attrs [simp]: "attrs_named k (FAQ items i) = []"
  by (auto simp: FAQ_def FAQItem_def when_do_def)

lemma pricing_attrs [simp]:
  "attrs_named ''href'' (pricing_view f g s) = []" "attrs_named ''id'' (pricing_view f g s) = [''pricing'']"
  by (auto simp: pricing_view_def plan_card_def FeatureComparisonTable_def StatCard_def PricingSkeleton_def
      cell_node_def when_do_def Let_def split: feature_cell.splits bool.splits)

lemma static_attrs:
  "attrs_named ''href'' Features = []" "attrs_named ''id'' Features = [''features'']"
  "attrs_named ''href'' ProductEcosystem = []" "attrs_named ''id'' ProductEcosystem = [''ecosystem'']"
  "attrs_named ''href'' SmartRouting = []" "attrs_named ''id'' SmartRouting = [''routing'']"
  "attrs_named k Integrations = []" "attrs_named k SecurityCompliance = []"
  "attrs_named k ArchitectureCredibility = []" "attrs_named k Testimonials = []"
  by (auto simp: Features_def ProductEcosystem_def SmartRouting_def Integrations_def SecurityCompliance_def
      ArchitectureCredibility_def Testimonials_def)

lemma linked_attrs:
  "attrs_named ''href'' DeveloperSection = [''#'', ''#'']" "attrs_named ''id'' DeveloperSection = [''developers'']"
  "attrs_named ''href'' HowItWorks = [''/register'']" "attrs_named ''id'' HowItWorks = [''how-it-works'']"
  "attrs_named ''href'' WhyChooseUs = [''#pricing'']" "attrs_named ''id'' WhyChooseUs = []"
  "attrs_named ''href'' CTABanner = [''/register'', ''/contact-sales'']" "attrs_named ''id'' CTABanner = []"
  "attrs_named ''href'' AnnouncementBar = [''/register'']" "attrs_named ''id'' AnnouncementBar = []"
  by (auto simp: DeveloperSection_def go_on_def HowItWorks_def WhyChooseUs_def CTABanner_def AnnouncementBar_def)

lemma framing_attrs:
  "set (attrs_named ''href'' (Navbar a b m)) =
     {''/'', ''#features'', ''#ecosystem'', ''#pricing'', ''#developers'', ''/contact-sales'', ''/login'', ''/register''}"
  "attrs_named ''id'' (Navbar a b m) = []"
  "set (attrs_named ''href'' (Footer c y)) =
     {''/'', ''#'', ''#features'', ''#pricing'', ''#integrations'', ''/contact-sales'', ''#ecosystem'', ''#routing''}"
  "attrs_named ''id'' (Footer c y) = []"
  by (auto simp: Navbar_def NAV_LINKS_def Footer_def FOOTER_LINKS_def)

lemma moving_attrs:
  "attrs_named ''href'' (Hero f g cs) = [''#features'', ''/register'', ''#pricing'']" "attrs_named ''id'' (Hero f g cs) = []"
  "attrs_named ''href'' (Statistics f b cs) = []" "attrs_named ''id'' (Statistics f b cs) = []"
  by (auto simp: Hero_def Statistics_def split: prod.splits)

lemma shown_attrs:
  "k \<noteq> ''aria-label'' \<Longrightarrow> v \<in> set (ScrollToTop b) \<Longrightarrow> attrs_named k v = []"
  "k \<noteq> ''aria-label'' \<Longrightarrow> v' \<in> set (CookieConsent b) \<Longrightarrow> attrs_named k v' = []"
  "w \<in> set (FloatingNotifications f) \<Longrightarrow> attrs_named k w = []"
proof -
  show "k \<noteq> ''aria-label'' \<Longrightarrow> v \<in> set (ScrollToTop b) \<Longrightarrow> attrs_named k v = []"
    by (cases b) (simp_all add: ScrollToTop_def)
  show "k \<noteq> ''aria-label'' \<Longrightarrow> v' \<in> set (CookieConsent b) \<Longrightarrow> attrs_named k v' = []"
    by (cases b) (simp_all add: CookieConsent_def)
  show "w \<in> set (FloatingNotifications f) \<Longrightarrow> attrs_named k w = []"
    by (cases "fl_show f"; cases "NOTIFICATIONS ! fl_current f") (simp_all add: FloatingNotifications_def)
qed

lemma landing_ids:
  "attrs_named ''id'' (landing_view t s) =
     [''features'', ''ecosystem'', ''routing'', ''developers'', ''how-it-works'', ''pricing'']"
  by (auto simp: landing_view_def static_attrs linked_attrs framing_attrs moving_attrs shown_attrs)

lemma landing_links:
  "set (attrs_named ''href'' (landing_view t s)) =
     {''/'', ''#'', ''#features'', ''#ecosystem'', ''#pricing'', ''#developers'', ''#routing'', ''#integrations'',
      ''/contact-sales'', ''/login'', ''/register''}"
  by (auto simp: landing_view_def static_attrs linked_attrs framing_attrs moving_attrs shown_attrs)

text \<open>
  C37. Whatever the state of the landing page, each of its links leads to a section of the page or to a
  route of the program, or is a placeholder; all but one: the link to the integrations in the footer names
  a section that no element of the page is.
\<close>

theorem landing_links_lead:
  "{h \<in> set (attrs_named ''href'' (landing_view t s)). \<not> leads (landing_view t s) h} = {''#integrations''}"
proof -
  obtain rest where "map fst branches = [''/'', ''/home'', ''/contact-sales'', ''/login'', ''/register''] @ rest"
    by (simp only: branch_list map_append list.map fst_conv append_assoc)
  then have routes: "set (map fst branches) = set [''/'', ''/home'', ''/contact-sales'', ''/login'', ''/register''] \<union> set rest"
    by (simp only: set_append)
  define P where "P = set (map fst branches)"
  have P: "fst ` set branches = P" by (simp only: P_def set_map)
  have mem: "''/'' \<in> P" "''/contact-sales'' \<in> P" "''/login'' \<in> P" "''/register'' \<in> P"
    unfolding P_def routes by simp_all
  have "leads (landing_view t s) h \<longleftrightarrow> h \<noteq> ''#integrations''"
    if "h \<in> set (attrs_named ''href'' (landing_view t s))" for h
    using that mem unfolding landing_links leads_def landing_ids P by (elim insertE) simp_all
  then have "{h \<in> set (attrs_named ''href'' (landing_view t s)). \<not> leads (landing_view t s) h} =
      set (attrs_named ''href'' (landing_view t s)) \<inter> {''#integrations''}" by blast
  also have "\<dots> = {''#integrations''}" unfolding landing_links by blast
  finally show ?thesis .
qed

text \<open>
  The page speaks of five routing strategies, its list has four; the uptime it gives differs between two
  of its sections, and the subscription to the newsletter changes nothing.
\<close>

lemma strategies_are_four:
  "st_value (STATS ! 3) = 5 \<and> st_label (STATS ! 3) = ''Routing Strategies'' \<and> length ROUTING_STRATEGIES = 4"
  by (simp add: STATS_def ROUTING_STRATEGIES_def)

lemma uptime_differs: "st_value (STATS ! 2) = 995 / 10 \<and> why_stats ! 2 = (''99.9%'', ''API Uptime'')"
  by (simp add: STATS_def why_stats_def)

text \<open>
  A link of the opened menu closes it and scrolling does not; every other part of the page keeps its state
  while one part moves.
\<close>

lemma subscribing_does_nothing: "landing_step s Subscribe = s"
  by simp

lemma menu_is_kept: "mobileOpen (landing_step s e) \<noteq> mobileOpen s \<Longrightarrow> e = ToggleMenu \<or> e = CloseMenu"
  by (cases e) (auto simp: Let_def)

lemma following_a_menu_link:
  "list_fire [Navbar ToggleMenu CloseMenu m] CloseMenu \<longleftrightarrow> m" "\<not> mobileOpen (landing_step s CloseMenu)"
  by (auto simp: Navbar_def NAV_LINKS_def)

end
