(* ===== verification/ShellParts.thy ===== *)
theory ShellParts
  imports Complex_Main DashboardService UiKit
begin

text \<open>
  Parts around every page: the error boundary (\<open>components/ui/ErrorBoundary.tsx\<close>), the drawer and the
  effect it shares with the modal dialogs (\<open>components/ui/Drawer.tsx\<close>, \<open>components/ui/Modal.tsx\<close>), the
  media queries (\<open>hooks/useMediaQuery.ts\<close>), the page for unknown addresses
  (\<open>pages/NotFoundPage.tsx\<close>), the access to the notifications (\<open>useToast\<close>) and the shortening of texts
  (\<open>utils/format.ts\<close>).
\<close>

section \<open>The error boundary\<close>

record boundary =
  hasError :: bool
  thrown :: jsval

definition boundary_initial :: boundary where
  "boundary_initial = \<lparr>hasError = False, thrown = JNull\<rparr>"

definition getDerivedStateFromError :: "jsval \<Rightarrow> boundary" where
  "getDerivedStateFromError err = \<lparr>hasError = True, thrown = err\<rparr>"

definition error_view :: "'e \<Rightarrow> 'e \<Rightarrow> jsval \<Rightarrow> 'e vnode list" where
  "error_view reload go_back err =
     [box [El ''h2'' [] [] [Txt ''Something went wrong''],
        El ''p'' [] [] [Txt (shown_text (js_or (opt_get err ''message'') (JStr ''An unexpected error occurred.'')))],
        box [El ''button'' [] [On ''click'' reload] [Txt ''Reload page''],
             El ''button'' [] [On ''click'' go_back] [Txt ''Go back'']]]]"

definition boundary_view :: "'e vnode list option \<Rightarrow> 'e \<Rightarrow> 'e \<Rightarrow> boundary \<Rightarrow> 'e vnode list \<Rightarrow> 'e vnode list" where
  "boundary_view fallback reload go_back s children =
     (if hasError s then (case fallback of Some f \<Rightarrow> f | None \<Rightarrow> error_view reload go_back (thrown s))
      else children)"

text \<open>
  A render of the children yields their view or throws. What is thrown is caught here and the boundary
  renders again with the state derived from it; a boundary that has an error does not render its children.
\<close>

definition boundary_render ::
  "'e vnode list option \<Rightarrow> 'e \<Rightarrow> 'e \<Rightarrow> boundary \<Rightarrow> jsval + 'e vnode list \<Rightarrow> boundary \<times> 'e vnode list" where
  "boundary_render fallback reload go_back s r =
     (case r of
        Inr children \<Rightarrow> (s, boundary_view fallback reload go_back s children)
      | Inl err \<Rightarrow>
          (let s' = (if hasError s then s else getDerivedStateFromError err)
           in (s', boundary_view fallback reload go_back s' [])))"

fun boundary_views ::
  "'e vnode list option \<Rightarrow> 'e \<Rightarrow> 'e \<Rightarrow> boundary \<Rightarrow> (jsval + 'e vnode list) list \<Rightarrow> 'e vnode list list" where
  "boundary_views fb rl gb s [] = []"
| "boundary_views fb rl gb s (r # rs) =
     (let (s', v) = boundary_render fb rl gb s r in v # boundary_views fb rl gb s' rs)"

section \<open>Dialogs and the document\<close>

text \<open>
  The effect of \<open>Modal\<close> and \<open>Drawer\<close>: while open a dialog listens to the Escape key of the document and
  keeps its body from scrolling. The dialogs of a page are numbered; a render gives each its \<open>open\<close> and its
  \<open>onClose\<close>, named by a number that is new when the function is. After a render the effects whose
  dependencies changed are cleaned up, all of them, and then run again in the order of the dialogs.
\<close>

type_synonym dialog_deps = "bool \<times> nat"

record dialog_document =
  overflow :: string
  key_handlers :: "(nat \<times> nat) list"

definition release_dialog :: "nat \<Rightarrow> dialog_deps \<Rightarrow> dialog_document \<Rightarrow> dialog_document" where
  "release_dialog i dep d =
     (if fst dep then d\<lparr>key_handlers := removeAll (i, snd dep) (key_handlers d), overflow := []\<rparr> else d)"

definition hold_dialog :: "nat \<Rightarrow> dialog_deps \<Rightarrow> dialog_document \<Rightarrow> dialog_document" where
  "hold_dialog i dep d =
     (if fst dep then d\<lparr>key_handlers := key_handlers d @ [(i, snd dep)], overflow := ''hidden''\<rparr> else d)"

definition changed_dialogs :: "dialog_deps option list \<Rightarrow> dialog_deps list \<Rightarrow> (nat \<times> dialog_deps option \<times> dialog_deps) list" where
  "changed_dialogs olds news = filter (\<lambda>(i, old, new). old \<noteq> Some new) (enumerate 0 (zip olds news))"

definition commit_dialogs ::
  "dialog_deps list \<Rightarrow> dialog_deps option list \<times> dialog_document \<Rightarrow> dialog_deps option list \<times> dialog_document" where
  "commit_dialogs news w =
     (let ch = changed_dialogs (fst w) news;
          d = fold (\<lambda>(i, old, new). case old of None \<Rightarrow> id | Some dep \<Rightarrow> release_dialog i dep) ch (snd w)
      in (map Some news, fold (\<lambda>(i, old, new). hold_dialog i new) ch d))"

definition no_dialogs :: "nat \<Rightarrow> dialog_deps option list \<times> dialog_document" where
  "no_dialogs n = (replicate n None, \<lparr>overflow = [], key_handlers = []\<rparr>)"

text \<open>The Escape key calls every listener, in the order they were added.\<close>

definition escape_calls :: "dialog_document \<Rightarrow> nat list" where
  "escape_calls d = map snd (key_handlers d)"

definition Drawer :: "bool \<Rightarrow> 'e \<Rightarrow> string option \<Rightarrow> 'e vnode list \<Rightarrow> 'e vnode list" where
  "Drawer shown onClose title children =
     when_do shown
       [El ''div'' [] [On ''keydown:Escape'' onClose]
          [El ''div'' [] [On ''click'' onClose] [],
           box (when_do (set_text title)
                  [box [El ''h2'' [] [] [Txt (the title)], El ''button'' [] [On ''click'' onClose] [El ''svg'' [] [] []]]] @
                [box children])]]"

section \<open>Media queries\<close>

text \<open>
  Whether a query matches is the browser's: the argument \<open>mm\<close>. A change of the environment reaches the
  hook when it changes what the query it subscribed to last yields.
\<close>

record media =
  mq_matches :: bool
  mq_query :: string

definition media_mount :: "('v \<Rightarrow> string \<Rightarrow> bool) \<Rightarrow> 'v \<Rightarrow> string \<Rightarrow> media" where
  "media_mount mm env query = \<lparr>mq_matches = mm env query, mq_query = query\<rparr>"

definition media_render :: "string \<Rightarrow> media \<Rightarrow> media" where
  "media_render query m = m\<lparr>mq_query := query\<rparr>"

definition media_change :: "('v \<Rightarrow> string \<Rightarrow> bool) \<Rightarrow> 'v \<Rightarrow> 'v \<Rightarrow> media \<Rightarrow> media" where
  "media_change mm env env' m =
     (if mm env' (mq_query m) \<noteq> mm env (mq_query m) then m\<lparr>mq_matches := mm env' (mq_query m)\<rparr> else m)"

definition mobile_query :: string where
  "mobile_query = ''(max-width: 767px)''"

definition tablet_query :: string where
  "tablet_query = ''(min-width: 768px) and (max-width: 1023px)''"

definition desktop_query :: string where
  "desktop_query = ''(min-width: 1024px)''"

section \<open>Small parts\<close>

definition NotFoundPage_view :: "'e vnode" where
  "NotFoundPage_view =
     box [El ''p'' [] [] [Txt ''404''], El ''h1'' [] [] [Txt ''Page not found''],
       El ''p'' [] [] [Txt (''The page you'' @ [CHR 0x27] @ ''re looking for doesn'' @ [CHR 0x27] @ ''t exist or has been moved.'')],
       El ''a'' [(''href'', ''/dashboard'')] [] [Button button [Txt ''Back to Dashboard'']]]"

definition useToast :: "'c option \<Rightarrow> js_error + 'c" where
  "useToast context =
     (case context of None \<Rightarrow> Inl (JsError ''useToast must be used within ToastProvider'') | Some c \<Rightarrow> Inr c)"

definition truncate_text :: "string \<Rightarrow> nat \<Rightarrow> string" where
  "truncate_text str n = (if length str \<le> n then str else take n str @ ''...'')"

section \<open>What the boundary shows\<close>

lemma failed_boundary_views:
  "boundary_views None rl gb (getDerivedStateFromError err) rs = replicate (length rs) (error_view rl gb err)"
proof (induction rs)
  case (Cons r rs)
  have "boundary_render None rl gb (getDerivedStateFromError err) r = (getDerivedStateFromError err, error_view rl gb err)"
    by (cases r) (simp_all add: boundary_render_def boundary_view_def getDerivedStateFromError_def)
  with Cons show ?case by simp
qed simp

text \<open>
  C39. A boundary shows what its children render until a render throws; from then on it shows the message of
  that first error, whatever its children would render: nothing but a new mount gets out of it.
\<close>

theorem first_error_is_kept:
  "boundary_views None rl gb boundary_initial rs =
     (let k = length (takeWhile (\<lambda>r. \<not> isl r) rs)
      in map projr (take k rs) @ replicate (length rs - k) (error_view rl gb (projl (rs ! k))))"
proof (induction rs)
  case (Cons r rs)
  show ?case
  proof (cases r)
    case (Inl err)
    then have "boundary_render None rl gb boundary_initial r = (getDerivedStateFromError err, error_view rl gb err)"
      by (simp add: boundary_render_def boundary_view_def boundary_initial_def getDerivedStateFromError_def)
    then show ?thesis using Inl by (simp add: failed_boundary_views)
  next
    case (Inr v)
    then have "boundary_render None rl gb boundary_initial r = (boundary_initial, v)"
      by (simp add: boundary_render_def boundary_view_def boundary_initial_def)
    then show ?thesis using Inr Cons.IH by (simp add: Let_def)
  qed
qed simp

section \<open>Which dialogs hold the page\<close>

text \<open>The listeners of the open dialogs, and the scroll lock they ask for.\<close>

fun open_handlers :: "nat \<Rightarrow> dialog_deps option list \<Rightarrow> (nat \<times> nat) list" where
  "open_handlers i [] = []"
| "open_handlers i (None # ds) = open_handlers (Suc i) ds"
| "open_handlers i (Some (shown, h) # ds) = (if shown then [(i, h)] else []) @ open_handlers (Suc i) ds"

definition lock_of :: "dialog_deps option list \<Rightarrow> string" where
  "lock_of ds = (if open_handlers 0 ds = [] then [] else ''hidden'')"

definition releases :: "(nat \<times> dialog_deps option \<times> dialog_deps) list \<Rightarrow> (nat \<times> nat) set" where
  "releases ch = {(i, h). \<exists>new. (i, Some (True, h), new) \<in> set ch}"

definition release_all :: "(nat \<times> dialog_deps option \<times> dialog_deps) list \<Rightarrow> dialog_document \<Rightarrow> dialog_document" where
  "release_all = fold (\<lambda>(i, old, new). case old of None \<Rightarrow> id | Some dep \<Rightarrow> release_dialog i dep)"

lemma release_all_form:
  "key_handlers (release_all ch d) = filter (\<lambda>h. h \<notin> releases ch) (key_handlers d) \<and>
   overflow (release_all ch d) = (if releases ch = {} then overflow d else [])"
proof (induction ch arbitrary: d)
  case (Cons c ch)
  obtain i old new where c: "c = (i, old, new)" by (cases c)
  let ?d = "case old of None \<Rightarrow> d | Some dep \<Rightarrow> release_dialog i dep d"
  have step: "release_all (c # ch) d = release_all ch ?d"
    by (simp add: release_all_def c split: option.splits)
  have rel: "releases (c # ch) = (case old of Some (True, h) \<Rightarrow> insert (i, h) (releases ch) | _ \<Rightarrow> releases ch)"
    by (cases new) (auto simp: releases_def c split: option.splits bool.splits)
  show ?case
    unfolding step rel using Cons.IH
    by (auto simp: release_dialog_def removeAll_filter_not_eq split: option.splits prod.splits bool.splits intro!: filter_cong)
qed (simp add: release_all_def releases_def)

lemmas release_all_facts = conjunct1 [OF release_all_form] conjunct2 [OF release_all_form]

definition hold_all :: "(nat \<times> dialog_deps option \<times> dialog_deps) list \<Rightarrow> dialog_document \<Rightarrow> dialog_document" where
  "hold_all = fold (\<lambda>(i, old, new). hold_dialog i new)"

lemma hold_all_form:
  assumes "length olds = length news"
  shows "key_handlers (hold_all (enumerate k (zip olds news)) d) = key_handlers d @ open_handlers k (map Some news) \<and>
    overflow (hold_all (enumerate k (zip olds news)) d) =
      (if open_handlers k (map Some news) = [] then overflow d else ''hidden'')"
  using assms
proof (induction olds news arbitrary: k d rule: list_induct2)
  case (Cons old olds new news)
  have "hold_all (enumerate k (zip (old # olds) (new # news))) d =
      hold_all (enumerate (Suc k) (zip olds news)) (hold_dialog k new d)"
    by (simp add: hold_all_def)
  then show ?case using Cons.IH by (cases new) (simp add: hold_dialog_def)
qed (simp add: hold_all_def)

lemmas hold_all_facts = conjunct1 [OF hold_all_form] conjunct2 [OF hold_all_form]

lemma releases_open:
  assumes "length olds = length news"
  shows "releases (enumerate k (zip olds news)) = set (open_handlers k olds)"
  using assms
proof (induction olds news arbitrary: k rule: list_induct2)
  case (Cons old olds new news)
  have "releases (enumerate k (zip (old # olds) (new # news))) =
      (case old of Some (True, h) \<Rightarrow> insert (k, h) (releases (enumerate (Suc k) (zip olds news)))
       | _ \<Rightarrow> releases (enumerate (Suc k) (zip olds news)))"
    by (cases new) (auto simp: releases_def split: option.splits bool.splits)
  then show ?case using Cons.IH by (auto split: option.splits bool.splits)
qed (simp add: releases_def)

text \<open>Every dialog is closed and opened, or has a new function to close it: what the pages pass.\<close>

definition renewed :: "dialog_deps option list \<Rightarrow> dialog_deps list \<Rightarrow> bool" where
  "renewed olds news \<longleftrightarrow> length olds = length news \<and> list_all2 (\<lambda>old new. old \<noteq> Some new) olds news"

definition dialogs_held :: "dialog_deps option list \<times> dialog_document \<Rightarrow> bool" where
  "dialogs_held w \<longleftrightarrow> key_handlers (snd w) = open_handlers 0 (fst w) \<and> overflow (snd w) = lock_of (fst w)"

lemma renewed_all: "renewed olds news \<Longrightarrow> changed_dialogs olds news = enumerate 0 (zip olds news)"
  unfolding renewed_def changed_dialogs_def
  by (intro filter_True) (auto simp: list_all2_conv_all_nth in_set_enumerate_eq, metis)

lemma commit_holds:
  assumes "dialogs_held w" and "renewed (fst w) news"
  shows "dialogs_held (commit_dialogs news w)"
proof -
  have len: "length (fst w) = length news" using assms(2) by (simp add: renewed_def)
  let ?ch = "enumerate 0 (zip (fst w) news)"
  have commit: "commit_dialogs news w = (map Some news, hold_all ?ch (release_all ?ch (snd w)))"
    by (simp add: commit_dialogs_def hold_all_def release_all_def renewed_all [OF assms(2)] Let_def)
  have "key_handlers (release_all ?ch (snd w)) = []" "overflow (release_all ?ch (snd w)) = []"
    using assms(1) by (auto simp: release_all_facts releases_open [OF len] dialogs_held_def lock_of_def filter_empty_conv)
  then show ?thesis by (simp add: dialogs_held_def commit hold_all_facts [OF len] lock_of_def)
qed

text \<open>The renders of a page with \<open>n\<close> dialogs, each with new functions to close them.\<close>

fun renewing :: "dialog_deps option list \<Rightarrow> dialog_deps list list \<Rightarrow> bool" where
  "renewing olds [] = True"
| "renewing olds (news # css) = (renewed olds news \<and> renewing (map Some news) css)"

lemma commits_hold:
  "dialogs_held w \<Longrightarrow> renewing (fst w) css \<Longrightarrow>
     dialogs_held (fold commit_dialogs css w) \<and>
     fst (fold commit_dialogs css w) = (if css = [] then fst w else map Some (last css))"
proof (induction css arbitrary: w)
  case (Cons news css)
  have "dialogs_held (commit_dialogs news w)" using Cons.prems by (intro commit_holds) simp_all
  moreover have "fst (commit_dialogs news w) = map Some news" by (simp add: commit_dialogs_def Let_def)
  ultimately show ?case using Cons by (auto simp: Cons.IH)
qed simp

lemma no_handlers: "open_handlers k (replicate n None) = []"
  by (induction n arbitrary: k) simp_all



text \<open>
  With functions that stay the same the lock is lost: closing the second dialog lets the page scroll under
  the first, which is still open.
\<close>

lemma stable_handlers_lose_the_lock:
  "overflow (snd (fold commit_dialogs [[(True, 1), (True, 2)], [(True, 1), (False, 2)]] (no_dialogs 2))) = []"
  by (simp add: commit_dialogs_def changed_dialogs_def no_dialogs_def hold_dialog_def release_dialog_def
      numeral_2_eq_2 Let_def)

section \<open>Sizes of the screen\<close>

text \<open>The three queries, as CSS reads them for a viewport of a width in pixels.\<close>

definition css_width :: "rat \<Rightarrow> string \<Rightarrow> bool" where
  "css_width w q \<longleftrightarrow>
     q = mobile_query \<and> w \<le> 767 \<or> q = tablet_query \<and> 768 \<le> w \<and> w \<le> 1023 \<or> q = desktop_query \<and> 1024 \<le> w"

lemma queries_differ [simp]: "mobile_query \<noteq> tablet_query" "mobile_query \<noteq> desktop_query" "tablet_query \<noteq> desktop_query"
  "tablet_query \<noteq> mobile_query" "desktop_query \<noteq> mobile_query" "desktop_query \<noteq> tablet_query"
  by (simp_all add: mobile_query_def tablet_query_def desktop_query_def)

fun media_resizes :: "('v \<Rightarrow> string \<Rightarrow> bool) \<Rightarrow> 'v \<Rightarrow> 'v list \<Rightarrow> media \<Rightarrow> media" where
  "media_resizes mm env [] m = m"
| "media_resizes mm env (env' # envs) m = media_resizes mm env' envs (media_change mm env env' m)"

lemma media_follows:
  "mq_matches m = mm env (mq_query m) \<Longrightarrow>
     mq_query (media_resizes mm env envs m) = mq_query m \<and>
     mq_matches (media_resizes mm env envs m) = mm (last (env # envs)) (mq_query m)"
  by (induction envs arbitrary: env m) (auto simp: media_change_def)

text \<open>
  A media query keeps up with the window: after any changes of its width the hooks for mobile, tablet and
  desktop sizes say what holds at the last width. At a whole number of pixels exactly one of them says yes;
  between 767 and 768 pixels, and between 1023 and 1024, none does.
\<close>

theorem screen_sizes:
  "let size = \<lambda>q. mq_matches (media_resizes css_width w0 ws (media_mount css_width w0 q)); w = last (w0 # ws) in
     (size mobile_query \<longleftrightarrow> w \<le> 767) \<and> (size tablet_query \<longleftrightarrow> 768 \<le> w \<and> w \<le> 1023) \<and>
     (size desktop_query \<longleftrightarrow> 1024 \<le> w) \<and>
     {q \<in> {mobile_query, tablet_query, desktop_query}. size q} =
       (if w \<le> 767 then {mobile_query} else if w < 768 then {} else if w \<le> 1023 then {tablet_query}
        else if w < 1024 then {} else {desktop_query})"
proof -
  have "mq_matches (media_resizes css_width w0 ws (media_mount css_width w0 q)) = css_width (last (w0 # ws)) q" for q
    using media_follows [of "media_mount css_width w0 q" css_width w0 ws] by (simp add: media_mount_def)
  then show ?thesis unfolding Let_def by (auto simp: css_width_def)
qed

text \<open>A new query is subscribed to but not read: the old answer stays until the new query changes.\<close>

lemma new_query_is_not_read: "mq_matches (media_render q m) = mq_matches m"
  by (simp add: media_render_def)

section \<open>Shortened texts\<close>

lemma truncate_facts:
  "length (truncate_text s n) \<le> n + 3" "length s \<le> n \<Longrightarrow> truncate_text s n = s" "take n (truncate_text s n) = take n s"
  by (auto simp: truncate_text_def)

text \<open>Amounts and times in the format of the host's \<open>Intl\<close>, which are its arguments.\<close>

definition formatCurrency :: "(string \<Rightarrow> string \<Rightarrow> rat \<Rightarrow> string) \<Rightarrow> rat \<Rightarrow> string option \<Rightarrow> string" where
  "formatCurrency number_format n currency =
     number_format ''en-US'' (case currency of None \<Rightarrow> ''USD'' | Some c \<Rightarrow> c) n"

definition formatDateTime :: "(string \<Rightarrow> string) \<Rightarrow> string \<Rightarrow> string" where
  "formatDateTime us_date_time d = us_date_time d"

end
