(* ===== verification/LiveEvents.thy ===== *)
theory LiveEvents
  imports Layout Toast
begin

text \<open>
  The life of the stream of server events in the layout (\<open>components/layouts/AppLayout.tsx\<close>): it is
  opened when the layout is mounted with a session stored, closed when it is unmounted, and what it
  delivers in between is told through the toasts. The callbacks of the toasts have the same
  identity in every rendering, so that the effect runs once for a mount.
\<close>

section \<open>The stream over the toasts\<close>

record live_layout =
  lv_stream :: "string option"
  lv_toasts :: toast_state

datatype live_event =
    LiveMount storage
  | LiveMessage int string string
  | LiveToast "int \<times> toast_event"
  | LiveUnmount

definition live_initial :: live_layout where
  "live_initial = \<lparr>lv_stream = None, lv_toasts = toast_initial\<rparr>"

text \<open>A message comes with its time, the identifier a new toast would get, and its text.\<close>

definition live_message :: "int \<Rightarrow> string \<Rightarrow> string \<Rightarrow> toast_state \<Rightarrow> toast_state" where
  "live_message now i t s =
     (case released_note t of None \<Rightarrow> s | Some (m, v) \<Rightarrow> toast_step s (now, AddToast i m v))"

fun live_step :: "live_layout \<Rightarrow> live_event \<Rightarrow> live_layout" where
  "live_step s (LiveMount st) = s\<lparr>lv_stream := stream_url st\<rparr>"
| "live_step s (LiveMessage now i t) =
     (if lv_stream s = None then s else s\<lparr>lv_toasts := live_message now i t (lv_toasts s)\<rparr>)"
| "live_step s (LiveToast e) = s\<lparr>lv_toasts := toast_step (lv_toasts s) e\<rparr>"
| "live_step s LiveUnmount = s\<lparr>lv_stream := None\<rparr>"

section \<open>What the user is told\<close>

text \<open>
  The events the toasts see of those of the layout, starting with the stream open or not, and the
  number of messages among them that can be read and of notifications of other parts.
\<close>

definition as_toast :: "int \<Rightarrow> string \<Rightarrow> string \<Rightarrow> (int \<times> toast_event) list" where
  "as_toast now i t = (case released_note t of None \<Rightarrow> [] | Some (m, v) \<Rightarrow> [(now, AddToast i m v)])"

fun toast_events :: "bool \<Rightarrow> live_event list \<Rightarrow> (int \<times> toast_event) list" where
  "toast_events opened [] = []"
| "toast_events opened (LiveMount st # es) = toast_events (stream_url st \<noteq> None) es"
| "toast_events opened (LiveMessage now i t # es) = (if opened then as_toast now i t else []) @ toast_events opened es"
| "toast_events opened (LiveToast e # es) = e # toast_events opened es"
| "toast_events opened (LiveUnmount # es) = toast_events False es"

fun releases_read :: "bool \<Rightarrow> live_event list \<Rightarrow> nat" where
  "releases_read opened [] = 0"
| "releases_read opened (LiveMount st # es) = releases_read (truthy_text (get_item st ''auth_token'')) es"
| "releases_read opened (LiveMessage now i t # es) =
     (if opened \<and> released_note t \<noteq> None then 1 else 0) + releases_read opened es"
| "releases_read opened (LiveToast e # es) = (if is_add e then 1 else 0) + releases_read opened es"
| "releases_read opened (LiveUnmount # es) = releases_read False es"

lemma live_refines_toasts:
  "lv_toasts (foldl live_step s es) = foldl toast_step (lv_toasts s) (toast_events (lv_stream s \<noteq> None) es)"
proof (induction es arbitrary: s)
  case (Cons e es)
  show ?case
    by (cases e) (simp_all add: Cons.IH live_message_def as_toast_def split: option.splits)
qed simp

lemma stream_opens: "stream_url st \<noteq> None \<longleftrightarrow> truthy_text (get_item st ''auth_token'')"
  by (simp add: stream_url_def Let_def)

lemma adds_are_releases: "length (filter is_add (toast_events opened es)) = releases_read opened es"
proof (induction es arbitrary: opened)
  case (Cons e es)
  show ?case
    by (cases e) (simp_all only: toast_events.simps releases_read.simps stream_opens,
        simp_all add: Cons.IH as_toast_def split: option.splits)
qed simp

text \<open>
  C40. What the stream delivers is counted: over any events of the layout with fresh identifiers, at most fifty
  notifications and no clearing of the history, the notifications shown or kept are exactly those of other
  parts and the releases that arrived, with a text that can be read, between a mount with a session stored
  and the next unmount. A message after the unmount changes nothing.
\<close>

theorem releases_are_notified:
  assumes "toast.admissible toast_initial (toast_events False es)"
    and "\<forall>e \<in> set (toast_events False es). snd e \<noteq> ClearHistory" and "releases_read False es \<le> 50"
  shows "notified (lv_toasts (foldl live_step live_initial es)) = releases_read False es \<and>
    foldl live_step (live_step s LiveUnmount) (map (\<lambda>(now, i, t). LiveMessage now i t) late) = live_step s LiveUnmount"
proof
  have "notified (foldl toast_step toast_initial (toast_events False es)) = length (filter is_add (toast_events False es))"
    using run_counts [OF toast_inv_initial assms(1,2)] assms(3) adds_are_releases [of False es]
    by (simp add: room_def notified_def toast_initial_def MAX_HISTORY_def)
  then show "notified (lv_toasts (foldl live_step live_initial es)) = releases_read False es"
    by (simp add: live_refines_toasts live_initial_def adds_are_releases)
  have "lv_stream u = None \<Longrightarrow> foldl live_step u (map (\<lambda>(now, i, t). LiveMessage now i t) late) = u" for u
    by (induction late) auto
  then show "foldl live_step (live_step s LiveUnmount) (map (\<lambda>(now, i, t). LiveMessage now i t) late) = live_step s LiveUnmount"
    by simp
qed

definition live_session :: "live_event list" where
  "live_session =
     [LiveMessage 0 ''a'' ''{}'', LiveMount (Map.empty(''auth_token'' \<mapsto> ''t'')), LiveMessage 1 ''b'' ''{}'',
      LiveMessage 2 ''c'' ''x'', LiveUnmount, LiveMessage 3 ''d'' ''{}'']"

lemma live_session_notes:
  "released_note ''{}'' = Some (''Scheduled message  picked up for delivery'', TInfo)" "released_note ''x'' = None"
  by code_simp+

lemma live_session_events:
  "toast_events False live_session = [(1, AddToast ''b'' ''Scheduled message  picked up for delivery'' TInfo)]"
proof -
  have "stream_url (Map.empty(''auth_token'' \<mapsto> ''t'')) \<noteq> None" by (simp only: stream_opens) (simp add: get_item_def)
  then show ?thesis by (auto simp: live_session_def as_toast_def live_session_notes)
qed

theorem releases_are_notified_witness:
  "notified (lv_toasts (foldl live_step live_initial live_session)) = 1"
proof -
  have adm: "toast.admissible toast_initial (toast_events False live_session)"
    by (simp add: live_session_events new_id_def toast_initial_def)
  have "releases_read False live_session = 1"
    by (simp add: adds_are_releases [symmetric] live_session_events)
  then show ?thesis
    using releases_are_notified [OF adm, of live_initial "[]"] by (simp add: live_session_events)
qed

end
