(* ===== verification/Spec2Isabelle.thy ===== *)
theory Spec2Isabelle
  imports
    ServiceContracts ServiceTypes Router Toast Pagination UiStore Sidebar SignIn Messaging
    SettingsProofs Templates Smishing Webhooks MemberWebhooks Layout Users Reviews Accounts Pricing
    ContactSales Plans AiConfig FirebaseConfig Releases BIDashboard Analytics Devices
    MemberPlans Operations MemberPages MemberTemplates Landing ShellParts
    LiveEvents
begin

text \<open>
  A model of the web front end of the SMS gateway (\<open>src/frontend/src\<close>, React and TypeScript)
  with the theorems that make it correct.

  The program. The front end is a single page application. \<open>app/providers.tsx\<close> hydrates the
  authentication store from the session storage and renders the routes of \<open>app/router.tsx\<close>;
  the guards in front of the pages read that store. Pages call the service functions of
  \<open>services/auth.ts\<close> and \<open>services/dashboard.ts\<close>, which send requests through the axios
  instance of \<open>services/api.ts\<close> to the Go back end. Pages are built from the components of
  \<open>components/ui\<close>, keep local state in hooks and tell the user about outcomes through the toasts.

  How it is modelled. A JavaScript value is a \<open>jsval\<close>, with \<open>undefined\<close> apart from \<open>null\<close>; an
  exception is a \<open>js_error\<close> in the left summand of a result. A store or a component is a record
  of its state; every callback of it is one definition, taking the state (and the storages it
  touches) and returning the new one, and a step function \<open>state \<Rightarrow> event \<Rightarrow> state\<close> composes
  them, one event per thing the user, a timer or a settling request can do. A promise in
  flight is an entry of a list in the state, so that any interleaving of settling requests with
  further clicks is a sequence of events. What a component renders is a tree of \<open>vnode\<close>, from
  which the events it offers the user are read off (\<open>list_fire\<close>): a disabled button or a form
  whose required input is empty offers nothing. Texts are Isabelle strings; class names,
  icons and animations are left out. Typographic characters are written in ASCII, on the public
  pages by their bytes in UTF-8.

  The theories, in the order they build on each other:
    \<^item> \<open>Prelude\<close>: strings, numerals, trimming and the locale \<open>machine\<close> (an invariant kept by a
      step carries over to every run), which every component with events interprets.
    \<^item> \<open>JsValue\<close>, \<open>Json\<close>, \<open>Storage\<close>: the values, truthiness and property access; the text of
      \<open>JSON.stringify\<close> and the parser of \<open>JSON.parse\<close> with their round trip (\<open>parse_fuel\<close> is
      two per character and two more, enough because every two nested calls consume a
      character); the web storages as maps, with their laws as the locale \<open>web_storage\<close>.
    \<^item> \<open>AuthStore\<close> (\<open>store/authStore.ts\<close>): its actions, its invariant, logout and reload.
    \<^item> \<open>Types\<close> (\<open>types/api.ts\<close>, \<open>types/models.ts\<close> and the types of the services): the declared shapes.
    \<^item> \<open>ApiClient\<close> (\<open>services/api.ts\<close>): the interceptors, a request through them, and the locale
      \<open>envelope\<close> of the response bodies the services unpack.
    \<^item> \<open>AuthService\<close>, \<open>DashboardService\<close>: every service function, as a request and a handler.
    \<^item> \<open>ServiceTypes\<close>: every service keeps its declared type. \<open>ServiceContracts\<close>: every service
      has a route in the tables of the back end (\<open>backend/internal/api/router.go\<close> and the
      handlers' tables), and what its middleware admits.
    \<^item> \<open>Router\<close> (\<open>app/router.tsx\<close>, \<open>app/guards.tsx\<close>): the route tree, the guards and what a
      navigation ends in. Matching a location is a parameter with the laws of the locale
      \<open>route_matcher\<close>, interpreted on a search through the model's own route table. \<open>resolve\<close>
      takes the number of redirects to follow as fuel; four are always enough.
    \<^item> \<open>UiKit\<close> (\<open>components/ui\<close>): rendered trees, buttons, inputs, cards, skeletons, modals and
      dialogs; \<open>Forms\<close>: the form controls the pages share; \<open>Toast\<close>, \<open>Pagination\<close> (\<open>DataTable.tsx\<close>,
      \<open>usePagination.ts\<close>), \<open>UiStore\<close> (\<open>uiStore.ts\<close>, \<open>filterStore.ts\<close>), \<open>Sidebar\<close>, \<open>Clock\<close> (the
      ages of dates, which the code computes in three places).
    \<^item> \<open>SignIn\<close> (\<open>LoginPage.tsx\<close>, \<open>RegisterPage.tsx\<close>), \<open>Messaging\<close> (\<open>SendSmsPage.tsx\<close>,
      \<open>BulkSmsPage.tsx\<close>, \<open>VoiceInput.tsx\<close>).
    \<^item> \<open>Settings\<close> and \<open>SettingsProofs\<close> (\<open>SettingsPage.tsx\<close>): seven sections, each a machine with its
      requests in flight, and the page as their product.
    \<^item> \<open>Selection\<close>: sets of identifiers and the locale \<open>toggling\<close>; \<open>ListPage\<close>: the queries,
      pagers and notifications of the pages that list things, and the locale \<open>bulk_action\<close>, the
      contract of an action on the selected items, interpreted five times; \<open>Filters\<close>
      (\<open>FilterPanel.tsx\<close>).
    \<^item> \<open>Templates\<close> (\<open>TemplatesPage.tsx\<close>), \<open>Smishing\<close> (\<open>SmishingFlagsPage.tsx\<close>): pages of items to
      decide on. A filter by date depends on the time zone, which is a record \<open>zone\<close>: how the host
      reads a date text, and the constant offset of local time.
    \<^item> \<open>WebhookParts\<close>: what the two webhook pages share (secrets, delivery logs, tests, the guide
      of \<open>WebhookVerificationDocs.tsx\<close>), \<open>Webhooks\<close> (\<open>WebhooksPage.tsx\<close>), \<open>MemberWebhooks\<close>
      (\<open>MemberWebhooksPage.tsx\<close>).
    \<^item> \<open>Layout\<close> (\<open>Header.tsx\<close>, \<open>AppLayout.tsx\<close>): the shell of the protected pages, signing out,
      the bell of past notifications and the address of the stream of server events; \<open>LiveEvents\<close>: the life
      of that stream over the machine of \<open>Toast\<close>, which it refines.
    \<^item> \<open>Debounce\<close> (\<open>useDebounce.ts\<close>) and \<open>Users\<close> (\<open>UsersPage.tsx\<close>): a page that loads its list in an
      effect and keeps the callback of an earlier rendering in its handlers.
    \<^item> \<open>PageParts\<close>: what the simpler pages share (headings, banners, pagers, keyed queries and
      mutations with their two callbacks); \<open>Uri\<close>: \<open>encodeURIComponent\<close> and its inverse.
    \<^item> \<open>Reviews\<close> (\<open>KycReviewPage.tsx\<close>, \<open>AdminSubscriptionsPage.tsx\<close>): two desks under the locale
      \<open>review_desk\<close>, the contract of deciding on an item; \<open>Accounts\<close> (\<open>AccountsPage.tsx\<close>): the rows
      follow the controls because the query is keyed by them, unlike the list of \<open>Users\<close>.
    \<^item> \<open>Catalog\<close> (\<open>FeatureCatalogPage.tsx\<close>): grouping, and the query it shares with \<open>Plans\<close>
      (\<open>PlansPage.tsx\<close>), where \<open>Number\<close> of a text is a parameter \<open>num\<close> of the host.
    \<^item> \<open>Pricing\<close> (\<open>landing/components/Pricing.tsx\<close>): the plans of the API or the built-in ones
      (amounts are rationals), the generated features and their comparison; \<open>ContactSales\<close>
      (\<open>landing/pages/ContactSalesPage.tsx\<close>): the inquiry and the mail that follows it.
    \<^item> \<open>AiConfig\<close> (\<open>AIConfigPage.tsx\<close>): providers and the change requests about them, printed as
      indented JSON; \<open>FirebaseConfig\<close> (\<open>FirebaseConfigPage.tsx\<close>): edits over loaded entries, and the
      request that saves them; \<open>Releases\<close> (\<open>AppReleasesPage.tsx\<close>): the life of a release, \<open>parseInt\<close>,
      sizes in units of 1024 (the logarithm of the source is an exact one here), and uploads.
    \<^item> \<open>Figures\<close> (\<open>utils/format.ts\<close>): abbreviated numbers and shares, over rationals where the code
      has floating point; \<open>Analytics\<close> (\<open>AnalyticsPage.tsx\<close>, \<open>DashboardPage.tsx\<close>, \<open>MessageChart.tsx\<close>)
      and \<open>BIDashboard\<close> (\<open>BIDashboardPage.tsx\<close>): totals, rates, charts and the forecast, a linear
      regression shown to be the line of least squares.
    \<^item> \<open>Devices\<close> (\<open>MemberDevicesPage.tsx\<close>, \<open>AddDeviceQRModal.tsx\<close>): the devices of a member, and the
      pairing code with its countdown, whose ticks are events.
    \<^item> \<open>MemberPlans\<close> (\<open>MemberUpgradePage.tsx\<close>, \<open>MemberPaymentRequestsPage.tsx\<close>,
      \<open>MemberSubscriptionRequestsPage.tsx\<close>), \<open>MemberPages\<close> (\<open>MemberDashboardPage.tsx\<close>,
      \<open>MemberAnalyticsPage.tsx\<close>, \<open>MemberMessagesPage.tsx\<close>) and \<open>MemberTemplates\<close>
      (\<open>MemberTemplatesPage.tsx\<close>, compared with \<open>Templates\<close>): the rest of the pages of a member.
    \<^item> \<open>Operations\<close>: the pages of operators (\<open>FraudFlagsPage.tsx\<close>, \<open>DeadLettersPage.tsx\<close>,
      \<open>CircuitBreakersPage.tsx\<close>, \<open>BillingPage.tsx\<close>, \<open>BillingSettingsPage.tsx\<close>). The retries of dead letters
      are numbered, because what their buttons show depends on the last one started.
    \<^item> \<open>Seo\<close> (\<open>useSEO.ts\<close>): the head of the document before, during and after a page that fills it;
      \<open>LandingParts\<close> (\<open>useScrollReveal.ts\<close>, \<open>FAQ.tsx\<close>, \<open>CookieConsent.tsx\<close>,
      \<open>FloatingNotifications.tsx\<close>, \<open>ScrollToTop.tsx\<close>): counters over the times of frames, and timers as
      a step relation in which those due at one time run in any order; \<open>Landing\<close>
      (\<open>LandingPage.tsx\<close>, \<open>constants/data.ts\<close> and the sections): the page and where its links lead.
    \<^item> \<open>ShellParts\<close> (\<open>ErrorBoundary.tsx\<close>, \<open>Drawer.tsx\<close>, \<open>useMediaQuery.ts\<close>, \<open>NotFoundPage.tsx\<close>): what
      surrounds the pages; the effects of dialogs run as React runs them, all cleanups of a render first.
  This theory states what holds of several pages at once.

  Not modelled. The Go back end apart from its route tables and the decision of its
  authentication middleware; the Kotlin application; the parameters of animations and the decorative
  elements (\<open>animations/variants.ts\<close>, \<open>OnboardingBackground.tsx\<close>, \<open>PageTransition.tsx\<close>), class names and
  icons, which keep no state; the third party
  libraries (react, react-router, axios, zustand, react-query), of which only the documented
  behaviour the code relies on is used.
\<close>

section \<open>The actions on a selection\<close>

text \<open>
  C19. Every action on a selection keeps the contract of \<open>bulk_action\<close>: on the pages of templates
  (deletion, approval, rejection), of flags (review) and of webhooks (deletion), confirming one while
  none is in flight sends exactly the selected ids; when it succeeds the selection is empty; when
  it fails the selection is as it was, so that confirming again sends the same ids.
\<close>

theorem bulk_actions_keep_their_contract:
  "(calls_of bulk_deletes (tp_calls p) = [] \<longrightarrow>
      (let q = templates_step p Templates.ConfirmBulkDelete; c = Templates.BulkDelete (tp_selected p)
       in calls_of bulk_deletes (tp_calls q) = [tp_selected p] \<and> tp_selected (template_settles c (Inr d) q) = []
        \<and> tp_selected (template_settles c (Inl e) q) = tp_selected p
        \<and> calls_of bulk_deletes (tp_calls (templates_step (template_settles c (Inl e) q) Templates.ConfirmBulkDelete)) = [tp_selected p]))
    \<and> (calls_of bulk_approves (tp_calls p) = [] \<longrightarrow>
      (let q = templates_step p ConfirmBulkApprove; c = BulkApprove (tp_selected p)
       in calls_of bulk_approves (tp_calls q) = [tp_selected p] \<and> tp_selected (template_settles c (Inr d) q) = []
        \<and> tp_selected (template_settles c (Inl e) q) = tp_selected p
        \<and> calls_of bulk_approves (tp_calls (templates_step (template_settles c (Inl e) q) ConfirmBulkApprove)) = [tp_selected p]))
    \<and> (calls_of bulk_rejects (tp_calls p) = [] \<longrightarrow>
      (let q = templates_step p ConfirmBulkReject; c = BulkReject (tp_selected p)
       in calls_of bulk_rejects (tp_calls q) = [tp_selected p] \<and> tp_selected (template_settles c (Inr d) q) = []
        \<and> tp_selected (template_settles c (Inl e) q) = tp_selected p
        \<and> calls_of bulk_rejects (tp_calls (templates_step (template_settles c (Inl e) q) ConfirmBulkReject)) = [tp_selected p]))
    \<and> (calls_of bulk_reviews (sm_calls f) = [] \<longrightarrow>
      (let g = smishing_step z f ConfirmBulkReview; c = BulkReview (sm_selected f)
       in calls_of bulk_reviews (sm_calls g) = [sm_selected f] \<and> sm_selected (review_settles z c (Inr d) g) = []
        \<and> sm_selected (review_settles z c (Inl e) g) = sm_selected f
        \<and> calls_of bulk_reviews (sm_calls (smishing_step z (review_settles z c (Inl e) g) ConfirmBulkReview)) = [sm_selected f]))
    \<and> (calls_of wp_bulk_deletes (wp_calls w) = [] \<longrightarrow>
      (let v = webhooks_step w Webhooks.ConfirmBulkDelete; c = Webhooks.BulkDelete (wp_selected w)
       in calls_of wp_bulk_deletes (wp_calls v) = [wp_selected w] \<and> wp_selected (webhook_settles c (Inr d) v) = []
        \<and> wp_selected (webhook_settles c (Inl e) v) = wp_selected w
        \<and> calls_of wp_bulk_deletes (wp_calls (webhooks_step (webhook_settles c (Inl e) v) Webhooks.ConfirmBulkDelete)) = [wp_selected w]))"
  using deleting.round [of p d e] approving.round [of p d e] rejecting.round [of p d e] reviewing.round [of f z d e]
    deleting_webhooks.round [of w d e]
  unfolding Let_def by blast

theorem bulk_actions_keep_their_contract_witness:
  "let w = foldl webhooks_step webhooks_initial (take 3 deleting_session)
   in calls_of wp_bulk_deletes (wp_calls (webhooks_step w Webhooks.ConfirmBulkDelete)) = [wp_selected w]"
proof -
  have "calls_of wp_bulk_deletes (wp_calls (foldl webhooks_step webhooks_initial (take 3 deleting_session))) = []"
    by (simp add: webhooks_eval)
  with bulk_actions_keep_their_contract show ?thesis unfolding Let_def by blast
qed

end
